(* ===== verification/Prelude.thy ===== *)
theory Prelude
  imports Main "HOL-Library.Word"
begin

text \<open>
  The prelude of the development: the fixed-width integer types of the C sources, the
  convention for code outside the repository (a library call is answered by an oracle that
  sees the whole history of calls), the sequencing of calls that return early on a negative
  error code, a generic account of transition systems with an inductive invariant, and the
  lemmas on lists and words that several components share.
\<close>

unbundle bit_operations_syntax

named_theorems call_simps \<open>unfolding of library calls and of error-code sequencing\<close>
named_theorems state_simps \<open>frame facts: which fields an operation leaves alone\<close>

type_synonym u8 = "8 word"
type_synonym u16 = "16 word"
type_synonym u32 = "32 word"
type_synonym u64 = "64 word"
type_synonym s16 = "16 word"

section \<open>Error numbers of the C library\<close>

text \<open>The \<^verbatim>\<open>errno\<close> values of Linux the sources compare against.\<close>

definition EPERM :: int where "EPERM = 1"
definition ENOENT :: int where "ENOENT = 2"
definition EINTR :: int where "EINTR = 4"
definition EIO :: int where "EIO = 5"
definition EAGAIN :: int where "EAGAIN = 11"
definition EACCES :: int where "EACCES = 13"
definition EBUSY :: int where "EBUSY = 16"
definition ENODEV :: int where "ENODEV = 19"
definition EINVAL :: int where "EINVAL = 22"
definition EPIPE :: int where "EPIPE = 32"
definition ERANGE :: int where "ERANGE = 34"
definition ENOLCK :: int where "ENOLCK = 37"
definition ENOLINK :: int where "ENOLINK = 67"
definition ESTRPIPE :: int where "ESTRPIPE = 86"

lemmas errno_defs = EPERM_def ENOENT_def EINTR_def EIO_def EAGAIN_def EACCES_def EBUSY_def
  ENODEV_def EINVAL_def EPIPE_def ERANGE_def ENOLCK_def ENOLINK_def ESTRPIPE_def

section \<open>Sequencing calls that return early on an error\<close>

text \<open>
  \<open>err_seq f g\<close> is the idiom \<^verbatim>\<open>err = f(); if (err < 0) return err; ... g ...\<close>: the rest
  \<open>g\<close> runs only when \<open>f\<close> did not return a negative code.
\<close>

definition err_seq :: "('s \<Rightarrow> int \<times> 's) \<Rightarrow> ('s \<Rightarrow> int \<times> 's) \<Rightarrow> 's \<Rightarrow> int \<times> 's" where
  "err_seq f g s = (case f s of (e, s') \<Rightarrow> if e < 0 then (e, s') else g s')"

lemma err_seq_ok [call_simps]: "f s = (e, s') \<Longrightarrow> 0 \<le> e \<Longrightarrow> err_seq f g s = g s'"
  by (simp add: err_seq_def)

lemma err_seq_err [call_simps]: "f s = (e, s') \<Longrightarrow> e < 0 \<Longrightarrow> err_seq f g s = (e, s')"
  by (simp add: err_seq_def)

text \<open>A relation between states that both halves keep is kept by the sequence.\<close>

lemma err_seq_rel:
  assumes "\<And>s. R s (snd (f s))" and "\<And>s. R s (snd (g s))" and "\<And>x y z. R x y \<Longrightarrow> R y z \<Longrightarrow> R x z"
  shows "R s (snd (err_seq f g s))"
proof -
  obtain e t where f: "f s = (e, t)" by fastforce
  have "R s t" using assms(1) [of s] by (simp add: f)
  from this assms(3) [OF this assms(2)] show ?thesis by (simp add: err_seq_def f)
qed

section \<open>Transition systems with an inductive invariant\<close>

inductive reach :: "('s \<Rightarrow> bool) \<Rightarrow> ('s \<Rightarrow> 's \<Rightarrow> bool) \<Rightarrow> 's \<Rightarrow> bool"
  for start :: "'s \<Rightarrow> bool" and step :: "'s \<Rightarrow> 's \<Rightarrow> bool" where
  reach_start: "start s \<Longrightarrow> reach start step s"
| reach_step: "reach start step s \<Longrightarrow> step s t \<Longrightarrow> reach start step t"

locale invariant_system =
  fixes start :: "'s \<Rightarrow> bool" and step :: "'s \<Rightarrow> 's \<Rightarrow> bool" and inv :: "'s \<Rightarrow> bool"
  assumes inv_start: "start s \<Longrightarrow> inv s"
    and inv_step: "inv s \<Longrightarrow> step s t \<Longrightarrow> inv t"
begin

lemma inv_reach: "reach start step s \<Longrightarrow> inv s"
  by (induction rule: reach.induct) (auto intro: inv_start inv_step)

lemma inv_steps: "inv s \<Longrightarrow> step\<^sup>*\<^sup>* s t \<Longrightarrow> inv t"
  by (rotate_tac, induction rule: rtranclp_induct) (auto intro: inv_step)

end

lemma reach_steps: "step\<^sup>*\<^sup>* s t \<Longrightarrow> reach start step s \<Longrightarrow> reach start step t"
  by (induction rule: rtranclp_induct) (auto intro: reach_step)

section \<open>Lists\<close>

lemma nth_append_replicate:
  "i < n \<Longrightarrow> (replicate n x @ ys) ! i = x"
  by (simp add: nth_append)

section \<open>Words\<close>

lemma unat_plus_one: "x < y \<Longrightarrow> unat (x + 1) = unat x + 1" for x y :: "'a::len word"
proof -
  assume "x < y"
  then have "unat x < unat y" by (simp add: word_less_nat_alt)
  also have "unat y < 2 ^ LENGTH('a)" by (rule unsigned_less)
  finally have "Suc (unat x) < 2 ^ LENGTH('a)" using \<open>unat x < unat y\<close> unsigned_less [of y, where ?'a = nat] by linarith
  then show ?thesis by (simp add: unat_word_ariths)
qed

lemma unat_add_small: "unat (i::u32) + n < 2 ^ 32 \<Longrightarrow> unat (i + of_nat n) = unat i + n"
  by (simp add: unat_word_ariths unat_of_nat)

lemma unat_and_not_15: "unat (samples AND NOT 15 :: u32) = 16 * (unat samples div 16)"
proof -
  have m: "(15 :: u32) = mask 4" by (simp add: mask_eq_exp_minus_1)
  have "samples AND NOT 15 = push_bit 4 (drop_bit 4 samples)"
    unfolding m by (rule bit_word_eqI) (auto simp: bit_simps)
  moreover have "unat (drop_bit 4 samples) = unat samples div 16"
    by (simp add: drop_bit_eq_div unat_div)
  moreover have "16 * (unat samples div 16) < 2 ^ 32"
    using unsigned_less [of samples, where ?'a = nat] by simp
  ultimately show ?thesis
    by (simp add: push_bit_eq_mult unat_word_ariths mult.commute)
qed

section \<open>Tables\<close>

text \<open>A linear search for a key, the loop every name table of the sources is read with.\<close>

fun find_key :: "('k \<times> 'v) list \<Rightarrow> 'k \<Rightarrow> 'v option" where
  "find_key [] k = None"
| "find_key ((k', v) # t) k = (if k' = k then Some v else find_key t k)"

lemma find_key_map_of: "find_key t k = map_of t k"
  by (induction t k rule: find_key.induct) auto

end
