(* ===== verification/C_Lib.thy ===== *)
theory C_Lib
  imports Prelude
begin

text \<open>
  The functions of the C standard library the sources use, on strings without a NUL
  (\<open>string\<close>) and on character arrays (lists of fixed length that hold a NUL-terminated
  string): conversion of numerals, bounded copies, searching and formatting. The target is
  32-bit ARM Linux, so \<^verbatim>\<open>long\<close> has 32 bits.
\<close>

section \<open>Character arrays\<close>

definition NUL :: char where "NUL = CHR 0x00"

text \<open>The string an array holds: everything before the first NUL.\<close>

definition cstr :: "char list \<Rightarrow> string" where
  "cstr buf = takeWhile (\<lambda>c. c \<noteq> NUL) buf"

definition strnlen :: "string \<Rightarrow> nat \<Rightarrow> nat" where
  "strnlen s n = min (length s) n"

text \<open>
  \<^verbatim>\<open>strncpy(dst, src, n)\<close>: exactly \<open>n\<close> characters are written, the source padded with NUL; no
  terminator is added when the source has \<open>n\<close> characters or more.
\<close>

definition strncpy :: "char list \<Rightarrow> string \<Rightarrow> nat \<Rightarrow> char list" where
  "strncpy dst src n = take n (src @ replicate n NUL) @ drop n dst"

lemma length_strncpy [simp]: "n \<le> length dst \<Longrightarrow> length (strncpy dst src n) = length dst"
  by (simp add: strncpy_def)

lemma cstr_no_NUL [simp]: "NUL \<notin> set (cstr buf)"
  by (auto simp: cstr_def dest: set_takeWhileD)

lemma cstr_append_NUL: "NUL \<notin> set s \<Longrightarrow> cstr (s @ NUL # t) = s"
  by (induction s) (auto simp: cstr_def)

lemma cstr_update:
  assumes "i < length buf"
  shows "cstr (buf[i := NUL]) = take i (cstr buf)"
  using assms
proof (induction buf arbitrary: i)
  case (Cons c buf)
  then show ?case by (cases i) (auto simp: cstr_def)
qed simp

lemma cstr_strncpy:
  assumes "NUL \<notin> set src"
  shows "cstr (strncpy dst src n) = (if length src < n then src else take n src @ cstr (drop n dst))"
proof (cases "length src < n")
  case True
  then have "strncpy dst src n = src @ NUL # (replicate (n - length src - 1) NUL @ drop n dst)"
    by (simp add: strncpy_def flip: replicate_Suc)
  with True assms show ?thesis by (simp add: cstr_append_NUL)
next
  case False
  then have "strncpy dst src n = take n src @ drop n dst" by (simp add: strncpy_def)
  moreover have "NUL \<notin> set (take n src)" using assms by (meson in_set_takeD)
  moreover have "cstr (xs @ ys) = xs @ cstr ys" if "NUL \<notin> set xs" for xs ys
    using that by (induction xs) (auto simp: cstr_def)
  ultimately show ?thesis using False by simp
qed

section \<open>Numerals: strtol and atoi\<close>

definition isspace :: "char \<Rightarrow> bool" where
  "isspace c \<longleftrightarrow> (let n = of_char c :: nat in n = 32 \<or> (9 \<le> n \<and> n \<le> 13))"

definition digit_val :: "nat \<Rightarrow> char \<Rightarrow> nat option" where
  "digit_val base c =
     (let n = of_char c :: nat;
          v = (if 48 \<le> n \<and> n \<le> 57 then n - 48
               else if 97 \<le> n \<and> n \<le> 122 then n - 87
               else if 65 \<le> n \<and> n \<le> 90 then n - 55 else 36)
      in if v < base then Some v else None)"

fun scan_digits :: "nat \<Rightarrow> nat \<Rightarrow> string \<Rightarrow> nat \<times> string" where
  "scan_digits base acc [] = (acc, [])"
| "scan_digits base acc (c # s) =
     (case digit_val base c of None \<Rightarrow> (acc, c # s)
      | Some d \<Rightarrow> scan_digits base (acc * base + d) s)"

definition LONG_MAX :: int where "LONG_MAX = 2 ^ 31 - 1"
definition LONG_MIN :: int where "LONG_MIN = - (2 ^ 31)"

definition is_digit :: "nat \<Rightarrow> char \<Rightarrow> bool" where
  "is_digit base c \<longleftrightarrow> digit_val base c \<noteq> None"

text \<open>
  \<^verbatim>\<open>strtol(s, &end, base)\<close>: leading white space, one sign, for base 16 an optional \<open>0x\<close> in front
  of a digit, the digits. Without a digit nothing is converted and \<^verbatim>\<open>end\<close> is \<open>s\<close> itself. The
  value saturates at the limits of \<^verbatim>\<open>long\<close>. The result is the value and what \<^verbatim>\<open>end\<close> points to.
\<close>

definition strtol :: "nat \<Rightarrow> string \<Rightarrow> int \<times> string" where
  "strtol base s =
     (let t = dropWhile isspace s;
          neg = (t \<noteq> [] \<and> hd t = CHR ''-'');
          t = (if t \<noteq> [] \<and> (hd t = CHR ''-'' \<or> hd t = CHR ''+'') then tl t else t);
          t = (case t of z # x # d # _ \<Rightarrow>
                 if base = 16 \<and> z = CHR ''0'' \<and> (x = CHR ''x'' \<or> x = CHR ''X'') \<and> is_digit 16 d
                 then drop 2 t else t
               | _ \<Rightarrow> t)
      in if t = [] \<or> \<not> is_digit base (hd t) then (0, s)
         else (case scan_digits base 0 t of (n, r) \<Rightarrow>
                 (max LONG_MIN (min LONG_MAX (if neg then - int n else int n)), r)))"

definition atoi :: "string \<Rightarrow> int" where
  "atoi s = fst (strtol 10 s)"

lemma strtol_range: "LONG_MIN \<le> fst (strtol base s) \<and> fst (strtol base s) \<le> LONG_MAX"
  by (auto simp: strtol_def Let_def LONG_MIN_def LONG_MAX_def split: prod.split)

section \<open>Formatting\<close>

definition hex_digit :: "nat \<Rightarrow> char" where
  "hex_digit d = (if d < 10 then char_of (48 + d) else char_of (87 + d))"

text \<open>\<^verbatim>\<open>%02x\<close> of a byte: two lower-case hexadecimal digits.\<close>

definition fmt_02x :: "u8 \<Rightarrow> string" where
  "fmt_02x b = [hex_digit (unat b div 16), hex_digit (unat b mod 16)]"

fun fmt_nat :: "nat \<Rightarrow> string" where
  "fmt_nat n = (if n < 10 then [char_of (48 + n)] else fmt_nat (n div 10) @ [char_of (48 + n mod 10)])"

declare fmt_nat.simps [simp del]

text \<open>\<^verbatim>\<open>%d\<close> of an int.\<close>

definition fmt_d :: "int \<Rightarrow> string" where
  "fmt_d n = (if n < 0 then CHR ''-'' # fmt_nat (nat (- n)) else fmt_nat (nat n))"

lemma digit_val_hex_digit: "d < 16 \<Longrightarrow> digit_val 16 (hex_digit d) = Some d"
  by (auto simp: digit_val_def hex_digit_def Let_def of_char_of)

lemma hex_digit_not_special:
  assumes "d < 16"
  shows "\<not> isspace (hex_digit d)" and "hex_digit d \<noteq> CHR ''-''" and "hex_digit d \<noteq> CHR ''+''"
    and "hex_digit d \<noteq> CHR ''x''" and "hex_digit d \<noteq> CHR ''X''" and "hex_digit d \<noteq> NUL"
proof -
  have n: "of_char (hex_digit d) = (if d < 10 then 48 + d else 87 + d)"
    using assms by (simp add: hex_digit_def of_char_of)
  show "\<not> isspace (hex_digit d)" using n assms by (auto simp: isspace_def Let_def split: if_splits)
  have "of_char c = (of_char (hex_digit d) :: nat)" if "hex_digit d = c" for c using that by simp
  then show "hex_digit d \<noteq> CHR ''-''" "hex_digit d \<noteq> CHR ''+''" "hex_digit d \<noteq> CHR ''x''"
    "hex_digit d \<noteq> CHR ''X''" "hex_digit d \<noteq> NUL"
    using n assms by (force simp: NUL_def split: if_splits)+
qed

text \<open>\<^verbatim>\<open>strtol\<close> reads back the two digits \<^verbatim>\<open>%02x\<close> prints, and consumes both.\<close>

lemma strtol_fmt_02x: "strtol 16 (fmt_02x b) = (int (unat b), [])"
proof -
  have lt: "unat b div 16 < 16" "unat b mod 16 < 16" and b: "unat b < 256"
    using unsigned_less [of b, where ?'a = nat] by auto
  note sp = hex_digit_not_special [OF lt(1)] hex_digit_not_special [OF lt(2)]
  have "unat b div 16 * 16 + unat b mod 16 = unat b" by simp
  moreover have "min 2147483647 (uint b) = uint b"
    using unsigned_less [of b, where ?'a = int] by (simp add: min_def)
  ultimately show ?thesis using b
    by (simp add: strtol_def fmt_02x_def Let_def sp is_digit_def digit_val_hex_digit lt
        LONG_MAX_def LONG_MIN_def)
qed

section \<open>Searching\<close>

definition is_prefix_of :: "string \<Rightarrow> string \<Rightarrow> bool" where
  "is_prefix_of p s \<longleftrightarrow> take (length p) s = p"

text \<open>\<^verbatim>\<open>strstr(hay, needle)\<close>: the offset of the first occurrence.\<close>

fun strstr :: "string \<Rightarrow> string \<Rightarrow> nat option" where
  "strstr [] needle = (if needle = [] then Some 0 else None)"
| "strstr (c # s) needle =
     (if is_prefix_of needle (c # s) then Some 0 else map_option Suc (strstr s needle))"

lemma strstr_Some:
  "strstr s needle = Some i \<Longrightarrow>
     i \<le> length s \<and> is_prefix_of needle (drop i s) \<and> (\<forall>j<i. \<not> is_prefix_of needle (drop j s))"
proof (induction s arbitrary: i)
  case Nil
  then show ?case by (auto simp: is_prefix_of_def split: if_splits)
next
  case (Cons c s)
  then show ?case
    by (auto split: if_splits simp: less_Suc_eq_0_disj)
qed

lemma strstr_None:
  "needle \<noteq> [] \<Longrightarrow> strstr s needle = None \<longleftrightarrow> (\<forall>i. \<not> is_prefix_of needle (drop i s))"
proof (induction s)
  case Nil
  then show ?case by (simp add: is_prefix_of_def)
next
  case (Cons c s)
  show ?case
  proof
    assume n: "strstr (c # s) needle = None"
    then have "\<not> is_prefix_of needle (c # s)" "\<forall>i. \<not> is_prefix_of needle (drop i s)"
      using Cons by (auto split: if_splits)
    then show "\<forall>i. \<not> is_prefix_of needle (drop i (c # s))"
      by (metis drop0 drop_Suc_Cons not0_implies_Suc)
  next
    assume a: "\<forall>i. \<not> is_prefix_of needle (drop i (c # s))"
    then have "\<not> is_prefix_of needle (c # s)" by (metis drop0)
    moreover have "\<forall>i. \<not> is_prefix_of needle (drop i s)" using a by (metis drop_Suc_Cons)
    ultimately show "strstr (c # s) needle = None" using Cons by simp
  qed
qed

end
