(* ===== verification/Audio_Simd.thy ===== *)
theory Audio_Simd
  imports C_Lib "HOL-Library.Monad_Syntax"
begin

text \<open>
  The NEON buffer clear of \<^verbatim>\<open>internal/audio/c/audio.c\<close>. A sample buffer is a list of 16-bit
  words; \<open>base\<close> is the offset of the pointer the function is given. Every store checks the
  bounds of the buffer, and an access outside it is the value \<open>None\<close>, as is a loop that does
  not return.
\<close>

section \<open>Stores\<close>

text \<open>\<^verbatim>\<open>buffer[i] = 0\<close> and \<^verbatim>\<open>vst1q_s16(&buffer[i], zero)\<close>, which stores eight lanes.\<close>

definition store_zero :: "nat \<Rightarrow> s16 list \<Rightarrow> s16 list option" where
  "store_zero i buf = (if i < length buf then Some (buf[i := 0]) else None)"

definition vst1q_zero :: "nat \<Rightarrow> s16 list \<Rightarrow> s16 list option" where
  "vst1q_zero i buf =
     (if i + 8 \<le> length buf then Some (take i buf @ replicate 8 0 @ drop (i + 8) buf) else None)"

section \<open>The loops\<close>

text \<open>\<^verbatim>\<open>for (; i < simd_samples; i += 16)\<close> with its two eight-lane stores, at width 32.\<close>

partial_function (option) simd_loop :: "nat \<Rightarrow> u32 \<Rightarrow> u32 \<Rightarrow> s16 list \<Rightarrow> (u32 \<times> s16 list) option" where
  "simd_loop base simd_samples i buf =
     (if i < simd_samples then
        vst1q_zero (base + unat i) buf \<bind> (\<lambda>buf.
        vst1q_zero (base + unat (i + 8)) buf \<bind> (\<lambda>buf.
        simd_loop base simd_samples (i + 16) buf))
      else Some (i, buf))"

text \<open>\<^verbatim>\<open>for (; i < samples; i++) buffer[i] = 0;\<close>\<close>

partial_function (option) scalar_loop :: "nat \<Rightarrow> u32 \<Rightarrow> u32 \<Rightarrow> s16 list \<Rightarrow> s16 list option" where
  "scalar_loop base samples i buf =
     (if i < samples then
        store_zero (base + unat i) buf \<bind> (\<lambda>buf. scalar_loop base samples (i + 1) buf)
      else Some buf)"

definition simd_clear_samples_s16 :: "nat \<Rightarrow> u32 \<Rightarrow> s16 list \<Rightarrow> s16 list option" where
  "simd_clear_samples_s16 base samples buf =
     (let simd_samples = samples AND NOT 15 in
      simd_loop base simd_samples 0 buf \<bind> (\<lambda>(i, buf).
      (if i + 8 \<le> samples
       then vst1q_zero (base + unat i) buf \<bind> (\<lambda>buf. Some (i + 8, buf))
       else Some (i, buf)) \<bind> (\<lambda>(i, buf).
      scalar_loop base samples i buf)))"

section \<open>The reference: one range of zeros\<close>

definition zero_range :: "nat \<Rightarrow> nat \<Rightarrow> s16 list \<Rightarrow> s16 list" where
  "zero_range a n buf = take a buf @ replicate n 0 @ drop (a + n) buf"

lemma length_zero_range [simp]: "a + n \<le> length buf \<Longrightarrow> length (zero_range a n buf) = length buf"
  by (simp add: zero_range_def)

lemma zero_range_0 [simp]: "zero_range a 0 buf = buf"
  by (simp add: zero_range_def)

lemma zero_range_zero_range:
  assumes "a + n + m \<le> length buf"
  shows "zero_range (a + n) m (zero_range a n buf) = zero_range a (n + m) buf"
proof -
  have "drop (m + (a + n)) buf = drop (a + (n + m)) buf" by (simp add: add_ac)
  then show ?thesis using assms by (simp add: zero_range_def replicate_add add.assoc)
qed

lemma nth_zero_range:
  assumes "a + n \<le> length buf" and "i < length buf"
  shows "zero_range a n buf ! i = (if a \<le> i \<and> i < a + n then 0 else buf ! i)"
  using assms by (auto simp: zero_range_def nth_append min_def)

lemma vst1q_zero_range: "i + 8 \<le> length buf \<Longrightarrow> vst1q_zero i buf = Some (zero_range i 8 buf)"
  by (simp add: vst1q_zero_def zero_range_def)

lemma store_zero_range: "i < length buf \<Longrightarrow> store_zero i buf = Some (zero_range i 1 buf)"
  by (simp add: store_zero_def zero_range_def upd_conv_take_nth_drop)

section \<open>The loops against the reference\<close>

lemma simd_loop_ok:
  assumes "unat simd = unat i + 16 * k" and "base + unat simd \<le> length buf"
  shows "simd_loop base simd i buf = Some (simd, zero_range (base + unat i) (16 * k) buf)"
  using assms
proof (induction k arbitrary: i buf)
  case 0
  then have "i = simd" by (simp add: word_unat_eq_iff)
  then show ?case by (simp add: simd_loop.simps)
next
  case (Suc k)
  have lt: "i < simd" using Suc.prems(1) by (simp add: word_less_nat_alt)
  have b: "unat i + 16 < 2 ^ 32 \<or> unat i + 16 = unat simd"
    using Suc.prems(1) unsigned_less [of simd, where ?'a = nat] by simp
  have i16: "unat (i + 16) = unat i + 16" and i8: "unat (i + 8) = unat i + 8"
    using unat_add_small [of i 16] unat_add_small [of i 8] Suc.prems(1)
      unsigned_less [of simd, where ?'a = nat] by simp_all
  have "simd_loop base simd i buf
        = simd_loop base simd (i + 16) (zero_range (base + unat i) 16 buf)"
    using Suc.prems lt i8
    by (subst simd_loop.simps) (simp add: vst1q_zero_range zero_range_zero_range add.assoc [symmetric])
  also have "\<dots> = Some (simd, zero_range (base + unat i + 16) (16 * k) (zero_range (base + unat i) 16 buf))"
    using Suc.prems by (subst Suc.IH) (simp_all add: i16 add.assoc)
  also have "\<dots> = Some (simd, zero_range (base + unat i) (16 * Suc k) buf)"
    using Suc.prems by (simp add: zero_range_zero_range)
  finally show ?case .
qed

lemma scalar_loop_ok:
  assumes "unat samples = unat i + k" and "base + unat samples \<le> length buf"
  shows "scalar_loop base samples i buf = Some (zero_range (base + unat i) k buf)"
  using assms
proof (induction k arbitrary: i buf)
  case 0
  then have "i = samples" by (simp add: word_unat_eq_iff)
  then show ?case by (simp add: scalar_loop.simps)
next
  case (Suc k)
  have lt: "i < samples" using Suc.prems(1) by (simp add: word_less_nat_alt)
  have i1: "unat (i + 1) = unat i + 1"
    using unat_add_small [of i 1] Suc.prems(1) unsigned_less [of samples, where ?'a = nat] by simp
  have "scalar_loop base samples i buf
        = scalar_loop base samples (i + 1) (zero_range (base + unat i) 1 buf)"
    using Suc.prems lt by (subst scalar_loop.simps) (simp add: store_zero_range)
  also have "\<dots> = Some (zero_range (base + unat i + 1) k (zero_range (base + unat i) 1 buf))"
    using Suc.prems by (subst Suc.IH) (simp_all add: i1 add.assoc)
  also have "\<dots> = Some (zero_range (base + unat i) (Suc k) buf)"
    using Suc.prems zero_range_zero_range [of "base + unat i" 1 k buf] by simp
  finally show ?case .
qed

text \<open>
  The three phases together clear exactly \<open>samples\<close> samples from \<open>base\<close> on, whatever
  \<open>samples\<close> is modulo 16, and \<open>i + 8\<close> does not wrap.
\<close>

lemma simd_clear_ok:
  assumes "base + unat samples \<le> length buf"
  shows "simd_clear_samples_s16 base samples buf = Some (zero_range base (unat samples) buf)"
proof -
  define s where "s = (samples AND NOT 15 :: u32)"
  define q where "q = unat samples div 16"
  define r where "r = unat samples mod 16"
  have s: "unat s = 16 * q" unfolding s_def q_def by (rule unat_and_not_15)
  have n: "unat samples = 16 * q + r" and r: "r < 16" by (simp_all add: q_def r_def)
  have l: "simd_loop base s 0 buf = Some (s, zero_range base (16 * q) buf)"
    using simd_loop_ok [of s 0 q base buf] s n assms by simp
  have "q < 2 ^ 28" using unsigned_less [of samples, where ?'a = nat] by (simp add: q_def)
  then have s8: "unat (s + 8) = 16 * q + 8" using unat_add_small [of s 8] s by simp
  show ?thesis
  proof (cases "8 \<le> r")
    case True
    then have "s + 8 \<le> samples" using s8 n by (simp add: word_le_nat_alt)
    moreover have "scalar_loop base samples (s + 8) b = Some (zero_range (base + (16 * q + 8)) (r - 8) b)"
      if "length b = length buf" for b
      using scalar_loop_ok [of samples "s + 8" "r - 8" base b] s8 n True assms that by simp
    ultimately show ?thesis
      using l s n True assms zero_range_zero_range [of base "16 * q" 8 buf]
        zero_range_zero_range [of base "16 * q + 8" "r - 8" buf]
      unfolding simd_clear_samples_s16_def Let_def s_def [symmetric]
      by (simp add: vst1q_zero_range add.assoc)
  next
    case False
    then have "\<not> s + 8 \<le> samples" using s8 n by (simp add: word_le_nat_alt)
    moreover have "scalar_loop base samples s b = Some (zero_range (base + 16 * q) r b)"
      if "length b = length buf" for b
      using scalar_loop_ok [of samples s r base b] s n assms that by simp
    ultimately show ?thesis
      using l s n assms zero_range_zero_range [of base "16 * q" r buf]
      unfolding simd_clear_samples_s16_def Let_def s_def [symmetric] by simp
  qed
qed

end
