(* ===== verification/Audio_Device.thy ===== *)
theory Audio_Device
  imports Audio_Simd
begin

text \<open>
  \<^verbatim>\<open>internal/audio/c/audio.c\<close>: the global state of the module, its configuration, and the life
  cycle of the two paths (capture with an Opus encoder, playback with an Opus decoder).
  ALSA, Opus and \<^verbatim>\<open>nanosleep\<close> are outside the repository. Every call to them is appended to
  \<open>hist\<close> (newest first), and the parameter \<open>env\<close> answers it from the whole history: the return
  value (\<open>ret\<close>), the handle an open stored (\<open>new_pcm\<close>), the codec a create returned with its
  error code (\<open>new_codec\<close>), the value a \<^verbatim>\<open>_near\<close> call wrote back (\<open>near\<close>), the samples and bytes
  written into buffers. A theorem for every \<open>env\<close> therefore covers every behaviour of the
  libraries.
\<close>

section \<open>Library calls\<close>

type_synonym pcm = nat
type_synonym codec = nat

datatype pcm_stream = SND_PCM_STREAM_PLAYBACK | SND_PCM_STREAM_CAPTURE

datatype opus_ctl = OPUS_SET_BITRATE u32 | OPUS_SET_COMPLEXITY u8 | OPUS_SET_VBR int
  | OPUS_SET_VBR_CONSTRAINT int | OPUS_SET_SIGNAL int | OPUS_SET_BANDWIDTH int
  | OPUS_SET_DTX int | OPUS_SET_LSB_DEPTH int | OPUS_SET_INBAND_FEC int
  | OPUS_SET_PACKET_LOSS_PERC int

datatype (plugins only: code size) acall =
    Snd_pcm_open string pcm_stream
  | Snd_pcm_nonblock pcm
  | Snd_pcm_close pcm
  | Snd_pcm_drop pcm
  | Snd_pcm_drain pcm
  | Snd_pcm_prepare pcm
  | Snd_pcm_resume pcm
  | Snd_pcm_wait pcm u32
  | Hw_params_any pcm
  | Hw_params_set_access pcm
  | Hw_params_set_format pcm
  | Hw_params_set_channels pcm u8
  | Hw_params_set_rate pcm u32
  | Hw_params_set_rate_near pcm u32
  | Hw_params_set_period_size_near pcm u32
  | Hw_params_set_buffer_size_near pcm u32
  | Hw_params pcm
  | Sw_params_current pcm
  | Sw_params_set_start_threshold pcm u32
  | Sw_params_set_avail_min pcm u32
  | Sw_params pcm
  | Snd_pcm_readi pcm u16
  | Snd_pcm_writei pcm "s16 list" int
  | Opus_encoder_create u32 u8
  | Opus_encoder_destroy codec
  | Opus_encoder_ctl codec opus_ctl
  | Opus_encode codec "s16 list" u16 u16
  | Opus_decoder_create u32 u8
  | Opus_decoder_destroy codec
  | Opus_decode codec "u8 list option" int u16 bool
  | Nanosleep u32 u32

record audio_env =
  getenv :: "string \<Rightarrow> string option"
  ret :: "acall list \<Rightarrow> int"
  new_pcm :: "acall list \<Rightarrow> pcm"
  new_codec :: "acall list \<Rightarrow> codec option \<times> int"
  near :: "acall list \<Rightarrow> u32"
  samples_in :: "acall list \<Rightarrow> s16 list"
  packet_out :: "acall list \<Rightarrow> u8 list"

section \<open>The globals of the module\<close>

record audio =
  pcm_capture_handle :: "pcm option"
  pcm_playback_handle :: "pcm option"
  alsa_capture_device :: string
  alsa_playback_device :: string
  encoder :: "codec option"
  decoder :: "codec option"
  sample_rate :: u32
  channels :: u8
  frame_size :: u16
  opus_bitrate :: u32
  opus_complexity :: u8
  max_packet_size :: u16
  sleep_microseconds :: u32
  sleep_milliseconds :: u32
  max_attempts_global :: u8
  max_backoff_us_global :: u32
  capture_initializing :: bool
  capture_initialized :: bool
  playback_initializing :: bool
  playback_initialized :: bool
  capture_pcm_buffer :: "s16 list"
  playback_pcm_buffer :: "s16 list"
  hist :: "acall list"

definition audio_globals :: audio where
  "audio_globals = \<lparr>pcm_capture_handle = None, pcm_playback_handle = None,
     alsa_capture_device = [], alsa_playback_device = [], encoder = None, decoder = None,
     sample_rate = 48000, channels = 2, frame_size = 960,
     opus_bitrate = 128000, opus_complexity = 5, max_packet_size = 1500,
     sleep_microseconds = 1000, sleep_milliseconds = 1, max_attempts_global = 5,
     max_backoff_us_global = 500000,
     capture_initializing = False, capture_initialized = False,
     playback_initializing = False, playback_initialized = False,
     capture_pcm_buffer = replicate (960 * 2) 0, playback_pcm_buffer = replicate (960 * 2) 0,
     hist = []\<rparr>"

definition OPUS_OK :: int where "OPUS_OK = 0"
definition OPUS_VBR :: int where "OPUS_VBR = 1"
definition OPUS_VBR_CONSTRAINT :: int where "OPUS_VBR_CONSTRAINT = 1"
definition OPUS_SIGNAL_TYPE :: int where "OPUS_SIGNAL_TYPE = 3002"
definition OPUS_BANDWIDTH :: int where "OPUS_BANDWIDTH = 1104"
definition OPUS_DTX :: int where "OPUS_DTX = 1"
definition OPUS_LSB_DEPTH :: int where "OPUS_LSB_DEPTH = 16"

text \<open>One library call: its return value, and the state with the call recorded.\<close>

definition acall_do :: "audio_env \<Rightarrow> acall \<Rightarrow> audio \<Rightarrow> int \<times> audio" where
  "acall_do env c s = (let h = c # hist s in (ret env h, s\<lparr>hist := h\<rparr>))"

text \<open>A call whose return value is ignored.\<close>

definition acall_run :: "audio_env \<Rightarrow> acall \<Rightarrow> audio \<Rightarrow> audio" where
  "acall_run env c s = snd (acall_do env c s)"

section \<open>Configuration\<close>

definition update_audio_constants ::
  "u32 \<Rightarrow> u8 \<Rightarrow> u32 \<Rightarrow> u8 \<Rightarrow> u16 \<Rightarrow> u16 \<Rightarrow> u32 \<Rightarrow> u8 \<Rightarrow> u32 \<Rightarrow> audio \<Rightarrow> audio" where
  "update_audio_constants bitrate complexity sr ch fs max_pkt sleep_us max_attempts max_backoff s =
     s\<lparr>opus_bitrate := bitrate, opus_complexity := complexity, sample_rate := sr, channels := ch,
       frame_size := fs, max_packet_size := max_pkt, sleep_microseconds := sleep_us,
       sleep_milliseconds := sleep_us div 1000, max_attempts_global := max_attempts,
       max_backoff_us_global := max_backoff\<rparr>"

definition update_audio_decoder_constants ::
  "u32 \<Rightarrow> u8 \<Rightarrow> u16 \<Rightarrow> u16 \<Rightarrow> u32 \<Rightarrow> u8 \<Rightarrow> u32 \<Rightarrow> audio \<Rightarrow> audio" where
  "update_audio_decoder_constants sr ch fs max_pkt sleep_us max_attempts max_backoff s =
     s\<lparr>sample_rate := sr, channels := ch, frame_size := fs, max_packet_size := max_pkt,
       sleep_microseconds := sleep_us, sleep_milliseconds := sleep_us div 1000,
       max_attempts_global := max_attempts, max_backoff_us_global := max_backoff\<rparr>"

definition device_or_default :: "string option \<Rightarrow> string" where
  "device_or_default d = (case d of None \<Rightarrow> ''hw:1,0'' | Some n \<Rightarrow> if n = [] then ''hw:1,0'' else n)"

definition init_alsa_devices_from_env :: "audio_env \<Rightarrow> audio \<Rightarrow> audio" where
  "init_alsa_devices_from_env env s =
     s\<lparr>alsa_capture_device := device_or_default (getenv env ''ALSA_CAPTURE_DEVICE''),
       alsa_playback_device := device_or_default (getenv env ''ALSA_PLAYBACK_DEVICE'')\<rparr>"

text \<open>
  \<^verbatim>\<open>update_opus_encoder_params\<close>: \<^verbatim>\<open>|=\<close> over two return codes, \<open>-1\<close> before initialisation.
\<close>

definition update_opus_encoder_params :: "audio_env \<Rightarrow> u32 \<Rightarrow> u8 \<Rightarrow> audio \<Rightarrow> int \<times> audio" where
  "update_opus_encoder_params env bitrate complexity s =
     (case encoder s of None \<Rightarrow> (-1, s)
      | Some enc \<Rightarrow>
          if \<not> capture_initialized s then (-1, s)
          else
            let s = s\<lparr>opus_bitrate := bitrate, opus_complexity := complexity\<rparr>;
                (r1, s) = acall_do env (Opus_encoder_ctl enc (OPUS_SET_BITRATE (opus_bitrate s))) s;
                (r2, s) = acall_do env (Opus_encoder_ctl enc (OPUS_SET_COMPLEXITY (opus_complexity s))) s
            in (r1 OR r2, s))"

section \<open>Opening a device with retries\<close>

definition precise_sleep_us :: "audio_env \<Rightarrow> u32 \<Rightarrow> audio \<Rightarrow> audio" where
  "precise_sleep_us env us s = acall_run env (Nanosleep (us div 1000000) ((us mod 1000000) * 1000)) s"

text \<open>\<^verbatim>\<open>(backoff_us << 1 < max) ? (backoff_us << 1) : max\<close> at width 32.\<close>

definition next_backoff :: "u32 \<Rightarrow> u32 \<Rightarrow> u32" where
  "next_backoff mx b = (if push_bit 1 b < mx then push_bit 1 b else mx)"

text \<open>The wait after a failed attempt, by error class, and the next value of \<^verbatim>\<open>backoff_us\<close>.\<close>

definition retry_wait :: "audio_env \<Rightarrow> int \<Rightarrow> u32 \<Rightarrow> audio \<Rightarrow> u32 \<times> audio" where
  "retry_wait env err b s =
     (if err = - EBUSY \<or> err = - EAGAIN
      then (next_backoff (max_backoff_us_global s) b, precise_sleep_us env b s)
      else if err = - ENODEV \<or> err = - ENOENT
      then (next_backoff (max_backoff_us_global s) b, precise_sleep_us env (push_bit 1 b) s)
      else if err = - EPERM \<or> err = - EACCES
      then (b, precise_sleep_us env (drop_bit 1 b) s)
      else (next_backoff (max_backoff_us_global s) b, precise_sleep_us env b s))"

text \<open>The two paths: which global \<^verbatim>\<open>safe_alsa_open\<close> is given a pointer to.\<close>

datatype path = Capture | Playback

fun handle_of :: "path \<Rightarrow> audio \<Rightarrow> pcm option" where
  "handle_of Capture s = pcm_capture_handle s"
| "handle_of Playback s = pcm_playback_handle s"

fun set_handle :: "path \<Rightarrow> pcm option \<Rightarrow> audio \<Rightarrow> audio" where
  "set_handle Capture h s = s\<lparr>pcm_capture_handle := h\<rparr>"
| "set_handle Playback h s = s\<lparr>pcm_playback_handle := h\<rparr>"

fun stream_of :: "path \<Rightarrow> pcm_stream" where
  "stream_of Capture = SND_PCM_STREAM_CAPTURE"
| "stream_of Playback = SND_PCM_STREAM_PLAYBACK"

lemma acall_frame [simp]:
  "max_attempts_global (snd (acall_do env c s)) = max_attempts_global s"
  "hist (snd (acall_do env c s)) = c # hist s"
  "fst (acall_do env c s) = ret env (c # hist s)"
  by (simp_all add: acall_do_def Let_def)

lemma acall_pair [simp]: "acall_do env c s = (r, t) \<longleftrightarrow> r = ret env (c # hist s) \<and> t = s\<lparr>hist := c # hist s\<rparr>"
  by (auto simp: acall_do_def Let_def)

lemma acall_pair_sym [simp]:
  "(r, t) = acall_do env c s \<longleftrightarrow> r = ret env (c # hist s) \<and> t = s\<lparr>hist := c # hist s\<rparr>"
  by (auto simp: acall_do_def Let_def)

lemma retry_wait_attempts: "max_attempts_global (snd (retry_wait env e b s)) = max_attempts_global s"
  by (simp add: retry_wait_def precise_sleep_us_def acall_run_def)

lemma retry_wait_pair: "(b, t) = retry_wait env e x s \<Longrightarrow> max_attempts_global t = max_attempts_global s"
  by (metis retry_wait_attempts snd_conv)

lemma attempt_decreases: "attempt < m \<Longrightarrow> unat m - unat (attempt + 1) < unat m - unat attempt"
  for attempt m :: u8
  by (simp add: unat_plus_one word_less_nat_alt)

text \<open>
  \<^verbatim>\<open>safe_alsa_open\<close>: at most \<^verbatim>\<open>max_attempts_global\<close> attempts. The result is the C return value, and
  \<open>None\<close> is the uninitialised \<^verbatim>\<open>err\<close> that is returned when there is no attempt at all.
\<close>

function open_loop ::
  "audio_env \<Rightarrow> path \<Rightarrow> string \<Rightarrow> u8 \<Rightarrow> u32 \<Rightarrow> int option \<Rightarrow> audio \<Rightarrow> int option \<times> audio" where
  "open_loop env p device attempt backoff_us err s =
     (if attempt < max_attempts_global s then
        (case acall_do env (Snd_pcm_open device (stream_of p)) s of (e, s1) \<Rightarrow>
          if e \<ge> 0 then
            let h = new_pcm env (hist s1)
            in (Some 0, acall_run env (Snd_pcm_nonblock h) (set_handle p (Some h) s1))
          else
            (case retry_wait env e backoff_us s1 of (b, s2) \<Rightarrow>
               open_loop env p device (attempt + 1) b (Some e) s2))
      else (err, s))"
  by pat_completeness auto
termination
  by (relation "measure (\<lambda>(_, _, _, attempt, _, _, s). unat (max_attempts_global s) - unat attempt)")
     (auto dest!: retry_wait_pair intro: attempt_decreases)

declare open_loop.simps [simp del]

definition safe_alsa_open :: "audio_env \<Rightarrow> path \<Rightarrow> string \<Rightarrow> audio \<Rightarrow> int option \<times> audio" where
  "safe_alsa_open env p device s = open_loop env p device 0 (sleep_microseconds s) None s"

section \<open>Configuring a device\<close>

text \<open>
  \<^verbatim>\<open>configure_alsa_device\<close>: the sequence of hardware and software parameter calls, each of which
  ends the function when it fails; only a rejected exact rate falls back to the nearest rate.
  \<open>period_size\<close> and \<open>buffer_size\<close> are \<^verbatim>\<open>snd_pcm_uframes_t\<close>, 32 bits on the target.
\<close>

definition set_rate :: "audio_env \<Rightarrow> pcm \<Rightarrow> audio \<Rightarrow> int \<times> audio" where
  "set_rate env h s =
     (case acall_do env (Hw_params_set_rate h (sample_rate s)) s of (e, s1) \<Rightarrow>
        if e < 0 then acall_do env (Hw_params_set_rate_near h (sample_rate s1)) s1 else (e, s1))"

definition initial_period :: "u16 \<Rightarrow> u32" where
  "initial_period fs = (let period_size = ucast fs :: u32 in if period_size < 64 then 64 else period_size)"

definition configure_sw :: "audio_env \<Rightarrow> pcm \<Rightarrow> u32 \<Rightarrow> audio \<Rightarrow> int \<times> audio" where
  "configure_sw env h period_size =
     err_seq (acall_do env (Hw_params h))
    (err_seq (acall_do env (Sw_params_current h))
    (err_seq (acall_do env (Sw_params_set_start_threshold h period_size))
    (err_seq (acall_do env (Sw_params_set_avail_min h period_size))
    (err_seq (acall_do env (Sw_params h))
             (acall_do env (Snd_pcm_prepare h))))))"

definition configure_buffers :: "audio_env \<Rightarrow> pcm \<Rightarrow> audio \<Rightarrow> int \<times> audio" where
  "configure_buffers env h =
     err_seq (\<lambda>s. acall_do env (Hw_params_set_period_size_near h (initial_period (frame_size s))) s)
       (\<lambda>s. let period_size = near env (hist s) in
          err_seq (acall_do env (Hw_params_set_buffer_size_near h (period_size * 4)))
                  (configure_sw env h period_size) s)"

definition configure_alsa_device :: "audio_env \<Rightarrow> pcm option \<Rightarrow> audio \<Rightarrow> int \<times> audio" where
  "configure_alsa_device env handle s =
     (case handle of None \<Rightarrow> (-1, s)
      | Some h \<Rightarrow>
          err_seq (acall_do env (Hw_params_any h))
         (err_seq (acall_do env (Hw_params_set_access h))
         (err_seq (acall_do env (Hw_params_set_format h))
         (err_seq (\<lambda>s. acall_do env (Hw_params_set_channels h (channels s)) s)
         (err_seq (set_rate env h)
                  (configure_buffers env h))))) s)"

section \<open>Life cycle of the capture path\<close>

text \<open>Closing what a previous, failed initialisation may have left behind.\<close>

definition drop_encoder :: "audio_env \<Rightarrow> audio \<Rightarrow> audio" where
  "drop_encoder env s = (case encoder s of None \<Rightarrow> s
     | Some e \<Rightarrow> (acall_run env (Opus_encoder_destroy e) s)\<lparr>encoder := None\<rparr>)"

definition drop_decoder :: "audio_env \<Rightarrow> audio \<Rightarrow> audio" where
  "drop_decoder env s = (case decoder s of None \<Rightarrow> s
     | Some d \<Rightarrow> (acall_run env (Opus_decoder_destroy d) s)\<lparr>decoder := None\<rparr>)"

definition drop_handle :: "audio_env \<Rightarrow> path \<Rightarrow> audio \<Rightarrow> audio" where
  "drop_handle env p s = (case handle_of p s of None \<Rightarrow> s
     | Some h \<Rightarrow> set_handle p None (acall_run env (Snd_pcm_close h) s))"

definition drain_handle :: "audio_env \<Rightarrow> path \<Rightarrow> audio \<Rightarrow> audio" where
  "drain_handle env p s = (case handle_of p s of None \<Rightarrow> s
     | Some h \<Rightarrow> set_handle p None (acall_run env (Snd_pcm_close h) (acall_run env (Snd_pcm_drain h) s)))"

fun encoder_ctls :: "audio_env \<Rightarrow> codec \<Rightarrow> opus_ctl list \<Rightarrow> audio \<Rightarrow> audio" where
  "encoder_ctls env enc [] s = s"
| "encoder_ctls env enc (c # cs) s = encoder_ctls env enc cs (acall_run env (Opus_encoder_ctl enc c) s)"

definition encoder_settings :: "audio \<Rightarrow> opus_ctl list" where
  "encoder_settings s =
     [OPUS_SET_BITRATE (opus_bitrate s), OPUS_SET_COMPLEXITY (opus_complexity s),
      OPUS_SET_VBR OPUS_VBR, OPUS_SET_VBR_CONSTRAINT OPUS_VBR_CONSTRAINT,
      OPUS_SET_SIGNAL OPUS_SIGNAL_TYPE, OPUS_SET_BANDWIDTH OPUS_BANDWIDTH, OPUS_SET_DTX OPUS_DTX,
      OPUS_SET_LSB_DEPTH OPUS_LSB_DEPTH, OPUS_SET_INBAND_FEC 1, OPUS_SET_PACKET_LOSS_PERC 20]"

text \<open>
  The part of \<^verbatim>\<open>jetkvm_audio_capture_init\<close> after the device is open and configured: the encoder.
\<close>

definition capture_create_encoder :: "audio_env \<Rightarrow> audio \<Rightarrow> int \<times> audio" where
  "capture_create_encoder env s =
     (let s = acall_run env (Opus_encoder_create (sample_rate s) (channels s)) s;
          (e, opus_err) = new_codec env (hist s);
          s = s\<lparr>encoder := e\<rparr>
      in case e of
           Some enc \<Rightarrow>
             if opus_err \<noteq> OPUS_OK
             then (-3, (drop_handle env Capture s)\<lparr>capture_initializing := False\<rparr>)
             else (0, (encoder_ctls env enc (encoder_settings s) s)
                        \<lparr>capture_initialized := True, capture_initializing := False\<rparr>)
         | None \<Rightarrow> (-3, (drop_handle env Capture s)\<lparr>capture_initializing := False\<rparr>))"

text \<open>
  \<^verbatim>\<open>jetkvm_audio_capture_init\<close>. The compare-and-swap on \<^verbatim>\<open>capture_initializing\<close> fails when it is
  set. A result \<open>None\<close> is the use of the uninitialised error code of \<^verbatim>\<open>safe_alsa_open\<close>.
\<close>

definition jetkvm_audio_capture_init :: "audio_env \<Rightarrow> audio \<Rightarrow> int option \<times> audio" where
  "jetkvm_audio_capture_init env s =
     (let s = init_alsa_devices_from_env env s in
      if capture_initializing s then (Some (- EBUSY), s)
      else
        let s = s\<lparr>capture_initializing := True\<rparr> in
        if capture_initialized s then (Some 0, s\<lparr>capture_initializing := False\<rparr>)
        else
          let s = drop_handle env Capture (drop_encoder env s) in
          (case safe_alsa_open env Capture (alsa_capture_device s) s of
             (None, s) \<Rightarrow> (None, s)
           | (Some err, s) \<Rightarrow>
               if err < 0 then (Some (-1), s\<lparr>capture_initializing := False\<rparr>)
               else
                 (case configure_alsa_device env (pcm_capture_handle s) s of (err, s) \<Rightarrow>
                    if err < 0
                    then (Some (-2), (drop_handle env Capture s)\<lparr>capture_initializing := False\<rparr>)
                    else (case capture_create_encoder env s of (rc, s) \<Rightarrow> (Some rc, s)))))"

text \<open>
  \<^verbatim>\<open>jetkvm_audio_capture_close\<close>. The function first yields while an initialisation is in progress;
  \<open>None\<close> says that it does not get past that loop as long as the flag stays set.
\<close>

definition jetkvm_audio_capture_close :: "audio_env \<Rightarrow> audio \<Rightarrow> audio option" where
  "jetkvm_audio_capture_close env s =
     (if capture_initializing s then None
      else if \<not> capture_initialized s then Some s
      else Some (drain_handle env Capture (drop_encoder env (s\<lparr>capture_initialized := False\<rparr>))))"

section \<open>Life cycle of the playback path\<close>

definition playback_create_decoder :: "audio_env \<Rightarrow> audio \<Rightarrow> int \<times> audio" where
  "playback_create_decoder env s =
     (let s = acall_run env (Opus_decoder_create (sample_rate s) (channels s)) s;
          (d, opus_err) = new_codec env (hist s);
          s = s\<lparr>decoder := d\<rparr>
      in if d = None \<or> opus_err \<noteq> OPUS_OK
         then (-2, (drop_handle env Playback s)\<lparr>playback_initializing := False\<rparr>)
         else (0, s\<lparr>playback_initialized := True, playback_initializing := False\<rparr>))"

text \<open>The configured device, and the device named \<open>default\<close> when it cannot be opened.\<close>

definition playback_open :: "audio_env \<Rightarrow> audio \<Rightarrow> int option \<times> audio" where
  "playback_open env s =
     (case safe_alsa_open env Playback (alsa_playback_device s) s of
        (None, s) \<Rightarrow> (None, s)
      | (Some err, s) \<Rightarrow> if err < 0 then safe_alsa_open env Playback ''default'' s else (Some err, s))"

definition jetkvm_audio_playback_init :: "audio_env \<Rightarrow> audio \<Rightarrow> int option \<times> audio" where
  "jetkvm_audio_playback_init env s =
     (let s = init_alsa_devices_from_env env s in
      if playback_initializing s then (Some (- EBUSY), s)
      else
        let s = s\<lparr>playback_initializing := True\<rparr> in
        if playback_initialized s then (Some 0, s\<lparr>playback_initializing := False\<rparr>)
        else
          let s = drop_handle env Playback (drop_decoder env s) in
          (case playback_open env s of
             (None, s) \<Rightarrow> (None, s)
           | (Some err, s) \<Rightarrow>
               if err < 0 then (Some (-1), s\<lparr>playback_initializing := False\<rparr>)
               else
                 (case configure_alsa_device env (pcm_playback_handle s) s of (err, s) \<Rightarrow>
                    if err < 0
                    then (Some (-1), (drop_handle env Playback s)\<lparr>playback_initializing := False\<rparr>)
                    else (case playback_create_decoder env s of (rc, s) \<Rightarrow> (Some rc, s)))))"

definition jetkvm_audio_playback_close :: "audio_env \<Rightarrow> audio \<Rightarrow> audio option" where
  "jetkvm_audio_playback_close env s =
     (if playback_initializing s then None
      else if \<not> playback_initialized s then Some s
      else Some (drain_handle env Playback (drop_decoder env (s\<lparr>playback_initialized := False\<rparr>))))"

end
