(* ===== verification/Audio_Io.thy ===== *)
theory Audio_Io
  imports Audio_Device
begin

text \<open>
  The hot functions of \<^verbatim>\<open>internal/audio/c/audio.c\<close>: \<^verbatim>\<open>jetkvm_audio_read_encode\<close> and
  \<^verbatim>\<open>jetkvm_audio_decode_write\<close>. The error handling between two attempts is one definition per
  path, whose outcome is to retry (the \<^verbatim>\<open>goto\<close>) or to return. The static sample buffers have
  their 1920 samples; a write past their end, or past the end of the caller's packet buffer,
  is the outcome \<open>Mem_fault\<close>.
\<close>

section \<open>Outcomes\<close>

datatype io_result = Ret int | Mem_fault

datatype recovery = Retry u8 audio | Return int audio

text \<open>Storing samples at the start of a buffer.\<close>

definition blit :: "s16 list \<Rightarrow> s16 list \<Rightarrow> s16 list option" where
  "blit xs buf = (if length xs \<le> length buf then Some (xs @ drop (length xs) buf) else None)"

section \<open>Recovery steps common to both paths\<close>

text \<open>\<^verbatim>\<open>snd_pcm_prepare\<close>, and when it fails \<^verbatim>\<open>snd_pcm_drop\<close> and \<^verbatim>\<open>snd_pcm_prepare\<close> again.\<close>

definition prepare_or_drop :: "audio_env \<Rightarrow> pcm \<Rightarrow> audio \<Rightarrow> int \<times> audio" where
  "prepare_or_drop env h s =
     (case acall_do env (Snd_pcm_prepare h) s of (err, s) \<Rightarrow>
        if err < 0 then acall_do env (Snd_pcm_prepare h) (acall_run env (Snd_pcm_drop h) s)
        else (err, s))"

text \<open>
  \<^verbatim>\<open>while ((err = snd_pcm_resume(h)) == -EAGAIN && resume_attempts < 10)\<close> with its wait;
  \<open>n\<close> is \<open>10 - resume_attempts\<close>.
\<close>

fun resume_loop :: "audio_env \<Rightarrow> pcm \<Rightarrow> nat \<Rightarrow> audio \<Rightarrow> int \<times> audio" where
  "resume_loop env h n s =
     (case acall_do env (Snd_pcm_resume h) s of (err, s) \<Rightarrow>
        (case n of
           Suc m \<Rightarrow> if err = - EAGAIN
                     then resume_loop env h m (acall_run env (Snd_pcm_wait h (sleep_milliseconds s)) s)
                     else (err, s)
         | 0 \<Rightarrow> (err, s)))"

declare resume_loop.simps [simp del]

text \<open>Resume, with \<^verbatim>\<open>snd_pcm_prepare\<close> as the fallback.\<close>

definition resume_or_prepare :: "audio_env \<Rightarrow> pcm \<Rightarrow> audio \<Rightarrow> int \<times> audio" where
  "resume_or_prepare env h s =
     (case resume_loop env h 10 s of (err, s) \<Rightarrow>
        if err < 0 then acall_do env (Snd_pcm_prepare h) s else (err, s))"

text \<open>\<^verbatim>\<open>snd_pcm_drop\<close> and \<^verbatim>\<open>snd_pcm_prepare\<close>, the reaction to an I/O error.\<close>

definition drop_and_prepare :: "audio_env \<Rightarrow> pcm \<Rightarrow> audio \<Rightarrow> int \<times> audio" where
  "drop_and_prepare env h s = acall_do env (Snd_pcm_prepare h) (acall_run env (Snd_pcm_drop h) s)"

section \<open>The capture path\<close>

text \<open>What happens after \<^verbatim>\<open>snd_pcm_readi\<close> returned the error \<open>rc < 0\<close>; \<open>ra\<close> is \<^verbatim>\<open>recovery_attempts\<close>.\<close>

definition read_recover :: "audio_env \<Rightarrow> pcm \<Rightarrow> int \<Rightarrow> u8 \<Rightarrow> audio \<Rightarrow> recovery" where
  "read_recover env h rc ra s =
     (if rc = - EPIPE then
        let ra = ra + 1 in
        if ra > 3 then Return (-1) s
        else (case prepare_or_drop env h s of (err, s) \<Rightarrow>
                if err < 0 then Return (-1) s else Retry ra s)
      else if rc = - EAGAIN then
        Retry ra (acall_run env (Snd_pcm_wait h (sleep_milliseconds s)) s)
      else if rc = - ESTRPIPE then
        let ra = ra + 1 in
        if ra > 3 then Return (-1) s
        else (case resume_or_prepare env h s of (err, s) \<Rightarrow>
                if err < 0 then Return (-1) s else Return 0 s)
      else if rc = - ENODEV then Return (-1) s
      else if rc = - EIO then
        let ra = ra + 1 in
        if ra \<le> 3 then
          (case drop_and_prepare env h s of (err, s) \<Rightarrow>
             if err \<ge> 0 then Retry ra s else Return (-1) s)
        else Return (-1) s
      else
        let ra = ra + 1 in
        if ra \<le> 1 \<and> rc = - EINTR then Retry ra s
        else if ra \<le> 1 \<and> rc = - EBUSY then Retry ra (acall_run env (Snd_pcm_wait h 1) s)
        else Return (-1) s)"

text \<open>
  Zero padding after a read of \<open>rc\<close> frames, then the encoding. \<open>cap\<close> is the size of the caller's
  packet buffer.
\<close>

definition pad_and_encode :: "audio_env \<Rightarrow> codec \<Rightarrow> nat \<Rightarrow> int \<Rightarrow> audio \<Rightarrow> io_result \<times> audio" where
  "pad_and_encode env enc cap rc s =
     (case (if rc < int (unat (frame_size s))
            then simd_clear_samples_s16 (nat rc * unat (channels s))
                   (of_int ((int (unat (frame_size s)) - rc) * int (unat (channels s))))
                   (capture_pcm_buffer s)
            else Some (capture_pcm_buffer s)) of
        None \<Rightarrow> (Mem_fault, s)
      | Some buf \<Rightarrow>
          let s = s\<lparr>capture_pcm_buffer := buf\<rparr>;
              (nb_bytes, s) = acall_do env (Opus_encode enc (capture_pcm_buffer s) (frame_size s)
                                              (max_packet_size s)) s
          in if length (packet_out env (hist s)) \<le> cap then (Ret nb_bytes, s) else (Mem_fault, s))"

text \<open>The \<^verbatim>\<open>retry_read\<close> loop. \<^verbatim>\<open>-EAGAIN\<close> may repeat for ever: not returning is \<open>None\<close>.\<close>

partial_function (option) read_loop ::
  "audio_env \<Rightarrow> pcm \<Rightarrow> codec \<Rightarrow> nat \<Rightarrow> u8 \<Rightarrow> audio \<Rightarrow> (io_result \<times> audio) option" where
  "read_loop env h enc cap ra s =
     (case acall_do env (Snd_pcm_readi h (frame_size s)) s of (rc, s) \<Rightarrow>
        (case blit (samples_in env (hist s)) (capture_pcm_buffer s) of
           None \<Rightarrow> Some (Mem_fault, s)
         | Some buf \<Rightarrow>
             (let s = s\<lparr>capture_pcm_buffer := buf\<rparr> in
              if rc < 0 then
                (case read_recover env h rc ra s of
                   Return r s \<Rightarrow> Some (Ret r, s)
                 | Retry ra s \<Rightarrow> read_loop env h enc cap ra s)
              else Some (pad_and_encode env enc cap rc s))))"

definition jetkvm_audio_read_encode ::
  "audio_env \<Rightarrow> nat option \<Rightarrow> audio \<Rightarrow> (io_result \<times> audio) option" where
  "jetkvm_audio_read_encode env opus_buf s =
     (if \<not> capture_initialized s then Some (Ret (-1), s)
      else case (pcm_capture_handle s, encoder s, opus_buf) of
             (Some h, Some enc, Some cap) \<Rightarrow> read_loop env h enc cap 0 s
           | _ \<Rightarrow> Some (Ret (-1), s))"

section \<open>The playback path\<close>

definition write_recover :: "audio_env \<Rightarrow> pcm \<Rightarrow> int \<Rightarrow> u8 \<Rightarrow> audio \<Rightarrow> recovery" where
  "write_recover env h rc ra s =
     (if rc = - EPIPE then
        let ra = ra + 1 in
        if ra > 3 then Return (-2) s
        else (case prepare_or_drop env h s of (err, s) \<Rightarrow>
                if err < 0 then Return (-2) s else Retry ra s)
      else if rc = - ESTRPIPE then
        let ra = ra + 1 in
        if ra > 3 then Return (-2) s
        else (case resume_or_prepare env h s of (err, s) \<Rightarrow>
                if err < 0 then Return (-2) s else Return 0 s)
      else if rc = - ENODEV then Return (-2) s
      else if rc = - EIO then
        let ra = ra + 1 in
        if ra \<le> 3 then
          (case drop_and_prepare env h s of (err, s) \<Rightarrow>
             if err \<ge> 0 then Retry ra s else Return (-2) s)
        else Return (-2) s
      else if rc = - EAGAIN then
        let ra = ra + 1 in
        if ra \<le> 3 then Retry ra (acall_run env (Snd_pcm_wait h 1) s) else Return (-2) s
      else
        let ra = ra + 1 in
        if ra \<le> 1 \<and> (rc = - EINTR \<or> rc = - EBUSY)
        then Retry ra (acall_run env (Snd_pcm_wait h 1) s)
        else Return (-2) s)"

lemma retry_measure: "ra + 1 \<le> 3 \<Longrightarrow> unat (3 - (ra + 1)) < unat (3 - ra)" for ra :: u8
proof -
  assume a: "ra + 1 \<le> 3"
  have ne: "3 - ra \<noteq> 0"
  proof
    assume "3 - ra = 0"
    then have "ra = 3" by simp
    with a show False by simp
  qed
  have "3 - (ra + 1) = (3 - ra) - 1" by simp
  with ne show ?thesis by (metis diff_less neq0_conv unat_eq_zero unat_minus_one zero_less_one)
qed

lemma write_recover_Retry: "write_recover env h rc ra s = Retry ra' s' \<Longrightarrow> ra' = ra + 1 \<and> ra + 1 \<le> 3"
  by (auto simp: write_recover_def Let_def not_less split: if_splits prod.splits
      intro: order_trans [of _ "1 :: u8" 3])

text \<open>The \<^verbatim>\<open>retry_write\<close> loop; every retry spends one of the three recovery attempts.\<close>

function write_loop :: "audio_env \<Rightarrow> pcm \<Rightarrow> int \<Rightarrow> u8 \<Rightarrow> audio \<Rightarrow> int \<times> audio" where
  "write_loop env h pcm_frames ra s =
     (case acall_do env (Snd_pcm_writei h
             (take (nat pcm_frames * unat (channels s)) (playback_pcm_buffer s)) pcm_frames) s of
        (rc, s1) \<Rightarrow>
          if rc < 0 then
            (case write_recover env h rc ra s1 of
               Return r s2 \<Rightarrow> (r, s2)
             | Retry ra' s2 \<Rightarrow> write_loop env h pcm_frames ra' s2)
          else (pcm_frames, s1))"
  by pat_completeness auto
termination
  by (relation "measure (\<lambda>(_, _, _, ra, _). unat (3 - ra))")
     (auto dest!: write_recover_Retry intro: retry_measure)

declare write_loop.simps [simp del]

text \<open>
  \<^verbatim>\<open>opus_decode\<close> into the static buffer: the return value, the state, and whether the samples
  fitted.
\<close>

definition decode_into ::
  "audio_env \<Rightarrow> codec \<Rightarrow> u8 list option \<Rightarrow> int \<Rightarrow> bool \<Rightarrow> audio \<Rightarrow> int \<times> audio option" where
  "decode_into env dec data len fec s =
     (case acall_do env (Opus_decode dec data len (frame_size s) fec) s of (n, s) \<Rightarrow>
        (n, map_option (\<lambda>buf. s\<lparr>playback_pcm_buffer := buf\<rparr>)
              (blit (samples_in env (hist s)) (playback_pcm_buffer s))))"

definition decode_and_write ::
  "audio_env \<Rightarrow> pcm \<Rightarrow> codec \<Rightarrow> u8 list \<Rightarrow> int \<Rightarrow> audio \<Rightarrow> io_result \<times> audio" where
  "decode_and_write env h dec data opus_size s =
     (case decode_into env dec (Some (take (nat opus_size) data)) opus_size False s of
        (_, None) \<Rightarrow> (Mem_fault, s)
      | (pcm_frames, Some s1) \<Rightarrow>
          if pcm_frames < 0 then
            (case decode_into env dec None 0 True s1 of
               (_, None) \<Rightarrow> (Mem_fault, s1)
             | (pcm_frames, Some s2) \<Rightarrow>
                 if pcm_frames < 0 then (Ret (-1), s2)
                 else (case write_loop env h pcm_frames 0 s2 of (r, s3) \<Rightarrow> (Ret r, s3)))
          else (case write_loop env h pcm_frames 0 s1 of (r, s3) \<Rightarrow> (Ret r, s3)))"

definition jetkvm_audio_decode_write ::
  "audio_env \<Rightarrow> u8 list option \<Rightarrow> int \<Rightarrow> audio \<Rightarrow> io_result \<times> audio" where
  "jetkvm_audio_decode_write env opus_buf opus_size s =
     (if \<not> playback_initialized s then (Ret (-1), s)
      else case (pcm_playback_handle s, decoder s, opus_buf) of
             (Some h, Some dec, Some data) \<Rightarrow>
               if opus_size \<le> 0 then (Ret (-1), s)
               else if opus_size > int (unat (max_packet_size s)) then (Ret (-1), s)
               else if nat opus_size > length data then (Mem_fault, s)
               else decode_and_write env h dec data opus_size s
           | _ \<Rightarrow> (Ret (-1), s))"

end
