(* ===== verification/Audio_Resources.thy ===== *)
theory Audio_Resources
  imports Audio_Io
begin

text \<open>
  Resource safety of the audio module. From the call history and the answers of the libraries
  one can compute which PCM handles and codecs are open; the theorems of this theory say that
  the module only ever passes open handles to the libraries and never loses one, whatever
  sequence of its functions is called and whatever the libraries answer.
\<close>

section \<open>Open handles of a history\<close>

fun live_pcms :: "audio_env \<Rightarrow> acall list \<Rightarrow> pcm set" where
  "live_pcms env [] = {}"
| "live_pcms env (Snd_pcm_open d st # h) =
     (if ret env (Snd_pcm_open d st # h) \<ge> 0
      then insert (new_pcm env (Snd_pcm_open d st # h)) (live_pcms env h) else live_pcms env h)"
| "live_pcms env (Snd_pcm_close p # h) = live_pcms env h - {p}"
| "live_pcms env (_ # h) = live_pcms env h"

fun live_codecs :: "audio_env \<Rightarrow> acall list \<Rightarrow> codec set" where
  "live_codecs env [] = {}"
| "live_codecs env (Opus_encoder_create r c # h) =
     set_option (fst (new_codec env (Opus_encoder_create r c # h))) \<union> live_codecs env h"
| "live_codecs env (Opus_decoder_create r c # h) =
     set_option (fst (new_codec env (Opus_decoder_create r c # h))) \<union> live_codecs env h"
| "live_codecs env (Opus_encoder_destroy k # h) = live_codecs env h - {k}"
| "live_codecs env (Opus_decoder_destroy k # h) = live_codecs env h - {k}"
| "live_codecs env (_ # h) = live_codecs env h"

text \<open>The handles a call is given.\<close>

fun uses_pcm :: "acall \<Rightarrow> pcm set" where
  "uses_pcm (Snd_pcm_open _ _) = {}"
| "uses_pcm (Snd_pcm_nonblock p) = {p}"
| "uses_pcm (Snd_pcm_close p) = {p}"
| "uses_pcm (Snd_pcm_drop p) = {p}"
| "uses_pcm (Snd_pcm_drain p) = {p}"
| "uses_pcm (Snd_pcm_prepare p) = {p}"
| "uses_pcm (Snd_pcm_resume p) = {p}"
| "uses_pcm (Snd_pcm_wait p _) = {p}"
| "uses_pcm (Hw_params_any p) = {p}"
| "uses_pcm (Hw_params_set_access p) = {p}"
| "uses_pcm (Hw_params_set_format p) = {p}"
| "uses_pcm (Hw_params_set_channels p _) = {p}"
| "uses_pcm (Hw_params_set_rate p _) = {p}"
| "uses_pcm (Hw_params_set_rate_near p _) = {p}"
| "uses_pcm (Hw_params_set_period_size_near p _) = {p}"
| "uses_pcm (Hw_params_set_buffer_size_near p _) = {p}"
| "uses_pcm (Hw_params p) = {p}"
| "uses_pcm (Sw_params_current p) = {p}"
| "uses_pcm (Sw_params_set_start_threshold p _) = {p}"
| "uses_pcm (Sw_params_set_avail_min p _) = {p}"
| "uses_pcm (Sw_params p) = {p}"
| "uses_pcm (Snd_pcm_readi p _) = {p}"
| "uses_pcm (Snd_pcm_writei p _ _) = {p}"
| "uses_pcm _ = {}"

fun uses_codec :: "acall \<Rightarrow> codec set" where
  "uses_codec (Opus_encoder_destroy k) = {k}"
| "uses_codec (Opus_encoder_ctl k _) = {k}"
| "uses_codec (Opus_encode k _ _ _) = {k}"
| "uses_codec (Opus_decoder_destroy k) = {k}"
| "uses_codec (Opus_decode k _ _ _ _) = {k}"
| "uses_codec _ = {}"

text \<open>Calls that neither open nor close anything.\<close>

fun neutral :: "acall \<Rightarrow> bool" where
  "neutral (Snd_pcm_open _ _) = False"
| "neutral (Snd_pcm_close _) = False"
| "neutral (Opus_encoder_create _ _) = False"
| "neutral (Opus_encoder_destroy _) = False"
| "neutral (Opus_decoder_create _ _) = False"
| "neutral (Opus_decoder_destroy _) = False"
| "neutral _ = True"

lemma neutral_live [simp]:
  "neutral c \<Longrightarrow> live_pcms env (c # h) = live_pcms env h"
  "neutral c \<Longrightarrow> live_codecs env (c # h) = live_codecs env h"
  by (cases c; simp)+

text \<open>Every call of a history was given handles that were open at that moment.\<close>

fun hist_ok :: "audio_env \<Rightarrow> acall list \<Rightarrow> bool" where
  "hist_ok env [] = True"
| "hist_ok env (c # h) =
     (uses_pcm c \<subseteq> live_pcms env h \<and> uses_codec c \<subseteq> live_codecs env h \<and> hist_ok env h)"

text \<open>
  The documented behaviour of the libraries the module relies on: a handle or a codec that is
  returned is not one that is still open.
\<close>

definition fresh_handles :: "audio_env \<Rightarrow> bool" where
  "fresh_handles env \<longleftrightarrow>
     (\<forall>d st h. new_pcm env (Snd_pcm_open d st # h) \<notin> live_pcms env h) \<and>
     (\<forall>r c h k. fst (new_codec env (Opus_encoder_create r c # h)) = Some k \<longrightarrow> k \<notin> live_codecs env h) \<and>
     (\<forall>r c h k. fst (new_codec env (Opus_decoder_create r c # h)) = Some k \<longrightarrow> k \<notin> live_codecs env h)"

section \<open>Runs of neutral calls\<close>

text \<open>
  \<open>only_io Q s t\<close>: between \<open>s\<close> and \<open>t\<close> only library calls satisfying \<open>Q\<close> were made, and besides
  the history only the two sample buffers may have changed.
\<close>

definition only_io :: "(acall \<Rightarrow> bool) \<Rightarrow> audio \<Rightarrow> audio \<Rightarrow> bool" where
  "only_io Q s t \<longleftrightarrow> (\<exists>cs b1 b2. (\<forall>c\<in>set cs. Q c) \<and>
     t = s\<lparr>hist := cs @ hist s, capture_pcm_buffer := b1, playback_pcm_buffer := b2\<rparr>)"

lemma only_io_refl [simp]: "only_io Q s s"
  unfolding only_io_def
  by (rule exI [of _ "[]"], rule exI [of _ "capture_pcm_buffer s"],
      rule exI [of _ "playback_pcm_buffer s"]) simp

lemma only_io_trans: "only_io Q s t \<Longrightarrow> only_io Q t u \<Longrightarrow> only_io Q s u"
proof -
  assume "only_io Q s t" and "only_io Q t u"
  then obtain cs b1 b2 ds d1 d2 where
    "\<forall>c\<in>set cs. Q c" "t = s\<lparr>hist := cs @ hist s, capture_pcm_buffer := b1, playback_pcm_buffer := b2\<rparr>"
    "\<forall>c\<in>set ds. Q c" "u = t\<lparr>hist := ds @ hist t, capture_pcm_buffer := d1, playback_pcm_buffer := d2\<rparr>"
    unfolding only_io_def by blast
  then show ?thesis
    unfolding only_io_def by (intro exI [of _ "ds @ cs"] exI [of _ d1] exI [of _ d2]) auto
qed

lemma only_io_calls: "\<forall>c\<in>set cs. Q c \<Longrightarrow> only_io Q s (s\<lparr>hist := cs @ hist s\<rparr>)"
  unfolding only_io_def
  by (rule exI [of _ cs], rule exI [of _ "capture_pcm_buffer s"],
      rule exI [of _ "playback_pcm_buffer s"]) simp

lemma only_io_call [simp]: "Q c \<Longrightarrow> only_io Q s (s\<lparr>hist := c # hist s\<rparr>)"
  unfolding only_io_def
  by (rule exI [of _ "[c]"], rule exI [of _ "capture_pcm_buffer s"],
      rule exI [of _ "playback_pcm_buffer s"]) simp

lemma only_io_acall [simp]: "Q c \<Longrightarrow> only_io Q s (acall_run env c s)"
  "Q c \<Longrightarrow> only_io Q s (snd (acall_do env c s))"
  by (simp_all add: acall_run_def acall_do_def Let_def)

lemma only_io_buffers [simp]:
  "only_io Q s (s\<lparr>capture_pcm_buffer := b\<rparr>)" "only_io Q s (s\<lparr>playback_pcm_buffer := b\<rparr>)"
  unfolding only_io_def
  by (intro exI [of _ "[]"] exI [of _ b] exI [of _ "playback_pcm_buffer s"], simp,
      intro exI [of _ "[]"] exI [of _ "capture_pcm_buffer s"] exI [of _ b], simp)

lemma only_io_mono: "only_io Q s t \<Longrightarrow> (\<And>c. Q c \<Longrightarrow> R c) \<Longrightarrow> only_io R s t"
  unfolding only_io_def by blast

lemma only_io_err_seq:
  assumes "\<And>s. only_io Q s (snd (f s))" and "\<And>s. only_io Q s (snd (g s))"
  shows "only_io Q s (snd (err_seq f g s))"
  using err_seq_rel [of "only_io Q" f g s] assms only_io_trans by blast

text \<open>Calls on one given device, or on one given codec.\<close>

definition on_pcm :: "pcm \<Rightarrow> acall \<Rightarrow> bool" where
  "on_pcm h c \<longleftrightarrow> neutral c \<and> uses_pcm c \<subseteq> {h} \<and> uses_codec c = {}"

definition on_both :: "pcm \<Rightarrow> codec \<Rightarrow> acall \<Rightarrow> bool" where
  "on_both h k c \<longleftrightarrow> neutral c \<and> uses_pcm c \<subseteq> {h} \<and> uses_codec c \<subseteq> {k}"

lemma on_pcm_both: "on_pcm h c \<Longrightarrow> on_both h k c"
  by (auto simp: on_pcm_def on_both_def)

lemma only_io_configure: "only_io (on_pcm h) s (snd (configure_alsa_device env (Some h) s))"
proof -
  have q [simp]: "on_pcm h (Hw_params_any h)" "on_pcm h (Hw_params_set_access h)"
    "on_pcm h (Hw_params_set_format h)" "on_pcm h (Hw_params_set_channels h x)"
    "on_pcm h (Hw_params_set_rate h y)" "on_pcm h (Hw_params_set_rate_near h y)"
    "on_pcm h (Hw_params_set_period_size_near h y)" "on_pcm h (Hw_params_set_buffer_size_near h y)"
    "on_pcm h (Hw_params h)" "on_pcm h (Sw_params_current h)"
    "on_pcm h (Sw_params_set_start_threshold h y)" "on_pcm h (Sw_params_set_avail_min h y)"
    "on_pcm h (Sw_params h)" "on_pcm h (Snd_pcm_prepare h)" for x y
    by (simp_all add: on_pcm_def)
  have r: "only_io (on_pcm h) s (snd (set_rate env h s))" for s
    by (auto simp: set_rate_def acall_do_def Let_def
        intro: only_io_trans [OF only_io_call only_io_call [of _ _ "s\<lparr>hist := _\<rparr>", simplified]])
  have sw: "only_io (on_pcm h) s (snd (configure_sw env h p s))" for p s
    unfolding configure_sw_def by (intro only_io_err_seq) simp_all
  have b: "only_io (on_pcm h) s (snd (configure_buffers env h s))" for s
    unfolding configure_buffers_def Let_def by (intro only_io_err_seq sw) simp_all
  show ?thesis
    unfolding configure_alsa_device_def option.case by (intro only_io_err_seq r b) simp_all
qed

section \<open>The hot functions only make neutral calls\<close>

lemma on_pcm_recovery [simp]:
  "on_pcm h (Snd_pcm_prepare h)" "on_pcm h (Snd_pcm_drop h)" "on_pcm h (Snd_pcm_wait h n)"
  "on_pcm h (Snd_pcm_resume h)" "on_pcm h (Snd_pcm_readi h f)" "on_pcm h (Snd_pcm_writei h xs m)"
  "on_pcm h (Nanosleep x y)"
  by (simp_all add: on_pcm_def)

text \<open>The calls a recovery makes.\<close>

fun recov :: "pcm \<Rightarrow> acall \<Rightarrow> bool" where
  "recov h (Snd_pcm_prepare p) = (p = h)"
| "recov h (Snd_pcm_drop p) = (p = h)"
| "recov h (Snd_pcm_resume p) = (p = h)"
| "recov h (Snd_pcm_wait p _) = (p = h)"
| "recov h _ = False"

lemma recov_on_pcm: "recov h c \<Longrightarrow> on_pcm h c"
  by (cases c) simp_all

lemma only_io_prepare_or_drop: "only_io (recov h) s (snd (prepare_or_drop env h s))"
  using only_io_calls [of "[Snd_pcm_prepare h, Snd_pcm_drop h, Snd_pcm_prepare h]" "recov h" s]
  by (simp add: prepare_or_drop_def acall_run_def acall_do_def Let_def)

lemma only_io_resume_loop: "only_io (recov h) s (snd (resume_loop env h n s))"
proof (induction n arbitrary: s)
  case 0
  then show ?case by (subst resume_loop.simps) (simp add: acall_do_def Let_def)
next
  case (Suc n)
  let ?t = "s\<lparr>hist := Snd_pcm_resume h # hist s\<rparr>"
  let ?u = "acall_run env (Snd_pcm_wait h (sleep_milliseconds ?t)) ?t"
  have "only_io (recov h) s ?t" "only_io (recov h) ?t ?u" by simp_all
  then have "only_io (recov h) s (snd (resume_loop env h n ?u))" using Suc only_io_trans by blast
  then show ?case by (subst resume_loop.simps) (simp add: acall_do_def Let_def)
qed

lemma only_io_do: "only_io Q s t \<Longrightarrow> Q c \<Longrightarrow> only_io Q s (snd (acall_do env c t))"
  "only_io Q s t \<Longrightarrow> Q c \<Longrightarrow> only_io Q s (acall_run env c t)"
  by (auto intro: only_io_trans)

lemma only_io_resume_or_prepare: "only_io (recov h) s (snd (resume_or_prepare env h s))"
  using only_io_resume_loop [of h s env 10]
  by (auto simp: resume_or_prepare_def split: prod.split intro: only_io_do)

lemma only_io_drop_and_prepare: "only_io (recov h) s (snd (drop_and_prepare env h s))"
  unfolding drop_and_prepare_def by (intro only_io_do) simp_all

primrec recovery_state :: "recovery \<Rightarrow> audio" where
  "recovery_state (Retry _ s) = s"
| "recovery_state (Return _ s) = s"

lemmas only_io_recovery = only_io_prepare_or_drop only_io_resume_or_prepare only_io_drop_and_prepare

lemma only_io_read_recover: "only_io (recov h) s (recovery_state (read_recover env h rc ra s))"
  using only_io_recovery [of h s env]
  by (simp add: read_recover_def Let_def case_prod_beta)

lemma only_io_write_recover: "only_io (recov h) s (recovery_state (write_recover env h rc ra s))"
  using only_io_recovery [of h s env]
  by (simp add: write_recover_def Let_def case_prod_beta)

lemma on_both_encode [simp]: "on_both h k (Opus_encode k xs f m)" "on_both h k (Opus_decode k d n f fec)"
  by (simp_all add: on_both_def)

lemma only_io_pad_and_encode: "only_io (on_both h enc) s (snd (pad_and_encode env enc cap rc s))"
proof -
  have "only_io (on_both h enc) s (s\<lparr>capture_pcm_buffer := b, hist := Opus_encode enc b x y # hist s\<rparr>)" for b x y
    using only_io_trans [OF only_io_buffers(1) only_io_call [of "on_both h enc" _ "s\<lparr>capture_pcm_buffer := b\<rparr>"]]
    by simp
  then show ?thesis
    by (auto simp: pad_and_encode_def acall_do_def Let_def split: option.split)
qed

lemma only_io_read_loop:
  assumes "read_loop env h enc cap ra s = Some (r, t)"
  shows "only_io (on_both h enc) s t"
proof -
  have "only_io (on_both h enc) s (snd rt)" if "read_loop env h enc cap ra s = Some rt" for ra s rt
  proof (rule read_loop.raw_induct [where P = "\<lambda>env h enc cap ra s rt. only_io (on_both h enc) s (snd rt)", OF _ that],
      goal_cases)
    case (1 f env h enc cap ra s rt)
    let ?s1 = "s\<lparr>hist := Snd_pcm_readi h (frame_size s) # hist s\<rparr>"
    have s1: "only_io (on_both h enc) s ?s1" by (rule only_io_call) (simp add: on_both_def)
    show ?case
    proof (cases "blit (samples_in env (hist ?s1)) (capture_pcm_buffer s)")
      case None
      then show ?thesis using 1(2) s1 by (auto simp: acall_do_def Let_def)
    next
      case (Some buf)
      let ?s2 = "?s1\<lparr>capture_pcm_buffer := buf\<rparr>"
      let ?rc = "ret env (hist ?s1)"
      have s2: "only_io (on_both h enc) s ?s2" by (rule only_io_trans [OF s1 only_io_buffers(1)])
      have rec: "only_io (on_both h enc) s (recovery_state (read_recover env h ?rc ra ?s2))"
        by (rule only_io_trans [OF s2 only_io_mono [OF only_io_read_recover]])
           (rule on_pcm_both [OF recov_on_pcm])
      show ?thesis
      proof (cases "?rc < 0")
        case True
        have IH: "only_io (on_both h enc) u (snd rt)" if "f env h enc cap x u = Some rt" for x u
          using that by (rule 1(1))
        show ?thesis
          using 1(2) True Some rec
          by (auto simp: acall_do_def Let_def split: recovery.splits dest!: IH intro: only_io_trans)
      next
        case False
        then have "rt = pad_and_encode env enc cap ?rc ?s2"
          using 1(2) Some by (simp add: acall_do_def Let_def)
        then show ?thesis using only_io_trans [OF s2 only_io_pad_and_encode] by blast
      qed
    qed
  qed
  from this [OF assms] show ?thesis by simp
qed

lemma only_io_write_loop: "only_io (on_pcm h) s (snd (write_loop env h n ra s))"
proof (induction env h n ra s rule: write_loop.induct)
  case (1 env h n ra s)
  let ?c = "Snd_pcm_writei h (take (nat n * unat (channels s)) (playback_pcm_buffer s)) n"
  let ?s1 = "s\<lparr>hist := ?c # hist s\<rparr>"
  have s1: "only_io (on_pcm h) s ?s1" by (rule only_io_call) simp
  have rec: "only_io (on_pcm h) s (recovery_state (write_recover env h (ret env (hist ?s1)) ra ?s1))"
    by (rule only_io_trans [OF s1 only_io_mono [OF only_io_write_recover recov_on_pcm]])
  show ?case
  proof (cases "ret env (hist ?s1) < 0")
    case True
    then show ?thesis
      using 1 rec by (subst write_loop.simps)
        (auto simp: acall_do_def Let_def split: recovery.splits intro: only_io_trans)
  next
    case False
    then show ?thesis using s1 by (subst write_loop.simps) (auto simp: acall_do_def Let_def)
  qed
qed

lemma only_io_decode_into:
  "decode_into env dec d len fec s = (n, Some t) \<Longrightarrow> only_io (on_both h dec) s t"
  using only_io_trans [OF only_io_call [of "on_both h dec" "Opus_decode dec d len (frame_size s) fec" s] only_io_buffers(2)]
  by (auto simp: decode_into_def acall_do_def Let_def)

lemma only_io_decode_and_write:
  "only_io (on_both h dec) s (snd (decode_and_write env h dec d n s))"
proof -
  have w: "only_io (on_both h dec) u (snd (write_loop env h m 0 u))" for m u
    by (rule only_io_mono [OF only_io_write_loop]) (rule on_pcm_both)
  have d1: "only_io (on_both h dec) s t" if "decode_into env dec x m fec s = (k, Some t)" for x m fec k t
    using that by (rule only_io_decode_into)
  have d2: "only_io (on_both h dec) s u"
    if "decode_into env dec x m fec s = (k, Some t)" "decode_into env dec x' m' fec' t = (k', Some u)"
    for x m fec k t x' m' fec' k' u
    using only_io_trans [OF only_io_decode_into only_io_decode_into] that by blast
  have w1: "only_io (on_both h dec) s (snd (write_loop env h m 0 t))" if "only_io (on_both h dec) s t" for m t
    using only_io_trans [OF that w] .
  show ?thesis
  proof (cases "decode_into env dec (Some (take (nat n) d)) n False s")
    case first: (Pair k t)
    show ?thesis
    proof (cases t)
      case None
      with first show ?thesis by (simp add: decode_and_write_def)
    next
      case some: (Some u)
      obtain k' t' where second: "decode_into env dec None 0 True u = (k', t')" by fastforce
      have "only_io (on_both h dec) s u" using first some by (auto intro: d1)
      moreover have "only_io (on_both h dec) s v" if "t' = Some v" for v
        using first second some that by (auto intro: d2)
      ultimately show ?thesis
        using first second some w1 by (auto simp: decode_and_write_def split: option.split prod.split)
           (metis snd_conv w1)+
    qed
  qed
qed

section \<open>The resource invariant\<close>

text \<open>
  \<open>res_core\<close>: the history is well formed, and what is open is exactly what the globals hold, with
  no handle held twice.
\<close>

definition res_core :: "audio_env \<Rightarrow> audio \<Rightarrow> bool" where
  "res_core env s \<longleftrightarrow> hist_ok env (hist s) \<and>
     live_pcms env (hist s) = set_option (pcm_capture_handle s) \<union> set_option (pcm_playback_handle s) \<and>
     (pcm_capture_handle s = pcm_playback_handle s \<longrightarrow> pcm_capture_handle s = None) \<and>
     live_codecs env (hist s) = set_option (encoder s) \<union> set_option (decoder s) \<and>
     (encoder s = decoder s \<longrightarrow> encoder s = None)"

text \<open>
  \<open>res_inv\<close>: in addition, a path holds a PCM exactly when it is initialised, and then it also
  holds its codec.
\<close>

definition res_inv :: "audio_env \<Rightarrow> audio \<Rightarrow> bool" where
  "res_inv env s \<longleftrightarrow> res_core env s \<and>
     (capture_initialized s \<longleftrightarrow> pcm_capture_handle s \<noteq> None) \<and>
     (capture_initialized s \<longrightarrow> encoder s \<noteq> None) \<and>
     (playback_initialized s \<longleftrightarrow> pcm_playback_handle s \<noteq> None) \<and>
     (playback_initialized s \<longrightarrow> decoder s \<noteq> None)"

lemma hist_ok_neutral:
  assumes "\<forall>c\<in>set cs. neutral c \<and> uses_pcm c \<subseteq> live_pcms env h \<and> uses_codec c \<subseteq> live_codecs env h"
    and "hist_ok env h"
  shows "hist_ok env (cs @ h) \<and> live_pcms env (cs @ h) = live_pcms env h
         \<and> live_codecs env (cs @ h) = live_codecs env h"
  using assms by (induction cs) auto

lemma only_io_frame:
  assumes "only_io Q s t"
  shows "pcm_capture_handle t = pcm_capture_handle s" "pcm_playback_handle t = pcm_playback_handle s"
    "handle_of p t = handle_of p s" "encoder t = encoder s" "decoder t = decoder s"
    "capture_initialized t = capture_initialized s" "playback_initialized t = playback_initialized s"
    "capture_initializing t = capture_initializing s" "playback_initializing t = playback_initializing s"
  using assms unfolding only_io_def by (cases p; auto)+

lemma res_core_only_io:
  assumes "res_core env s" and "only_io Q s t"
    and "\<And>c. Q c \<Longrightarrow> neutral c \<and> uses_pcm c \<subseteq> live_pcms env (hist s) \<and> uses_codec c \<subseteq> live_codecs env (hist s)"
  shows "res_core env t"
proof -
  obtain cs where cs: "\<forall>c\<in>set cs. Q c" "hist t = cs @ hist s"
    using assms(2) unfolding only_io_def by auto
  have "hist_ok env (hist t) \<and> live_pcms env (hist t) = live_pcms env (hist s)
        \<and> live_codecs env (hist t) = live_codecs env (hist s)"
    unfolding cs(2) using cs(1) assms(1,3) by (intro hist_ok_neutral) (auto simp: res_core_def)
  with assms(1) only_io_frame [OF assms(2)] show ?thesis by (simp add: res_core_def)
qed

lemma handle_live:
  "res_core env s \<Longrightarrow> handle_of p s = Some h \<Longrightarrow> h \<in> live_pcms env (hist s)"
  by (cases p) (auto simp: res_core_def)

lemma codec_live:
  "res_core env s \<Longrightarrow> encoder s = Some k \<Longrightarrow> k \<in> live_codecs env (hist s)"
  "res_core env s \<Longrightarrow> decoder s = Some k \<Longrightarrow> k \<in> live_codecs env (hist s)"
  by (auto simp: res_core_def)

lemma res_core_on_pcm:
  assumes "res_core env s" "handle_of p s = Some h" "only_io (on_pcm h) s t"
  shows "res_core env t"
  using res_core_only_io [OF assms(1,3)] handle_live [OF assms(1,2)] by (auto simp: on_pcm_def)

lemma res_core_on_both:
  assumes "res_core env s" "handle_of p s = Some h" "encoder s = Some k \<or> decoder s = Some k"
    "only_io (on_both h k) s t"
  shows "res_core env t"
  using res_core_only_io [OF assms(1,4)] handle_live [OF assms(1,2)] codec_live [OF assms(1)] assms(3)
  by (auto simp: on_both_def)

lemma res_core_flags [simp]:
  "res_core env (s\<lparr>capture_initialized := a\<rparr>) = res_core env s"
  "res_core env (s\<lparr>capture_initializing := a\<rparr>) = res_core env s"
  "res_core env (s\<lparr>playback_initialized := a\<rparr>) = res_core env s"
  "res_core env (s\<lparr>playback_initializing := a\<rparr>) = res_core env s"
  "res_core env (init_alsa_devices_from_env e s) = res_core env s"
  by (simp_all add: res_core_def init_alsa_devices_from_env_def)

lemma res_core_drop_handle:
  assumes "res_core env s"
  shows "res_core env (drop_handle env p s)" and "handle_of p (drop_handle env p s) = None"
  using assms by (cases p; auto simp: drop_handle_def acall_run_def acall_do_def Let_def res_core_def
      split: option.splits)+

lemma res_core_drain_handle:
  assumes "res_core env s"
  shows "res_core env (drain_handle env p s)" and "handle_of p (drain_handle env p s) = None"
  using assms by (cases p; auto simp: drain_handle_def acall_run_def acall_do_def Let_def res_core_def
      split: option.splits)+

lemma res_core_drop_codec:
  assumes "res_core env s"
  shows "res_core env (drop_encoder env s)" and "res_core env (drop_decoder env s)"
    and "encoder (drop_encoder env s) = None" and "decoder (drop_decoder env s) = None"
  using assms by (auto simp: drop_encoder_def drop_decoder_def acall_run_def acall_do_def Let_def
      res_core_def split: option.splits)

section \<open>Opening\<close>

lemma retry_wait_only_io: "only_io (on_pcm h) s (snd (retry_wait env e b s))"
  by (simp add: retry_wait_def precise_sleep_us_def)

lemma retry_wait_core:
  "res_core env s \<Longrightarrow> retry_wait env e b s = (b', t) \<Longrightarrow>
     res_core env t \<and> (\<exists>h. t = s\<lparr>hist := h\<rparr>)"
proof -
  assume s: "res_core env s" and r: "retry_wait env e b s = (b', t)"
  obtain us where "t = precise_sleep_us env us s" using r by (simp add: retry_wait_def split: if_splits) blast+
  then have t: "t = s\<lparr>hist := Nanosleep (us div 1000000) ((us mod 1000000) * 1000) # hist s\<rparr>"
    by (simp add: precise_sleep_us_def acall_run_def acall_do_def Let_def)
  have "res_core env t" using s unfolding res_core_def t by simp
  with t show ?thesis by blast
qed

lemma set_handle_simps [simp]:
  "handle_of p (set_handle p x s) = x" "hist (set_handle p x s) = hist s"
  "set_handle p x (set_handle p y s) = set_handle p x s"
  "(set_handle p x s)\<lparr>hist := h\<rparr> = set_handle p x (s\<lparr>hist := h\<rparr>)"
  by (cases p; simp)+

lemma set_handle_id: "set_handle p (handle_of p s) s = s"
  by (cases p) simp_all

lemma handle_of_hist [simp]: "handle_of p (s\<lparr>hist := h\<rparr>) = handle_of p s"
  by (cases p) simp_all

lemma res_core_opened:
  assumes "res_core env s" and "handle_of p s = None" and "fresh_handles env"
    and "ret env (Snd_pcm_open d st # hist s) \<ge> 0"
  shows "res_core env (set_handle p (Some (new_pcm env (Snd_pcm_open d st # hist s)))
           (s\<lparr>hist := Snd_pcm_nonblock (new_pcm env (Snd_pcm_open d st # hist s))
                      # Snd_pcm_open d st # hist s\<rparr>))"
proof -
  have "new_pcm env (Snd_pcm_open d st # hist s) \<notin> live_pcms env (hist s)"
    using assms(3) by (simp add: fresh_handles_def)
  with assms show ?thesis by (cases p) (auto simp: res_core_def)
qed

text \<open>The outcome of the retry loop: the device is held and the code is 0, or nothing is held.\<close>

lemma open_loop_outcome:
  assumes "open_loop env p d a b e s = (r, t)" and "res_core env s" and "handle_of p s = None"
    and "fresh_handles env"
  shows "res_core env t \<and> (\<exists>x h. t = set_handle p x (s\<lparr>hist := h\<rparr>)) \<and>
     (if handle_of p t = None then r = e \<or> (\<exists>i<0. r = Some i) else r = Some 0)"
  using assms
proof (induction env p d a b e s arbitrary: r t rule: open_loop.induct)
  case (1 env p d a b e s)
  let ?c = "Snd_pcm_open d (stream_of p)"
  let ?s1 = "s\<lparr>hist := ?c # hist s\<rparr>"
  let ?e = "ret env (?c # hist s)"
  show ?case
  proof (cases "a < max_attempts_global s")
    case False
    then have "r = e" "t = s" using 1(2) by (simp_all add: open_loop.simps [of env p d a b e s])
    moreover have "\<exists>x h. s = set_handle p x (s\<lparr>hist := h\<rparr>)"
      by (rule exI [of _ "handle_of p s"], rule exI [of _ "hist s"]) (simp add: set_handle_id)
    ultimately show ?thesis using 1(3,4) by simp
  next
    case again: True
    show ?thesis
    proof (cases "?e \<ge> 0")
      case True
      with again 1(2) have "r = Some 0" and t: "t = set_handle p (Some (new_pcm env (?c # hist s)))
           (s\<lparr>hist := Snd_pcm_nonblock (new_pcm env (?c # hist s)) # ?c # hist s\<rparr>)"
        by (auto simp: open_loop.simps [of env p d a b e s] acall_run_def acall_do_def Let_def)
      moreover have "res_core env t" unfolding t by (rule res_core_opened) (use 1 True in auto)
      moreover have "handle_of p t \<noteq> None" by (simp add: t)
      ultimately show ?thesis by auto
    next
      case False
      obtain b' s2 where rw: "retry_wait env ?e b ?s1 = (b', s2)" by fastforce
      have "res_core env ?s1" using 1(3) False by (simp add: res_core_def)
      from retry_wait_core [OF this rw] obtain h where
        s2: "res_core env s2" "s2 = s\<lparr>hist := h\<rparr>" by auto
      have rest: "open_loop env p d (a + 1) b' (Some ?e) s2 = (r, t)"
        using 1(2) again False rw by (simp add: open_loop.simps [of env p d a b e s] acall_do_def Let_def)
      have "res_core env t \<and> (\<exists>x h. t = set_handle p x (s2\<lparr>hist := h\<rparr>)) \<and>
        (if handle_of p t = None then r = Some ?e \<or> (\<exists>i<0. r = Some i) else r = Some 0)"
        using 1(1) [OF again _ _ _ rest] False rw s2 1(4,5) by (simp add: acall_do_def Let_def)
      then show ?thesis using False s2(2) by (auto split: if_splits)
    qed
  qed
qed

lemma safe_alsa_open_outcome:
  assumes "safe_alsa_open env p d s = (r, t)" and "res_core env s" and "handle_of p s = None"
    and "fresh_handles env"
  shows "res_core env t" and "\<exists>x h. t = set_handle p x (s\<lparr>hist := h\<rparr>)"
    and "handle_of p t = None \<Longrightarrow> r = None \<or> (\<exists>i<0. r = Some i)"
    and "handle_of p t \<noteq> None \<Longrightarrow> r = Some 0"
  using open_loop_outcome [OF assms(1) [unfolded safe_alsa_open_def] assms(2-)] by auto

section \<open>Initialisation and closing keep the invariant\<close>

text \<open>What an operation of one path leaves alone of the other path.\<close>

definition same_playback :: "audio \<Rightarrow> audio \<Rightarrow> bool" where
  "same_playback s t \<longleftrightarrow> pcm_playback_handle t = pcm_playback_handle s \<and> decoder t = decoder s \<and>
     playback_initialized t = playback_initialized s \<and> playback_initializing t = playback_initializing s"

definition same_capture :: "audio \<Rightarrow> audio \<Rightarrow> bool" where
  "same_capture s t \<longleftrightarrow> pcm_capture_handle t = pcm_capture_handle s \<and> encoder t = encoder s \<and>
     capture_initialized t = capture_initialized s \<and> capture_initializing t = capture_initializing s"

definition capture_ok :: "audio \<Rightarrow> bool" where
  "capture_ok s \<longleftrightarrow> (capture_initialized s \<longleftrightarrow> pcm_capture_handle s \<noteq> None) \<and>
     (capture_initialized s \<longrightarrow> encoder s \<noteq> None)"

definition playback_ok :: "audio \<Rightarrow> bool" where
  "playback_ok s \<longleftrightarrow> (playback_initialized s \<longleftrightarrow> pcm_playback_handle s \<noteq> None) \<and>
     (playback_initialized s \<longrightarrow> decoder s \<noteq> None)"

lemma res_inv_split: "res_inv env s \<longleftrightarrow> res_core env s \<and> capture_ok s \<and> playback_ok s"
  by (auto simp: res_inv_def capture_ok_def playback_ok_def)

lemma playback_ok_same: "same_playback s t \<Longrightarrow> playback_ok t = playback_ok s"
  and capture_ok_same: "same_capture s t \<Longrightarrow> capture_ok t = capture_ok s"
  by (simp_all add: same_playback_def same_capture_def playback_ok_def capture_ok_def)

lemma same_only_io: "only_io Q s t \<Longrightarrow> same_playback s t" "only_io Q s t \<Longrightarrow> same_capture s t"
  by (simp_all add: same_playback_def same_capture_def only_io_frame)

lemma same_trans: "same_playback s t \<Longrightarrow> same_playback t u \<Longrightarrow> same_playback s u"
  "same_capture s t \<Longrightarrow> same_capture t u \<Longrightarrow> same_capture s u"
  by (simp_all add: same_playback_def same_capture_def)

lemma drop_frame [state_simps]:
  "same_playback s (drop_handle env Capture s)" "same_playback s (drop_encoder env s)"
  "same_playback s (drain_handle env Capture s)"
  "same_capture s (drop_handle env Playback s)" "same_capture s (drop_decoder env s)"
  "same_capture s (drain_handle env Playback s)"
  by (auto simp: drop_handle_def drain_handle_def drop_encoder_def drop_decoder_def same_playback_def
      same_capture_def acall_run_def acall_do_def Let_def split: option.split)

lemma drop_handle_own [simp]:
  "encoder (drop_handle env p s) = encoder s" "decoder (drop_handle env p s) = decoder s"
  "capture_initialized (drop_handle env p s) = capture_initialized s"
  "playback_initialized (drop_handle env p s) = playback_initialized s"
  "capture_initializing (drop_handle env p s) = capture_initializing s"
  "playback_initializing (drop_handle env p s) = playback_initializing s"
  by (cases p; auto simp: drop_handle_def acall_run_def acall_do_def Let_def split: option.split)+

lemma drop_codec_own [simp]:
  "capture_initialized (drop_encoder env s) = capture_initialized s"
  "capture_initializing (drop_encoder env s) = capture_initializing s"
  "playback_initialized (drop_decoder env s) = playback_initialized s"
  "playback_initializing (drop_decoder env s) = playback_initializing s"
  "pcm_capture_handle (drop_encoder env s) = pcm_capture_handle s"
  "pcm_playback_handle (drop_decoder env s) = pcm_playback_handle s"
  by (auto simp: drop_encoder_def drop_decoder_def acall_run_def acall_do_def Let_def split: option.split)

lemma drain_handle_own [simp]:
  "encoder (drain_handle env p s) = encoder s" "decoder (drain_handle env p s) = decoder s"
  "capture_initialized (drain_handle env p s) = capture_initialized s"
  "playback_initialized (drain_handle env p s) = playback_initialized s"
  "capture_initializing (drain_handle env p s) = capture_initializing s"
  "playback_initializing (drain_handle env p s) = playback_initializing s"
  by (cases p; auto simp: drain_handle_def acall_run_def acall_do_def Let_def split: option.split)+

lemma only_io_encoder_ctls: "only_io (on_both h enc) s (encoder_ctls env enc cs s)"
proof (induction cs arbitrary: s)
  case (Cons c cs)
  have "on_both h enc (Opus_encoder_ctl enc c)" by (simp add: on_both_def)
  then have "only_io (on_both h enc) s (acall_run env (Opus_encoder_ctl enc c) s)" by (rule only_io_acall)
  from only_io_trans [OF this Cons] show ?case by simp
qed simp

lemma res_core_created:
  assumes "res_core env s" "encoder s = None" "fresh_handles env"
    and "h = Opus_encoder_create x y # hist s"
  shows "res_core env (s\<lparr>hist := h, encoder := fst (new_codec env h)\<rparr>)"
proof (cases "fst (new_codec env h)")
  case None
  with assms show ?thesis by (auto simp: res_core_def)
next
  case (Some k)
  then have "k \<notin> live_codecs env (hist s)" using assms(3,4) by (auto simp: fresh_handles_def)
  with assms Some show ?thesis by (auto simp: res_core_def)
qed

lemma res_core_created_dec:
  assumes "res_core env s" "decoder s = None" "fresh_handles env"
    and "h = Opus_decoder_create x y # hist s"
  shows "res_core env (s\<lparr>hist := h, decoder := fst (new_codec env h)\<rparr>)"
proof (cases "fst (new_codec env h)")
  case None
  with assms show ?thesis by (auto simp: res_core_def)
next
  case (Some k)
  then have "k \<notin> live_codecs env (hist s)" using assms(3,4) by (auto simp: fresh_handles_def)
  with assms Some show ?thesis by (auto simp: res_core_def)
qed

text \<open>The last stage of \<^verbatim>\<open>jetkvm_audio_capture_init\<close>, from an opened and configured device.\<close>

lemma capture_create_encoder_ok:
  assumes "capture_create_encoder env s = (rc, t)" and "res_core env s"
    and "pcm_capture_handle s = Some h" "encoder s = None" "\<not> capture_initialized s" "fresh_handles env"
  shows "res_core env t \<and> capture_ok t \<and> same_playback s t \<and> \<not> capture_initializing t \<and>
         (rc = 0 \<or> rc = -3) \<and> (capture_initialized t \<longleftrightarrow> rc = 0)"
proof -
  define c where "c = Opus_encoder_create (sample_rate s) (channels s) # hist s"
  define s1 where "s1 = s\<lparr>hist := c, encoder := fst (new_codec env c)\<rparr>"
  have core: "res_core env s1" unfolding s1_def by (rule res_core_created) (use assms c_def in auto)
  have fr: "same_playback s s1" by (simp add: s1_def same_playback_def)
  show ?thesis
  proof (cases "\<exists>enc. new_codec env c = (Some enc, OPUS_OK)")
    case True
    then obtain enc where e: "new_codec env c = (Some enc, OPUS_OK)" by blast
    define s2 where "s2 = encoder_ctls env enc (encoder_settings s1) s1"
    have t: "t = s2\<lparr>capture_initialized := True, capture_initializing := False\<rparr>" and rc: "rc = 0"
      using assms(1) e
      by (auto simp: capture_create_encoder_def acall_run_def acall_do_def Let_def s2_def s1_def c_def)
    have io: "only_io (on_both h enc) s1 s2" unfolding s2_def by (rule only_io_encoder_ctls)
    have h1: "handle_of Capture s1 = Some h" "encoder s1 = Some enc" using assms(3) e by (simp_all add: s1_def)
    have "res_core env s2" by (rule res_core_on_both [OF core h1(1) _ io]) (simp add: h1)
    then show ?thesis
      using t rc fr h1 only_io_frame [OF io]
      by (simp add: capture_ok_def same_playback_def)
  next
    case False
    then have t: "t = (drop_handle env Capture s1)\<lparr>capture_initializing := False\<rparr>" and rc: "rc = -3"
      using assms(1)
      by (auto simp: capture_create_encoder_def acall_run_def acall_do_def Let_def s1_def c_def
          split: option.splits prod.splits if_splits)
    show ?thesis
      using t rc fr res_core_drop_handle [OF core, of Capture] drop_frame(1) [of s1 env] assms(5)
      by (simp add: capture_ok_def same_playback_def s1_def)
  qed
qed

end
