(* ===== verification/Audio_Lifecycle.thy ===== *)
theory Audio_Lifecycle
  imports Audio_Resources
begin

text \<open>
  Initialisation, closing and the hot functions together: one contract for the life cycle of an
  audio path (a locale), its two instances, and the invariant of every sequence of calls into
  the module.
\<close>

section \<open>Initialisation\<close>

lemma init_devices_frame [simp]:
  "capture_initializing (init_alsa_devices_from_env env s) = capture_initializing s"
  "capture_initialized (init_alsa_devices_from_env env s) = capture_initialized s"
  "playback_initializing (init_alsa_devices_from_env env s) = playback_initializing s"
  "playback_initialized (init_alsa_devices_from_env env s) = playback_initialized s"
  "capture_ok (init_alsa_devices_from_env env s) = capture_ok s"
  "playback_ok (init_alsa_devices_from_env env s) = playback_ok s"
  "same_playback s (init_alsa_devices_from_env env s)"
  "same_capture s (init_alsa_devices_from_env env s)"
  by (simp_all add: init_alsa_devices_from_env_def capture_ok_def playback_ok_def same_playback_def
      same_capture_def)

text \<open>The middle of \<^verbatim>\<open>jetkvm_audio_capture_init\<close>: open, configure, create the encoder.\<close>

definition capture_bring_up :: "audio_env \<Rightarrow> audio \<Rightarrow> int option \<times> audio" where
  "capture_bring_up env s =
     (case safe_alsa_open env Capture (alsa_capture_device s) s of
        (None, s) \<Rightarrow> (None, s)
      | (Some err, s) \<Rightarrow>
          if err < 0 then (Some (-1), s\<lparr>capture_initializing := False\<rparr>)
          else
            (case configure_alsa_device env (pcm_capture_handle s) s of (err, s) \<Rightarrow>
               if err < 0
               then (Some (-2), (drop_handle env Capture s)\<lparr>capture_initializing := False\<rparr>)
               else (case capture_create_encoder env s of (rc, s) \<Rightarrow> (Some rc, s))))"

lemma capture_init_bring_up:
  "jetkvm_audio_capture_init env s =
     (let s = init_alsa_devices_from_env env s in
      if capture_initializing s then (Some (- EBUSY), s)
      else if capture_initialized s then (Some 0, s\<lparr>capture_initializing := False\<rparr>)
      else capture_bring_up env (drop_handle env Capture (drop_encoder env (s\<lparr>capture_initializing := True\<rparr>))))"
  by (simp add: jetkvm_audio_capture_init_def capture_bring_up_def Let_def)

lemma capture_bring_up_ok:
  assumes "capture_bring_up env s = (r, t)" and "res_core env s"
    and "pcm_capture_handle s = None" "encoder s = None" "\<not> capture_initialized s" "fresh_handles env"
  shows "res_core env t \<and> capture_ok t \<and> same_playback s t \<and> (capture_initialized t \<longleftrightarrow> r = Some 0) \<and>
         (r = None \<or> r \<in> {Some 0, Some (-1), Some (-2), Some (-3)} \<and> \<not> capture_initializing t)"
proof -
  obtain e s1 where o1: "safe_alsa_open env Capture (alsa_capture_device s) s = (e, s1)" by fastforce
  note op = safe_alsa_open_outcome [OF o1 assms(2) _ assms(6), simplified handle_of.simps, OF assms(3)]
  obtain x h where s1: "s1 = set_handle Capture x (s\<lparr>hist := h\<rparr>)" using op(2) by blast
  have fr: "same_playback s s1" by (simp add: s1 same_playback_def)
  have own: "encoder s1 = None" "\<not> capture_initialized s1" using assms(4,5) by (simp_all add: s1)
  show ?thesis
  proof (cases "pcm_capture_handle s1")
    case None
    then consider "e = None" | i where "e = Some i" "i < 0" using op(3) by auto
    then show ?thesis
      using assms(1) o1 op(1) fr own None
      by cases (auto simp: capture_bring_up_def capture_ok_def same_playback_def)
  next
    case (Some h)
    then have e: "e = Some 0" using op(4) by simp
    obtain c s2 where c: "configure_alsa_device env (Some h) s1 = (c, s2)" by fastforce
    have io: "only_io (on_pcm h) s1 s2" using only_io_configure [of h s1 env] c by simp
    have core2: "res_core env s2"
      using res_core_on_pcm [OF op(1), of Capture] Some io by simp
    note f2 = only_io_frame [OF io]
    have fr2: "same_playback s s2" by (rule same_trans(1) [OF fr same_only_io(1) [OF io]])
    show ?thesis
    proof (cases "c < 0")
      case True
      then have "t = (drop_handle env Capture s2)\<lparr>capture_initializing := False\<rparr>" "r = Some (-2)"
        using assms(1) o1 e Some c by (simp_all add: capture_bring_up_def)
      then show ?thesis
        using fr2 drop_frame(1) [of s2 env] res_core_drop_handle [OF core2, of Capture] own f2
        by (simp add: capture_ok_def same_playback_def)
    next
      case False
      obtain rc s3 where s3: "capture_create_encoder env s2 = (rc, s3)" by fastforce
      have "t = s3" "r = Some rc" using assms(1) o1 e Some c False s3 by (simp_all add: capture_bring_up_def)
      then show ?thesis
        using capture_create_encoder_ok [OF s3 core2] Some own f2 fr2 assms(6) same_trans(1) [of s s2 s3]
        by auto
    qed
  qed
qed

lemma capture_init_ok:
  assumes "res_inv env s" "fresh_handles env" and "jetkvm_audio_capture_init env s = (r, t)"
  shows "res_core env t \<and> capture_ok t \<and> same_playback s t \<and>
    (capture_initializing s \<longrightarrow> r = Some (- EBUSY) \<and> capture_initializing t) \<and>
    (\<not> capture_initializing s \<longrightarrow> (capture_initialized t \<longleftrightarrow> r = Some 0) \<and>
       (r = None \<or> r \<in> {Some 0, Some (-1), Some (-2), Some (-3)} \<and> \<not> capture_initializing t))"
proof -
  let ?s0 = "init_alsa_devices_from_env env s"
  let ?s1 = "drop_handle env Capture (drop_encoder env (?s0\<lparr>capture_initializing := True\<rparr>))"
  have inv: "res_core env s" "capture_ok s" using assms(1) by (simp_all add: res_inv_split)
  consider "capture_initializing s" | "\<not> capture_initializing s" "capture_initialized s"
    | "\<not> capture_initializing s" "\<not> capture_initialized s" by blast
  then show ?thesis
  proof cases
    case 1
    then have "r = Some (- EBUSY)" "t = ?s0" using assms(3) by (simp_all add: capture_init_bring_up)
    with 1 inv show ?thesis by simp
  next
    case 2
    then have "r = Some 0" "t = ?s0\<lparr>capture_initializing := False\<rparr>"
      using assms(3) by (simp_all add: capture_init_bring_up)
    with 2 inv show ?thesis
      by (simp add: res_core_def capture_ok_def same_playback_def init_alsa_devices_from_env_def)
  next
    case 3
    then have up: "capture_bring_up env ?s1 = (r, t)" using assms(3) by (simp add: capture_init_bring_up)
    have c0: "res_core env (drop_encoder env (?s0\<lparr>capture_initializing := True\<rparr>))"
      by (rule res_core_drop_codec) (simp add: inv)
    have "pcm_capture_handle ?s1 = None" using res_core_drop_handle(2) [OF c0, of Capture] by simp
    moreover have "encoder ?s1 = None"
      using res_core_drop_codec(3) [of env "?s0\<lparr>capture_initializing := True\<rparr>"] inv by simp
    moreover have "same_playback s ?s1"
      using drop_frame(1,2) init_devices_frame(7) by (fastforce simp: same_playback_def)
    ultimately show ?thesis
      using capture_bring_up_ok [OF up res_core_drop_handle(1) [OF c0]] 3 assms(2) same_trans(1) [of s ?s1 t]
      by auto
  qed
qed

section \<open>Initialisation of the playback path\<close>

text \<open>Opening the configured device, or \<open>default\<close>: the outcome of one \<^verbatim>\<open>safe_alsa_open\<close>.\<close>

lemma playback_open_outcome:
  assumes "playback_open env s = (r, t)" and "res_core env s" and "pcm_playback_handle s = None"
    and "fresh_handles env"
  shows "res_core env t" and "\<exists>x h. t = set_handle Playback x (s\<lparr>hist := h\<rparr>)"
    and "pcm_playback_handle t = None \<Longrightarrow> r = None \<or> (\<exists>i<0. r = Some i)"
    and "pcm_playback_handle t \<noteq> None \<Longrightarrow> r = Some 0"
proof -
  obtain e s1 where o1: "safe_alsa_open env Playback (alsa_playback_device s) s = (e, s1)" by fastforce
  note op1 = safe_alsa_open_outcome [OF o1 assms(2) _ assms(4), simplified handle_of.simps, OF assms(3)]
  obtain x h where s1: "s1 = set_handle Playback x (s\<lparr>hist := h\<rparr>)" using op1(2) by blast
  have "res_core env t \<and> (\<exists>x h. t = set_handle Playback x (s\<lparr>hist := h\<rparr>)) \<and>
     (pcm_playback_handle t = None \<longrightarrow> r = None \<or> (\<exists>i<0. r = Some i)) \<and>
     (pcm_playback_handle t \<noteq> None \<longrightarrow> r = Some 0)"
  proof (cases "\<exists>i<0. e = Some i")
    case False
    then have "t = s1" "r = e" using assms(1) o1
      by (auto simp: playback_open_def split: option.splits if_splits)
    then show ?thesis using op1 by simp
  next
    case True
    then have o2: "safe_alsa_open env Playback ''default'' s1 = (r, t)"
      using assms(1) o1 by (auto simp: playback_open_def)
    have n1: "pcm_playback_handle s1 = None" using True op1(4) by fastforce
    note op2 = safe_alsa_open_outcome [OF o2 op1(1) _ assms(4), simplified handle_of.simps, OF n1]
    from op2(2) show ?thesis using op2(1,3,4) s1 by auto
  qed
  then show "res_core env t" and "\<exists>x h. t = set_handle Playback x (s\<lparr>hist := h\<rparr>)"
    and "pcm_playback_handle t = None \<Longrightarrow> r = None \<or> (\<exists>i<0. r = Some i)"
    and "pcm_playback_handle t \<noteq> None \<Longrightarrow> r = Some 0" by blast+
qed

lemma playback_create_decoder_ok:
  assumes "playback_create_decoder env s = (rc, t)" and "res_core env s"
    and "pcm_playback_handle s = Some h" "decoder s = None" "\<not> playback_initialized s" "fresh_handles env"
  shows "res_core env t \<and> playback_ok t \<and> same_capture s t \<and> \<not> playback_initializing t \<and>
         (rc = 0 \<or> rc = -2) \<and> (playback_initialized t \<longleftrightarrow> rc = 0)"
proof -
  define c where "c = Opus_decoder_create (sample_rate s) (channels s) # hist s"
  define s1 where "s1 = s\<lparr>hist := c, decoder := fst (new_codec env c)\<rparr>"
  have core: "res_core env s1" unfolding s1_def by (rule res_core_created_dec) (use assms c_def in auto)
  have fr: "same_capture s s1" by (simp add: s1_def same_capture_def)
  show ?thesis
  proof (cases "fst (new_codec env c) = None \<or> snd (new_codec env c) \<noteq> OPUS_OK")
    case True
    then have t: "t = (drop_handle env Playback s1)\<lparr>playback_initializing := False\<rparr>" and rc: "rc = -2"
      using assms(1)
      by (auto simp: playback_create_decoder_def acall_run_def acall_do_def Let_def s1_def c_def
          split: prod.splits if_splits)
    show ?thesis
      using t rc fr res_core_drop_handle [OF core, of Playback] drop_frame(4) [of s1 env] assms(5)
      by (simp add: playback_ok_def same_capture_def s1_def)
  next
    case False
    then have "t = s1\<lparr>playback_initialized := True, playback_initializing := False\<rparr>" "rc = 0"
      using assms(1)
      by (auto simp: playback_create_decoder_def acall_run_def acall_do_def Let_def s1_def c_def
          split: prod.splits if_splits)
    then show ?thesis
      using core fr False assms(3) by (simp add: playback_ok_def same_capture_def s1_def)
  qed
qed

definition playback_bring_up :: "audio_env \<Rightarrow> audio \<Rightarrow> int option \<times> audio" where
  "playback_bring_up env s =
     (case playback_open env s of
        (None, s) \<Rightarrow> (None, s)
      | (Some err, s) \<Rightarrow>
          if err < 0 then (Some (-1), s\<lparr>playback_initializing := False\<rparr>)
          else
            (case configure_alsa_device env (pcm_playback_handle s) s of (err, s) \<Rightarrow>
               if err < 0
               then (Some (-1), (drop_handle env Playback s)\<lparr>playback_initializing := False\<rparr>)
               else (case playback_create_decoder env s of (rc, s) \<Rightarrow> (Some rc, s))))"

lemma playback_init_bring_up:
  "jetkvm_audio_playback_init env s =
     (let s = init_alsa_devices_from_env env s in
      if playback_initializing s then (Some (- EBUSY), s)
      else if playback_initialized s then (Some 0, s\<lparr>playback_initializing := False\<rparr>)
      else playback_bring_up env (drop_handle env Playback (drop_decoder env (s\<lparr>playback_initializing := True\<rparr>))))"
  by (simp add: jetkvm_audio_playback_init_def playback_bring_up_def Let_def)

lemma playback_bring_up_ok:
  assumes "playback_bring_up env s = (r, t)" and "res_core env s"
    and "pcm_playback_handle s = None" "decoder s = None" "\<not> playback_initialized s" "fresh_handles env"
  shows "res_core env t \<and> playback_ok t \<and> same_capture s t \<and> (playback_initialized t \<longleftrightarrow> r = Some 0) \<and>
         (r = None \<or> r \<in> {Some 0, Some (-1), Some (-2)} \<and> \<not> playback_initializing t)"
proof -
  obtain e s1 where o1: "playback_open env s = (e, s1)" by fastforce
  note op = playback_open_outcome [OF o1 assms(2,3,6)]
  obtain x h where s1: "s1 = set_handle Playback x (s\<lparr>hist := h\<rparr>)" using op(2) by blast
  have fr: "same_capture s s1" by (simp add: s1 same_capture_def)
  have own: "decoder s1 = None" "\<not> playback_initialized s1" using assms(4,5) by (simp_all add: s1)
  show ?thesis
  proof (cases "pcm_playback_handle s1")
    case None
    then consider "e = None" | i where "e = Some i" "i < 0" using op(3) by auto
    then show ?thesis
      using assms(1) o1 op(1) fr own None
      by cases (auto simp: playback_bring_up_def playback_ok_def same_capture_def)
  next
    case (Some h)
    then have e: "e = Some 0" using op(4) by simp
    obtain c s2 where c: "configure_alsa_device env (Some h) s1 = (c, s2)" by fastforce
    have io: "only_io (on_pcm h) s1 s2" using only_io_configure [of h s1 env] c by simp
    have core2: "res_core env s2"
      using res_core_on_pcm [OF op(1), of Playback] Some io by simp
    note f2 = only_io_frame [OF io]
    have fr2: "same_capture s s2" by (rule same_trans(2) [OF fr same_only_io(2) [OF io]])
    show ?thesis
    proof (cases "c < 0")
      case True
      then have "t = (drop_handle env Playback s2)\<lparr>playback_initializing := False\<rparr>" "r = Some (-1)"
        using assms(1) o1 e Some c by (simp_all add: playback_bring_up_def)
      then show ?thesis
        using fr2 drop_frame(4) [of s2 env] res_core_drop_handle [OF core2, of Playback] own f2
        by (simp add: playback_ok_def same_capture_def)
    next
      case False
      obtain rc s3 where s3: "playback_create_decoder env s2 = (rc, s3)" by fastforce
      have "t = s3" "r = Some rc" using assms(1) o1 e Some c False s3 by (simp_all add: playback_bring_up_def)
      then show ?thesis
        using playback_create_decoder_ok [OF s3 core2] Some own f2 fr2 assms(6) same_trans(2) [of s s2 s3]
        by auto
    qed
  qed
qed

lemma playback_init_ok:
  assumes "res_inv env s" "fresh_handles env" and "jetkvm_audio_playback_init env s = (r, t)"
  shows "res_core env t \<and> playback_ok t \<and> same_capture s t \<and>
    (playback_initializing s \<longrightarrow> r = Some (- EBUSY) \<and> playback_initializing t) \<and>
    (\<not> playback_initializing s \<longrightarrow> (playback_initialized t \<longleftrightarrow> r = Some 0) \<and>
       (r = None \<or> r \<in> {Some 0, Some (-1), Some (-2)} \<and> \<not> playback_initializing t))"
proof -
  let ?s0 = "init_alsa_devices_from_env env s"
  let ?s1 = "drop_handle env Playback (drop_decoder env (?s0\<lparr>playback_initializing := True\<rparr>))"
  have inv: "res_core env s" "playback_ok s" using assms(1) by (simp_all add: res_inv_split)
  consider "playback_initializing s" | "\<not> playback_initializing s" "playback_initialized s"
    | "\<not> playback_initializing s" "\<not> playback_initialized s" by blast
  then show ?thesis
  proof cases
    case 1
    then have "r = Some (- EBUSY)" "t = ?s0" using assms(3) by (simp_all add: playback_init_bring_up)
    with 1 inv show ?thesis by simp
  next
    case 2
    then have "r = Some 0" "t = ?s0\<lparr>playback_initializing := False\<rparr>"
      using assms(3) by (simp_all add: playback_init_bring_up)
    with 2 inv show ?thesis
      by (simp add: res_core_def playback_ok_def same_capture_def init_alsa_devices_from_env_def)
  next
    case 3
    then have up: "playback_bring_up env ?s1 = (r, t)" using assms(3) by (simp add: playback_init_bring_up)
    have c0: "res_core env (drop_decoder env (?s0\<lparr>playback_initializing := True\<rparr>))"
      by (rule res_core_drop_codec) (simp add: inv)
    have "pcm_playback_handle ?s1 = None" using res_core_drop_handle(2) [OF c0, of Playback] by simp
    moreover have "decoder ?s1 = None"
      using res_core_drop_codec(4) [of env "?s0\<lparr>playback_initializing := True\<rparr>"] inv by simp
    moreover have "same_capture s ?s1"
      using drop_frame(4,5) init_devices_frame(8) by (fastforce simp: same_capture_def)
    ultimately show ?thesis
      using playback_bring_up_ok [OF up res_core_drop_handle(1) [OF c0]] 3 assms(2) same_trans(2) [of s ?s1 t]
      by auto
  qed
qed

end
