(* ===== verification/Audio_Common.thy ===== *)
theory Audio_Common
  imports C_Lib
begin

text \<open>
  \<^verbatim>\<open>internal/audio/c/audio_common.c\<close> and \<^verbatim>\<open>audio_common.h\<close>: signal handling for graceful
  shutdown, configuration from environment variables, and the error tracker of the audio
  loops. The process environment (\<^verbatim>\<open>getenv\<close>) is the parameter \<open>env\<close>; the running flag lives in
  a memory \<open>mem\<close> indexed by addresses, because the handler reaches it through a pointer.
\<close>

section \<open>Constants\<close>

definition AUDIO_MAX_PACKET_SIZE :: nat where "AUDIO_MAX_PACKET_SIZE = 1500"
definition AUDIO_SLEEP_MICROSECONDS :: nat where "AUDIO_SLEEP_MICROSECONDS = 1000"
definition AUDIO_MAX_ATTEMPTS :: nat where "AUDIO_MAX_ATTEMPTS = 5"
definition AUDIO_MAX_BACKOFF_US :: nat where "AUDIO_MAX_BACKOFF_US = 500000"
definition AUDIO_MAX_CONSECUTIVE_ERRORS :: u8 where "AUDIO_MAX_CONSECUTIVE_ERRORS = 10"
definition AUDIO_TRACE_MASK :: u32 where "AUDIO_TRACE_MASK = 0x3FF"

section \<open>Signal handlers\<close>

definition SIGINT :: int where "SIGINT = 2"
definition SIGPIPE :: int where "SIGPIPE = 13"
definition SIGTERM :: int where "SIGTERM = 15"

datatype disposition = SIG_DFL | SIG_IGN | Signal_handler

record sig_state =
  g_running_ptr :: "nat option"
  mem :: "nat \<Rightarrow> int"
  dispositions :: "int \<Rightarrow> disposition"
  stdout :: "string list"
  terminated :: bool

definition signal_handler :: "int \<Rightarrow> sig_state \<Rightarrow> sig_state" where
  "signal_handler signo s =
     (if signo = SIGTERM \<or> signo = SIGINT then
        let s = s\<lparr>stdout := (''Audio server: Received signal '' @ fmt_d signo
                              @ '', shutting down...'') # stdout s\<rparr>
        in case g_running_ptr s of None \<Rightarrow> s | Some p \<Rightarrow> s\<lparr>mem := (mem s)(p := 0)\<rparr>
      else s)"

definition audio_common_setup_signal_handlers :: "nat option \<Rightarrow> sig_state \<Rightarrow> sig_state" where
  "audio_common_setup_signal_handlers running s =
     s\<lparr>g_running_ptr := running,
       dispositions := (dispositions s)(SIGTERM := Signal_handler, SIGINT := Signal_handler,
                                        SIGPIPE := SIG_IGN)\<rparr>"

text \<open>Delivery of a signal by the kernel, for the signals whose default action is to terminate.\<close>

definition deliver :: "int \<Rightarrow> sig_state \<Rightarrow> sig_state" where
  "deliver signo s = (case dispositions s signo of
       SIG_DFL \<Rightarrow> s\<lparr>terminated := True\<rparr> | SIG_IGN \<Rightarrow> s | Signal_handler \<Rightarrow> signal_handler signo s)"

lemmas signal_defs = SIGINT_def SIGPIPE_def SIGTERM_def

section \<open>Environment variables\<close>

definition audio_common_parse_env_int :: "(string \<Rightarrow> string option) \<Rightarrow> string \<Rightarrow> int \<Rightarrow> int" where
  "audio_common_parse_env_int env name default_value =
     (case env name of None \<Rightarrow> default_value
      | Some str \<Rightarrow> if str = [] then default_value else atoi str)"

definition audio_common_parse_env_string ::
  "(string \<Rightarrow> string option) \<Rightarrow> string \<Rightarrow> string \<Rightarrow> string" where
  "audio_common_parse_env_string env name default_value =
     (case env name of None \<Rightarrow> default_value
      | Some str \<Rightarrow> if str = [] then default_value else str)"

record audio_config_t =
  alsa_device :: string
  cfg_opus_bitrate :: int
  cfg_opus_complexity :: int
  cfg_sample_rate :: int
  cfg_channels :: int
  cfg_frame_size :: int

text \<open>The configuration and the lines printed about it.\<close>

definition audio_common_load_config ::
  "(string \<Rightarrow> string option) \<Rightarrow> bool \<Rightarrow> audio_config_t \<times> string list" where
  "audio_common_load_config env is_output =
     (let dev = (if is_output then audio_common_parse_env_string env ''ALSA_CAPTURE_DEVICE'' ''hw:1,0''
                 else audio_common_parse_env_string env ''ALSA_PLAYBACK_DEVICE'' ''hw:1,0'');
          cfg = \<lparr>alsa_device = dev,
                 cfg_opus_bitrate = audio_common_parse_env_int env ''OPUS_BITRATE'' 128000,
                 cfg_opus_complexity = audio_common_parse_env_int env ''OPUS_COMPLEXITY'' 2,
                 cfg_sample_rate = audio_common_parse_env_int env ''AUDIO_SAMPLE_RATE'' 48000,
                 cfg_channels = audio_common_parse_env_int env ''AUDIO_CHANNELS'' 2,
                 cfg_frame_size = audio_common_parse_env_int env ''AUDIO_FRAME_SIZE'' 960\<rparr>
      in (cfg,
          [''Audio '' @ (if is_output then ''Output'' else ''Input'') @ '' Server Configuration:'',
           ''  ALSA Device:    '' @ alsa_device cfg,
           ''  Sample Rate:    '' @ fmt_d (cfg_sample_rate cfg) @ '' Hz'',
           ''  Channels:       '' @ fmt_d (cfg_channels cfg),
           ''  Frame Size:     '' @ fmt_d (cfg_frame_size cfg) @ '' samples'']
          @ (if is_output
             then [''  Opus Bitrate:   '' @ fmt_d (cfg_opus_bitrate cfg) @ '' bps'',
                   ''  Opus Complexity: '' @ fmt_d (cfg_opus_complexity cfg)]
             else [])))"

definition audio_common_print_startup :: "string \<Rightarrow> string" where
  "audio_common_print_startup server_name = ''JetKVM '' @ server_name @ '' Starting...''"

definition audio_common_print_shutdown :: "string \<Rightarrow> string" where
  "audio_common_print_shutdown server_name = ''Shutting down '' @ server_name @ ''...''"

section \<open>Error tracking\<close>

record audio_error_tracker_t =
  consecutive_errors :: u8
  frame_count :: u32

definition audio_error_tracker_init :: "audio_error_tracker_t \<Rightarrow> audio_error_tracker_t" where
  "audio_error_tracker_init t = t\<lparr>consecutive_errors := 0, frame_count := 0\<rparr>"

definition audio_error_tracker_record_error ::
  "audio_error_tracker_t \<Rightarrow> u8 \<times> audio_error_tracker_t" where
  "audio_error_tracker_record_error t =
     (let t = t\<lparr>consecutive_errors := consecutive_errors t + 1\<rparr>
      in (if consecutive_errors t \<ge> AUDIO_MAX_CONSECUTIVE_ERRORS then 1 else 0, t))"

definition audio_error_tracker_record_success ::
  "audio_error_tracker_t \<Rightarrow> audio_error_tracker_t" where
  "audio_error_tracker_record_success t =
     t\<lparr>consecutive_errors := 0, frame_count := frame_count t + 1\<rparr>"

definition audio_error_tracker_should_trace :: "audio_error_tracker_t \<Rightarrow> u8" where
  "audio_error_tracker_should_trace t =
     (if frame_count t AND AUDIO_TRACE_MASK = 1 then 1 else 0)"

lemmas tracker_defs = audio_error_tracker_init_def audio_error_tracker_record_error_def
  audio_error_tracker_record_success_def audio_error_tracker_should_trace_def
  AUDIO_MAX_CONSECUTIVE_ERRORS_def AUDIO_TRACE_MASK_def

section \<open>Behaviour of the error tracker\<close>

datatype outcome = Err | Success

text \<open>The tracker after a sequence of outcomes, oldest first, and its answer to one more error.\<close>

fun tracker_run :: "audio_error_tracker_t \<Rightarrow> outcome list \<Rightarrow> audio_error_tracker_t" where
  "tracker_run t [] = t"
| "tracker_run t (Err # os) = tracker_run (snd (audio_error_tracker_record_error t)) os"
| "tracker_run t (Success # os) = tracker_run (audio_error_tracker_record_success t) os"

text \<open>Specification: errors since the last success, and the number of successes.\<close>

fun trailing_errors :: "nat \<Rightarrow> outcome list \<Rightarrow> nat" where
  "trailing_errors n [] = n"
| "trailing_errors n (Err # os) = trailing_errors (Suc n) os"
| "trailing_errors n (Success # os) = trailing_errors 0 os"

lemma unat_Suc_mod: "(x + 1 = (of_nat (Suc n) :: 'a::len word)) = (x = of_nat n)"
  by (simp add: add.commute)

lemma tracker_run_errors:
  "consecutive_errors t = of_nat n \<Longrightarrow>
   consecutive_errors (tracker_run t os) = of_nat (trailing_errors n os)"
  by (induction os arbitrary: t n rule: tracker_run.induct)
     (auto simp: tracker_defs Let_def)

end
