(* ===== verification/Audio_Safety.thy ===== *)
theory Audio_Safety
  imports Audio_Lifecycle Audio_Common
begin

text \<open>
  The properties of the audio module: the contract of a path's life cycle, resource safety of
  every call sequence, and the behaviour of the hot functions.
\<close>

section \<open>The life cycle contract\<close>

locale lifecycle =
  fixes init :: "audio \<Rightarrow> int option \<times> audio" and close :: "audio \<Rightarrow> audio option"
    and busy :: "audio \<Rightarrow> bool" and ready :: "audio \<Rightarrow> bool" and inv :: "audio \<Rightarrow> bool"
  assumes init_busy: "busy s \<Longrightarrow> fst (init s) = Some (- EBUSY)"
    and init_ready: "\<not> busy s \<Longrightarrow> ready s \<Longrightarrow> fst (init s) = Some 0"
    and init_inv: "inv s \<Longrightarrow> init s = (q, t) \<Longrightarrow> inv t"
    and init_done: "inv s \<Longrightarrow> \<not> busy s \<Longrightarrow> init s = (Some r, t) \<Longrightarrow> \<not> busy t \<and> (ready t \<longleftrightarrow> r = 0)"
    and close_blocks: "close s = None \<longleftrightarrow> busy s"
    and close_done: "inv s \<Longrightarrow> close s = Some t \<Longrightarrow> inv t \<and> \<not> ready t \<and> \<not> busy t"
    and close_idle: "\<not> busy s \<Longrightarrow> \<not> ready s \<Longrightarrow> close s = Some s"
begin

lemma init_idempotent:
  assumes "inv s" "\<not> busy s" "init s = (Some 0, t)"
  shows "fst (init t) = Some 0"
  using init_done [OF assms] init_ready [of t] by simp

lemma init_then_close:
  assumes "inv s" "\<not> busy s" "init s = (Some r, t)"
  shows "\<exists>u. close t = Some u \<and> inv u \<and> \<not> ready u \<and> \<not> busy u \<and> close u = Some u"
proof -
  have t: "inv t" "\<not> busy t" using init_inv [OF assms(1,3)] init_done [OF assms] by simp_all
  then obtain u where u: "close t = Some u" using close_blocks [of t] by (cases "close t") auto
  from close_done [OF t(1) u] close_idle [of u] u show ?thesis by blast
qed

end

lemma same_playback_inv:
  "res_inv env s \<Longrightarrow> res_core env t \<Longrightarrow> capture_ok t \<Longrightarrow> same_playback s t \<Longrightarrow> res_inv env t"
  using playback_ok_same [of s t] by (simp add: res_inv_split)

lemma same_capture_inv:
  "res_inv env s \<Longrightarrow> res_core env t \<Longrightarrow> playback_ok t \<Longrightarrow> same_capture s t \<Longrightarrow> res_inv env t"
  using capture_ok_same [of s t] by (simp add: res_inv_split)

lemma capture_init_inv:
  "res_inv env s \<Longrightarrow> fresh_handles env \<Longrightarrow> jetkvm_audio_capture_init env s = (r, t) \<Longrightarrow> res_inv env t"
  using capture_init_ok [of env s r t] same_playback_inv [of env s t] by blast

lemma playback_init_inv:
  "res_inv env s \<Longrightarrow> fresh_handles env \<Longrightarrow> jetkvm_audio_playback_init env s = (r, t) \<Longrightarrow> res_inv env t"
  using playback_init_ok [of env s r t] same_capture_inv [of env s t] by blast

lemma capture_close_ok:
  assumes "res_inv env s" "jetkvm_audio_capture_close env s = Some t"
  shows "res_inv env t \<and> \<not> capture_initialized t \<and> \<not> capture_initializing t \<and> same_playback s t"
proof (cases "capture_initialized s")
  case False
  with assms show ?thesis
    by (auto simp: jetkvm_audio_capture_close_def same_playback_def split: if_splits)
next
  case True
  let ?s1 = "drop_encoder env (s\<lparr>capture_initialized := False\<rparr>)"
  have t: "t = drain_handle env Capture ?s1" "\<not> capture_initializing s"
    using assms(2) True by (auto simp: jetkvm_audio_capture_close_def split: if_splits)
  have "res_core env ?s1" by (rule res_core_drop_codec) (use assms(1) in \<open>simp add: res_inv_split\<close>)
  note d = res_core_drain_handle [OF this, of Capture, folded t(1)]
  have fr: "same_playback s t"
    using drop_frame(2,3) by (fastforce simp: t(1) same_playback_def)
  show ?thesis
    using same_playback_inv [OF assms(1) d(1) _ fr] d(2) fr t by (simp add: capture_ok_def)
qed

lemma playback_close_ok:
  assumes "res_inv env s" "jetkvm_audio_playback_close env s = Some t"
  shows "res_inv env t \<and> \<not> playback_initialized t \<and> \<not> playback_initializing t \<and> same_capture s t"
proof (cases "playback_initialized s")
  case False
  with assms show ?thesis
    by (auto simp: jetkvm_audio_playback_close_def same_capture_def split: if_splits)
next
  case True
  let ?s1 = "drop_decoder env (s\<lparr>playback_initialized := False\<rparr>)"
  have t: "t = drain_handle env Playback ?s1" "\<not> playback_initializing s"
    using assms(2) True by (auto simp: jetkvm_audio_playback_close_def split: if_splits)
  have "res_core env ?s1" by (rule res_core_drop_codec) (use assms(1) in \<open>simp add: res_inv_split\<close>)
  note d = res_core_drain_handle [OF this, of Playback, folded t(1)]
  have fr: "same_capture s t"
    using drop_frame(5,6) by (fastforce simp: t(1) same_capture_def)
  show ?thesis
    using same_capture_inv [OF assms(1) d(1) _ fr] d(2) fr t by (simp add: playback_ok_def)
qed

definition safe_state :: "audio_env \<Rightarrow> audio \<Rightarrow> bool" where
  "safe_state env s \<longleftrightarrow> res_inv env s \<and> fresh_handles env"

interpretation capture_path: lifecycle "jetkvm_audio_capture_init env" "jetkvm_audio_capture_close env"
  capture_initializing capture_initialized "safe_state env" for env
proof (unfold_locales, goal_cases)
  case (3 s r t)
  then show ?case using capture_init_inv by (auto simp: safe_state_def)
next
  case (4 s r t)
  then show ?case using capture_init_ok [of env s "Some r" t] by (auto simp: safe_state_def)
next
  case (6 s t)
  then show ?case using capture_close_ok [of env s t] by (auto simp: safe_state_def)
qed (simp_all add: capture_init_bring_up jetkvm_audio_capture_close_def Let_def)

interpretation playback_path: lifecycle "jetkvm_audio_playback_init env" "jetkvm_audio_playback_close env"
  playback_initializing playback_initialized "safe_state env" for env
proof (unfold_locales, goal_cases)
  case (3 s r t)
  then show ?case using playback_init_inv by (auto simp: safe_state_def)
next
  case (4 s r t)
  then show ?case using playback_init_ok [of env s "Some r" t] by (auto simp: safe_state_def)
next
  case (6 s t)
  then show ?case using playback_close_ok [of env s t] by (auto simp: safe_state_def)
qed (simp_all add: playback_init_bring_up jetkvm_audio_playback_close_def Let_def)

section \<open>Call sequences\<close>

text \<open>One call into the module that returns without a memory fault.\<close>

inductive audio_step :: "audio_env \<Rightarrow> audio \<Rightarrow> audio \<Rightarrow> bool" for env where
  capture_init: "jetkvm_audio_capture_init env s = (Some r, t) \<Longrightarrow> audio_step env s t"
| capture_close: "jetkvm_audio_capture_close env s = Some t \<Longrightarrow> audio_step env s t"
| read_encode: "jetkvm_audio_read_encode env buf s = Some (Ret r, t) \<Longrightarrow> audio_step env s t"
| playback_init: "jetkvm_audio_playback_init env s = (Some r, t) \<Longrightarrow> audio_step env s t"
| playback_close: "jetkvm_audio_playback_close env s = Some t \<Longrightarrow> audio_step env s t"
| decode_write: "jetkvm_audio_decode_write env data n s = (Ret r, t) \<Longrightarrow> audio_step env s t"
| constants: "audio_step env s (update_audio_constants b c sr ch fs mp us ma mb s)"
| decoder_constants: "audio_step env s (update_audio_decoder_constants sr ch fs mp us ma mb s)"
| encoder_params: "update_opus_encoder_params env b c s = (r, t) \<Longrightarrow> audio_step env s t"

lemma res_inv_only_io:
  assumes "res_inv env s" "only_io Q s t" "res_core env t"
  shows "res_inv env t"
  using assms only_io_frame [OF assms(2)] by (simp add: res_inv_def)

lemma read_encode_inv:
  assumes "res_inv env s" "jetkvm_audio_read_encode env buf s = Some (r, t)"
  shows "res_inv env t"
proof (cases "t = s")
  case False
  then obtain h enc cap where h: "pcm_capture_handle s = Some h" "encoder s = Some enc"
    and r: "read_loop env h enc cap 0 s = Some (r, t)"
    using assms(2) by (auto simp: jetkvm_audio_read_encode_def split: if_splits option.splits)
  have io: "only_io (on_both h enc) s t" using r by (rule only_io_read_loop)
  have "res_core env t"
    using res_core_on_both [OF _ _ _ io, of env Capture] assms(1) h by (simp add: res_inv_def)
  then show ?thesis using res_inv_only_io [OF assms(1) io] by simp
qed (use assms in simp)

lemma decode_write_inv:
  assumes "res_inv env s" "jetkvm_audio_decode_write env data n s = (r, t)"
  shows "res_inv env t"
proof (cases "t = s")
  case False
  then obtain h dec d where h: "pcm_playback_handle s = Some h" "decoder s = Some dec"
    and r: "decode_and_write env h dec d n s = (r, t)"
    using assms(2) by (auto simp: jetkvm_audio_decode_write_def split: if_splits option.splits)
  have io: "only_io (on_both h dec) s t" using only_io_decode_and_write [of h dec s env d n] r by simp
  have "res_core env t"
    using res_core_on_both [OF _ _ _ io, of env Playback] assms(1) h by (simp add: res_inv_def)
  then show ?thesis using res_inv_only_io [OF assms(1) io] by simp
qed (use assms in simp)

lemma encoder_params_inv:
  assumes "res_inv env s" "update_opus_encoder_params env b c s = (r, t)"
  shows "res_inv env t"
  using assms by (auto simp: update_opus_encoder_params_def acall_do_def Let_def res_inv_def res_core_def
      split: option.splits if_splits)

lemma constants_inv:
  "res_inv env s \<Longrightarrow> res_inv env (update_audio_constants b c sr ch fs mp us ma mb s)"
  "res_inv env s \<Longrightarrow> res_inv env (update_audio_decoder_constants sr ch fs mp us ma mb s)"
  by (simp_all add: update_audio_constants_def update_audio_decoder_constants_def res_inv_def res_core_def)

lemma audio_step_inv: "audio_step env s t \<Longrightarrow> safe_state env s \<Longrightarrow> safe_state env t"
  by (cases rule: audio_step.cases)
     (auto simp: safe_state_def intro: capture_init_inv playback_init_inv read_encode_inv decode_write_inv
       encoder_params_inv constants_inv dest: capture_close_ok playback_close_ok)

interpretation audio_calls: invariant_system "\<lambda>s. s = audio_globals \<and> fresh_handles env"
  "audio_step env" "safe_state env" for env
proof
  show "s = audio_globals \<and> fresh_handles env \<Longrightarrow> safe_state env s" for s
    by (simp add: safe_state_def res_inv_def res_core_def audio_globals_def)
qed (auto intro: audio_step_inv)

end
