(* ===== verification/Audio_Props.thy ===== *)
theory Audio_Props
  imports Audio_Safety
begin

text \<open>
  The stated properties of the audio components, each with a witness at concrete values where
  it has hypotheses. The lemmas they rest on are in the theories of the components and in the
  first section.
\<close>

section \<open>Counting calls\<close>

fun is_writei :: "acall \<Rightarrow> bool" where
  "is_writei (Snd_pcm_writei _ _ _) = True" | "is_writei _ = False"

fun is_open :: "acall \<Rightarrow> bool" where
  "is_open (Snd_pcm_open _ _) = True" | "is_open _ = False"

definition calls_made :: "(acall \<Rightarrow> bool) \<Rightarrow> audio \<Rightarrow> audio \<Rightarrow> nat" where
  "calls_made P s t = length (filter P (hist t)) - length (filter P (hist s))"

lemma filter_only_io:
  "only_io Q s t \<Longrightarrow> (\<And>c. Q c \<Longrightarrow> \<not> P c) \<Longrightarrow> length (filter P (hist t)) = length (filter P (hist s))"
  unfolding only_io_def by (auto simp: filter_False)

lemma recov_not_writei: "recov h c \<Longrightarrow> \<not> is_writei c"
  by (cases c) simp_all

lemma write_loop_writes:
  "length (filter is_writei (hist (snd (write_loop env h n ra s))))
   \<le> length (filter is_writei (hist s)) + unat (3 - ra) + 1"
proof (induction env h n ra s rule: write_loop.induct)
  case (1 env h n ra s)
  let ?c = "Snd_pcm_writei h (take (nat n * unat (channels s)) (playback_pcm_buffer s)) n"
  let ?s1 = "s\<lparr>hist := ?c # hist s\<rparr>"
  let ?rc = "ret env (?c # hist s)"
  have rec: "length (filter is_writei (hist (recovery_state (write_recover env h ?rc ra ?s1))))
             = Suc (length (filter is_writei (hist s)))"
    using filter_only_io [OF only_io_write_recover [of h ?s1 env ?rc ra], of is_writei] recov_not_writei
    by simp
  show ?case
  proof (cases "?rc < 0")
    case True
    show ?thesis
    proof (cases "write_recover env h ?rc ra ?s1")
      case (Retry ra' s2)
      have "unat (3 - ra') < unat (3 - ra)"
        using write_recover_Retry [OF Retry] retry_measure [of ra] by simp
      with 1 [of ?rc ?s1] True Retry rec show ?thesis
        by (subst write_loop.simps) (auto simp: acall_do_def Let_def)
    next
      case (Return r s2)
      with True rec show ?thesis by (subst write_loop.simps) (auto simp: acall_do_def Let_def)
    qed
  next
    case False
    then show ?thesis by (subst write_loop.simps) (auto simp: acall_do_def Let_def)
  qed
qed

lemma decode_into_writes:
  "decode_into env dec d len fec s = (n, Some t) \<Longrightarrow> filter is_writei (hist t) = filter is_writei (hist s)"
  by (auto simp: decode_into_def acall_do_def Let_def)

lemma decode_and_write_writes:
  "length (filter is_writei (hist (snd (decode_and_write env h dec d n s))))
   \<le> length (filter is_writei (hist s)) + 4"
proof -
  have w: "length (filter is_writei (hist (snd (write_loop env h m 0 u)))) \<le> length (filter is_writei (hist s)) + 4"
    if "filter is_writei (hist u) = filter is_writei (hist s)" for m u
    using write_loop_writes [of env h m 0 u] that by simp
  have "length (filter is_writei (hist v)) \<le> length (filter is_writei (hist s)) + 4"
    if "filter is_writei (hist u) = filter is_writei (hist s)" "write_loop env h m 0 u = (r, v)" for m u r v
    using w [OF that(1), of m] that(2) by simp
  note w2 = this
  show ?thesis
    by (auto simp: decode_and_write_def split: prod.split option.split
        dest!: decode_into_writes intro: w2)
qed

section \<open>Resource safety\<close>

text \<open>C1: Whatever sequence of calls is made into the audio module from its initial globals, and
  whatever ALSA and Opus answer, every library call was given handles that were open at that
  moment, the open PCMs are exactly the ones held in the two globals, the open codecs are exactly
  the encoder and decoder held, and a path holds a PCM exactly when its initialized flag is set:
  no use after close, no double close, no leak.\<close>

theorem audio_resource_safety:
  assumes "fresh_handles env" and "reach (\<lambda>s. s = audio_globals) (audio_step env) s"
  shows "hist_ok env (hist s) \<and>
    live_pcms env (hist s) = set_option (pcm_capture_handle s) \<union> set_option (pcm_playback_handle s) \<and>
    live_codecs env (hist s) = set_option (encoder s) \<union> set_option (decoder s) \<and>
    (capture_initialized s \<longleftrightarrow> pcm_capture_handle s \<noteq> None) \<and>
    (playback_initialized s \<longleftrightarrow> pcm_playback_handle s \<noteq> None)"
  using audio_calls.inv_reach [of env s] assms by (simp add: safe_state_def res_inv_def res_core_def)

text \<open>A concrete environment: handles are numbered by the length of the history, every ALSA call
  succeeds with 960 frames, and Opus creates codecs without an error.\<close>

definition quiet_env :: audio_env where
  "quiet_env = \<lparr>getenv = (\<lambda>_. None), ret = (\<lambda>_. 960), new_pcm = length,
     new_codec = (\<lambda>h. (Some (length h), 0)), near = (\<lambda>_. 960),
     samples_in = (\<lambda>h. case h of Snd_pcm_readi _ _ # _ \<Rightarrow> replicate 1920 7
                       | Opus_decode _ _ _ _ _ # _ \<Rightarrow> replicate 1920 7 | _ \<Rightarrow> []),
     packet_out = (\<lambda>h. replicate 100 1)\<rparr>"

lemma live_below:
  "new_pcm env = length \<Longrightarrow> p \<in> live_pcms env h \<Longrightarrow> p \<le> length h"
  by (induction env h rule: live_pcms.induct) (auto split: if_splits)

lemma live_codecs_below:
  "\<forall>h. fst (new_codec env h) = Some (length h) \<Longrightarrow> k \<in> live_codecs env h \<Longrightarrow> k \<le> length h"
  by (induction env h rule: live_codecs.induct) auto

lemma numbered_fresh:
  "new_pcm env = length \<Longrightarrow> \<forall>h. fst (new_codec env h) = Some (length h) \<Longrightarrow> fresh_handles env"
  using live_below [of env] live_codecs_below [of env] by (fastforce simp: fresh_handles_def)

lemma quiet_fresh: "fresh_handles quiet_env"
  by (rule numbered_fresh) (simp_all add: quiet_env_def)

theorem audio_resource_safety_witness:
  "fresh_handles quiet_env \<and>
   hist_ok quiet_env (hist (snd (jetkvm_audio_capture_init quiet_env audio_globals)))"
proof -
  obtain r t where i: "jetkvm_audio_capture_init quiet_env audio_globals = (r, t)" by fastforce
  have "res_inv quiet_env audio_globals"
    by (simp add: res_inv_def res_core_def audio_globals_def)
  note ok = capture_init_ok [OF this quiet_fresh i]
  have "audio_step quiet_env audio_globals t \<or> r = None"
    using i by (cases r) (auto intro: audio_step.capture_init)
  moreover have "r \<noteq> None"
    using i by (auto simp: jetkvm_audio_capture_init_def safe_alsa_open_def open_loop.simps Let_def
        audio_globals_def init_alsa_devices_from_env_def drop_handle_def drop_encoder_def acall_do_def
        quiet_env_def split: prod.splits if_splits)
  ultimately have "reach (\<lambda>s. s = audio_globals) (audio_step quiet_env) t"
    by (blast intro: reach.intros)
  from audio_resource_safety [OF quiet_fresh this] show ?thesis using i quiet_fresh by simp
qed

section \<open>Life cycle of the paths\<close>

text \<open>The capture path. In a state where the resource invariant holds and no initialisation is
  in progress, an initialisation that returns leaves the busy flag clear, reports 0 exactly when
  the path is ready, and can then be closed: the close returns, releases the device (the PCM
  handle is gone and the flag clear) and a second close changes nothing.\<close>

theorem capture_init_close:
  assumes "res_inv env s" "fresh_handles env" "\<not> capture_initializing s"
    and "jetkvm_audio_capture_init env s = (Some r, t)"
  shows "\<not> capture_initializing t \<and> (capture_initialized t \<longleftrightarrow> r = 0) \<and>
    (\<exists>u. jetkvm_audio_capture_close env t = Some u \<and> pcm_capture_handle u = None \<and>
         \<not> capture_initialized u \<and> jetkvm_audio_capture_close env u = Some u)"
proof -
  have "safe_state env s" using assms(1,2) by (simp add: safe_state_def)
  from capture_path.init_done [OF this assms(3,4)] capture_path.init_then_close [OF this assms(3,4)]
  show ?thesis by (auto simp: safe_state_def res_inv_def)
qed

lemma quiet_start: "res_inv quiet_env audio_globals"
  by (simp add: res_inv_def res_core_def audio_globals_def)

theorem capture_init_close_witness:
  "\<exists>r t. jetkvm_audio_capture_init quiet_env audio_globals = (Some r, t) \<and> \<not> capture_initializing t"
proof -
  have "fst (jetkvm_audio_capture_init quiet_env audio_globals) \<noteq> None"
    by (auto simp: jetkvm_audio_capture_init_def safe_alsa_open_def open_loop.simps Let_def
        audio_globals_def init_alsa_devices_from_env_def drop_handle_def drop_encoder_def acall_do_def
        quiet_env_def split: prod.splits)
  then obtain r t where i: "jetkvm_audio_capture_init quiet_env audio_globals = (Some r, t)"
    by (metis eq_fst_iff option.exhaust)
  with capture_init_close [OF quiet_start quiet_fresh _ i] show ?thesis by (auto simp: audio_globals_def)
qed

text \<open>The playback path, under the same contract: an initialisation that returns reports 0 exactly
  when the path is ready, and closing it returns and releases the device.\<close>

theorem playback_init_close:
  assumes "res_inv env s" "fresh_handles env" "\<not> playback_initializing s"
    and "jetkvm_audio_playback_init env s = (Some r, t)"
  shows "\<not> playback_initializing t \<and> (playback_initialized t \<longleftrightarrow> r = 0) \<and>
    (\<exists>u. jetkvm_audio_playback_close env t = Some u \<and> pcm_playback_handle u = None \<and>
         \<not> playback_initialized u \<and> jetkvm_audio_playback_close env u = Some u)"
proof -
  have "safe_state env s" using assms(1,2) by (simp add: safe_state_def)
  from playback_path.init_done [OF this assms(3,4)] playback_path.init_then_close [OF this assms(3,4)]
  show ?thesis by (auto simp: safe_state_def res_inv_def)
qed

theorem playback_init_close_witness:
  "\<exists>r t. jetkvm_audio_playback_init quiet_env audio_globals = (Some r, t) \<and> \<not> playback_initializing t"
proof -
  have "fst (jetkvm_audio_playback_init quiet_env audio_globals) \<noteq> None"
    by (auto simp: jetkvm_audio_playback_init_def playback_open_def safe_alsa_open_def open_loop.simps Let_def
        audio_globals_def init_alsa_devices_from_env_def drop_handle_def drop_decoder_def acall_do_def
        quiet_env_def split: prod.splits)
  then obtain r t where i: "jetkvm_audio_playback_init quiet_env audio_globals = (Some r, t)"
    by (metis eq_fst_iff option.exhaust)
  with playback_init_close [OF quiet_start quiet_fresh _ i] show ?thesis by (auto simp: audio_globals_def)
qed

section \<open>Retries\<close>

lemma retry_wait_opens:
  "retry_wait env e b s = (b', t) \<Longrightarrow> filter is_open (hist t) = filter is_open (hist s)"
  by (auto simp: retry_wait_def precise_sleep_us_def acall_run_def acall_do_def Let_def split: if_splits)

lemma open_loop_opens:
  assumes "open_loop env p d a b e s = (r, t)" "a \<le> max_attempts_global s"
  shows "length (filter is_open (hist t))
           \<le> length (filter is_open (hist s)) + (unat (max_attempts_global s) - unat a) \<and>
         (r = None \<longleftrightarrow> e = None \<and> a = max_attempts_global s)"
  using assms
proof (induction env p d a b e s arbitrary: r t rule: open_loop.induct)
  case (1 env p d a b e s)
  let ?c = "Snd_pcm_open d (stream_of p)"
  let ?s1 = "s\<lparr>hist := ?c # hist s\<rparr>"
  let ?e = "ret env (?c # hist s)"
  show ?case
  proof (cases "a < max_attempts_global s")
    case False
    then have "r = e" "t = s" using 1(2) by (simp_all add: open_loop.simps [of env p d a b e s])
    with False 1(3) show ?thesis by auto
  next
    case again: True
    have lt: "unat a < unat (max_attempts_global s)" using again by (simp add: word_less_nat_alt)
    show ?thesis
    proof (cases "?e \<ge> 0")
      case True
      with again 1(2) have "r = Some 0" and "t = set_handle p (Some (new_pcm env (?c # hist s)))
           (s\<lparr>hist := Snd_pcm_nonblock (new_pcm env (?c # hist s)) # ?c # hist s\<rparr>)"
        by (auto simp: open_loop.simps [of env p d a b e s] acall_run_def acall_do_def Let_def)
      then show ?thesis using lt again by (cases p) auto
    next
      case False
      obtain b' s2 where rw: "retry_wait env ?e b ?s1 = (b', s2)" by fastforce
      have m: "max_attempts_global s2 = max_attempts_global s"
        using retry_wait_attempts [of env ?e b ?s1] rw by simp
      have rest: "open_loop env p d (a + 1) b' (Some ?e) s2 = (r, t)"
        using 1(2) again False rw by (simp add: open_loop.simps [of env p d a b e s] acall_do_def Let_def)
      have "a + 1 \<le> max_attempts_global s2"
        using lt by (simp add: m word_le_nat_alt unat_plus_one [OF again])
      then have "length (filter is_open (hist t)) \<le> length (filter is_open (hist s2))
            + (unat (max_attempts_global s2) - unat (a + 1)) \<and> r \<noteq> None"
        using 1(1) [OF again _ _ _ rest] False rw by (simp add: acall_do_def Let_def)
      then show ?thesis using retry_wait_opens [OF rw] lt again
        by (auto simp: m unat_plus_one [OF again])
    qed
  qed
qed

text \<open>Opening an ALSA device makes at most \<^verbatim>\<open>max_attempts_global\<close> calls of \<^verbatim>\<open>snd_pcm_open\<close> and always
  returns; its return value is defined exactly when that limit is not 0, because with no attempt at
  all the local \<^verbatim>\<open>err\<close> is returned uninitialised.\<close>

theorem safe_alsa_open_attempts:
  "\<exists>r t. safe_alsa_open env p device s = (r, t) \<and>
     calls_made is_open s t \<le> unat (max_attempts_global s) \<and>
     (r = None \<longleftrightarrow> max_attempts_global s = 0)"
proof -
  obtain r t where rt: "safe_alsa_open env p device s = (r, t)" by fastforce
  with open_loop_opens [of env p device 0 "sleep_microseconds s" None s r t] show ?thesis
    by (auto simp: safe_alsa_open_def calls_made_def)
qed

text \<open>Decoding and playing one packet makes at most four \<^verbatim>\<open>snd_pcm_writei\<close> calls (the first and
  three recoveries) whatever the sound device answers, and always returns.\<close>

theorem decode_write_bounded:
  "\<exists>r t. jetkvm_audio_decode_write env opus_buf opus_size s = (r, t) \<and> calls_made is_writei s t \<le> 4"
proof -
  obtain r t where rt: "jetkvm_audio_decode_write env opus_buf opus_size s = (r, t)" by fastforce
  have "calls_made is_writei s (snd (jetkvm_audio_decode_write env opus_buf opus_size s)) \<le> 4"
    using decode_and_write_writes [of env]
    by (auto simp: jetkvm_audio_decode_write_def calls_made_def le_diff_conv add.commute [of 4] split: option.split)
  with rt show ?thesis by auto
qed

end
