(* ===== verification/Audio_Flow.thy ===== *)
theory Audio_Flow
  imports Audio_Props
begin

text \<open>
  Memory safety, termination and data flow of the two hot functions of
  \<^verbatim>\<open>internal/audio/c/audio.c\<close>, under the documented contract of ALSA and Opus, and the behaviour
  of the error tracker and the signal handlers of \<^verbatim>\<open>audio_common.c\<close>.
\<close>

section \<open>The contract of the libraries\<close>

text \<open>
  \<^verbatim>\<open>snd_pcm_readi\<close> stores as many frames as it returns and at most as many as were asked for;
  \<^verbatim>\<open>opus_encode\<close> writes as many bytes as it returns and at most \<^verbatim>\<open>max_data_bytes\<close>;
  \<^verbatim>\<open>opus_decode\<close> stores as many frames as it returns and at most \<^verbatim>\<open>frame_size\<close>. A call that
  fails stores nothing.
\<close>

definition io_contract :: "audio_env \<Rightarrow> nat \<Rightarrow> bool" where
  "io_contract env ch \<longleftrightarrow>
     (\<forall>p n h. ret env (Snd_pcm_readi p n # h) \<le> int (unat n) \<and>
        length (samples_in env (Snd_pcm_readi p n # h)) = nat (ret env (Snd_pcm_readi p n # h)) * ch) \<and>
     (\<forall>k xs n m h. ret env (Opus_encode k xs n m # h) \<le> int (unat m) \<and>
        length (packet_out env (Opus_encode k xs n m # h)) = nat (ret env (Opus_encode k xs n m # h))) \<and>
     (\<forall>k d l n f h. ret env (Opus_decode k d l n f # h) \<le> int (unat n) \<and>
        length (samples_in env (Opus_decode k d l n f # h)) = nat (ret env (Opus_decode k d l n f # h)) * ch)"

text \<open>How often the device answered a read with \<^verbatim>\<open>-EAGAIN\<close>.\<close>

fun eagains :: "audio_env \<Rightarrow> acall list \<Rightarrow> nat" where
  "eagains env [] = 0"
| "eagains env (Snd_pcm_readi p n # h) =
     (if ret env (Snd_pcm_readi p n # h) = - EAGAIN then 1 else 0) + eagains env h"
| "eagains env (_ # h) = eagains env h"

lemma eagains_recov: "\<forall>c\<in>set cs. recov h c \<Longrightarrow> eagains env (cs @ hs) = eagains env hs"
proof (induction cs)
  case (Cons c cs)
  then show ?case by (cases c) auto
qed simp

lemma eagains_only_io: "only_io (recov h) s t \<Longrightarrow> eagains env (hist t) = eagains env (hist s)"
  unfolding only_io_def by (auto simp: eagains_recov)

section \<open>The capture path\<close>

text \<open>Packets encoded with the limit \<open>m\<close> have at most \<open>cap\<close> bytes.\<close>

definition packets_fit :: "audio_env \<Rightarrow> u16 \<Rightarrow> nat \<Rightarrow> bool" where
  "packets_fit env m cap \<longleftrightarrow> (\<forall>k xs n h. nat (ret env (Opus_encode k xs n m # h)) \<le> cap)"

lemma contract_packets_fit: "io_contract env ch \<Longrightarrow> unat m \<le> cap \<Longrightarrow> packets_fit env m cap"
  unfolding io_contract_def packets_fit_def nat_le_iff by (meson of_nat_mono order_trans)

lemma resume_loop_buffers:
  "capture_pcm_buffer (snd (resume_loop env h n s)) = capture_pcm_buffer s \<and>
   playback_pcm_buffer (snd (resume_loop env h n s)) = playback_pcm_buffer s"
proof (induction n arbitrary: s)
  case 0
  then show ?case by (subst (1 2) resume_loop.simps) (simp add: acall_do_def Let_def)
next
  case (Suc n)
  then show ?case by (subst (1 2) resume_loop.simps) (simp add: acall_do_def acall_run_def Let_def)
qed

lemma recovery_buffers:
  "prepare_or_drop env h s = (e, t) \<Longrightarrow> capture_pcm_buffer t = capture_pcm_buffer s \<and> playback_pcm_buffer t = playback_pcm_buffer s"
  "resume_or_prepare env h s = (e, t) \<Longrightarrow> capture_pcm_buffer t = capture_pcm_buffer s \<and> playback_pcm_buffer t = playback_pcm_buffer s"
  "drop_and_prepare env h s = (e, t) \<Longrightarrow> capture_pcm_buffer t = capture_pcm_buffer s \<and> playback_pcm_buffer t = playback_pcm_buffer s"
  using resume_loop_buffers [of env h 10 s]
  by (auto simp: prepare_or_drop_def resume_or_prepare_def drop_and_prepare_def acall_do_def acall_run_def Let_def
      split: if_splits prod.splits)

lemma read_recover_buffers:
  "capture_pcm_buffer (recovery_state (read_recover env h rc ra s)) = capture_pcm_buffer s"
  by (auto simp: read_recover_def Let_def acall_run_def acall_do_def dest!: recovery_buffers split: prod.split)

lemma write_recover_buffers:
  "playback_pcm_buffer (recovery_state (write_recover env h rc ra s)) = playback_pcm_buffer s"
  by (auto simp: write_recover_def Let_def acall_run_def acall_do_def dest!: recovery_buffers split: prod.split)

lemma only_io_config:
  assumes "only_io Q s t"
  shows "frame_size t = frame_size s" "channels t = channels s" "max_packet_size t = max_packet_size s"
  using assms unfolding only_io_def by auto

lemma read_recover_Return: "read_recover env h rc ra s = Return r t \<Longrightarrow> r = -1 \<or> r = 0"
  by (auto simp: read_recover_def Let_def split: if_splits prod.splits)

lemma read_recover_Retry:
  "read_recover env h rc ra s = Retry ra' t \<Longrightarrow> rc = - EAGAIN \<and> ra' = ra \<or> ra' = ra + 1 \<and> ra + 1 \<le> 3"
  by (auto simp: read_recover_def Let_def not_less errno_defs split: if_splits prod.splits
      intro: order_trans [of _ "1 :: u8" 3])

lemma unat_small_frame: "k \<le> 1920 \<Longrightarrow> unat (of_nat k :: u32) = k"
  by (simp add: unsigned_of_nat take_bit_nat_eq_self)

lemma pad_and_encode_ok:
  fixes s :: audio and enc :: codec
  defines "n \<equiv> unat (frame_size s)" and "ch \<equiv> unat (channels s)"
  assumes "io_contract env ch" "0 \<le> rc" "rc \<le> int n" "length (capture_pcm_buffer s) = 1920"
    and "n * ch \<le> 1920" "packets_fit env (max_packet_size s) cap"
  defines "b \<equiv> zero_range (nat rc * ch) ((n - nat rc) * ch) (capture_pcm_buffer s)"
  defines "c \<equiv> Opus_encode enc b (frame_size s) (max_packet_size s)"
  shows "pad_and_encode env enc cap rc s
         = (Ret (ret env (c # hist s)), s\<lparr>capture_pcm_buffer := b, hist := c # hist s\<rparr>)"
proof -
  have le: "nat rc \<le> n" using assms(5) by simp
  have area: "nat rc * ch + (n - nat rc) * ch = n * ch" by (metis add_mult_distrib le le_add_diff_inverse)
  have "(int n - rc) * int ch = int ((n - nat rc) * ch)" using assms(4) le by (simp add: of_nat_diff)
  then have "(of_int ((int n - rc) * int ch) :: u32) = of_nat ((n - nat rc) * ch)" by (metis of_int_of_nat_eq)
  then have u: "unat (of_int ((int n - rc) * int ch) :: u32) = (n - nat rc) * ch"
    using area assms(7) by (metis unat_small_frame le_add2 le_trans)
  have clear: "simd_clear_samples_s16 (nat rc * ch) (of_int ((int n - rc) * int ch)) (capture_pcm_buffer s) = Some b"
    using simd_clear_ok [of "nat rc * ch" "of_int ((int n - rc) * int ch)" "capture_pcm_buffer s"] u area assms(6,7)
    by (simp add: b_def)
  have full: "b = capture_pcm_buffer s" if "\<not> rc < int n" using that assms(5) by (simp add: b_def)
  have "length (packet_out env (c # hist s)) = nat (ret env (c # hist s))"
    using assms(3) unfolding io_contract_def c_def by blast
  moreover have "nat (ret env (c # hist s)) \<le> cap" using assms(8) by (simp add: packets_fit_def c_def)
  ultimately have "length (packet_out env (c # hist s)) \<le> cap" by simp
  then show ?thesis
    using clear full by (cases "rc < int n") (simp_all add: pad_and_encode_def n_def ch_def c_def acall_do_def Let_def)
qed

text \<open>What a return from the read loop means.\<close>

definition frame_encoded :: "audio_env \<Rightarrow> pcm \<Rightarrow> codec \<Rightarrow> int \<Rightarrow> audio \<Rightarrow> bool" where
  "frame_encoded env h enc r t \<longleftrightarrow>
     (\<exists>xs h0. hist t = Opus_encode enc xs (frame_size t) (max_packet_size t)
                       # Snd_pcm_readi h (frame_size t) # h0 \<and>
        r = ret env (hist t) \<and>
        take (unat (frame_size t) * unat (channels t)) xs =
          (let got = samples_in env (Snd_pcm_readi h (frame_size t) # h0)
           in got @ replicate (unat (frame_size t) * unat (channels t) - length got) 0))"

lemma blit_zero_range:
  assumes "length got = g" "g + z = m" "m \<le> length buf"
  shows "take m (zero_range g z (got @ drop g buf)) = got @ replicate z 0"
  using assms by (simp add: zero_range_def)

lemma read_loop_ok:
  assumes "io_contract env (unat (channels s))" and "\<And>h. eagains env h \<le> N"
    and "length (capture_pcm_buffer s) = 1920" "unat (frame_size s) * unat (channels s) \<le> 1920"
    and "packets_fit env (max_packet_size s) cap"
  shows "\<exists>r t. read_loop env h enc cap ra s = Some (Ret r, t) \<and> length (capture_pcm_buffer t) = 1920 \<and>
           (r = -1 \<or> r = 0 \<or> frame_encoded env h enc r t)"
  using assms(1,3-)
proof (induction "(N - eagains env (hist s)) + unat (3 - ra)" arbitrary: s ra rule: less_induct)
  case less
  let ?c = "Snd_pcm_readi h (frame_size s)"
  let ?got = "samples_in env (?c # hist s)" and ?rc = "ret env (?c # hist s)"
  let ?n = "unat (frame_size s)" and ?ch = "unat (channels s)"
  let ?buf = "?got @ drop (length ?got) (capture_pcm_buffer s)"
  define s1 where "s1 = s\<lparr>hist := ?c # hist s, capture_pcm_buffer := ?buf\<rparr>"
  have rc: "?rc \<le> int ?n" and got: "length ?got = nat ?rc * ?ch"
    using less.prems(1) by (simp_all add: io_contract_def)
  have rc': "nat ?rc \<le> ?n" using rc by (metis nat_le_iff)
  then have "nat ?rc * ?ch \<le> ?n * ?ch" by (intro mult_right_mono) auto
  then have fits: "length ?got \<le> 1920" unfolding got using less.prems(3) by (rule le_trans)
  have s1: "length (capture_pcm_buffer s1) = 1920" "frame_size s1 = frame_size s" "channels s1 = channels s"
    "max_packet_size s1 = max_packet_size s" "hist s1 = ?c # hist s"
    using fits less.prems(2) by (simp_all add: s1_def)
  have step: "read_loop env h enc cap ra s =
      (if ?rc < 0 then (case read_recover env h ?rc ra s1 of Return r s \<Rightarrow> Some (Ret r, s)
          | Retry ra s \<Rightarrow> read_loop env h enc cap ra s)
       else Some (pad_and_encode env enc cap ?rc s1))"
    using fits less.prems(2) by (subst read_loop.simps) (simp add: blit_def acall_do_def Let_def s1_def)
  show ?case
  proof (cases "?rc < 0")
    case False
    let ?b = "zero_range (nat ?rc * ?ch) ((?n - nat ?rc) * ?ch) (capture_pcm_buffer s1)"
    let ?e = "Opus_encode enc ?b (frame_size s) (max_packet_size s)"
    have area: "nat ?rc * ?ch + (?n - nat ?rc) * ?ch = ?n * ?ch"
      using rc' by (metis add_mult_distrib le_add_diff_inverse)
    have run: "pad_and_encode env enc cap ?rc s1
        = (Ret (ret env (?e # hist s1)), s1\<lparr>capture_pcm_buffer := ?b, hist := ?e # hist s1\<rparr>)"
      using pad_and_encode_ok [of env s1 ?rc cap enc] less.prems False rc s1 by simp
    have "take (?n * ?ch) ?b = ?got @ replicate (?n * ?ch - length ?got) 0"
      using blit_zero_range [OF got area, of "capture_pcm_buffer s"] area got less.prems(2,3) by (simp add: s1_def)
    then have "frame_encoded env h enc (ret env (?e # hist s1)) (s1\<lparr>capture_pcm_buffer := ?b, hist := ?e # hist s1\<rparr>)"
      unfolding frame_encoded_def using s1 by (simp add: Let_def)
    moreover have "length ?b = 1920" using area less.prems(3) s1(1) by simp
    ultimately show ?thesis using step run False by simp
  next
    case True
    show ?thesis
    proof (cases "read_recover env h ?rc ra s1")
      case (Return r t)
      with True step read_recover_Return [OF Return] read_recover_buffers [of env h ?rc ra s1] s1(1)
      show ?thesis by auto
    next
      case (Retry ra' t)
      have io: "only_io (recov h) s1 t" using only_io_read_recover [of h s1 env ?rc ra] Retry by simp
      note cfg = only_io_config [OF io]
      have ea: "eagains env (hist t) = (if ?rc = - EAGAIN then 1 else 0) + eagains env (hist s)"
        using eagains_only_io [OF io] s1(5) by simp
      have "(N - eagains env (hist t)) + unat (3 - ra') < (N - eagains env (hist s)) + unat (3 - ra)"
        using read_recover_Retry [OF Retry]
      proof
        assume "?rc = - EAGAIN \<and> ra' = ra"
        then show ?thesis using ea assms(2) [of "hist t"] by simp
      next
        assume "ra' = ra + 1 \<and> ra + 1 \<le> 3"
        then show ?thesis using ea retry_measure [of ra] by (simp add: add_le_less_mono)
      qed
      moreover have "length (capture_pcm_buffer t) = 1920"
        using read_recover_buffers [of env h ?rc ra s1] Retry s1(1) by simp
      ultimately show ?thesis
        using less.hyps [of t ra'] less.prems cfg s1 step True Retry by simp
    qed
  qed
qed

section \<open>The playback path\<close>

lemma write_recover_Return: "write_recover env h rc ra s = Return r t \<Longrightarrow> r = -2 \<or> r = 0"
  by (auto simp: write_recover_def Let_def split: if_splits prod.splits)

lemma write_loop_ok:
  assumes "write_loop env h n ra s = (r, t)"
  shows "playback_pcm_buffer t = playback_pcm_buffer s \<and>
    (r = -2 \<or> r = 0 \<or> r = n \<and> 0 \<le> ret env (hist t) \<and>
       (\<exists>cs. hist t = Snd_pcm_writei h (take (nat n * unat (channels s)) (playback_pcm_buffer s)) n # cs @ hist s))"
  using assms
proof (induction env h n ra s arbitrary: r t rule: write_loop.induct)
  case (1 env h n ra s)
  let ?c = "Snd_pcm_writei h (take (nat n * unat (channels s)) (playback_pcm_buffer s)) n"
  let ?s1 = "s\<lparr>hist := ?c # hist s\<rparr>"
  let ?rc = "ret env (?c # hist s)"
  show ?case
  proof (cases "?rc < 0")
    case False
    with 1(2) show ?thesis by (subst (asm) write_loop.simps) (auto simp: acall_do_def Let_def)
  next
    case True
    have buf: "playback_pcm_buffer (recovery_state (write_recover env h ?rc ra ?s1)) = playback_pcm_buffer s"
      by (simp add: write_recover_buffers)
    show ?thesis
    proof (cases "write_recover env h ?rc ra ?s1")
      case (Return r' t')
      with 1(2) True have "r = r'" "t = t'" by (subst (asm) write_loop.simps; simp add: acall_do_def Let_def)+
      with write_recover_Return [OF Return] buf Return show ?thesis by auto
    next
      case (Retry ra' u)
      with 1(2) True have rest: "write_loop env h n ra' u = (r, t)"
        by (subst (asm) write_loop.simps) (simp add: acall_do_def Let_def)
      have io: "only_io (recov h) ?s1 u" using only_io_write_recover [of h ?s1 env ?rc ra] Retry by simp
      then obtain cs where cs: "hist u = cs @ ?c # hist s" unfolding only_io_def by auto
      have IH: "playback_pcm_buffer t = playback_pcm_buffer u \<and> (r = -2 \<or> r = 0 \<or> r = n \<and> 0 \<le> ret env (hist t) \<and>
         (\<exists>cs. hist t = Snd_pcm_writei h (take (nat n * unat (channels u)) (playback_pcm_buffer u)) n # cs @ hist u))"
        using 1(1) [OF _ _ Retry rest] True by (simp add: acall_do_def Let_def)
      have chs: "channels u = channels s" using only_io_config(2) [OF io] by simp
      have pb: "playback_pcm_buffer u = playback_pcm_buffer s" using buf Retry by simp
      have "\<exists>ds'. W # ds @ hist u = W # ds' @ hist s" for W ds
        by (rule exI [of _ "ds @ cs @ [?c]"]) (simp add: cs)
      with IH show ?thesis unfolding chs pb by metis
    qed
  qed
qed

lemma decode_into_ok:
  fixes dec :: codec and d :: "u8 list option" and len :: int and fec :: bool
  assumes "io_contract env (unat (channels s))" "length (playback_pcm_buffer s) = 1920"
    and "unat (frame_size s) * unat (channels s) \<le> 1920"
  defines "c \<equiv> Opus_decode dec d len (frame_size s) fec # hist s"
  shows "\<exists>t. decode_into env dec d len fec s = (ret env c, Some t) \<and> hist t = c \<and> channels t = channels s \<and>
     frame_size t = frame_size s \<and> length (playback_pcm_buffer t) = 1920 \<and>
     take (nat (ret env c) * unat (channels s)) (playback_pcm_buffer t) = samples_in env c \<and>
     length (samples_in env c) = nat (ret env c) * unat (channels s)"
proof -
  have got: "length (samples_in env c) = nat (ret env c) * unat (channels s)"
    using assms(1) unfolding io_contract_def c_def by blast
  have "nat (ret env c) \<le> unat (frame_size s)"
    using assms(1) unfolding io_contract_def c_def nat_le_iff by blast
  then have "nat (ret env c) * unat (channels s) \<le> unat (frame_size s) * unat (channels s)"
    by (rule mult_right_mono) simp
  then have "length (samples_in env c) \<le> 1920" unfolding got using assms(3) by (rule le_trans)
  with got assms(2) show ?thesis
    by (simp add: decode_into_def acall_do_def Let_def blit_def c_def [symmetric])
qed

text \<open>What a return with a positive number of frames means.\<close>

definition frames_played :: "audio_env \<Rightarrow> pcm \<Rightarrow> codec \<Rightarrow> nat \<Rightarrow> int \<Rightarrow> audio \<Rightarrow> bool" where
  "frames_played env h dec ch r t \<longleftrightarrow>
     (\<exists>cs d len n fec hd.
        hist t = Snd_pcm_writei h (samples_in env (Opus_decode dec d len n fec # hd)) r
                 # cs @ Opus_decode dec d len n fec # hd \<and>
        length (samples_in env (Opus_decode dec d len n fec # hd)) = nat r * ch \<and>
        r = ret env (Opus_decode dec d len n fec # hd) \<and> 0 \<le> ret env (hist t))"

lemma write_decoded:
  assumes "io_contract env (unat (channels s))" "length (playback_pcm_buffer s) = 1920"
    and "unat (frame_size s) * unat (channels s) \<le> 1920"
    and "decode_into env dec d len fec s = (n, Some u)" "write_loop env h n 0 u = (r, t)"
  shows "r = -2 \<or> r = 0 \<or> frames_played env h dec (unat (channels s)) r t"
    and "length (playback_pcm_buffer t) = 1920"
proof -
  let ?c = "Opus_decode dec d len (frame_size s) fec # hist s"
  have u: "n = ret env ?c" "hist u = ?c" "channels u = channels s" "length (playback_pcm_buffer u) = 1920"
    "take (nat n * unat (channels s)) (playback_pcm_buffer u) = samples_in env ?c"
    "length (samples_in env ?c) = nat n * unat (channels s)"
    using decode_into_ok [OF assms(1-3), of dec d len fec] assms(4) by auto
  note w = write_loop_ok [OF assms(5), unfolded u(2,3,5)]
  show "length (playback_pcm_buffer t) = 1920" using w u(4) by simp
  show "r = -2 \<or> r = 0 \<or> frames_played env h dec (unat (channels s)) r t"
    using w u(1,6) unfolding frames_played_def by fastforce
qed

lemma decode_and_write_ok:
  assumes "io_contract env (unat (channels s))" "length (playback_pcm_buffer s) = 1920"
    and "unat (frame_size s) * unat (channels s) \<le> 1920"
  shows "\<exists>r t. decode_and_write env h dec data n s = (Ret r, t) \<and> length (playback_pcm_buffer t) = 1920 \<and>
    (r \<in> {-1, -2, 0} \<or> frames_played env h dec (unat (channels s)) r t)"
proof -
  obtain k u where u: "decode_into env dec (Some (take (nat n) data)) n False s = (k, Some u)"
    "channels u = channels s" "frame_size u = frame_size s" "length (playback_pcm_buffer u) = 1920"
    using decode_into_ok [OF assms, of dec "Some (take (nat n) data)" n False] by auto
  show ?thesis
  proof (cases "k < 0")
    case False
    obtain r t where w: "write_loop env h k 0 u = (r, t)" by fastforce
    with write_decoded [OF assms u(1) w] u False show ?thesis by (auto simp: decode_and_write_def)
  next
    case True
    have cu: "io_contract env (unat (channels u))" "unat (frame_size u) * unat (channels u) \<le> 1920"
      using assms(1,3) u(2,3) by simp_all
    obtain k' v where v: "decode_into env dec None 0 True u = (k', Some v)" "length (playback_pcm_buffer v) = 1920"
      using decode_into_ok [OF cu(1) u(4) cu(2), of dec None 0 True] by auto
    obtain r t where w: "write_loop env h k' 0 v = (r, t)" by fastforce
    show ?thesis
      using write_decoded [OF cu(1) u(4) cu(2) v(1) w] True u v w
      by (cases "k' < 0") (auto simp: decode_and_write_def)
  qed
qed

lemma read_encode_ok:
  assumes "io_contract env (unat (channels s))" and "\<forall>h. eagains env h \<le> N"
    and "length (capture_pcm_buffer s) = 1920" "unat (frame_size s) * unat (channels s) \<le> 1920"
    and "packets_fit env (max_packet_size s) cap"
  shows "\<exists>r t. jetkvm_audio_read_encode env (Some cap) s = Some (Ret r, t) \<and>
           length (capture_pcm_buffer t) = 1920 \<and>
           (r = -1 \<or> r = 0 \<or>
            (\<exists>h enc. pcm_capture_handle s = Some h \<and> encoder s = Some enc \<and> frame_encoded env h enc r t))"
proof (cases "capture_initialized s \<and> pcm_capture_handle s \<noteq> None \<and> encoder s \<noteq> None")
  case False
  then show ?thesis using assms(3) by (auto simp: jetkvm_audio_read_encode_def split: option.split)
next
  case True
  then obtain h enc where "pcm_capture_handle s = Some h" "encoder s = Some enc" by auto
  with True read_loop_ok [of env s N cap h enc 0] assms show ?thesis
    by (auto simp: jetkvm_audio_read_encode_def)
qed

section \<open>Stated properties\<close>

text \<open>C20: Capturing one frame. When ALSA and Opus keep their contracts, the configured frame fits the
  static buffer, the caller's packet buffer has at least \<^verbatim>\<open>max_packet_size\<close> bytes and the device answers
  \<^verbatim>\<open>-EAGAIN\<close> only finitely often, \<^verbatim>\<open>jetkvm_audio_read_encode\<close> returns without writing outside a buffer.
  It returns -1 or 0, or the size Opus gave for a frame that holds exactly the samples just
  read followed by zeros up to the frame size.\<close>

theorem read_encode_total:
  assumes "io_contract env (unat (channels s))" and "\<forall>h. eagains env h \<le> N"
    and "length (capture_pcm_buffer s) = 1920" "unat (frame_size s) * unat (channels s) \<le> 1920"
    and "unat (max_packet_size s) \<le> cap"
  shows "\<exists>r t. jetkvm_audio_read_encode env (Some cap) s = Some (Ret r, t) \<and>
           length (capture_pcm_buffer t) = 1920 \<and>
           (r = -1 \<or> r = 0 \<or>
            (\<exists>h enc. pcm_capture_handle s = Some h \<and> encoder s = Some enc \<and> frame_encoded env h enc r t))"
  by (rule read_encode_ok [OF assms(1-4) contract_packets_fit [OF assms(1,5)]])


text \<open>
  A device that delivers 500 of the frames it is asked for, a codec whose packets have \<open>sz\<close> bytes,
  and everything else succeeding.
\<close>

fun device_ret :: "nat \<Rightarrow> acall list \<Rightarrow> int" where
  "device_ret sz (Snd_pcm_readi _ n # _) = min 500 (int (unat n))"
| "device_ret sz (Opus_encode _ _ _ m # _) = min (int sz) (int (unat m))"
| "device_ret sz (Opus_decode _ _ _ n _ # _) = int (unat n)"
| "device_ret sz _ = 0"

definition device_env :: "nat \<Rightarrow> audio_env" where
  "device_env sz = \<lparr>getenv = (\<lambda>_. None), ret = device_ret sz, new_pcm = length,
     new_codec = (\<lambda>h. (Some (length h), 0)), near = (\<lambda>_. 960),
     samples_in = (\<lambda>h. replicate (nat (device_ret sz h) * 2) 7),
     packet_out = (\<lambda>h. replicate (nat (device_ret sz h)) 1)\<rparr>"

definition open_audio :: audio where
  "open_audio = audio_globals\<lparr>capture_initialized := True, pcm_capture_handle := Some 3, encoder := Some 4,
     playback_initialized := True, pcm_playback_handle := Some 5, decoder := Some 6\<rparr>"

lemma device_contract: "io_contract (device_env sz) 2"
  by (simp add: io_contract_def device_env_def)

lemma uint_no_errno: "uint n \<noteq> - 11" for n :: u16
  using unsigned_greater_eq [of n, where ?'a = int] by linarith

lemma device_eagains: "eagains (device_env sz) h = 0"
  by (induction h rule: eagains.induct [of "\<lambda>_ h. eagains (device_env sz) h = 0"])
     (simp_all add: device_env_def EAGAIN_def min_def uint_no_errno)

lemma open_audio_simps [simp]:
  "channels open_audio = 2" "frame_size open_audio = 960" "max_packet_size open_audio = 1500"
  "length (capture_pcm_buffer open_audio) = 1920" "length (playback_pcm_buffer open_audio) = 1920"
  "capture_initialized open_audio" "playback_initialized open_audio"
  "pcm_capture_handle open_audio = Some 3" "encoder open_audio = Some 4"
  "pcm_playback_handle open_audio = Some 5" "decoder open_audio = Some 6" "hist open_audio = []"
  by (simp_all add: open_audio_def audio_globals_def)

theorem read_encode_total_witness:
  "io_contract (device_env 100) 2 \<and> (\<forall>h. eagains (device_env 100) h \<le> 0) \<and>
   (\<exists>r t. jetkvm_audio_read_encode (device_env 100) (Some 1500) open_audio = Some (Ret r, t))"
  using read_encode_total [of "device_env 100" open_audio 0 1500] device_contract [of 100] device_eagains [of 100]
  by auto


lemma large_packet_overflows:
  assumes "capture_initialized s" "pcm_capture_handle s = Some h" "encoder s = Some enc"
    and "length (capture_pcm_buffer s) = 1920" "frame_size s = 960" "channels s = 2" "max_packet_size s = 1500"
  shows "\<exists>t. jetkvm_audio_read_encode ((device_env 1500)\<lparr>getenv := e\<rparr>) (Some 1024) s = Some (Mem_fault, t)"
proof -
  let ?env = "(device_env 1500)\<lparr>getenv := e\<rparr>"
  have "fst (pad_and_encode ?env enc 1024 500 s) = Mem_fault"
    if "length (capture_pcm_buffer s) = 1920" "frame_size s = 960" "channels s = 2" "max_packet_size s = 1500" for s
    using that simd_clear_ok [of 1000 920 "capture_pcm_buffer s"]
    by (simp add: pad_and_encode_def device_env_def acall_do_def Let_def)
  then have "\<exists>t. pad_and_encode ?env enc 1024 500 s = (Mem_fault, t)"
    if "length (capture_pcm_buffer s) = 1920" "frame_size s = 960" "channels s = 2" "max_packet_size s = 1500" for s
    using that by (metis prod.collapse)
  then show ?thesis using assms
    by (simp add: jetkvm_audio_read_encode_def) (subst read_loop.simps,
        simp add: device_env_def blit_def acall_do_def Let_def)
qed

text \<open>The bound on the caller's buffer is needed. With the default configuration and a packet buffer
  of 1024 bytes, the size the Go caller allocates, there are an ALSA device and an encoder that keep their
  contracts for which \<^verbatim>\<open>jetkvm_audio_read_encode\<close> writes past the end of the buffer.\<close>

theorem read_encode_overflow:
  "\<exists>env t. io_contract env 2 \<and> channels open_audio = 2 \<and>
     jetkvm_audio_read_encode env (Some 1024) open_audio = Some (Mem_fault, t)"
proof -
  have "\<exists>t. jetkvm_audio_read_encode (device_env 1500) (Some 1024) open_audio = Some (Mem_fault, t)"
    using large_packet_overflows [of open_audio 3 4 "\<lambda>_. None"] by (simp add: device_env_def)
  then show ?thesis using device_contract [of 1500] by auto
qed

text \<open>C38: Clearing samples with NEON stores, sixteen and eight at a time with a scalar tail, returns and
  has exactly the effect of zeroing the requested range, whatever its length modulo 16, as long as
  the range lies in the buffer.\<close>

theorem simd_clear_equiv:
  assumes "base + unat samples \<le> length buf"
  shows "\<exists>buf'. simd_clear_samples_s16 base samples buf = Some buf' \<and> length buf' = length buf \<and>
           (\<forall>i < length buf. buf' ! i = (if base \<le> i \<and> i < base + unat samples then 0 else buf ! i))"
  using simd_clear_ok [OF assms] nth_zero_range [of base "unat samples" buf] assms by auto

theorem simd_clear_equiv_witness:
  "\<exists>buf'. simd_clear_samples_s16 1 (27 :: u32) (replicate 30 9) = Some buf' \<and> buf' ! 27 = 0 \<and> buf' ! 28 = 9"
  using simd_clear_equiv [of 1 27 "replicate 30 9"] by auto

text \<open>The error tracker asks its loop to give up on an error exactly when the number of errors in a
  row since the last success, counted modulo 256, has reached the limit of ten, and after any
  number of successes in a row it asks for a trace on exactly one frame of every 1024.\<close>

theorem tracker_gives_up:
  "fst (audio_error_tracker_record_error (tracker_run (audio_error_tracker_init t) os)) =
     (if 10 \<le> Suc (trailing_errors 0 os) mod 256 then 1 else 0) \<and>
   (audio_error_tracker_should_trace (tracker_run (audio_error_tracker_init t) (replicate n Success)) = 1
     \<longleftrightarrow> n mod 1024 = 1)"
proof -
  let ?t = "tracker_run (audio_error_tracker_init t) os"
  have "consecutive_errors ?t + 1 = of_nat (Suc (trailing_errors 0 os))"
    using tracker_run_errors [of "audio_error_tracker_init t" 0 os] by (simp add: audio_error_tracker_init_def add.commute)
  then have "unat (consecutive_errors ?t + 1) = Suc (trailing_errors 0 os) mod 256"
    by (simp add: unsigned_of_nat take_bit_eq_mod del: of_nat_Suc)
  then have a: "fst (audio_error_tracker_record_error ?t) = (if 10 \<le> Suc (trailing_errors 0 os) mod 256 then 1 else 0)"
    by (simp add: tracker_defs Let_def word_le_nat_alt)
  have "frame_count (tracker_run u (replicate n Success)) = frame_count u + of_nat n" for u
    by (induction n arbitrary: u) (simp_all add: tracker_defs add.assoc)
  then have f: "frame_count (tracker_run (audio_error_tracker_init t) (replicate n Success)) = of_nat n"
    by (simp add: audio_error_tracker_init_def)
  have m: "(x AND 0x3FF = 1) = (unat x mod 1024 = 1)" for x :: u32
  proof -
    have "x AND 0x3FF = take_bit 10 x" by (simp add: take_bit_eq_mask mask_eq_exp_minus_1)
    then have "unat (x AND 0x3FF) = unat x mod 1024" by (simp only: unsigned_take_bit_eq) (simp add: take_bit_eq_mod)
    then show ?thesis by (metis unsigned_1 unsigned_word_eqI)
  qed
  have "n mod 4294967296 mod 1024 = n mod 1024" by (simp add: mod_mod_cancel)
  with a f m show ?thesis by (simp add: tracker_defs unsigned_of_nat take_bit_eq_mod)
qed

end
