(* ===== verification/Go_Audio.thy ===== *)
theory Go_Audio
  imports Audio_Flow
begin

text \<open>
  The Go callers of the audio module: the source of \<^verbatim>\<open>internal/audio/cgo_source.go\<close>, which calls the C functions under its
  lock, the output relay of \<^verbatim>\<open>relay.go\<close>, and the manager of \<^verbatim>\<open>audio.go\<close>, which starts and stops both as peers connect and
  disconnect. Input from the browser is disabled there: the manager never makes an input source.
\<close>

section \<open>The source\<close>

text \<open>The state outside Go: the globals of the C module and the environment of the process, which \<^verbatim>\<open>os.Setenv\<close> changes.\<close>

record c_world =
  c_audio :: audio
  environ :: "string \<Rightarrow> string option"

definition with_environ :: "audio_env \<Rightarrow> c_world \<Rightarrow> audio_env" where
  "with_environ env w = env\<lparr>getenv := environ w\<rparr>"

record go_source =
  output_direction :: bool
  alsaDevice :: string
  source_initialized :: bool
  connected :: bool
  opusBuf :: "u8 list"

definition ipcMaxFrameSize :: nat where "ipcMaxFrameSize = 1024"
definition ipcMsgTypeOpus :: u8 where "ipcMsgTypeOpus = 0"

definition NewCgoOutputSource :: "string \<Rightarrow> go_source" where
  "NewCgoOutputSource dev = \<lparr>output_direction = True, alsaDevice = dev, source_initialized = False, connected = False,
     opusBuf = replicate ipcMaxFrameSize 0\<rparr>"

definition NewCgoInputSource :: "string \<Rightarrow> go_source" where
  "NewCgoInputSource dev = \<lparr>output_direction = False, alsaDevice = dev, source_initialized = False, connected = False,
     opusBuf = replicate ipcMaxFrameSize 0\<rparr>"

text \<open>\<open>Conn_undefined\<close> is a return of the uninitialised error code of the C function.\<close>

datatype connect_result = Conn_ok | Conn_failed int | Conn_undefined

definition connect_output :: "audio_env \<Rightarrow> go_source \<Rightarrow> c_world \<Rightarrow> int option \<times> c_world" where
  "connect_output env c w =
     (let w = w\<lparr>environ := (environ w)(''ALSA_CAPTURE_DEVICE'' \<mapsto> alsaDevice c)\<rparr>;
          w = w\<lparr>c_audio := update_audio_constants 128000 5 48000 2 960 1500 1000 5 500000 (c_audio w)\<rparr>
      in case jetkvm_audio_capture_init (with_environ env w) (c_audio w) of (rc, s) \<Rightarrow> (rc, w\<lparr>c_audio := s\<rparr>))"

definition connect_input :: "audio_env \<Rightarrow> go_source \<Rightarrow> c_world \<Rightarrow> int option \<times> c_world" where
  "connect_input env c w =
     (let w = w\<lparr>environ := (environ w)(''ALSA_PLAYBACK_DEVICE'' \<mapsto> alsaDevice c)\<rparr>;
          w = w\<lparr>c_audio := update_audio_decoder_constants 48000 2 960 1500 1000 5 500000 (c_audio w)\<rparr>
      in case jetkvm_audio_playback_init (with_environ env w) (c_audio w) of (rc, s) \<Rightarrow> (rc, w\<lparr>c_audio := s\<rparr>))"

definition Connect :: "audio_env \<Rightarrow> go_source \<Rightarrow> c_world \<Rightarrow> connect_result \<times> go_source \<times> c_world" where
  "Connect env c w =
     (if connected c then (Conn_ok, c, w)
      else case (if output_direction c then connect_output env c w else connect_input env c w) of (r, w) \<Rightarrow>
        (case r of None \<Rightarrow> (Conn_undefined, c, w)
         | Some rc \<Rightarrow> if rc \<noteq> 0 then (Conn_failed rc, c, w)
             else (Conn_ok, c\<lparr>connected := True, source_initialized := True\<rparr>, w)))"

text \<open>\<open>None\<close>: the C function does not get past its wait for an initialisation.\<close>

definition Disconnect :: "audio_env \<Rightarrow> go_source \<Rightarrow> c_world \<Rightarrow> (go_source \<times> c_world) option" where
  "Disconnect env c w =
     (if \<not> connected c then Some (c, w)
      else case (if output_direction c then jetkvm_audio_capture_close (with_environ env w) (c_audio w)
                 else jetkvm_audio_playback_close (with_environ env w) (c_audio w)) of
        None \<Rightarrow> None | Some s \<Rightarrow> Some (c\<lparr>connected := False\<rparr>, w\<lparr>c_audio := s\<rparr>))"

definition IsConnected :: "go_source \<Rightarrow> bool" where
  "IsConnected c \<longleftrightarrow> connected c"

text \<open>\<open>Read_fault\<close>: the C function stores past the end of the buffer; \<open>Read_panic\<close>: slicing the buffer with a size above its
  capacity panics.\<close>

datatype read_result = Not_connected | Wrong_direction | Read_failed int | No_data | Message "u8 list" | Read_fault | Read_panic

definition ReadMessage :: "audio_env \<Rightarrow> go_source \<Rightarrow> c_world \<Rightarrow> (read_result \<times> go_source \<times> c_world) option" where
  "ReadMessage env c w =
     (if \<not> connected c then Some (Not_connected, c, w)
      else if \<not> output_direction c then Some (Wrong_direction, c, w)
      else case jetkvm_audio_read_encode (with_environ env w) (Some (length (opusBuf c))) (c_audio w) of
        None \<Rightarrow> None
      | Some (Mem_fault, s) \<Rightarrow> Some (Read_fault, c, w\<lparr>c_audio := s\<rparr>)
      | Some (Ret opusSize, s) \<Rightarrow>
          (let w = w\<lparr>c_audio := s\<rparr> in
           if opusSize < 0 then Some (Read_failed opusSize, c, w)
           else if opusSize = 0 then Some (No_data, c, w)
           else let packet = packet_out env (hist s); c = c\<lparr>opusBuf := packet @ drop (length packet) (opusBuf c)\<rparr> in
             if nat opusSize > length (opusBuf c) then Some (Read_panic, c, w)
             else Some (Message (take (nat opusSize) (opusBuf c)), c, w)))"

datatype write_result = Write_ok | Write_not_connected | Write_wrong_direction | Write_failed int | Write_fault

definition WriteMessage :: "audio_env \<Rightarrow> go_source \<Rightarrow> u8 \<Rightarrow> u8 list \<Rightarrow> c_world \<Rightarrow> write_result \<times> c_world" where
  "WriteMessage env c msgType payload w =
     (if \<not> connected c then (Write_not_connected, w)
      else if output_direction c then (Write_wrong_direction, w)
      else if msgType \<noteq> ipcMsgTypeOpus then (Write_ok, w)
      else if payload = [] then (Write_ok, w)
      else case jetkvm_audio_decode_write (with_environ env w) (Some payload) (int (length payload)) (c_audio w) of
        (Mem_fault, s) \<Rightarrow> (Write_fault, w\<lparr>c_audio := s\<rparr>)
      | (Ret rc, s) \<Rightarrow> (if rc < 0 then Write_failed rc else Write_ok, w\<lparr>c_audio := s\<rparr>))"

section \<open>The output relay\<close>

text \<open>Where the goroutine \<^verbatim>\<open>relayLoop\<close> is: at the test of the loop, before the read, after a failed read; it has ended, or it has
  met a fault.\<close>

datatype relay_place = Loop_test | At_read | At_error | Loop_ended | Loop_fault

text \<open>The source and its relay, which the manager makes and drops together.\<close>

record output_relay =
  source :: go_source
  relay_place :: relay_place
  relay_running :: bool
  framesRelayed :: u32
  framesDropped :: u32

definition NewOutputRelay :: "go_source \<Rightarrow> output_relay" where
  "NewOutputRelay c = \<lparr>source = c, relay_place = Loop_test, relay_running = False, framesRelayed = 0, framesDropped = 0\<rparr>"

text \<open>\<^verbatim>\<open>Start\<close> starts the loop unless the relay is running already.\<close>

definition relay_Start :: "output_relay \<Rightarrow> bool \<times> output_relay" where
  "relay_Start r = (if relay_running r then (False, r) else (True, r\<lparr>relay_running := True, relay_place := Loop_test\<rparr>))"

text \<open>One part of the loop; the second \<^verbatim>\<open>running.Load\<close> of a pass is at \<open>At_error\<close>. \<open>sent\<close> is whether the samples could be
  handed on. \<open>None\<close>: the call into C does not return.\<close>

definition relay_loop_step :: "audio_env \<Rightarrow> bool \<Rightarrow> output_relay \<Rightarrow> c_world \<Rightarrow> (output_relay \<times> c_world) option" where
  "relay_loop_step env sent r w = (case relay_place r of
       Loop_test \<Rightarrow>
         if \<not> relay_running r then Some (r\<lparr>relay_place := Loop_ended\<rparr>, w)
         else if IsConnected (source r) then Some (r\<lparr>relay_place := At_read\<rparr>, w)
         else (case Connect env (source r) w of
             (Conn_ok, c, w) \<Rightarrow> Some (r\<lparr>source := c, relay_place := At_read\<rparr>, w)
           | (Conn_failed _, c, w) \<Rightarrow> Some (r\<lparr>source := c\<rparr>, w)
           | (Conn_undefined, c, w) \<Rightarrow> Some (r\<lparr>source := c, relay_place := Loop_fault\<rparr>, w))
     | At_read \<Rightarrow> (case ReadMessage env (source r) w of
           None \<Rightarrow> None
         | Some (m, c, w) \<Rightarrow>
             (let r = r\<lparr>source := c\<rparr> in case m of
                Message p \<Rightarrow>
                  if length p > 0
                  then Some (if sent then r\<lparr>framesRelayed := framesRelayed r + 1, relay_place := Loop_test\<rparr>
                             else r\<lparr>framesDropped := framesDropped r + 1, relay_place := Loop_test\<rparr>, w)
                  else Some (r\<lparr>relay_place := Loop_test\<rparr>, w)
              | No_data \<Rightarrow> Some (r\<lparr>relay_place := Loop_test\<rparr>, w)
              | Read_fault \<Rightarrow> Some (r\<lparr>relay_place := Loop_fault\<rparr>, w)
              | Read_panic \<Rightarrow> Some (r\<lparr>relay_place := Loop_fault\<rparr>, w)
              | _ \<Rightarrow> Some (r\<lparr>relay_place := At_error\<rparr>, w)))
     | At_error \<Rightarrow>
         if relay_running r
         then (case Disconnect env (source r) w of None \<Rightarrow> None
               | Some (c, w) \<Rightarrow> Some (r\<lparr>source := c, relay_place := Loop_test\<rparr>, w))
         else Some (r\<lparr>relay_place := Loop_test\<rparr>, w)
     | Loop_ended \<Rightarrow> None
     | Loop_fault \<Rightarrow> None)"

section \<open>The manager\<close>

text \<open>What the goroutines of the connections and of the settings are about to do under \<^verbatim>\<open>audioMutex\<close>.\<close>

datatype audio_op = Op_start | Op_stop

text \<open>\<open>output\<close> is \<^verbatim>\<open>outputSource\<close> with \<^verbatim>\<open>outputRelay\<close>; \<open>pending\<close> are the goroutines that wait for the lock, \<open>stopping\<close> says that one
  holds it and waits for the relay to end.\<close>

record go_audio =
  world :: c_world
  audioInitialized :: bool
  audioOutputEnabled :: bool
  audioInputEnabled :: bool
  activeConnections :: int
  outputs :: "output_relay option"
  pending :: "audio_op list"
  stopping :: bool

definition startAudio :: "go_audio \<Rightarrow> go_audio" where
  "startAudio g =
     (if \<not> audioInitialized g then g
      else if outputs g = None \<and> audioOutputEnabled g
      then g\<lparr>outputs := Some (snd (relay_Start (NewOutputRelay (NewCgoOutputSource ''hw:1,0''))))\<rparr>
      else g)"

text \<open>\<^verbatim>\<open>stopOutputLocked\<close> after the relay has ended; then the input is stopped, of which there is nothing.\<close>

definition end_stop :: "audio_env \<Rightarrow> go_audio \<Rightarrow> go_audio option" where
  "end_stop env g = (case outputs g of None \<Rightarrow> Some (g\<lparr>stopping := False\<rparr>)
     | Some r \<Rightarrow> (case Disconnect env (source r) (world g) of None \<Rightarrow> None
         | Some (c, w) \<Rightarrow> Some (g\<lparr>world := w, outputs := None, stopping := False\<rparr>)))"

text \<open>\<^verbatim>\<open>stopOutputLocked\<close> up to the wait for the relay, which \<^verbatim>\<open>Stop\<close> skips when the relay was not running.\<close>

definition stopOutputLocked :: "audio_env \<Rightarrow> go_audio \<Rightarrow> go_audio option" where
  "stopOutputLocked env g = (case outputs g of None \<Rightarrow> Some g
     | Some r \<Rightarrow> if relay_running r then Some (g\<lparr>outputs := Some (r\<lparr>relay_running := False\<rparr>), stopping := True\<rparr>)
         else end_stop env g)"

definition run_op :: "audio_env \<Rightarrow> audio_op \<Rightarrow> go_audio \<Rightarrow> go_audio option" where
  "run_op env op g = (case op of Op_start \<Rightarrow> Some (startAudio g) | Op_stop \<Rightarrow> stopOutputLocked env g)"

definition onWebRTCConnect :: "go_audio \<Rightarrow> go_audio" where
  "onWebRTCConnect g =
     (let g = g\<lparr>activeConnections := activeConnections g + 1\<rparr>
      in if activeConnections g = 1 then g\<lparr>pending := pending g @ [Op_start]\<rparr> else g)"

definition onWebRTCDisconnect :: "go_audio \<Rightarrow> go_audio" where
  "onWebRTCDisconnect g =
     (let g = g\<lparr>activeConnections := activeConnections g - 1\<rparr>
      in if activeConnections g = 0 then g\<lparr>pending := pending g @ [Op_stop]\<rparr> else g)"

definition SetAudioOutputEnabled :: "bool \<Rightarrow> go_audio \<Rightarrow> go_audio" where
  "SetAudioOutputEnabled enabled g =
     (if audioOutputEnabled g = enabled then g
      else let g = g\<lparr>audioOutputEnabled := enabled\<rparr> in
        if enabled then (if activeConnections g > 0 then g\<lparr>pending := pending g @ [Op_start]\<rparr> else g)
        else g\<lparr>pending := pending g @ [Op_stop]\<rparr>)"

text \<open>Disabling the input stops a source and a relay of which there are none.\<close>

definition SetAudioInputEnabled :: "bool \<Rightarrow> go_audio \<Rightarrow> go_audio" where
  "SetAudioInputEnabled enabled g =
     (if audioInputEnabled g = enabled then g
      else let g = g\<lparr>audioInputEnabled := enabled\<rparr> in
        if enabled \<and> activeConnections g > 0 then g\<lparr>pending := pending g @ [Op_start]\<rparr> else g)"

text \<open>The interleaving. A goroutine that waits for the lock gets it in any order; every disconnect belongs to a connect before it.
  The swap of a setting and the read of the counter after it are one step.\<close>

inductive go_audio_step :: "audio_env \<Rightarrow> go_audio \<Rightarrow> go_audio \<Rightarrow> bool" for env :: audio_env where
  by_connect: "go_audio_step env g (onWebRTCConnect g)"
| by_disconnect: "0 < activeConnections g \<Longrightarrow> go_audio_step env g (onWebRTCDisconnect g)"
| by_enable: "go_audio_step env g (SetAudioOutputEnabled enabled g)"
| by_input: "go_audio_step env g (SetAudioInputEnabled enabled g)"
| by_lock: "\<not> stopping g \<Longrightarrow> k < length (pending g) \<Longrightarrow>
    run_op env (pending g ! k) (g\<lparr>pending := take k (pending g) @ drop (Suc k) (pending g)\<rparr>) = Some g' \<Longrightarrow> go_audio_step env g g'"
| by_unlock: "stopping g \<Longrightarrow> outputs g = Some r \<Longrightarrow> relay_place r = Loop_ended \<Longrightarrow> end_stop env g = Some g' \<Longrightarrow> go_audio_step env g g'"
| by_relay: "outputs g = Some r \<Longrightarrow> relay_loop_step env sent r (world g) = Some (r', w) \<Longrightarrow>
    go_audio_step env g (g\<lparr>outputs := Some r', world := w\<rparr>)"

text \<open>After \<^verbatim>\<open>initAudio\<close>.\<close>

definition initAudio :: "bool \<Rightarrow> (string \<Rightarrow> string option) \<Rightarrow> go_audio" where
  "initAudio enabled e = \<lparr>world = \<lparr>c_audio = audio_globals, environ = e\<rparr>, audioInitialized = True, audioOutputEnabled = enabled,
     audioInputEnabled = True, activeConnections = 0, outputs = None, pending = [], stopping = False\<rparr>"

end
