(* ===== verification/Go_Audio_Props.thy ===== *)
theory Go_Audio_Props
  imports Go_Audio
begin

text \<open>
  The Go callers together with the C module of audio: under every interleaving of connections, settings and the relay, the C
  functions are called on open handles only, the device is closed when no relay is left, and a stop completes. Two behaviours
  break this: packets larger than the buffer of the source, and a reconnection whose start overtakes the stop before it.
\<close>

section \<open>The environment of the process\<close>

text \<open>The answers of the libraries do not depend on the environment variables that the source sets.\<close>

lemma with_environ_simps [simp]:
  "ret (with_environ env w) = ret env" "samples_in (with_environ env w) = samples_in env"
  "packet_out (with_environ env w) = packet_out env" "new_pcm (with_environ env w) = new_pcm env"
  "new_codec (with_environ env w) = new_codec env"
  by (simp_all add: with_environ_def)

lemma live_environ [simp]:
  "live_pcms (with_environ env w) h = live_pcms env h" "live_codecs (with_environ env w) h = live_codecs env h"
proof -
  show "live_pcms (with_environ env w) h = live_pcms env h" by (induction env h rule: live_pcms.induct) simp_all
  show "live_codecs (with_environ env w) h = live_codecs env h" by (induction env h rule: live_codecs.induct) simp_all
qed

lemma hist_ok_environ [simp]: "hist_ok (with_environ env w) h = hist_ok env h"
  by (induction h) simp_all

lemma env_laws_environ [simp]:
  "fresh_handles (with_environ env w) = fresh_handles env" "io_contract (with_environ env w) ch = io_contract env ch"
  "packets_fit (with_environ env w) m cap = packets_fit env m cap" "res_inv (with_environ env w) s = res_inv env s"
  by (simp_all add: fresh_handles_def io_contract_def packets_fit_def res_inv_def res_core_def)

lemma eagains_environ [simp]: "eagains (with_environ env w) h = eagains env h"
  by (induction env h rule: eagains.induct) simp_all

section \<open>What an initialisation leaves alone\<close>

definition audio_format :: "audio \<Rightarrow> u8 \<times> u16 \<times> u16 \<times> s16 list \<times> u8" where
  "audio_format s = (channels s, frame_size s, max_packet_size s, capture_pcm_buffer s, max_attempts_global s)"

lemma format_call [simp]:
  "audio_format (acall_run env c s) = audio_format s" "audio_format (s\<lparr>hist := h\<rparr>) = audio_format s"
  "audio_format (s\<lparr>capture_initializing := x\<rparr>) = audio_format s" "audio_format (s\<lparr>capture_initialized := x\<rparr>) = audio_format s"
  "audio_format (s\<lparr>encoder := e\<rparr>) = audio_format s" "audio_format (set_handle p k s) = audio_format s"
  by (simp_all add: audio_format_def acall_run_def acall_do_def Let_def) (cases p; simp)

lemma format_retry_wait [simp]: "audio_format (snd (retry_wait env e b s)) = audio_format s"
  by (simp add: retry_wait_def precise_sleep_us_def)

lemma format_open_loop: "audio_format (snd (open_loop env p d a b e s)) = audio_format s"
proof (induction env p d a b e s rule: open_loop.induct)
  case (1 env p d a b e s)
  let ?c = "Snd_pcm_open d (stream_of p)"
  obtain b' s2 where rw: "retry_wait env (ret env (?c # hist s)) b (s\<lparr>hist := ?c # hist s\<rparr>) = (b', s2)" by fastforce
  have "audio_format s2 = audio_format s" using format_retry_wait [of env "ret env (?c # hist s)" b "s\<lparr>hist := ?c # hist s\<rparr>"] rw by simp
  then show ?case using 1 [of "ret env (?c # hist s)" "s\<lparr>hist := ?c # hist s\<rparr>" b' s2] rw
    by (simp add: open_loop.simps [of env p d a b e s] acall_do_def Let_def rw)
qed

lemma format_configure: "audio_format (snd (configure_alsa_device env k s)) = audio_format s"
proof -
  have seq: "audio_format (snd (err_seq f g s)) = audio_format s"
    if "\<And>s. audio_format (snd (f s)) = audio_format s" "\<And>s. audio_format (snd (g s)) = audio_format s" for f g s
    using err_seq_rel [of "\<lambda>s t. audio_format t = audio_format s" f g s] that by simp
  have do: "audio_format (snd (acall_do env c s)) = audio_format s" for c s by (simp add: acall_do_def Let_def)
  show ?thesis
    by (cases k) (auto simp: configure_alsa_device_def configure_buffers_def configure_sw_def set_rate_def do Let_def
        intro!: seq split: prod.split)
qed

lemma format_encoder_ctls: "audio_format (encoder_ctls env enc cs s) = audio_format s"
  by (induction cs arbitrary: s) simp_all

lemma format_drop [simp]:
  "audio_format (drop_handle env p s) = audio_format s" "audio_format (drop_encoder env s) = audio_format s"
  "audio_format (drain_handle env p s) = audio_format s"
  by (simp_all add: drop_handle_def drop_encoder_def drain_handle_def split: option.split)

lemma format_create_encoder: "audio_format (snd (capture_create_encoder env s)) = audio_format s"
  by (simp add: capture_create_encoder_def Let_def format_encoder_ctls split: prod.split option.split)

lemma format_capture_init: "audio_format (snd (jetkvm_audio_capture_init env s)) = audio_format s"
proof -
  have devs: "audio_format (init_alsa_devices_from_env env s) = audio_format s"
    by (simp add: init_alsa_devices_from_env_def audio_format_def)
  have up: "audio_format (snd (capture_bring_up env s)) = audio_format s" for s
    using format_open_loop [of env Capture "alsa_capture_device s" 0 "sleep_microseconds s" None s]
      format_configure [of env] format_create_encoder [of env]
    by (auto simp: capture_bring_up_def safe_alsa_open_def split: prod.split option.split) (metis snd_conv)+
  show ?thesis by (simp add: capture_init_bring_up Let_def devs up)
qed

section \<open>The source\<close>

definition source_laws :: "audio_env \<Rightarrow> nat \<Rightarrow> bool" where
  "source_laws env N \<longleftrightarrow> fresh_handles env \<and> io_contract env 2 \<and> packets_fit env 1500 ipcMaxFrameSize \<and> (\<forall>h. eagains env h \<le> N)"

text \<open>The C module as the source leaves it: nothing is being initialised, and a ready capture path has the format of the source.\<close>

definition module_ok :: "audio_env \<Rightarrow> audio \<Rightarrow> bool" where
  "module_ok env s \<longleftrightarrow> res_inv env s \<and> \<not> capture_initializing s \<and> \<not> playback_initialized s \<and> length (capture_pcm_buffer s) = 1920 \<and>
     (capture_initialized s \<longrightarrow> channels s = 2 \<and> frame_size s = 960 \<and> max_packet_size s = 1500)"

definition source_ok :: "go_source \<Rightarrow> audio \<Rightarrow> bool" where
  "source_ok c s \<longleftrightarrow> output_direction c \<and> length (opusBuf c) = ipcMaxFrameSize \<and> (connected c \<longleftrightarrow> capture_initialized s)"

lemma read_encode_only_io:
  assumes "jetkvm_audio_read_encode env buf s = Some (r, t)"
  shows "only_io (\<lambda>_. True) s t"
proof (cases "t = s")
  case False
  then obtain h enc cap where "read_loop env h enc cap 0 s = Some (r, t)"
    using assms by (auto simp: jetkvm_audio_read_encode_def split: if_splits option.splits)
  from only_io_mono [OF only_io_read_loop [OF this]] show ?thesis by simp
qed simp

lemma module_ok_read:
  assumes "module_ok env s" "jetkvm_audio_read_encode (with_environ env w) buf s = Some (r, t)" "length (capture_pcm_buffer t) = 1920"
  shows "module_ok env t" "capture_initialized t = capture_initialized s"
proof -
  have io: "only_io (\<lambda>_. True) s t" by (rule read_encode_only_io [OF assms(2)])
  have "res_inv (with_environ env w) t" by (rule read_encode_inv [OF _ assms(2)]) (use assms(1) in \<open>simp add: module_ok_def\<close>)
  then show "module_ok env t" using assms(1,3) only_io_frame [OF io] only_io_config [OF io] by (simp add: module_ok_def)
  show "capture_initialized t = capture_initialized s" using only_io_frame [OF io] by simp
qed

lemma ReadMessage_ok:
  assumes "source_laws env N" "module_ok env (c_audio w)" "source_ok c (c_audio w)" "connected c"
  shows "\<exists>m c' w'. ReadMessage env c w = Some (m, c', w') \<and> m \<noteq> Read_fault \<and> m \<noteq> Read_panic \<and>
    module_ok env (c_audio w') \<and> source_ok c' (c_audio w')"
proof -
  let ?e = "with_environ env w" and ?s = "c_audio w"
  have cap: "capture_initialized ?s" "output_direction c" "length (opusBuf c) = 1024"
    using assms(3,4) by (simp_all add: source_ok_def ipcMaxFrameSize_def)
  then have f: "channels ?s = 2" "frame_size ?s = 960" "max_packet_size ?s = 1500" "length (capture_pcm_buffer ?s) = 1920"
    using assms(2) by (simp_all add: module_ok_def)
  have laws: "io_contract ?e 2" "\<forall>h. eagains ?e h \<le> N" "packets_fit env 1500 1024"
    using assms(1) by (simp_all add: source_laws_def ipcMaxFrameSize_def)
  obtain r t where t: "jetkvm_audio_read_encode ?e (Some 1024) ?s = Some (Ret r, t)" "length (capture_pcm_buffer t) = 1920"
    and r: "r = -1 \<or> r = 0 \<or> (\<exists>h enc. frame_encoded ?e h enc r t)"
    using read_encode_ok [of ?e ?s N 1024] laws f by auto
  note ok = module_ok_read [OF assms(2) t]
  have io: "only_io (\<lambda>_. True) ?s t" by (rule read_encode_only_io [OF t(1)])
  have p: "length (packet_out env (hist t)) = nat r \<and> nat r \<le> 1024" if "0 < r"
  proof -
    from r that obtain h enc where "frame_encoded ?e h enc r t" by auto
    then obtain xs h0 where h: "hist t = Opus_encode enc xs (frame_size t) (max_packet_size t) # h0" "r = ret env (hist t)"
      by (auto simp: frame_encoded_def)
    have "max_packet_size t = 1500" using only_io_config(3) [OF io] f(3) by simp
    then have "nat (ret env (hist t)) \<le> 1024" using laws(3) unfolding packets_fit_def h(1) by auto
    moreover have "length (packet_out env (hist t)) = nat (ret env (hist t))"
      using laws(1) unfolding io_contract_def h(1) by auto
    ultimately show ?thesis using h(2) by simp
  qed
  show ?thesis using t(1) cap assms(4) ok p
    by (cases "r < 0"; cases "r = 0") (auto simp: ReadMessage_def source_ok_def Let_def ipcMaxFrameSize_def assms(3))
qed

lemma attempts_drop [simp]:
  "max_attempts_global (drop_handle env p s) = max_attempts_global s" "max_attempts_global (drop_encoder env s) = max_attempts_global s"
  by (simp_all add: drop_handle_def drop_encoder_def acall_run_def split: option.split) (cases p; simp)

lemma capture_init_defined: "max_attempts_global s \<noteq> 0 \<Longrightarrow> fst (jetkvm_audio_capture_init env s) \<noteq> None"
proof -
  assume "max_attempts_global s \<noteq> 0"
  moreover have "fst (capture_bring_up env t) \<noteq> None" if m: "max_attempts_global t \<noteq> 0" for t
  proof -
    obtain e t1 where o1: "safe_alsa_open env Capture (alsa_capture_device t) t = (Some e, t1)"
      using safe_alsa_open_attempts [of env Capture "alsa_capture_device t" t] m by auto
    then show ?thesis by (simp add: capture_bring_up_def split: prod.split)
  qed
  ultimately show ?thesis
    by (simp add: capture_init_bring_up Let_def init_alsa_devices_from_env_def)
qed

lemma Connect_ok:
  assumes "fresh_handles env" "module_ok env (c_audio w)" "source_ok c (c_audio w)"
  shows "\<exists>q c' w'. Connect env c w = (q, c', w') \<and> q \<noteq> Conn_undefined \<and> (q = Conn_ok \<longrightarrow> connected c') \<and>
    module_ok env (c_audio w') \<and> source_ok c' (c_audio w')"
proof (cases "connected c")
  case True
  then show ?thesis using assms by (simp add: Connect_def)
next
  case False
  let ?s = "update_audio_constants 128000 5 48000 2 960 1500 1000 5 500000 (c_audio w)"
  let ?w = "w\<lparr>environ := (environ w)(''ALSA_CAPTURE_DEVICE'' \<mapsto> alsaDevice c), c_audio := ?s\<rparr>"
  let ?e = "with_environ env ?w"
  have s: "res_inv ?e ?s" "\<not> capture_initializing ?s" "max_attempts_global ?s = 5" "length (capture_pcm_buffer ?s) = 1920"
    "channels ?s = 2" "frame_size ?s = 960" "max_packet_size ?s = 1500" "\<not> playback_initialized ?s"
    using assms(2) constants_inv(1) [of env "c_audio w"] by (simp_all add: module_ok_def) (simp_all add: update_audio_constants_def)
  have fresh: "fresh_handles ?e" using assms(1) by simp
  obtain rc t where t: "jetkvm_audio_capture_init ?e ?s = (Some rc, t)"
    using capture_init_defined [of ?s ?e] s(3) by (cases "jetkvm_audio_capture_init ?e ?s") auto
  have fmt: "audio_format t = audio_format ?s" using format_capture_init [of ?e ?s] t by simp
  have inv: "res_inv env t" "\<not> capture_initializing t" "\<not> playback_initialized t" "capture_initialized t \<longleftrightarrow> rc = 0"
    using capture_init_inv [OF s(1) fresh t] capture_init_ok [OF s(1) fresh t] s(2,8) by (auto simp: same_playback_def)
  have "module_ok env t" using inv(1-3) fmt s by (simp add: module_ok_def audio_format_def)
  then show ?thesis using False assms(3) t inv(4)
    by (auto simp: Connect_def connect_output_def Let_def source_ok_def)
qed

lemma Disconnect_ok:
  assumes "module_ok env (c_audio w)" "source_ok c (c_audio w)"
  shows "\<exists>c' w'. Disconnect env c w = Some (c', w') \<and> \<not> connected c' \<and> \<not> capture_initialized (c_audio w') \<and>
    module_ok env (c_audio w') \<and> source_ok c' (c_audio w')"
proof (cases "connected c")
  case False
  then show ?thesis using assms by (simp add: Disconnect_def source_ok_def)
next
  case True
  let ?e = "with_environ env w" and ?s = "c_audio w"
  have s: "res_inv ?e ?s" "\<not> capture_initializing ?s" using assms(1) by (simp_all add: module_ok_def)
  obtain t where t: "jetkvm_audio_capture_close ?e ?s = Some t"
    using s(2) by (cases "jetkvm_audio_capture_close ?e ?s") (simp_all add: jetkvm_audio_capture_close_def split: if_splits)
  have fmt: "audio_format t = audio_format ?s"
    using t by (auto simp: jetkvm_audio_capture_close_def split: if_splits)
  note c = capture_close_ok [OF s(1) t]
  then have "module_ok env t" using fmt assms(1) by (simp add: module_ok_def audio_format_def same_playback_def)
  then show ?thesis using True assms(2) t c by (auto simp: Disconnect_def source_ok_def)
qed

section \<open>The relay\<close>

definition relay_ok :: "audio_env \<Rightarrow> output_relay \<Rightarrow> audio \<Rightarrow> bool" where
  "relay_ok env r s \<longleftrightarrow> module_ok env s \<and> source_ok (source r) s \<and> relay_place r \<noteq> Loop_fault \<and>
     (relay_place r = Loop_ended \<longrightarrow> \<not> relay_running r)"

text \<open>The parts of the loop that are left once the relay is told to stop.\<close>

fun parts_left :: "relay_place \<Rightarrow> nat" where
  "parts_left Loop_test = 1"
| "parts_left At_error = 2"
| "parts_left At_read = 3"
| "parts_left Loop_ended = 0"
| "parts_left Loop_fault = 0"

lemma ReadMessage_total:
  assumes "source_laws env N" "module_ok env (c_audio w)" "source_ok c (c_audio w)"
  shows "\<exists>m c' w'. ReadMessage env c w = Some (m, c', w') \<and> m \<noteq> Read_fault \<and> m \<noteq> Read_panic \<and>
    module_ok env (c_audio w') \<and> source_ok c' (c_audio w')"
proof (cases "connected c")
  case False
  then show ?thesis using assms by (simp add: ReadMessage_def)
qed (rule ReadMessage_ok [OF assms])

lemma relay_step_ok:
  assumes "source_laws env N" "relay_ok env r (c_audio w)" "relay_place r \<noteq> Loop_ended"
  shows "\<exists>r' w'. relay_loop_step env sent r w = Some (r', w') \<and> relay_ok env r' (c_audio w') \<and> relay_running r' = relay_running r \<and>
    (\<not> relay_running r \<longrightarrow> parts_left (relay_place r') < parts_left (relay_place r))"
proof (cases "relay_place r")
  case Loop_test
  obtain q c' w' where "Connect env (source r) w = (q, c', w')" "q \<noteq> Conn_undefined" "module_ok env (c_audio w')" "source_ok c' (c_audio w')"
    using Connect_ok [of env w "source r"] assms(1,2) by (auto simp: relay_ok_def source_laws_def)
  then show ?thesis using assms(2) Loop_test
    by (cases q) (auto simp: relay_loop_step_def relay_ok_def)
next
  case At_read
  obtain m c' w' where "ReadMessage env (source r) w = Some (m, c', w')" "m \<noteq> Read_fault" "m \<noteq> Read_panic"
    "module_ok env (c_audio w')" "source_ok c' (c_audio w')"
    using ReadMessage_total [OF assms(1), of w "source r"] assms(2) by (auto simp: relay_ok_def)
  then show ?thesis using assms(2) At_read
    by (cases m) (auto simp: relay_loop_step_def relay_ok_def Let_def)
next
  case At_error
  obtain c' w' where "Disconnect env (source r) w = Some (c', w')" "module_ok env (c_audio w')" "source_ok c' (c_audio w')"
    using Disconnect_ok [of env w "source r"] assms(2) by (auto simp: relay_ok_def)
  then show ?thesis using assms(2) At_error by (auto simp: relay_loop_step_def relay_ok_def)
qed (use assms in \<open>auto simp: relay_ok_def\<close>)

section \<open>The manager\<close>

definition go_audio_inv :: "audio_env \<Rightarrow> go_audio \<Rightarrow> bool" where
  "go_audio_inv env g \<longleftrightarrow> (case outputs g of
       None \<Rightarrow> module_ok env (c_audio (world g)) \<and> \<not> capture_initialized (c_audio (world g)) \<and> \<not> stopping g
     | Some r \<Rightarrow> relay_ok env r (c_audio (world g)) \<and> (relay_running r \<longleftrightarrow> \<not> stopping g))"

lemma inv_pending [simp]: "go_audio_inv env (g\<lparr>pending := ops\<rparr>) = go_audio_inv env g"
  by (simp add: go_audio_inv_def cong: option.case_cong)

lemma inv_changes:
  assumes "go_audio_inv env g"
  shows "go_audio_inv env (onWebRTCConnect g)" "go_audio_inv env (onWebRTCDisconnect g)"
    "go_audio_inv env (SetAudioOutputEnabled b g)" "go_audio_inv env (SetAudioInputEnabled b g)" "go_audio_inv env (startAudio g)"
  using assms
  by (auto simp: go_audio_inv_def onWebRTCConnect_def onWebRTCDisconnect_def SetAudioOutputEnabled_def SetAudioInputEnabled_def
      startAudio_def relay_Start_def NewOutputRelay_def NewCgoOutputSource_def relay_ok_def source_ok_def Let_def split: option.splits)

lemma end_stop_ok:
  assumes "go_audio_inv env g" "outputs g = Some r"
  shows "\<exists>g'. end_stop env g = Some g' \<and> go_audio_inv env g' \<and> outputs g' = None"
proof -
  obtain c w where "Disconnect env (source r) (world g) = Some (c, w)" "\<not> capture_initialized (c_audio w)" "module_ok env (c_audio w)"
    using Disconnect_ok [of env "world g" "source r"] assms by (auto simp: go_audio_inv_def relay_ok_def)
  then show ?thesis using assms(2) by (simp add: end_stop_def go_audio_inv_def)
qed

lemma stopOutputLocked_inv:
  assumes "go_audio_inv env g" "stopOutputLocked env g = Some g'"
  shows "go_audio_inv env g'"
  using assms end_stop_ok [OF assms(1)]
  by (auto simp: stopOutputLocked_def go_audio_inv_def relay_ok_def split: option.splits if_splits)

lemma go_audio_step_inv:
  assumes "source_laws env N" "go_audio_inv env g" "go_audio_step env g g'"
  shows "go_audio_inv env g'"
  using assms(3)
proof (cases rule: go_audio_step.cases)
  case (by_lock k)
  let ?g = "g\<lparr>pending := take k (pending g) @ drop (Suc k) (pending g)\<rparr>"
  have "go_audio_inv env ?g" using assms(2) by simp
  then show ?thesis using inv_changes(5) [of env ?g] stopOutputLocked_inv [of env ?g g'] by_lock(3)
    by (auto simp: run_op_def split: audio_op.splits)
next
  case (by_unlock r)
  then show ?thesis using end_stop_ok [OF assms(2)] by auto
next
  case (by_relay r sent r' w)
  have "relay_place r \<noteq> Loop_ended" using by_relay by (auto simp: relay_loop_step_def)
  then show ?thesis using relay_step_ok [OF assms(1), of r "world g" sent] by_relay assms(2) by (auto simp: go_audio_inv_def)
qed (use inv_changes [OF assms(2)] in simp_all)

interpretation go_audio: invariant_system "\<lambda>g. (\<exists>b e. g = initAudio b e) \<and> (\<exists>N. source_laws env N)" "go_audio_step env"
  "\<lambda>g. go_audio_inv env g \<and> (\<exists>N. source_laws env N)" for env
proof
  show "(\<exists>b e. g = initAudio b e) \<and> (\<exists>N. source_laws env N) \<Longrightarrow> go_audio_inv env g \<and> (\<exists>N. source_laws env N)" for g
    by (auto simp: initAudio_def go_audio_inv_def module_ok_def res_inv_def res_core_def audio_globals_def)
qed (auto intro: go_audio_step_inv)

text \<open>A stop that has begun comes to an end, whatever the libraries answer.\<close>

lemma audio_stop_completes:
  assumes "source_laws env N" "go_audio_inv env g" "stopping g"
  shows "\<exists>g'. (go_audio_step env)\<^sup>*\<^sup>* g g' \<and> outputs g' = None \<and> \<not> stopping g'"
proof -
  have "\<exists>g'. (go_audio_step env)\<^sup>*\<^sup>* g g' \<and> outputs g' = None \<and> \<not> stopping g'"
    if "outputs g = Some r" "go_audio_inv env g" "stopping g" for r g
    using that
  proof (induction "parts_left (relay_place r)" arbitrary: r g rule: less_induct)
    case less
    show ?case
    proof (cases "relay_place r = Loop_ended")
      case True
      obtain g' where g': "end_stop env g = Some g'" "go_audio_inv env g'" "outputs g' = None"
        using end_stop_ok [OF less.prems(2,1)] by auto
      have "go_audio_step env g g'" by (rule by_unlock [OF less.prems(3,1) True g'(1)])
      then show ?thesis using g'(2,3) by (auto simp: go_audio_inv_def intro: exI [of _ g'])
    next
      case False
      have r: "relay_ok env r (c_audio (world g))" "\<not> relay_running r"
        using less.prems by (simp_all add: go_audio_inv_def)
      then obtain r' w where r': "relay_loop_step env True r (world g) = Some (r', w)"
        "parts_left (relay_place r') < parts_left (relay_place r)"
        using relay_step_ok [OF assms(1) r(1) False, of True] by auto
      let ?g = "g\<lparr>outputs := Some r', world := w\<rparr>"
      have step: "go_audio_step env g ?g" by (rule by_relay [OF less.prems(1) r'(1)])
      have "\<exists>g'. (go_audio_step env)\<^sup>*\<^sup>* ?g g' \<and> outputs g' = None \<and> \<not> stopping g'"
        by (rule less.hyps [OF r'(2)]) (use go_audio_step_inv [OF assms(1) less.prems(2) step] less.prems(3) in simp_all)
      then show ?thesis using step by (meson converse_rtranclp_into_rtranclp)
    qed
  qed
  then show ?thesis using assms(2,3) by (cases "outputs g") (auto simp: go_audio_inv_def)
qed

section \<open>Stated properties\<close>

text \<open>C7: The Go manager and the C module together. When ALSA and Opus keep their contracts, packets fit the source's buffer and the
  device answers \<^verbatim>\<open>-EAGAIN\<close> only finitely often, then under every interleaving of connections, disconnections, settings and the
  relay the C functions were called on open handles only, the relay has met neither an overflow nor an undefined return, the
  capture device is closed whenever there is no relay, and a stop that has begun can always complete.\<close>

theorem go_audio_safe:
  assumes "source_laws env N" "(go_audio_step env)\<^sup>*\<^sup>* (initAudio enabled e) g"
  shows "hist_ok env (hist (c_audio (world g))) \<and>
    (\<forall>r. outputs g = Some r \<longrightarrow> relay_place r \<noteq> Loop_fault) \<and>
    (outputs g = None \<longrightarrow> pcm_capture_handle (c_audio (world g)) = None \<and> live_pcms env (hist (c_audio (world g))) = {}) \<and>
    (stopping g \<longrightarrow> (\<exists>g'. (go_audio_step env)\<^sup>*\<^sup>* g g' \<and> outputs g' = None \<and> \<not> stopping g'))"
proof -
  have inv: "go_audio_inv env g"
    using go_audio.inv_steps [OF _ assms(2)] go_audio.inv_start [of "initAudio enabled e" env] assms(1) by blast
  then have ok: "module_ok env (c_audio (world g))" by (auto simp: go_audio_inv_def relay_ok_def split: option.splits)
  then have hist: "hist_ok env (hist (c_audio (world g)))" by (simp add: module_ok_def res_inv_def res_core_def)
  have closed: "pcm_capture_handle (c_audio (world g)) = None \<and> live_pcms env (hist (c_audio (world g))) = {}" if "outputs g = None"
    using inv ok that by (auto simp: go_audio_inv_def module_ok_def res_inv_def res_core_def)
  have "relay_place r \<noteq> Loop_fault" if "outputs g = Some r" for r
    using inv that by (simp add: go_audio_inv_def relay_ok_def)
  with hist closed audio_stop_completes [OF assms(1) inv] show ?thesis by blast
qed


text \<open>A relay that has been started and told to stop before its first pass.\<close>

definition starting :: "go_audio \<Rightarrow> go_audio" where
  "starting g = startAudio ((onWebRTCConnect g)\<lparr>pending := []\<rparr>)"

lemma starting_steps: "activeConnections g = 0 \<Longrightarrow> pending g = [] \<Longrightarrow> \<not> stopping g \<Longrightarrow> (go_audio_step env)\<^sup>*\<^sup>* g (starting g)"
proof -
  assume g: "activeConnections g = 0" "pending g = []" "\<not> stopping g"
  have "go_audio_step env (onWebRTCConnect g) (starting g)"
    by (rule by_lock [where k = 0]) (use g in \<open>simp_all add: onWebRTCConnect_def run_op_def starting_def\<close>)
  then show ?thesis using by_connect [of env g] by (meson converse_rtranclp_into_rtranclp r_into_rtranclp)
qed

definition first_relay :: output_relay where
  "first_relay = \<lparr>source = NewCgoOutputSource ''hw:1,0'', relay_place = Loop_test, relay_running = True, framesRelayed = 0, framesDropped = 0\<rparr>"

lemma starting_init:
  "starting (initAudio True e) = (initAudio True e)\<lparr>activeConnections := 1, outputs := Some first_relay\<rparr>"
  by (simp add: starting_def startAudio_def onWebRTCConnect_def initAudio_def NewOutputRelay_def relay_Start_def first_relay_def)

lemma device_fresh: "fresh_handles (device_env sz)"
  by (rule numbered_fresh) (simp_all add: device_env_def)

lemma device_laws: "sz \<le> ipcMaxFrameSize \<Longrightarrow> source_laws (device_env sz) 0"
  using device_fresh [of sz] device_contract [of sz] device_eagains [of sz]
  by (auto simp: source_laws_def packets_fit_def device_env_def)

text \<open>The first connection is gone again and its stop waits for the relay.\<close>

definition first_stopping :: "(string \<Rightarrow> string option) \<Rightarrow> go_audio" where
  "first_stopping e = (initAudio True e)\<lparr>outputs := Some (first_relay\<lparr>relay_running := False\<rparr>), stopping := True\<rparr>"

lemma init_starting: "(go_audio_step env)\<^sup>*\<^sup>* (initAudio True e) (starting (initAudio True e))"
  by (rule starting_steps) (simp_all add: initAudio_def)

lemma init_stopping: "(go_audio_step env)\<^sup>*\<^sup>* (initAudio True e) (first_stopping e)"
proof -
  let ?g = "starting (initAudio True e)"
  have d: "go_audio_step env ?g (onWebRTCDisconnect ?g)" by (rule by_disconnect) (simp add: starting_init)
  have "go_audio_step env (onWebRTCDisconnect ?g) (first_stopping e)"
    by (rule by_lock [where k = 0]; unfold starting_init)
      (simp_all add: onWebRTCDisconnect_def initAudio_def run_op_def stopOutputLocked_def first_relay_def first_stopping_def Let_def)
  with init_starting [of env e] d show ?thesis by (meson rtranclp.rtrancl_into_rtrancl)
qed

theorem go_audio_safe_witness:
  "source_laws (device_env 100) 0 \<and>
   (\<exists>g. (go_audio_step (device_env 100))\<^sup>*\<^sup>* (first_stopping (\<lambda>_. None)) g \<and> outputs g = None)"
proof -
  have l: "source_laws (device_env 100) 0" by (rule device_laws) (simp add: ipcMaxFrameSize_def)
  show ?thesis using go_audio_safe [OF l init_stopping, of "\<lambda>_. None"] l by (auto simp: first_stopping_def)
qed

text \<open>C8: A reconnection whose start gets the lock before the stop of the disconnection before it finds the old relay, does nothing,
  and the stop then takes that relay away: a connection is left with audio enabled, no relay, and no goroutine about to start one.\<close>

theorem go_audio_lost:
  "\<exists>g. (go_audio_step env)\<^sup>*\<^sup>* (initAudio True e) g \<and> activeConnections g = 1 \<and> audioOutputEnabled g \<and>
     pending g = [] \<and> \<not> stopping g \<and> outputs g = None"
proof -
  define g where "g = starting (initAudio True e)"
  have g: "activeConnections g = 1" "pending g = []" "\<not> stopping g" "outputs g = Some first_relay" "audioOutputEnabled g"
    by (simp_all add: g_def starting_init) (simp_all add: initAudio_def)
  let ?h = "onWebRTCConnect (onWebRTCDisconnect g)"
  let ?r = "first_relay\<lparr>relay_running := False\<rparr>"
  let ?i = "g\<lparr>outputs := Some ?r, stopping := True\<rparr>"
  let ?j = "?i\<lparr>outputs := Some (?r\<lparr>relay_place := Loop_ended\<rparr>)\<rparr>"
  note step = converse_rtranclp_into_rtranclp [of "go_audio_step env"]
  note defs = onWebRTCConnect_def onWebRTCDisconnect_def Let_def
  have 1: "go_audio_step env g (onWebRTCDisconnect g)" by (rule by_disconnect) (simp add: g)
  have 2: "go_audio_step env (onWebRTCDisconnect g) ?h" by (rule by_connect)
  have 3: "go_audio_step env ?h (?h\<lparr>pending := [Op_stop]\<rparr>)"
    by (rule by_lock [where k = 1]) (simp_all add: defs g run_op_def startAudio_def)
  have h: "?h\<lparr>pending := []\<rparr> = g" using g by (simp add: defs)
  have 4: "go_audio_step env (?h\<lparr>pending := [Op_stop]\<rparr>) ?i"
    by (rule by_lock [where k = 0]) (use h g in \<open>simp_all add: run_op_def stopOutputLocked_def first_relay_def defs\<close>)
  have 5: "go_audio_step env ?i ?j"
    using by_relay [of ?i ?r env True "?r\<lparr>relay_place := Loop_ended\<rparr>" "world ?i"]
    by (simp add: relay_loop_step_def first_relay_def)
  have 6: "go_audio_step env ?j (g\<lparr>outputs := None\<rparr>)"
    by (rule by_unlock [where r = "?r\<lparr>relay_place := Loop_ended\<rparr>"]) (use g in \<open>simp_all add: end_stop_def Disconnect_def first_relay_def NewCgoOutputSource_def\<close>)
  have "(go_audio_step env)\<^sup>*\<^sup>* g (g\<lparr>outputs := None\<rparr>)"
    by (rule step [OF 1 step [OF 2 step [OF 3 step [OF 4 step [OF 5 step [OF 6 rtranclp.rtrancl_refl]]]]]])
  with init_starting [of env e] have "(go_audio_step env)\<^sup>*\<^sup>* (initAudio True e) (g\<lparr>outputs := None\<rparr>)"
    unfolding g_def by (rule rtranclp_trans)
  then show ?thesis using g by (intro exI [of _ "g\<lparr>outputs := None\<rparr>"]) simp
qed

lemma device_brings_up:
  assumes "max_attempts_global s \<noteq> 0"
  shows "fst (capture_bring_up ((device_env sz)\<lparr>getenv := e\<rparr>) s) = Some 0"
  using assms
  by (simp add: capture_bring_up_def safe_alsa_open_def open_loop.simps Let_def acall_do_def acall_run_def device_env_def word_gt_0
      configure_alsa_device_def err_seq_def configure_buffers_def configure_sw_def set_rate_def capture_create_encoder_def OPUS_OK_def)

lemma device_connects:
  assumes "max_attempts_global s \<noteq> 0" "\<not> capture_initializing s"
  shows "fst (jetkvm_audio_capture_init ((device_env sz)\<lparr>getenv := e\<rparr>) s) = Some 0"
  using assms by (simp add: capture_init_bring_up Let_def init_alsa_devices_from_env_def device_brings_up)

lemma device_Connect:
  assumes "\<not> connected c" "output_direction c" "\<not> capture_initializing (c_audio w)"
  shows "fst (Connect (device_env sz) c w) = Conn_ok"
proof -
  let ?s = "update_audio_constants 128000 5 48000 2 960 1500 1000 5 500000 (c_audio w)"
  let ?w = "w\<lparr>environ := (environ w)(''ALSA_CAPTURE_DEVICE'' \<mapsto> alsaDevice c), c_audio := ?s\<rparr>"
  have "max_attempts_global ?s \<noteq> 0" "\<not> capture_initializing ?s"
    using assms(3) by (simp_all add: update_audio_constants_def)
  then obtain t where t: "jetkvm_audio_capture_init (with_environ (device_env sz) ?w) ?s = (Some 0, t)"
    using device_connects [of ?s "environ ?w" sz]
    by (cases "jetkvm_audio_capture_init (with_environ (device_env sz) ?w) ?s") (simp_all add: with_environ_def)
  then show ?thesis using assms(1,2) by (simp add: Connect_def connect_output_def Let_def)
qed

lemma device_read_overflows:
  assumes "module_ok env (c_audio w)" "source_ok c (c_audio w)" "connected c"
  shows "\<exists>t. ReadMessage (device_env 1500) c w = Some (Read_fault, c, w\<lparr>c_audio := t\<rparr>)"
proof -
  have s: "capture_initialized (c_audio w)" "output_direction c" "length (opusBuf c) = 1024"
    using assms(2,3) by (simp_all add: source_ok_def ipcMaxFrameSize_def)
  then obtain h enc where "pcm_capture_handle (c_audio w) = Some h" "encoder (c_audio w) = Some enc"
    using assms(1) by (auto simp: module_ok_def res_inv_def)
  then show ?thesis using large_packet_overflows [of "c_audio w" h enc "environ w"] s assms(1,3)
    by (auto simp: ReadMessage_def with_environ_def module_ok_def)
qed


end
