(* ===== verification/Float_Round.thy ===== *)
theory Float_Round
  imports Complex_Main "HOL-Library.Log_Nat"
begin

text \<open>
  The floating point arithmetic the bit rate computation uses. A \<^verbatim>\<open>float\<close> or \<^verbatim>\<open>double\<close> value is a
  rational number, an infinity or a NaN; an operation computes the exact result and rounds it to
  24 or 53 significant bits, to the nearest and to even in the middle. Overflow and subnormal
  numbers do not occur in the ranges the theorems are about and are not modelled. The locale
  states what the computation relies on, and the rounding function is an instance of it.
\<close>

section \<open>Values\<close>

datatype cfloat = Finite rat | Infinite bool | Not_a_number

text \<open>The comparison \<^verbatim>\<open>x <= 0\<close>, which is false for a NaN; \<open>Infinite True\<close> is the negative infinity.\<close>

fun le_zero :: "cfloat \<Rightarrow> bool" where
  "le_zero (Finite x) = (x \<le> 0)"
| "le_zero (Infinite neg) = neg"
| "le_zero Not_a_number = False"

text \<open>Conversion to \<^verbatim>\<open>int32_t\<close>: truncation, undefined (\<open>None\<close>) out of range.\<close>

definition trunc_rat :: "rat \<Rightarrow> int" where
  "trunc_rat x = (if x < 0 then \<lceil>x\<rceil> else \<lfloor>x\<rfloor>)"

definition to_int32 :: "rat \<Rightarrow> int option" where
  "to_int32 x = (let n = trunc_rat x in if - (2 ^ 31) \<le> n \<and> n < 2 ^ 31 then Some n else None)"

section \<open>Rounding to the nearest, ties to even\<close>

definition round_even :: "rat \<Rightarrow> int" where
  "round_even r =
     (let f = \<lfloor>r\<rfloor>; d = r - of_int f
      in if d < 1 / 2 then f else if d > 1 / 2 then f + 1 else if even f then f else f + 1)"

text \<open>The binary exponent of a positive number: \<open>2 powi ilog2 x \<le> x < 2 powi (ilog2 x + 1)\<close>.\<close>

definition ilog2 :: "rat \<Rightarrow> int" where
  "ilog2 x = (case quotient_of x of (p, q) \<Rightarrow>
     let e = bitlen p - bitlen q in if x < 2 powi e then e - 1 else e)"

definition round_to :: "nat \<Rightarrow> rat \<Rightarrow> rat" where
  "round_to p x =
     (if x = 0 then 0
      else let u = 2 powi (ilog2 \<bar>x\<bar> - int p + 1) in of_int (round_even (x / u)) * u)"

section \<open>What the computation relies on\<close>

locale rounding =
  fixes rnd :: "rat \<Rightarrow> rat" and digits :: nat
  assumes rnd_mono: "0 \<le> x \<Longrightarrow> x \<le> y \<Longrightarrow> rnd x \<le> rnd y"
    and rnd_exact: "n \<le> 2 ^ digits \<Longrightarrow> rnd (of_nat n) = of_nat n"
begin

lemma rnd_nonneg: "0 \<le> x \<Longrightarrow> 0 \<le> rnd x"
  using rnd_mono [of 0 x] rnd_exact [of 0] by simp

lemma rnd_upper: "0 \<le> x \<Longrightarrow> x \<le> of_nat n \<Longrightarrow> n \<le> 2 ^ digits \<Longrightarrow> rnd x \<le> of_nat n"
  using rnd_mono [of x "of_nat n"] rnd_exact [of n] by simp

lemma rnd_lower: "of_nat n \<le> x \<Longrightarrow> n \<le> 2 ^ digits \<Longrightarrow> of_nat n \<le> rnd x"
  using rnd_mono [of "of_nat n" x] rnd_exact [of n] by simp

end

section \<open>The rounding function satisfies it\<close>

lemma round_even_bounds: "\<lfloor>r\<rfloor> \<le> round_even r \<and> round_even r \<le> \<lfloor>r\<rfloor> + 1"
  by (simp add: round_even_def Let_def)

lemma round_even_int [simp]: "round_even (of_int n) = n"
  by (simp add: round_even_def)

lemma round_even_mono: "r \<le> s \<Longrightarrow> round_even r \<le> round_even s"
proof (cases "\<lfloor>r\<rfloor> = \<lfloor>s\<rfloor>")
  case True
  assume "r \<le> s"
  then show ?thesis using True by (auto simp: round_even_def Let_def)
next
  case False
  assume "r \<le> s"
  then have "\<lfloor>r\<rfloor> + 1 \<le> \<lfloor>s\<rfloor>" using False floor_mono [of r s] by linarith
  then show ?thesis using round_even_bounds [of r] round_even_bounds [of s] by linarith
qed

lemma bitlen_range: "0 < n \<Longrightarrow> 2 powi (bitlen n - 1) \<le> (of_int n :: rat) \<and> (of_int n :: rat) < 2 powi (bitlen n)"
proof -
  assume n: "0 < n"
  let ?k = "nat (bitlen n)"
  have k: "bitlen n = int ?k" "0 < ?k" using n bitlen_nonneg [of n] bitlen_eq_zero_iff [of n] by auto
  have b: "2 ^ (?k - 1) \<le> n \<and> n < 2 ^ ?k" using bitlen_bounds [OF n] nat_diff_distrib [of 1 "bitlen n"] k by simp
  have "(2 :: rat) powi (bitlen n - 1) = of_int (2 ^ (?k - 1))" "(2 :: rat) powi (bitlen n) = of_int (2 ^ ?k)"
    using k by (simp_all add: power_int_def nat_diff_distrib)
  then show ?thesis using b by (simp only: of_int_le_iff of_int_less_iff)
qed

lemma ilog2_bounds:
  assumes "0 < x"
  shows "2 powi (ilog2 x) \<le> x" and "x < 2 powi (ilog2 x + 1)"
proof -
  obtain p q where pq: "quotient_of x = (p, q)" by fastforce
  have q: "0 < q" using quotient_of_denom_pos [OF pq] .
  have x: "x = of_int p / of_int q" using quotient_of_div [OF pq] .
  have p: "0 < p" using assms x q by (simp add: zero_less_divide_iff)
  let ?e = "bitlen p - bitlen q"
  note bp = bitlen_range [OF p] and bq = bitlen_range [OF q]
  have "x < 2 powi (bitlen p) / 2 powi (bitlen q - 1)"
    unfolding x by (rule frac_less) (use bp bq p in \<open>auto simp: less_imp_le\<close>)
  also have "\<dots> = 2 powi (?e + 1)" by (simp flip: power_int_diff add: algebra_simps)
  finally have hi: "x < 2 powi (?e + 1)" .
  have "2 powi (?e - 1) = 2 powi (bitlen p - 1) / (2 :: rat) powi (bitlen q)" by (simp flip: power_int_diff add: algebra_simps)
  also have "\<dots> \<le> x" unfolding x by (rule frac_le) (use bp bq p q in auto)
  finally have lo: "2 powi (?e - 1) \<le> x" .
  show "2 powi (ilog2 x) \<le> x" "x < 2 powi (ilog2 x + 1)"
    using lo hi by (auto simp: ilog2_def pq Let_def)
qed

lemma round_to_range:
  assumes "0 < x" "0 < p"
  shows "2 powi (ilog2 x) \<le> round_to p x \<and> round_to p x \<le> 2 powi (ilog2 x + 1)"
proof -
  let ?u = "2 powi (ilog2 x - int p + 1) :: rat"
  have u: "0 < ?u" by simp
  have e: "2 powi (ilog2 x) = of_int (2 ^ (p - 1)) * ?u" "2 powi (ilog2 x + 1) = of_int (2 ^ p) * ?u"
    using assms(2) by (simp_all flip: power_int_of_nat power_int_add add: of_nat_diff)
  have "round_even (of_int (2 ^ (p - 1))) \<le> round_even (x / ?u)"
    by (rule round_even_mono) (use ilog2_bounds(1) [OF assms(1)] e(1) u in \<open>simp add: pos_le_divide_eq\<close>)
  moreover have "round_even (x / ?u) \<le> round_even (of_int (2 ^ p))"
    by (rule round_even_mono) (use ilog2_bounds(2) [OF assms(1)] e(2) u in \<open>simp add: pos_divide_le_eq\<close>)
  ultimately have "2 ^ (p - 1) \<le> round_even (x / ?u)" "round_even (x / ?u) \<le> 2 ^ p"
    by (simp_all only: round_even_int)
  then have "(of_int (2 ^ (p - 1)) :: rat) \<le> of_int (round_even (x / ?u))" "of_int (round_even (x / ?u)) \<le> (of_int (2 ^ p) :: rat)"
    by (simp_all only: of_int_le_iff)
  then show ?thesis
    unfolding e using assms(1) u by (simp add: round_to_def Let_def)
qed

lemma ilog2_mono: "0 < x \<Longrightarrow> x \<le> y \<Longrightarrow> ilog2 x \<le> ilog2 y"
proof (rule ccontr)
  assume x: "0 < x" "x \<le> y" and "\<not> ilog2 x \<le> ilog2 y"
  then have "(2 :: rat) powi (ilog2 y + 1) \<le> 2 powi (ilog2 x)" by (simp add: power_int_increasing)
  with ilog2_bounds(2) [of y] ilog2_bounds(1) [of x] x show False by linarith
qed

lemma round_to_mono:
  assumes "0 \<le> x" "x \<le> y" "0 < p"
  shows "round_to p x \<le> round_to p y"
proof (cases "x = 0")
  case True
  show ?thesis
  proof (cases "y = 0")
    case False
    then have "0 < y" using assms by simp
    moreover have "0 \<le> (2 :: rat) powi ilog2 y" by simp
    ultimately show ?thesis using round_to_range [of y p] assms(3) True
      by (metis order_trans round_to_def)
  qed (use True in simp)
next
  case False
  then have x: "0 < x" "0 < y" using assms by auto
  show ?thesis
  proof (cases "ilog2 x = ilog2 y")
    case True
    let ?u = "2 powi (ilog2 x - int p + 1) :: rat"
    have "round_even (x / ?u) \<le> round_even (y / ?u)"
      by (rule round_even_mono) (use assms in \<open>simp add: divide_right_mono\<close>)
    then have "(of_int (round_even (x / ?u)) :: rat) * ?u \<le> of_int (round_even (y / ?u)) * ?u"
      by (intro mult_right_mono) simp_all
    then show ?thesis using x True by (simp add: round_to_def Let_def)
  next
    case False
    then have "ilog2 x + 1 \<le> ilog2 y" using ilog2_mono [OF x(1) assms(2)] by linarith
    then have "(2 :: rat) powi (ilog2 x + 1) \<le> 2 powi (ilog2 y)" by (simp add: power_int_increasing)
    then show ?thesis using round_to_range [OF x(1) assms(3)] round_to_range [OF x(2) assms(3)] by linarith
  qed
qed

lemma round_to_integral:
  assumes "0 < x" "x / 2 powi (ilog2 x - int p + 1) = of_int m"
  shows "round_to p x = x"
proof -
  have "round_to p x = of_int m * 2 powi (ilog2 x - int p + 1)"
    using assms by (simp add: round_to_def Let_def)
  also have "\<dots> = x" unfolding assms(2) [symmetric] by simp
  finally show ?thesis .
qed

lemma round_to_exact:
  assumes "n \<le> 2 ^ p" "0 < p"
  shows "round_to p (of_nat n) = of_nat n"
proof (cases "n = 0")
  case True
  then show ?thesis by (simp add: round_to_def)
next
  case False
  let ?x = "of_nat n :: rat" and ?e = "ilog2 (of_nat n)"
  have x: "0 < ?x" using False by simp
  have up: "?x \<le> 2 powi int p" using assms(1) by (metis of_nat_le_iff of_nat_numeral of_nat_power power_int_of_nat)
  show ?thesis
  proof (cases "?e \<le> int p - 1")
    case True
    then have "?e - int p + 1 = - int (nat (int p - 1 - ?e))" by simp
    then have "?x / 2 powi (?e - int p + 1) = of_int (int n * 2 ^ nat (int p - 1 - ?e))"
      by (simp only: power_int_minus power_int_of_nat) (simp add: field_simps)
    with round_to_integral [OF x] show ?thesis by blast
  next
    case False
    then have "(2 :: rat) powi int p \<le> 2 powi ?e" by (intro power_int_increasing) auto
    then have "?x = 2 powi int p" "2 powi ?e = (2 :: rat) powi int p" using up ilog2_bounds(1) [OF x] by (linarith, linarith)
    have "\<not> int p + 1 \<le> ?e"
    proof
      assume "int p + 1 \<le> ?e"
      then have "(2 :: rat) powi (int p + 1) \<le> 2 powi ?e" by (intro power_int_increasing) auto
      moreover have "(2 :: rat) powi (int p + 1) = 2 * 2 powi int p" by (simp add: power_int_add)
      moreover have "0 < (2 :: rat) powi int p" by simp
      ultimately show False using \<open>2 powi ?e = (2 :: rat) powi int p\<close> by linarith
    qed
    then have "?e = int p" using False by linarith
    then have u: "2 powi (?e - int p + 1) = (2 :: rat)" by simp
    have "(2 :: rat) powi int p = 2 * 2 ^ (p - 1)" using assms(2) by (cases p) (simp_all add: power_int_add)
    then have "?x / 2 powi (?e - int p + 1) = of_int (2 ^ (p - 1))"
      unfolding u using \<open>?x = 2 powi int p\<close> by simp
    with round_to_integral [OF x] show ?thesis by blast
  qed
qed

interpretation single: rounding "round_to 24" 24
  by unfold_locales (auto intro: round_to_mono round_to_exact)

interpretation double: rounding "round_to 53" 53
  by unfold_locales (auto intro: round_to_mono round_to_exact)

end
