(* ===== verification/Native_Sys.thy ===== *)
theory Native_Sys
  imports C_Lib Float_Round
begin

text \<open>
  The calls the native code (\<^verbatim>\<open>internal/native/cgo\<close>) makes into the kernel and into the Rockchip
  media library, which are outside the repository. As in the audio components, a call is recorded
  in a history (newest first) and the parameter \<open>env\<close> answers it from the whole history. Reads of
  variables that another thread writes are answered the same way, so a theorem for every
  \<open>env\<close> covers every interleaving with the other threads.
\<close>

section \<open>Calls\<close>

type_synonym fd = int
type_synonym blk = int

text \<open>The frame handed to the encoder, and the encoder channel attributes, as the calls carry them.\<close>

record frame_info =
  fr_blk :: blk
  fr_width :: u32
  fr_height :: u32
  fr_vir_width :: u32
  fr_vir_height :: u32
  fr_time_ref :: u32
  fr_pts :: u64

datatype rc_mode = VENC_RC_MODE_H264VBR | VENC_RC_MODE_H265VBR
datatype codec_id = RK_VIDEO_ID_AVC | RK_VIDEO_ID_HEVC
datatype codec_profile = H264E_PROFILE_HIGH | H265E_PROFILE_MAIN

record venc_attr =
  enRcMode :: rc_mode
  u32BitRate :: u32
  u32MaxBitRate :: u32
  u32MinBitRate :: u32
  u32Gop :: u32
  u32StatTime :: u32
  u32SrcFrameRateNum :: u32
  u32SrcFrameRateDen :: u32
  fr32DstFrameRateNum :: u32
  fr32DstFrameRateDen :: u32
  enType :: codec_id
  u32Profile :: codec_profile
  u32PicWidth :: u32
  u32PicHeight :: u32
  u32VirWidth :: u32
  u32VirHeight :: u32
  u32StreamBufCnt :: u32
  u32BufSize :: u32

text \<open>The shared variables of \<^verbatim>\<open>video.c\<close> a thread reads without owning them.\<close>

datatype shared_var = Streaming_flag | Detected_signal | Detected_width | Detected_height | Detected_fps
  | Streaming_stopped | Venc_running | Should_exit | Quality_factor | Codec_type

datatype (plugins only: code size) ncall =
    Open string
  | Close fd
  | Access string
  | Lseek fd
  | Read_byte fd
  | Write_str fd string
  | Usleep nat
  | Sleep nat
  | Get_errno
  | Select fd
  | Shared_read shared_var
  | Set_stopped bool
  | Ioctl_G_EDID fd nat
  | Ioctl_S_EDID fd nat "u8 list"
  | Ioctl_LOG_STATUS fd
  | Klogctl nat
  | Malloc nat
  | Ioctl_S_FMT fd u32 u32
  | Ioctl_REQBUFS fd nat
  | Ioctl_QUERYBUF fd nat
  | Ioctl_QBUF fd nat
  | Ioctl_DQBUF fd
  | Ioctl_STREAMON fd
  | Ioctl_STREAMOFF fd
  | MB_CreatePool
  | MB_DestroyPool
  | MB_GetMB
  | MB_Handle2Fd blk
  | MB_Handle2VirAddr
  | MB_ReleaseMB blk
  | MMZ_Fd2Handle int
  | SYS_Init
  | VENC_CreateChn venc_attr
  | VENC_StartRecvFrame
  | VENC_StopRecvFrame
  | VENC_DestroyChn
  | VENC_SendFrame frame_info
  | VENC_GetStream
  | VENC_ReleaseStream
  | Thread_create
  | Thread_join
  | Join_uninitialised
  | Stream_thread_create
  | Stream_thread_join
  | Format_thread_create
  | Clock_gettime
  | Video_send_frame "u8 list"
  | Ioctl_SUBSCRIBE fd
  | Ioctl_QUERY_DV_TIMINGS fd
  | Ioctl_DQEVENT fd
  | Shutdown fd

text \<open>The answers: return values; bytes, text, floating point values and integers (by position) stored
  for the caller; and the error code of the media library for an empty stream buffer.\<close>

record native_env =
  nret :: "ncall list \<Rightarrow> int"
  nbytes :: "ncall list \<Rightarrow> u8 list"
  ntext :: "ncall list \<Rightarrow> string"
  nfloat :: "ncall list \<Rightarrow> cfloat"
  nval :: "ncall list \<Rightarrow> nat \<Rightarrow> int"
  RK_ERR_VENC_BUF_EMPTY :: int

definition ndo :: "native_env \<Rightarrow> ncall \<Rightarrow> ncall list \<Rightarrow> int \<times> ncall list" where
  "ndo env c h = (nret env (c # h), c # h)"

lemma ndo_simps [call_simps, simp]: "fst (ndo env c h) = nret env (c # h)" "snd (ndo env c h) = c # h"
  by (simp_all add: ndo_def)

section \<open>File descriptors held\<close>

text \<open>
  The descriptors a history leaves open (each with its multiplicity in a list): an \<^verbatim>\<open>open\<close> that
  does not fail adds one, a \<^verbatim>\<open>close\<close> removes it.
\<close>

fun open_fds :: "native_env \<Rightarrow> ncall list \<Rightarrow> fd list" where
  "open_fds env [] = []"
| "open_fds env (Open p # h) =
     (let r = nret env (Open p # h) in if r < 0 then open_fds env h else r # open_fds env h)"
| "open_fds env (Close fd # h) = remove1 fd (open_fds env h)"
| "open_fds env (_ # h) = open_fds env h"

end
