(* ===== verification/Venc.thy ===== *)
theory Venc
  imports Native_Sys "HOL-Library.Monad_Syntax"
begin

text \<open>
  The encoder part of \<^verbatim>\<open>internal/native/cgo/video.c\<close>: the target bit rate, the channel attributes,
  starting and stopping the channel with its reader thread, and the reader thread itself.
\<close>

section \<open>Constants\<close>

definition RK_SUCCESS :: int where "RK_SUCCESS = 0"
definition RK_FAILURE :: int where "RK_FAILURE = -1"
definition input_buffer_count :: nat where "input_buffer_count = 3"

text \<open>\<^verbatim>\<open>RK_ALIGN(x, a)\<close> at width 32.\<close>

definition RK_ALIGN :: "u32 \<Rightarrow> u32 \<Rightarrow> u32" where
  "RK_ALIGN x a = (x + a - 1) AND NOT (a - 1)"

definition RK_ALIGN_16 :: "u32 \<Rightarrow> u32" where
  "RK_ALIGN_16 x = RK_ALIGN x 16"

section \<open>Bit rate\<close>

text \<open>
  \<^verbatim>\<open>calculate_bitrate\<close>. The product \<^verbatim>\<open>3488 * bitrate_factor\<close> is computed in single precision, the
  rest in double precision. \<open>None\<close> is a conversion to \<^verbatim>\<open>int32_t\<close> or a sum that is out of range,
  which is undefined in C. The \<^verbatim>\<open>double\<close> returned is an integer and converted back by the caller.
\<close>

definition calculate_bitrate :: "cfloat \<Rightarrow> int \<Rightarrow> int \<Rightarrow> int option" where
  "calculate_bitrate bitrate_factor width height =
     (let pixels = round_to 53 (of_int width * of_int height);
          ref_pixels = 1920 * 1080;
          scale_factor = round_to 53 (pixels / ref_pixels)
      in case bitrate_factor of
           Finite f \<Rightarrow>
             to_int32 (round_to 24 (of_int (4000 - 512) * f)) \<bind> (\<lambda>d.
             to_int32 (of_int (512 + d)) \<bind> (\<lambda>base_bitrate.
             to_int32 (round_to 53 (of_int base_bitrate * scale_factor)) \<bind> (\<lambda>bitrate.
             Some (if bitrate < 200 then 200 else bitrate))))
         | _ \<Rightarrow> None)"

section \<open>Channel attributes\<close>

definition populate_venc_attr :: "int \<Rightarrow> u32 \<Rightarrow> u32 \<Rightarrow> u32 \<Rightarrow> u32 \<Rightarrow> u32 \<Rightarrow> venc_attr" where
  "populate_venc_attr codec_type bitrate max_bitrate width height fps =
     (let min_bitrate = (let m = bitrate div 2 in if m < 2 then 2 else m);
          gop = (let g = (if fps > 0 then fps div 2 else 30) in if g < 1 then 1 else g)
      in \<lparr>enRcMode = (if codec_type = 1 then VENC_RC_MODE_H265VBR else VENC_RC_MODE_H264VBR),
          u32BitRate = bitrate, u32MaxBitRate = max_bitrate, u32MinBitRate = min_bitrate,
          u32Gop = gop, u32StatTime = 2, u32SrcFrameRateNum = fps, u32SrcFrameRateDen = 1,
          fr32DstFrameRateNum = fps, fr32DstFrameRateDen = 1,
          enType = (if codec_type = 1 then RK_VIDEO_ID_HEVC else RK_VIDEO_ID_AVC),
          u32Profile = (if codec_type = 1 then H265E_PROFILE_MAIN else H264E_PROFILE_HIGH),
          u32PicWidth = width, u32PicHeight = height,
          u32VirWidth = RK_ALIGN_16 width, u32VirHeight = RK_ALIGN_16 height,
          u32StreamBufCnt = 3, u32BufSize = width * height * 3 div 2\<rparr>)"

section \<open>Starting and stopping the channel\<close>

text \<open>
  \<^verbatim>\<open>venc_read_thread\<close>: no allocation, an allocation whose \<^verbatim>\<open>pthread_create\<close> failed, so that the
  identifier in it was never set, or a thread.
\<close>

datatype thread_ref = No_thread | Uninitialised | Thread

text \<open>The state the streaming thread owns.\<close>

record stream =
  venc_running :: bool
  venc_read_thread :: thread_ref
  sleep_mode_available :: bool
  calls :: "ncall list"

definition sdo :: "native_env \<Rightarrow> ncall \<Rightarrow> stream \<Rightarrow> int \<times> stream" where
  "sdo env c s = (nret env (c # calls s), s\<lparr>calls := c # calls s\<rparr>)"

definition srun :: "native_env \<Rightarrow> ncall \<Rightarrow> stream \<Rightarrow> stream" where
  "srun env c s = s\<lparr>calls := c # calls s\<rparr>"

definition venc_start :: "native_env \<Rightarrow> int \<Rightarrow> int \<Rightarrow> u32 \<Rightarrow> u32 \<Rightarrow> u32 \<Rightarrow> stream \<Rightarrow> int \<times> stream" where
  "venc_start env bitrate max_bitrate width height fps s =
     (case sdo env (Shared_read Codec_type) s of (ct, s) \<Rightarrow>
      case sdo env (VENC_CreateChn (populate_venc_attr ct (of_int bitrate) (of_int max_bitrate) width height fps)) s of (r, s) \<Rightarrow>
        if r < 0 then (r, s)
        else case sdo env VENC_StartRecvFrame s of (r, s) \<Rightarrow>
          if r < 0 then (r, s)
          else
            let s = s\<lparr>venc_running := True, venc_read_thread := Uninitialised\<rparr> in
            case sdo env Thread_create s of (r, s) \<Rightarrow>
              if r \<noteq> 0 then (RK_FAILURE, s)
              else (RK_SUCCESS, s\<lparr>venc_read_thread := Thread\<rparr>))"

definition join_reader :: "native_env \<Rightarrow> stream \<Rightarrow> stream" where
  "join_reader env s =
     (case venc_read_thread s of
        No_thread \<Rightarrow> s
      | Uninitialised \<Rightarrow> (srun env Join_uninitialised s)\<lparr>venc_read_thread := No_thread\<rparr>
      | Thread \<Rightarrow> (srun env Thread_join s)\<lparr>venc_read_thread := No_thread\<rparr>)"

definition venc_stop :: "native_env \<Rightarrow> stream \<Rightarrow> int \<times> stream" where
  "venc_stop env s =
     (case sdo env VENC_StopRecvFrame (s\<lparr>venc_running := False\<rparr>) of (r, s) \<Rightarrow>
        if r \<noteq> RK_SUCCESS then (r, s)
        else case sdo env VENC_DestroyChn (join_reader env s) of (r, s) \<Rightarrow>
          if r \<noteq> RK_SUCCESS then (r, s) else (RK_SUCCESS, s))"

section \<open>The reader thread\<close>

text \<open>
  \<^verbatim>\<open>venc_read_stream\<close>: \<^verbatim>\<open>venc_running\<close> is written by the streaming thread. \<open>None\<close> is a loop that does
  not end.
\<close>

partial_function (option) venc_read_stream :: "native_env \<Rightarrow> ncall list \<Rightarrow> ncall list option" where
  "venc_read_stream env h =
     (case ndo env (Shared_read Venc_running) h of (running, h) \<Rightarrow>
        if running = 0 then Some h
        else case ndo env VENC_GetStream h of (r, h) \<Rightarrow>
          if r = RK_SUCCESS then
            let packet = nbytes env h;
                h = Clock_gettime # h;
                h = MB_Handle2VirAddr # h;
                h = Video_send_frame packet # h;
                h = VENC_ReleaseStream # h
            in venc_read_stream env h
          else if r = RK_ERR_VENC_BUF_EMPTY env then venc_read_stream env h
          else Some h)"

end
