(* ===== verification/Video_Stream.thy ===== *)
theory Video_Stream
  imports Venc "HOL-Library.Signed_Division"
begin

text \<open>
  The streaming thread of \<^verbatim>\<open>internal/native/cgo/video.c\<close>, \<^verbatim>\<open>run_video_stream\<close>: set up the capture device,
  hand the captured frames to the encoder, tear down, and start over until the streaming flag is
  cleared. The flag and what the format thread detected are written by other threads and read
  through the environment.
\<close>

section \<open>Sleep mode of the HDMI receiver\<close>

definition SLEEP_MODE_FILE :: string where
  "SLEEP_MODE_FILE = ''/sys/devices/platform/ff470000.i2c/i2c-4/4-000f/sleep_mode''"

definition VIDEO_DEV :: string where "VIDEO_DEV = ''/dev/video0''"

definition ensure_sleep_mode_disabled :: "native_env \<Rightarrow> stream \<Rightarrow> stream" where
  "ensure_sleep_mode_disabled env s =
     (if \<not> sleep_mode_available s then s
      else case sdo env (Open SLEEP_MODE_FILE) s of (fd, s) \<Rightarrow>
        if fd < 0 then s
        else
          let s = srun env (Read_byte fd) (srun env (Lseek fd) s) in
          if ntext env (calls s) = ''0'' then srun env (Close fd) s
          else srun env (Usleep 1000) (srun env (Close fd) (srun env (Write_str fd ''0'') (srun env (Lseek fd) s))))"

section \<open>Buffers\<close>

text \<open>
  One turn of the allocation loop: query the buffer, take a block from the pool, get its
  descriptor. The result is the block, or \<open>None\<close> with what was taken before the failure.
\<close>

definition setup_buffer :: "native_env \<Rightarrow> fd \<Rightarrow> nat \<Rightarrow> stream \<Rightarrow> blk option \<times> stream" where
  "setup_buffer env fd i s =
     (case sdo env (Ioctl_QUERYBUF fd i) s of (r, s) \<Rightarrow>
        if r = -1 then (None, s)
        else case sdo env MB_GetMB s of (blk, s) \<Rightarrow>
          if blk = 0 then (None, s)
          else case sdo env (MB_Handle2Fd blk) s of (buf_fd, s) \<Rightarrow>
            if buf_fd < 0 then (None, s) else (Some blk, s))"

fun setup_buffers :: "native_env \<Rightarrow> fd \<Rightarrow> nat \<Rightarrow> nat \<Rightarrow> stream \<Rightarrow> blk list option \<times> stream" where
  "setup_buffers env fd i 0 s = (Some [], s)"
| "setup_buffers env fd i (Suc n) s =
     (case setup_buffer env fd i s of
        (None, s) \<Rightarrow> (None, s)
      | (Some b, s) \<Rightarrow>
          (case setup_buffers env fd (Suc i) n s of
             (None, s) \<Rightarrow> (None, s)
           | (Some bs, s) \<Rightarrow> (Some (b # bs), s)))"

fun queue_buffers :: "native_env \<Rightarrow> fd \<Rightarrow> nat \<Rightarrow> nat \<Rightarrow> stream \<Rightarrow> bool \<times> stream" where
  "queue_buffers env fd i 0 s = (True, s)"
| "queue_buffers env fd i (Suc n) s =
     (case sdo env (Ioctl_QBUF fd i) s of (r, s) \<Rightarrow>
        if r < 0 then (False, s) else queue_buffers env fd (Suc i) n s)"

fun release_buffers :: "native_env \<Rightarrow> blk list \<Rightarrow> stream \<Rightarrow> stream" where
  "release_buffers env [] s = s"
| "release_buffers env (b # bs) s = release_buffers env bs (if b = 0 then s else srun env (MB_ReleaseMB b) s)"

section \<open>Frames\<close>

text \<open>Microseconds of the monotonic clock, whose reading is a number of seconds and one of nanoseconds.\<close>

definition get_us :: "native_env \<Rightarrow> stream \<Rightarrow> u64 \<times> stream" where
  "get_us env s =
     (let s = srun env Clock_gettime s; t = nval env (calls s)
      in (of_int (t 0) * 1000000 + of_int (t 1) div 1000, s))"

text \<open>\<^verbatim>\<open>RK_MPI_VENC_SendFrame\<close> with one retry after a millisecond; a failed retry is only logged.\<close>

definition send_frame :: "native_env \<Rightarrow> frame_info \<Rightarrow> stream \<Rightarrow> stream" where
  "send_frame env f s =
     (case sdo env (VENC_SendFrame f) s of (r, s) \<Rightarrow>
        if r \<noteq> RK_SUCCESS then srun env (VENC_SendFrame f) (srun env (Usleep 1000) s) else s)"

text \<open>How the frame loop ends: by \<^verbatim>\<open>break\<close> or because the flag was cleared, or in a failed \<^verbatim>\<open>assert\<close>.\<close>

datatype loop_end = Broke stream | Aborted stream

partial_function (option) frame_loop ::
  "native_env \<Rightarrow> fd \<Rightarrow> u32 \<Rightarrow> u32 \<Rightarrow> u32 \<Rightarrow> stream \<Rightarrow> loop_end option" where
  "frame_loop env fd width height num s =
     (case sdo env (Shared_read Streaming_flag) s of (flag, s) \<Rightarrow>
      if flag = 0 then Some (Broke s)
      else case sdo env (Select fd) s of (r, s) \<Rightarrow>
      if r = 0 then Some (Broke (ensure_sleep_mode_disabled env s))
      else if r = -1 then
        (case sdo env Get_errno s of (e, s) \<Rightarrow>
           if e = EINTR then frame_loop env fd width height num s else Some (Broke s))
      else case sdo env (Ioctl_DQBUF fd) s of (r, s) \<Rightarrow>
      if r < 0 then Some (Broke s)
      else let frame_fd = nval env (calls s) 0; index = nat (nval env (calls s) 1) in
        case sdo env (MMZ_Fd2Handle frame_fd) s of (blk, s) \<Rightarrow>
      if blk = 0 then Some (Aborted s)
      else case get_us env s of (pts, s) \<Rightarrow>
        let f = \<lparr>fr_blk = blk, fr_width = width, fr_height = height, fr_vir_width = RK_ALIGN_16 width,
                 fr_vir_height = RK_ALIGN_16 height, fr_time_ref = num, fr_pts = pts\<rparr>;
            s = send_frame env f s;
            s = srun env (Ioctl_QBUF fd index) s
        in frame_loop env fd width height (num + 1) s)"

section \<open>One session with the capture device\<close>

datatype pass_end = Continue_with stream | Return_errno stream | Pass_aborted stream

text \<open>\<^verbatim>\<open>cleanup:\<close> stop the stream, free the queue, stop the encoder, give the blocks back, close.\<close>

definition cleanup :: "native_env \<Rightarrow> fd \<Rightarrow> blk list \<Rightarrow> stream \<Rightarrow> stream" where
  "cleanup env fd blks s =
     srun env (Close fd) (release_buffers env blks (snd (venc_stop env
       (srun env (Ioctl_REQBUFS fd 0) (srun env (Ioctl_STREAMOFF fd) s)))))"

text \<open>
  From the encoder start on. The bit rate may be undefined (see \<open>calculate_bitrate\<close>); then the
  conversion leaves some 32-bit value, which the environment chooses.
\<close>

definition encode_session :: "native_env \<Rightarrow> fd \<Rightarrow> blk list \<Rightarrow> u32 \<Rightarrow> u32 \<Rightarrow> u32 \<Rightarrow> stream \<Rightarrow> pass_end option" where
  "encode_session env fd blks width height fps s =
     (case sdo env (Shared_read Quality_factor) s of (junk, s) \<Rightarrow>
      let bitrate = (case calculate_bitrate (nfloat env (calls s)) (sint width) (sint height) of Some b \<Rightarrow> b | None \<Rightarrow> junk) in
      (case venc_start env bitrate ((bitrate * 3) sdiv 2) width height fps s of (r, s) \<Rightarrow>
        if r \<noteq> RK_SUCCESS then Some (Continue_with (cleanup env fd blks s))
        else (case frame_loop env fd width height 0 s of
                None \<Rightarrow> None
              | Some (Aborted s) \<Rightarrow> Some (Pass_aborted s)
              | Some (Broke s) \<Rightarrow> Some (Continue_with (cleanup env fd blks s)))))"

text \<open>From the allocation of the buffers on; every failure closes the device and ends the thread.\<close>

definition capture_session :: "native_env \<Rightarrow> fd \<Rightarrow> u32 \<Rightarrow> u32 \<Rightarrow> u32 \<Rightarrow> stream \<Rightarrow> pass_end option" where
  "capture_session env fd width height fps s =
     (case setup_buffers env fd 0 input_buffer_count s of
        (None, s) \<Rightarrow> Some (Return_errno (srun env (Close fd) s))
      | (Some blks, s) \<Rightarrow>
          (case queue_buffers env fd 0 input_buffer_count s of (ok, s) \<Rightarrow>
           if \<not> ok then Some (Return_errno (srun env (Close fd) s))
           else case sdo env (Ioctl_STREAMON fd) s of (r, s) \<Rightarrow>
           if r < 0 then Some (Return_errno (srun env (Close fd) s))
           else encode_session env fd blks width height fps s))"

text \<open>One turn of the outer loop after the flag was found set.\<close>

definition stream_pass :: "native_env \<Rightarrow> stream \<Rightarrow> pass_end option" where
  "stream_pass env s =
     (case sdo env (Shared_read Detected_signal) s of (signal, s) \<Rightarrow>
      if signal = 0 then Some (Continue_with (srun env (Usleep 10000) s))
      else case sdo env (Open VIDEO_DEV) s of (fd, s) \<Rightarrow>
      if fd < 0 then Some (Continue_with (srun env (Usleep 1000000) s))
      else case sdo env (Shared_read Detected_width) s of (w, s) \<Rightarrow>
        case sdo env (Shared_read Detected_height) s of (hgt, s) \<Rightarrow>
        case sdo env (Shared_read Detected_fps) s of (fps, s) \<Rightarrow>
        case sdo env (Ioctl_S_FMT fd (of_int w) (of_int hgt)) s of (r, s) \<Rightarrow>
      if r < 0 then Some (Continue_with (srun env (Close fd) (srun env (Usleep 100000) s)))
      else case sdo env (Ioctl_REQBUFS fd input_buffer_count) s of (r, s) \<Rightarrow>
      if r < 0 then Some (Return_errno (srun env (Close fd) s))
      else capture_session env fd (of_int w) (of_int hgt) (of_int fps) s)"

datatype thread_end = Return_null stream | Return_error stream | Thread_aborted stream

partial_function (option) stream_loop :: "native_env \<Rightarrow> stream \<Rightarrow> thread_end option" where
  "stream_loop env s =
     (case sdo env (Shared_read Streaming_flag) s of (flag, s) \<Rightarrow>
        if flag = 0 then Some (Return_null (srun env (Set_stopped True) s))
        else (case stream_pass env s of
               None \<Rightarrow> None
             | Some (Continue_with s) \<Rightarrow> stream_loop env s
             | Some (Return_errno s) \<Rightarrow> Some (Return_error s)
             | Some (Pass_aborted s) \<Rightarrow> Some (Thread_aborted s)))"

definition run_video_stream :: "native_env \<Rightarrow> stream \<Rightarrow> thread_end option" where
  "run_video_stream env s = stream_loop env (srun env (Set_stopped False) s)"

end
