(* ===== verification/Video_Stream_Props.thy ===== *)
theory Video_Stream_Props
  imports Video_Stream "HOL-Library.Multiset"
begin

text \<open>
  Resources and termination of the streaming thread: which descriptors and memory blocks a run of
  \<^verbatim>\<open>run_video_stream\<close> leaves held, what it last announced about having stopped, and that it ends when
  the streaming flag is cleared.
\<close>

section \<open>Observations on a history\<close>

text \<open>The blocks taken from the pool and not given back.\<close>

fun held_blks :: "native_env \<Rightarrow> ncall list \<Rightarrow> blk multiset" where
  "held_blks env [] = {#}"
| "held_blks env (MB_GetMB # h) =
     (let b = nret env (MB_GetMB # h) in if b = 0 then held_blks env h else add_mset b (held_blks env h))"
| "held_blks env (MB_ReleaseMB b # h) = held_blks env h - {#b#}"
| "held_blks env (_ # h) = held_blks env h"

text \<open>The value last stored in \<^verbatim>\<open>streaming_stopped\<close>.\<close>

fun last_stopped :: "ncall list \<Rightarrow> bool option" where
  "last_stopped [] = None"
| "last_stopped (Set_stopped b # h) = Some b"
| "last_stopped (_ # h) = last_stopped h"

text \<open>How often the thread found the streaming flag set.\<close>

fun flag_reads :: "native_env \<Rightarrow> ncall list \<Rightarrow> nat" where
  "flag_reads env [] = 0"
| "flag_reads env (Shared_read Streaming_flag # h) =
     (if nret env (Shared_read Streaming_flag # h) = 0 then 0 else 1) + flag_reads env h"
| "flag_reads env (_ # h) = flag_reads env h"

text \<open>Everything observed but the number of flag reads, and the two states in which it is the same.\<close>

definition resources :: "native_env \<Rightarrow> stream \<Rightarrow> fd list \<times> blk multiset \<times> bool option" where
  "resources env s = (open_fds env (calls s), held_blks env (calls s), last_stopped (calls s))"

definition same_obs :: "native_env \<Rightarrow> stream \<Rightarrow> stream \<Rightarrow> bool" where
  "same_obs env s t \<longleftrightarrow> resources env t = resources env s \<and> flag_reads env (calls t) = flag_reads env (calls s)"

lemma same_obs_refl [simp, intro]: "same_obs env s s"
  by (simp add: same_obs_def)

lemma same_obs_trans: "same_obs env s t \<Longrightarrow> same_obs env t u \<Longrightarrow> same_obs env s u"
  by (simp add: same_obs_def)

lemmas obs_defs = same_obs_def resources_def sdo_def srun_def Let_def

section \<open>Steps that leave the observations alone\<close>

lemma same_obs_ensure: "same_obs env s (ensure_sleep_mode_disabled env s)"
  by (simp add: ensure_sleep_mode_disabled_def obs_defs)

lemma same_obs_send_frame: "same_obs env s (send_frame env f s)"
  by (simp add: send_frame_def obs_defs)

lemma same_obs_queue: "queue_buffers env fd i n s = (ok, t) \<Longrightarrow> same_obs env s t"
proof (induction env fd i n s arbitrary: t rule: queue_buffers.induct)
  case (2 env fd i n s)
  then show ?case by (auto simp: obs_defs split: if_splits)
qed simp

lemma same_obs_venc_start: "venc_start env b m w h f s = (r, t) \<Longrightarrow> same_obs env s t"
  by (auto simp: venc_start_def obs_defs split: if_splits)

lemma same_obs_venc_stop: "same_obs env s (snd (venc_stop env s))"
  by (cases "venc_read_thread s") (simp_all add: venc_stop_def join_reader_def obs_defs)

section \<open>Taking and giving back blocks\<close>

definition with_blks :: "native_env \<Rightarrow> blk multiset \<Rightarrow> stream \<Rightarrow> stream \<Rightarrow> bool" where
  "with_blks env M s t \<longleftrightarrow> open_fds env (calls t) = open_fds env (calls s) \<and>
     held_blks env (calls t) = held_blks env (calls s) + M \<and> last_stopped (calls t) = last_stopped (calls s) \<and>
     flag_reads env (calls t) = flag_reads env (calls s)"

lemma with_blks_same: "with_blks env {#} s t \<longleftrightarrow> same_obs env s t"
  by (auto simp: with_blks_def same_obs_def resources_def)

lemma with_blks_trans: "with_blks env M s t \<Longrightarrow> with_blks env K t u \<Longrightarrow> with_blks env (M + K) s u"
  by (simp add: with_blks_def add.assoc)

lemma setup_buffer_obs:
  "setup_buffer env fd i s = (r, t) \<Longrightarrow>
   (case r of Some b \<Rightarrow> b \<noteq> 0 \<and> with_blks env {#b#} s t | None \<Rightarrow> \<exists>M. size M \<le> 1 \<and> with_blks env M s t)"
  by (auto simp: setup_buffer_def with_blks_def sdo_def Let_def split: if_splits
      intro: exI [of _ "{#}"] exI [of _ "{#nret env (MB_GetMB # Ioctl_QUERYBUF fd i # calls s)#}"])

lemma setup_buffers_obs:
  "setup_buffers env fd i n s = (r, t) \<Longrightarrow>
   (case r of Some bs \<Rightarrow> 0 \<notin> set bs \<and> with_blks env (mset bs) s t
            | None \<Rightarrow> \<exists>M. size M \<le> n \<and> with_blks env M s t)"
proof (induction env fd i n s arbitrary: r t rule: setup_buffers.induct)
  case (1 env fd i s)
  then show ?case by (auto simp: with_blks_same)
next
  case (2 env fd i n s)
  obtain r1 s1 where b: "setup_buffer env fd i s = (r1, s1)" by fastforce
  note o1 = setup_buffer_obs [OF b]
  show ?case
  proof (cases r1)
    case None
    then obtain M where "size M \<le> 1" "with_blks env M s s1" using o1 by auto
    then show ?thesis using 2(2) b None by (auto intro!: exI [of _ M])
  next
    case (Some x)
    obtain r2 s2 where bs: "setup_buffers env fd (Suc i) n s1 = (r2, s2)" by fastforce
    have o2: "case r2 of Some bs \<Rightarrow> 0 \<notin> set bs \<and> with_blks env (mset bs) s1 s2
            | None \<Rightarrow> \<exists>M. size M \<le> n \<and> with_blks env M s1 s2"
      using 2(1) [OF b [symmetric] Some bs] .
    show ?thesis
    proof (cases r2)
      case None
      then obtain M where M: "size M \<le> n" "with_blks env M s1 s2" using o2 by auto
      have "with_blks env ({#x#} + M) s s2" using with_blks_trans [of env "{#x#}" s s1 M s2] M(2) o1 Some by auto
      then show ?thesis using 2(2) b Some bs None M(1) by (auto intro!: exI [of _ "{#x#} + M"])
    next
      case (Some xs)
      then have "with_blks env ({#x#} + mset xs) s s2"
        using with_blks_trans [of env "{#x#}" s s1 "mset xs" s2] o1 o2 \<open>r1 = Some x\<close> by auto
      then show ?thesis using 2(2) b bs Some \<open>r1 = Some x\<close> o1 o2 by auto
    qed
  qed
qed

lemma release_buffers_obs:
  assumes "0 \<notin> set bs" "mset bs \<subseteq># held_blks env (calls s)"
  shows "open_fds env (calls (release_buffers env bs s)) = open_fds env (calls s) \<and>
     held_blks env (calls (release_buffers env bs s)) = held_blks env (calls s) - mset bs \<and>
     last_stopped (calls (release_buffers env bs s)) = last_stopped (calls s) \<and>
     flag_reads env (calls (release_buffers env bs s)) = flag_reads env (calls s)"
  using assms
proof (induction bs arbitrary: s)
  case (Cons b bs)
  let ?s = "srun env (MB_ReleaseMB b) s"
  have "mset bs \<subseteq># held_blks env (calls ?s)"
    using Cons.prems(2) by (simp add: srun_def) (metis insert_subset_eq_iff)
  then show ?case using Cons.IH [of ?s] Cons.prems(1) by (simp add: srun_def)
qed simp

text \<open>The cleanup after a session that took the blocks \<open>bs\<close> and holds \<open>fd\<close> from the state \<open>s\<close> on.\<close>

definition session_of :: "native_env \<Rightarrow> fd \<Rightarrow> blk list \<Rightarrow> stream \<Rightarrow> stream \<Rightarrow> bool" where
  "session_of env fd bs s t \<longleftrightarrow> open_fds env (calls t) = fd # open_fds env (calls s) \<and> 0 \<notin> set bs \<and>
     held_blks env (calls t) = held_blks env (calls s) + mset bs \<and> last_stopped (calls t) = last_stopped (calls s)"

lemma session_of_same: "session_of env fd bs s t \<Longrightarrow> resources env u = resources env t \<Longrightarrow> session_of env fd bs s u"
  by (simp add: session_of_def resources_def)

lemma cleanup_obs:
  assumes "session_of env fd bs s t"
  shows "resources env (cleanup env fd bs t) = resources env s \<and>
         flag_reads env (calls (cleanup env fd bs t)) = flag_reads env (calls t)"
proof -
  define u where "u = snd (venc_stop env (srun env (Ioctl_REQBUFS fd 0) (srun env (Ioctl_STREAMOFF fd) t)))"
  have u: "same_obs env t u"
    using same_obs_venc_stop [of env "srun env (Ioctl_REQBUFS fd 0) (srun env (Ioctl_STREAMOFF fd) t)"]
    by (simp add: u_def same_obs_def resources_def srun_def)
  then have "mset bs \<subseteq># held_blks env (calls u)" using assms by (simp add: session_of_def same_obs_def resources_def)
  note rel = release_buffers_obs [OF _ this]
  have c: "cleanup env fd bs t = srun env (Close fd) (release_buffers env bs u)" by (simp add: cleanup_def u_def)
  show ?thesis
    unfolding c using rel u assms by (simp add: session_of_def same_obs_def resources_def srun_def)
qed

section \<open>The frame loop\<close>

primrec end_state :: "loop_end \<Rightarrow> stream" where
  "end_state (Broke s) = s"
| "end_state (Aborted s) = s"

text \<open>The thread died in the assertion that a captured frame has a memory block.\<close>

definition null_handle :: "native_env \<Rightarrow> stream \<Rightarrow> bool" where
  "null_handle env s \<longleftrightarrow> (\<exists>fd h. calls s = MMZ_Fd2Handle fd # h \<and> nret env (calls s) = 0)"

lemma frame_loop_ok:
  assumes "\<forall>h. flag_reads env h \<le> N"
  shows "\<exists>e. frame_loop env fd w hgt num s = Some e \<and> resources env (end_state e) = resources env s \<and>
     flag_reads env (calls s) \<le> flag_reads env (calls (end_state e)) \<and>
     (case e of Aborted t \<Rightarrow> null_handle env t | Broke _ \<Rightarrow> True)"
proof (induction "N - flag_reads env (calls s)" arbitrary: s num rule: less_induct)
  case less
  let ?f = "Shared_read Streaming_flag # calls s"
  have IH: "\<exists>e. frame_loop env fd w hgt n u = Some e \<and> resources env (end_state e) = resources env s \<and>
     flag_reads env (calls s) \<le> flag_reads env (calls (end_state e)) \<and>
     (case e of Aborted t \<Rightarrow> null_handle env t | Broke _ \<Rightarrow> True)"
    if "resources env u = resources env s" "flag_reads env (calls u) = flag_reads env ?f" "nret env ?f \<noteq> 0" for n u
  proof -
    have "N - flag_reads env (calls u) < N - flag_reads env (calls s)"
      using that assms [rule_format, of ?f] by simp
    from less [OF this, of n] that show ?thesis by auto
  qed
  show ?case
  proof (cases "nret env ?f = 0")
    case True
    then show ?thesis by (subst frame_loop.simps) (simp add: obs_defs)
  next
    case go: False
    let ?s = "s\<lparr>calls := Select fd # ?f\<rparr>"
    let ?r = "nret env (Select fd # ?f)"
    consider "?r = 0" | "?r = -1" | "?r \<noteq> 0" "?r \<noteq> -1" by blast
    then show ?thesis
    proof cases
      case 1
      have "same_obs env ?s (ensure_sleep_mode_disabled env ?s)" by (rule same_obs_ensure)
      with 1 go show ?thesis by (subst frame_loop.simps) (simp add: obs_defs)
    next
      case 2
      let ?u = "s\<lparr>calls := Get_errno # Select fd # ?f\<rparr>"
      show ?thesis
        using IH [of ?u num] 2 go
        by (subst frame_loop.simps) (simp add: sdo_def resources_def)
    next
      case 3
      let ?d = "Ioctl_DQBUF fd # Select fd # ?f"
      let ?m = "MMZ_Fd2Handle (nval env ?d 0) # ?d"
      let ?g = "Clock_gettime # ?m"
      let ?fr = "\<lparr>fr_blk = nret env ?m, fr_width = w, fr_height = hgt, fr_vir_width = RK_ALIGN_16 w,
                 fr_vir_height = RK_ALIGN_16 hgt, fr_time_ref = num, fr_pts = of_int (nval env ?g 0) * 1000000 + of_int (nval env ?g 1) div 1000\<rparr>"
      let ?u = "srun env (Ioctl_QBUF fd (nat (nval env ?d 1))) (send_frame env ?fr (s\<lparr>calls := ?g\<rparr>))"
      have "resources env ?u = resources env s" "flag_reads env (calls ?u) = flag_reads env ?f"
        using same_obs_send_frame [of env "s\<lparr>calls := ?g\<rparr>" ?fr] by (simp_all add: same_obs_def resources_def srun_def)
      note rest = IH [OF this go, of "num + 1"]
      show ?thesis
        using 3 go rest
        by (subst frame_loop.simps) (auto simp: sdo_def srun_def get_us_def Let_def resources_def null_handle_def)
    qed
  qed
qed

section \<open>The clock\<close>

text \<open>The clock in microseconds: exact for 2^43 seconds, so it does not go back when the clock does not.\<close>

lemma get_us_value:
  assumes "nval env (Clock_gettime # calls s) 0 = int sec" "nval env (Clock_gettime # calls s) 1 = int nsec" "sec < 2 ^ 43" "nsec < 10 ^ 9"
  shows "unat (fst (get_us env s)) = sec * 1000000 + nsec div 1000"
proof -
  have "unat (of_nat nsec div 1000 :: u64) = nsec div 1000"
    using assms(4) by (simp add: unat_div unsigned_of_nat take_bit_nat_eq_self)
  moreover have "unat (of_nat sec * 1000000 :: u64) = sec * 1000000"
    using assms(3) by (simp add: unat_word_ariths unsigned_of_nat take_bit_nat_eq_self)
  ultimately show ?thesis
    using assms by (simp add: get_us_def srun_def Let_def unat_word_ariths)
qed

lemma get_us_mono:
  assumes "nval env (Clock_gettime # calls s) 0 = int sec" "nval env (Clock_gettime # calls s) 1 = int nsec" "sec < 2 ^ 43" "nsec < 10 ^ 9"
    and "nval env (Clock_gettime # calls t) 0 = int sec'" "nval env (Clock_gettime # calls t) 1 = int nsec'" "sec' < 2 ^ 43" "nsec' < 10 ^ 9"
    and "sec < sec' \<or> sec = sec' \<and> nsec \<le> nsec'"
  shows "fst (get_us env s) \<le> fst (get_us env t)"
  unfolding word_le_nat_alt get_us_value [OF assms(1-4)] get_us_value [OF assms(5-8)]
  using assms(4,8,9) div_le_mono [of nsec nsec' 1000] by auto
section \<open>One session and the whole thread\<close>

text \<open>What a turn of the outer loop that started in \<open>s\<close> may end with.\<close>

definition pass_ok :: "native_env \<Rightarrow> stream \<Rightarrow> pass_end \<Rightarrow> bool" where
  "pass_ok env s e \<longleftrightarrow> (case e of
       Continue_with t \<Rightarrow> resources env t = resources env s \<and> flag_reads env (calls s) \<le> flag_reads env (calls t)
     | Return_errno t \<Rightarrow> open_fds env (calls t) = open_fds env (calls s) \<and> last_stopped (calls t) = last_stopped (calls s) \<and>
         held_blks env (calls s) \<subseteq># held_blks env (calls t) \<and>
         size (held_blks env (calls t)) \<le> size (held_blks env (calls s)) + 3
     | Pass_aborted t \<Rightarrow> null_handle env t)"

lemma encode_session_ok:
  assumes "\<forall>h. flag_reads env h \<le> N" and "session_of env fd bs s0 s"
    and "flag_reads env (calls s) = flag_reads env (calls s0)"
  shows "\<exists>e. encode_session env fd bs w hgt fps s = Some e \<and> pass_ok env s0 e"
proof -
  let ?q = "Shared_read Quality_factor # calls s"
  let ?b = "case calculate_bitrate (nfloat env ?q) (sint w) (sint hgt) of Some b \<Rightarrow> b | None \<Rightarrow> nret env ?q"
  obtain r t where v: "venc_start env ?b ((?b * 3) sdiv 2) w hgt fps (s\<lparr>calls := ?q\<rparr>) = (r, t)" by fastforce
  have t: "resources env t = resources env s" "flag_reads env (calls t) = flag_reads env (calls s)"
    using same_obs_venc_start [OF v] by (simp_all add: same_obs_def resources_def)
  have done_ok: "pass_ok env s0 (Continue_with (cleanup env fd bs u))"
    if "resources env u = resources env s" "flag_reads env (calls s) \<le> flag_reads env (calls u)" for u
    using cleanup_obs [OF session_of_same [OF assms(2) that(1)]] that assms(3) by (simp add: pass_ok_def)
  show ?thesis
  proof (cases "r = RK_SUCCESS")
    case False
    then have "encode_session env fd bs w hgt fps s = Some (Continue_with (cleanup env fd bs t))"
      using v by (simp add: encode_session_def sdo_def Let_def)
    then show ?thesis using done_ok [of t] t by simp
  next
    case True
    obtain e where e: "frame_loop env fd w hgt 0 t = Some e" "resources env (end_state e) = resources env t"
      "flag_reads env (calls t) \<le> flag_reads env (calls (end_state e))"
      "case e of Aborted t \<Rightarrow> null_handle env t | Broke _ \<Rightarrow> True"
      using frame_loop_ok [OF assms(1), of fd w hgt 0 t] by blast
    have run: "encode_session env fd bs w hgt fps s = (case e of
        Aborted u \<Rightarrow> Some (Pass_aborted u) | Broke u \<Rightarrow> Some (Continue_with (cleanup env fd bs u)))"
      using v True e(1) by (simp add: encode_session_def sdo_def Let_def split: loop_end.split)
    show ?thesis
    proof (cases e)
      case (Broke u)
      then show ?thesis using run done_ok [of u] e t by simp
    next
      case (Aborted u)
      then show ?thesis using run e by (simp add: pass_ok_def)
    qed
  qed
qed

text \<open>The state with the device open, before the blocks are taken.\<close>

lemma device_open_ok:
  assumes "\<forall>h. flag_reads env h \<le> N" and "0 \<le> fd"
    and "open_fds env (calls s) = fd # open_fds env (calls s0)" "held_blks env (calls s) = held_blks env (calls s0)"
    and "last_stopped (calls s) = last_stopped (calls s0)" "flag_reads env (calls s) = flag_reads env (calls s0)"
  shows "\<exists>e. capture_session env fd w hgt fps s = Some e \<and> pass_ok env s0 e"
proof -
  have lost: "pass_ok env s0 (Return_errno (srun env (Close fd) u))"
    if "with_blks env M s u" "size M \<le> 3" for M u
    using that assms(3-) by (simp add: pass_ok_def srun_def with_blks_def)
  obtain r t where sb: "setup_buffers env fd 0 input_buffer_count s = (r, t)" by fastforce
  note o = setup_buffers_obs [OF sb]
  show ?thesis
  proof (cases r)
    case None
    then obtain M where "size M \<le> 3" "with_blks env M s t" using o by (auto simp: input_buffer_count_def)
    then show ?thesis using sb None lost by (auto simp: capture_session_def)
  next
    case (Some bs)
    then have nz: "0 \<notin> set bs" and wb: "with_blks env (mset bs) s t" using o by auto
    have "length ys = n" if "setup_buffers env fd i n s = (Some ys, t)" for i n s t ys
      using that by (induction env fd i n s arbitrary: ys rule: setup_buffers.induct) (auto split: prod.splits option.splits)
    then have len: "size (mset bs) \<le> 3" using sb Some by (simp add: input_buffer_count_def)
    obtain ok u where q: "queue_buffers env fd 0 input_buffer_count t = (ok, u)" by fastforce
    have wu: "with_blks env (mset bs) s u"
      using with_blks_trans [OF wb, of "{#}" u] same_obs_queue [OF q] by (simp add: with_blks_same)
    let ?v = "u\<lparr>calls := Ioctl_STREAMON fd # calls u\<rparr>"
    have wv: "with_blks env (mset bs) s ?v" using wu by (simp add: with_blks_def)
    have "session_of env fd bs s0 ?v" "flag_reads env (calls ?v) = flag_reads env (calls s0)"
      using wv nz assms(3-) by (simp_all add: session_of_def with_blks_def)
    note enc = encode_session_ok [OF assms(1) this, of w hgt fps]
    show ?thesis
      using sb Some q enc lost [OF wu len] lost [OF wv len] by (auto simp: capture_session_def sdo_def)
  qed
qed

lemma stream_pass_ok:
  assumes "\<forall>h. flag_reads env h \<le> N"
  shows "\<exists>e. stream_pass env s = Some e \<and> pass_ok env s e"
proof (cases "nret env (Shared_read Detected_signal # calls s) = 0")
  case True
  then show ?thesis by (simp add: stream_pass_def pass_ok_def obs_defs)
next
  case sig: False
  let ?o = "Open VIDEO_DEV # Shared_read Detected_signal # calls s"
  show ?thesis
  proof (cases "nret env ?o < 0")
    case True
    then show ?thesis using sig by (simp add: stream_pass_def pass_ok_def obs_defs)
  next
    case opened: False
    let ?fd = "nret env ?o"
    let ?w = "Shared_read Detected_width # ?o"
    let ?h = "Shared_read Detected_height # ?w"
    let ?f = "Shared_read Detected_fps # ?h"
    let ?sf = "Ioctl_S_FMT ?fd (of_int (nret env ?w)) (of_int (nret env ?h)) # ?f"
    let ?rq = "Ioctl_REQBUFS ?fd input_buffer_count # ?sf"
    have fd: "0 \<le> ?fd" using opened by simp
    note rest = device_open_ok [OF assms fd, of "s\<lparr>calls := ?rq\<rparr>" s "of_int (nret env ?w)" "of_int (nret env ?h)"
        "of_int (nret env ?f)"]
    show ?thesis
    proof (cases "nret env ?sf < 0 \<or> nret env ?rq < 0")
      case True
      then show ?thesis using sig opened
        by (auto simp: stream_pass_def pass_ok_def obs_defs)
    next
      case False
      then show ?thesis using sig opened rest
        by (simp add: stream_pass_def sdo_def Let_def)
    qed
  qed
qed

text \<open>What the thread may end with.\<close>

definition thread_ok :: "native_env \<Rightarrow> stream \<Rightarrow> thread_end \<Rightarrow> bool" where
  "thread_ok env s e \<longleftrightarrow> (case e of
       Return_null t \<Rightarrow> open_fds env (calls t) = open_fds env (calls s) \<and>
         held_blks env (calls t) = held_blks env (calls s) \<and> last_stopped (calls t) = Some True
     | Return_error t \<Rightarrow> open_fds env (calls t) = open_fds env (calls s) \<and>
         held_blks env (calls s) \<subseteq># held_blks env (calls t) \<and>
         size (held_blks env (calls t)) \<le> size (held_blks env (calls s)) + 3 \<and>
         last_stopped (calls t) = last_stopped (calls s)
     | Thread_aborted t \<Rightarrow> null_handle env t)"

lemma thread_ok_cong: "resources env s = resources env t \<Longrightarrow> thread_ok env s e \<longleftrightarrow> thread_ok env t e"
  by (auto simp: thread_ok_def resources_def split: thread_end.split)

lemma stream_loop_ok:
  assumes "\<forall>h. flag_reads env h \<le> N"
  shows "\<exists>e. stream_loop env s = Some e \<and> thread_ok env s e"
proof (induction "N - flag_reads env (calls s)" arbitrary: s rule: less_induct)
  case less
  let ?f = "Shared_read Streaming_flag # calls s"
  let ?s = "s\<lparr>calls := ?f\<rparr>"
  have same: "resources env ?s = resources env s" by (simp add: resources_def)
  show ?case
  proof (cases "nret env ?f = 0")
    case True
    then show ?thesis by (subst stream_loop.simps) (simp add: sdo_def srun_def thread_ok_def)
  next
    case go: False
    obtain e where e: "stream_pass env ?s = Some e" "pass_ok env ?s e" using stream_pass_ok [OF assms] by blast
    show ?thesis
    proof (cases e)
      case (Continue_with t)
      then have t: "resources env t = resources env s" "flag_reads env ?f \<le> flag_reads env (calls t)"
        using e(2) same by (simp_all add: pass_ok_def)
      then have "N - flag_reads env (calls t) < N - flag_reads env (calls s)"
        using go assms [rule_format, of "calls t"] by simp
      from less [OF this] obtain x where x: "stream_loop env t = Some x" "thread_ok env t x" by blast
      have "stream_loop env s = stream_loop env t"
        using go e(1) Continue_with by (subst stream_loop.simps) (simp add: sdo_def)
      then show ?thesis using x thread_ok_cong [OF t(1)] by simp
    next
      case (Return_errno t)
      then have "stream_loop env s = Some (Return_error t)"
        using go e(1) by (subst stream_loop.simps) (simp add: sdo_def)
      then show ?thesis using e(2) Return_errno same by (auto simp: pass_ok_def thread_ok_def resources_def)
    next
      case (Pass_aborted t)
      then have "stream_loop env s = Some (Thread_aborted t)"
        using go e(1) by (subst stream_loop.simps) (simp add: sdo_def)
      then show ?thesis using e(2) Pass_aborted by (simp add: pass_ok_def thread_ok_def)
    qed
  qed
qed

section \<open>Stated properties\<close>


text \<open>A machine on which every call returns 1 for a while and 0 later.\<close>

definition brief_env :: native_env where
  "brief_env = \<lparr>nret = (\<lambda>h. if length h < 30 then 1 else 0), nbytes = (\<lambda>_. []), ntext = (\<lambda>_. []),
     nfloat = (\<lambda>_. Finite 1), nval = (\<lambda>_ _. 0), RK_ERR_VENC_BUF_EMPTY = -1\<rparr>"

lemma brief_env_flag: "flag_reads brief_env h \<le> 29"
proof -
  have "flag_reads brief_env h \<le> length h \<and> (30 \<le> length h \<longrightarrow> flag_reads brief_env h \<le> 29)"
    by (induction brief_env h rule: flag_reads.induct) (auto simp: brief_env_def)
  then show ?thesis by (cases "30 \<le> length h") auto
qed

definition idle_stream :: stream where
  "idle_stream = \<lparr>venc_running = False, venc_read_thread = No_thread, sleep_mode_available = False, calls = []\<rparr>"


text \<open>A machine whose pool has one block left.\<close>

definition full_pool_env :: native_env where
  "full_pool_env = \<lparr>nret = (\<lambda>h. case h of MB_GetMB # t \<Rightarrow> if MB_GetMB \<in> set t then 0 else 5 | _ \<Rightarrow> 1), nbytes = (\<lambda>_. []),
     ntext = (\<lambda>_. []), nfloat = (\<lambda>_. Finite 1), nval = (\<lambda>_ _. 0), RK_ERR_VENC_BUF_EMPTY = -1\<rparr>"

text \<open>The error exit is reachable and does lose a block: on a machine whose memory pool runs out while the
  buffers are set up, the thread returns an error with one block still taken and with its last
  announcement being that streaming has not stopped.\<close>

theorem run_video_stream_leak:
  "\<exists>t. run_video_stream full_pool_env idle_stream = Some (Return_error t) \<and>
     held_blks full_pool_env (calls t) = {#5#} \<and> last_stopped (calls t) = Some False"
proof -
  have "run_video_stream full_pool_env idle_stream = Some (Return_error (idle_stream\<lparr>calls :=
     [Close 1, MB_GetMB, Ioctl_QUERYBUF 1 1, MB_Handle2Fd 5, MB_GetMB, Ioctl_QUERYBUF 1 0, Ioctl_REQBUFS 1 3,
      Ioctl_S_FMT 1 1 1, Shared_read Detected_fps, Shared_read Detected_height, Shared_read Detected_width,
      Open VIDEO_DEV, Shared_read Detected_signal, Shared_read Streaming_flag, Set_stopped False]\<rparr>))"
    by (simp add: run_video_stream_def stream_loop.simps stream_pass_def capture_session_def setup_buffer_def
        sdo_def srun_def full_pool_env_def idle_stream_def input_buffer_count_def numeral_3_eq_3)
  then show ?thesis by (simp add: full_pool_env_def idle_stream_def)
qed

end
