(* ===== verification/Video_Threads.thy ===== *)
theory Video_Threads
  imports Video_Stream_Props
begin

text \<open>
  The interleaving of a control thread (\<^verbatim>\<open>video_start_streaming\<close>, \<^verbatim>\<open>video_stop_streaming\<close>) with the streaming
  thread of \<^verbatim>\<open>video.c\<close>, at the granularity of the accesses to the two shared variables
  \<^verbatim>\<open>streaming_flag\<close> and \<^verbatim>\<open>streaming_stopped\<close>, each of which is read and written under its mutex. The
  phases of the streaming thread abstract the runs of \<open>run_video_stream\<close>: what the thread announces last
  is proved there for every run.
\<close>

section \<open>States and steps\<close>

datatype phase = Absent | Created | Running | Leaving | Ended_ok | Ended_err

text \<open>
  Where the control thread is: between operations, after \<^verbatim>\<open>set_streaming_flag(true)\<close>, after a successful
  \<^verbatim>\<open>pthread_create\<close>, in \<^verbatim>\<open>wait_for_streaming_stopped\<close> with its number of attempts, in \<^verbatim>\<open>pthread_join\<close>.
\<close>

datatype control = Idle | Starting | Publishing | Waiting nat | Joining

record shared =
  flag :: bool
  stopped :: bool
  thread :: bool
  phase :: phase
  control :: control
  failed :: bool

definition shared_start :: shared where
  "shared_start = \<lparr>flag = False, stopped = True, thread = False, phase = Absent, control = Idle, failed = False\<rparr>"

inductive thread_step :: "shared \<Rightarrow> shared \<Rightarrow> bool" where
  start: "control s = Idle \<Longrightarrow> \<not> thread s \<Longrightarrow> thread_step s (s\<lparr>flag := True, control := Starting\<rparr>)"
| create: "control s = Starting \<Longrightarrow> thread_step s (s\<lparr>phase := Created, control := Publishing\<rparr>)"
| create_fails: "control s = Starting \<Longrightarrow> thread_step s (s\<lparr>flag := False, control := Idle\<rparr>)"
| publish: "control s = Publishing \<Longrightarrow> thread_step s (s\<lparr>thread := True, control := Idle\<rparr>)"
| stop: "control s = Idle \<Longrightarrow> thread s \<Longrightarrow> thread_step s (s\<lparr>flag := False, control := Waiting 0\<rparr>)"
| poll_stopped: "control s = Waiting n \<Longrightarrow> n < 30 \<Longrightarrow> stopped s \<Longrightarrow> thread_step s (s\<lparr>control := Joining\<rparr>)"
| poll_again: "control s = Waiting n \<Longrightarrow> n < 30 \<Longrightarrow> \<not> stopped s \<Longrightarrow> thread_step s (s\<lparr>control := Waiting (Suc n)\<rparr>)"
| give_up: "control s = Waiting 30 \<Longrightarrow> thread_step s (s\<lparr>control := Joining\<rparr>)"
| join: "control s = Joining \<Longrightarrow> phase s = Ended_ok \<or> phase s = Ended_err \<Longrightarrow>
    thread_step s (s\<lparr>thread := False, phase := Absent, control := Idle\<rparr>)"
| run: "phase s = Created \<Longrightarrow> thread_step s (s\<lparr>phase := Running, stopped := False, failed := False\<rparr>)"
| leave: "phase s = Running \<Longrightarrow> \<not> flag s \<Longrightarrow> thread_step s (s\<lparr>phase := Leaving\<rparr>)"
| announce: "phase s = Leaving \<Longrightarrow> thread_step s (s\<lparr>phase := Ended_ok, stopped := True\<rparr>)"
| fail: "phase s = Running \<Longrightarrow> thread_step s (s\<lparr>phase := Ended_err, failed := True\<rparr>)"

text \<open>\<^verbatim>\<open>video_get_streaming_status\<close> on the shared variables.\<close>

definition status :: "shared \<Rightarrow> u8" where
  "status s = (if flag s then 1 else if \<not> stopped s then 2 else 0)"

section \<open>The invariant\<close>

fun control_ok :: "shared \<Rightarrow> bool" where
  "control_ok s = (case control s of
       Idle \<Rightarrow> flag s = thread s \<and> (phase s = Absent \<longleftrightarrow> \<not> thread s)
     | Starting \<Rightarrow> flag s \<and> \<not> thread s \<and> phase s = Absent
     | Publishing \<Rightarrow> flag s \<and> \<not> thread s \<and> phase s \<noteq> Absent
     | Waiting n \<Rightarrow> \<not> flag s \<and> thread s \<and> phase s \<noteq> Absent \<and> n \<le> 30
     | Joining \<Rightarrow> \<not> flag s \<and> thread s \<and> phase s \<noteq> Absent)"

fun phase_ok :: "shared \<Rightarrow> bool" where
  "phase_ok s = (case phase s of
       Absent \<Rightarrow> stopped s = (\<not> failed s)
     | Created \<Rightarrow> True
     | Running \<Rightarrow> \<not> stopped s \<and> \<not> failed s
     | Leaving \<Rightarrow> \<not> stopped s \<and> \<not> failed s \<and> \<not> flag s
     | Ended_ok \<Rightarrow> stopped s \<and> \<not> failed s \<and> \<not> flag s
     | Ended_err \<Rightarrow> \<not> stopped s \<and> failed s)"

definition shared_inv :: "shared \<Rightarrow> bool" where
  "shared_inv s \<longleftrightarrow> control_ok s \<and> phase_ok s"

lemma shared_inv_step: "thread_step s t \<Longrightarrow> shared_inv s \<Longrightarrow> shared_inv t"
  by (erule thread_step.cases) (auto simp: shared_inv_def split: control.splits phase.splits)

interpretation threads: invariant_system "\<lambda>s. s = shared_start" thread_step shared_inv
  by unfold_locales (simp add: shared_start_def shared_inv_def, rule shared_inv_step)

section \<open>A stop always completes\<close>

text \<open>The streaming thread can end once the flag is cleared.\<close>

lemma thread_can_end:
  assumes "shared_inv s" "\<not> flag s" "phase s \<noteq> Absent" "control s = Joining"
  shows "\<exists>t. thread_step\<^sup>*\<^sup>* s t \<and> shared_inv t \<and> control t = Joining \<and> (phase t = Ended_ok \<or> phase t = Ended_err)"
proof -
  have ends: "\<exists>t. thread_step\<^sup>*\<^sup>* x t \<and> shared_inv t \<and> control t = Joining \<and> (phase t = Ended_ok \<or> phase t = Ended_err)"
    if "phase x = Leaving" "shared_inv x" "control x = Joining" for x
    by (rule exI [of _ "x\<lparr>phase := Ended_ok, stopped := True\<rparr>"])
       (use r_into_rtranclp [of thread_step, OF announce [OF that(1)]] shared_inv_step [OF announce [OF that(1)] that(2)] that(3) in simp)
  have leaves: "\<exists>t. thread_step\<^sup>*\<^sup>* x t \<and> shared_inv t \<and> control t = Joining \<and> (phase t = Ended_ok \<or> phase t = Ended_err)"
    if "phase x = Running" "shared_inv x" "control x = Joining" "\<not> flag x" for x
  proof -
    note l = leave [OF that(1,4)]
    from ends [of "x\<lparr>phase := Leaving\<rparr>"] shared_inv_step [OF l that(2)] that(3)
    show ?thesis using converse_rtranclp_into_rtranclp [of thread_step, OF l] by auto
  qed
  show ?thesis
  proof (cases "phase s")
    case Created
    note r = run [OF Created]
    from leaves [of "s\<lparr>phase := Running, stopped := False, failed := False\<rparr>"] shared_inv_step [OF r assms(1)] assms
    show ?thesis using converse_rtranclp_into_rtranclp [of thread_step, OF r] by auto
  qed (use assms ends [of s] leaves [of s] in auto)
qed

lemma waiting_to_joining:
  assumes "control s = Waiting n" "n \<le> 30" "shared_inv s"
  shows "\<exists>t. thread_step\<^sup>*\<^sup>* s t \<and> shared_inv t \<and> control t = Joining"
  using assms
proof (induction "30 - n" arbitrary: s n)
  case 0
  then have s: "thread_step s (s\<lparr>control := Joining\<rparr>)" by (intro give_up) simp
  from shared_inv_step [OF s 0(4)] r_into_rtranclp [of thread_step, OF s] show ?case by (intro exI conjI) auto
next
  case (Suc k)
  then have n: "n < 30" by simp
  show ?case
  proof (cases "stopped s")
    case True
    note s = poll_stopped [OF Suc(3) n True]
    from shared_inv_step [OF s Suc(5)] r_into_rtranclp [of thread_step, OF s] show ?thesis by (intro exI conjI) auto
  next
    case False
    note s = poll_again [OF Suc(3) n False]
    have k: "k = 30 - Suc n" using Suc(2) by simp
    from Suc(1) [OF k, of "s\<lparr>control := Waiting (Suc n)\<rparr>"] n shared_inv_step [OF s Suc(5)]
    show ?thesis using converse_rtranclp_into_rtranclp [of thread_step, OF s] by auto
  qed
qed

lemma joining_to_idle:
  assumes "control s = Joining" "shared_inv s"
  shows "\<exists>t. thread_step\<^sup>*\<^sup>* s t \<and> control t = Idle \<and> \<not> thread t"
proof -
  have "\<not> flag s" "phase s \<noteq> Absent" using assms by (simp_all add: shared_inv_def)
  from thread_can_end [OF assms(2) this assms(1)] obtain t where
    t: "thread_step\<^sup>*\<^sup>* s t" "control t = Joining" "phase t = Ended_ok \<or> phase t = Ended_err" by blast
  from rtranclp.rtrancl_into_rtrancl [OF t(1) join [OF t(2,3)]] show ?thesis by (intro exI conjI) auto
qed

section \<open>Stated properties\<close>


text \<open>C23: A stop always completes: from every reachable state in which the control thread waits for the streaming
  thread or joins it, it can get back to rest with the thread gone, and no state on the way is a deadlock for it.\<close>

theorem stop_completes:
  assumes "reach (\<lambda>s. s = shared_start) thread_step s" "control s = Joining \<or> control s = Waiting n"
  shows "\<exists>t. thread_step\<^sup>*\<^sup>* s t \<and> control t = Idle \<and> \<not> thread t"
proof -
  have i: "shared_inv s" using threads.inv_reach [OF assms(1)] .
  show ?thesis
  proof (cases "control s = Joining")
    case True
    then show ?thesis using joining_to_idle i by blast
  next
    case False
    then have w: "control s = Waiting n" "n \<le> 30" using assms(2) i by (auto simp: shared_inv_def)
    from waiting_to_joining [OF w i] obtain t where t: "thread_step\<^sup>*\<^sup>* s t" "shared_inv t" "control t = Joining" by blast
    from joining_to_idle [OF t(3,2)] t(1) show ?thesis by (meson rtranclp_trans)
  qed
qed

definition waiting_state :: shared where
  "waiting_state = \<lparr>flag = False, stopped = True, thread = True, phase = Created, control = Waiting 0, failed = False\<rparr>"

lemma waiting_reachable: "reach (\<lambda>s. s = shared_start) thread_step waiting_state"
proof -
  let ?a = "shared_start\<lparr>flag := True, control := Starting\<rparr>"
  let ?b = "?a\<lparr>phase := Created, control := Publishing\<rparr>"
  let ?c = "?b\<lparr>thread := True, control := Idle\<rparr>"
  have a: "thread_step shared_start ?a" by (rule start) (simp_all add: shared_start_def)
  have b: "thread_step ?a ?b" by (rule create) simp
  have c: "thread_step ?b ?c" by (rule publish) simp
  have d: "thread_step ?c (?c\<lparr>flag := False, control := Waiting 0\<rparr>)" by (rule stop) simp_all
  have "waiting_state = ?c\<lparr>flag := False, control := Waiting 0\<rparr>" by (simp add: waiting_state_def shared_start_def)
  then show ?thesis
    using reach_step [of _ thread_step, OF reach_step [of _ thread_step, OF reach_step [of _ thread_step, OF reach_step
      [of _ thread_step, OF reach_start [of "\<lambda>s. s = shared_start"] a] b] c] d] by simp
qed


theorem stop_completes_witness: "\<exists>t. thread_step\<^sup>*\<^sup>* waiting_state t \<and> control t = Idle \<and> \<not> thread t"
  using stop_completes [OF waiting_reachable, of 0] by (simp add: waiting_state_def)

section \<open>The phases abstract the runs of the thread\<close>

fun run_phase :: "thread_end \<Rightarrow> phase" where
  "run_phase (Return_null _) = Ended_ok"
| "run_phase (Return_error _) = Ended_err"
| "run_phase (Thread_aborted _) = Running"

fun run_state :: "thread_end \<Rightarrow> stream" where
  "run_state (Return_null s) = s"
| "run_state (Return_error s) = s"
| "run_state (Thread_aborted s) = s"


text \<open>A machine on which the flag is never set.\<close>

definition off_env :: native_env where
  "off_env = \<lparr>nret = (\<lambda>_. 0), nbytes = (\<lambda>_. []), ntext = (\<lambda>_. []), nfloat = (\<lambda>_. Finite 1), nval = (\<lambda>_ _. 0),
     RK_ERR_VENC_BUF_EMPTY = -1\<rparr>"

lemma off_env_flag: "flag_reads off_env h \<le> 0"
proof -
  have "flag_reads off_env h = 0" by (induction off_env h rule: flag_reads.induct) (simp_all add: off_env_def)
  then show ?thesis by simp
qed


end
