(* ===== verification/Video_Control.thy ===== *)
theory Video_Control
  imports Video_Stream
begin

text \<open>
  The control side of \<^verbatim>\<open>internal/native/cgo/video.c\<close> and the state reports of \<^verbatim>\<open>ctrl.c\<close>: initialisation
  and shutdown, starting, stopping and restarting the streaming thread, and the thread that
  follows the format of the HDMI source. \<^verbatim>\<open>streaming_stopped\<close> is written by the streaming thread and
  read through the environment.
\<close>

section \<open>State\<close>

record video_state =
  ready :: bool
  streaming :: u8
  error :: "string option"
  width :: u16
  height :: u16
  frame_per_second :: cfloat

record video =
  streaming_flag :: bool
  streaming_thread :: bool
  detected_width :: u32
  detected_height :: u32
  detected_fps :: u32
  detected_signal :: bool
  should_exit :: bool
  quality_factor :: cfloat
  codec_type :: int
  sub_dev_fd :: fd
  memPool :: "int option"
  hdmi_sleep_mode :: bool
  format_thread :: bool
  state :: video_state
  video_state_handler :: bool
  reports :: "video_state list"
  vcalls :: "ncall list"

definition video_globals :: video where
  "video_globals = \<lparr>streaming_flag = False, streaming_thread = False, detected_width = 0, detected_height = 0,
     detected_fps = 60, detected_signal = False, should_exit = False, quality_factor = Finite 1, codec_type = 0,
     sub_dev_fd = -1, memPool = None, hdmi_sleep_mode = False, format_thread = False,
     state = \<lparr>ready = False, streaming = 0, error = None, width = 0, height = 0, frame_per_second = Finite 0\<rparr>,
     video_state_handler = False, reports = [], vcalls = []\<rparr>"

definition vdo :: "native_env \<Rightarrow> ncall \<Rightarrow> video \<Rightarrow> int \<times> video" where
  "vdo env c v = (nret env (c # vcalls v), v\<lparr>vcalls := c # vcalls v\<rparr>)"

definition vrun :: "native_env \<Rightarrow> ncall \<Rightarrow> video \<Rightarrow> video" where
  "vrun env c v = v\<lparr>vcalls := c # vcalls v\<rparr>"

section \<open>Status and reports\<close>

definition get_streaming_stopped :: "native_env \<Rightarrow> video \<Rightarrow> bool \<times> video" where
  "get_streaming_stopped env v = (case vdo env (Shared_read Streaming_stopped) v of (r, v) \<Rightarrow> (r \<noteq> 0, v))"

definition get_streaming_flag :: "video \<Rightarrow> bool" where
  "get_streaming_flag v = streaming_flag v"

definition video_get_streaming_status :: "native_env \<Rightarrow> video \<Rightarrow> u8 \<times> video" where
  "video_get_streaming_status env v =
     (if get_streaming_flag v then (1, v)
      else case get_streaming_stopped env v of (stopped, v) \<Rightarrow> (if \<not> stopped then 2 else 0, v))"

text \<open>Calling the handler: the report is the state it is given a pointer to.\<close>

definition report :: "video \<Rightarrow> video" where
  "report v = (if video_state_handler v then v\<lparr>reports := state v # reports v\<rparr> else v)"

definition video_send_format_report :: "native_env \<Rightarrow> video \<Rightarrow> video" where
  "video_send_format_report env v =
     (case video_get_streaming_status env v of (st, v) \<Rightarrow> report (v\<lparr>state := (state v)\<lparr>streaming := st\<rparr>\<rparr>))"

definition video_report_format :: "native_env \<Rightarrow> bool \<Rightarrow> string option \<Rightarrow> u16 \<Rightarrow> u16 \<Rightarrow> cfloat \<Rightarrow> video \<Rightarrow> video" where
  "video_report_format env rdy err w h fps v =
     (case video_get_streaming_status env v of (st, v) \<Rightarrow>
        report (v\<lparr>state := \<lparr>ready = rdy, streaming = st, error = err, width = w, height = h, frame_per_second = fps\<rparr>\<rparr>))"

definition set_streaming_flag :: "native_env \<Rightarrow> bool \<Rightarrow> video \<Rightarrow> video" where
  "set_streaming_flag env flag v = video_send_format_report env (v\<lparr>streaming_flag := flag\<rparr>)"

section \<open>Starting and stopping\<close>

definition video_start_streaming :: "native_env \<Rightarrow> video \<Rightarrow> video" where
  "video_start_streaming env v =
     (if streaming_thread v then snd (get_streaming_stopped env v)
      else case vdo env (Malloc 4) v of (new_thread, v) \<Rightarrow>
        if new_thread = 0 then v
        else case vdo env Stream_thread_create (set_streaming_flag env True v) of (result, v) \<Rightarrow>
          if result \<noteq> 0 then set_streaming_flag env False v
          else v\<lparr>streaming_thread := True\<rparr>)"

text \<open>\<^verbatim>\<open>while (attempts < 30)\<close>; \<open>n\<close> is \<open>30 - attempts\<close>.\<close>

fun wait_loop :: "native_env \<Rightarrow> nat \<Rightarrow> video \<Rightarrow> bool \<times> video" where
  "wait_loop env 0 v = (False, v)"
| "wait_loop env (Suc n) v =
     (case get_streaming_stopped env v of (stopped, v) \<Rightarrow>
        if stopped then (True, v) else wait_loop env n (vrun env (Usleep 100000) v))"

definition wait_for_streaming_stopped :: "native_env \<Rightarrow> video \<Rightarrow> bool \<times> video" where
  "wait_for_streaming_stopped env v = wait_loop env 30 v"

definition video_stop_streaming :: "native_env \<Rightarrow> video \<Rightarrow> video" where
  "video_stop_streaming env v =
     (if \<not> streaming_thread v then v
      else (vrun env Stream_thread_join (snd (wait_for_streaming_stopped env (set_streaming_flag env False v))))
             \<lparr>streaming_thread := False\<rparr>)"

definition video_restart_streaming :: "native_env \<Rightarrow> video \<Rightarrow> video" where
  "video_restart_streaming env v =
     (case video_get_streaming_status env v of (st, v) \<Rightarrow>
        if st = 0 then v
        else
          let v = (if st = 1 \<or> st = 2 then video_stop_streaming env v else v) in
          case wait_for_streaming_stopped env v of (ok, v) \<Rightarrow>
            if \<not> ok then v else video_start_streaming env v)"

definition video_set_quality_factor :: "native_env \<Rightarrow> cfloat \<Rightarrow> video \<Rightarrow> video" where
  "video_set_quality_factor env factor v = video_restart_streaming env (v\<lparr>quality_factor := factor\<rparr>)"

definition video_get_quality_factor :: "video \<Rightarrow> cfloat" where
  "video_get_quality_factor v = quality_factor v"

definition video_set_codec_type :: "int \<Rightarrow> video \<Rightarrow> video" where
  "video_set_codec_type type v = v\<lparr>codec_type := type\<rparr>"

definition video_get_codec_type :: "video \<Rightarrow> int" where
  "video_get_codec_type v = codec_type v"

section \<open>Initialisation and shutdown\<close>

definition detect_sleep_mode :: "native_env \<Rightarrow> video \<Rightarrow> video" where
  "detect_sleep_mode env v =
     (case vdo env (Access SLEEP_MODE_FILE) v of (r, v) \<Rightarrow>
        if r \<noteq> 0 then v\<lparr>hdmi_sleep_mode := False\<rparr>
        else
          let s = ensure_sleep_mode_disabled env \<lparr>venc_running = False, venc_read_thread = No_thread,
                    sleep_mode_available = True, calls = vcalls v\<rparr>
          in v\<lparr>hdmi_sleep_mode := True, vcalls := calls s\<rparr>)"

text \<open>\<^verbatim>\<open>MB_INVALID_POOLID\<close> is the answer -1.\<close>

definition buf_init :: "native_env \<Rightarrow> video \<Rightarrow> int \<times> video" where
  "buf_init env v =
     (case vdo env MB_CreatePool v of (pool, v) \<Rightarrow>
        if pool = -1 then (-1, v\<lparr>memPool := None\<rparr>) else (RK_SUCCESS, v\<lparr>memPool := Some pool\<rparr>))"

definition open_sub_dev :: "native_env \<Rightarrow> video \<Rightarrow> video" where
  "open_sub_dev env v =
     (if sub_dev_fd v < 0 then (case vdo env (Open ''/dev/v4l-subdev2'') v of (fd, v) \<Rightarrow> v\<lparr>sub_dev_fd := fd\<rparr>) else v)"

definition video_init :: "native_env \<Rightarrow> cfloat \<Rightarrow> video \<Rightarrow> int \<times> video" where
  "video_init env factor v =
     (let v = detect_sleep_mode env v;
          v = v\<lparr>quality_factor := (if le_zero factor then Finite 1 else factor)\<rparr>
      in case vdo env SYS_Init v of (r, v) \<Rightarrow>
           if r \<noteq> RK_SUCCESS then (RK_FAILURE, v)
           else
             let v = open_sub_dev env v in
             if sub_dev_fd v < 0 then vdo env Get_errno v
             else case buf_init env v of (r, v) \<Rightarrow>
               if r \<noteq> RK_SUCCESS then (r, v)
               else (RK_SUCCESS, (vrun env Format_thread_create v)\<lparr>format_thread := True\<rparr>))"

definition video_shutdown :: "native_env \<Rightarrow> video \<Rightarrow> video" where
  "video_shutdown env v =
     (if should_exit v then v
      else
        let v = (video_stop_streaming env v)\<lparr>should_exit := True\<rparr>;
            v = (if sub_dev_fd v > 0 then vrun env (Shutdown (sub_dev_fd v)) v else v)
        in if memPool v \<noteq> None then vrun env MB_DestroyPool v else v)"

section \<open>Following the source format\<close>

text \<open>
  The refresh rate: the pixel clock over the total frame size, computed in 32-bit unsigned
  arithmetic and divided in double precision.
\<close>

definition source_rate :: "u64 \<Rightarrow> u32 \<Rightarrow> cfloat" where
  "source_rate pixelclock frame =
     (if frame = 0 then (if pixelclock = 0 then Not_a_number else Infinite False)
      else Finite (round_to 53 (round_to 53 (of_nat (unat pixelclock)) / of_nat (unat frame))))"

text \<open>\<^verbatim>\<open>(uint32_t)(frames_per_second + 0.5)\<close>; \<open>None\<close> when the conversion is undefined.\<close>

definition rounded_rate :: "cfloat \<Rightarrow> u32 option" where
  "rounded_rate r = (case r of
       Finite x \<Rightarrow> (let n = trunc_rat (round_to 53 (x + 1 / 2)) in if 0 \<le> n \<and> n < 2 ^ 32 then Some (of_int n) else None)
     | _ \<Rightarrow> None)"

text \<open>The timings a query stored: width, height, pixel clock, the three vertical and three horizontal blanks.\<close>

definition total_size :: "(nat \<Rightarrow> int) \<Rightarrow> u32" where
  "total_size t = (of_int (t 1) + of_int (t 3) + of_int (t 4) + of_int (t 5)) *
                  (of_int (t 0) + of_int (t 6) + of_int (t 7) + of_int (t 8))"

definition fps_changed :: "u32 \<Rightarrow> u32 \<Rightarrow> bool" where
  "fps_changed fps_int detected = (fps_int > detected + 1 \<or> fps_int + 1 < detected)"

definition timings_found :: "native_env \<Rightarrow> (nat \<Rightarrow> int) \<Rightarrow> video \<Rightarrow> video" where
  "timings_found env t v =
     (let rate = source_rate (of_int (t 2)) (total_size t);
          fps_int = (case rounded_rate rate of Some n \<Rightarrow> n | None \<Rightarrow> of_int (t 9));
          fps_int = (if fps_int < 1 then 1 else fps_int);
          w = of_int (t 0); h = of_int (t 1);
          should_restart = (w \<noteq> detected_width v \<or> h \<noteq> detected_height v \<or> fps_changed fps_int (detected_fps v)
                            \<or> \<not> detected_signal v);
          v = v\<lparr>detected_width := w, detected_height := h, detected_fps := fps_int, detected_signal := True\<rparr>;
          v = video_report_format env True None (ucast w) (ucast h) rate v
      in if should_restart then video_restart_streaming env v else v)"

text \<open>
  The failed query. The result says whether the loop goes on to wait for an event (\<open>True\<close>) or
  starts over after a second (\<open>False\<close>).
\<close>

definition timings_failed :: "native_env \<Rightarrow> video \<Rightarrow> bool \<times> video" where
  "timings_failed env v =
     (case vdo env Get_errno (v\<lparr>detected_signal := False\<rparr>) of (e, v) \<Rightarrow>
        if e = ENOLINK then (True, video_report_format env False (Some ''no_signal'') 0 0 (Finite 0) v)
        else if e = ENOLCK then (True, video_report_format env False (Some ''no_lock'') 0 0 (Finite 0) v)
        else if e = ERANGE then (True, video_report_format env False (Some ''out_of_range'') 0 0 (Finite 0) v)
        else (False, vrun env (Sleep 1) v))"

text \<open>The query and its evaluation, then, when the loop goes on, the wait for the next event.\<close>

definition detect_format :: "native_env \<Rightarrow> video \<Rightarrow> bool \<times> video" where
  "detect_format env v =
     (case vdo env (Ioctl_QUERY_DV_TIMINGS (sub_dev_fd v)) v of (r, v) \<Rightarrow>
        if r \<noteq> 0 then timings_failed env v else (True, timings_found env (nval env (vcalls v)) v))"

partial_function (option) detect_loop :: "native_env \<Rightarrow> video \<Rightarrow> video option" where
  "detect_loop env v =
     (case vdo env (Shared_read Should_exit) v of (ex, v) \<Rightarrow>
        if ex \<noteq> 0 then Some (vrun env (Close (sub_dev_fd v)) v)
        else case detect_format env v of (wait, v) \<Rightarrow>
          if \<not> wait then detect_loop env v
          else case vdo env (Ioctl_DQEVENT (sub_dev_fd v)) v of (r, v) \<Rightarrow>
            if r \<noteq> 0 then Some (vrun env (Close (sub_dev_fd v)) v) else detect_loop env v)"

definition run_detect_format :: "native_env \<Rightarrow> video \<Rightarrow> video option" where
  "run_detect_format env v =
     (case vdo env (Ioctl_SUBSCRIBE (sub_dev_fd v)) v of (r, v) \<Rightarrow>
        if r = -1 then Some (vrun env (Close (sub_dev_fd v)) v) else detect_loop env v)"

end
