(* ===== verification/Video_Reports.thy ===== *)
theory Video_Reports
  imports Video_Threads Video_Control
begin

text \<open>
  The state reports of \<^verbatim>\<open>ctrl.c\<close> under the interleaving of \<open>Video_Threads\<close>. Both threads send a report after
  they wrote a shared variable (\<^verbatim>\<open>set_streaming_flag\<close>, \<^verbatim>\<open>set_streaming_stopped\<close>), and a report is not one step:
  it reads the two variables, each under its mutex, stores the result in the shared structure \<^verbatim>\<open>state\<close> and
  then calls the handler with a pointer to that structure.
\<close>

section \<open>States and steps\<close>

datatype who = Control_thread | Stream_thread

text \<open>How far a thread is in \<^verbatim>\<open>video_send_format_report\<close>.\<close>

datatype progress = Quiet | Read_flag | Read_stopped | Store u8 | Call_handler

record reporting =
  core :: shared
  pending :: "who \<Rightarrow> progress"
  state_streaming :: u8
  sent :: "u8 list"

definition reporting_start :: reporting where
  "reporting_start = \<lparr>core = shared_start, pending = (\<lambda>_. Quiet), state_streaming = 0, sent = []\<rparr>"

text \<open>
  The streaming thread reports after \<^verbatim>\<open>set_streaming_stopped(false)\<close> at its start and
  \<^verbatim>\<open>set_streaming_stopped(true)\<close> at its end; a return on an error does not report.
\<close>

definition set_streaming_stopped_report :: "phase \<Rightarrow> progress" where
  "set_streaming_stopped_report p = (if p = Running \<or> p = Ended_ok then Read_flag else Quiet)"

text \<open>
  A thread goes on once its report is complete, and a thread is joined once it has returned, so after its last report.
  The steps of the control thread are those that change its position; those of them that write the flag change it.
\<close>

inductive report_step :: "reporting \<Rightarrow> reporting \<Rightarrow> bool" where
  control_acts: "thread_step (core s) c \<Longrightarrow> control c \<noteq> control (core s) \<Longrightarrow> pending s Control_thread = Quiet \<Longrightarrow>
    (control (core s) = Joining \<longrightarrow> pending s Stream_thread = Quiet) \<Longrightarrow>
    report_step s (s\<lparr>core := c,
      pending := (pending s)(Control_thread := (if flag c \<noteq> flag (core s) then Read_flag else Quiet))\<rparr>)"
| stream_acts: "thread_step (core s) c \<Longrightarrow> control c = control (core s) \<Longrightarrow> pending s Stream_thread = Quiet \<Longrightarrow>
    report_step s (s\<lparr>core := c, pending := (pending s)(Stream_thread := set_streaming_stopped_report (phase c))\<rparr>)"
| reads_flag: "pending s w = Read_flag \<Longrightarrow>
    report_step s (s\<lparr>pending := (pending s)(w := (if flag (core s) then Store 1 else Read_stopped))\<rparr>)"
| reads_stopped: "pending s w = Read_stopped \<Longrightarrow>
    report_step s (s\<lparr>pending := (pending s)(w := Store (if stopped (core s) then 0 else 2))\<rparr>)"
| stores: "pending s w = Store x \<Longrightarrow>
    report_step s (s\<lparr>state_streaming := x, pending := (pending s)(w := Call_handler)\<rparr>)"
| calls: "pending s w = Call_handler \<Longrightarrow>
    report_step s (s\<lparr>sent := state_streaming s # sent s, pending := (pending s)(w := Quiet)\<rparr>)"

text \<open>A report that is not interrupted sends the status, as \<^verbatim>\<open>video_send_format_report\<close> does alone.\<close>

lemma report_uninterrupted:
  assumes "pending s w = Read_flag"
  shows "report_step\<^sup>*\<^sup>* s (s\<lparr>state_streaming := status (core s), sent := status (core s) # sent s,
    pending := (pending s)(w := Quiet)\<rparr>)"
proof -
  let ?st = "\<lambda>s x. s\<lparr>pending := (pending s)(w := Store x)\<rparr>"
  have store: "report_step\<^sup>*\<^sup>* (?st s x)
    (s\<lparr>state_streaming := x, sent := x # sent s, pending := (pending s)(w := Quiet)\<rparr>)" for s x
    using stores [of "?st s x" w x] calls [of "(?st s x)\<lparr>state_streaming := x, pending := (pending s)(w := Call_handler)\<rparr>" w]
    by simp
  have "report_step\<^sup>*\<^sup>* s (?st s (status (core s)))"
  proof (cases "flag (core s)")
    case True
    then show ?thesis using reads_flag [OF assms] by (simp add: status_def r_into_rtranclp)
  next
    case False
    let ?r = "s\<lparr>pending := (pending s)(w := Read_stopped)\<rparr>"
    have "report_step s ?r" using reads_flag [OF assms] False by simp
    moreover have "report_step ?r (?st s (status (core s)))" using reads_stopped [of ?r w] False
      by (cases "stopped (core s)") (simp_all add: status_def)
    ultimately show ?thesis by (meson converse_rtranclp_into_rtranclp r_into_rtranclp)
  qed
  from rtranclp_trans [OF this store [of s "status (core s)"]] show ?thesis .
qed

lemma video_send_format_report_status:
  assumes "streaming_flag v = flag c" "(nret env (Shared_read Streaming_stopped # vcalls v) \<noteq> 0) = stopped c" "video_state_handler v"
  shows "streaming (hd (reports (video_send_format_report env v))) = status c"
  using assms by (simp add: video_send_format_report_def video_get_streaming_status_def get_streaming_flag_def
    get_streaming_stopped_def vdo_def report_def status_def)

section \<open>The invariant\<close>

text \<open>While the flag is set: who may report, and that 1 is what was sent.\<close>

definition on_ok :: "reporting \<Rightarrow> bool" where
  "on_ok s \<longleftrightarrow> (if control (core s) = Starting
     then pending s Stream_thread = Quiet \<and> pending s Control_thread \<in> {Quiet, Read_flag, Store 1, Call_handler} \<and>
       (pending s Control_thread \<in> {Quiet, Call_handler} \<longrightarrow> state_streaming s = 1) \<and>
       (pending s Control_thread = Quiet \<longrightarrow> sent s \<noteq> [] \<and> hd (sent s) = 1)
     else pending s Control_thread = Quiet \<and> pending s Stream_thread \<in> {Quiet, Read_flag, Store 1, Call_handler} \<and>
       state_streaming s = 1 \<and> sent s \<noteq> [] \<and> hd (sent s) = 1)"

text \<open>While it is cleared, the control thread does not store 1; once the thread has announced its end, it does not either.\<close>

definition off_ok :: "reporting \<Rightarrow> bool" where
  "off_ok s \<longleftrightarrow> pending s Control_thread \<noteq> Store 1 \<and>
     (phase (core s) = Ended_ok \<longrightarrow> pending s Stream_thread \<noteq> Store 1 \<and>
       (pending s Stream_thread \<in> {Quiet, Call_handler} \<longrightarrow> state_streaming s \<noteq> 1) \<and>
       (pending s Stream_thread = Quiet \<longrightarrow> sent s \<noteq> [] \<and> hd (sent s) \<noteq> 1)) \<and>
     (phase (core s) = Absent \<and> \<not> failed (core s) \<longrightarrow>
       (pending s Control_thread \<in> {Quiet, Call_handler} \<longrightarrow> state_streaming s \<noteq> 1) \<and>
       (pending s Control_thread = Quiet \<longrightarrow> sent s = [] \<or> hd (sent s) \<noteq> 1))"

definition report_inv :: "reporting \<Rightarrow> bool" where
  "report_inv s \<longleftrightarrow> shared_inv (core s) \<and> (phase (core s) = Absent \<or> phase (core s) = Created \<longrightarrow> pending s Stream_thread = Quiet) \<and>
     set (sent s) \<subseteq> {0, 1, 2} \<and> state_streaming s \<in> {0, 1, 2} \<and> (\<forall>w x. pending s w = Store x \<longrightarrow> x \<in> {0, 1, 2}) \<and>
     (if flag (core s) then on_ok s else off_ok s)"

lemma control_acts_inv:
  assumes "report_inv s" "thread_step (core s) c" "control c \<noteq> control (core s)" "pending s Control_thread = Quiet"
    and "control (core s) = Joining \<longrightarrow> pending s Stream_thread = Quiet"
  shows "report_inv (s\<lparr>core := c,
      pending := (pending s)(Control_thread := (if flag c \<noteq> flag (core s) then Read_flag else Quiet))\<rparr>)"
proof -
  have "shared_inv c" using shared_inv_step [OF assms(2)] assms(1) by (simp add: report_inv_def)
  note i = this
  from assms(2) show ?thesis
    by cases (use assms(1,3-5) i in \<open>auto simp: report_inv_def shared_inv_def on_ok_def off_ok_def split: phase.splits\<close>)
qed

lemma stream_acts_inv:
  assumes "report_inv s" "thread_step (core s) c" "control c = control (core s)" "pending s Stream_thread = Quiet"
  shows "report_inv (s\<lparr>core := c, pending := (pending s)(Stream_thread := set_streaming_stopped_report (phase c))\<rparr>)"
proof -
  have i: "shared_inv c" using shared_inv_step [OF assms(2)] assms(1) by (simp add: report_inv_def)
  from assms(2) show ?thesis
    by cases (use assms(1,3,4) i in \<open>auto simp: report_inv_def shared_inv_def on_ok_def off_ok_def set_streaming_stopped_report_def
      split: control.splits\<close>)
qed

lemma reports_inv:
  assumes "report_inv s"
  shows "pending s w = Read_flag \<Longrightarrow>
      report_inv (s\<lparr>pending := (pending s)(w := (if flag (core s) then Store 1 else Read_stopped))\<rparr>)"
    and "pending s w = Read_stopped \<Longrightarrow> report_inv (s\<lparr>pending := (pending s)(w := Store (if stopped (core s) then 0 else 2))\<rparr>)"
    and "pending s w = Store x \<Longrightarrow> report_inv (s\<lparr>state_streaming := x, pending := (pending s)(w := Call_handler)\<rparr>)"
    and "pending s w = Call_handler \<Longrightarrow>
      report_inv (s\<lparr>sent := state_streaming s # sent s, pending := (pending s)(w := Quiet)\<rparr>)"
  by (cases w; use assms in \<open>auto simp: report_inv_def on_ok_def off_ok_def split: if_splits\<close>)+

lemma report_inv_start: "report_inv reporting_start"
  by (simp add: report_inv_def reporting_start_def shared_start_def shared_inv_def off_ok_def)

lemma report_inv_step: "report_step s t \<Longrightarrow> report_inv s \<Longrightarrow> report_inv t"
  by (erule report_step.cases; hypsubst; rule control_acts_inv stream_acts_inv reports_inv; assumption)

lemma at_rest_flag: "shared_inv c \<Longrightarrow> control c = Idle \<Longrightarrow> flag c = thread c \<and> (\<not> thread c \<longrightarrow> phase c = Absent)"
  by (auto simp: shared_inv_def)

lemma reports_running:
  assumes "report_inv s"
  shows "control (core s) = Idle \<and> thread (core s) \<and> pending s Control_thread = Quiet \<longrightarrow>
    state_streaming s = 1 \<and> sent s \<noteq> [] \<and> hd (sent s) = 1"
proof (intro impI, elim conjE)
  assume "control (core s) = Idle" "thread (core s)" "pending s Control_thread = Quiet"
  then show "state_streaming s = 1 \<and> sent s \<noteq> [] \<and> hd (sent s) = 1"
    using assms at_rest_flag [of "core s"] by (simp add: report_inv_def on_ok_def)
qed

lemma reports_at_rest:
  assumes "report_inv s"
  shows "control (core s) = Idle \<and> \<not> thread (core s) \<and> \<not> failed (core s) \<and> (\<forall>w. pending s w = Quiet) \<and> sent s \<noteq> [] \<longrightarrow>
    hd (sent s) = 0 \<or> hd (sent s) = 2"
proof (intro impI, elim conjE)
  assume r: "control (core s) = Idle" "\<not> thread (core s)" "\<not> failed (core s)" "\<forall>w. pending s w = Quiet" "sent s \<noteq> []"
  then have "hd (sent s) \<noteq> 1" using assms at_rest_flag [of "core s"] by (simp add: report_inv_def off_ok_def)
  moreover have "hd (sent s) \<in> {0, 1, 2}" using assms hd_in_set [OF r(5)] by (auto simp: report_inv_def)
  ultimately show "hd (sent s) = 0 \<or> hd (sent s) = 2" by simp
qed

interpretation reports: invariant_system "\<lambda>s. s = reporting_start" report_step report_inv
  by unfold_locales (simp add: report_inv_start, rule report_inv_step)

section \<open>A schedule that leaves a stale report\<close>

abbreviation reporting_reachable :: "reporting \<Rightarrow> bool" where
  "reporting_reachable \<equiv> reach (\<lambda>s. s = reporting_start) report_step"

text \<open>A state from its parts: the shared variables, the progress of the two threads, the structure, what was sent.\<close>

definition snapshot :: "shared \<Rightarrow> progress \<Rightarrow> progress \<Rightarrow> u8 \<Rightarrow> u8 list \<Rightarrow> reporting" where
  "snapshot c p q x l = \<lparr>core = c, pending = case_who p q, state_streaming = x, sent = l\<rparr>"

lemma case_who_upd: "(case_who p q)(Control_thread := p') = case_who p' q" "(case_who p q)(Stream_thread := q') = case_who p q'"
  by (auto split: who.splits)

lemmas snapshot_simps = snapshot_def case_who_upd

lemma snapshot_acts:
  assumes "reporting_reachable (snapshot c p q x l)" "thread_step c c'"
  shows "control c' \<noteq> control c \<Longrightarrow> p = Quiet \<Longrightarrow> (control c = Joining \<longrightarrow> q = Quiet) \<Longrightarrow>
      reporting_reachable (snapshot c' (if flag c' \<noteq> flag c then Read_flag else Quiet) q x l)"
    and "control c' = control c \<Longrightarrow> q = Quiet \<Longrightarrow>
      reporting_reachable (snapshot c' p (set_streaming_stopped_report (phase c')) x l)"
  using reach_step [OF assms(1) control_acts [of _ c']] reach_step [OF assms(1) stream_acts [of _ c']] assms(2)
  by (simp_all add: snapshot_simps)

lemma snapshot_reports:
  shows "reporting_reachable (snapshot c Read_flag q x l) \<Longrightarrow> reporting_reachable (snapshot c Quiet q (status c) (status c # l))"
    and "reporting_reachable (snapshot c p Read_flag x l) \<Longrightarrow> reporting_reachable (snapshot c p Quiet (status c) (status c # l))"
  using reach_steps [OF report_uninterrupted [of "snapshot c Read_flag q x l" Control_thread]]
    reach_steps [OF report_uninterrupted [of "snapshot c p Read_flag x l" Stream_thread]]
  by (simp_all add: snapshot_simps)

lemma snapshot_split_report:
  shows "reporting_reachable (snapshot c Read_flag q x l) \<Longrightarrow> \<not> flag c \<Longrightarrow> \<not> stopped c \<Longrightarrow> reporting_reachable (snapshot c (Store 2) q x l)"
    and "reporting_reachable (snapshot c (Store y) q x l) \<Longrightarrow> reporting_reachable (snapshot c Quiet q y (y # l))"
proof -
  assume r: "reporting_reachable (snapshot c Read_flag q x l)" "\<not> flag c" "\<not> stopped c"
  have "reporting_reachable (snapshot c Read_stopped q x l)"
    using reach_step [OF r(1) reads_flag [of _ Control_thread]] r(2) by (simp add: snapshot_simps)
  from reach_step [OF this reads_stopped [of _ Control_thread]] r(3)
  show "reporting_reachable (snapshot c (Store 2) q x l)" by (simp add: snapshot_simps)
next
  assume r: "reporting_reachable (snapshot c (Store y) q x l)"
  have "reporting_reachable (snapshot c Call_handler q y l)"
    using reach_step [OF r stores [of _ Control_thread y]] by (simp add: snapshot_simps)
  from reach_step [OF this calls [of _ Control_thread]] show "reporting_reachable (snapshot c Quiet q y (y # l))"
    by (simp add: snapshot_simps)
qed

definition both_running :: shared where
  "both_running = \<lparr>flag = True, stopped = False, thread = True, phase = Running, control = Idle, failed = False\<rparr>"

lemma running_reachable: "reporting_reachable (snapshot both_running Quiet Quiet 1 [1, 1])"
proof -
  let ?a = "shared_start\<lparr>flag := True, control := Starting\<rparr>"
  let ?b = "?a\<lparr>phase := Created, control := Publishing\<rparr>"
  let ?c = "?b\<lparr>thread := True, control := Idle\<rparr>"
  have "reporting_reachable (snapshot shared_start Quiet Quiet 0 [])"
    by (rule reach_start) (simp add: snapshot_def reporting_start_def fun_eq_iff split: who.split)
  from snapshot_acts(1) [OF this start] have "reporting_reachable (snapshot ?a Read_flag Quiet 0 [])"
    by (simp add: shared_start_def)
  from snapshot_reports(1) [OF this] have "reporting_reachable (snapshot ?a Quiet Quiet 1 [1])" by (simp add: status_def)
  from snapshot_acts(1) [OF this create] have "reporting_reachable (snapshot ?b Quiet Quiet 1 [1])" by simp
  from snapshot_acts(1) [OF this publish] have "reporting_reachable (snapshot ?c Quiet Quiet 1 [1])" by simp
  from snapshot_acts(2) [OF this run] have "reporting_reachable (snapshot both_running Quiet Read_flag 1 [1])"
    by (simp add: both_running_def shared_start_def set_streaming_stopped_report_def)
  from snapshot_reports(2) [OF this] show ?thesis by (simp add: both_running_def status_def)
qed

section \<open>Stated properties\<close>



text \<open>C28: The last report may be stale for good: the control thread reads \<^verbatim>\<open>streaming_stopped\<close> before the streaming thread sets it
  and calls the handler after it did. Then both threads are done, no report is under way, the status is 0, stopped, and the
  last report said 2, stopping.\<close>

theorem report_left_stale:
  "\<exists>s. reporting_reachable s \<and> control (core s) = Idle \<and> \<not> thread (core s) \<and> \<not> failed (core s) \<and>
     (\<forall>w. pending s w = Quiet) \<and> status (core s) = 0 \<and> hd (sent s) = 2 \<and> state_streaming s = 2"
proof -
  let ?d = "both_running\<lparr>flag := False, control := Waiting 0\<rparr>"
  let ?e = "?d\<lparr>phase := Leaving\<rparr>"
  let ?f = "?e\<lparr>phase := Ended_ok, stopped := True\<rparr>"
  let ?g = "?f\<lparr>control := Joining\<rparr>"
  let ?h = "?g\<lparr>thread := False, phase := Absent, control := Idle\<rparr>"
  from snapshot_acts(1) [OF running_reachable stop] have "reporting_reachable (snapshot ?d Read_flag Quiet 1 [1, 1])"
    by (simp add: both_running_def)
  from snapshot_split_report(1) [OF this] have "reporting_reachable (snapshot ?d (Store 2) Quiet 1 [1, 1])"
    by (simp add: both_running_def)
  from snapshot_acts(2) [OF this leave] have "reporting_reachable (snapshot ?e (Store 2) Quiet 1 [1, 1])"
    by (simp add: both_running_def set_streaming_stopped_report_def)
  from snapshot_acts(2) [OF this announce] have "reporting_reachable (snapshot ?f (Store 2) Read_flag 1 [1, 1])"
    by (simp add: set_streaming_stopped_report_def)
  from snapshot_reports(2) [OF this] have "reporting_reachable (snapshot ?f (Store 2) Quiet 0 [0, 1, 1])"
    by (simp add: status_def)
  from snapshot_split_report(2) [OF this] have "reporting_reachable (snapshot ?f Quiet Quiet 2 [2, 0, 1, 1])" .
  from snapshot_acts(1) [OF this poll_stopped] have "reporting_reachable (snapshot ?g Quiet Quiet 2 [2, 0, 1, 1])"
    by simp
  from snapshot_acts(1) [OF this join] have "reporting_reachable (snapshot ?h Quiet Quiet 2 [2, 0, 1, 1])" by simp
  then show ?thesis
    by (rule exI [of _ "snapshot ?h Quiet Quiet 2 [2, 0, 1, 1]", OF conjI])
       (simp add: snapshot_def both_running_def status_def split: who.split)
qed

end
