(* ===== verification/Video_Control_Props.thy ===== *)
theory Video_Control_Props
  imports Video_Control
begin

text \<open>
  Properties of the control side of \<^verbatim>\<open>video.c\<close>: at most one streaming thread, the meaning of the
  reported states, what a restart does, and the end of the format thread.
\<close>

lemma if_both: "P a \<Longrightarrow> P b \<Longrightarrow> P (if c then a else b)"
  by simp

section \<open>Counting threads\<close>

text \<open>Streaming threads created and not yet joined.\<close>

fun stream_threads :: "native_env \<Rightarrow> ncall list \<Rightarrow> int" where
  "stream_threads env [] = 0"
| "stream_threads env (Stream_thread_create # h) =
     (if nret env (Stream_thread_create # h) = 0 then 1 else 0) + stream_threads env h"
| "stream_threads env (Stream_thread_join # h) = stream_threads env h - 1"
| "stream_threads env (_ # h) = stream_threads env h"

text \<open>Passes of the format thread that did not find \<^verbatim>\<open>should_exit\<close> set.\<close>

fun go_reads :: "native_env \<Rightarrow> ncall list \<Rightarrow> nat" where
  "go_reads env [] = 0"
| "go_reads env (Shared_read Should_exit # h) =
     (if nret env (Shared_read Should_exit # h) = 0 then 1 else 0) + go_reads env h"
| "go_reads env (_ # h) = go_reads env h"

definition state_ok :: "video_state \<Rightarrow> bool" where
  "state_ok r \<longleftrightarrow> streaming r \<in> {0, 1, 2} \<and> (ready r \<longrightarrow> error r = None) \<and>
     (\<not> ready r \<longrightarrow> width r = 0 \<and> height r = 0 \<and> frame_per_second r = Finite 0)"

definition states_ok :: "video \<Rightarrow> bool" where
  "states_ok v \<longleftrightarrow> list_all state_ok (state v # reports v)"

definition video_inv :: "native_env \<Rightarrow> video \<Rightarrow> bool" where
  "video_inv env v \<longleftrightarrow> stream_threads env (vcalls v) = (if streaming_thread v then 1 else 0) \<and>
     streaming_flag v = streaming_thread v \<and> states_ok v"

text \<open>What the reporting and waiting functions leave alone.\<close>

definition quiet :: "native_env \<Rightarrow> video \<Rightarrow> video \<Rightarrow> bool" where
  "quiet env v w \<longleftrightarrow> stream_threads env (vcalls w) = stream_threads env (vcalls v) \<and>
     go_reads env (vcalls w) = go_reads env (vcalls v) \<and> sub_dev_fd w = sub_dev_fd v \<and>
     streaming_thread w = streaming_thread v \<and> streaming_flag w = streaming_flag v \<and>
     (states_ok v \<longrightarrow> states_ok w)"

lemma quiet_refl [simp, intro]: "quiet env v v"
  by (simp add: quiet_def)

lemma quiet_trans: "quiet env u v \<Longrightarrow> quiet env v w \<Longrightarrow> quiet env u w"
  by (simp add: quiet_def)

lemma quiet_inv: "quiet env v w \<Longrightarrow> video_inv env v \<Longrightarrow> video_inv env w"
  by (simp add: quiet_def video_inv_def)

lemma quiet_stopped: "get_streaming_stopped env v = (b, w) \<Longrightarrow> quiet env v w \<and> state w = state v \<and> reports w = reports v"
  by (auto simp: get_streaming_stopped_def vdo_def quiet_def states_ok_def)

lemma quiet_status: "video_get_streaming_status env v = (st, w) \<Longrightarrow>
    quiet env v w \<and> state w = state v \<and> reports w = reports v \<and> video_state_handler w = video_state_handler v \<and>
    st \<in> {0, 1, 2} \<and> (streaming_flag v \<longleftrightarrow> st = 1)"
  by (auto simp: video_get_streaming_status_def get_streaming_flag_def get_streaming_stopped_def vdo_def quiet_def states_ok_def
      split: if_splits)

lemma quiet_send_report: "quiet env v (video_send_format_report env v)"
proof -
  obtain st w where st: "video_get_streaming_status env v = (st, w)" by fastforce
  note q = quiet_status [OF st]
  then show ?thesis
    by (simp add: video_send_format_report_def st report_def quiet_def states_ok_def state_ok_def)
qed

lemma quiet_report_format:
  assumes "rdy \<longrightarrow> err = None" "\<not> rdy \<longrightarrow> w = 0 \<and> h = 0 \<and> fps = Finite 0"
  shows "quiet env v (video_report_format env rdy err w h fps v)"
proof -
  obtain st u where st: "video_get_streaming_status env v = (st, u)" by fastforce
  note q = quiet_status [OF st]
  then show ?thesis using assms
    by (simp add: video_report_format_def st report_def quiet_def states_ok_def state_ok_def)
qed

lemma quiet_wait: "wait_loop env n v = (b, w) \<Longrightarrow> quiet env v w"
proof (induction env n v arbitrary: w rule: wait_loop.induct)
  case (2 env n v)
  obtain s u where s: "get_streaming_stopped env v = (s, u)" by fastforce
  have u: "quiet env v u" using quiet_stopped [OF s] by simp
  have "quiet env u (vrun env (Usleep 100000) u)" by (simp add: vrun_def quiet_def states_ok_def)
  note slept = quiet_trans [OF u this]
  show ?case
  proof (cases s)
    case True
    with 2(2) s have "w = u" by simp
    with u show ?thesis by simp
  next
    case False
    with 2(2) s have "wait_loop env n (vrun env (Usleep 100000) u) = (b, w)" by simp
    from quiet_trans [OF slept 2(1) [OF s [symmetric] False this]] show ?thesis .
  qed
qed simp

section \<open>Starting and stopping keep the invariant\<close>

lemma set_flag_frame:
  assumes "w = set_streaming_flag env b v"
  shows "quiet env (v\<lparr>streaming_flag := b\<rparr>) w"
  using quiet_send_report [of env "v\<lparr>streaming_flag := b\<rparr>"] assms by (simp add: set_streaming_flag_def)

definition frame_ok :: "native_env \<Rightarrow> video \<Rightarrow> video \<Rightarrow> bool" where
  "frame_ok env v w \<longleftrightarrow> video_inv env w \<and> go_reads env (vcalls w) = go_reads env (vcalls v) \<and> sub_dev_fd w = sub_dev_fd v"

lemma frame_ok_quiet: "video_inv env v \<Longrightarrow> quiet env v w \<Longrightarrow> frame_ok env v w"
  using quiet_inv by (simp add: frame_ok_def quiet_def)

lemma frame_ok_trans: "frame_ok env u v \<Longrightarrow> (video_inv env v \<Longrightarrow> frame_ok env v w) \<Longrightarrow> frame_ok env u w"
  by (simp add: frame_ok_def)

lemma start_inv:
  assumes "video_inv env v"
  shows "frame_ok env v (video_start_streaming env v)"
proof (cases "streaming_thread v")
  case True
  obtain b w where s: "get_streaming_stopped env v = (b, w)" by fastforce
  with True quiet_stopped [OF s] frame_ok_quiet [OF assms] show ?thesis
    by (simp add: video_start_streaming_def)
next
  case False
  let ?m = "v\<lparr>vcalls := Malloc 4 # vcalls v\<rparr>"
  define a where "a = set_streaming_flag env True ?m"
  define b where "b = a\<lparr>vcalls := Stream_thread_create # vcalls a\<rparr>"
  have m: "quiet env v ?m" by (simp add: quiet_def states_ok_def)
  have qa: "quiet env (?m\<lparr>streaming_flag := True\<rparr>) a" by (rule set_flag_frame) (simp add: a_def)
  show ?thesis
  proof (cases "nret env (Malloc 4 # vcalls v) = 0")
    case True
    then show ?thesis using False frame_ok_quiet [OF assms m] by (simp add: video_start_streaming_def vdo_def)
  next
    case got: False
    show ?thesis
    proof (cases "nret env (Stream_thread_create # vcalls a) = 0")
      case True
      then have "video_start_streaming env v = b\<lparr>streaming_thread := True\<rparr>"
        using False got by (simp add: video_start_streaming_def vdo_def a_def b_def)
      then show ?thesis using qa assms False True by (simp add: frame_ok_def video_inv_def quiet_def states_ok_def b_def)
    next
      case no: False
      have qb: "quiet env (b\<lparr>streaming_flag := False\<rparr>) (set_streaming_flag env False b)" by (rule set_flag_frame) simp
      have "video_start_streaming env v = set_streaming_flag env False b"
        using False got no by (simp add: video_start_streaming_def vdo_def a_def b_def)
      then show ?thesis using qa qb assms False no by (simp add: frame_ok_def video_inv_def quiet_def states_ok_def b_def)
    qed
  qed
qed

lemma stop_inv:
  assumes "video_inv env v"
  shows "frame_ok env v (video_stop_streaming env v)"
    and "\<not> streaming_thread (video_stop_streaming env v)" "\<not> streaming_flag (video_stop_streaming env v)"
proof -
  define a where "a = set_streaming_flag env False v"
  obtain r w where wl: "wait_loop env 30 a = (r, w)" by fastforce
  have qa: "quiet env (v\<lparr>streaming_flag := False\<rparr>) a" by (rule set_flag_frame) (simp add: a_def)
  have qw: "quiet env a w" using quiet_wait [OF wl] .
  have run: "video_stop_streaming env v =
      (if \<not> streaming_thread v then v else w\<lparr>vcalls := Stream_thread_join # vcalls w, streaming_thread := False\<rparr>)"
    using wl by (simp add: video_stop_streaming_def wait_for_streaming_stopped_def a_def vrun_def)
  show "frame_ok env v (video_stop_streaming env v)"
    "\<not> streaming_thread (video_stop_streaming env v)" "\<not> streaming_flag (video_stop_streaming env v)"
    using run qa qw assms by (auto simp: frame_ok_def video_inv_def quiet_def states_ok_def)
qed

lemma restart_inv:
  assumes "video_inv env v"
  shows "frame_ok env v (video_restart_streaming env v)"
proof -
  obtain st u where st: "video_get_streaming_status env v = (st, u)" by fastforce
  have u: "quiet env v u" using quiet_status [OF st] by simp
  note fu = frame_ok_quiet [OF assms u]
  show ?thesis
  proof (cases "st = 0")
    case True
    then show ?thesis using st fu by (simp add: video_restart_streaming_def)
  next
    case False
    then have "st = 1 \<or> st = 2" using quiet_status [OF st] by auto
    moreover obtain ok w where w: "wait_for_streaming_stopped env (video_stop_streaming env u) = (ok, w)" by fastforce
    ultimately have run: "video_restart_streaming env v = (if \<not> ok then w else video_start_streaming env w)"
      using st False by (auto simp: video_restart_streaming_def Let_def)
    have fs: "frame_ok env v (video_stop_streaming env u)" by (rule frame_ok_trans [OF fu stop_inv(1)])
    have qw: "quiet env (video_stop_streaming env u) w"
      using quiet_wait [OF w [unfolded wait_for_streaming_stopped_def]] .
    have fw: "frame_ok env v w" by (rule frame_ok_trans [OF fs frame_ok_quiet [OF _ qw]])
    then show ?thesis using run frame_ok_trans [OF fw start_inv] by simp
  qed
qed

lemma detect_inv:
  assumes "video_inv env v" "detect_format env v = (b, w)"
  shows "frame_ok env v w"
proof -
  let ?q = "v\<lparr>vcalls := Ioctl_QUERY_DV_TIMINGS (sub_dev_fd v) # vcalls v\<rparr>"
  have fq: "frame_ok env v ?q" by (rule frame_ok_quiet [OF assms(1)]) (simp add: quiet_def states_ok_def)
  show ?thesis
  proof (cases "nret env (Ioctl_QUERY_DV_TIMINGS (sub_dev_fd v) # vcalls v) = 0")
    case True
    let ?t = "nval env (vcalls ?q)"
    have "frame_ok env ?q (timings_found env ?t ?q)" if i: "video_inv env ?q"
    proof -
      have q: "quiet env ?q (video_report_format env True None a b c (?q\<lparr>detected_width := d, detected_height := e,
          detected_fps := f, detected_signal := True\<rparr>))" for a b c d e f
        by (rule quiet_trans [OF _ quiet_report_format]) (simp_all add: quiet_def states_ok_def)
      show ?thesis
        unfolding timings_found_def Let_def
        by (rule if_both [of "frame_ok env ?q"])
           (rule frame_ok_trans [OF frame_ok_quiet [OF i q] restart_inv], assumption, rule frame_ok_quiet [OF i q])
    qed
    from frame_ok_trans [OF fq this] show ?thesis using assms(2) True by (simp add: detect_format_def vdo_def)
  next
    case False
    let ?e = "?q\<lparr>detected_signal := False, vcalls := Get_errno # vcalls ?q\<rparr>"
    have fe: "frame_ok env v ?e"
      by (rule frame_ok_trans [OF fq frame_ok_quiet]) (simp_all add: quiet_def states_ok_def)
    have "frame_ok env v (video_report_format env False (Some x) 0 0 (Finite 0) ?e)" for x
      by (rule frame_ok_trans [OF fe frame_ok_quiet [OF _ quiet_report_format]]) simp_all
    moreover have "frame_ok env v (vrun env (Sleep 1) ?e)"
      by (rule frame_ok_trans [OF fe frame_ok_quiet]) (simp_all add: quiet_def states_ok_def vrun_def)
    ultimately show ?thesis using assms(2) False
      by (auto simp: detect_format_def timings_failed_def vdo_def split: if_splits)
  qed
qed

lemma ensure_sleep_counts:
  "stream_threads env (calls (ensure_sleep_mode_disabled env s)) = stream_threads env (calls s)"
  by (simp add: ensure_sleep_mode_disabled_def sdo_def srun_def Let_def)

lemma init_inv:
  assumes "video_inv env v" "video_init env f v = (r, w)"
  shows "video_inv env w"
proof -
  define a where "a = detect_sleep_mode env v"
  have a: "video_inv env a"
    using assms(1) by (simp add: a_def detect_sleep_mode_def vdo_def Let_def ensure_sleep_counts video_inv_def states_ok_def)
  have call: "video_inv env (u\<lparr>vcalls := c # vcalls u\<rparr>)"
    if "video_inv env u" "c \<in> {SYS_Init, Get_errno, MB_CreatePool, Format_thread_create, Open ''/dev/v4l-subdev2''}" for u c
    using that by (auto simp: video_inv_def states_ok_def)
  have field: "video_inv env (u\<lparr>quality_factor := x\<rparr>) = video_inv env u" "video_inv env (u\<lparr>sub_dev_fd := i\<rparr>) = video_inv env u"
    "video_inv env (u\<lparr>memPool := p\<rparr>) = video_inv env u" "video_inv env (u\<lparr>format_thread := b\<rparr>) = video_inv env u" for u x i p b
    by (simp_all add: video_inv_def states_ok_def)
  define q where "q = a\<lparr>quality_factor := (if le_zero f then Finite 1 else f)\<rparr>"
  define b where "b = open_sub_dev env (q\<lparr>vcalls := SYS_Init # vcalls q\<rparr>)"
  have q: "video_inv env (q\<lparr>vcalls := SYS_Init # vcalls q\<rparr>)" using a by (intro call) (simp_all add: q_def field)
  with call [OF q, of "Open ''/dev/v4l-subdev2''"] have b: "video_inv env b" by (simp add: b_def open_sub_dev_def vdo_def field)
  from b have m: "buf_init env b = (x, c) \<Longrightarrow> video_inv env c" for x c
    by (auto simp: buf_init_def vdo_def field call split: if_splits)
  from assms(2) q b m show ?thesis
    by (simp add: video_init_def a_def [symmetric] q_def [symmetric] vdo_def b_def [symmetric] vrun_def field Let_def
        split: if_splits prod.splits) (auto simp: vrun_def field call)
qed

lemma shutdown_inv:
  assumes "video_inv env v"
  shows "video_inv env (video_shutdown env v)"
proof -
  have "video_inv env (video_stop_streaming env v)" using stop_inv(1) [OF assms] by (simp add: frame_ok_def)
  then show ?thesis using assms by (simp add: video_shutdown_def Let_def vrun_def video_inv_def states_ok_def)
qed

section \<open>The system of control operations\<close>

inductive video_step :: "native_env \<Rightarrow> video \<Rightarrow> video \<Rightarrow> bool" for env where
  "video_step env v (video_start_streaming env v)"
| "video_step env v (video_stop_streaming env v)"
| "video_step env v (video_restart_streaming env v)"
| "video_step env v (video_set_quality_factor env f v)"
| "video_step env v (video_set_codec_type c v)"
| "video_init env f v = (r, w) \<Longrightarrow> video_step env v w"
| "video_step env v (video_shutdown env v)"
| "detect_format env v = (b, w) \<Longrightarrow> video_step env v w"
| "video_step env v (v\<lparr>video_state_handler := b\<rparr>)"

inductive_cases video_stepE: "video_step env v w"

lemma step_inv: "video_inv env v \<Longrightarrow> video_step env v w \<Longrightarrow> video_inv env w"
proof (erule video_stepE)
  assume i: "video_inv env v"
  show "video_inv env w" if "w = video_start_streaming env v" using start_inv [OF i] that by (simp add: frame_ok_def)
  show "video_inv env w" if "w = video_stop_streaming env v" using stop_inv(1) [OF i] that by (simp add: frame_ok_def)
  show "video_inv env w" if "w = video_restart_streaming env v" using restart_inv [OF i] that by (simp add: frame_ok_def)
  show "video_inv env w" if "w = video_set_quality_factor env f v" for f
  proof -
    have "video_inv env (v\<lparr>quality_factor := f\<rparr>)" using i by (simp add: video_inv_def states_ok_def)
    from restart_inv [OF this] show ?thesis using that by (simp add: frame_ok_def video_set_quality_factor_def)
  qed
  show "video_inv env w" if "w = video_set_codec_type c v" for c
    using i that by (simp add: video_set_codec_type_def video_inv_def states_ok_def)
  show "video_inv env w" if "video_init env f v = (r, w)" for f r using init_inv [OF i that] .
  show "video_inv env w" if "w = video_shutdown env v" using shutdown_inv [OF i] that by simp
  show "video_inv env w" if "detect_format env v = (b, w)" for b using detect_inv [OF i that] by (simp add: frame_ok_def)
  show "video_inv env w" if "w = v\<lparr>video_state_handler := b\<rparr>" for b using i that by (simp add: video_inv_def states_ok_def)
qed

lemma start_state_inv: "video_inv env video_globals"
  by (simp add: video_inv_def video_globals_def states_ok_def state_ok_def)

interpretation video_ops: invariant_system "\<lambda>v. v = video_globals" "video_step env" "video_inv env" for env
  by unfold_locales (auto simp: start_state_inv intro: step_inv)

end
