(* ===== verification/Video_Control_Spec.thy ===== *)
theory Video_Control_Spec
  imports Video_Control_Props
begin

text \<open>
  The stated properties of the control side of \<^verbatim>\<open>video.c\<close>.
\<close>

section \<open>One streaming thread\<close>

text \<open>C2: Whatever sequence of control operations is run on the video module (initialisation, start, stop, restart,
  changes of quality and codec, passes of the format thread, shutdown), and whatever the system answers,
  between two operations there is exactly one streaming thread that has been created and not joined when
  \<^verbatim>\<open>streaming_thread\<close> is set and none otherwise, the streaming flag agrees with it, and every state ever
  reported has a streaming status of 0, 1 or 2, no error when it is ready, and no picture size otherwise.\<close>

theorem video_single_thread:
  assumes "reach (\<lambda>v. v = video_globals) (video_step env) v"
  shows "stream_threads env (vcalls v) = (if streaming_thread v then 1 else 0) \<and>
     streaming_flag v = streaming_thread v \<and> (\<forall>r\<in>set (reports v). state_ok r)"
  using video_ops.inv_reach [OF assms] by (auto simp: video_inv_def states_ok_def list_all_iff)

definition easy_env :: native_env where
  "easy_env = \<lparr>nret = (\<lambda>h. case h of Stream_thread_create # _ \<Rightarrow> 0 | _ \<Rightarrow> 1), nbytes = (\<lambda>_. []), ntext = (\<lambda>_. []),
     nfloat = (\<lambda>_. Finite 1), nval = (\<lambda>_ _. 0), RK_ERR_VENC_BUF_EMPTY = -1\<rparr>"

theorem video_single_thread_witness:
  "stream_threads easy_env (vcalls (video_stop_streaming easy_env (video_start_streaming easy_env video_globals))) = 0"
proof -
  let ?v = "video_stop_streaming easy_env (video_start_streaming easy_env video_globals)"
  have "reach (\<lambda>v. v = video_globals) (video_step easy_env) ?v"
    by (rule reach_step, rule reach_step, rule reach_start, rule refl)
       (rule video_step.intros(1), rule video_step.intros(2))
  from video_single_thread [OF this] stop_inv(2) [OF conjunct1 [OF start_inv [OF start_state_inv, unfolded frame_ok_def]], of easy_env]
  show ?thesis by simp
qed

section \<open>Restarting\<close>

lemma start_running:
  assumes "\<not> streaming_thread v" "\<forall>n h. nret env (Malloc n # h) \<noteq> 0" "\<forall>h. nret env (Stream_thread_create # h) = 0"
  shows "streaming_thread (video_start_streaming env v)"
  using assms by (simp add: video_start_streaming_def vdo_def)

lemma wait_seen:
  assumes "\<forall>h. nret env (Shared_read Streaming_stopped # h) \<noteq> 0"
  shows "\<exists>w. wait_for_streaming_stopped env v = (True, w) \<and> streaming_thread w = streaming_thread v"
  using assms by (simp add: wait_for_streaming_stopped_def numeral_eq_Suc get_streaming_stopped_def vdo_def)

lemma wait_unseen:
  assumes "\<forall>h. nret env (Shared_read Streaming_stopped # h) = 0"
  shows "fst (wait_loop env n v) = False"
  using assms by (induction n arbitrary: v) (simp_all add: get_streaming_stopped_def vdo_def)



text \<open>A streaming thread that never announces its end, as after its error returns, makes streaming unrecoverable
  by restarts: the restart stops the stream, gives up waiting and creates no thread, and from then on the
  status is 2 (stopping) and further restarts have no other effect.\<close>

theorem restart_stuck:
  assumes "video_inv env v" "\<forall>h. nret env (Shared_read Streaming_stopped # h) = 0"
  defines "w \<equiv> video_restart_streaming env v"
  shows "\<not> streaming_thread w \<and> \<not> streaming_flag w \<and> fst (video_get_streaming_status env w) = 2 \<and>
     \<not> streaming_thread (video_restart_streaming env w)"
proof -
  have stuck: "\<not> streaming_thread (video_restart_streaming env x) \<and> \<not> streaming_flag (video_restart_streaming env x)"
    if "video_inv env x" for x
  proof -
    obtain st u where st: "video_get_streaming_status env x = (st, u)" by fastforce
    have "st \<noteq> 0" "st = 1 \<or> st = 2" "video_inv env u"
      using st assms(2) quiet_status [OF st] quiet_inv [of env x u] that
      by (auto simp: video_get_streaming_status_def get_streaming_flag_def get_streaming_stopped_def vdo_def split: if_splits)
    moreover obtain ok y where y: "wait_for_streaming_stopped env (video_stop_streaming env u) = (ok, y)" by fastforce
    moreover have "ok = False" using wait_unseen [OF assms(2), of 30 "video_stop_streaming env u"] y
      by (simp add: wait_for_streaming_stopped_def)
    ultimately have r: "video_restart_streaming env x = y" using st by (auto simp: video_restart_streaming_def Let_def)
    have "quiet env (video_stop_streaming env u) y" using quiet_wait y by (simp add: wait_for_streaming_stopped_def)
    then show ?thesis using stop_inv(2,3) [OF \<open>video_inv env u\<close>] r by (simp add: quiet_def)
  qed
  have "video_inv env w" using restart_inv [OF assms(1)] by (simp add: w_def frame_ok_def)
  with stuck [OF assms(1)] stuck [of w] assms(2) show ?thesis
    by (simp add: w_def [symmetric] video_get_streaming_status_def get_streaming_flag_def get_streaming_stopped_def vdo_def)
qed

definition dead_env :: native_env where
  "dead_env = \<lparr>nret = (\<lambda>h. case h of Malloc _ # _ \<Rightarrow> 1 | _ \<Rightarrow> 0), nbytes = (\<lambda>_. []), ntext = (\<lambda>_. []),
     nfloat = (\<lambda>_. Finite 1), nval = (\<lambda>_ _. 0), RK_ERR_VENC_BUF_EMPTY = -1\<rparr>"

theorem restart_stuck_witness:
  "streaming_thread (video_start_streaming dead_env video_globals) \<and>
   \<not> streaming_thread (video_restart_streaming dead_env (video_start_streaming dead_env video_globals))"
proof -
  let ?v = "video_start_streaming dead_env video_globals"
  have "video_inv dead_env ?v" using start_inv [OF start_state_inv] by (simp add: frame_ok_def)
  from restart_stuck [OF this] have "\<not> streaming_thread (video_restart_streaming dead_env ?v)" by (simp add: dead_env_def)
  moreover have "streaming_thread ?v" by (rule start_running) (simp_all add: video_globals_def dead_env_def)
  ultimately show ?thesis by simp
qed

section \<open>Following the source\<close>

lemma fps_changed_iff:
  assumes "unat a < 2 ^ 32 - 1" "unat b < 2 ^ 32 - 1"
  shows "fps_changed a b \<longleftrightarrow> 1 < \<bar>int (unat a) - int (unat b)\<bar>"
proof -
  have "unat (a + 1) = unat a + 1" "unat (b + 1) = unat b + 1"
    using unat_add_small [of a 1] unat_add_small [of b 1] assms by simp_all
  then have "fps_changed a b \<longleftrightarrow> unat b + 1 < unat a \<or> unat a + 1 < unat b"
    by (simp add: fps_changed_def word_less_nat_alt)
  also have "\<dots> \<longleftrightarrow> 1 < \<bar>int (unat a) - int (unat b)\<bar>" by linarith
  finally show ?thesis .
qed

text \<open>C27: The tolerance of the format thread. When a successful query of the timings gives the size already
  known, a rate within one frame per second of the known one, and there was a signal before, the
  stream is left alone: no thread is created or joined and the flag is unchanged; the new rate is recorded
  and the state reported is ready, without error, with the size of the picture.\<close>

theorem stable_source_no_restart:
  fixes env :: native_env and t :: "nat \<Rightarrow> int" and v :: video
  assumes "detected_signal v" "of_int (t 0) = detected_width v" "of_int (t 1) = detected_height v"
    and "rounded_rate (source_rate (of_int (t 2)) (total_size t)) = Some fps" "1 \<le> unat fps" "unat fps < 2 ^ 32 - 1"
    and "unat (detected_fps v) < 2 ^ 32 - 1" "\<bar>int (unat fps) - int (unat (detected_fps v))\<bar> \<le> 1"
  defines "w \<equiv> timings_found env t v"
  shows "stream_threads env (vcalls w) = stream_threads env (vcalls v) \<and> streaming_thread w = streaming_thread v \<and>
     streaming_flag w = streaming_flag v \<and> detected_fps w = fps \<and> detected_signal w \<and>
     ready (state w) \<and> error (state w) = None \<and> width (state w) = ucast (detected_width v) \<and>
     height (state w) = ucast (detected_height v)"
proof -
  let ?r = "source_rate (of_int (t 2)) (total_size t)"
  let ?v = "v\<lparr>detected_width := of_int (t 0), detected_height := of_int (t 1), detected_fps := fps, detected_signal := True\<rparr>"
  have one: "\<not> fps < 1" using assms(5) by (simp add: word_less_nat_alt)
  have "\<not> fps_changed fps (detected_fps v)" using fps_changed_iff [OF assms(6,7)] assms(8) by simp
  then have w: "w = video_report_format env True None (ucast (detected_width v)) (ucast (detected_height v)) ?r ?v"
    using assms(1-4) one by (simp add: w_def timings_found_def Let_def)
  obtain st u where st: "video_get_streaming_status env ?v = (st, u)" by fastforce
  then have "detected_fps u = fps" "detected_signal u"
    by (auto simp: video_get_streaming_status_def get_streaming_stopped_def vdo_def split: if_splits)
  moreover have "stream_threads env (vcalls u) = stream_threads env (vcalls v)" "streaming_thread u = streaming_thread v"
    "streaming_flag u = streaming_flag v"
    using quiet_status [OF st] by (simp_all add: quiet_def)
  ultimately show ?thesis
    unfolding w video_report_format_def st report_def by (cases "video_state_handler u") simp_all
qed

lemma rate_60: "rounded_rate (source_rate 148500000 (1125 * 2200)) = Some 60"
proof -
  have "round_to 53 (of_nat 148500000) = of_nat 148500000" "round_to 53 (of_nat 60) = of_nat 60"
    by (rule double.rnd_exact, simp)+
  moreover have half: "round_to 53 (121 / 2) = 121 / 2"
  proof (rule round_to_integral)
    show "0 < (121 / 2 :: rat)" by simp
    have "ilog2 (121 / 2) = 5" by code_simp
    then show "(121 / 2 :: rat) / 2 powi (ilog2 (121 / 2) - int 53 + 1) = of_int (121 * 2 ^ 46)"
      by (simp add: power_int_def power_one_over)
  qed
  moreover have "\<lfloor>round_to 53 (121 / 2)\<rfloor> = 60" unfolding half by (simp add: floor_eq_iff)
  ultimately show ?thesis by (simp add: source_rate_def rounded_rate_def trunc_rat_def Let_def)
qed

definition full_hd :: "nat \<Rightarrow> int" where
  "full_hd i = [1920, 1080, 148500000, 4, 5, 36, 88, 44, 148, 0] ! i"

theorem stable_source_no_restart_witness:
  "detected_fps (timings_found dead_env full_hd (video_globals\<lparr>detected_width := 1920, detected_height := 1080,
     detected_fps := 61, detected_signal := True\<rparr>)) = 60"
proof -
  let ?v = "video_globals\<lparr>detected_width := 1920, detected_height := 1080, detected_fps := 61, detected_signal := True\<rparr>"
  have "total_size full_hd = 1125 * 2200" by (simp add: total_size_def full_hd_def)
  then have r: "rounded_rate (source_rate (of_int (full_hd 2)) (total_size full_hd)) = Some 60"
    using rate_60 by (simp add: full_hd_def)
  show ?thesis
    using stable_source_no_restart [of ?v full_hd 60 dead_env] r by (simp add: full_hd_def)
qed

lemma detect_loop_ok:
  assumes "\<forall>h. go_reads env h \<le> N" "video_inv env v"
  shows "\<exists>w. detect_loop env v = Some w \<and> video_inv env w \<and> (\<exists>h. vcalls w = Close (sub_dev_fd v) # h)"
  using assms(2)
proof (induction "N - go_reads env (vcalls v)" arbitrary: v rule: less_induct)
  case less
  let ?x = "v\<lparr>vcalls := Shared_read Should_exit # vcalls v\<rparr>"
  have ix: "video_inv env ?x" using less.prems by (simp add: video_inv_def states_ok_def)
  show ?case
  proof (cases "nret env (Shared_read Should_exit # vcalls v) = 0")
    case False
    then show ?thesis using ix by (subst detect_loop.simps) (simp add: vdo_def vrun_def video_inv_def states_ok_def)
  next
    case go: True
    obtain b u where d: "detect_format env ?x = (b, u)" by fastforce
    note f = detect_inv [OF ix d, unfolded frame_ok_def]
    let ?y = "u\<lparr>vcalls := Ioctl_DQEVENT (sub_dev_fd u) # vcalls u\<rparr>"
    have iy: "video_inv env ?y" using f by (simp add: video_inv_def states_ok_def)
    have lt: "N - go_reads env (vcalls y) < N - go_reads env (vcalls v)" if "go_reads env (vcalls y) = go_reads env (vcalls ?x)" for y
      using that go assms(1) [rule_format, of "vcalls ?x"] by simp
    consider "\<not> b" | "b" "nret env (Ioctl_DQEVENT (sub_dev_fd u) # vcalls u) \<noteq> 0"
      | "b" "nret env (Ioctl_DQEVENT (sub_dev_fd u) # vcalls u) = 0" by blast
    then show ?thesis
    proof cases
      case 1
      then have "detect_loop env v = detect_loop env u" using go d by (subst detect_loop.simps) (simp add: vdo_def)
      with less.hyps [OF lt, of u] f show ?thesis by simp
    next
      case 2
      then show ?thesis using go d f iy by (subst detect_loop.simps) (simp add: vdo_def vrun_def video_inv_def states_ok_def)
    next
      case 3
      then have "detect_loop env v = detect_loop env ?y" using go d by (subst detect_loop.simps) (simp add: vdo_def)
      with less.hyps [OF lt, of ?y] f iy show ?thesis by simp
    qed
  qed
qed

text \<open>C26: The format thread. If \<^verbatim>\<open>should_exit\<close> is found clear only finitely often, the thread ends whatever the
  driver answers to its queries, it keeps the invariant on threads and reports, and the last thing it does is to
  close the sub-device.\<close>

theorem run_detect_format_ends:
  assumes "\<forall>h. go_reads env h \<le> N" "video_inv env v"
  shows "\<exists>w. run_detect_format env v = Some w \<and> video_inv env w \<and> (\<exists>h. vcalls w = Close (sub_dev_fd v) # h)"
proof -
  let ?v = "v\<lparr>vcalls := Ioctl_SUBSCRIBE (sub_dev_fd v) # vcalls v\<rparr>"
  have "video_inv env ?v" using assms(2) by (simp add: video_inv_def states_ok_def)
  from detect_loop_ok [OF assms(1) this] this show ?thesis
    by (auto simp: run_detect_format_def vdo_def vrun_def video_inv_def states_ok_def)
qed

lemma easy_env_exits: "go_reads easy_env h \<le> 0"
proof -
  have "go_reads easy_env h = 0"
    by (induction easy_env h rule: go_reads.induct) (simp_all add: easy_env_def)
  then show ?thesis by simp
qed

theorem run_detect_format_ends_witness:
  "\<exists>w. run_detect_format easy_env video_globals = Some w \<and> (\<exists>h. vcalls w = Close (-1) # h)"
  using run_detect_format_ends [of easy_env 0 video_globals] easy_env_exits start_state_inv
  by (auto simp: video_globals_def)

end
