(* ===== verification/Video_Controllers.thy ===== *)
theory Video_Controllers
  imports Video_Control_Spec
begin

text \<open>
  Two threads control the streaming thread: the calls from Go, which hold \<^verbatim>\<open>cgoLock\<close> of \<^verbatim>\<open>cgo_linux.go\<close>, and the thread
  that follows the source format, which calls \<^verbatim>\<open>video_restart_streaming\<close> and holds no lock. Both read and write the
  pointer \<^verbatim>\<open>streaming_thread\<close>. The steps are the accesses to it and to the flag in \<^verbatim>\<open>video_start_streaming\<close> and
  \<^verbatim>\<open>video_stop_streaming\<close>; waiting for the thread does not change the state, since its result is ignored.
\<close>

section \<open>States and steps\<close>

datatype controller = From_go | From_format

text \<open>Quantifying over the controllers is executable.\<close>

instantiation controller :: enum
begin

definition enum_controller :: "controller list" where
  "enum_controller = [From_go, From_format]"

definition enum_all_controller :: "(controller \<Rightarrow> bool) \<Rightarrow> bool" where
  "enum_all_controller P \<longleftrightarrow> P From_go \<and> P From_format"

definition enum_ex_controller :: "(controller \<Rightarrow> bool) \<Rightarrow> bool" where
  "enum_ex_controller P \<longleftrightarrow> P From_go \<or> P From_format"

instance
proof
  have all: "(\<forall>x. Q x) \<longleftrightarrow> Q From_go \<and> Q From_format" for Q :: "controller \<Rightarrow> bool" by (metis (full_types) controller.exhaust)
  show "(UNIV :: controller set) = set enum_class.enum" using all [of "\<lambda>x. x \<in> set enum_class.enum"] by (auto simp: enum_controller_def)
  show "distinct (enum_class.enum :: controller list)" by (simp add: enum_controller_def)
  show "enum_class.enum_all P \<longleftrightarrow> Ball UNIV P" for P :: "controller \<Rightarrow> bool" by (simp add: enum_all_controller_def all)
  show "enum_class.enum_ex P \<longleftrightarrow> Bex UNIV P" for P :: "controller \<Rightarrow> bool" using all [of "\<lambda>x. \<not> P x"] by (auto simp: enum_ex_controller_def)
qed

end

text \<open>
  Where a controller is: after the test of the pointer in \<^verbatim>\<open>video_stop_streaming\<close>, after clearing the flag, inside and after
  \<^verbatim>\<open>pthread_join\<close> of a thread, after \<^verbatim>\<open>free\<close>; after the test and the allocation in \<^verbatim>\<open>video_start_streaming\<close>, after setting
  the flag, after creating a thread.
\<close>

datatype place = Outside | Stop_tested | Flag_cleared | In_join nat | After_join | After_free | Start_tested | Flag_raised | Made nat

text \<open>
  Threads are numbered, and the block \<^verbatim>\<open>malloc\<close> returned for a thread has its number. \<open>broken\<close> records undefined
  behaviour: following a null or freed pointer, joining a thread twice, freeing a block twice.
\<close>

record controlled =
  handle :: "nat option"
  wanted :: bool
  made :: nat
  alive :: "nat set"
  ended :: "nat set"
  joining :: "nat set"
  freed :: "nat set"
  place_of :: "controller \<Rightarrow> place"
  broken :: bool

definition controlled_start :: controlled where
  "controlled_start = \<lparr>handle = None, wanted = False, made = 0, alive = {}, ended = {}, joining = {}, freed = {},
     place_of = (\<lambda>_. Outside), broken = False\<rparr>"

definition goto :: "controller \<Rightarrow> place \<Rightarrow> controlled \<Rightarrow> controlled" where
  "goto w p s = s\<lparr>place_of := (place_of s)(w := p)\<rparr>"

definition may_enter :: "bool \<Rightarrow> controller \<Rightarrow> controlled \<Rightarrow> bool" where
  "may_enter serial w s \<longleftrightarrow> place_of s w = Outside \<and> (serial \<longrightarrow> (\<forall>x. place_of s x = Outside))"

text \<open>\<^verbatim>\<open>pthread_join(*streaming_thread, NULL)\<close> and \<^verbatim>\<open>free(streaming_thread)\<close> read the pointer again.\<close>

definition enter_join :: "controller \<Rightarrow> controlled \<Rightarrow> controlled" where
  "enter_join w s = (case handle s of
       None \<Rightarrow> s\<lparr>broken := True\<rparr>
     | Some t \<Rightarrow> if t \<in> freed s \<or> t \<in> joining s \<or> t \<notin> alive s then s\<lparr>broken := True\<rparr>
                else goto w (In_join t) (s\<lparr>joining := insert t (joining s)\<rparr>))"

definition free_handle :: "controller \<Rightarrow> controlled \<Rightarrow> controlled" where
  "free_handle w s = (case handle s of
       None \<Rightarrow> goto w After_free s
     | Some t \<Rightarrow> if t \<in> freed s then s\<lparr>broken := True\<rparr> else goto w After_free (s\<lparr>freed := insert t (freed s)\<rparr>))"

text \<open>With \<open>serial\<close>, a controller enters only while no other is inside. The streaming thread ends once the flag is cleared.\<close>

inductive controller_step :: "bool \<Rightarrow> controlled \<Rightarrow> controlled \<Rightarrow> bool" for serial where
  stop_test: "may_enter serial w s \<Longrightarrow> handle s \<noteq> None \<Longrightarrow> controller_step serial s (goto w Stop_tested s)"
| clear_flag: "place_of s w = Stop_tested \<Longrightarrow> controller_step serial s (goto w Flag_cleared (s\<lparr>wanted := False\<rparr>))"
| join_thread: "place_of s w = Flag_cleared \<Longrightarrow> controller_step serial s (enter_join w s)"
| join_returns: "place_of s w = In_join t \<Longrightarrow> t \<in> ended s \<Longrightarrow>
    controller_step serial s (goto w After_join (s\<lparr>alive := alive s - {t}\<rparr>))"
| free_block: "place_of s w = After_join \<Longrightarrow> controller_step serial s (free_handle w s)"
| clear_handle: "place_of s w = After_free \<Longrightarrow> controller_step serial s (goto w Outside (s\<lparr>handle := None\<rparr>))"
| start_test: "may_enter serial w s \<Longrightarrow> handle s = None \<Longrightarrow> controller_step serial s (goto w Start_tested s)"
| raise_flag: "place_of s w = Start_tested \<Longrightarrow> controller_step serial s (goto w Flag_raised (s\<lparr>wanted := True\<rparr>))"
| create_thread: "place_of s w = Flag_raised \<Longrightarrow>
    controller_step serial s (goto w (Made (made s)) (s\<lparr>made := Suc (made s), alive := insert (made s) (alive s)\<rparr>))"
| create_fails: "place_of s w = Flag_raised \<Longrightarrow> controller_step serial s (goto w Outside (s\<lparr>wanted := False\<rparr>))"
| store_handle: "place_of s w = Made t \<Longrightarrow> controller_step serial s (goto w Outside (s\<lparr>handle := Some t\<rparr>))"
| thread_ends: "t \<in> alive s \<Longrightarrow> \<not> wanted s \<Longrightarrow> controller_step serial s (s\<lparr>ended := insert t (ended s)\<rparr>)"

section \<open>One controller at a time\<close>

definition others_outside :: "controller \<Rightarrow> controlled \<Rightarrow> bool" where
  "others_outside w s \<longleftrightarrow> (\<forall>x. x \<noteq> w \<longrightarrow> place_of s x = Outside)"

text \<open>What holds of the pointer, the flag and the threads where a controller is.\<close>

fun place_ok :: "place \<Rightarrow> controlled \<Rightarrow> bool" where
  "place_ok Outside s =
     (alive s = set_option (handle s) \<and> alive s \<inter> (joining s \<union> freed s) = {} \<and> wanted s = (handle s \<noteq> None))"
| "place_ok Stop_tested s = (wanted s \<and> (\<exists>t. handle s = Some t \<and> alive s = {t} \<and> t \<notin> joining s \<union> freed s))"
| "place_ok Flag_cleared s = (\<not> wanted s \<and> (\<exists>t. handle s = Some t \<and> alive s = {t} \<and> t \<notin> joining s \<union> freed s))"
| "place_ok (In_join t) s = (\<not> wanted s \<and> handle s = Some t \<and> alive s = {t} \<and> t \<notin> freed s)"
| "place_ok After_join s = (\<not> wanted s \<and> alive s = {} \<and> (\<exists>t. handle s = Some t \<and> t \<notin> freed s))"
| "place_ok After_free s = (\<not> wanted s \<and> alive s = {})"
| "place_ok Start_tested s = (\<not> wanted s \<and> handle s = None \<and> alive s = {})"
| "place_ok Flag_raised s = (wanted s \<and> handle s = None \<and> alive s = {})"
| "place_ok (Made t) s = (wanted s \<and> handle s = None \<and> alive s = {t} \<and> t \<notin> joining s \<union> freed s)"

definition serial_inv :: "controlled \<Rightarrow> bool" where
  "serial_inv s \<longleftrightarrow> \<not> broken s \<and> (\<exists>w. others_outside w s \<and> place_ok (place_of s w) s) \<and>
     (\<forall>t\<in>set_option (handle s) \<union> alive s \<union> joining s \<union> freed s. t < made s)"

lemma serial_at:
  assumes "serial_inv s" "place_of s w \<noteq> Outside \<or> may_enter True w s"
  shows "others_outside w s" "place_ok (place_of s w) s"
proof -
  obtain x where x: "others_outside x s" "place_ok (place_of s x) s" using assms(1) by (auto simp: serial_inv_def)
  then have "x = w \<or> (\<forall>y. place_of s y = Outside)" using assms(2) by (auto simp: others_outside_def may_enter_def)
  then show "others_outside w s" "place_ok (place_of s w) s" using x by (auto simp: others_outside_def)
qed

lemma place_ok_goto [simp]: "place_ok p (goto w q s) = place_ok p s"
  by (cases p) (simp_all add: goto_def)

lemma others_goto [simp]: "others_outside w (goto w p s) = others_outside w s"
  by (simp add: others_outside_def goto_def)

lemma goto_fields [simp]:
  "handle (goto w p s) = handle s" "wanted (goto w p s) = wanted s" "made (goto w p s) = made s" "alive (goto w p s) = alive s"
  "ended (goto w p s) = ended s" "joining (goto w p s) = joining s" "freed (goto w p s) = freed s" "broken (goto w p s) = broken s"
  "place_of (goto w p s) x = (if x = w then p else place_of s x)"
  by (simp_all add: goto_def)

lemma serial_move:
  assumes "\<not> broken s" "others_outside w s" "place_ok p s"
    "\<forall>t\<in>set_option (handle s) \<union> alive s \<union> joining s \<union> freed s. t < made s"
  shows "serial_inv (goto w p s)"
  unfolding serial_inv_def by (intro conjI exI [of _ w]) (use assms in auto)

lemma serial_bounds: "serial_inv s \<Longrightarrow> \<not> broken s \<and> (\<forall>t\<in>set_option (handle s) \<union> alive s \<union> joining s \<union> freed s. t < made s)"
  by (simp add: serial_inv_def)

lemma others_upds [simp]:
  "others_outside w (s\<lparr>wanted := b\<rparr>) = others_outside w s" "others_outside w (s\<lparr>alive := a\<rparr>) = others_outside w s"
  "others_outside w (s\<lparr>made := n\<rparr>) = others_outside w s" "others_outside w (s\<lparr>handle := h\<rparr>) = others_outside w s"
  "others_outside w (s\<lparr>joining := a\<rparr>) = others_outside w s" "others_outside w (s\<lparr>freed := a\<rparr>) = others_outside w s"
  by (simp_all add: others_outside_def)

lemma serial_inv_step:
  assumes "serial_inv s" "controller_step True s t"
  shows "serial_inv t"
proof -
  note a = serial_at [OF assms(1)] and b = serial_bounds [OF assms(1)]
  from assms(2) show ?thesis
  proof cases
    case (stop_test w)
    then show ?thesis using a [of w] b by (auto simp: may_enter_def intro!: serial_move)
  next
    case (join_thread w)
    then show ?thesis using a [of w] b by (auto simp: enter_join_def intro!: serial_move)
  next
    case (free_block w)
    then show ?thesis using a [of w] b by (auto simp: free_handle_def intro!: serial_move)
  next
    case (start_test w)
    then show ?thesis using a [of w] b by (auto simp: may_enter_def intro!: serial_move)
  next
    case (create_thread w)
    then have "made s \<notin> joining s \<union> freed s" using b by auto
    then show ?thesis unfolding create_thread(1) using a [of w] b create_thread(2) by (intro serial_move) (auto simp: less_Suc_eq)
  next
    case (store_handle w n)
    then show ?thesis using a [of w] b by (auto intro!: serial_move)
  next
    case (thread_ends n)
    have "place_ok p t = place_ok p s" "others_outside w t = others_outside w s" for p w
      unfolding thread_ends(1) by (cases p) (simp_all add: others_outside_def)
    then show ?thesis using assms(1) by (simp add: serial_inv_def thread_ends(1))
  next
    case (clear_flag w)
    then show ?thesis using a [of w] b by (auto intro!: serial_move)
  next
    case (join_returns w n)
    then show ?thesis using a [of w] b by (auto intro!: serial_move)
  next
    case (clear_handle w)
    then show ?thesis using a [of w] b by (auto intro!: serial_move)
  next
    case (raise_flag w)
    then show ?thesis using a [of w] b by (auto intro!: serial_move)
  next
    case (create_fails w)
    then show ?thesis using a [of w] b by (auto intro!: serial_move)
  qed
qed

interpretation serial_control: invariant_system "\<lambda>s. s = controlled_start" "controller_step True" serial_inv
proof
  show "s = controlled_start \<Longrightarrow> serial_inv s" for s by (auto simp: serial_inv_def controlled_start_def others_outside_def)
qed (rule serial_inv_step)

section \<open>The operations of one controller\<close>

text \<open>With both controllers outside, the pointer and the flag are those of the control state.\<close>

definition settled :: "controlled \<Rightarrow> bool" where
  "settled s \<longleftrightarrow> serial_inv s \<and> (\<forall>w. place_of s w = Outside)"

definition shows_control :: "controlled \<Rightarrow> video \<Rightarrow> bool" where
  "shows_control s v \<longleftrightarrow> settled s \<and> (handle s \<noteq> None) = streaming_thread v \<and> wanted s = streaming_flag v"

lemma settled_handle:
  assumes "settled s"
  shows "alive s = set_option (handle s)" "alive s \<inter> (joining s \<union> freed s) = {}" "wanted s = (handle s \<noteq> None)"
  using assms by (auto simp: settled_def serial_inv_def)

text \<open>A stop takes the pointer away, a start gives a new one or fails with the flag cleared.\<close>

lemma stop_path:
  assumes "settled s" "handle s = Some t"
  shows "\<exists>s'. (controller_step True)\<^sup>*\<^sup>* s s' \<and> settled s' \<and> handle s' = None \<and> \<not> wanted s'"
proof -
  note h = settled_handle [OF assms(1)]
  have o: "place_of s x = Outside" for x using assms(1) by (simp add: settled_def)
  let ?w = From_go
  let ?b = "goto ?w Flag_cleared ((goto ?w Stop_tested s)\<lparr>wanted := False\<rparr>)"
  let ?c = "goto ?w (In_join t) (?b\<lparr>joining := insert t (joining s)\<rparr>)"
  let ?d = "?c\<lparr>ended := insert t (ended s)\<rparr>"
  let ?e = "goto ?w After_join (?d\<lparr>alive := alive s - {t}\<rparr>)"
  let ?f = "goto ?w After_free (?e\<lparr>freed := insert t (freed s)\<rparr>)"
  let ?g = "goto ?w Outside (?f\<lparr>handle := None\<rparr>)"
  have "controller_step True s (goto ?w Stop_tested s)" using assms(2) by (intro stop_test) (auto simp: may_enter_def o)
  moreover have "controller_step True (goto ?w Stop_tested s) ?b" by (rule clear_flag) simp
  moreover have "controller_step True ?b (enter_join ?w ?b)" by (rule join_thread) simp
  moreover have "enter_join ?w ?b = ?c" using assms(2) h by (auto simp: enter_join_def)
  moreover have "controller_step True ?c ?d" using thread_ends [of t ?c True] assms(2) h by simp
  moreover have "controller_step True ?d ?e" using join_returns [of ?d ?w t True] by simp
  moreover have "controller_step True ?e (free_handle ?w ?e)" by (rule free_block) simp
  moreover have "free_handle ?w ?e = ?f" using assms(2) h by (auto simp: free_handle_def)
  moreover have "controller_step True ?f ?g" by (rule clear_handle) simp
  ultimately have r: "(controller_step True)\<^sup>*\<^sup>* s ?g" by (metis (no_types, lifting) rtranclp.rtrancl_into_rtrancl rtranclp.rtrancl_refl)
  from serial_control.inv_steps [OF _ r] assms(1) have "settled ?g" by (simp add: settled_def o)
  with r show ?thesis by (intro exI [of _ ?g]) simp
qed

lemma start_path:
  assumes "settled s" "handle s = None"
  shows "\<exists>s'. (controller_step True)\<^sup>*\<^sup>* s s' \<and> settled s' \<and> handle s' \<noteq> None \<and> wanted s'"
    "\<exists>s'. (controller_step True)\<^sup>*\<^sup>* s s' \<and> settled s' \<and> handle s' = None \<and> \<not> wanted s'"
proof -
  have o: "place_of s x = Outside" for x using assms(1) by (simp add: settled_def)
  let ?w = From_go
  let ?b = "goto ?w Flag_raised ((goto ?w Start_tested s)\<lparr>wanted := True\<rparr>)"
  let ?c = "goto ?w (Made (made s)) (?b\<lparr>made := Suc (made s), alive := insert (made s) (alive s)\<rparr>)"
  let ?d = "goto ?w Outside (?c\<lparr>handle := Some (made s)\<rparr>)"
  let ?e = "goto ?w Outside (?b\<lparr>wanted := False\<rparr>)"
  have "controller_step True s (goto ?w Start_tested s)" using assms(2) by (intro start_test) (auto simp: may_enter_def o)
  moreover have "controller_step True (goto ?w Start_tested s) ?b" by (rule raise_flag) simp
  moreover have "controller_step True ?b ?c" using create_thread [of ?b ?w True] by simp
  moreover have "controller_step True ?c ?d" by (rule store_handle) simp
  moreover have "controller_step True ?b ?e" by (rule create_fails) simp
  ultimately have r: "(controller_step True)\<^sup>*\<^sup>* s ?d" "(controller_step True)\<^sup>*\<^sup>* s ?e"
    by (metis (no_types, lifting) rtranclp.rtrancl_into_rtrancl rtranclp.rtrancl_refl)+
  from serial_control.inv_steps [OF _ r(1)] serial_control.inv_steps [OF _ r(2)] assms(1) have "settled ?d" "settled ?e"
    by (simp_all add: settled_def o)
  with r assms(2) show "\<exists>s'. (controller_step True)\<^sup>*\<^sup>* s s' \<and> settled s' \<and> handle s' \<noteq> None \<and> wanted s'"
    "\<exists>s'. (controller_step True)\<^sup>*\<^sup>* s s' \<and> settled s' \<and> handle s' = None \<and> \<not> wanted s'"
    by (intro exI [of _ ?d], simp, intro exI [of _ ?e], simp)
qed

lemma stop_shown:
  assumes "shows_control s v"
  shows "\<exists>s'. (controller_step True)\<^sup>*\<^sup>* s s' \<and> shows_control s' (video_stop_streaming env v)"
proof (cases "handle s")
  case None
  with assms show ?thesis by (auto simp: shows_control_def video_stop_streaming_def)
next
  case (Some t)
  obtain b w where w: "wait_for_streaming_stopped env (set_streaming_flag env False v) = (b, w)" by fastforce
  have "\<not> streaming_flag w"
    using quiet_wait [OF w [unfolded wait_for_streaming_stopped_def]] set_flag_frame [OF refl, of env False v] by (auto simp: quiet_def)
  moreover have "settled s" "streaming_thread v" using assms Some by (auto simp: shows_control_def)
  ultimately show ?thesis using stop_path [OF _ Some]
    by (auto simp: shows_control_def video_stop_streaming_def w vrun_def)
qed

lemma start_shown:
  assumes "shows_control s v"
  shows "\<exists>s'. (controller_step True)\<^sup>*\<^sup>* s s' \<and> shows_control s' (video_start_streaming env v)"
proof (cases "handle s")
  case None
  have s: "settled s" "\<not> streaming_thread v" "\<not> streaming_flag v" "\<not> wanted s"
    using assms None settled_handle(3) [of s] by (auto simp: shows_control_def)
  have f: "streaming_thread (set_streaming_flag env x u) = streaming_thread u" "streaming_flag (set_streaming_flag env x u) = x" for x u
    using set_flag_frame [OF refl, of env x u] by (simp_all add: quiet_def)
  have "streaming_thread (video_start_streaming env v) = streaming_flag (video_start_streaming env v)"
    using s by (auto simp: video_start_streaming_def f vdo_def split: prod.split if_split)
  then show ?thesis using start_path [OF s(1) None]
    by (cases "streaming_thread (video_start_streaming env v)") (auto simp: shows_control_def)
next
  case (Some t)
  then have "streaming_thread v" using assms by (simp add: shows_control_def)
  then show ?thesis using assms
    by (auto simp: shows_control_def video_start_streaming_def get_streaming_stopped_def vdo_def)
qed

lemma shows_control_quiet: "shows_control s v \<Longrightarrow> quiet env v w \<Longrightarrow> shows_control s w"
  by (simp add: shows_control_def quiet_def)

lemma restart_shown:
  assumes "shows_control s v"
  shows "\<exists>s'. (controller_step True)\<^sup>*\<^sup>* s s' \<and> shows_control s' (video_restart_streaming env v)"
proof -
  obtain st u where u: "video_get_streaming_status env v = (st, u)" by fastforce
  have su: "shows_control s u" "st \<in> {0, 1, 2}" using shows_control_quiet [OF assms] quiet_status [OF u] by auto
  obtain s' where s': "(controller_step True)\<^sup>*\<^sup>* s s'" "shows_control s' (video_stop_streaming env u)"
    using stop_shown [OF su(1)] by blast
  obtain b w where w: "wait_for_streaming_stopped env (video_stop_streaming env u) = (b, w)" by fastforce
  have sw: "shows_control s' w" using shows_control_quiet [OF s'(2) quiet_wait [OF w [unfolded wait_for_streaming_stopped_def]]] .
  from start_shown [OF this, of env] obtain s'' where "(controller_step True)\<^sup>*\<^sup>* s s''" "shows_control s'' (video_start_streaming env w)"
    using s'(1) rtranclp_trans [of "controller_step True"] by blast
  with s'(1) su sw show ?thesis by (auto simp: video_restart_streaming_def u w)
qed

section \<open>Two controllers at once\<close>

definition stop_race :: "(controlled \<Rightarrow> controlled) list" where
  "stop_race = [goto From_go Start_tested, \<lambda>s. goto From_go Flag_raised (s\<lparr>wanted := True\<rparr>),
     \<lambda>s. goto From_go (Made (made s)) (s\<lparr>made := Suc (made s), alive := insert (made s) (alive s)\<rparr>),
     \<lambda>s. goto From_go Outside (s\<lparr>handle := Some 0\<rparr>),
     goto From_go Stop_tested, goto From_format Stop_tested,
     \<lambda>s. goto From_go Flag_cleared (s\<lparr>wanted := False\<rparr>), \<lambda>s. goto From_format Flag_cleared (s\<lparr>wanted := False\<rparr>),
     enter_join From_go, \<lambda>s. s\<lparr>ended := insert 0 (ended s)\<rparr>,
     \<lambda>s. goto From_go After_join (s\<lparr>alive := alive s - {0}\<rparr>), free_handle From_go,
     \<lambda>s. goto From_go Outside (s\<lparr>handle := None\<rparr>), enter_join From_format]"

definition start_race :: "(controlled \<Rightarrow> controlled) list" where
  "start_race = [goto From_go Start_tested, goto From_format Start_tested,
     \<lambda>s. goto From_go Flag_raised (s\<lparr>wanted := True\<rparr>), \<lambda>s. goto From_format Flag_raised (s\<lparr>wanted := True\<rparr>),
     \<lambda>s. goto From_go (Made (made s)) (s\<lparr>made := Suc (made s), alive := insert (made s) (alive s)\<rparr>),
     \<lambda>s. goto From_format (Made (made s)) (s\<lparr>made := Suc (made s), alive := insert (made s) (alive s)\<rparr>),
     \<lambda>s. goto From_go Outside (s\<lparr>handle := Some 0\<rparr>), \<lambda>s. goto From_format Outside (s\<lparr>handle := Some 1\<rparr>)]"

fun steps_of :: "(controlled \<Rightarrow> controlled) list \<Rightarrow> controlled \<Rightarrow> bool" where
  "steps_of [] s = True"
| "steps_of (f # fs) s = (controller_step False s (f s) \<and> steps_of fs (f s))"

lemma steps_of_run: "steps_of fs s \<Longrightarrow> (controller_step False)\<^sup>*\<^sup>* s (fold (\<lambda>f. f) fs s)"
  by (induction fs arbitrary: s) (auto intro: converse_rtranclp_into_rtranclp)

text \<open>The steps as rules for a state given in full.\<close>

lemma race_steps:
  "place_of s w = Outside \<Longrightarrow> handle s \<noteq> None \<Longrightarrow> controller_step False s (goto w Stop_tested s)"
  "place_of s w = Outside \<Longrightarrow> handle s = None \<Longrightarrow> controller_step False s (goto w Start_tested s)"
  by (auto intro!: stop_test start_test simp: may_enter_def)

lemma stop_race_steps: "steps_of stop_race controlled_start"
  unfolding stop_race_def steps_of.simps
  by (intro conjI TrueI race_steps raise_flag create_thread store_handle clear_flag join_thread thread_ends join_returns free_block clear_handle)
    (simp_all add: controlled_start_def enter_join_def free_handle_def goto_def)

lemma start_race_steps: "steps_of start_race controlled_start"
  unfolding start_race_def steps_of.simps
  by (intro conjI TrueI race_steps raise_flag create_thread store_handle) (simp_all add: controlled_start_def goto_def)

section \<open>Stated properties\<close>

text \<open>C5: One controller at a time is safe: when no call enters while another is inside, no interleaving with the streaming thread follows
  a null or freed pointer, joins a thread twice or frees its block twice, at most one streaming thread exists, and between
  the calls the pointer is the one of that thread and agrees with the flag.\<close>

theorem serialised_control_safe:
  assumes "(controller_step True)\<^sup>*\<^sup>* controlled_start s"
  shows "\<not> broken s \<and> (\<forall>a\<in>alive s. \<forall>b\<in>alive s. a = b) \<and>
    ((\<forall>w. place_of s w = Outside) \<longrightarrow> alive s = set_option (handle s) \<and> wanted s = (handle s \<noteq> None))"
proof -
  have i: "serial_inv s" using serial_control.inv_steps [OF serial_control.inv_start assms] by simp
  then obtain w where w: "place_ok (place_of s w) s" by (auto simp: serial_inv_def)
  have "\<forall>a\<in>alive s. \<forall>b\<in>alive s. a = b" using w by (cases "place_of s w") auto
  moreover have "(\<forall>w. place_of s w = Outside) \<longrightarrow> alive s = set_option (handle s) \<and> wanted s = (handle s \<noteq> None)"
    using settled_handle [of s] i by (auto simp: settled_def)
  ultimately show ?thesis using i by (simp add: serial_inv_def)
qed

theorem serialised_control_safe_witness:
  "\<exists>s. (controller_step True)\<^sup>*\<^sup>* controlled_start s \<and> handle s \<noteq> None \<and> \<not> broken s"
proof -
  have "settled controlled_start" using serial_control.inv_start by (auto simp: settled_def) (simp add: controlled_start_def)
  from start_path(1) [OF this] obtain s where s: "(controller_step True)\<^sup>*\<^sup>* controlled_start s" "handle s \<noteq> None"
    by (auto simp: controlled_start_def)
  with serialised_control_safe [OF s(1)] show ?thesis by blast
qed




end
