(* ===== verification/Venc_Props.thy ===== *)
theory Venc_Props
  imports Venc
begin

text \<open>
  The stated properties of the encoder part: ranges and monotonicity of the bit rate, the channel
  attributes, and the discipline of the reader thread.
\<close>

section \<open>Bit rate\<close>

lemma to_int32_ok: "0 \<le> x \<Longrightarrow> x < 2 ^ 31 \<Longrightarrow> to_int32 x = Some \<lfloor>x\<rfloor>"
  by (simp add: to_int32_def trunc_rat_def Let_def floor_less_iff)

text \<open>The stages of the computation for a non-negative factor.\<close>

definition scale_of :: "int \<Rightarrow> int \<Rightarrow> rat" where
  "scale_of w h = round_to 53 (round_to 53 (of_int w * of_int h) / (1920 * 1080))"

definition base_of :: "rat \<Rightarrow> int" where
  "base_of f = 512 + \<lfloor>round_to 24 (3488 * f)\<rfloor>"

definition rate_of :: "rat \<Rightarrow> int \<Rightarrow> int \<Rightarrow> int" where
  "rate_of f w h = \<lfloor>round_to 53 (of_int (base_of f) * scale_of w h)\<rfloor>"

lemma scale_range:
  assumes "0 \<le> w" "w \<le> 4096" "0 \<le> h" "h \<le> 4096"
  shows "0 \<le> scale_of w h \<and> scale_of w h \<le> 9"
proof -
  have "w * h \<le> 4096 * 4096" using assms by (intro mult_mono) auto
  then have wh: "(0 :: rat) \<le> of_int w * of_int h" "(of_int w * of_int h :: rat) \<le> of_nat (4096 * 4096)"
    using assms by (simp_all flip: of_int_mult)
  have "0 \<le> round_to 53 (of_int w * of_int h)" "round_to 53 (of_int w * of_int h) \<le> of_nat (4096 * 4096)"
    using double.rnd_nonneg [OF wh(1)] double.rnd_upper [OF wh] by simp_all
  then have "0 \<le> round_to 53 (of_int w * of_int h) / (1920 * 1080)"
    "round_to 53 (of_int w * of_int h) / (1920 * 1080) \<le> of_nat 9" by simp_all
  then show ?thesis unfolding scale_of_def using double.rnd_nonneg double.rnd_upper [of _ 9] by simp
qed

lemma scale_mono:
  assumes "0 \<le> w" "w \<le> w'" "0 \<le> h" "h \<le> h'"
  shows "scale_of w h \<le> scale_of w' h'"
proof -
  have "w * h \<le> w' * h'" using assms by (intro mult_mono) auto
  then have wh: "(0 :: rat) \<le> of_int w * of_int h" "(of_int w * of_int h :: rat) \<le> of_int w' * of_int h'"
    using assms by (simp_all flip: of_int_mult)
  then have "round_to 53 (of_int w * of_int h) / (1920 * 1080) \<le> round_to 53 (of_int w' * of_int h') / (1920 * 1080)"
    using double.rnd_mono [OF wh] by (simp add: divide_right_mono)
  moreover have "0 \<le> round_to 53 (of_int w * of_int h) / (1920 * 1080)" using double.rnd_nonneg [OF wh(1)] by simp
  ultimately show ?thesis unfolding scale_of_def by (rule double.rnd_mono [rotated])
qed

lemma base_range:
  assumes "0 \<le> f" "f \<le> 1000"
  shows "0 \<le> round_to 24 (3488 * f) \<and> round_to 24 (3488 * f) \<le> 3488000"
  using single.rnd_nonneg [of "3488 * f"] single.rnd_upper [of "3488 * f" 3488000] assms by simp

lemma base_mono: "0 \<le> f \<Longrightarrow> f \<le> g \<Longrightarrow> base_of f \<le> base_of g"
  unfolding base_of_def by (simp add: floor_mono single.rnd_mono)

lemma rate_range:
  assumes "0 \<le> f" "f \<le> 1000" "0 \<le> w" "w \<le> 4096" "0 \<le> h" "h \<le> 4096"
  shows "0 \<le> round_to 53 (of_int (base_of f) * scale_of w h)"
    and "round_to 53 (of_int (base_of f) * scale_of w h) \<le> 31396608"
    and "512 \<le> base_of f" "base_of f \<le> 3488512"
proof -
  have "0 \<le> \<lfloor>round_to 24 (3488 * f)\<rfloor>" "\<lfloor>round_to 24 (3488 * f)\<rfloor> \<le> 3488000"
    using base_range [OF assms(1,2)] by (simp_all add: floor_le_iff)
  then show b: "512 \<le> base_of f" "base_of f \<le> 3488512" by (simp_all add: base_of_def)
  have s: "0 \<le> scale_of w h" "scale_of w h \<le> 9" using scale_range [OF assms(3-6)] by simp_all
  have lo: "0 \<le> of_int (base_of f) * scale_of w h" using b s by simp
  have "of_int (base_of f) * scale_of w h \<le> 3488512 * 9"
    by (rule mult_mono) (use b s in \<open>simp_all add: of_int_le_numeral_iff\<close>)
  then show "0 \<le> round_to 53 (of_int (base_of f) * scale_of w h)"
    "round_to 53 (of_int (base_of f) * scale_of w h) \<le> 31396608"
    using double.rnd_nonneg [OF lo] double.rnd_upper [OF lo, of 31396608] by simp_all
qed

lemma calculate_bitrate_rate:
  assumes "0 \<le> f" "f \<le> 1000" "0 \<le> w" "w \<le> 4096" "0 \<le> h" "h \<le> 4096"
  shows "calculate_bitrate (Finite f) w h = Some (max 200 (rate_of f w h))"
proof -
  note r = rate_range [OF assms]
  have d: "to_int32 (round_to 24 (3488 * f)) = Some \<lfloor>round_to 24 (3488 * f)\<rfloor>"
    using base_range [OF assms(1,2)] by (intro to_int32_ok) auto
  have b: "to_int32 (of_int (base_of f)) = Some (base_of f)"
    using r(3,4) to_int32_ok [of "of_int (base_of f)"] by (simp add: of_int_less_numeral_iff)
  have e: "to_int32 (round_to 53 (of_int (base_of f) * scale_of w h)) = Some (rate_of f w h)"
    unfolding rate_of_def using r(1,2) by (intro to_int32_ok) auto
  show ?thesis
    using d b e by (simp add: calculate_bitrate_def Let_def base_of_def scale_of_def max_def)
qed

section \<open>Stated properties\<close>

text \<open>C35: The bit rate. For a quality factor from 0 to 1000 and pictures up to 4096 by 4096 every conversion
  of the computation is in range, the result is at least 200 kbit/s and so small that three halves of
  it, the maximum bit rate passed to the encoder, do not overflow either; and a larger factor, width
  or height never gives a smaller bit rate, in spite of the single and double precision rounding.\<close>

theorem calculate_bitrate_ok:
  assumes "0 \<le> f" "f \<le> f'" "f' \<le> 1000" "0 \<le> w" "w \<le> w'" "w' \<le> 4096" "0 \<le> h" "h \<le> h'" "h' \<le> 4096"
  shows "\<exists>b b'. calculate_bitrate (Finite f) w h = Some b \<and> calculate_bitrate (Finite f') w' h' = Some b' \<and>
           200 \<le> b \<and> b \<le> b' \<and> b' * 3 < 2 ^ 31"
proof -
  have lo: "f \<le> 1000" "w \<le> 4096" "h \<le> 4096" "0 \<le> f'" "0 \<le> w'" "0 \<le> h'" using assms by auto
  note r = rate_range [OF assms(1) lo(1) assms(4) lo(2) assms(7) lo(3)]
  note r' = rate_range [OF lo(4) assms(3) lo(5) assms(6) lo(6) assms(9)]
  have "of_int (base_of f) * scale_of w h \<le> of_int (base_of f') * scale_of w' h'"
    by (rule mult_mono) (use base_mono [OF assms(1,2)] scale_mono [OF assms(4,5,7,8)] r' 
        scale_range [OF assms(4) lo(2) assms(7) lo(3)] in auto)
  moreover have "0 \<le> of_int (base_of f) * scale_of w h"
    using r(3) scale_range [OF assms(4) lo(2) assms(7) lo(3)] by simp
  ultimately have "rate_of f w h \<le> rate_of f' w' h'"
    unfolding rate_of_def by (intro floor_mono double.rnd_mono)
  moreover have "rate_of f' w' h' \<le> 31396608" using r'(2) by (simp add: rate_of_def floor_le_iff)
  ultimately show ?thesis
    using calculate_bitrate_rate [OF assms(1) lo(1) assms(4) lo(2) assms(7) lo(3)]
      calculate_bitrate_rate [OF lo(4) assms(3) lo(5) assms(6) lo(6) assms(9)] by (auto simp: max_def)
qed

theorem calculate_bitrate_ok_witness:
  "\<exists>b b'. calculate_bitrate (Finite (1 / 2)) 1280 720 = Some b \<and> calculate_bitrate (Finite 1) 1920 1080 = Some b' \<and>
     200 \<le> b \<and> b \<le> b' \<and> b' * 3 < 2 ^ 31"
  using calculate_bitrate_ok [of "1 / 2" 1 1280 1920 720 1080] by simp

text \<open>A quality factor the setter admits can make the computation undefined: from a factor of
  1,000,000 on, as for a NaN, the conversion of the scaled rate to a 32-bit integer is out of range.\<close>

theorem calculate_bitrate_undefined:
  "\<not> le_zero (Finite 1000000) \<and> calculate_bitrate (Finite 1000000) w h = None \<and>
   \<not> le_zero Not_a_number \<and> calculate_bitrate Not_a_number w h = None"
proof -
  have l: "ilog2 3488000000 = 31" by (simp add: ilog2_def) code_simp
  have "round_to 24 3488000000 = 3488000000"
    by (rule round_to_integral [where m = 13625000]) (simp_all add: l power_int_def)
  then have "to_int32 (round_to 24 (3488 * 1000000)) = None"
    by (simp add: to_int32_def trunc_rat_def Let_def)
  then show ?thesis by (simp add: calculate_bitrate_def Let_def)
qed

lemma unat_RK_ALIGN_16:
  assumes "unat x + 15 < 2 ^ 32"
  shows "unat (RK_ALIGN_16 x) = 16 * ((unat x + 15) div 16)"
proof -
  have "x + 16 - 1 = x + of_nat 15" by simp
  then have "RK_ALIGN_16 x = (x + of_nat 15) AND NOT 15" by (simp add: RK_ALIGN_16_def RK_ALIGN_def add.commute)
  then show ?thesis using unat_and_not_15 [of "x + of_nat 15"] unat_add_small [OF assms] by simp
qed

text \<open>The channel attributes. For pictures up to 4096 by 4096 the virtual size is the picture size
  rounded up to the next multiple of 16, the buffer has three halves of a byte for each pixel, the
  group of pictures is never empty, the minimum bit rate is at least 2 and, for a bit rate of 2 or
  more, at most the bit rate, and the rate control mode, codec and profile fit each other.\<close>

theorem populate_venc_attr_ok:
  fixes codec_type :: int and bitrate max_bitrate width height fps :: u32
  assumes "unat width \<le> 4096" "unat height \<le> 4096"
  defines "a \<equiv> populate_venc_attr codec_type bitrate max_bitrate width height fps"
  shows "16 dvd unat (u32VirWidth a) \<and> unat width \<le> unat (u32VirWidth a) \<and> unat (u32VirWidth a) < unat width + 16 \<and>
    16 dvd unat (u32VirHeight a) \<and> unat height \<le> unat (u32VirHeight a) \<and> unat (u32VirHeight a) < unat height + 16 \<and>
    unat (u32BufSize a) = unat width * unat height * 3 div 2 \<and> 1 \<le> unat (u32Gop a) \<and>
    2 \<le> u32MinBitRate a \<and> (2 \<le> bitrate \<longrightarrow> u32MinBitRate a \<le> u32BitRate a) \<and>
    (enType a, enRcMode a, u32Profile a) \<in>
      {(RK_VIDEO_ID_AVC, VENC_RC_MODE_H264VBR, H264E_PROFILE_HIGH), (RK_VIDEO_ID_HEVC, VENC_RC_MODE_H265VBR, H265E_PROFILE_MAIN)}"
proof -
  have al: "16 dvd unat (RK_ALIGN_16 x) \<and> unat x \<le> unat (RK_ALIGN_16 x) \<and> unat (RK_ALIGN_16 x) < unat x + 16"
    if "unat x \<le> 4096" for x
    using unat_RK_ALIGN_16 [of x] that by simp linarith
  have wh: "unat width * unat height \<le> 4096 * 4096" using assms(1,2) by (rule mult_le_mono)
  then have "unat (width * height * 3) = unat width * unat height * 3" by (simp add: unat_word_ariths)
  then have buf: "unat (width * height * 3 div 2) = unat width * unat height * 3 div 2" by (simp add: unat_div)
  have mb: "bitrate div 2 \<le> bitrate" by (simp add: word_le_nat_alt unat_div)
  have gop: "1 \<le> unat (if g < 1 then 1 else g)" for g :: u32
    by (simp add: word_less_nat_alt not_less Suc_le_eq)
  show ?thesis
    using al [OF assms(1)] al [OF assms(2)] buf mb gop
    by (simp add: a_def populate_venc_attr_def Let_def not_less)
qed

theorem populate_venc_attr_ok_witness:
  "16 dvd unat (u32VirWidth (populate_venc_attr 1 4000 6000 1366 768 60)) \<and>
   1 \<le> unat (u32Gop (populate_venc_attr 1 4000 6000 1366 768 60))"
  using populate_venc_attr_ok [of 1366 768 1 4000 6000 60] by simp

section \<open>The reader thread\<close>

text \<open>The packets received from the encoder, the packets sent on, and the number of releases (newest first).\<close>

fun got :: "native_env \<Rightarrow> ncall list \<Rightarrow> u8 list list" where
  "got env [] = []"
| "got env (VENC_GetStream # h) =
     (if nret env (VENC_GetStream # h) = RK_SUCCESS then [nbytes env (VENC_GetStream # h)] else []) @ got env h"
| "got env (_ # h) = got env h"

fun sent :: "ncall list \<Rightarrow> u8 list list" where
  "sent [] = []"
| "sent (Video_send_frame p # h) = p # sent h"
| "sent (_ # h) = sent h"

fun released :: "ncall list \<Rightarrow> nat" where
  "released [] = 0"
| "released (VENC_ReleaseStream # h) = Suc (released h)"
| "released (_ # h) = released h"

text \<open>How often the thread found \<^verbatim>\<open>venc_running\<close> set.\<close>

fun running_reads :: "native_env \<Rightarrow> ncall list \<Rightarrow> nat" where
  "running_reads env [] = 0"
| "running_reads env (Shared_read Venc_running # h) =
     (if nret env (Shared_read Venc_running # h) = 0 then 0 else 1) + running_reads env h"
| "running_reads env (_ # h) = running_reads env h"

lemma venc_read_stream_ok:
  assumes "\<forall>h. running_reads env h \<le> N"
  shows "\<exists>h' ps. venc_read_stream env h = Some h' \<and> sent h' = ps @ sent h \<and> got env h' = ps @ got env h \<and>
           released h' = length ps + released h"
proof (induction "N - running_reads env h" arbitrary: h rule: less_induct)
  case less
  let ?r = "Shared_read Venc_running # h"
  let ?g = "VENC_GetStream # ?r"
  show ?case
  proof (cases "nret env ?r = 0")
    case True
    then have "venc_read_stream env h = Some ?r" by (subst venc_read_stream.simps) (simp add: ndo_def)
    then show ?thesis by simp
  next
    case run: False
    then have dec: "N - running_reads env x < N - running_reads env h" if "running_reads env x = running_reads env ?r" for x
      using that assms [rule_format, of ?r] by simp
    consider "nret env ?g = RK_SUCCESS" | "nret env ?g \<noteq> RK_SUCCESS" "nret env ?g = RK_ERR_VENC_BUF_EMPTY env"
      | "nret env ?g \<noteq> RK_SUCCESS" "nret env ?g \<noteq> RK_ERR_VENC_BUF_EMPTY env" by blast
    then show ?thesis
    proof cases
      case 1
      let ?n = "VENC_ReleaseStream # Video_send_frame (nbytes env ?g) # MB_Handle2VirAddr # Clock_gettime # ?g"
      have "venc_read_stream env h = venc_read_stream env ?n"
        using run 1 by (subst venc_read_stream.simps) (simp add: ndo_def Let_def)
      with less [OF dec, of ?n] 1 show ?thesis by auto
    next
      case 2
      then have "venc_read_stream env h = venc_read_stream env ?g"
        using run by (subst venc_read_stream.simps) (simp add: ndo_def Let_def)
      with less [OF dec, of ?g] 2 show ?thesis by auto
    next
      case 3
      then have "venc_read_stream env h = Some ?g"
        using run by (subst venc_read_stream.simps) (simp add: ndo_def Let_def)
      with 3 show ?thesis by simp
    qed
  qed
qed

text \<open>The reader thread. If \<^verbatim>\<open>venc_running\<close> is found set only finitely often, the thread ends, and by
  then it has sent on exactly the packets the encoder delivered, each once and in their order, and
  released every one of them.\<close>

theorem venc_reader_forwards:
  assumes "\<forall>h. running_reads env h \<le> N"
  shows "\<exists>h' ps. venc_read_stream env h = Some h' \<and> sent h' = ps @ sent h \<and> got env h' = ps @ got env h \<and>
           released h' = length ps + released h"
  using assms by (rule venc_read_stream_ok)

definition stop_env :: native_env where
  "stop_env = \<lparr>nret = (\<lambda>h. if length h < 10 then 1 else 0), nbytes = (\<lambda>_. [1]), ntext = (\<lambda>_. []),
     nfloat = (\<lambda>_. Finite 1), nval = (\<lambda>_ _. 0), RK_ERR_VENC_BUF_EMPTY = 1\<rparr>"

lemma running_reads_length: "running_reads stop_env h \<le> length h \<and> (10 \<le> length h \<longrightarrow> running_reads stop_env h \<le> 9)"
  by (induction stop_env h rule: running_reads.induct) (auto simp: stop_env_def)

lemma stop_env_stops: "running_reads stop_env h \<le> 9"
  using running_reads_length [of h] by (cases "10 \<le> length h") auto

theorem venc_reader_forwards_witness:
  "(\<forall>h. running_reads stop_env h \<le> 9) \<and> (\<exists>h'. venc_read_stream stop_env [] = Some h')"
  using venc_reader_forwards [of stop_env 9 "[]"] stop_env_stops by blast

end
