(* ===== verification/Hex_Codec.thy ===== *)
theory Hex_Codec
  imports C_Lib "HOL-Library.Monad_Syntax"
begin

text \<open>
  \<^verbatim>\<open>hex_to_bytes\<close> and \<^verbatim>\<open>bytes_to_hex\<close> of \<^verbatim>\<open>internal/native/cgo/ctrl.c\<close>. The output array is a list; a store
  outside it is the outcome \<open>None\<close>. \<^verbatim>\<open>malloc\<close> is the parameter \<open>alloc\<close>, which says whether it
  succeeds.
\<close>

section \<open>Parsing\<close>

definition store_byte :: "nat \<Rightarrow> u8 \<Rightarrow> u8 list \<Rightarrow> u8 list option" where
  "store_byte i v bytes = (if i < length bytes then Some (bytes[i := v]) else None)"

text \<open>\<^verbatim>\<open>for (size_t i = 0; i < hex_len; i += 2)\<close>; the result is the return value and the array.\<close>

function hex_loop :: "string \<Rightarrow> nat \<Rightarrow> nat \<Rightarrow> u8 list \<Rightarrow> (int \<times> u8 list) option" where
  "hex_loop hex_str hex_len i bytes =
     (if i < hex_len then
        (case strtol 16 [hex_str ! i, hex_str ! (i + 1)] of (v, end_ptr) \<Rightarrow>
           if end_ptr \<noteq> [] \<or> v < 0 \<or> v > 255 then Some (-1, bytes)
           else store_byte (i div 2) (of_int v) bytes \<bind> (\<lambda>bytes. hex_loop hex_str hex_len (i + 2) bytes))
      else Some (int (hex_len div 2), bytes))"
  by pat_completeness auto
termination by (relation "measure (\<lambda>(_, n, i, _). n - i)") auto

declare hex_loop.simps [simp del]

definition hex_to_bytes :: "string \<Rightarrow> u8 list \<Rightarrow> nat \<Rightarrow> (int \<times> u8 list) option" where
  "hex_to_bytes hex_str bytes max_len =
     (let hex_len = strnlen hex_str 4096 in
      if hex_len mod 2 \<noteq> 0 \<or> hex_len div 2 > max_len then Some (-1, bytes)
      else hex_loop hex_str hex_len 0 bytes)"

section \<open>Printing\<close>

fun hex_fill :: "u8 list \<Rightarrow> string" where
  "hex_fill [] = []"
| "hex_fill (b # bs) = fmt_02x b @ hex_fill bs"

definition bytes_to_hex :: "bool \<Rightarrow> u8 list option \<Rightarrow> nat \<Rightarrow> string option" where
  "bytes_to_hex alloc bytes len =
     (case bytes of None \<Rightarrow> None
      | Some bs \<Rightarrow> if len = 0 \<or> \<not> alloc then None else Some (hex_fill (take len bs)))"

section \<open>What the parser accepts\<close>

text \<open>The value of one byte, when its two characters are accepted.\<close>

definition byte_of :: "char \<Rightarrow> char \<Rightarrow> u8 option" where
  "byte_of a b = (case strtol 16 [a, b] of (v, r) \<Rightarrow> if r \<noteq> [] \<or> v < 0 \<or> v > 255 then None else Some (of_int v))"

fun parse_hex :: "string \<Rightarrow> u8 list option" where
  "parse_hex [] = Some []"
| "parse_hex [a] = None"
| "parse_hex (a # b # s) = byte_of a b \<bind> (\<lambda>v. map_option ((#) v) (parse_hex s))"

lemma length_parse_hex: "parse_hex s = Some bs \<Longrightarrow> length s = 2 * length bs"
  by (induction s arbitrary: bs rule: parse_hex.induct) (auto split: Option.bind_splits)

text \<open>The loop from an even index on parses the rest of the string and stores it behind what it has.\<close>

lemma hex_loop_parse:
  assumes "hex_str = pre @ s" "length pre = 2 * k" "even (length s)" "k + length s div 2 \<le> length bytes"
  shows "case parse_hex s of
      None \<Rightarrow> \<exists>bytes'. hex_loop hex_str (length hex_str) (2 * k) bytes = Some (-1, bytes') \<and> length bytes' = length bytes
    | Some bs \<Rightarrow> hex_loop hex_str (length hex_str) (2 * k) bytes
                   = Some (int (length hex_str div 2), take k bytes @ bs @ drop (k + length bs) bytes)"
  using assms
proof (induction s arbitrary: pre k bytes rule: parse_hex.induct)
  case 1
  then show ?case by (simp add: hex_loop.simps)
next
  case (2 a)
  then show ?case by simp
next
  case (3 a b s)
  have nth: "hex_str ! (2 * k) = a" "hex_str ! Suc (2 * k) = b"
    using 3(2,3) by (simp_all add: nth_append)
  have k: "k < length bytes" using 3(5) by simp
  show ?case
  proof (cases "byte_of a b")
    case None
    then show ?thesis using 3(2,3) nth
      by (subst hex_loop.simps) (auto simp: byte_of_def split: prod.splits if_splits)
  next
    case (Some v)
    let ?bytes = "bytes[k := v]"
    have step: "hex_loop hex_str (length hex_str) (2 * k) bytes
        = hex_loop hex_str (length hex_str) (2 * Suc k) ?bytes"
      using Some 3(2,3) nth k
      by (subst hex_loop.simps) (auto simp: byte_of_def store_byte_def split: prod.splits if_splits)
    have tk: "take (Suc k) ?bytes = take k bytes @ [v]" using k by (simp add: take_Suc_conv_app_nth)
    have IH: "case parse_hex s of
        None \<Rightarrow> \<exists>bytes'. hex_loop hex_str (length hex_str) (2 * Suc k) ?bytes = Some (-1, bytes')
                  \<and> length bytes' = length ?bytes
      | Some bs \<Rightarrow> hex_loop hex_str (length hex_str) (2 * Suc k) ?bytes
                     = Some (int (length hex_str div 2), take (Suc k) ?bytes @ bs @ drop (Suc k + length bs) ?bytes)"
      by (rule 3(1) [of v "pre @ [a, b]"]) (use Some 3 in auto)
    show ?thesis using IH step Some tk by (auto split: option.splits)
  qed
qed

lemma parse_hex_odd: "odd (length s) \<Longrightarrow> parse_hex s = None"
  using length_parse_hex [of s] by (cases "parse_hex s") auto

lemma parse_hex_long: "parse_hex hex = Some bs \<Longrightarrow> length bs \<le> n \<longleftrightarrow> length hex div 2 \<le> n"
  using length_parse_hex [of hex] by auto


lemma hex_to_bytes_parse:
  assumes "length buf = max_len" "max_len < 2048"
  shows "\<exists>r buf'. hex_to_bytes hex buf max_len = Some (r, buf') \<and> length buf' = max_len \<and>
    (case parse_hex hex of
       Some bs \<Rightarrow> if length bs \<le> max_len then r = int (length bs) \<and> buf' = bs @ drop (length bs) buf else r = -1
     | None \<Rightarrow> r = -1)"
proof (cases "odd (length hex) \<or> max_len < length hex div 2")
  case True
  then have "hex_to_bytes hex buf max_len = Some (-1, buf)"
    using assms(2) by (auto simp: hex_to_bytes_def strnlen_def Let_def min_def odd_iff_mod_2_eq_one)
  with True assms(1) parse_hex_odd [of hex] parse_hex_long [of hex] show ?thesis
    by (auto split: option.split)
next
  case False
  then have "hex_to_bytes hex buf max_len = hex_loop hex (length hex) 0 buf"
    using assms(2) by (auto simp: hex_to_bytes_def strnlen_def Let_def min_def odd_iff_mod_2_eq_one)
  with False hex_loop_parse [of hex "[]" hex 0 buf] assms(1) length_parse_hex [of hex] show ?thesis
    by (auto split: option.splits)
qed

section \<open>Stated properties\<close>

text \<open>Parsing a hexadecimal string into an array of \<^verbatim>\<open>max_len\<close> bytes never stores outside the array
  and always returns. It returns the number of bytes, with the bytes at the start of the array and the
  rest of the array unchanged, exactly when every pair of characters is accepted and the bytes fit;
  otherwise it returns -1.\<close>

theorem hex_to_bytes_spec:
  assumes "length buf = max_len" "max_len < 2048"
  shows "\<exists>r buf'. hex_to_bytes hex buf max_len = Some (r, buf') \<and> length buf' = max_len \<and>
    (case parse_hex hex of
       Some bs \<Rightarrow> if length bs \<le> max_len then r = int (length bs) \<and> buf' = bs @ drop (length bs) buf else r = -1
     | None \<Rightarrow> r = -1)"
  using assms by (rule hex_to_bytes_parse)

theorem hex_to_bytes_spec_witness:
  "\<exists>r buf'. hex_to_bytes ''00fF'' [9, 9, 9, 9] 4 = Some (r, buf') \<and> r = 2 \<and> buf' = [0, 255, 9, 9]"
proof -
  have "parse_hex ''00fF'' = Some [0, 255]" by code_simp
  then show ?thesis using hex_to_bytes_spec [of "[9, 9, 9, 9]" 4 "''00fF''"] by simp
qed

lemma parse_hex_fill: "parse_hex (hex_fill bs) = Some bs"
proof (induction bs)
  case (Cons b bs)
  have "byte_of (hex_digit (unat b div 16)) (hex_digit (unat b mod 16)) = Some b"
    using strtol_fmt_02x [of b] unsigned_less [of b, where ?'a = int] by (simp add: byte_of_def fmt_02x_def)
  with Cons show ?case by (simp add: fmt_02x_def)
qed simp

text \<open>Printing bytes in hexadecimal and parsing the result gives the bytes back: for every
  non-empty byte array that fits the output array the text has two characters a byte, and parsing it
  returns their number and stores them.\<close>

theorem hex_roundtrip:
  assumes "bs \<noteq> []" "length bs \<le> max_len" "length buf = max_len" "max_len < 2048"
  shows "\<exists>hex. bytes_to_hex True (Some bs) (length bs) = Some hex \<and> length hex = 2 * length bs \<and>
           hex_to_bytes hex buf max_len = Some (int (length bs), bs @ drop (length bs) buf)"
proof -
  have "length (hex_fill bs) = 2 * length bs" for bs by (induction bs) (simp_all add: fmt_02x_def)
  with hex_to_bytes_parse [of buf max_len "hex_fill bs"] parse_hex_fill [of bs] assms show ?thesis
    by (auto simp: bytes_to_hex_def)
qed

theorem hex_roundtrip_witness:
  "\<exists>hex. bytes_to_hex True (Some [1, 254]) 2 = Some hex \<and>
     hex_to_bytes hex [0, 0, 0] 3 = Some (2, [1, 254, 0])"
  using hex_roundtrip [of "[1, 254]" 3 "[0, 0, 0]"] by (auto simp: numeral_2_eq_2)

text \<open>The parser accepts more than hexadecimal digits: because each pair goes through \<^verbatim>\<open>strtol\<close>, a sign
  or a blank in front of one digit is taken for a byte, so the text "+5-0 a" is read as the three bytes
  5, 0 and 10.\<close>

theorem hex_accepts_signs:
  "hex_to_bytes ''+5-0 a'' (replicate 3 0) 3 = Some (3, [5, 0, 10])"
proof -
  have "parse_hex ''+5-0 a'' = Some [5, 0, 10]" by code_simp
  then show ?thesis using hex_loop_parse [of "''+5-0 a''" "[]" "''+5-0 a''" 0 "replicate 3 0"]
    by (simp add: hex_to_bytes_def strnlen_def)
qed

end
