(* ===== verification/Edid.thy ===== *)
theory Edid
  imports Native_Sys Hex_Codec
begin

text \<open>
  \<^verbatim>\<open>internal/native/cgo/edid.c\<close>: reading and writing the EDID of the HDMI receiver, with the
  checksum correction, and the status text taken from the kernel log. A pointer argument is an
  option (\<open>None\<close> is \<^verbatim>\<open>NULL\<close>) and an access outside the array is the outcome \<open>None\<close>.
\<close>

section \<open>Checksums\<close>

definition load_byte :: "nat \<Rightarrow> u8 list \<Rightarrow> u8 option" where
  "load_byte i bytes = (if i < length bytes then Some (bytes ! i) else None)"

text \<open>\<^verbatim>\<open>for (int i = 0; i < 127; i++) sum += edid[block * 128 + i];\<close>\<close>

function sum_loop :: "u8 list \<Rightarrow> nat \<Rightarrow> nat \<Rightarrow> u8 \<Rightarrow> u8 option" where
  "sum_loop edid block i acc =
     (if i < 127 then load_byte (block * 128 + i) edid \<bind> (\<lambda>b. sum_loop edid block (Suc i) (acc + b))
      else Some acc)"
  by pat_completeness auto
termination by (relation "measure (\<lambda>(_, _, i, _). 127 - i)") auto

declare sum_loop.simps [simp del]

function checksum_loop :: "nat \<Rightarrow> nat \<Rightarrow> u8 list \<Rightarrow> u8 list option" where
  "checksum_loop blocks block edid =
     (if block < blocks then
        sum_loop edid block 0 0 \<bind> (\<lambda>acc.
        store_byte (block * 128 + 127) (of_int (256 - int (unat acc))) edid \<bind> (\<lambda>edid.
        checksum_loop blocks (Suc block) edid))
      else Some edid)"
  by pat_completeness auto
termination by (relation "measure (\<lambda>(n, i, _). n - i)") auto

declare checksum_loop.simps [simp del]

definition fix_edid_checksum :: "u8 list \<Rightarrow> nat \<Rightarrow> u8 list option" where
  "fix_edid_checksum edid sz = checksum_loop (sz div 128) 0 edid"

section \<open>Reading and writing the EDID\<close>

definition V4L_SUBDEV :: string where "V4L_SUBDEV = ''/dev/v4l-subdev2''"

text \<open>
  \<^verbatim>\<open>get_edid\<close>. The ioctl asks for two blocks whatever \<^verbatim>\<open>max_size\<close> is; the driver stores the bytes at
  \<^verbatim>\<open>edid\<close> and the number of blocks it has in the structure, read back as \<open>length / 128\<close>.
\<close>

definition get_edid :: "native_env \<Rightarrow> u8 list option \<Rightarrow> nat \<Rightarrow> ncall list \<Rightarrow> (int \<times> u8 list option) option \<times> ncall list" where
  "get_edid env edid max_size h =
     (case edid of None \<Rightarrow> (Some (-1, None), h)
      | Some buf \<Rightarrow>
          if max_size \<noteq> 128 \<and> max_size \<noteq> 256 then (Some (-1, Some buf), h)
          else
            (case ndo env (Open V4L_SUBDEV) h of (fd, h) \<Rightarrow>
               if fd < 0 then (Some (-1, Some buf), h)
               else
                 (case ndo env (Ioctl_G_EDID fd 2) h of (r, h) \<Rightarrow>
                    let got = nbytes env h; h' = snd (ndo env (Close fd) h) in
                    if r < 0 then (Some (-1, Some buf), h')
                    else if length got > length buf then (None, h')
                    else (Some (int (length got div 128 * 128), Some (got @ drop (length got) buf)), h'))))"

definition set_edid :: "native_env \<Rightarrow> u8 list option \<Rightarrow> nat \<Rightarrow> ncall list \<Rightarrow> int option \<times> ncall list" where
  "set_edid env edid sz h =
     (case edid of None \<Rightarrow> (Some (-1), h)
      | Some buf \<Rightarrow>
          if sz \<noteq> 128 \<and> sz \<noteq> 256 then (Some (-1), h)
          else
            (case ndo env (Open V4L_SUBDEV) h of (fd, h) \<Rightarrow>
               if fd < 0 then (Some (-1), h)
               else
                 (case fix_edid_checksum buf sz of None \<Rightarrow> (None, h)
                  | Some buf \<Rightarrow>
                      (case ndo env (Ioctl_S_EDID fd (sz div 128) (take sz buf)) h of (r, h) \<Rightarrow>
                         let h = snd (ndo env (Close fd) h) in
                         if r < 0 then (Some (-1), h) else (Some 0, h)))))"

section \<open>The status text\<close>

text \<open>\<^verbatim>\<open>while ((q = strstr(p, "START STATUS"))) { found_status = true; p = q + 1; }\<close>\<close>

lemma strstr_less: "strstr s needle = Some i \<Longrightarrow> needle \<noteq> [] \<Longrightarrow> i < length s"
  using strstr_Some [of s needle i] by (cases "i < length s") (auto simp: is_prefix_of_def)

function last_status :: "string \<Rightarrow> nat \<Rightarrow> bool \<Rightarrow> nat \<times> bool" where
  "last_status buf p found =
     (case strstr (drop p buf) ''START STATUS'' of
        Some i \<Rightarrow> last_status buf (p + i + 1) True
      | None \<Rightarrow> (p, found))"
  by pat_completeness auto
termination
  by (relation "measure (\<lambda>(buf, p, _). length buf - p)") (auto dest!: strstr_less)

declare last_status.simps [simp del]

text \<open>\<^verbatim>\<open>while (p > buf && *p != '<') p--;\<close>\<close>

fun back_up :: "string \<Rightarrow> nat \<Rightarrow> nat" where
  "back_up buf 0 = 0"
| "back_up buf (Suc p) = (if buf ! Suc p \<noteq> CHR ''<'' then back_up buf p else Suc p)"

definition blank_at :: "nat \<Rightarrow> string \<Rightarrow> string" where
  "blank_at q buf = take q buf @ ''   '' @ drop (q + 3) buf"

text \<open>\<^verbatim>\<open>while ((q = strstr(q, "<6>"))) memcpy(q, "   ", 3);\<close>\<close>

lemma strstr_split:
  assumes "strstr (drop q buf) needle = Some i" "needle \<noteq> []"
  shows "buf = take (q + i) buf @ needle @ drop (q + i + length needle) buf"
    and "q + i + length needle \<le> length buf"
proof -
  have t: "take (length needle) (drop (q + i) buf) = needle"
    using strstr_Some [OF assms(1)] by (simp add: is_prefix_of_def add.commute)
  have "min (length buf - (q + i)) (length needle) = length needle"
    using arg_cong [OF t, of length] by simp
  then show "q + i + length needle \<le> length buf" using strstr_less [OF assms] by (simp add: min_def split: if_splits)
  have "buf = take (q + i) buf @ take (length needle) (drop (q + i) buf) @ drop (length needle) (drop (q + i) buf)"
    by (simp only: append_take_drop_id)
  then show "buf = take (q + i) buf @ needle @ drop (q + i + length needle) buf"
    unfolding t by (simp add: add.commute)
qed

lemma blank_at_fewer:
  assumes "strstr (drop q buf) ''<6>'' = Some i"
  shows "count_list (blank_at (q + i) buf) (CHR ''<'') < count_list buf (CHR ''<'')"
proof -
  have "buf = take (q + i) buf @ ''<6>'' @ drop (q + i + 3) buf"
    using strstr_split(1) [OF assms] by (simp add: numeral_3_eq_3)
  then have "count_list buf (CHR ''<'') = count_list (take (q + i) buf @ ''<6>'' @ drop (q + i + 3) buf) (CHR ''<'')"
    by (rule arg_cong)
  then show ?thesis by (simp add: blank_at_def)
qed

function blank_loop :: "string \<Rightarrow> nat \<Rightarrow> string" where
  "blank_loop buf q =
     (case strstr (drop q buf) ''<6>'' of
        Some i \<Rightarrow> blank_loop (blank_at (q + i) buf) (q + i)
      | None \<Rightarrow> buf)"
  by pat_completeness auto
termination
  by (relation "measure (\<lambda>(buf, _). count_list buf (CHR ''<''))") (auto dest: blank_at_fewer)

declare blank_loop.simps [simp del]

text \<open>The text \<^verbatim>\<open>strdup\<close> copies, for a kernel log \<open>buf\<close>.\<close>

definition status_text :: "string \<Rightarrow> string" where
  "status_text buf =
     (case last_status buf 0 False of (p, found) \<Rightarrow>
        if found then let q = back_up buf p in drop q (blank_loop buf q) else drop p buf)"

definition videoc_log_status :: "native_env \<Rightarrow> ncall list \<Rightarrow> string option \<times> ncall list" where
  "videoc_log_status env h =
     (case ndo env (Open V4L_SUBDEV) h of (fd, h) \<Rightarrow>
        if fd < 0 then (None, h)
        else
          (case ndo env (Ioctl_LOG_STATUS fd) h of (r, h) \<Rightarrow>
             let h = snd (ndo env (Close fd) h) in
             if r = -1 then (None, h)
             else
               (case ndo env (Klogctl 40959) h of (len, h) \<Rightarrow>
                  if len \<ge> 0 then
                    let text = status_text (cstr (take (nat len) (ntext env h)));
                        (ok, h) = ndo env (Malloc (length text + 1)) h
                    in (if ok = 0 then None else Some text, h)
                  else (None, h))))"

section \<open>Checksum correctness\<close>

definition block_sum :: "u8 list \<Rightarrow> nat \<Rightarrow> u8" where
  "block_sum edid b = (\<Sum>i<128. edid ! (b * 128 + i))"

lemma sum_loop_ok:
  assumes "block * 128 + 127 \<le> length edid" "i \<le> 127"
  shows "sum_loop edid block i acc = Some (acc + (\<Sum>j\<in>{i..<127}. edid ! (block * 128 + j)))"
  using assms(2)
proof (induction "127 - i" arbitrary: i acc)
  case 0
  then show ?case by (simp add: sum_loop.simps)
next
  case (Suc n)
  then have "i < 127" by simp
  moreover have "sum_loop edid block (Suc i) (acc + edid ! (block * 128 + i))
      = Some (acc + edid ! (block * 128 + i) + (\<Sum>j\<in>{Suc i..<127}. edid ! (block * 128 + j)))"
    using Suc by simp
  moreover have "(\<Sum>j\<in>{i..<127}. edid ! (block * 128 + j))
      = edid ! (block * 128 + i) + (\<Sum>j\<in>{Suc i..<127}. edid ! (block * 128 + j))"
    using \<open>i < 127\<close> by (simp add: sum.atLeast_Suc_lessThan)
  ultimately show ?case using assms(1) by (subst sum_loop.simps) (simp add: load_byte_def add.assoc)
qed

lemma block_sum_fixed:
  assumes "b * 128 + 128 \<le> length edid"
  shows "block_sum (edid[b * 128 + 127 := - (\<Sum>j\<in>{0..<127}. edid ! (b * 128 + j))]) b = 0"
proof -
  let ?e = "edid[b * 128 + 127 := - (\<Sum>j\<in>{0..<127}. edid ! (b * 128 + j))]"
  have "{..<128} = insert 127 {0..<127 :: nat}" by auto
  then have "block_sum ?e b = ?e ! (b * 128 + 127) + (\<Sum>j\<in>{0..<127}. ?e ! (b * 128 + j))"
    by (simp add: block_sum_def)
  also have "(\<Sum>j\<in>{0..<127}. ?e ! (b * 128 + j)) = (\<Sum>j\<in>{0..<127}. edid ! (b * 128 + j))"
    by (rule sum.cong) auto
  finally show ?thesis using assms by simp
qed

lemma block_sum_cong:
  "(\<And>i. b * 128 \<le> i \<Longrightarrow> i < b * 128 + 128 \<Longrightarrow> xs ! i = ys ! i) \<Longrightarrow> block_sum xs b = block_sum ys b"
  unfolding block_sum_def by (rule sum.cong) auto

lemma byte_complement: "of_int (256 - int (unat x)) = - x" "256 - x = - x" for x :: u8
proof -
  show c: "256 - x = - x" for x :: u8 by simp
  show "of_int (256 - int (unat x)) = - x" by (simp add: of_int_diff c)
qed

lemma checksum_loop_ok:
  assumes "blocks * 128 \<le> length edid" "block \<le> blocks"
  shows "\<exists>e. checksum_loop blocks block edid = Some e \<and> length e = length edid \<and>
     (\<forall>b. block \<le> b \<and> b < blocks \<longrightarrow> block_sum e b = 0) \<and>
     (\<forall>i. i mod 128 \<noteq> 127 \<or> i < block * 128 \<or> blocks * 128 \<le> i \<longrightarrow> e ! i = edid ! i)"
  using assms
proof (induction "blocks - block" arbitrary: block edid)
  case 0
  then show ?case by (auto simp: checksum_loop.simps)
next
  case (Suc n)
  let ?s = "\<Sum>j\<in>{0..<127}. edid ! (block * 128 + j)"
  let ?e1 = "edid[block * 128 + 127 := - ?s]"
  have lt: "block < blocks" using Suc(2) by simp
  then have len: "block * 128 + 128 \<le> length edid" using Suc(3) by linarith
  have step: "checksum_loop blocks block edid = checksum_loop blocks (Suc block) ?e1"
    using lt len sum_loop_ok [of block edid 0 0]
    by (subst checksum_loop.simps) (simp add: store_byte_def byte_complement atLeast0LessThan)
  have rest: "n = blocks - Suc block" "blocks * 128 \<le> length ?e1" "Suc block \<le> blocks" using Suc(2,3) lt by auto
  obtain e where e: "checksum_loop blocks (Suc block) ?e1 = Some e" "length e = length edid"
    "\<forall>b. Suc block \<le> b \<and> b < blocks \<longrightarrow> block_sum e b = 0"
    "\<forall>i. i mod 128 \<noteq> 127 \<or> i < Suc block * 128 \<or> blocks * 128 \<le> i \<longrightarrow> e ! i = ?e1 ! i"
    using Suc(1) [OF rest] unfolding length_list_update by blast
  have "block_sum e block = block_sum ?e1 block" by (rule block_sum_cong) (use e(4) in auto)
  then have "block_sum e block = 0" using block_sum_fixed [OF len] by simp
  then have "\<forall>b. block \<le> b \<and> b < blocks \<longrightarrow> block_sum e b = 0" using e(3) by (metis le_antisym not_less_eq_eq)
  moreover have "e ! i = edid ! i" if "i mod 128 \<noteq> 127 \<or> i < block * 128 \<or> blocks * 128 \<le> i" for i
  proof -
    have "i \<noteq> block * 128 + 127" using that lt by auto
    then have "?e1 ! i = edid ! i" by simp
    moreover have "e ! i = ?e1 ! i" using e(4) that by auto
    ultimately show ?thesis by simp
  qed
  ultimately show ?case unfolding step e(1) using e(2) by auto
qed

end
