(* ===== verification/Edid_Props.thy ===== *)
theory Edid_Props
  imports Edid
begin

text \<open>
  The stated properties of \<^verbatim>\<open>edid.c\<close>: checksums, the conversation with the driver, and the text
  extracted from the kernel log.
\<close>

section \<open>The status text\<close>

definition occurs :: "string \<Rightarrow> string \<Rightarrow> nat \<Rightarrow> bool" where
  "occurs needle buf i \<longleftrightarrow> is_prefix_of needle (drop i buf)"

text \<open>Position \<open>j\<close> belongs to a log level tag that starts at \<open>q\<close> or later.\<close>

definition in_tag :: "string \<Rightarrow> nat \<Rightarrow> nat \<Rightarrow> bool" where
  "in_tag buf q j \<longleftrightarrow> (\<exists>k. q \<le> k \<and> occurs ''<6>'' buf k \<and> k \<le> j \<and> j < k + 3)"

lemma strstr_occurs:
  "strstr (drop q buf) needle = Some i \<Longrightarrow> occurs needle buf (q + i) \<and> (\<forall>k. q \<le> k \<and> k < q + i \<longrightarrow> \<not> occurs needle buf k)"
  using strstr_Some [of "drop q buf" needle i] by (auto simp: occurs_def add.commute le_iff_add)

lemma strstr_no_occurs:
  "needle \<noteq> [] \<Longrightarrow> strstr (drop q buf) needle = None \<Longrightarrow> q \<le> k \<Longrightarrow> \<not> occurs needle buf k"
  using strstr_None [of needle "drop q buf"] by (auto simp: occurs_def add.commute le_iff_add)

lemma occurs_tag: "occurs ''<6>'' buf k \<longleftrightarrow> k + 2 < length buf \<and> buf ! k = CHR ''<'' \<and> buf ! (k + 1) = CHR ''6'' \<and> buf ! (k + 2) = CHR ''>''"
proof (cases "k + 2 < length buf")
  case True
  then have "drop k buf = buf ! k # buf ! (k + 1) # buf ! (k + 2) # drop (k + 3) buf"
    by (simp add: Cons_nth_drop_Suc numeral_3_eq_3)
  with True show ?thesis by (auto simp: occurs_def is_prefix_of_def)
next
  case False
  then have "length (take 3 (drop k buf)) < 3" by simp
  then have "take 3 (drop k buf) \<noteq> ''<6>''" by (metis (no_types) Suc_eq_numeral length_Cons less_irrefl list.size(3) numeral_3_eq_3)
  with False show ?thesis by (simp add: occurs_def is_prefix_of_def numeral_3_eq_3)
qed

lemma last_status_ok:
  assumes "last_status buf p found = (p', f)"
  shows "(\<forall>i\<ge>p'. \<not> occurs ''START STATUS'' buf i) \<and>
    (p' = p \<and> f = found \<or> f \<and> p < p' \<and> occurs ''START STATUS'' buf (p' - 1))"
  using assms
proof (induction buf p found rule: last_status.induct)
  case (1 buf p found)
  show ?case
  proof (cases "strstr (drop p buf) ''START STATUS''")
    case None
    then have "p' = p" "f = found" using 1(2) by (simp_all add: last_status.simps [of buf p])
    then show ?thesis using strstr_no_occurs [OF _ None] by auto
  next
    case (Some i)
    then have "last_status buf (p + i + 1) True = (p', f)" using 1(2) by (simp add: last_status.simps [of buf p])
    from 1(1) [OF Some this] strstr_occurs [OF Some] show ?thesis by auto
  qed
qed

lemma back_up_ok:
  "back_up buf p \<le> p \<and> (back_up buf p = 0 \<or> buf ! back_up buf p = CHR ''<'') \<and>
   (\<forall>i. back_up buf p < i \<and> i \<le> p \<longrightarrow> buf ! i \<noteq> CHR ''<'')"
  by (induction buf p rule: back_up.induct) (auto simp: le_Suc_eq)

lemma length_blank_at: "q + 3 \<le> length buf \<Longrightarrow> length (blank_at q buf) = length buf"
  by (simp add: blank_at_def)

lemma nth_blank_at:
  assumes "q + 3 \<le> length buf" "j < length buf"
  shows "blank_at q buf ! j = (if q \<le> j \<and> j < q + 3 then CHR '' '' else buf ! j)"
proof -
  have "blank_at q buf = take q buf @ replicate 3 (CHR '' '') @ drop (q + 3) buf"
    by (simp add: blank_at_def numeral_3_eq_3)
  then show ?thesis using assms by (auto simp: nth_append)
qed

lemma in_tag_blank:
  assumes "occurs ''<6>'' buf q'" "\<forall>k. q \<le> k \<and> k < q' \<longrightarrow> \<not> occurs ''<6>'' buf k" "q \<le> q'"
  shows "in_tag buf q j \<longleftrightarrow> (q' \<le> j \<and> j < q' + 3) \<or> in_tag (blank_at q' buf) q' j"
proof -
  have len: "q' + 3 \<le> length buf" using assms(1) by (simp add: occurs_tag)
  have o: "occurs ''<6>'' (blank_at q' buf) k \<longleftrightarrow> occurs ''<6>'' buf k \<and> k \<noteq> q'" if "q' \<le> k" for k
  proof (cases "q' + 3 \<le> k")
    case True
    then show ?thesis using len by (auto simp: occurs_tag length_blank_at nth_blank_at)
  next
    case False
    with that have "k = q' \<or> k = q' + 1 \<or> k = q' + 2" by auto
    then show ?thesis using len assms(1) by (auto simp: occurs_tag length_blank_at nth_blank_at)
  qed
  show ?thesis
  proof
    assume "in_tag buf q j"
    then obtain k where k: "q \<le> k" "occurs ''<6>'' buf k" "k \<le> j" "j < k + 3" by (auto simp: in_tag_def)
    then have "q' \<le> k" using assms(2) by (meson not_le)
    then show "(q' \<le> j \<and> j < q' + 3) \<or> in_tag (blank_at q' buf) q' j"
      using k o [of k] by (cases "k = q'") (auto simp: in_tag_def)
  next
    assume "(q' \<le> j \<and> j < q' + 3) \<or> in_tag (blank_at q' buf) q' j"
    then show "in_tag buf q j"
    proof
      assume "q' \<le> j \<and> j < q' + 3"
      then show ?thesis using assms(1,3) by (auto simp: in_tag_def)
    next
      assume "in_tag (blank_at q' buf) q' j"
      then obtain k where k: "q' \<le> k" "occurs ''<6>'' (blank_at q' buf) k" "k \<le> j" "j < k + 3" by (auto simp: in_tag_def)
      then have "occurs ''<6>'' buf k" "q \<le> k" using o [of k] assms(3) by auto
      then show ?thesis using k by (auto simp: in_tag_def)
    qed
  qed
qed

lemma blank_loop_ok:
  "length (blank_loop buf q) = length buf \<and>
   (\<forall>j<length buf. blank_loop buf q ! j = (if in_tag buf q j then CHR '' '' else buf ! j))"
proof (induction buf q rule: blank_loop.induct)
  case (1 buf q)
  show ?case
  proof (cases "strstr (drop q buf) ''<6>''")
    case None
    then have "blank_loop buf q = buf" by (simp add: blank_loop.simps)
    moreover have "\<not> in_tag buf q j" for j using strstr_no_occurs [OF _ None] by (auto simp: in_tag_def)
    ultimately show ?thesis by simp
  next
    case (Some i)
    let ?b = "blank_at (q + i) buf"
    have run: "blank_loop buf q = blank_loop ?b (q + i)" using Some by (subst blank_loop.simps) simp
    have oc: "occurs ''<6>'' buf (q + i)" using strstr_occurs [OF Some] by simp
    then have len: "q + i + 3 \<le> length buf" by (simp add: occurs_tag)
    have IH: "length (blank_loop ?b (q + i)) = length ?b"
      "\<forall>j<length ?b. blank_loop ?b (q + i) ! j = (if in_tag ?b (q + i) j then CHR '' '' else ?b ! j)"
      using 1 [OF Some] by simp_all
    have "in_tag buf q j \<longleftrightarrow> (q + i \<le> j \<and> j < q + i + 3) \<or> in_tag ?b (q + i) j" for j
      by (rule in_tag_blank) (use strstr_occurs [OF Some] in auto)
    then show ?thesis using IH len by (auto simp: run length_blank_at nth_blank_at)
  qed
qed

section \<open>Stated properties\<close>

text \<open>Correcting the checksums of an EDID of \<^verbatim>\<open>size\<close> bytes returns without leaving the array; after it
  the 128 bytes of every block add up to 0 modulo 256, no byte but the last one of each block has changed,
  and a second correction changes nothing.\<close>

theorem fix_edid_checksum_ok:
  assumes "sz \<le> length edid"
  shows "\<exists>e. fix_edid_checksum edid sz = Some e \<and> length e = length edid \<and>
     (\<forall>b < sz div 128. block_sum e b = 0) \<and>
     (\<forall>i. i mod 128 \<noteq> 127 \<or> sz div 128 * 128 \<le> i \<longrightarrow> e ! i = edid ! i) \<and>
     fix_edid_checksum e sz = Some e"
proof -
  have n: "sz div 128 * 128 \<le> length edid" using assms by (meson div_times_less_eq_dividend le_trans)
  obtain e where e: "fix_edid_checksum edid sz = Some e" "length e = length edid"
    "\<forall>b < sz div 128. block_sum e b = 0"
    "\<forall>i. i mod 128 \<noteq> 127 \<or> sz div 128 * 128 \<le> i \<longrightarrow> e ! i = edid ! i"
    using checksum_loop_ok [OF n, of 0] by (auto simp: fix_edid_checksum_def)
  obtain f where f: "fix_edid_checksum e sz = Some f" "length f = length e"
    "\<forall>b < sz div 128. block_sum f b = 0"
    "\<forall>i. i mod 128 \<noteq> 127 \<or> sz div 128 * 128 \<le> i \<longrightarrow> f ! i = e ! i"
    using checksum_loop_ok [of "sz div 128" e 0] n e(2) by (auto simp: fix_edid_checksum_def)
  have "f ! i = e ! i" for i
  proof (cases "i mod 128 \<noteq> 127 \<or> sz div 128 * 128 \<le> i")
    case False
    define b where "b = i div 128"
    have i: "i = b * 128 + 127" using False b_def by (metis div_mult_mod_eq)
    have b: "b < sz div 128" using False i by auto
    have split: "block_sum x b = x ! i + (\<Sum>j\<in>{0..<127}. x ! (b * 128 + j))" for x
    proof -
      have "{..<128} = insert 127 {0..<127 :: nat}" by auto
      then show ?thesis by (simp add: block_sum_def i)
    qed
    have "(\<Sum>j\<in>{0..<127}. f ! (b * 128 + j)) = (\<Sum>j\<in>{0..<127}. e ! (b * 128 + j))"
      by (rule sum.cong) (use f(4) in auto)
    then show ?thesis using split [of f] split [of e] e(3) f(3) b by (metis add_right_cancel)
  qed (use f(4) in auto)
  then have "f = e" using f(2) by (simp add: list_eq_iff_nth_eq)
  then show ?thesis using e f(1) by blast
qed

theorem fix_edid_checksum_ok_witness:
  "\<exists>e. fix_edid_checksum (replicate 256 3) 256 = Some e \<and> block_sum e 1 = 0"
  using fix_edid_checksum_ok [of 256 "replicate 256 3"] by auto

text \<open>C34: Writing an EDID: with an array at least as long as the given size, \<^verbatim>\<open>set_edid\<close> returns, every
  descriptor it opened is closed again on every path, and it reports 0 exactly when the driver was handed
  \<^verbatim>\<open>size / 128\<close> blocks of correct checksum, otherwise equal to the caller's bytes, and accepted them.
  A size other than 128 and 256 is refused without opening the device.\<close>

theorem set_edid_spec:
  assumes "sz \<le> length buf"
  shows "\<exists>r h'. set_edid env (Some buf) sz h = (Some r, h') \<and> open_fds env h' = open_fds env h \<and>
     (r = 0 \<or> r = -1) \<and> (sz \<noteq> 128 \<and> sz \<noteq> 256 \<longrightarrow> r = -1 \<and> h' = h) \<and>
     (r = 0 \<longleftrightarrow> (\<exists>fd e. h' = Close fd # Ioctl_S_EDID fd (sz div 128) e # Open V4L_SUBDEV # h \<and>
        nret env (Ioctl_S_EDID fd (sz div 128) e # Open V4L_SUBDEV # h) \<ge> 0 \<and> length e = sz \<and>
        (\<forall>b < sz div 128. block_sum e b = 0) \<and> (\<forall>i < sz. i mod 128 \<noteq> 127 \<longrightarrow> e ! i = buf ! i)))"
proof (cases "sz = 128 \<or> sz = 256")
  case False
  then show ?thesis by (auto simp: set_edid_def)
next
  case sz: True
  let ?fd = "nret env (Open V4L_SUBDEV # h)"
  have n: "sz div 128 * 128 \<le> length buf" using sz assms by auto
  obtain e where e: "fix_edid_checksum buf sz = Some e" "length e = length buf"
    "\<forall>b < sz div 128. block_sum e b = 0" "\<forall>i. i mod 128 \<noteq> 127 \<longrightarrow> e ! i = buf ! i"
    using checksum_loop_ok [OF n, of 0] by (auto simp: fix_edid_checksum_def)
  let ?c = "Ioctl_S_EDID ?fd (sz div 128) (take sz e)"
  have run: "set_edid env (Some buf) sz h =
      (if ?fd < 0 then (Some (-1), Open V4L_SUBDEV # h)
       else (Some (if nret env (?c # Open V4L_SUBDEV # h) < 0 then -1 else 0), Close ?fd # ?c # Open V4L_SUBDEV # h))"
    using sz e(1) by (auto simp: set_edid_def ndo_def Let_def)
  have sums: "block_sum (take sz e) b = 0" if "b < sz div 128" for b
  proof -
    have "block_sum (take sz e) b = block_sum e b" by (rule block_sum_cong) (use that in auto)
    then show ?thesis using e(3) that by simp
  qed
  have "length (take sz e) = sz \<and> (\<forall>b < sz div 128. block_sum (take sz e) b = 0) \<and>
        (\<forall>i < sz. i mod 128 \<noteq> 127 \<longrightarrow> take sz e ! i = buf ! i)"
    using sums e(2,4) assms by auto
  with run sz show ?thesis by (auto simp: Let_def not_less)
qed

definition calm_env :: native_env where
  "calm_env = \<lparr>nret = (\<lambda>h. case h of Open _ # _ \<Rightarrow> 7 | _ \<Rightarrow> 0), nbytes = (\<lambda>_. replicate 256 1), ntext = (\<lambda>_. []),
     nfloat = (\<lambda>_. Finite 1), nval = (\<lambda>_ _. 0), RK_ERR_VENC_BUF_EMPTY = -1\<rparr>"

theorem set_edid_spec_witness:
  "\<exists>r h'. set_edid calm_env (Some (replicate 256 3)) 256 [] = (Some r, h') \<and> open_fds calm_env h' = [] \<and> (r = 0 \<or> r = -1)"
  using set_edid_spec [of 256 "replicate 256 3" calm_env "[]"] by auto

text \<open>The documented contract of \<^verbatim>\<open>VIDIOC_G_EDID\<close>: at most the blocks asked for, in whole blocks.\<close>

definition edid_contract :: "native_env \<Rightarrow> bool" where
  "edid_contract env \<longleftrightarrow> (\<forall>fd n h. length (nbytes env (Ioctl_G_EDID fd n # h)) \<le> n * 128 \<and>
      128 dvd length (nbytes env (Ioctl_G_EDID fd n # h)))"

text \<open>Reading the EDID into an array of 256 bytes stays inside the array, closes the descriptor on
  every path, and returns -1 with the array untouched or the number of bytes the driver stored, which
  are then the start of the array.\<close>

theorem get_edid_spec:
  assumes "edid_contract env" "length buf = 256"
  shows "\<exists>r buf' h'. get_edid env (Some buf) 256 h = (Some (r, Some buf'), h') \<and> length buf' = 256 \<and>
     open_fds env h' = open_fds env h \<and>
     (r = -1 \<and> buf' = buf \<or>
      (\<exists>fd. h' = Close fd # Ioctl_G_EDID fd 2 # Open V4L_SUBDEV # h \<and>
        r = int (length (nbytes env (Ioctl_G_EDID fd 2 # Open V4L_SUBDEV # h))) \<and>
        take (nat r) buf' = nbytes env (Ioctl_G_EDID fd 2 # Open V4L_SUBDEV # h)))"
proof -
  let ?fd = "nret env (Open V4L_SUBDEV # h)"
  let ?c = "Ioctl_G_EDID ?fd 2 # Open V4L_SUBDEV # h"
  have c: "length (nbytes env ?c) \<le> 2 * 128" "128 dvd length (nbytes env ?c)"
    using assms(1) unfolding edid_contract_def by blast+
  have "get_edid env (Some buf) 256 h =
      (if ?fd < 0 then (Some (-1, Some buf), Open V4L_SUBDEV # h)
       else if nret env ?c < 0 then (Some (-1, Some buf), Close ?fd # ?c)
       else (Some (int (length (nbytes env ?c)), Some (nbytes env ?c @ drop (length (nbytes env ?c)) buf)), Close ?fd # ?c))"
    using c assms(2) by (simp add: get_edid_def ndo_def Let_def)
  then show ?thesis using c assms(2) by (simp add: Let_def)
qed

definition full_env :: native_env where
  "full_env = calm_env\<lparr>nbytes := \<lambda>h. case h of Ioctl_G_EDID fd n # _ \<Rightarrow> replicate (n * 128) 1 | _ \<Rightarrow> []\<rparr>"

lemma full_contract: "edid_contract full_env"
  by (simp add: edid_contract_def full_env_def)

theorem get_edid_spec_witness:
  "edid_contract full_env \<and> (\<exists>r b h'. get_edid full_env (Some (replicate 256 0)) 256 [] = (Some (r, Some b), h'))"
  using get_edid_spec [of full_env "replicate 256 0" "[]"] full_contract by auto

text \<open>With an array of 128 bytes, the other size \<^verbatim>\<open>get_edid\<close> admits, a driver that keeps its contract can
  make it store past the end of the array, because it asks for two blocks whatever the size is.\<close>

theorem get_edid_overflow:
  "\<exists>env. edid_contract env \<and> fst (get_edid env (Some (replicate 128 0)) 128 h) = None"
proof -
  have "fst (get_edid full_env (Some (replicate 128 0)) 128 h) = None"
    by (simp add: get_edid_def ndo_def Let_def full_env_def calm_env_def)
  then show ?thesis using full_contract by blast
qed

lemma status_occurs_T: "occurs ''START STATUS'' buf k \<Longrightarrow> Suc k < length buf \<and> buf ! Suc k = CHR ''T''"
proof -
  assume "occurs ''START STATUS'' buf k"
  then have t: "take (length ''START STATUS'') (drop k buf) = ''START STATUS''" by (simp only: occurs_def is_prefix_of_def)
  from arg_cong [OF t, of length] have l: "Suc k < length buf" by simp
  have "take (length ''START STATUS'') (drop k buf) ! 1 = CHR ''T''" unfolding t by simp
  with l show ?thesis by simp
qed

lemma status_text_found:
  assumes "occurs ''START STATUS'' buf k'"
  shows "\<exists>k j. occurs ''START STATUS'' buf k \<and> (\<forall>i>k. \<not> occurs ''START STATUS'' buf i) \<and> j \<le> k \<and>
     (j = 0 \<or> buf ! j = CHR ''<'') \<and> (\<forall>i. j < i \<and> i \<le> k \<longrightarrow> buf ! i \<noteq> CHR ''<'') \<and>
     status_text buf = map (\<lambda>i. if in_tag buf j i then CHR '' '' else buf ! i) [j..<length buf]"
proof -
  obtain p f where l: "last_status buf 0 False = (p, f)" by fastforce
  note ok = last_status_ok [OF l]
  have "p \<noteq> 0" using ok assms by auto
  then obtain k where p: "p = Suc k" "f" and k: "occurs ''START STATUS'' buf k" "\<forall>i>k. \<not> occurs ''START STATUS'' buf i"
    using ok by (cases p) (auto simp: Suc_le_eq)
  let ?j = "back_up buf p"
  have j: "?j \<le> k \<and> (?j = 0 \<or> buf ! ?j = CHR ''<'') \<and> (\<forall>i. ?j < i \<and> i \<le> k \<longrightarrow> buf ! i \<noteq> CHR ''<'')"
    using back_up_ok [of buf p] status_occurs_T [OF k(1)] p by (auto simp: le_Suc_eq)
  have "status_text buf = drop ?j (blank_loop buf ?j)" using l p by (simp add: status_text_def Let_def)
  also have "\<dots> = map (\<lambda>i. if in_tag buf ?j i then CHR '' '' else buf ! i) [?j..<length buf]"
    using blank_loop_ok [of buf ?j] by (intro nth_equalityI) auto
  finally show ?thesis using k j by blast
qed

text \<open>The status text taken from a kernel log. Without the words START STATUS it is the whole log; with
  them it is the log from the start of the line that holds their last occurrence (the last "<" before it), in
  which exactly the characters of log level tags "<6>" are replaced by blanks.\<close>

theorem status_text_spec:
  "if \<exists>k. occurs ''START STATUS'' buf k
   then \<exists>k j. occurs ''START STATUS'' buf k \<and> (\<forall>i>k. \<not> occurs ''START STATUS'' buf i) \<and> j \<le> k \<and>
     (j = 0 \<or> buf ! j = CHR ''<'') \<and> (\<forall>i. j < i \<and> i \<le> k \<longrightarrow> buf ! i \<noteq> CHR ''<'') \<and>
     status_text buf = map (\<lambda>i. if in_tag buf j i then CHR '' '' else buf ! i) [j..<length buf]
   else status_text buf = buf"
proof (cases "\<exists>k. occurs ''START STATUS'' buf k")
  case True
  then show ?thesis using status_text_found by auto
next
  case False
  obtain p f where l: "last_status buf 0 False = (p, f)" by fastforce
  with last_status_ok [OF l] False show ?thesis by (simp add: status_text_def)
qed

theorem status_text_spec_witness:
  "status_text ''<6>old'' = ''<6>old'' \<and> status_text ''<4>x<6> START STATUS<6>.'' = ''    START STATUS   .''"
proof -
  have "\<nexists>k. occurs ''START STATUS'' ''<6>old'' k"
    by (auto simp: occurs_def is_prefix_of_def dest: arg_cong [of _ _ length])
  then have "status_text ''<6>old'' = ''<6>old''" using status_text_spec [of "''<6>old''"] by (simp only: if_False)
  moreover have "status_text ''<4>x<6> START STATUS<6>.'' = ''    START STATUS   .''" by code_simp
  ultimately show ?thesis ..
qed

end
