(* ===== verification/Lvgl.thy ===== *)
theory Lvgl
  imports C_Lib
begin

text \<open>
  The vocabulary of the LVGL graphics library as far as the user interface uses it, and the calls
  into it. LVGL is outside the repository: a call is recorded in a history (newest first) and the
  parameter \<open>env\<close> answers it from the whole history. What the user interface relies on is stated at
  the end as predicates on \<open>env\<close>: creation returns a new object, the text of a label is the one set
  last, the active screen is the one loaded last.
\<close>

section \<open>Enumerations\<close>

text \<open>Pointers to objects and to styles are numbers; 0 is \<^verbatim>\<open>NULL\<close>.\<close>

type_synonym lv_obj = nat
type_synonym lv_style = nat

datatype (plugins only: code size) lv_event_code = LV_EVENT_PRESSED | LV_EVENT_PRESSING | LV_EVENT_RELEASED | LV_EVENT_CLICKED
  | LV_EVENT_LONG_PRESSED | LV_EVENT_GESTURE | LV_EVENT_OTHER nat

datatype (plugins only: code size) lv_dir = LV_DIR_NONE | LV_DIR_LEFT | LV_DIR_RIGHT | LV_DIR_TOP | LV_DIR_BOTTOM | LV_DIR_VER

datatype (plugins only: code size) lv_obj_flag = LV_OBJ_FLAG_HIDDEN | LV_OBJ_FLAG_CLICKABLE | LV_OBJ_FLAG_CLICK_FOCUSABLE
  | LV_OBJ_FLAG_CHECKABLE | LV_OBJ_FLAG_SCROLLABLE | LV_OBJ_FLAG_SCROLL_ON_FOCUS | LV_OBJ_FLAG_SCROLL_CHAIN
  | LV_OBJ_FLAG_SNAPPABLE | LV_OBJ_FLAG_PRESS_LOCK | LV_OBJ_FLAG_OVERFLOW_VISIBLE

datatype (plugins only: code size) lv_state = LV_STATE_DEFAULT | LV_STATE_CHECKED | LV_STATE_FOCUSED | LV_STATE_DISABLED
  | LV_STATE_USER_1 | LV_STATE_USER_2 | LV_STATE_USER_3 | LV_STATE_USER_4

datatype (plugins only: code size) lv_part = LV_PART_MAIN | LV_PART_SCROLLBAR
datatype (plugins only: code size) lv_rotation = LV_DISP_ROTATION_0 | LV_DISP_ROTATION_90 | LV_DISP_ROTATION_180 | LV_DISP_ROTATION_270
datatype (plugins only: code size) lv_evdev_type = LV_EVDEV_TYPE_REL | LV_EVDEV_TYPE_ABS | LV_EVDEV_TYPE_KEY
datatype (plugins only: code size) coord = Px int | LV_PCT int | LV_SIZE_CONTENT
datatype (plugins only: code size) flex_flow = LV_FLEX_FLOW_ROW | LV_FLEX_FLOW_COLUMN
datatype (plugins only: code size) flex_align = LV_FLEX_ALIGN_START | LV_FLEX_ALIGN_CENTER | LV_FLEX_ALIGN_SPACE_BETWEEN
datatype (plugins only: code size) text_align = LV_TEXT_ALIGN_LEFT | LV_TEXT_ALIGN_CENTER
datatype (plugins only: code size) obj_align = LV_ALIGN_CENTER | LV_ALIGN_LEFT_MID
datatype (plugins only: code size) scrollbar_mode = LV_SCROLLBAR_MODE_OFF | LV_SCROLLBAR_MODE_AUTO
datatype (plugins only: code size) ui_font = Font_book16 | Font_book18 | Font_book20 | Font_bold30
datatype (plugins only: code size) ui_image = Img_logo | Img_boot_logo_2 | Img_arrow_icon | Img_back_caret | Img_back_icon | Img_check_icon
  | Img_cloud_disconnected | Img_cloud | Img_d2 | Img_ethernet | Img_hdmi | Img_jetkvm | Img_usb | Img_x_icon

text \<open>The functions of \<^verbatim>\<open>actions.c\<close> the screens register as event callbacks.\<close>

datatype (plugins only: code size) ui_action = Action_switch_to_menu | Action_switch_to_advanced_menu | Action_switch_to_status
  | Action_switch_to_about | Action_switch_to_reset_config | Action_switch_to_dhcpc | Action_switch_to_reboot
  | Action_menu_screen_gesture | Action_menu_advanced_screen_gesture | Action_reset_config_screen_gesture
  | Action_home_screen_gesture | Action_about_screen_gesture
  | Action_reset_config | Action_dhcpc | Action_reboot

section \<open>Calls\<close>

text \<open>A property of a style, as \<^verbatim>\<open>lv_style_set_...\<close> and \<^verbatim>\<open>lv_obj_set_style_...\<close> set it.\<close>

datatype (plugins only: code size) style_prop = Pad_top int | Pad_bottom int | Pad_left int | Pad_right int | Pad_row int
  | Bg_color u32 | Bg_opa int | Border_width int | Radius int | Shadow_width int | Margin_top int
  | Layout_flex | Flex_flow flex_flow | Flex_main_place flex_align | Flex_cross_place flex_align
  | Flex_track_place flex_align | Text_align text_align | Text_font ui_font | Text_color u32 | Text_opa int
  | Align obj_align | Transform_width int | Transform_height int | Opa u8

datatype (plugins only: code size) widget_class = Obj | Label | Image | Button | Spinner

text \<open>The operations on one object that return nothing.\<close>

datatype (plugins only: code size) obj_op =
    Set_pos coord coord
  | Set_size coord coord
  | Set_style style_prop lv_part lv_state
  | Set_scrollbar_mode scrollbar_mode
  | Set_scroll_snap_start
  | Set_scroll_dir lv_dir
  | Add_flag "lv_obj_flag list"
  | Clear_flag "lv_obj_flag list"
  | Add_state lv_state
  | Clear_state lv_state
  | Add_event_cb ui_action lv_event_code
  | Fade_in u32
  | Fade_out u32
  | Set_long_dot
  | Set_src ui_image
  | Set_src_name string
  | Set_anim_params int int

datatype (plugins only: code size) lcall =
    Lv_init
  | Lv_linux_fbdev_create
  | Lv_display_set_resolution lv_obj int int
  | Lv_linux_fbdev_set_file lv_obj string
  | Lv_display_set_rotation lv_obj lv_rotation
  | Lv_evdev_discovery_start
  | Lv_evdev_set_calibration lv_obj int int int int
  | Lv_group_get_default
  | Lv_indev_set_group lv_obj lv_obj
  | Lv_indev_set_display lv_obj lv_obj
  | Lv_indev_add_event_cb lv_obj
  | Lv_indev_get_act
  | Lv_indev_wait_release lv_obj
  | Lv_timer_handler
  | Lv_disp_get_default
  | Lv_theme_default_init lv_obj
  | Lv_disp_set_theme lv_obj lv_obj
  | Lv_scr_load lv_obj
  | Lv_scr_act
  | Lv_create widget_class lv_obj
  | Lv_obj lv_obj obj_op
  | Lv_obj_add_style lv_obj lv_style
  | Lv_obj_remove_style lv_obj lv_style
  | Lv_label_set_text lv_obj string
  | Lv_label_get_text lv_obj
  | Lv_style_malloc
  | Lv_style_init lv_style
  | Lv_style_set lv_style style_prop
  | Lv_obj_report_style_change lv_style
  | Lv_tick_get
  | Lv_tick_elaps u32
  | Lv_version_info
  | Lv_event_code_get_name int
  | Gettimeofday
  | Rpc_handler string "string option"
  | Indev_handler lv_event_code

text \<open>
  The answers: pointers and numbers, texts, the direction of the gesture of an input device, the tick
  counter, the time of day in seconds and microseconds, and the version of the library.
\<close>

record lv_env =
  lptr :: "lcall list \<Rightarrow> nat"
  ltext :: "lcall list \<Rightarrow> string"
  ldir :: "lcall list \<Rightarrow> nat \<Rightarrow> lv_dir"
  ltick :: "lcall list \<Rightarrow> u32"
  ltime :: "lcall list \<Rightarrow> int \<times> int"
  lstart_ok :: "lcall list \<Rightarrow> bool"
  lversion :: "u8 \<times> u8 \<times> u8"

section \<open>What a history has done\<close>

text \<open>The text of a label: the one set last.\<close>

fun label_text :: "lv_obj \<Rightarrow> lcall list \<Rightarrow> string" where
  "label_text ob [] = []"
| "label_text ob (c # h) =
     (case c of Lv_label_set_text ob' t \<Rightarrow> if ob' = ob then t else label_text ob h | _ \<Rightarrow> label_text ob h)"

text \<open>The active screen: the one loaded last.\<close>

fun active_screen :: "lcall list \<Rightarrow> lv_obj" where
  "active_screen [] = 0"
| "active_screen (c # h) = (case c of Lv_scr_load s \<Rightarrow> s | _ \<Rightarrow> active_screen h)"

text \<open>The calls of the RPC handler, oldest first.\<close>

fun rpcs :: "lcall list \<Rightarrow> string list" where
  "rpcs [] = []"
| "rpcs (c # h) = (case c of Rpc_handler m _ \<Rightarrow> rpcs h @ [m] | _ \<Rightarrow> rpcs h)"

text \<open>The objects a history has created.\<close>

fun created :: "lv_env \<Rightarrow> lcall list \<Rightarrow> lv_obj list" where
  "created env [] = []"
| "created env (c # h) = (case c of Lv_create _ _ \<Rightarrow> lptr env (c # h) # created env h | _ \<Rightarrow> created env h)"

section \<open>What the user interface relies on\<close>

definition fresh_objects :: "lv_env \<Rightarrow> bool" where
  "fresh_objects env \<longleftrightarrow>
     (\<forall>k p h. lptr env (Lv_create k p # h) \<noteq> 0 \<and> lptr env (Lv_create k p # h) \<notin> set (created env h))"

definition faithful_labels :: "lv_env \<Rightarrow> bool" where
  "faithful_labels env \<longleftrightarrow> (\<forall>ob h. ltext env (Lv_label_get_text ob # h) = label_text ob h)"

definition faithful_screens :: "lv_env \<Rightarrow> bool" where
  "faithful_screens env \<longleftrightarrow> (\<forall>h. lptr env (Lv_scr_act # h) = active_screen h)"

lemma fresh_objectsD:
  assumes "fresh_objects env"
  shows "lptr env (Lv_create k p # h) \<noteq> 0" and "lptr env (Lv_create k p # h) \<notin> set (created env h)"
  using assms unfolding fresh_objects_def by blast+

text \<open>An environment in which all of this holds: objects are numbered by the length of the history.\<close>

definition sample_lv :: lv_env where
  "sample_lv = \<lparr>lptr = (\<lambda>h. case h of Lv_scr_act # h \<Rightarrow> active_screen h | _ \<Rightarrow> length h),
     ltext = (\<lambda>h. case h of Lv_label_get_text ob # h \<Rightarrow> label_text ob h | _ \<Rightarrow> []),
     ldir = (\<lambda>_ _. LV_DIR_RIGHT), ltick = (\<lambda>h. of_nat (length h)), ltime = (\<lambda>h. (int (length h), 0)),
     lstart_ok = (\<lambda>_. True), lversion = (9, 2, 2)\<rparr>"

lemma created_sample_bound: "p \<in> set (created sample_lv h) \<Longrightarrow> p \<le> length h"
  by (induction h) (auto simp: sample_lv_def le_Suc_eq split: lcall.splits)

lemma sample_lv_ok: "fresh_objects sample_lv" "faithful_labels sample_lv" "faithful_screens sample_lv"
proof -
  show "fresh_objects sample_lv"
    unfolding fresh_objects_def
  proof (intro allI conjI notI)
    fix k p h
    assume "lptr sample_lv (Lv_create k p # h) \<in> set (created sample_lv h)"
    from created_sample_bound [OF this] show False by (simp add: sample_lv_def)
  qed (simp add: sample_lv_def)
qed (simp_all add: sample_lv_def faithful_labels_def faithful_screens_def)

end
