(* ===== verification/Ui_Vars.thy ===== *)
theory Ui_Vars
  imports Lvgl
begin

text \<open>
  \<^verbatim>\<open>eez/src/ui/vars.c\<close>: the four character arrays shown by the screens and their getters and
  setters, which copy with \<^verbatim>\<open>strncpy\<close> and store a final NUL.
\<close>

section \<open>State\<close>

record ui_vars =
  app_version :: "char list"
  system_version :: "char list"
  lvgl_version :: "char list"
  main_screen :: "char list"

definition vars_init :: ui_vars where
  "vars_init = \<lparr>app_version = replicate 100 NUL, system_version = replicate 100 NUL,
     lvgl_version = replicate 32 NUL, main_screen = ''home_screen'' @ replicate 21 NUL\<rparr>"

section \<open>Getters and setters\<close>

text \<open>\<^verbatim>\<open>strncpy(buf, value, n); buf[n - 1] = 0;\<close> for an array of \<open>n\<close> characters.\<close>

definition copy_var :: "char list \<Rightarrow> string \<Rightarrow> char list" where
  "copy_var buf v = (strncpy buf v (length buf))[length buf - 1 := NUL]"

definition get_var_app_version :: "ui_vars \<Rightarrow> string" where
  "get_var_app_version vs = cstr (app_version vs)"

definition get_var_system_version :: "ui_vars \<Rightarrow> string" where
  "get_var_system_version vs = cstr (system_version vs)"

text \<open>\<^verbatim>\<open>sprintf(buf, "%d.%d.%d", ...)\<close>, for version numbers below 256.\<close>

definition version_text :: "u8 \<times> u8 \<times> u8 \<Rightarrow> string" where
  "version_text v = (case v of (a, b, c) \<Rightarrow> fmt_nat (unat a) @ ''.'' @ fmt_nat (unat b) @ ''.'' @ fmt_nat (unat c))"

text \<open>The final store goes to \<^verbatim>\<open>app_version\<close>, as in the source.\<close>

definition get_var_lvgl_version :: "lv_env \<Rightarrow> ui_vars \<Rightarrow> string \<times> ui_vars" where
  "get_var_lvgl_version env vs =
     (let vs = (if lvgl_version vs ! 0 = NUL
                then vs\<lparr>lvgl_version := strncpy (lvgl_version vs) (version_text (lversion env)) 32,
                        app_version := (app_version vs)[31 := NUL]\<rparr>
                else vs)
      in (cstr (lvgl_version vs), vs))"

definition set_var_app_version :: "string \<Rightarrow> ui_vars \<Rightarrow> ui_vars" where
  "set_var_app_version v vs = vs\<lparr>app_version := copy_var (app_version vs) v\<rparr>"

definition set_var_system_version :: "string \<Rightarrow> ui_vars \<Rightarrow> ui_vars" where
  "set_var_system_version v vs = vs\<lparr>system_version := copy_var (system_version vs) v\<rparr>"

definition set_var_lvgl_version :: "string \<Rightarrow> ui_vars \<Rightarrow> ui_vars" where
  "set_var_lvgl_version v vs = vs"

definition set_var_main_screen :: "string \<Rightarrow> ui_vars \<Rightarrow> ui_vars" where
  "set_var_main_screen v vs = vs\<lparr>main_screen := copy_var (main_screen vs) v\<rparr>"

definition get_var_main_screen :: "ui_vars \<Rightarrow> string" where
  "get_var_main_screen vs = cstr (main_screen vs)"

lemmas var_defs = get_var_app_version_def get_var_system_version_def get_var_main_screen_def
  set_var_app_version_def set_var_system_version_def set_var_lvgl_version_def set_var_main_screen_def

section \<open>The arrays stay terminated\<close>

definition terminated :: "char list \<Rightarrow> bool" where
  "terminated buf \<longleftrightarrow> buf \<noteq> [] \<and> last buf = NUL"

definition vars_ok :: "ui_vars \<Rightarrow> bool" where
  "vars_ok vs \<longleftrightarrow> length (app_version vs) = 100 \<and> length (system_version vs) = 100 \<and>
     length (lvgl_version vs) = 32 \<and> length (main_screen vs) = 32 \<and>
     terminated (app_version vs) \<and> terminated (system_version vs) \<and> terminated (lvgl_version vs) \<and>
     terminated (main_screen vs)"

lemma length_copy_var [simp]: "length (copy_var buf v) = length buf"
  by (simp add: copy_var_def)

lemma terminated_copy_var: "buf \<noteq> [] \<Longrightarrow> terminated (copy_var buf v)"
  by (auto simp: copy_var_def terminated_def last_list_update strncpy_def)

lemma cstr_copy_var:
  assumes "NUL \<notin> set v" "buf \<noteq> []"
  shows "cstr (copy_var buf v) = take (length buf - 1) v"
proof -
  have "cstr (copy_var buf v) = take (length buf - 1) (cstr (strncpy buf v (length buf)))"
    using assms(2) unfolding copy_var_def by (intro cstr_update) simp
  also have "\<dots> = take (length buf - 1) v"
    using cstr_strncpy [OF assms(1), of buf "length buf"] by (simp add: cstr_def)
  finally show ?thesis .
qed

lemma fmt_nat_byte: "n < 256 \<Longrightarrow> length (fmt_nat n) \<le> 3"
  by (subst fmt_nat.simps, subst fmt_nat.simps, subst fmt_nat.simps) auto

lemma fmt_nat_digits: "c \<in> set (fmt_nat n) \<Longrightarrow> \<exists>d<(10::nat). c = char_of (48 + d)"
proof (induction n rule: fmt_nat.induct)
  case (1 n)
  show ?case
  proof (cases "n < 10")
    case True
    with 1(2) have "c = char_of (48 + n)" by (subst (asm) fmt_nat.simps) simp
    with True show ?thesis by blast
  next
    case False
    with 1(2) consider "c \<in> set (fmt_nat (n div 10))" | "c = char_of (48 + n mod 10)"
      by (subst (asm) (1) fmt_nat.simps) auto
    then show ?thesis
      by cases (use 1(1) False in blast, rule exI [of _ "n mod 10"], simp)
  qed
qed

lemma digit_not_NUL: "d < 10 \<Longrightarrow> char_of (48 + d) \<noteq> NUL" for d :: nat
proof
  assume "d < 10" "char_of (48 + d) = NUL"
  then have "of_char (char_of (48 + d) :: char) = (of_char NUL :: nat)" by simp
  with \<open>d < 10\<close> show False by (simp add: of_char_of NUL_def)
qed

lemma NUL_notin_fmt_nat: "NUL \<notin> set (fmt_nat n)"
  using fmt_nat_digits [of NUL n] digit_not_NUL by metis

lemma fmt_nat_not_Nil: "fmt_nat n \<noteq> []"
  by (subst fmt_nat.simps) simp

lemma version_text_ok:
  "NUL \<notin> set (version_text v)" "length (version_text v) \<le> 11" "version_text v \<noteq> []"
proof -
  obtain a b c where v: "v = (a, b, c)" by (cases v) auto
  have "unat a < 256" "unat b < 256" "unat c < 256"
    using unsigned_less [of a, where ?'a = nat] unsigned_less [of b, where ?'a = nat]
      unsigned_less [of c, where ?'a = nat] by auto
  from this [THEN fmt_nat_byte] show "length (version_text v) \<le> 11"
    by (simp add: v version_text_def)
  show "NUL \<notin> set (version_text v)" "version_text v \<noteq> []"
    using NUL_notin_fmt_nat by (auto simp: v version_text_def fmt_nat_not_Nil) (simp add: NUL_def)
qed

section \<open>Stated properties\<close>

text \<open>A variable of the display holds what was stored: after a set the getter returns the value, cut
  to the 99 or 31 characters the array has room for, the other variables keep their values, and every array
  keeps its length and its final NUL, so no getter reads past an array.\<close>

theorem vars_set_get:
  assumes "vars_ok vs" "NUL \<notin> set v"
  shows "get_var_app_version (set_var_app_version v vs) = take 99 v \<and>
    get_var_system_version (set_var_system_version v vs) = take 99 v \<and>
    get_var_main_screen (set_var_main_screen v vs) = take 31 v \<and>
    get_var_app_version (set_var_system_version v (set_var_main_screen w vs)) = get_var_app_version vs \<and>
    get_var_system_version (set_var_app_version v (set_var_main_screen w vs)) = get_var_system_version vs \<and>
    get_var_main_screen (set_var_app_version v (set_var_system_version w vs)) = get_var_main_screen vs \<and>
    vars_ok (set_var_app_version v vs) \<and> vars_ok (set_var_system_version v vs) \<and>
    vars_ok (set_var_lvgl_version v vs) \<and> vars_ok (set_var_main_screen v vs)"
proof -
  have ne: "app_version vs \<noteq> []" "system_version vs \<noteq> []" "main_screen vs \<noteq> []"
    using assms(1) by (auto simp: vars_ok_def)
  then show ?thesis
    using assms by (simp add: var_defs cstr_copy_var vars_ok_def terminated_copy_var)
qed

lemma vars_init_ok: "vars_ok vars_init"
  by (simp add: vars_ok_def vars_init_def terminated_def)

theorem vars_set_get_witness:
  "get_var_app_version (set_var_app_version ''0.5.1'' vars_init) = ''0.5.1''"
  using vars_set_get [OF vars_init_ok, of "''0.5.1''"] by (simp add: NUL_def)

lemma get_lvgl_version_first:
  assumes "vars_ok vs" "lvgl_version vs ! 0 = NUL"
  shows "\<exists>vs'. get_var_lvgl_version env vs = (version_text (lversion env), vs') \<and> vars_ok vs' \<and>
      get_var_app_version vs' = take 31 (get_var_app_version vs) \<and>
      get_var_system_version vs' = get_var_system_version vs \<and>
      get_var_main_screen vs' = get_var_main_screen vs \<and>
      get_var_lvgl_version env vs' = (version_text (lversion env), vs') \<and> lvgl_version vs' ! 0 \<noteq> NUL \<and>
      cstr (lvgl_version vs') = version_text (lversion env)"
proof -
  note t = version_text_ok [of "lversion env"]
  let ?b = "strncpy (lvgl_version vs) (version_text (lversion env)) 32"
  let ?vs = "vs\<lparr>lvgl_version := ?b, app_version := (app_version vs)[31 := NUL]\<rparr>"
  have c: "cstr ?b = version_text (lversion env)" using cstr_strncpy [OF t(1)] t(2) by simp
  have "?b ! 0 \<noteq> NUL" using c t(3) by (cases ?b) (auto simp: cstr_def split: if_splits)
  moreover have "terminated ?b" using t(2) assms(1)
    by (auto simp: terminated_def strncpy_def vars_ok_def last_append)
  moreover have "terminated ((app_version vs)[31 := NUL])" using assms(1)
    by (simp add: terminated_def vars_ok_def last_list_update)
  ultimately show ?thesis using c assms
    by (simp add: get_var_lvgl_version_def var_defs vars_ok_def cstr_update Let_def)
qed

text \<open>The LVGL version is formatted on first use and never changes afterwards, but the first use stores
  its terminator into the wrong array: it cuts the application version to 31 characters, and leaves the
  other variables alone.\<close>

theorem lvgl_version_truncates_app:
  assumes "vars_ok vs" "lvgl_version vs ! 0 = NUL"
  shows "\<exists>vs'. get_var_lvgl_version env vs = (version_text (lversion env), vs') \<and> vars_ok vs' \<and>
      get_var_app_version vs' = take 31 (get_var_app_version vs) \<and>
      get_var_system_version vs' = get_var_system_version vs \<and>
      get_var_main_screen vs' = get_var_main_screen vs \<and>
      get_var_lvgl_version env vs' = (version_text (lversion env), vs')"
  using get_lvgl_version_first [OF assms, of env] by blast

theorem lvgl_version_truncates_app_witness:
  "get_var_app_version (snd (get_var_lvgl_version sample_lv (set_var_app_version (replicate 40 (CHR ''x'')) vars_init)))
     = replicate 31 (CHR ''x'')"
proof -
  let ?vs = "set_var_app_version (replicate 40 (CHR ''x'')) vars_init"
  have n: "NUL \<notin> set (replicate 40 (CHR ''x''))" by (simp add: NUL_def)
  have ok: "vars_ok ?vs" using vars_init_ok by (simp add: set_var_app_version_def vars_ok_def terminated_copy_var)
      (auto simp: vars_init_def intro!: terminated_copy_var)
  have "lvgl_version ?vs ! 0 = NUL" by (simp add: set_var_app_version_def vars_init_def)
  from lvgl_version_truncates_app [OF ok this, of sample_lv] show ?thesis
    by (auto simp: set_var_app_version_def get_var_app_version_def cstr_copy_var [OF n] vars_init_def)
qed

end
