(* ===== verification/Log.thy ===== *)
theory Log
  imports C_Lib
begin

text \<open>
  The log macros of \<^verbatim>\<open>internal/native/cgo/log.h\<close> and the handler of \<^verbatim>\<open>log_handler.c\<close>. A message is
  formatted with \<^verbatim>\<open>sprintf\<close> into an array of 1024 characters; a longer one writes past the array,
  which the field \<open>smashed\<close> records.
\<close>

section \<open>Levels\<close>

definition LEVEL_PANIC :: int where "LEVEL_PANIC = 5"
definition LEVEL_FATAL :: int where "LEVEL_FATAL = 4"
definition LEVEL_ERROR :: int where "LEVEL_ERROR = 3"
definition LEVEL_WARN :: int where "LEVEL_WARN = 2"
definition LEVEL_INFO :: int where "LEVEL_INFO = 1"
definition LEVEL_DEBUG :: int where "LEVEL_DEBUG = 0"
definition LEVEL_TRACE :: int where "LEVEL_TRACE = -1"
definition LOG_LEVEL :: int where "LOG_LEVEL = LEVEL_INFO"

lemmas level_defs = LEVEL_PANIC_def LEVEL_FATAL_def LEVEL_ERROR_def LEVEL_WARN_def LEVEL_INFO_def
  LEVEL_DEBUG_def LEVEL_TRACE_def LOG_LEVEL_def

section \<open>The handler\<close>

text \<open>One call of the handler: level, file, function, line and message.\<close>

record log_entry =
  log_level :: int
  log_file :: string
  log_func :: string
  log_line :: int
  log_text :: string

record logger =
  log_handler :: bool
  logged :: "log_entry list"
  smashed :: bool

definition logger_init :: logger where
  "logger_init = \<lparr>log_handler = False, logged = [], smashed = False\<rparr>"

definition log_message :: "int \<Rightarrow> string \<Rightarrow> string \<Rightarrow> int \<Rightarrow> string \<Rightarrow> logger \<Rightarrow> logger" where
  "log_message level filename funcname line msg l =
     (if log_handler l
      then l\<lparr>logged := \<lparr>log_level = level, log_file = filename, log_func = funcname, log_line = line, log_text = msg\<rparr>
                       # logged l\<rparr>
      else l)"

definition log_set_handler :: "bool \<Rightarrow> logger \<Rightarrow> logger" where
  "log_set_handler handler l = l\<lparr>log_handler := handler\<rparr>"

section \<open>The macros\<close>

text \<open>\<^verbatim>\<open>__FILENAME__\<close>: what follows the last slash of the path.\<close>

definition FILENAME :: "string \<Rightarrow> string" where
  "FILENAME path = (if CHR ''/'' \<in> set path then rev (takeWhile (\<lambda>c. c \<noteq> CHR ''/'') (rev path)) else path)"

definition emit_log :: "int \<Rightarrow> string \<Rightarrow> string \<Rightarrow> int \<Rightarrow> string \<Rightarrow> logger \<Rightarrow> logger" where
  "emit_log level filename funcname line msg l =
     (let l = (if length msg < 1024 then l else l\<lparr>smashed := True\<rparr>)
      in log_message level filename funcname line msg l)"

definition log_trace :: "string \<Rightarrow> string \<Rightarrow> int \<Rightarrow> string \<Rightarrow> logger \<Rightarrow> logger" where
  "log_trace path func line msg l =
     (if LOG_LEVEL \<le> LEVEL_TRACE then emit_log LEVEL_TRACE (FILENAME path) func line msg l else l)"

definition log_debug :: "string \<Rightarrow> string \<Rightarrow> int \<Rightarrow> string \<Rightarrow> logger \<Rightarrow> logger" where
  "log_debug path func line msg l =
     (if LOG_LEVEL \<le> LEVEL_DEBUG then emit_log LEVEL_DEBUG (FILENAME path) func line msg l else l)"

definition log_info :: "string \<Rightarrow> string \<Rightarrow> int \<Rightarrow> string \<Rightarrow> logger \<Rightarrow> logger" where
  "log_info path func line msg l =
     (if LOG_LEVEL \<le> LEVEL_INFO then emit_log LEVEL_INFO (FILENAME path) func line msg l else l)"

definition log_notice :: "string \<Rightarrow> string \<Rightarrow> int \<Rightarrow> string \<Rightarrow> logger \<Rightarrow> logger" where
  "log_notice path func line msg l =
     (if LOG_LEVEL \<le> LEVEL_INFO then emit_log LEVEL_INFO (FILENAME path) func line msg l else l)"

definition log_warn :: "string \<Rightarrow> string \<Rightarrow> int \<Rightarrow> string \<Rightarrow> logger \<Rightarrow> logger" where
  "log_warn path func line msg l =
     (if LOG_LEVEL \<le> LEVEL_WARN then emit_log LEVEL_WARN (FILENAME path) func line msg l else l)"

definition log_error :: "string \<Rightarrow> string \<Rightarrow> int \<Rightarrow> string \<Rightarrow> logger \<Rightarrow> logger" where
  "log_error path func line msg l =
     (if LOG_LEVEL \<le> LEVEL_ERROR then emit_log LEVEL_ERROR (FILENAME path) func line msg l else l)"

definition log_panic :: "string \<Rightarrow> string \<Rightarrow> int \<Rightarrow> string \<Rightarrow> logger \<Rightarrow> logger" where
  "log_panic path func line msg l =
     (if LOG_LEVEL \<le> LEVEL_PANIC then emit_log LEVEL_PANIC (FILENAME path) func line msg l else l)"

lemmas log_macro_defs = log_trace_def log_debug_def log_info_def log_notice_def log_warn_def log_error_def
  log_panic_def

section \<open>Facts for the callers\<close>

text \<open>Messages that were formatted within the array keep \<open>smashed\<close> as it was.\<close>

lemma smashed_log [simp]:
  "smashed (log_trace p f n m l) = smashed l"
  "smashed (log_debug p f n m l) = smashed l"
  "smashed (log_info p f n m l) = (smashed l \<or> 1024 \<le> length m)"
  "smashed (log_warn p f n m l) = (smashed l \<or> 1024 \<le> length m)"
  "smashed (log_error p f n m l) = (smashed l \<or> 1024 \<le> length m)"
  by (auto simp: log_macro_defs level_defs emit_log_def log_message_def Let_def)

lemma FILENAME_no_slash: "CHR ''/'' \<notin> set (FILENAME path)"
  by (auto simp: FILENAME_def dest: set_takeWhileD)

section \<open>Stated properties\<close>

text \<open>The log level filter: trace and debug messages never reach the handler and are not even formatted;
  an info, warning, error or panic message calls the handler exactly once, when one is set, with its level, the
  file name without directories, and its text; the array the text is formatted into is overrun exactly when the
  text has 1024 characters or more.\<close>

theorem log_filter:
  "log_trace p f n m l = l \<and> log_debug p f n m l = l \<and>
   map log_level (logged (log_info p f n m l)) = (if log_handler l then [LEVEL_INFO] else []) @ map log_level (logged l) \<and>
   map log_level (logged (log_warn p f n m l)) = (if log_handler l then [LEVEL_WARN] else []) @ map log_level (logged l) \<and>
   map log_level (logged (log_panic p f n m l)) = (if log_handler l then [LEVEL_PANIC] else []) @ map log_level (logged l) \<and>
   logged (log_error p f n m l) =
     (if log_handler l
      then [\<lparr>log_level = LEVEL_ERROR, log_file = FILENAME p, log_func = f, log_line = n, log_text = m\<rparr>] else []) @ logged l \<and>
   CHR ''/'' \<notin> set (FILENAME p) \<and>
   smashed (log_error p f n m l) = (smashed l \<or> 1024 \<le> length m)"
  using FILENAME_no_slash [of p] by (simp add: log_macro_defs level_defs emit_log_def log_message_def Let_def)

end
