(* ===== verification/Ui_Core.thy ===== *)
theory Ui_Core
  imports Ui_Vars Log
begin

text \<open>
  The state of the user interface: the variables of \<^verbatim>\<open>ui.c\<close>, \<^verbatim>\<open>actions.c\<close>, \<^verbatim>\<open>screens.c\<close>, \<^verbatim>\<open>styles.c\<close>,
  \<^verbatim>\<open>screen.c\<close> and the handlers of \<^verbatim>\<open>ctrl.c\<close>, with the history of LVGL calls; how a call is made; and
  which calls leave labels, screens and objects alone.
\<close>

section \<open>State\<close>

datatype (plugins only: code size) ui_style =
    Flex_column_space_between
  | Flex_center
  | Flex_start
  | Flow_row_space_between
  | Flow_row_start_center
  | Flex_column_start
  | Flex_screen
  | Flex_screen_menu
  | Label_font16
  | Label_font_bold30
  | Header_link
  | Menu_button
  | Menu_button_label
  | Info_headline_label
  | Info_content_label
  | Back_button

text \<open>The buttons that act when held: the three groups of static variables of \<^verbatim>\<open>actions.c\<close>.\<close>

datatype hold_id = Hold_reset_config | Hold_reboot | Hold_dhcpc

record hold =
  start_time :: u32
  completed :: bool
  lock :: bool

text \<open>
  \<open>objects\<close> is the structure of \<^verbatim>\<open>screens.h\<close> by field name. \<open>style_ptr\<close> holds the static pointer of each
  style getter. The handlers are known by whether they are set.
\<close>

record ui =
  objects :: "string \<Rightarrow> lv_obj"
  tick_value_change_obj :: lv_obj
  style_ptr :: "ui_style \<Rightarrow> lv_style"
  vars :: ui_vars
  currentScreen :: int
  holds :: "hold_id \<Rightarrow> hold"
  ui_rpc_handler :: bool
  rpc_handler :: bool
  disp :: lv_obj
  touch_indev :: lv_obj
  indev_handler :: bool
  jetkvm_indev_handler :: bool
  current_rotation :: u16
  start_ms :: u64
  logs :: logger
  lcalls :: "lcall list"

definition ui_globals :: ui where
  "ui_globals = \<lparr>objects = (\<lambda>_. 0), tick_value_change_obj = 0, style_ptr = (\<lambda>_. 0), vars = vars_init, currentScreen = -1,
     holds = (\<lambda>_. \<lparr>start_time = 0, completed = False, lock = False\<rparr>), ui_rpc_handler = False, rpc_handler = False,
     disp = 0, touch_indev = 0, indev_handler = False, jetkvm_indev_handler = False, current_rotation = 270, start_ms = 0,
     logs = logger_init, lcalls = []\<rparr>"

section \<open>Calls\<close>

definition lrun :: "lcall \<Rightarrow> ui \<Rightarrow> ui" where
  "lrun c u = u\<lparr>lcalls := c # lcalls u\<rparr>"

definition lask :: "lv_env \<Rightarrow> lcall \<Rightarrow> ui \<Rightarrow> nat \<times> ui" where
  "lask env c u = (lptr env (c # lcalls u), lrun c u)"

lemma lrun_lcalls [simp]: "lcalls (lrun c u) = c # lcalls u"
  by (simp add: lrun_def)

lemma lrun_sel [simp]:
  "objects (lrun c u) = objects u" "style_ptr (lrun c u) = style_ptr u" "vars (lrun c u) = vars u"
  "currentScreen (lrun c u) = currentScreen u" "holds (lrun c u) = holds u"
  "ui_rpc_handler (lrun c u) = ui_rpc_handler u" "rpc_handler (lrun c u) = rpc_handler u" "logs (lrun c u) = logs u"
  "disp (lrun c u) = disp u" "touch_indev (lrun c u) = touch_indev u" "current_rotation (lrun c u) = current_rotation u"
  "tick_value_change_obj (lrun c u) = tick_value_change_obj u" "start_ms (lrun c u) = start_ms u"
  by (simp_all add: lrun_def)

section \<open>Calls that leave the labels, the screens and the objects alone\<close>

definition neutral :: "lcall \<Rightarrow> bool" where
  "neutral c = (case c of Lv_create _ _ \<Rightarrow> False | Lv_label_set_text _ _ \<Rightarrow> False | Lv_scr_load _ \<Rightarrow> False
     | Rpc_handler _ _ \<Rightarrow> False | Lv_evdev_set_calibration _ _ _ _ _ \<Rightarrow> False | Lv_display_set_rotation _ _ \<Rightarrow> False | _ \<Rightarrow> True)"

lemma neutral_calls [simp]:
  "neutral (Lv_obj ob x)" "neutral (Lv_obj_add_style ob y)" "neutral (Lv_obj_remove_style ob y)"
  "neutral Lv_style_malloc" "neutral (Lv_style_init y)" "neutral (Lv_style_set y p)"
  "neutral (Lv_label_get_text ob)" "neutral Lv_scr_act" "neutral Lv_tick_get" "neutral (Lv_tick_elaps n)" "neutral Lv_indev_get_act"
  "neutral (Lv_indev_wait_release d)" "neutral Lv_disp_get_default" "neutral (Lv_theme_default_init d)"
  "neutral (Lv_disp_set_theme d th)" "neutral (Lv_obj_report_style_change y)" "neutral Lv_timer_handler"
  by (simp_all add: neutral_def)

lemma neutral_step:
  assumes "neutral c"
  shows "created env (c # h) = created env h" "label_text ob (c # h) = label_text ob h"
    "active_screen (c # h) = active_screen h" "rpcs (c # h) = rpcs h"
  using assms by (cases c; simp add: neutral_def)+

lemma neutral_append:
  assumes "list_all neutral cs"
  shows "created env (cs @ h) = created env h" "label_text ob (cs @ h) = label_text ob h"
    "active_screen (cs @ h) = active_screen h" "rpcs (cs @ h) = rpcs h"
  using assms by (induction cs) (simp_all add: neutral_step del: created.simps label_text.simps active_screen.simps rpcs.simps)

section \<open>Values computed on first use\<close>

text \<open>
  The contract of a getter that computes its value when first called and returns the stored one
  afterwards: \<open>isset\<close> says whether the value is stored, \<open>cell\<close> is the stored value, and \<open>can\<close> that
  computing it succeeds.
\<close>

locale memo_cell =
  fixes get :: "'s \<Rightarrow> 'v \<times> 's" and cell :: "'s \<Rightarrow> 'v" and isset :: "'s \<Rightarrow> bool" and can :: "'s \<Rightarrow> bool" and inv :: "'s \<Rightarrow> bool"
  assumes hit: "inv s \<Longrightarrow> isset s \<Longrightarrow> get s = (cell s, s)"
    and miss: "inv s \<Longrightarrow> \<not> isset s \<Longrightarrow> can s \<Longrightarrow>
      isset (snd (get s)) \<and> cell (snd (get s)) = fst (get s) \<and> inv (snd (get s))"
begin

lemma get_sets: "inv s \<Longrightarrow> isset s \<or> can s \<Longrightarrow> isset (snd (get s)) \<and> cell (snd (get s)) = fst (get s) \<and> inv (snd (get s))"
  by (cases "isset s") (auto simp: hit dest: miss)

lemma get_twice: "inv s \<Longrightarrow> isset s \<or> can s \<Longrightarrow> get (snd (get s)) = (fst (get s), snd (get s))"
  using get_sets [of s] hit [of "snd (get s)"] by simp

end

interpretation lvgl_version_cell: memo_cell "get_var_lvgl_version env" "\<lambda>vs. cstr (lvgl_version vs)"
  "\<lambda>vs. lvgl_version vs ! 0 \<noteq> NUL" "\<lambda>_. True" vars_ok for env
proof
  fix vs
  assume "vars_ok vs" "\<not> lvgl_version vs ! 0 \<noteq> NUL"
  then have "vars_ok vs" "lvgl_version vs ! 0 = NUL" by simp_all
  from get_lvgl_version_first [OF this, of env]
  show "lvgl_version (snd (get_var_lvgl_version env vs)) ! 0 \<noteq> NUL \<and>
    cstr (lvgl_version (snd (get_var_lvgl_version env vs))) = fst (get_var_lvgl_version env vs) \<and>
    vars_ok (snd (get_var_lvgl_version env vs))" by auto
qed (simp add: get_var_lvgl_version_def)

end
