(* ===== verification/Ui_Styles.thy ===== *)
theory Ui_Styles
  imports Ui_Core
begin

text \<open>
  \<^verbatim>\<open>eez/src/ui/styles.c\<close>: sixteen styles, each allocated and initialised when first asked for, and the
  functions that add a style to an object or remove it.
\<close>

section \<open>The common parts\<close>

definition style_set :: "lv_style \<Rightarrow> style_prop list \<Rightarrow> ui \<Rightarrow> ui" where
  "style_set style ps u = fold (\<lambda>p. lrun (Lv_style_set style p)) ps u"

text \<open>
  The body every getter has: \<^verbatim>\<open>static lv_style_t *style; if (!style) { style = lv_malloc(...);
  lv_style_init(style); init_style_...(style); } return style;\<close>
\<close>

definition lazy_style :: "lv_env \<Rightarrow> ui_style \<Rightarrow> (lv_style \<Rightarrow> ui \<Rightarrow> ui) \<Rightarrow> ui \<Rightarrow> lv_style \<times> ui" where
  "lazy_style env k init u =
     (let u = (if style_ptr u k = 0
               then (case lask env Lv_style_malloc u of (style, u) \<Rightarrow>
                       init style (lrun (Lv_style_init style) (u\<lparr>style_ptr := (style_ptr u)(k := style)\<rparr>)))
               else u)
      in (style_ptr u k, u))"

section \<open>The sixteen styles\<close>

subsection \<open>flex column space between\<close>

definition init_style_flex_column_space_between_MAIN_DEFAULT :: "lv_style \<Rightarrow> ui \<Rightarrow> ui" where
  "init_style_flex_column_space_between_MAIN_DEFAULT style u =
     style_set style [Flex_flow LV_FLEX_FLOW_COLUMN, Flex_main_place LV_FLEX_ALIGN_SPACE_BETWEEN, Flex_cross_place LV_FLEX_ALIGN_START,
       Flex_track_place LV_FLEX_ALIGN_START, Text_align LV_TEXT_ALIGN_CENTER] u"

definition get_style_flex_column_space_between_MAIN_DEFAULT :: "lv_env \<Rightarrow> ui \<Rightarrow> lv_style \<times> ui" where
  "get_style_flex_column_space_between_MAIN_DEFAULT env u = lazy_style env Flex_column_space_between init_style_flex_column_space_between_MAIN_DEFAULT u"

definition add_style_flex_column_space_between :: "lv_env \<Rightarrow> lv_obj \<Rightarrow> ui \<Rightarrow> ui" where
  "add_style_flex_column_space_between env ob u = (case get_style_flex_column_space_between_MAIN_DEFAULT env u of (style, u) \<Rightarrow> lrun (Lv_obj_add_style ob style) u)"

definition remove_style_flex_column_space_between :: "lv_env \<Rightarrow> lv_obj \<Rightarrow> ui \<Rightarrow> ui" where
  "remove_style_flex_column_space_between env ob u = (case get_style_flex_column_space_between_MAIN_DEFAULT env u of (style, u) \<Rightarrow> lrun (Lv_obj_remove_style ob style) u)"

subsection \<open>flex center\<close>

definition init_style_flex_center_MAIN_DEFAULT :: "lv_style \<Rightarrow> ui \<Rightarrow> ui" where
  "init_style_flex_center_MAIN_DEFAULT style u =
     style_set style [Layout_flex, Flex_flow LV_FLEX_FLOW_COLUMN, Flex_main_place LV_FLEX_ALIGN_CENTER,
       Flex_cross_place LV_FLEX_ALIGN_CENTER, Flex_track_place LV_FLEX_ALIGN_CENTER] u"

definition get_style_flex_center_MAIN_DEFAULT :: "lv_env \<Rightarrow> ui \<Rightarrow> lv_style \<times> ui" where
  "get_style_flex_center_MAIN_DEFAULT env u = lazy_style env Flex_center init_style_flex_center_MAIN_DEFAULT u"

definition add_style_flex_center :: "lv_env \<Rightarrow> lv_obj \<Rightarrow> ui \<Rightarrow> ui" where
  "add_style_flex_center env ob u = (case get_style_flex_center_MAIN_DEFAULT env u of (style, u) \<Rightarrow> lrun (Lv_obj_add_style ob style) u)"

definition remove_style_flex_center :: "lv_env \<Rightarrow> lv_obj \<Rightarrow> ui \<Rightarrow> ui" where
  "remove_style_flex_center env ob u = (case get_style_flex_center_MAIN_DEFAULT env u of (style, u) \<Rightarrow> lrun (Lv_obj_remove_style ob style) u)"

subsection \<open>flex start\<close>

definition init_style_flex_start_MAIN_DEFAULT :: "lv_style \<Rightarrow> ui \<Rightarrow> ui" where
  "init_style_flex_start_MAIN_DEFAULT style u =
     style_set style [Layout_flex, Flex_flow LV_FLEX_FLOW_COLUMN, Flex_main_place LV_FLEX_ALIGN_START,
       Flex_cross_place LV_FLEX_ALIGN_START, Flex_track_place LV_FLEX_ALIGN_START] (init_style_flex_center_MAIN_DEFAULT style u)"

definition get_style_flex_start_MAIN_DEFAULT :: "lv_env \<Rightarrow> ui \<Rightarrow> lv_style \<times> ui" where
  "get_style_flex_start_MAIN_DEFAULT env u = lazy_style env Flex_start init_style_flex_start_MAIN_DEFAULT u"

definition add_style_flex_start :: "lv_env \<Rightarrow> lv_obj \<Rightarrow> ui \<Rightarrow> ui" where
  "add_style_flex_start env ob u = (case get_style_flex_start_MAIN_DEFAULT env u of (style, u) \<Rightarrow> lrun (Lv_obj_add_style ob style) u)"

definition remove_style_flex_start :: "lv_env \<Rightarrow> lv_obj \<Rightarrow> ui \<Rightarrow> ui" where
  "remove_style_flex_start env ob u = (case get_style_flex_start_MAIN_DEFAULT env u of (style, u) \<Rightarrow> lrun (Lv_obj_remove_style ob style) u)"

subsection \<open>flow row space between\<close>

definition init_style_flow_row_space_between_MAIN_DEFAULT :: "lv_style \<Rightarrow> ui \<Rightarrow> ui" where
  "init_style_flow_row_space_between_MAIN_DEFAULT style u =
     style_set style [Layout_flex, Flex_flow LV_FLEX_FLOW_ROW, Flex_main_place LV_FLEX_ALIGN_SPACE_BETWEEN,
       Flex_cross_place LV_FLEX_ALIGN_CENTER, Flex_track_place LV_FLEX_ALIGN_START] (init_style_flex_center_MAIN_DEFAULT style u)"

definition get_style_flow_row_space_between_MAIN_DEFAULT :: "lv_env \<Rightarrow> ui \<Rightarrow> lv_style \<times> ui" where
  "get_style_flow_row_space_between_MAIN_DEFAULT env u = lazy_style env Flow_row_space_between init_style_flow_row_space_between_MAIN_DEFAULT u"

definition add_style_flow_row_space_between :: "lv_env \<Rightarrow> lv_obj \<Rightarrow> ui \<Rightarrow> ui" where
  "add_style_flow_row_space_between env ob u = (case get_style_flow_row_space_between_MAIN_DEFAULT env u of (style, u) \<Rightarrow> lrun (Lv_obj_add_style ob style) u)"

definition remove_style_flow_row_space_between :: "lv_env \<Rightarrow> lv_obj \<Rightarrow> ui \<Rightarrow> ui" where
  "remove_style_flow_row_space_between env ob u = (case get_style_flow_row_space_between_MAIN_DEFAULT env u of (style, u) \<Rightarrow> lrun (Lv_obj_remove_style ob style) u)"

subsection \<open>flow row start center\<close>

definition init_style_flow_row_start_center_MAIN_DEFAULT :: "lv_style \<Rightarrow> ui \<Rightarrow> ui" where
  "init_style_flow_row_start_center_MAIN_DEFAULT style u =
     style_set style [Layout_flex, Flex_flow LV_FLEX_FLOW_ROW, Flex_main_place LV_FLEX_ALIGN_START,
       Flex_cross_place LV_FLEX_ALIGN_CENTER, Flex_track_place LV_FLEX_ALIGN_START] (init_style_flow_row_space_between_MAIN_DEFAULT style u)"

definition get_style_flow_row_start_center_MAIN_DEFAULT :: "lv_env \<Rightarrow> ui \<Rightarrow> lv_style \<times> ui" where
  "get_style_flow_row_start_center_MAIN_DEFAULT env u = lazy_style env Flow_row_start_center init_style_flow_row_start_center_MAIN_DEFAULT u"

definition add_style_flow_row_start_center :: "lv_env \<Rightarrow> lv_obj \<Rightarrow> ui \<Rightarrow> ui" where
  "add_style_flow_row_start_center env ob u = (case get_style_flow_row_start_center_MAIN_DEFAULT env u of (style, u) \<Rightarrow> lrun (Lv_obj_add_style ob style) u)"

definition remove_style_flow_row_start_center :: "lv_env \<Rightarrow> lv_obj \<Rightarrow> ui \<Rightarrow> ui" where
  "remove_style_flow_row_start_center env ob u = (case get_style_flow_row_start_center_MAIN_DEFAULT env u of (style, u) \<Rightarrow> lrun (Lv_obj_remove_style ob style) u)"

subsection \<open>flex column start\<close>

definition init_style_flex_column_start_MAIN_DEFAULT :: "lv_style \<Rightarrow> ui \<Rightarrow> ui" where
  "init_style_flex_column_start_MAIN_DEFAULT style u =
     style_set style [Layout_flex, Flex_flow LV_FLEX_FLOW_COLUMN, Flex_main_place LV_FLEX_ALIGN_START,
       Flex_cross_place LV_FLEX_ALIGN_START, Flex_track_place LV_FLEX_ALIGN_START] (init_style_flow_row_space_between_MAIN_DEFAULT style u)"

definition get_style_flex_column_start_MAIN_DEFAULT :: "lv_env \<Rightarrow> ui \<Rightarrow> lv_style \<times> ui" where
  "get_style_flex_column_start_MAIN_DEFAULT env u = lazy_style env Flex_column_start init_style_flex_column_start_MAIN_DEFAULT u"

definition add_style_flex_column_start :: "lv_env \<Rightarrow> lv_obj \<Rightarrow> ui \<Rightarrow> ui" where
  "add_style_flex_column_start env ob u = (case get_style_flex_column_start_MAIN_DEFAULT env u of (style, u) \<Rightarrow> lrun (Lv_obj_add_style ob style) u)"

definition remove_style_flex_column_start :: "lv_env \<Rightarrow> lv_obj \<Rightarrow> ui \<Rightarrow> ui" where
  "remove_style_flex_column_start env ob u = (case get_style_flex_column_start_MAIN_DEFAULT env u of (style, u) \<Rightarrow> lrun (Lv_obj_remove_style ob style) u)"

subsection \<open>flex screen\<close>

definition init_style_flex_screen_MAIN_DEFAULT :: "lv_style \<Rightarrow> ui \<Rightarrow> ui" where
  "init_style_flex_screen_MAIN_DEFAULT style u =
     style_set style [Pad_top 24, Pad_bottom 24, Pad_left 44,
       Pad_right 24, Pad_row 16, Layout_flex,
       Flex_flow LV_FLEX_FLOW_COLUMN, Flex_main_place LV_FLEX_ALIGN_START, Flex_cross_place LV_FLEX_ALIGN_START,
       Flex_track_place LV_FLEX_ALIGN_START, Bg_color 4278190080] u"

definition get_style_flex_screen_MAIN_DEFAULT :: "lv_env \<Rightarrow> ui \<Rightarrow> lv_style \<times> ui" where
  "get_style_flex_screen_MAIN_DEFAULT env u = lazy_style env Flex_screen init_style_flex_screen_MAIN_DEFAULT u"

definition add_style_flex_screen :: "lv_env \<Rightarrow> lv_obj \<Rightarrow> ui \<Rightarrow> ui" where
  "add_style_flex_screen env ob u = (case get_style_flex_screen_MAIN_DEFAULT env u of (style, u) \<Rightarrow> lrun (Lv_obj_add_style ob style) u)"

definition remove_style_flex_screen :: "lv_env \<Rightarrow> lv_obj \<Rightarrow> ui \<Rightarrow> ui" where
  "remove_style_flex_screen env ob u = (case get_style_flex_screen_MAIN_DEFAULT env u of (style, u) \<Rightarrow> lrun (Lv_obj_remove_style ob style) u)"

subsection \<open>flex screen menu\<close>

definition init_style_flex_screen_menu_MAIN_DEFAULT :: "lv_style \<Rightarrow> ui \<Rightarrow> ui" where
  "init_style_flex_screen_menu_MAIN_DEFAULT style u =
     style_set style [] (init_style_flex_screen_MAIN_DEFAULT style u)"

definition get_style_flex_screen_menu_MAIN_DEFAULT :: "lv_env \<Rightarrow> ui \<Rightarrow> lv_style \<times> ui" where
  "get_style_flex_screen_menu_MAIN_DEFAULT env u = lazy_style env Flex_screen_menu init_style_flex_screen_menu_MAIN_DEFAULT u"

definition add_style_flex_screen_menu :: "lv_env \<Rightarrow> lv_obj \<Rightarrow> ui \<Rightarrow> ui" where
  "add_style_flex_screen_menu env ob u = (case get_style_flex_screen_menu_MAIN_DEFAULT env u of (style, u) \<Rightarrow> lrun (Lv_obj_add_style ob style) u)"

definition remove_style_flex_screen_menu :: "lv_env \<Rightarrow> lv_obj \<Rightarrow> ui \<Rightarrow> ui" where
  "remove_style_flex_screen_menu env ob u = (case get_style_flex_screen_menu_MAIN_DEFAULT env u of (style, u) \<Rightarrow> lrun (Lv_obj_remove_style ob style) u)"

subsection \<open>label font16\<close>

definition init_style_label_font16_MAIN_DEFAULT :: "lv_style \<Rightarrow> ui \<Rightarrow> ui" where
  "init_style_label_font16_MAIN_DEFAULT style u =
     style_set style [Text_align LV_TEXT_ALIGN_CENTER, Text_font Font_book16, Text_color 4294967295] u"

definition get_style_label_font16_MAIN_DEFAULT :: "lv_env \<Rightarrow> ui \<Rightarrow> lv_style \<times> ui" where
  "get_style_label_font16_MAIN_DEFAULT env u = lazy_style env Label_font16 init_style_label_font16_MAIN_DEFAULT u"

definition add_style_label_font16 :: "lv_env \<Rightarrow> lv_obj \<Rightarrow> ui \<Rightarrow> ui" where
  "add_style_label_font16 env ob u = (case get_style_label_font16_MAIN_DEFAULT env u of (style, u) \<Rightarrow> lrun (Lv_obj_add_style ob style) u)"

definition remove_style_label_font16 :: "lv_env \<Rightarrow> lv_obj \<Rightarrow> ui \<Rightarrow> ui" where
  "remove_style_label_font16 env ob u = (case get_style_label_font16_MAIN_DEFAULT env u of (style, u) \<Rightarrow> lrun (Lv_obj_remove_style ob style) u)"

subsection \<open>label font bold30\<close>

definition init_style_label_font_bold30_MAIN_DEFAULT :: "lv_style \<Rightarrow> ui \<Rightarrow> ui" where
  "init_style_label_font_bold30_MAIN_DEFAULT style u =
     style_set style [Text_font Font_bold30] (init_style_label_font16_MAIN_DEFAULT style u)"

definition get_style_label_font_bold30_MAIN_DEFAULT :: "lv_env \<Rightarrow> ui \<Rightarrow> lv_style \<times> ui" where
  "get_style_label_font_bold30_MAIN_DEFAULT env u = lazy_style env Label_font_bold30 init_style_label_font_bold30_MAIN_DEFAULT u"

definition add_style_label_font_bold30 :: "lv_env \<Rightarrow> lv_obj \<Rightarrow> ui \<Rightarrow> ui" where
  "add_style_label_font_bold30 env ob u = (case get_style_label_font_bold30_MAIN_DEFAULT env u of (style, u) \<Rightarrow> lrun (Lv_obj_add_style ob style) u)"

definition remove_style_label_font_bold30 :: "lv_env \<Rightarrow> lv_obj \<Rightarrow> ui \<Rightarrow> ui" where
  "remove_style_label_font_bold30 env ob u = (case get_style_label_font_bold30_MAIN_DEFAULT env u of (style, u) \<Rightarrow> lrun (Lv_obj_remove_style ob style) u)"

subsection \<open>header link\<close>

definition init_style_header_link_MAIN_DEFAULT :: "lv_style \<Rightarrow> ui \<Rightarrow> ui" where
  "init_style_header_link_MAIN_DEFAULT style u =
     style_set style [Text_color 4280110808, Text_opa 255, Text_font Font_book20,
       Text_align LV_TEXT_ALIGN_CENTER] (init_style_label_font16_MAIN_DEFAULT style u)"

definition get_style_header_link_MAIN_DEFAULT :: "lv_env \<Rightarrow> ui \<Rightarrow> lv_style \<times> ui" where
  "get_style_header_link_MAIN_DEFAULT env u = lazy_style env Header_link init_style_header_link_MAIN_DEFAULT u"

definition add_style_header_link :: "lv_env \<Rightarrow> lv_obj \<Rightarrow> ui \<Rightarrow> ui" where
  "add_style_header_link env ob u = (case get_style_header_link_MAIN_DEFAULT env u of (style, u) \<Rightarrow> lrun (Lv_obj_add_style ob style) u)"

definition remove_style_header_link :: "lv_env \<Rightarrow> lv_obj \<Rightarrow> ui \<Rightarrow> ui" where
  "remove_style_header_link env ob u = (case get_style_header_link_MAIN_DEFAULT env u of (style, u) \<Rightarrow> lrun (Lv_obj_remove_style ob style) u)"

subsection \<open>menu button\<close>

definition init_style_menu_button_MAIN_DEFAULT :: "lv_style \<Rightarrow> ui \<Rightarrow> ui" where
  "init_style_menu_button_MAIN_DEFAULT style u =
     style_set style [Radius 8, Bg_color 4280690214, Bg_opa 255,
       Pad_top 20, Pad_bottom 20, Pad_left 16,
       Pad_right 0, Shadow_width 0] u"

definition get_style_menu_button_MAIN_DEFAULT :: "lv_env \<Rightarrow> ui \<Rightarrow> lv_style \<times> ui" where
  "get_style_menu_button_MAIN_DEFAULT env u = lazy_style env Menu_button init_style_menu_button_MAIN_DEFAULT u"

definition add_style_menu_button :: "lv_env \<Rightarrow> lv_obj \<Rightarrow> ui \<Rightarrow> ui" where
  "add_style_menu_button env ob u = (case get_style_menu_button_MAIN_DEFAULT env u of (style, u) \<Rightarrow> lrun (Lv_obj_add_style ob style) u)"

definition remove_style_menu_button :: "lv_env \<Rightarrow> lv_obj \<Rightarrow> ui \<Rightarrow> ui" where
  "remove_style_menu_button env ob u = (case get_style_menu_button_MAIN_DEFAULT env u of (style, u) \<Rightarrow> lrun (Lv_obj_remove_style ob style) u)"

subsection \<open>menu button label\<close>

definition init_style_menu_button_label_MAIN_DEFAULT :: "lv_style \<Rightarrow> ui \<Rightarrow> ui" where
  "init_style_menu_button_label_MAIN_DEFAULT style u =
     style_set style [Align LV_ALIGN_LEFT_MID, Text_font Font_book20, Text_color 4294967295,
       Text_opa 255] u"

definition get_style_menu_button_label_MAIN_DEFAULT :: "lv_env \<Rightarrow> ui \<Rightarrow> lv_style \<times> ui" where
  "get_style_menu_button_label_MAIN_DEFAULT env u = lazy_style env Menu_button_label init_style_menu_button_label_MAIN_DEFAULT u"

definition add_style_menu_button_label :: "lv_env \<Rightarrow> lv_obj \<Rightarrow> ui \<Rightarrow> ui" where
  "add_style_menu_button_label env ob u = (case get_style_menu_button_label_MAIN_DEFAULT env u of (style, u) \<Rightarrow> lrun (Lv_obj_add_style ob style) u)"

definition remove_style_menu_button_label :: "lv_env \<Rightarrow> lv_obj \<Rightarrow> ui \<Rightarrow> ui" where
  "remove_style_menu_button_label env ob u = (case get_style_menu_button_label_MAIN_DEFAULT env u of (style, u) \<Rightarrow> lrun (Lv_obj_remove_style ob style) u)"

subsection \<open>info headline label\<close>

definition init_style_info_headline_label_MAIN_DEFAULT :: "lv_style \<Rightarrow> ui \<Rightarrow> ui" where
  "init_style_info_headline_label_MAIN_DEFAULT style u =
     style_set style [Text_color 4287931320, Text_font Font_book20] u"

definition get_style_info_headline_label_MAIN_DEFAULT :: "lv_env \<Rightarrow> ui \<Rightarrow> lv_style \<times> ui" where
  "get_style_info_headline_label_MAIN_DEFAULT env u = lazy_style env Info_headline_label init_style_info_headline_label_MAIN_DEFAULT u"

definition add_style_info_headline_label :: "lv_env \<Rightarrow> lv_obj \<Rightarrow> ui \<Rightarrow> ui" where
  "add_style_info_headline_label env ob u = (case get_style_info_headline_label_MAIN_DEFAULT env u of (style, u) \<Rightarrow> lrun (Lv_obj_add_style ob style) u)"

definition remove_style_info_headline_label :: "lv_env \<Rightarrow> lv_obj \<Rightarrow> ui \<Rightarrow> ui" where
  "remove_style_info_headline_label env ob u = (case get_style_info_headline_label_MAIN_DEFAULT env u of (style, u) \<Rightarrow> lrun (Lv_obj_remove_style ob style) u)"

subsection \<open>info content label\<close>

definition init_style_info_content_label_MAIN_DEFAULT :: "lv_style \<Rightarrow> ui \<Rightarrow> ui" where
  "init_style_info_content_label_MAIN_DEFAULT style u =
     style_set style [Text_font Font_book18, Text_color 4294967295] u"

definition get_style_info_content_label_MAIN_DEFAULT :: "lv_env \<Rightarrow> ui \<Rightarrow> lv_style \<times> ui" where
  "get_style_info_content_label_MAIN_DEFAULT env u = lazy_style env Info_content_label init_style_info_content_label_MAIN_DEFAULT u"

definition add_style_info_content_label :: "lv_env \<Rightarrow> lv_obj \<Rightarrow> ui \<Rightarrow> ui" where
  "add_style_info_content_label env ob u = (case get_style_info_content_label_MAIN_DEFAULT env u of (style, u) \<Rightarrow> lrun (Lv_obj_add_style ob style) u)"

definition remove_style_info_content_label :: "lv_env \<Rightarrow> lv_obj \<Rightarrow> ui \<Rightarrow> ui" where
  "remove_style_info_content_label env ob u = (case get_style_info_content_label_MAIN_DEFAULT env u of (style, u) \<Rightarrow> lrun (Lv_obj_remove_style ob style) u)"

subsection \<open>back button\<close>

definition init_style_back_button_MAIN_DEFAULT :: "lv_style \<Rightarrow> ui \<Rightarrow> ui" where
  "init_style_back_button_MAIN_DEFAULT style u =
     style_set style [Bg_color 4280690214, Bg_opa 255, Radius 10000,
       Shadow_width 0] u"

definition get_style_back_button_MAIN_DEFAULT :: "lv_env \<Rightarrow> ui \<Rightarrow> lv_style \<times> ui" where
  "get_style_back_button_MAIN_DEFAULT env u = lazy_style env Back_button init_style_back_button_MAIN_DEFAULT u"

definition add_style_back_button :: "lv_env \<Rightarrow> lv_obj \<Rightarrow> ui \<Rightarrow> ui" where
  "add_style_back_button env ob u = (case get_style_back_button_MAIN_DEFAULT env u of (style, u) \<Rightarrow> lrun (Lv_obj_add_style ob style) u)"

definition remove_style_back_button :: "lv_env \<Rightarrow> lv_obj \<Rightarrow> ui \<Rightarrow> ui" where
  "remove_style_back_button env ob u = (case get_style_back_button_MAIN_DEFAULT env u of (style, u) \<Rightarrow> lrun (Lv_obj_remove_style ob style) u)"

definition add_style_funcs :: "(lv_env \<Rightarrow> lv_obj \<Rightarrow> ui \<Rightarrow> ui) list" where
  "add_style_funcs = [add_style_flex_column_space_between,
     add_style_flex_center,
     add_style_flex_start,
     add_style_flow_row_space_between,
     add_style_flow_row_start_center,
     add_style_flex_column_start,
     add_style_flex_screen,
     add_style_flex_screen_menu,
     add_style_label_font16,
     add_style_label_font_bold30,
     add_style_header_link,
     add_style_menu_button,
     add_style_menu_button_label,
     add_style_info_headline_label,
     add_style_info_content_label,
     add_style_back_button]"

definition add_style :: "lv_env \<Rightarrow> lv_obj \<Rightarrow> int \<Rightarrow> ui \<Rightarrow> ui option" where
  "add_style env ob i u =
     (if 0 \<le> i \<and> i < int (length add_style_funcs) then Some ((add_style_funcs ! nat i) env ob u) else None)"

definition remove_style_funcs :: "(lv_env \<Rightarrow> lv_obj \<Rightarrow> ui \<Rightarrow> ui) list" where
  "remove_style_funcs = [remove_style_flex_column_space_between,
     remove_style_flex_center,
     remove_style_flex_start,
     remove_style_flow_row_space_between,
     remove_style_flow_row_start_center,
     remove_style_flex_column_start,
     remove_style_flex_screen,
     remove_style_flex_screen_menu,
     remove_style_label_font16,
     remove_style_label_font_bold30,
     remove_style_header_link,
     remove_style_menu_button,
     remove_style_menu_button_label,
     remove_style_info_headline_label,
     remove_style_info_content_label,
     remove_style_back_button]"

definition remove_style :: "lv_env \<Rightarrow> lv_obj \<Rightarrow> int \<Rightarrow> ui \<Rightarrow> ui option" where
  "remove_style env ob i u =
     (if 0 \<le> i \<and> i < int (length remove_style_funcs) then Some ((remove_style_funcs ! nat i) env ob u) else None)"

text \<open>The functions by the style they belong to.\<close>

definition get_style_of :: "ui_style \<Rightarrow> lv_env \<Rightarrow> ui \<Rightarrow> lv_style \<times> ui" where
  "get_style_of k = (case k of
       Flex_column_space_between \<Rightarrow> get_style_flex_column_space_between_MAIN_DEFAULT
     | Flex_center \<Rightarrow> get_style_flex_center_MAIN_DEFAULT
     | Flex_start \<Rightarrow> get_style_flex_start_MAIN_DEFAULT
     | Flow_row_space_between \<Rightarrow> get_style_flow_row_space_between_MAIN_DEFAULT
     | Flow_row_start_center \<Rightarrow> get_style_flow_row_start_center_MAIN_DEFAULT
     | Flex_column_start \<Rightarrow> get_style_flex_column_start_MAIN_DEFAULT
     | Flex_screen \<Rightarrow> get_style_flex_screen_MAIN_DEFAULT
     | Flex_screen_menu \<Rightarrow> get_style_flex_screen_menu_MAIN_DEFAULT
     | Label_font16 \<Rightarrow> get_style_label_font16_MAIN_DEFAULT
     | Label_font_bold30 \<Rightarrow> get_style_label_font_bold30_MAIN_DEFAULT
     | Header_link \<Rightarrow> get_style_header_link_MAIN_DEFAULT
     | Menu_button \<Rightarrow> get_style_menu_button_MAIN_DEFAULT
     | Menu_button_label \<Rightarrow> get_style_menu_button_label_MAIN_DEFAULT
     | Info_headline_label \<Rightarrow> get_style_info_headline_label_MAIN_DEFAULT
     | Info_content_label \<Rightarrow> get_style_info_content_label_MAIN_DEFAULT
     | Back_button \<Rightarrow> get_style_back_button_MAIN_DEFAULT)"

definition add_style_of :: "ui_style \<Rightarrow> lv_env \<Rightarrow> lv_obj \<Rightarrow> ui \<Rightarrow> ui" where
  "add_style_of k = (case k of
       Flex_column_space_between \<Rightarrow> add_style_flex_column_space_between
     | Flex_center \<Rightarrow> add_style_flex_center
     | Flex_start \<Rightarrow> add_style_flex_start
     | Flow_row_space_between \<Rightarrow> add_style_flow_row_space_between
     | Flow_row_start_center \<Rightarrow> add_style_flow_row_start_center
     | Flex_column_start \<Rightarrow> add_style_flex_column_start
     | Flex_screen \<Rightarrow> add_style_flex_screen
     | Flex_screen_menu \<Rightarrow> add_style_flex_screen_menu
     | Label_font16 \<Rightarrow> add_style_label_font16
     | Label_font_bold30 \<Rightarrow> add_style_label_font_bold30
     | Header_link \<Rightarrow> add_style_header_link
     | Menu_button \<Rightarrow> add_style_menu_button
     | Menu_button_label \<Rightarrow> add_style_menu_button_label
     | Info_headline_label \<Rightarrow> add_style_info_headline_label
     | Info_content_label \<Rightarrow> add_style_info_content_label
     | Back_button \<Rightarrow> add_style_back_button)"

definition remove_style_of :: "ui_style \<Rightarrow> lv_env \<Rightarrow> lv_obj \<Rightarrow> ui \<Rightarrow> ui" where
  "remove_style_of k = (case k of
       Flex_column_space_between \<Rightarrow> remove_style_flex_column_space_between
     | Flex_center \<Rightarrow> remove_style_flex_center
     | Flex_start \<Rightarrow> remove_style_flex_start
     | Flow_row_space_between \<Rightarrow> remove_style_flow_row_space_between
     | Flow_row_start_center \<Rightarrow> remove_style_flow_row_start_center
     | Flex_column_start \<Rightarrow> remove_style_flex_column_start
     | Flex_screen \<Rightarrow> remove_style_flex_screen
     | Flex_screen_menu \<Rightarrow> remove_style_flex_screen_menu
     | Label_font16 \<Rightarrow> remove_style_label_font16
     | Label_font_bold30 \<Rightarrow> remove_style_label_font_bold30
     | Header_link \<Rightarrow> remove_style_header_link
     | Menu_button \<Rightarrow> remove_style_menu_button
     | Menu_button_label \<Rightarrow> remove_style_menu_button_label
     | Info_headline_label \<Rightarrow> remove_style_info_headline_label
     | Info_content_label \<Rightarrow> remove_style_info_content_label
     | Back_button \<Rightarrow> remove_style_back_button)"

definition init_style_of :: "ui_style \<Rightarrow> lv_style \<Rightarrow> ui \<Rightarrow> ui" where
  "init_style_of k = (case k of
       Flex_column_space_between \<Rightarrow> init_style_flex_column_space_between_MAIN_DEFAULT
     | Flex_center \<Rightarrow> init_style_flex_center_MAIN_DEFAULT
     | Flex_start \<Rightarrow> init_style_flex_start_MAIN_DEFAULT
     | Flow_row_space_between \<Rightarrow> init_style_flow_row_space_between_MAIN_DEFAULT
     | Flow_row_start_center \<Rightarrow> init_style_flow_row_start_center_MAIN_DEFAULT
     | Flex_column_start \<Rightarrow> init_style_flex_column_start_MAIN_DEFAULT
     | Flex_screen \<Rightarrow> init_style_flex_screen_MAIN_DEFAULT
     | Flex_screen_menu \<Rightarrow> init_style_flex_screen_menu_MAIN_DEFAULT
     | Label_font16 \<Rightarrow> init_style_label_font16_MAIN_DEFAULT
     | Label_font_bold30 \<Rightarrow> init_style_label_font_bold30_MAIN_DEFAULT
     | Header_link \<Rightarrow> init_style_header_link_MAIN_DEFAULT
     | Menu_button \<Rightarrow> init_style_menu_button_MAIN_DEFAULT
     | Menu_button_label \<Rightarrow> init_style_menu_button_label_MAIN_DEFAULT
     | Info_headline_label \<Rightarrow> init_style_info_headline_label_MAIN_DEFAULT
     | Info_content_label \<Rightarrow> init_style_info_content_label_MAIN_DEFAULT
     | Back_button \<Rightarrow> init_style_back_button_MAIN_DEFAULT)"

lemmas init_style_defs = init_style_flex_column_space_between_MAIN_DEFAULT_def init_style_flex_center_MAIN_DEFAULT_def init_style_flex_start_MAIN_DEFAULT_def init_style_flow_row_space_between_MAIN_DEFAULT_def init_style_flow_row_start_center_MAIN_DEFAULT_def init_style_flex_column_start_MAIN_DEFAULT_def init_style_flex_screen_MAIN_DEFAULT_def init_style_flex_screen_menu_MAIN_DEFAULT_def init_style_label_font16_MAIN_DEFAULT_def init_style_label_font_bold30_MAIN_DEFAULT_def init_style_header_link_MAIN_DEFAULT_def init_style_menu_button_MAIN_DEFAULT_def init_style_menu_button_label_MAIN_DEFAULT_def init_style_info_headline_label_MAIN_DEFAULT_def init_style_info_content_label_MAIN_DEFAULT_def init_style_back_button_MAIN_DEFAULT_def

lemmas get_style_defs = get_style_flex_column_space_between_MAIN_DEFAULT_def get_style_flex_center_MAIN_DEFAULT_def get_style_flex_start_MAIN_DEFAULT_def get_style_flow_row_space_between_MAIN_DEFAULT_def get_style_flow_row_start_center_MAIN_DEFAULT_def get_style_flex_column_start_MAIN_DEFAULT_def get_style_flex_screen_MAIN_DEFAULT_def get_style_flex_screen_menu_MAIN_DEFAULT_def get_style_label_font16_MAIN_DEFAULT_def get_style_label_font_bold30_MAIN_DEFAULT_def get_style_header_link_MAIN_DEFAULT_def get_style_menu_button_MAIN_DEFAULT_def get_style_menu_button_label_MAIN_DEFAULT_def get_style_info_headline_label_MAIN_DEFAULT_def get_style_info_content_label_MAIN_DEFAULT_def get_style_back_button_MAIN_DEFAULT_def

lemmas add_style_defs = add_style_flex_column_space_between_def add_style_flex_center_def add_style_flex_start_def add_style_flow_row_space_between_def add_style_flow_row_start_center_def add_style_flex_column_start_def add_style_flex_screen_def add_style_flex_screen_menu_def add_style_label_font16_def add_style_label_font_bold30_def add_style_header_link_def add_style_menu_button_def add_style_menu_button_label_def add_style_info_headline_label_def add_style_info_content_label_def add_style_back_button_def

lemmas remove_style_defs = remove_style_flex_column_space_between_def remove_style_flex_center_def remove_style_flex_start_def remove_style_flow_row_space_between_def remove_style_flow_row_start_center_def remove_style_flex_column_start_def remove_style_flex_screen_def remove_style_flex_screen_menu_def remove_style_label_font16_def remove_style_label_font_bold30_def remove_style_header_link_def remove_style_menu_button_def remove_style_menu_button_label_def remove_style_info_headline_label_def remove_style_info_content_label_def remove_style_back_button_def

section \<open>What the style functions leave alone\<close>

definition styled :: "ui \<Rightarrow> ui \<Rightarrow> bool" where
  "styled u u' \<longleftrightarrow> (\<exists>sp cs. u' = u\<lparr>style_ptr := sp, lcalls := cs @ lcalls u\<rparr> \<and> list_all neutral cs)"

lemma styled_refl [simp]: "styled u u"
  unfolding styled_def by (rule exI [of _ "style_ptr u"], rule exI [of _ "[]"]) simp

lemma styled_trans [trans]:
  assumes "styled u v" "styled v w"
  shows "styled u w"
proof -
  from assms obtain sp cs sp' cs' where
    "v = u\<lparr>style_ptr := sp, lcalls := cs @ lcalls u\<rparr>" "list_all neutral cs"
    "w = v\<lparr>style_ptr := sp', lcalls := cs' @ lcalls v\<rparr>" "list_all neutral cs'"
    unfolding styled_def by blast
  then show ?thesis unfolding styled_def
    by (intro exI [of _ sp'] exI [of _ "cs' @ cs"]) simp
qed

lemma styled_lrun: "neutral c \<Longrightarrow> styled u (lrun c u)"
  unfolding styled_def by (rule exI [of _ "style_ptr u"], rule exI [of _ "[c]"]) (simp add: lrun_def)

lemma styled_ptr: "styled u (u\<lparr>style_ptr := sp\<rparr>)"
  unfolding styled_def by (rule exI [of _ sp], rule exI [of _ "[]"]) simp

lemma styled_frame:
  assumes "styled u u'"
  shows "objects u' = objects u" "vars u' = vars u" "currentScreen u' = currentScreen u" "logs u' = logs u"
    "created env (lcalls u') = created env (lcalls u)" "label_text ob (lcalls u') = label_text ob (lcalls u)"
    "active_screen (lcalls u') = active_screen (lcalls u)" "rpcs (lcalls u') = rpcs (lcalls u)"
  using assms by (auto simp: styled_def neutral_append)

lemma styled_style_set: "styled u (style_set style ps u)"
proof (induction ps arbitrary: u)
  case (Cons p ps)
  have "styled u (lrun (Lv_style_set style p) u)" by (rule styled_lrun) simp
  also have "styled \<dots> (style_set style ps \<dots>)" by (rule Cons)
  finally show ?case by (simp add: style_set_def)
qed (simp add: style_set_def)

lemma style_ptr_style_set [simp]: "style_ptr (style_set style ps u) = style_ptr u"
  by (induction ps arbitrary: u) (simp_all add: style_set_def)

lemma style_ptr_init_style_of [simp]: "style_ptr (init_style_of k style u) = style_ptr u"
  by (cases k) (simp_all add: init_style_of_def init_style_defs)

lemma styled_then_set: "styled u v \<Longrightarrow> styled u (style_set style ps v)"
  using styled_trans styled_style_set by blast

lemma styled_then_run: "styled u v \<Longrightarrow> neutral c \<Longrightarrow> styled u (lrun c v)"
  using styled_trans styled_lrun by blast

lemma styled_init_style_of: "styled u (init_style_of k style u)"
  by (cases k) (simp_all add: init_style_of_def init_style_defs styled_then_set)

text \<open>Every getter is the common body on its own style.\<close>

lemma get_style_of_lazy: "get_style_of k env u = lazy_style env k (init_style_of k) u"
  by (cases k) (simp_all add: get_style_of_def init_style_of_def get_style_defs)

lemma add_style_of_get:
  "add_style_of k env ob u = (case get_style_of k env u of (style, u) \<Rightarrow> lrun (Lv_obj_add_style ob style) u)"
  by (cases k) (simp_all add: get_style_of_def add_style_of_def add_style_defs)

lemma remove_style_of_get:
  "remove_style_of k env ob u = (case get_style_of k env u of (style, u) \<Rightarrow> lrun (Lv_obj_remove_style ob style) u)"
  by (cases k) (simp_all add: get_style_of_def remove_style_of_def remove_style_defs)

lemma styled_get_style_of: "styled u (snd (get_style_of k env u))"
proof (cases "style_ptr u k = 0")
  case True
  let ?s = "lptr env (Lv_style_malloc # lcalls u)"
  let ?v = "(lrun Lv_style_malloc u)\<lparr>style_ptr := (style_ptr u)(k := ?s)\<rparr>"
  have "styled u (lrun Lv_style_malloc u)" by (rule styled_lrun) simp
  also have "styled \<dots> ?v" by (rule styled_ptr)
  also have "styled ?v (lrun (Lv_style_init ?s) ?v)" by (rule styled_lrun) simp
  also have "styled \<dots> (init_style_of k ?s (lrun (Lv_style_init ?s) ?v))" by (rule styled_init_style_of)
  finally show ?thesis using True by (simp add: get_style_of_lazy lazy_style_def lask_def Let_def)
qed (simp add: get_style_of_lazy lazy_style_def)

lemma styled_add_style_of: "styled u (add_style_of k env ob u)"
  using styled_get_style_of [of u k env] by (simp add: add_style_of_get case_prod_beta styled_then_run)

lemma styled_remove_style_of: "styled u (remove_style_of k env ob u)"
  using styled_get_style_of [of u k env] by (simp add: remove_style_of_get case_prod_beta styled_then_run)

interpretation style_cell: memo_cell "get_style_of k env" "\<lambda>u. style_ptr u k" "\<lambda>u. style_ptr u k \<noteq> 0"
  "\<lambda>u. lptr env (Lv_style_malloc # lcalls u) \<noteq> 0" "\<lambda>_. True" for k env
  by unfold_locales (auto simp: get_style_of_lazy lazy_style_def lask_def Let_def)

text \<open>The table of styles in the order of the function tables.\<close>

definition style_order :: "ui_style list" where
  "style_order = [Flex_column_space_between, Flex_center, Flex_start, Flow_row_space_between, Flow_row_start_center, Flex_column_start, Flex_screen, Flex_screen_menu, Label_font16, Label_font_bold30, Header_link, Menu_button, Menu_button_label, Info_headline_label, Info_content_label, Back_button]"

lemma style_funcs_order:
  "add_style_funcs = map add_style_of style_order" "remove_style_funcs = map remove_style_of style_order"
  by (simp_all add: add_style_funcs_def remove_style_funcs_def style_order_def add_style_of_def remove_style_of_def)

section \<open>Stated properties\<close>

text \<open>A style is created once. The first request allocates it (when memory is available), initialises it and
  remembers the pointer; every later request for it, also through the functions that add it to an object or remove
  it by index, uses the same pointer without allocating or initialising again, and no request changes the labels,
  the screens, the objects or the variables.\<close>

theorem style_created_once:
  assumes "style_ptr u k \<noteq> 0 \<or> lptr env (Lv_style_malloc # lcalls u) \<noteq> 0"
  shows "\<exists>p u'. get_style_of k env u = (p, u') \<and> p \<noteq> 0 \<and> style_ptr u' k = p \<and>
    (style_ptr u k = 0 \<longrightarrow> p = lptr env (Lv_style_malloc # lcalls u)) \<and>
    objects u' = objects u \<and> vars u' = vars u \<and> label_text ob (lcalls u') = label_text ob (lcalls u) \<and>
    get_style_of k env u' = (p, u') \<and>
    add_style_of k env ob u' = lrun (Lv_obj_add_style ob p) u' \<and>
    remove_style_of k env ob u' = lrun (Lv_obj_remove_style ob p) u' \<and>
    (\<forall>i. style_order ! nat i = k \<and> 0 \<le> i \<and> i < 16 \<longrightarrow>
       add_style env ob i u' = Some (lrun (Lv_obj_add_style ob p) u') \<and>
       remove_style env ob i u' = Some (lrun (Lv_obj_remove_style ob p) u'))"
proof -
  obtain p u' where g: "get_style_of k env u = (p, u')" by fastforce
  have s: "style_ptr u' k \<noteq> 0" "style_ptr u' k = p" using style_cell.get_sets [of u k env] assms by (simp_all add: g)
  have t: "get_style_of k env u' = (p, u')" using style_cell.get_twice [of u k env] assms by (simp add: g)
  have "p = lptr env (Lv_style_malloc # lcalls u)" if "style_ptr u k = 0"
    using g that by (auto simp: get_style_of_lazy lazy_style_def lask_def Let_def)
  moreover have "styled u u'" using styled_get_style_of [of u k env] by (simp add: g)
  note styled_frame [OF this]
  moreover have "length style_order = 16" by (simp add: style_order_def)
  ultimately show ?thesis using g s t
    by (auto simp: add_style_of_get remove_style_of_get add_style_def remove_style_def style_funcs_order)
qed

theorem style_created_once_witness:
  "\<exists>p u'. get_style_flex_screen_MAIN_DEFAULT sample_lv ui_globals = (p, u') \<and> p \<noteq> 0 \<and>
     add_style sample_lv 7 6 u' = Some (lrun (Lv_obj_add_style 7 p) u')"
proof -
  have "lptr sample_lv (Lv_style_malloc # lcalls ui_globals) \<noteq> 0" by (simp add: sample_lv_def ui_globals_def)
  then have "style_ptr ui_globals Flex_screen \<noteq> 0 \<or> lptr sample_lv (Lv_style_malloc # lcalls ui_globals) \<noteq> 0" ..
  from style_created_once [OF this, of 7] obtain p u' where
    "get_style_of Flex_screen sample_lv ui_globals = (p, u')" "p \<noteq> 0"
    "\<forall>i. style_order ! nat i = Flex_screen \<and> 0 \<le> i \<and> i < 16 \<longrightarrow>
       add_style sample_lv 7 i u' = Some (lrun (Lv_obj_add_style 7 p) u')" by blast
  then show ?thesis by (auto simp: get_style_of_def style_order_def)
qed

end
