(* ===== verification/Ui_Layout.thy ===== *)
theory Ui_Layout
  imports Ui_Styles
begin

text \<open>
  The screens of \<^verbatim>\<open>eez/src/ui/screens.c\<close> as data. Every block of a \<^verbatim>\<open>create_screen_...\<close> function creates one
  object below the object of the enclosing block, stores it in a field of \<^verbatim>\<open>objects\<close> when the object has a
  name, applies a list of operations to it, and then holds the blocks of its children. A \<open>widget\<close> is
  such a block; \<^verbatim>\<open>Ui_Screens\<close> runs it. Blocks of more than about a hundred lines are split into definitions.
\<close>

section \<open>Blocks\<close>

datatype wop = Op obj_op | Style ui_style | Text string

datatype widget = Widget widget_class "string option" "wop list" "widget list"

text \<open>A style property for \<^verbatim>\<open>LV_PART_MAIN | LV_STATE_DEFAULT\<close>, and the line feed of the texts.\<close>

abbreviation St :: "style_prop \<Rightarrow> wop" where
  "St p \<equiv> Op (Set_style p LV_PART_MAIN LV_STATE_DEFAULT)"

definition newline :: char where "newline = CHR 0x0A"

section \<open>The objects and the screen numbers\<close>

text \<open>The fields of \<^verbatim>\<open>objects_t\<close> in the order of \<^verbatim>\<open>screens.h\<close>; the screens come first.\<close>

definition object_fields :: "string list" where
  "object_fields = [''boot_screen'', ''no_network_screen'', ''home_screen'', ''menu_screen'', ''menu_advanced_screen'',
     ''menu_network_screen'', ''about_screen'', ''status_screen'', ''reset_config_screen'',
     ''reboot_screen'', ''rebooting_screen'', ''switch_dhcp_client_screen'', ''boot_logo'',
     ''boot_screen_version'', ''no_network_header_container'', ''no_network_header_logo'',
     ''no_network_content_container'', ''no_network_title'', ''home_info_ipv6_addr_1'',
     ''home_header_container'', ''home_header_logo'', ''cloud_status_icon'', ''cloud_status_label'',
     ''home_info_container'', ''home_info_ipv4_addr'', ''home_info_ipv6_addr'', ''home_info_mac_addr'',
     ''divider'', ''home_status_container'', ''usb_status'', ''usb_indicator'', ''usb_status_label'',
     ''hdmi_status'', ''hdmi_indicator'', ''hdmi_status_label'', ''menu_header_container'',
     ''menu_items_container'', ''menu_btn_status'', ''menu_btn_network'', ''menu_btn_access'',
     ''menu_btn_advanced'', ''menu_btn_about'', ''menu_header_container_1'', ''menu_items_container_1'',
     ''menu_btn_advanced_developer_mode'', ''menu_btn_advanced_usb_emulation'',
     ''menu_btn_advanced_reboot'', ''menu_btn_dhcp_client'', ''menu_btn_advanced_reset_config'',
     ''menu_header_container_2'', ''menu_items_container_2'', ''menu_btn_network_ipv4'',
     ''menu_btn_network_ipv6'', ''menu_btn_network_lldp'', ''about_header_container'',
     ''about_items_container'', ''system_version_container'', ''system_version'',
     ''app_version_container'', ''app_version'', ''build_branch_container'', ''build_branch'',
     ''build_date_container'', ''build_date'', ''golang_version_container'', ''golang_version'',
     ''lvgl_version_container'', ''lvgl_version'', ''kernel_version_container'', ''kernel_version'',
     ''cpu_serial_container'', ''cpu_serial'', ''status_header_container'', ''status_items_container'',
     ''device_id_container'', ''device_id'', ''cloud_account_id_container'', ''app_version_1'',
     ''cloud_domain_container'', ''cloud_domain'', ''reset_config_header'', ''reset_config_container'',
     ''reset_config_label_container'', ''reset_config_label'', ''reset_config_spinner'',
     ''reset_config_button'', ''obj0'', ''reboot_header'', ''reboot_container'',
     ''reboot_label_container'', ''reboot_label'', ''reboot_config_button'', ''obj1'',
     ''reboot_in_progress_logo'', ''reboot_in_progress_label'', ''dhcp_client_header'',
     ''dhcp_client_container'', ''dhcp_client_label_container'', ''dhcpc_label'', ''dhcp_client_spinner'',
     ''dhcp_client_button'', ''obj2'', ''dhcp_client_change_label'']"

definition SCREEN_ID_BOOT_SCREEN :: int where "SCREEN_ID_BOOT_SCREEN = 1"
definition SCREEN_ID_NO_NETWORK_SCREEN :: int where "SCREEN_ID_NO_NETWORK_SCREEN = 2"
definition SCREEN_ID_HOME_SCREEN :: int where "SCREEN_ID_HOME_SCREEN = 3"
definition SCREEN_ID_MENU_SCREEN :: int where "SCREEN_ID_MENU_SCREEN = 4"
definition SCREEN_ID_MENU_ADVANCED_SCREEN :: int where "SCREEN_ID_MENU_ADVANCED_SCREEN = 5"
definition SCREEN_ID_MENU_NETWORK_SCREEN :: int where "SCREEN_ID_MENU_NETWORK_SCREEN = 6"
definition SCREEN_ID_ABOUT_SCREEN :: int where "SCREEN_ID_ABOUT_SCREEN = 7"
definition SCREEN_ID_STATUS_SCREEN :: int where "SCREEN_ID_STATUS_SCREEN = 8"
definition SCREEN_ID_RESET_CONFIG_SCREEN :: int where "SCREEN_ID_RESET_CONFIG_SCREEN = 9"
definition SCREEN_ID_REBOOT_SCREEN :: int where "SCREEN_ID_REBOOT_SCREEN = 10"
definition SCREEN_ID_REBOOTING_SCREEN :: int where "SCREEN_ID_REBOOTING_SCREEN = 11"
definition SCREEN_ID_SWITCH_DHCP_CLIENT_SCREEN :: int where "SCREEN_ID_SWITCH_DHCP_CLIENT_SCREEN = 12"

lemmas screen_id_defs = SCREEN_ID_BOOT_SCREEN_def SCREEN_ID_NO_NETWORK_SCREEN_def SCREEN_ID_HOME_SCREEN_def
  SCREEN_ID_MENU_SCREEN_def SCREEN_ID_MENU_ADVANCED_SCREEN_def SCREEN_ID_MENU_NETWORK_SCREEN_def
  SCREEN_ID_ABOUT_SCREEN_def SCREEN_ID_STATUS_SCREEN_def SCREEN_ID_RESET_CONFIG_SCREEN_def
  SCREEN_ID_REBOOT_SCREEN_def SCREEN_ID_REBOOTING_SCREEN_def SCREEN_ID_SWITCH_DHCP_CLIENT_SCREEN_def

section \<open>The screens\<close>

definition layout_boot_screen :: widget where
  "layout_boot_screen =
     Widget Obj (Some ''boot_screen'')
      [Op (Set_pos (Px 0) (Px 0)), Op (Set_size (Px 300) (Px 240)), Style Flex_column_space_between,
       St (Bg_color 4278190080)]
      [Widget Obj None
        [Op (Set_pos (Px 0) (Px 0)), Op (Set_size (LV_PCT 100) (LV_PCT 100)), St (Pad_left 0),
         St (Pad_top 0), St (Pad_right 0), St (Pad_bottom 0), St (Bg_opa 0), St (Border_width 0),
         St (Radius 0), Style Flex_start]
        [Widget Obj None
          [Op (Set_pos (Px 0) (Px 0)), Op (Set_size (LV_PCT 100) (LV_PCT 100)), St (Pad_left 0),
           St (Pad_top 0), St (Pad_right 0), St (Pad_bottom 0), St (Bg_opa 0), St (Border_width 0),
           St (Radius 0), Style Flex_center]
          [Widget Image (Some ''boot_logo'')
            [Op (Set_pos (Px 0) (Px 0)), Op (Set_size LV_SIZE_CONTENT LV_SIZE_CONTENT),
             Op (Set_src Img_boot_logo_2), St (Transform_width 174), St (Transform_height 49)]
            [],
           Widget Label (Some ''boot_screen_version'')
            [Op (Set_pos (LV_PCT 0) (LV_PCT 0)), Op (Set_size LV_SIZE_CONTENT LV_SIZE_CONTENT),
             Style Label_font16, St (Text_align LV_TEXT_ALIGN_CENTER), St (Text_font Font_book16),
             Text '''']
            []]]]"

definition layout_no_network_screen :: widget where
  "layout_no_network_screen =
     Widget Obj (Some ''no_network_screen'')
      [Op (Set_pos (Px 0) (Px 0)), Op (Set_size (Px 300) (Px 240)),
       Op (Add_event_cb Action_switch_to_menu LV_EVENT_LONG_PRESSED),
       Op (Add_event_cb Action_home_screen_gesture LV_EVENT_GESTURE), Style Flex_screen]
      [Widget Obj None
        [Op (Set_pos (Px 0) (Px 0)), Op (Set_size (LV_PCT 100) (LV_PCT 100)), St (Pad_left 0),
         St (Pad_top 0), St (Pad_right 0), St (Pad_bottom 0), St (Bg_opa 0), St (Border_width 0),
         St (Radius 0), Op (Clear_flag [LV_OBJ_FLAG_CLICKABLE]),
         Op (Set_scrollbar_mode LV_SCROLLBAR_MODE_OFF), Style Flex_start]
        [Widget Obj (Some ''no_network_header_container'')
          [Op (Set_pos (Px 0) (Px 0)), Op (Set_size (LV_PCT 100) LV_SIZE_CONTENT), St (Pad_left 0),
           St (Pad_top 0), St (Pad_right 0), St (Pad_bottom 0), St (Bg_opa 0), St (Border_width 0),
           St (Radius 0), Op (Clear_flag [LV_OBJ_FLAG_CLICKABLE]), Style Flow_row_space_between]
          [Widget Image (Some ''no_network_header_logo'')
            [Op (Set_pos (Px 0) (Px 0)), Op (Set_size LV_SIZE_CONTENT LV_SIZE_CONTENT),
             Op (Set_src Img_jetkvm), St (Transform_width 174), St (Transform_height 49)]
            []],
         Widget Obj (Some ''no_network_content_container'')
          [Op (Set_pos (Px 0) (Px 20)), Op (Set_size (LV_PCT 100) (LV_PCT 75)), St (Pad_left 0),
           St (Pad_top 0), St (Pad_right 0), St (Pad_bottom 0), St (Bg_opa 0), St (Border_width 0),
           St (Radius 0), Op (Clear_flag [LV_OBJ_FLAG_CLICKABLE]),
           Op (Set_scrollbar_mode LV_SCROLLBAR_MODE_OFF), Style Flex_column_start,
           St (Flex_main_place LV_FLEX_ALIGN_CENTER), St (Flex_cross_place LV_FLEX_ALIGN_CENTER),
           St (Flex_track_place LV_FLEX_ALIGN_CENTER),
           Op (Set_style (Margin_top 200) LV_PART_MAIN LV_STATE_CHECKED)]
          [Widget Image None
            [Op (Set_pos (Px 227) (Px 50)), Op (Set_size LV_SIZE_CONTENT LV_SIZE_CONTENT),
             Op (Set_src Img_ethernet)]
            [],
           Widget Label (Some ''no_network_title'')
            [Op (Set_pos (LV_PCT 0) (LV_PCT 0)), Op (Set_size LV_SIZE_CONTENT LV_SIZE_CONTENT),
             Style Label_font_bold30, Text ''No Network'']
            [],
           Widget Label (Some ''home_info_ipv6_addr_1'')
            [Op (Set_pos (LV_PCT 0) (LV_PCT 0)), Op (Set_size LV_SIZE_CONTENT LV_SIZE_CONTENT),
             Op Set_long_dot, Style Label_font16, Text ''Connect Ethernet cable'']
            []]]]"

definition widget_home_header_container :: widget where
  "widget_home_header_container =
     Widget Obj (Some ''home_header_container'')
      [Op (Set_pos (Px 0) (Px 0)), Op (Set_size (LV_PCT 100) LV_SIZE_CONTENT), St (Pad_left 0),
       St (Pad_top 0), St (Pad_right 0), St (Pad_bottom 0), St (Bg_opa 0), St (Border_width 0),
       St (Radius 0), Op (Clear_flag [LV_OBJ_FLAG_CLICKABLE]), Style Flow_row_space_between]
      [Widget Image (Some ''home_header_logo'')
        [Op (Set_pos (Px 0) (Px 0)), Op (Set_size LV_SIZE_CONTENT LV_SIZE_CONTENT),
         Op (Set_src Img_jetkvm), St (Transform_width 174), St (Transform_height 49)]
        [],
       Widget Obj None
        [Op (Set_pos (Px 0) (Px 0)), Op (Set_size LV_SIZE_CONTENT LV_SIZE_CONTENT), St (Pad_left 0),
         St (Pad_top 0), St (Pad_right 0), St (Pad_bottom 0), St (Bg_opa 0), St (Border_width 0),
         St (Radius 0), Op (Clear_flag [LV_OBJ_FLAG_CLICKABLE]), Style Flow_row_start_center]
        [Widget Image (Some ''cloud_status_icon'')
          [Op (Set_pos (Px 0) (Px 0)), Op (Set_size LV_SIZE_CONTENT LV_SIZE_CONTENT),
           Op (Set_src Img_cloud)]
          [],
         Widget Label (Some ''cloud_status_label'')
          [Op (Set_pos (LV_PCT 0) (LV_PCT 0)), Op (Set_size LV_SIZE_CONTENT LV_SIZE_CONTENT),
           Style Label_font16, Text ''-1 active'']
          []]]"

definition widget_home_info_container :: widget where
  "widget_home_info_container =
     Widget Obj (Some ''home_info_container'')
      [Op (Set_pos (Px 0) (Px 0)), Op (Set_size (LV_PCT 100) (LV_PCT 47)), St (Pad_left 0),
       St (Pad_top 0), St (Pad_right 0), St (Pad_bottom 0), St (Bg_opa 0), St (Border_width 0),
       St (Radius 0), Op (Clear_flag [LV_OBJ_FLAG_CLICKABLE]),
       Op (Set_scrollbar_mode LV_SCROLLBAR_MODE_OFF), Style Flex_column_start]
      [Widget Label (Some ''home_info_ipv4_addr'')
        [Op (Set_pos (LV_PCT 0) (LV_PCT 0)), Op (Set_size LV_SIZE_CONTENT LV_SIZE_CONTENT),
         Style Label_font_bold30, Text ''169.254.169.254'']
        [],
       Widget Label (Some ''home_info_ipv6_addr'')
        [Op (Set_pos (LV_PCT 0) (LV_PCT 0)), Op (Set_size (LV_PCT 98) (Px 17)), Op Set_long_dot,
         Op (Add_flag [LV_OBJ_FLAG_HIDDEN]), Style Label_font16, St (Text_align LV_TEXT_ALIGN_LEFT),
         Text ''fe80::ffff:ffff:ffff:ffff:ffff:ffff:ffff:ffff'']
        [],
       Widget Label (Some ''home_info_mac_addr'')
        [Op (Set_pos (LV_PCT 0) (LV_PCT 0)), Op (Set_size LV_SIZE_CONTENT LV_SIZE_CONTENT),
         Style Label_font16, Text ''01:23:45:67:89:ab'']
        []]"

definition widget_usb_status :: widget where
  "widget_usb_status =
     Widget Obj (Some ''usb_status'')
      [Op (Set_pos (Px 0) (Px 0)), Op (Set_size (LV_PCT 50) LV_SIZE_CONTENT), St (Pad_left 0),
       St (Pad_top 0), St (Pad_right 0), St (Pad_bottom 0), St (Bg_opa 0), St (Border_width 0),
       St (Radius 0), Op (Clear_flag [LV_OBJ_FLAG_CLICKABLE]), Style Flex_column_start]
      [Widget Obj (Some ''usb_indicator'')
        [Op (Set_pos (Px 0) (Px 0)), Op (Set_size LV_SIZE_CONTENT LV_SIZE_CONTENT), St (Pad_left 0),
         St (Pad_top 0), St (Pad_right 0), St (Pad_bottom 0), St (Bg_opa 0), St (Border_width 0),
         St (Radius 0), Op (Clear_flag [LV_OBJ_FLAG_CLICKABLE]), Style Flow_row_start_center]
        [Widget Image None
          [Op (Set_pos (Px 0) (Px 0)), Op (Set_size LV_SIZE_CONTENT LV_SIZE_CONTENT),
           Op (Set_src Img_usb)]
          [],
         Widget Label None
          [Op (Set_pos (LV_PCT 0) (LV_PCT 0)), Op (Set_size LV_SIZE_CONTENT LV_SIZE_CONTENT),
           Style Label_font16, Text ''USB'']
          []],
       Widget Label (Some ''usb_status_label'')
        [Op (Set_pos (LV_PCT 0) (LV_PCT 0)), Op (Set_size LV_SIZE_CONTENT LV_SIZE_CONTENT),
         Op (Add_flag [LV_OBJ_FLAG_CHECKABLE]), Style Label_font16, St (Text_color 4286611584),
         Op (Set_style (Text_color 4280468830) LV_PART_MAIN LV_STATE_CHECKED), Text ''Unknown'']
        []]"

definition widget_hdmi_status :: widget where
  "widget_hdmi_status =
     Widget Obj (Some ''hdmi_status'')
      [Op (Set_pos (Px 0) (Px 0)), Op (Set_size (LV_PCT 50) LV_SIZE_CONTENT), St (Pad_left 0),
       St (Pad_top 0), St (Pad_right 0), St (Pad_bottom 0), St (Bg_opa 0), St (Border_width 0),
       St (Radius 0), Op (Clear_flag [LV_OBJ_FLAG_CLICKABLE]), Style Flex_column_start]
      [Widget Obj (Some ''hdmi_indicator'')
        [Op (Set_pos (Px 0) (Px 0)), Op (Set_size LV_SIZE_CONTENT LV_SIZE_CONTENT), St (Pad_left 0),
         St (Pad_top 0), St (Pad_right 0), St (Pad_bottom 0), St (Bg_opa 0), St (Border_width 0),
         St (Radius 0), Op (Clear_flag [LV_OBJ_FLAG_CLICKABLE]), Style Flow_row_start_center]
        [Widget Image None
          [Op (Set_pos (Px 0) (Px 0)), Op (Set_size LV_SIZE_CONTENT LV_SIZE_CONTENT),
           Op (Set_src Img_hdmi)]
          [],
         Widget Label None
          [Op (Set_pos (LV_PCT 0) (LV_PCT 0)), Op (Set_size LV_SIZE_CONTENT LV_SIZE_CONTENT),
           Style Label_font16, Text ''HDMI'']
          []],
       Widget Label (Some ''hdmi_status_label'')
        [Op (Set_pos (LV_PCT 0) (LV_PCT 0)), Op (Set_size LV_SIZE_CONTENT LV_SIZE_CONTENT),
         Op (Add_flag [LV_OBJ_FLAG_CHECKABLE]), Style Label_font16,
         Op (Set_style (Text_color 4280468830) LV_PART_MAIN LV_STATE_CHECKED),
         St (Text_color 4286611584), Text ''Unknown'']
        []]"

definition widget_home_status_container :: widget where
  "widget_home_status_container =
     Widget Obj (Some ''home_status_container'')
      [Op (Set_pos (Px 0) (Px 0)), Op (Set_size (LV_PCT 100) LV_SIZE_CONTENT), St (Pad_left 0),
       St (Pad_top 0), St (Pad_right 0), St (Pad_bottom 0), St (Bg_opa 0), St (Border_width 0),
       St (Radius 0),
       Op (Clear_flag [LV_OBJ_FLAG_CLICKABLE, LV_OBJ_FLAG_CLICK_FOCUSABLE, LV_OBJ_FLAG_SCROLLABLE]),
       Style Flow_row_start_center]
      [widget_usb_status,
       widget_hdmi_status]"

definition widget_home_screen_1 :: widget where
  "widget_home_screen_1 =
     Widget Obj None
      [Op (Set_pos (Px 0) (Px 0)), Op (Set_size (LV_PCT 100) (LV_PCT 100)), St (Pad_left 0),
       St (Pad_top 0), St (Pad_right 0), St (Pad_bottom 0), St (Bg_opa 0), St (Border_width 0),
       St (Radius 0), Op (Clear_flag [LV_OBJ_FLAG_CLICKABLE]), Style Flex_start]
      [widget_home_header_container,
       widget_home_info_container,
       Widget Obj (Some ''divider'')
        [Op (Set_pos (Px 0) (Px 0)), Op (Set_size (LV_PCT 100) (Px 1)), St (Pad_left 0),
         St (Pad_top 0), St (Pad_right 0), St (Pad_bottom 0), St (Border_width 0), St (Radius 0),
         Op (Clear_flag [LV_OBJ_FLAG_CLICKABLE, LV_OBJ_FLAG_CLICK_FOCUSABLE, LV_OBJ_FLAG_SCROLLABLE]),
         Op (Set_scrollbar_mode LV_SCROLLBAR_MODE_OFF), Style Flex_column_start,
         St (Bg_color 4280690214), St (Bg_opa 255)]
        [],
       widget_home_status_container]"

definition layout_home_screen :: widget where
  "layout_home_screen =
     Widget Obj (Some ''home_screen'')
      [Op (Set_pos (Px 0) (Px 0)), Op (Set_size (Px 300) (Px 240)),
       Op (Add_event_cb Action_switch_to_menu LV_EVENT_LONG_PRESSED),
       Op (Add_event_cb Action_home_screen_gesture LV_EVENT_GESTURE), Style Flex_screen]
      [widget_home_screen_1]"

definition widget_menu_header_container :: widget where
  "widget_menu_header_container =
     Widget Obj (Some ''menu_header_container'')
      [Op (Set_pos (Px 0) (Px 0)), Op (Set_size (LV_PCT 100) LV_SIZE_CONTENT), St (Pad_left 0),
       St (Pad_top 0), St (Pad_bottom 0), St (Bg_opa 0), St (Border_width 0), St (Radius 0),
       Style Flow_row_space_between, St (Pad_right 4)]
      [Widget Button None
        [Op (Set_pos (Px 0) (Px 0)), Op (Set_size (Px 32) (Px 32)),
         Op (Add_event_cb Action_menu_screen_gesture LV_EVENT_PRESSED), Style Back_button]
        [Widget Image None
          [Op (Set_pos (Px (-1)) (Px 2)), Op (Set_size LV_SIZE_CONTENT LV_SIZE_CONTENT),
           Op (Set_src Img_back_caret)]
          []],
       Widget Label None
        [Op (Set_pos (LV_PCT 0) (LV_PCT 0)), Op (Set_size LV_SIZE_CONTENT LV_SIZE_CONTENT),
         Style Header_link, Text ''Settings'']
        []]"

definition widget_menu_screen_2 :: widget where
  "widget_menu_screen_2 =
     Widget Obj None
      [Op (Set_pos (Px 0) (Px 0)), Op (Set_size (LV_PCT 100) LV_SIZE_CONTENT), St (Pad_left 0),
       St (Pad_top 0), St (Pad_bottom 0), St (Bg_opa 0), St (Border_width 0), St (Radius 0),
       Op (Clear_flag [LV_OBJ_FLAG_SCROLLABLE]), Style Flex_column_start, St (Pad_right 10)]
      [Widget Button (Some ''menu_btn_status'')
        [Op (Set_pos (Px 0) (Px 0)), Op (Set_size (LV_PCT 100) (Px 50)),
         Op (Add_event_cb Action_switch_to_status LV_EVENT_CLICKED), Style Menu_button]
        [Widget Label None
          [Op (Set_pos (Px 0) (Px 0)), Op (Set_size LV_SIZE_CONTENT LV_SIZE_CONTENT),
           Style Menu_button_label, Text ''Status'']
          []],
       Widget Button (Some ''menu_btn_network'')
        [Op (Set_pos (Px 0) (Px 0)), Op (Set_size (LV_PCT 100) (Px 50)), Style Menu_button]
        [Widget Label None
          [Op (Set_pos (Px 0) (Px 0)), Op (Set_size LV_SIZE_CONTENT LV_SIZE_CONTENT),
           Style Menu_button_label, Text ''Network'']
          []],
       Widget Button (Some ''menu_btn_access'')
        [Op (Set_pos (Px 0) (Px 0)), Op (Set_size (LV_PCT 100) (Px 50)),
         Op (Clear_flag [LV_OBJ_FLAG_SNAPPABLE]), Style Menu_button]
        [Widget Label None
          [Op (Set_pos (Px 0) (Px 0)), Op (Set_size LV_SIZE_CONTENT LV_SIZE_CONTENT),
           Style Menu_button_label, Text ''Access'']
          []],
       Widget Button (Some ''menu_btn_advanced'')
        [Op (Set_pos (Px 0) (Px 0)), Op (Set_size (LV_PCT 100) (Px 50)),
         Op (Add_event_cb Action_switch_to_advanced_menu LV_EVENT_CLICKED),
         Op (Clear_flag [LV_OBJ_FLAG_SNAPPABLE]), Style Menu_button]
        [Widget Label None
          [Op (Set_pos (Px 0) (Px 0)), Op (Set_size LV_SIZE_CONTENT LV_SIZE_CONTENT),
           Style Menu_button_label, Text ''Advanced'']
          []],
       Widget Button (Some ''menu_btn_about'')
        [Op (Set_pos (Px 0) (Px 0)), Op (Set_size (LV_PCT 100) (Px 50)),
         Op (Add_event_cb Action_switch_to_about LV_EVENT_CLICKED),
         Op (Clear_flag [LV_OBJ_FLAG_SNAPPABLE]), Style Menu_button]
        [Widget Label None
          [Op (Set_pos (Px 0) (Px 0)), Op (Set_size LV_SIZE_CONTENT LV_SIZE_CONTENT),
           Style Menu_button_label, Text ''About'']
          []]]"

definition widget_menu_items_container :: widget where
  "widget_menu_items_container =
     Widget Obj (Some ''menu_items_container'')
      [Op (Set_pos (Px 0) (Px 0)), Op (Set_size (LV_PCT 100) (LV_PCT 80)), St (Pad_left 0),
       St (Pad_top 0), St (Pad_bottom 0), St (Bg_opa 0), St (Border_width 0), St (Radius 0),
       Op (Add_flag [LV_OBJ_FLAG_OVERFLOW_VISIBLE]), Op (Set_scrollbar_mode LV_SCROLLBAR_MODE_AUTO),
       Op (Set_scroll_dir LV_DIR_VER), Op Set_scroll_snap_start, Style Flex_column_start,
       St (Pad_right 4), Op (Set_style (Pad_right 2) LV_PART_SCROLLBAR LV_STATE_DEFAULT)]
      [widget_menu_screen_2]"

definition widget_menu_screen_1 :: widget where
  "widget_menu_screen_1 =
     Widget Obj None
      [Op (Set_pos (Px 0) (Px 0)), Op (Set_size (LV_PCT 100) (LV_PCT 100)), St (Pad_left 0),
       St (Pad_top 0), St (Pad_right 0), St (Pad_bottom 0), St (Bg_opa 0), St (Border_width 0),
       St (Radius 0), Op (Clear_flag [LV_OBJ_FLAG_SCROLLABLE]), Style Flex_start]
      [widget_menu_header_container,
       widget_menu_items_container]"

definition layout_menu_screen :: widget where
  "layout_menu_screen =
     Widget Obj (Some ''menu_screen'')
      [Op (Set_pos (Px 0) (Px 0)), Op (Set_size (Px 300) (Px 240)),
       Op (Add_event_cb Action_menu_screen_gesture LV_EVENT_GESTURE), Style Flex_screen_menu]
      [widget_menu_screen_1]"

definition widget_menu_header_container_1 :: widget where
  "widget_menu_header_container_1 =
     Widget Obj (Some ''menu_header_container_1'')
      [Op (Set_pos (Px 0) (Px 0)), Op (Set_size (LV_PCT 100) LV_SIZE_CONTENT), St (Pad_left 0),
       St (Pad_top 0), St (Pad_bottom 0), St (Bg_opa 0), St (Border_width 0), St (Radius 0),
       Style Flow_row_space_between, St (Pad_right 4)]
      [Widget Button None
        [Op (Set_pos (Px 0) (Px 0)), Op (Set_size (Px 32) (Px 32)),
         Op (Add_event_cb Action_switch_to_menu LV_EVENT_CLICKED), Style Back_button]
        [Widget Image None
          [Op (Set_pos (Px (-1)) (Px 2)), Op (Set_size LV_SIZE_CONTENT LV_SIZE_CONTENT),
           Op (Set_src Img_back_caret)]
          []],
       Widget Label None
        [Op (Set_pos (LV_PCT 0) (LV_PCT 0)), Op (Set_size LV_SIZE_CONTENT LV_SIZE_CONTENT),
         Style Header_link, Text ''Advanced'']
        []]"

definition widget_menu_advanced_screen_2 :: widget where
  "widget_menu_advanced_screen_2 =
     Widget Obj None
      [Op (Set_pos (Px 0) (Px 0)), Op (Set_size (LV_PCT 100) LV_SIZE_CONTENT), St (Pad_left 0),
       St (Pad_top 0), St (Pad_bottom 0), St (Bg_opa 0), St (Border_width 0), St (Radius 0),
       Op (Clear_flag [LV_OBJ_FLAG_SCROLLABLE]), Style Flex_column_start, St (Pad_right 10)]
      [Widget Button (Some ''menu_btn_advanced_developer_mode'')
        [Op (Set_pos (Px 0) (Px 0)), Op (Set_size (LV_PCT 100) (Px 50)),
         Op (Add_event_cb Action_reset_config LV_EVENT_PRESSED), Op (Add_flag [LV_OBJ_FLAG_HIDDEN]),
         Style Menu_button]
        [Widget Label None
          [Op (Set_pos (Px 0) (Px 0)), Op (Set_size LV_SIZE_CONTENT LV_SIZE_CONTENT),
           Style Menu_button_label, Text ''Developer Mode'']
          []],
       Widget Button (Some ''menu_btn_advanced_usb_emulation'')
        [Op (Set_pos (Px 0) (Px 0)), Op (Set_size (LV_PCT 100) (Px 50)),
         Op (Add_flag [LV_OBJ_FLAG_HIDDEN]), Style Menu_button]
        [Widget Label None
          [Op (Set_pos (Px 0) (Px 0)), Op (Set_size LV_SIZE_CONTENT LV_SIZE_CONTENT),
           Style Menu_button_label, Text ''USB Emulation'']
          []],
       Widget Button (Some ''menu_btn_advanced_reboot'')
        [Op (Set_pos (Px 0) (Px 0)), Op (Set_size (LV_PCT 100) (Px 50)),
         Op (Add_event_cb Action_switch_to_reboot LV_EVENT_PRESSED),
         Op (Clear_flag [LV_OBJ_FLAG_SNAPPABLE]), Style Menu_button]
        [Widget Label None
          [Op (Set_pos (Px 0) (Px 0)), Op (Set_size LV_SIZE_CONTENT LV_SIZE_CONTENT),
           Style Menu_button_label, Text ''Reboot Device'']
          []],
       Widget Button (Some ''menu_btn_dhcp_client'')
        [Op (Set_pos (Px 0) (Px 0)), Op (Set_size (LV_PCT 100) (Px 50)),
         Op (Add_event_cb Action_switch_to_dhcpc LV_EVENT_PRESSED),
         Op (Clear_flag [LV_OBJ_FLAG_SNAPPABLE]), Style Menu_button]
        [Widget Label None
          [Op (Set_pos (Px 0) (Px 0)), Op (Set_size LV_SIZE_CONTENT LV_SIZE_CONTENT),
           Style Menu_button_label, Text ''DHCP Client'']
          []],
       Widget Button (Some ''menu_btn_advanced_reset_config'')
        [Op (Set_pos (Px 0) (Px 0)), Op (Set_size (LV_PCT 100) (Px 50)),
         Op (Add_event_cb Action_switch_to_reset_config LV_EVENT_PRESSED),
         Op (Clear_flag [LV_OBJ_FLAG_SNAPPABLE]), Style Menu_button, St (Bg_color 4292617766),
         St (Bg_opa 255)]
        [Widget Label None
          [Op (Set_pos (Px 0) (Px 0)), Op (Set_size LV_SIZE_CONTENT LV_SIZE_CONTENT),
           Style Menu_button_label, Text ''Reset Configuration'']
          []]]"

definition widget_menu_items_container_1 :: widget where
  "widget_menu_items_container_1 =
     Widget Obj (Some ''menu_items_container_1'')
      [Op (Set_pos (Px 0) (Px 0)), Op (Set_size (LV_PCT 100) (LV_PCT 80)), St (Pad_left 0),
       St (Pad_top 0), St (Pad_bottom 0), St (Bg_opa 0), St (Border_width 0), St (Radius 0),
       Op (Set_scrollbar_mode LV_SCROLLBAR_MODE_AUTO), Op (Set_scroll_dir LV_DIR_VER),
       Op Set_scroll_snap_start, Style Flex_column_start, St (Pad_right 4)]
      [widget_menu_advanced_screen_2]"

definition widget_menu_advanced_screen_1 :: widget where
  "widget_menu_advanced_screen_1 =
     Widget Obj None
      [Op (Set_pos (Px 0) (Px 0)), Op (Set_size (LV_PCT 100) (LV_PCT 100)), St (Pad_left 0),
       St (Pad_top 0), St (Pad_right 0), St (Pad_bottom 0), St (Bg_opa 0), St (Border_width 0),
       St (Radius 0), Op (Clear_flag [LV_OBJ_FLAG_SCROLLABLE]), Style Flex_start]
      [widget_menu_header_container_1,
       widget_menu_items_container_1]"

definition layout_menu_advanced_screen :: widget where
  "layout_menu_advanced_screen =
     Widget Obj (Some ''menu_advanced_screen'')
      [Op (Set_pos (Px 0) (Px 0)), Op (Set_size (Px 300) (Px 240)),
       Op (Add_event_cb Action_menu_advanced_screen_gesture LV_EVENT_GESTURE), Style Flex_screen_menu]
      [widget_menu_advanced_screen_1]"

definition widget_menu_header_container_2 :: widget where
  "widget_menu_header_container_2 =
     Widget Obj (Some ''menu_header_container_2'')
      [Op (Set_pos (Px 0) (Px 0)), Op (Set_size (LV_PCT 100) LV_SIZE_CONTENT), St (Pad_left 0),
       St (Pad_top 0), St (Pad_bottom 0), St (Bg_opa 0), St (Border_width 0), St (Radius 0),
       Style Flow_row_space_between, St (Pad_right 4)]
      [Widget Button None
        [Op (Set_pos (Px 0) (Px 0)), Op (Set_size (Px 32) (Px 32)),
         Op (Add_event_cb Action_switch_to_menu LV_EVENT_CLICKED), Style Back_button]
        [Widget Image None
          [Op (Set_pos (Px (-1)) (Px 2)), Op (Set_size LV_SIZE_CONTENT LV_SIZE_CONTENT),
           Op (Set_src Img_back_caret)]
          []],
       Widget Label None
        [Op (Set_pos (LV_PCT 0) (LV_PCT 0)), Op (Set_size LV_SIZE_CONTENT LV_SIZE_CONTENT),
         Style Header_link, Text ''Network'']
        []]"

definition widget_menu_items_container_2 :: widget where
  "widget_menu_items_container_2 =
     Widget Obj (Some ''menu_items_container_2'')
      [Op (Set_pos (Px 0) (Px 0)), Op (Set_size (LV_PCT 100) (LV_PCT 80)), St (Pad_left 0),
       St (Pad_top 0), St (Pad_bottom 0), St (Bg_opa 0), St (Border_width 0), St (Radius 0),
       Op (Set_scrollbar_mode LV_SCROLLBAR_MODE_AUTO), Op (Set_scroll_dir LV_DIR_VER),
       Op Set_scroll_snap_start, Style Flex_column_start, St (Pad_right 4)]
      [Widget Obj None
        [Op (Set_pos (Px 0) (Px 0)), Op (Set_size (LV_PCT 100) LV_SIZE_CONTENT), St (Pad_left 0),
         St (Pad_top 0), St (Pad_bottom 0), St (Bg_opa 0), St (Border_width 0), St (Radius 0),
         Op (Clear_flag [LV_OBJ_FLAG_SCROLLABLE]), Style Flex_column_start, St (Pad_right 10)]
        [Widget Button (Some ''menu_btn_network_ipv4'')
          [Op (Set_pos (Px 0) (Px 0)), Op (Set_size (LV_PCT 100) (Px 50)), Style Menu_button]
          [Widget Label None
            [Op (Set_pos (Px 0) (Px 0)), Op (Set_size LV_SIZE_CONTENT LV_SIZE_CONTENT),
             Style Menu_button_label, Text ''IPv4 Info'']
            []],
         Widget Button (Some ''menu_btn_network_ipv6'')
          [Op (Set_pos (Px 0) (Px 0)), Op (Set_size (LV_PCT 100) (Px 50)), Style Menu_button]
          [Widget Label None
            [Op (Set_pos (Px 0) (Px 0)), Op (Set_size LV_SIZE_CONTENT LV_SIZE_CONTENT),
             Style Menu_button_label, Text ''IPv6 Info'']
            []],
         Widget Button (Some ''menu_btn_network_lldp'')
          [Op (Set_pos (Px 0) (Px 0)), Op (Set_size (LV_PCT 100) (Px 50)),
           Op (Clear_flag [LV_OBJ_FLAG_SNAPPABLE]), Style Menu_button]
          [Widget Label None
            [Op (Set_pos (Px 0) (Px 0)), Op (Set_size LV_SIZE_CONTENT LV_SIZE_CONTENT),
             Style Menu_button_label, Text ''LLDP Neighbours'']
            []]]]"

definition widget_menu_network_screen_1 :: widget where
  "widget_menu_network_screen_1 =
     Widget Obj None
      [Op (Set_pos (Px 0) (Px 0)), Op (Set_size (LV_PCT 100) (LV_PCT 100)), St (Pad_left 0),
       St (Pad_top 0), St (Pad_right 0), St (Pad_bottom 0), St (Bg_opa 0), St (Border_width 0),
       St (Radius 0), Op (Clear_flag [LV_OBJ_FLAG_SCROLLABLE]), Style Flex_start]
      [widget_menu_header_container_2,
       widget_menu_items_container_2]"

definition layout_menu_network_screen :: widget where
  "layout_menu_network_screen =
     Widget Obj (Some ''menu_network_screen'')
      [Op (Set_pos (Px 0) (Px 0)), Op (Set_size (Px 300) (Px 240)),
       Op (Add_event_cb Action_menu_advanced_screen_gesture LV_EVENT_GESTURE), Style Flex_screen_menu]
      [widget_menu_network_screen_1]"

definition widget_about_header_container :: widget where
  "widget_about_header_container =
     Widget Obj (Some ''about_header_container'')
      [Op (Set_pos (Px 0) (Px 0)), Op (Set_size (LV_PCT 100) LV_SIZE_CONTENT), St (Pad_left 0),
       St (Pad_top 0), St (Pad_bottom 0), St (Bg_opa 0), St (Border_width 0), St (Radius 0),
       Style Flow_row_space_between, St (Pad_right 4)]
      [Widget Button None
        [Op (Set_pos (Px 0) (Px 0)), Op (Set_size (Px 32) (Px 32)),
         Op (Add_event_cb Action_switch_to_menu LV_EVENT_CLICKED), Style Back_button]
        [Widget Image None
          [Op (Set_pos (Px (-1)) (Px 2)), Op (Set_size LV_SIZE_CONTENT LV_SIZE_CONTENT),
           Op (Set_src Img_back_caret)]
          []],
       Widget Label None
        [Op (Set_pos (LV_PCT 0) (LV_PCT 0)), Op (Set_size LV_SIZE_CONTENT LV_SIZE_CONTENT),
         Style Header_link, Text ''About'']
        []]"

definition widget_system_version_container :: widget where
  "widget_system_version_container =
     Widget Obj (Some ''system_version_container'')
      [Op (Set_pos (Px 0) (Px 0)), Op (Set_size (LV_PCT 100) LV_SIZE_CONTENT), St (Pad_left 0),
       St (Pad_top 0), St (Pad_bottom 0), St (Bg_opa 0), St (Border_width 0), St (Radius 0),
       Op (Clear_flag [LV_OBJ_FLAG_SCROLLABLE]), Style Flex_column_start, St (Pad_right 10)]
      [Widget Label None
        [Op (Set_pos (Px 0) (Px 0)), Op (Set_size LV_SIZE_CONTENT LV_SIZE_CONTENT),
         Style Info_headline_label, Text ''System'']
        [],
       Widget Label (Some ''system_version'')
        [Op (Set_pos (Px 0) (Px 0)), Op (Set_size (LV_PCT 100) LV_SIZE_CONTENT),
         Style Info_content_label, Text '''']
        []]"

definition widget_app_version_container :: widget where
  "widget_app_version_container =
     Widget Obj (Some ''app_version_container'')
      [Op (Set_pos (Px 0) (Px 0)), Op (Set_size (LV_PCT 100) LV_SIZE_CONTENT), St (Pad_left 0),
       St (Pad_top 0), St (Pad_bottom 0), St (Bg_opa 0), St (Border_width 0), St (Radius 0),
       Op (Clear_flag [LV_OBJ_FLAG_SCROLLABLE]), Style Flex_column_start, St (Pad_right 10)]
      [Widget Label None
        [Op (Set_pos (Px 0) (Px 0)), Op (Set_size LV_SIZE_CONTENT LV_SIZE_CONTENT),
         Style Info_headline_label, Text ''Application'']
        [],
       Widget Label (Some ''app_version'')
        [Op (Set_pos (Px 0) (Px 0)), Op (Set_size (LV_PCT 100) LV_SIZE_CONTENT),
         Style Info_content_label, Text '''']
        []]"

definition widget_build_branch_container :: widget where
  "widget_build_branch_container =
     Widget Obj (Some ''build_branch_container'')
      [Op (Set_pos (Px 0) (Px 0)), Op (Set_size (LV_PCT 100) LV_SIZE_CONTENT), St (Pad_left 0),
       St (Pad_top 0), St (Pad_bottom 0), St (Bg_opa 0), St (Border_width 0), St (Radius 0),
       Op (Clear_flag [LV_OBJ_FLAG_SCROLLABLE]), Style Flex_column_start, St (Pad_right 10)]
      [Widget Label None
        [Op (Set_pos (Px 0) (Px 0)), Op (Set_size LV_SIZE_CONTENT LV_SIZE_CONTENT),
         Style Info_headline_label, Text ''App Branch'']
        [],
       Widget Label (Some ''build_branch'')
        [Op (Set_pos (Px 0) (Px 0)), Op (Set_size (LV_PCT 100) LV_SIZE_CONTENT),
         Style Info_content_label, Text ''0.0.1'']
        []]"

definition widget_build_date_container :: widget where
  "widget_build_date_container =
     Widget Obj (Some ''build_date_container'')
      [Op (Set_pos (Px 0) (Px 0)), Op (Set_size (LV_PCT 100) LV_SIZE_CONTENT), St (Pad_left 0),
       St (Pad_top 0), St (Pad_bottom 0), St (Bg_opa 0), St (Border_width 0), St (Radius 0),
       Op (Clear_flag [LV_OBJ_FLAG_SCROLLABLE]), Style Flex_column_start, St (Pad_right 10)]
      [Widget Label None
        [Op (Set_pos (Px 0) (Px 0)), Op (Set_size LV_SIZE_CONTENT LV_SIZE_CONTENT),
         Style Info_headline_label, Text ''App Build Date'']
        [],
       Widget Label (Some ''build_date'')
        [Op (Set_pos (Px 0) (Px 0)), Op (Set_size (LV_PCT 100) LV_SIZE_CONTENT),
         Style Info_content_label, Text ''0.0.1'']
        []]"

definition widget_golang_version_container :: widget where
  "widget_golang_version_container =
     Widget Obj (Some ''golang_version_container'')
      [Op (Set_pos (Px 0) (Px 0)), Op (Set_size (LV_PCT 100) LV_SIZE_CONTENT), St (Pad_left 0),
       St (Pad_top 0), St (Pad_bottom 0), St (Bg_opa 0), St (Border_width 0), St (Radius 0),
       Op (Clear_flag [LV_OBJ_FLAG_SCROLLABLE]), Style Flex_column_start, St (Pad_right 10)]
      [Widget Label None
        [Op (Set_pos (Px 0) (Px 0)), Op (Set_size LV_SIZE_CONTENT LV_SIZE_CONTENT),
         Style Info_headline_label, Text ''Golang'']
        [],
       Widget Label (Some ''golang_version'')
        [Op (Set_pos (Px 0) (Px 0)), Op (Set_size (LV_PCT 100) LV_SIZE_CONTENT),
         Style Info_content_label, Text ''0.0.1'']
        []]"

definition widget_lvgl_version_container :: widget where
  "widget_lvgl_version_container =
     Widget Obj (Some ''lvgl_version_container'')
      [Op (Set_pos (Px 0) (Px 0)), Op (Set_size (LV_PCT 100) LV_SIZE_CONTENT), St (Pad_left 0),
       St (Pad_top 0), St (Pad_bottom 0), St (Bg_opa 0), St (Border_width 0), St (Radius 0),
       Op (Clear_flag [LV_OBJ_FLAG_SCROLLABLE]), Style Flex_column_start, St (Pad_right 10)]
      [Widget Label None
        [Op (Set_pos (Px 0) (Px 0)), Op (Set_size LV_SIZE_CONTENT LV_SIZE_CONTENT),
         Style Info_headline_label, Text ''LVGL'']
        [],
       Widget Label (Some ''lvgl_version'')
        [Op (Set_pos (Px 0) (Px 0)), Op (Set_size (LV_PCT 100) LV_SIZE_CONTENT),
         Style Info_content_label, Text '''']
        []]"

definition widget_kernel_version_container :: widget where
  "widget_kernel_version_container =
     Widget Obj (Some ''kernel_version_container'')
      [Op (Set_pos (Px 0) (Px 0)), Op (Set_size (LV_PCT 100) LV_SIZE_CONTENT), St (Pad_left 0),
       St (Pad_top 0), St (Pad_bottom 0), St (Bg_opa 0), St (Border_width 0), St (Radius 0),
       Op (Clear_flag [LV_OBJ_FLAG_SCROLLABLE]), Style Flex_column_start, St (Pad_right 10)]
      [Widget Label None
        [Op (Set_pos (Px 0) (Px 0)), Op (Set_size LV_SIZE_CONTENT LV_SIZE_CONTENT),
         Style Info_headline_label, Text ''Linux Kernel'']
        [],
       Widget Label (Some ''kernel_version'')
        [Op (Set_pos (Px 0) (Px 0)), Op (Set_size (LV_PCT 100) LV_SIZE_CONTENT),
         Style Info_content_label, Text ''0.0.1'']
        []]"

definition widget_cpu_serial_container :: widget where
  "widget_cpu_serial_container =
     Widget Obj (Some ''cpu_serial_container'')
      [Op (Set_pos (Px 0) (Px 0)), Op (Set_size (LV_PCT 100) LV_SIZE_CONTENT), St (Pad_left 0),
       St (Pad_top 0), St (Pad_bottom 0), St (Bg_opa 0), St (Border_width 0), St (Radius 0),
       Op (Clear_flag [LV_OBJ_FLAG_SCROLLABLE]), Style Flex_column_start, St (Pad_right 10)]
      [Widget Label None
        [Op (Set_pos (Px 0) (Px 0)), Op (Set_size LV_SIZE_CONTENT LV_SIZE_CONTENT),
         Style Info_headline_label, Text ''CPU Serial'']
        [],
       Widget Label (Some ''cpu_serial'')
        [Op (Set_pos (Px 0) (Px 0)), Op (Set_size (LV_PCT 100) LV_SIZE_CONTENT),
         Style Info_content_label, Text ''0.0.1'']
        []]"

definition widget_about_screen_2 :: widget where
  "widget_about_screen_2 =
     Widget Obj None
      [Op (Set_pos (Px 0) (Px 0)), Op (Set_size (LV_PCT 100) LV_SIZE_CONTENT), St (Pad_left 0),
       St (Pad_top 0), St (Pad_bottom 0), St (Bg_opa 0), St (Border_width 0), St (Radius 0),
       Op (Clear_flag [LV_OBJ_FLAG_SCROLLABLE]), Style Flex_column_start, St (Pad_right 10)]
      [widget_system_version_container,
       widget_app_version_container,
       widget_build_branch_container,
       widget_build_date_container,
       widget_golang_version_container,
       widget_lvgl_version_container,
       widget_kernel_version_container,
       widget_cpu_serial_container]"

definition widget_about_items_container :: widget where
  "widget_about_items_container =
     Widget Obj (Some ''about_items_container'')
      [Op (Set_pos (Px 0) (Px 0)), Op (Set_size (LV_PCT 100) (LV_PCT 80)), St (Pad_left 0),
       St (Pad_top 0), St (Pad_bottom 0), St (Bg_opa 0), St (Border_width 0), St (Radius 0),
       Op (Set_scrollbar_mode LV_SCROLLBAR_MODE_AUTO), Op (Set_scroll_dir LV_DIR_VER),
       Op Set_scroll_snap_start, Style Flex_column_start, St (Pad_right 4)]
      [widget_about_screen_2]"

definition widget_about_screen_1 :: widget where
  "widget_about_screen_1 =
     Widget Obj None
      [Op (Set_pos (Px 0) (Px 0)), Op (Set_size (LV_PCT 100) (LV_PCT 100)), St (Pad_left 0),
       St (Pad_top 0), St (Pad_right 0), St (Pad_bottom 0), St (Bg_opa 0), St (Border_width 0),
       St (Radius 0), Op (Clear_flag [LV_OBJ_FLAG_SCROLLABLE]), Style Flex_start]
      [widget_about_header_container,
       widget_about_items_container]"

definition layout_about_screen :: widget where
  "layout_about_screen =
     Widget Obj (Some ''about_screen'')
      [Op (Set_pos (Px 0) (Px 0)), Op (Set_size (Px 300) (Px 240)),
       Op (Add_event_cb Action_about_screen_gesture LV_EVENT_GESTURE), Style Flex_screen_menu]
      [widget_about_screen_1]"

definition widget_status_header_container :: widget where
  "widget_status_header_container =
     Widget Obj (Some ''status_header_container'')
      [Op (Set_pos (Px 0) (Px 0)), Op (Set_size (LV_PCT 100) LV_SIZE_CONTENT), St (Pad_left 0),
       St (Pad_top 0), St (Pad_bottom 0), St (Bg_opa 0), St (Border_width 0), St (Radius 0),
       Style Flow_row_space_between, St (Pad_right 4)]
      [Widget Button None
        [Op (Set_pos (Px 0) (Px 0)), Op (Set_size (Px 32) (Px 32)),
         Op (Add_event_cb Action_switch_to_menu LV_EVENT_CLICKED), Style Back_button]
        [Widget Image None
          [Op (Set_pos (Px (-1)) (Px 2)), Op (Set_size LV_SIZE_CONTENT LV_SIZE_CONTENT),
           Op (Set_src Img_back_caret)]
          []],
       Widget Label None
        [Op (Set_pos (LV_PCT 0) (LV_PCT 0)), Op (Set_size LV_SIZE_CONTENT LV_SIZE_CONTENT),
         Style Header_link, Text ''Status'']
        []]"

definition widget_status_screen_2 :: widget where
  "widget_status_screen_2 =
     Widget Obj None
      [Op (Set_pos (Px 0) (Px 0)), Op (Set_size (LV_PCT 100) LV_SIZE_CONTENT), St (Pad_left 0),
       St (Pad_top 0), St (Pad_bottom 0), St (Bg_opa 0), St (Border_width 0), St (Radius 0),
       Op (Clear_flag [LV_OBJ_FLAG_SCROLLABLE]), Style Flex_column_start, St (Pad_right 10)]
      [Widget Obj (Some ''device_id_container'')
        [Op (Set_pos (Px 0) (Px 0)), Op (Set_size (LV_PCT 100) LV_SIZE_CONTENT), St (Pad_left 0),
         St (Pad_top 0), St (Pad_bottom 0), St (Bg_opa 0), St (Border_width 0), St (Radius 0),
         Op (Clear_flag [LV_OBJ_FLAG_SCROLLABLE]), Style Flex_column_start, St (Pad_right 10)]
        [Widget Label None
          [Op (Set_pos (Px 0) (Px 0)), Op (Set_size LV_SIZE_CONTENT LV_SIZE_CONTENT),
           Style Info_headline_label, Text ''Device ID'']
          [],
         Widget Label (Some ''device_id'')
          [Op (Set_pos (Px 0) (Px 0)), Op (Set_size (LV_PCT 100) LV_SIZE_CONTENT),
           Style Info_content_label, Text ''64238c05ececc831'']
          []],
       Widget Obj (Some ''cloud_account_id_container'')
        [Op (Set_pos (Px 0) (Px 0)), Op (Set_size (LV_PCT 100) LV_SIZE_CONTENT), St (Pad_left 0),
         St (Pad_top 0), St (Pad_bottom 0), St (Bg_opa 0), St (Border_width 0), St (Radius 0),
         Op (Add_flag [LV_OBJ_FLAG_HIDDEN]), Op (Clear_flag [LV_OBJ_FLAG_SCROLLABLE]),
         Style Flex_column_start, St (Pad_right 10)]
        [Widget Label None
          [Op (Set_pos (Px 0) (Px 0)), Op (Set_size LV_SIZE_CONTENT LV_SIZE_CONTENT),
           Style Info_headline_label, Text ''Cloud Account ID'']
          [],
         Widget Label (Some ''app_version_1'')
          [Op (Set_pos (Px 0) (Px 0)), Op (Set_size (LV_PCT 100) LV_SIZE_CONTENT),
           Style Info_content_label, Text ''12387612876312673dd'']
          []],
       Widget Obj (Some ''cloud_domain_container'')
        [Op (Set_pos (Px 0) (Px 0)), Op (Set_size (LV_PCT 100) LV_SIZE_CONTENT), St (Pad_left 0),
         St (Pad_top 0), St (Pad_bottom 0), St (Bg_opa 0), St (Border_width 0), St (Radius 0),
         Op (Clear_flag [LV_OBJ_FLAG_SCROLLABLE]), Style Flex_column_start, St (Pad_right 10)]
        [Widget Label None
          [Op (Set_pos (Px 0) (Px 0)), Op (Set_size LV_SIZE_CONTENT LV_SIZE_CONTENT),
           Style Info_headline_label, Text ''Cloud Endpoint'']
          [],
         Widget Label (Some ''cloud_domain'')
          [Op (Set_pos (Px 0) (Px 0)), Op (Set_size (LV_PCT 100) LV_SIZE_CONTENT),
           Style Info_content_label, Text ''api.jetkvm.com'']
          []]]"

definition widget_status_items_container :: widget where
  "widget_status_items_container =
     Widget Obj (Some ''status_items_container'')
      [Op (Set_pos (Px 0) (Px 0)), Op (Set_size (LV_PCT 100) (LV_PCT 80)), St (Pad_left 0),
       St (Pad_top 0), St (Pad_bottom 0), St (Bg_opa 0), St (Border_width 0), St (Radius 0),
       Op (Set_scrollbar_mode LV_SCROLLBAR_MODE_AUTO), Op (Set_scroll_dir LV_DIR_VER),
       Op Set_scroll_snap_start, Style Flex_column_start, St (Pad_right 4)]
      [widget_status_screen_2]"

definition widget_status_screen_1 :: widget where
  "widget_status_screen_1 =
     Widget Obj None
      [Op (Set_pos (Px 0) (Px 0)), Op (Set_size (LV_PCT 100) (LV_PCT 100)), St (Pad_left 0),
       St (Pad_top 0), St (Pad_right 0), St (Pad_bottom 0), St (Bg_opa 0), St (Border_width 0),
       St (Radius 0), Op (Clear_flag [LV_OBJ_FLAG_SCROLLABLE]), Style Flex_start]
      [widget_status_header_container,
       widget_status_items_container]"

definition layout_status_screen :: widget where
  "layout_status_screen =
     Widget Obj (Some ''status_screen'')
      [Op (Set_pos (Px 0) (Px 0)), Op (Set_size (Px 300) (Px 240)),
       Op (Add_event_cb Action_about_screen_gesture LV_EVENT_GESTURE), Style Flex_screen_menu]
      [widget_status_screen_1]"

definition widget_reset_config_header :: widget where
  "widget_reset_config_header =
     Widget Obj (Some ''reset_config_header'')
      [Op (Set_pos (Px 0) (Px 0)), Op (Set_size (LV_PCT 100) LV_SIZE_CONTENT), St (Pad_left 0),
       St (Pad_top 0), St (Pad_bottom 0), St (Bg_opa 0), St (Border_width 0), St (Radius 0),
       Style Flow_row_space_between, St (Pad_right 4)]
      [Widget Button None
        [Op (Set_pos (Px 0) (Px 0)), Op (Set_size (Px 32) (Px 32)),
         Op (Add_event_cb Action_switch_to_menu LV_EVENT_CLICKED), Style Back_button]
        [Widget Image None
          [Op (Set_pos (Px (-1)) (Px 2)), Op (Set_size LV_SIZE_CONTENT LV_SIZE_CONTENT),
           Op (Set_src Img_back_caret)]
          []],
       Widget Label None
        [Op (Set_pos (LV_PCT 0) (LV_PCT 0)), Op (Set_size LV_SIZE_CONTENT LV_SIZE_CONTENT),
         Style Header_link, Text ''Reset Config'']
        []]"

definition widget_reset_config_button :: widget where
  "widget_reset_config_button =
     Widget Obj (Some ''reset_config_button'')
      [Op (Set_pos (Px 0) (Px 0)), Op (Set_size (LV_PCT 100) LV_SIZE_CONTENT), St (Pad_left 0),
       St (Pad_top 0), St (Pad_right 0), St (Pad_bottom 0), St (Bg_opa 0), St (Border_width 0),
       St (Radius 0), Op (Clear_flag [LV_OBJ_FLAG_SCROLLABLE]), Style Flex_column_start]
      [Widget Button (Some ''obj0'')
        [Op (Set_pos (Px 0) (Px 0)), Op (Set_size (LV_PCT 100) (Px 50)),
         Op (Add_event_cb Action_reset_config LV_EVENT_PRESSED),
         Op (Add_event_cb Action_reset_config LV_EVENT_PRESSING),
         Op (Add_event_cb Action_reset_config LV_EVENT_RELEASED), St (Bg_color 4292617766),
         St (Text_align LV_TEXT_ALIGN_LEFT), St (Pad_right 13)]
        [Widget Label None
          [Op (Set_pos (Px 0) (Px 0)), Op (Set_size LV_SIZE_CONTENT LV_SIZE_CONTENT),
           St (Align LV_ALIGN_CENTER), St (Text_align LV_TEXT_ALIGN_LEFT),
           Text ''Reset configuration'']
          []]]"

definition widget_reset_config_screen_2 :: widget where
  "widget_reset_config_screen_2 =
     Widget Obj None
      [Op (Set_pos (Px 0) (Px 0)), Op (Set_size (LV_PCT 100) LV_SIZE_CONTENT), St (Pad_left 0),
       St (Pad_top 0), St (Pad_bottom 0), St (Bg_opa 0), St (Border_width 0), St (Radius 0),
       Op (Clear_flag [LV_OBJ_FLAG_SCROLLABLE]), Style Flex_column_start, St (Pad_right 10)]
      [Widget Obj (Some ''reset_config_label_container'')
        [Op (Set_pos (Px 0) (Px 0)), Op (Set_size (LV_PCT 100) LV_SIZE_CONTENT), St (Bg_opa 0),
         St (Border_width 0), St (Radius 0), Op (Clear_flag [LV_OBJ_FLAG_SCROLLABLE]),
         Style Flex_column_start, St (Pad_right 10), St (Pad_left 10), St (Pad_top 10),
         St (Pad_bottom 10)]
        [Widget Label (Some ''reset_config_label'')
          [Op (Set_pos (Px 0) (Px 0)), Op (Set_size (LV_PCT 100) LV_SIZE_CONTENT),
           Style Info_content_label, St (Text_font Font_book20),
           Text (''Press and hold for'' @ newline # ''10 seconds'')]
          []],
       Widget Obj (Some ''reset_config_spinner'')
        [Op (Set_pos (Px 0) (Px 0)), Op (Set_size (LV_PCT 100) LV_SIZE_CONTENT), St (Pad_left 0),
         St (Pad_top 0), St (Pad_right 0), St (Pad_bottom 0), St (Bg_opa 0), St (Border_width 0),
         St (Radius 0), Op (Add_flag [LV_OBJ_FLAG_HIDDEN]),
         Op (Clear_flag [LV_OBJ_FLAG_CLICKABLE, LV_OBJ_FLAG_SCROLLABLE]), Style Flex_column_start,
         St (Flex_main_place LV_FLEX_ALIGN_CENTER), St (Flex_cross_place LV_FLEX_ALIGN_CENTER),
         St (Flex_track_place LV_FLEX_ALIGN_CENTER)]
        [Widget Spinner None
          [Op (Set_pos (Px 0) (Px 0)), Op (Set_size (Px 80) (Px 80)), Op (Set_anim_params 1000 60)]
          []],
       widget_reset_config_button]"

definition widget_reset_config_container :: widget where
  "widget_reset_config_container =
     Widget Obj (Some ''reset_config_container'')
      [Op (Set_pos (Px 0) (Px 0)), Op (Set_size (LV_PCT 100) (LV_PCT 80)), St (Pad_left 0),
       St (Pad_top 0), St (Pad_bottom 0), St (Bg_opa 0), St (Border_width 0), St (Radius 0),
       Op (Set_scrollbar_mode LV_SCROLLBAR_MODE_AUTO), Op (Set_scroll_dir LV_DIR_VER),
       Op Set_scroll_snap_start, Style Flex_column_start, St (Pad_right 4)]
      [widget_reset_config_screen_2]"

definition widget_reset_config_screen_1 :: widget where
  "widget_reset_config_screen_1 =
     Widget Obj None
      [Op (Set_pos (Px 0) (Px 0)), Op (Set_size (LV_PCT 100) (LV_PCT 100)), St (Pad_left 0),
       St (Pad_top 0), St (Pad_right 0), St (Pad_bottom 0), St (Bg_opa 0), St (Border_width 0),
       St (Radius 0), Op (Clear_flag [LV_OBJ_FLAG_SCROLLABLE]), Style Flex_start]
      [widget_reset_config_header,
       widget_reset_config_container]"

definition layout_reset_config_screen :: widget where
  "layout_reset_config_screen =
     Widget Obj (Some ''reset_config_screen'')
      [Op (Set_pos (Px 0) (Px 0)), Op (Set_size (Px 300) (Px 240)),
       Op (Add_event_cb Action_about_screen_gesture LV_EVENT_GESTURE), Style Flex_screen_menu]
      [widget_reset_config_screen_1]"

definition widget_reboot_header :: widget where
  "widget_reboot_header =
     Widget Obj (Some ''reboot_header'')
      [Op (Set_pos (Px 0) (Px 0)), Op (Set_size (LV_PCT 100) LV_SIZE_CONTENT), St (Pad_left 0),
       St (Pad_top 0), St (Pad_bottom 0), St (Bg_opa 0), St (Border_width 0), St (Radius 0),
       Style Flow_row_space_between, St (Pad_right 4)]
      [Widget Button None
        [Op (Set_pos (Px 0) (Px 0)), Op (Set_size (Px 32) (Px 32)),
         Op (Add_event_cb Action_switch_to_menu LV_EVENT_CLICKED), Style Back_button]
        [Widget Image None
          [Op (Set_pos (Px (-1)) (Px 2)), Op (Set_size LV_SIZE_CONTENT LV_SIZE_CONTENT),
           Op (Set_src Img_back_caret)]
          []],
       Widget Label None
        [Op (Set_pos (LV_PCT 0) (LV_PCT 0)), Op (Set_size LV_SIZE_CONTENT LV_SIZE_CONTENT),
         Style Header_link, Text ''Reboot Device'']
        []]"

definition widget_reboot_container :: widget where
  "widget_reboot_container =
     Widget Obj (Some ''reboot_container'')
      [Op (Set_pos (Px 0) (Px 0)), Op (Set_size (LV_PCT 100) (LV_PCT 80)), St (Pad_left 0),
       St (Pad_top 0), St (Pad_bottom 0), St (Bg_opa 0), St (Border_width 0), St (Radius 0),
       Op (Set_scrollbar_mode LV_SCROLLBAR_MODE_AUTO), Op (Set_scroll_dir LV_DIR_VER),
       Op Set_scroll_snap_start, Style Flex_column_start, St (Pad_right 4)]
      [Widget Obj None
        [Op (Set_pos (Px 0) (Px 0)), Op (Set_size (LV_PCT 100) LV_SIZE_CONTENT), St (Pad_left 0),
         St (Pad_top 0), St (Pad_bottom 0), St (Bg_opa 0), St (Border_width 0), St (Radius 0),
         Op (Clear_flag [LV_OBJ_FLAG_SCROLLABLE]), Style Flex_column_start, St (Pad_right 10)]
        [Widget Obj (Some ''reboot_label_container'')
          [Op (Set_pos (Px 0) (Px 0)), Op (Set_size (LV_PCT 100) LV_SIZE_CONTENT), St (Bg_opa 0),
           St (Border_width 0), St (Radius 0), Op (Clear_flag [LV_OBJ_FLAG_SCROLLABLE]),
           Style Flex_column_start, St (Pad_right 10), St (Pad_left 10), St (Pad_top 10),
           St (Pad_bottom 10)]
          [Widget Label (Some ''reboot_label'')
            [Op (Set_pos (Px 0) (Px 0)), Op (Set_size (LV_PCT 100) LV_SIZE_CONTENT),
             Style Info_content_label, St (Text_font Font_book20),
             Text (''Press and hold for'' @ newline # ''5 seconds'')]
            []],
         Widget Obj (Some ''reboot_config_button'')
          [Op (Set_pos (Px 0) (Px 0)), Op (Set_size (LV_PCT 100) LV_SIZE_CONTENT), St (Pad_left 0),
           St (Pad_top 0), St (Pad_right 0), St (Pad_bottom 0), St (Bg_opa 0), St (Border_width 0),
           St (Radius 0), Op (Clear_flag [LV_OBJ_FLAG_SCROLLABLE]), Style Flex_column_start]
          [Widget Button (Some ''obj1'')
            [Op (Set_pos (Px 0) (Px 0)), Op (Set_size (LV_PCT 100) (Px 50)),
             Op (Add_event_cb Action_reboot LV_EVENT_PRESSED),
             Op (Add_event_cb Action_reboot LV_EVENT_PRESSING),
             Op (Add_event_cb Action_reboot LV_EVENT_RELEASED), St (Bg_color 4292617766),
             St (Text_align LV_TEXT_ALIGN_LEFT), St (Pad_right 13)]
            [Widget Label None
              [Op (Set_pos (Px 0) (Px 0)), Op (Set_size LV_SIZE_CONTENT LV_SIZE_CONTENT),
               St (Align LV_ALIGN_CENTER), St (Text_align LV_TEXT_ALIGN_LEFT),
               Text ''Hold to reboot'']
              []]]]]"

definition widget_reboot_screen_1 :: widget where
  "widget_reboot_screen_1 =
     Widget Obj None
      [Op (Set_pos (Px 0) (Px 0)), Op (Set_size (LV_PCT 100) (LV_PCT 100)), St (Pad_left 0),
       St (Pad_top 0), St (Pad_right 0), St (Pad_bottom 0), St (Bg_opa 0), St (Border_width 0),
       St (Radius 0), Op (Clear_flag [LV_OBJ_FLAG_SCROLLABLE]), Style Flex_start]
      [widget_reboot_header,
       widget_reboot_container]"

definition layout_reboot_screen :: widget where
  "layout_reboot_screen =
     Widget Obj (Some ''reboot_screen'')
      [Op (Set_pos (Px 0) (Px 0)), Op (Set_size (Px 300) (Px 240)),
       Op (Add_event_cb Action_about_screen_gesture LV_EVENT_GESTURE), Style Flex_screen_menu]
      [widget_reboot_screen_1]"

definition layout_rebooting_screen :: widget where
  "layout_rebooting_screen =
     Widget Obj (Some ''rebooting_screen'')
      [Op (Set_pos (Px 0) (Px 0)), Op (Set_size (Px 300) (Px 240)), Style Flex_column_space_between,
       St (Bg_color 4278190080)]
      [Widget Obj None
        [Op (Set_pos (Px 0) (Px 0)), Op (Set_size (LV_PCT 100) (LV_PCT 100)), St (Pad_left 0),
         St (Pad_top 0), St (Pad_right 0), St (Pad_bottom 0), St (Bg_opa 0), St (Border_width 0),
         St (Radius 0), Style Flex_start]
        [Widget Obj None
          [Op (Set_pos (Px 0) (Px 0)), Op (Set_size (LV_PCT 100) (LV_PCT 100)), St (Pad_left 0),
           St (Pad_top 0), St (Pad_right 0), St (Pad_bottom 0), St (Bg_opa 0), St (Border_width 0),
           St (Radius 0), Style Flex_center]
          [Widget Image (Some ''reboot_in_progress_logo'')
            [Op (Set_pos (Px 0) (Px 0)), Op (Set_size LV_SIZE_CONTENT LV_SIZE_CONTENT),
             Op (Set_src Img_boot_logo_2), St (Transform_width 174), St (Transform_height 49)]
            [],
           Widget Label (Some ''reboot_in_progress_label'')
            [Op (Set_pos (LV_PCT 0) (LV_PCT 0)), Op (Set_size LV_SIZE_CONTENT LV_SIZE_CONTENT),
             Style Label_font16, St (Text_align LV_TEXT_ALIGN_CENTER), St (Text_font Font_book16),
             Text ''Rebooting device ...'']
            []]]]"

definition widget_dhcp_client_header :: widget where
  "widget_dhcp_client_header =
     Widget Obj (Some ''dhcp_client_header'')
      [Op (Set_pos (Px 0) (Px 0)), Op (Set_size (LV_PCT 100) LV_SIZE_CONTENT), St (Pad_left 0),
       St (Pad_top 0), St (Pad_bottom 0), St (Bg_opa 0), St (Border_width 0), St (Radius 0),
       Style Flow_row_space_between, St (Pad_right 4)]
      [Widget Button None
        [Op (Set_pos (Px 0) (Px 0)), Op (Set_size (Px 32) (Px 32)),
         Op (Add_event_cb Action_switch_to_menu LV_EVENT_CLICKED), Style Back_button]
        [Widget Image None
          [Op (Set_pos (Px (-1)) (Px 2)), Op (Set_size LV_SIZE_CONTENT LV_SIZE_CONTENT),
           Op (Set_src Img_back_caret)]
          []],
       Widget Label None
        [Op (Set_pos (LV_PCT 0) (LV_PCT 0)), Op (Set_size LV_SIZE_CONTENT LV_SIZE_CONTENT),
         Style Header_link, Text ''DHCP Client'']
        []]"

definition widget_dhcp_client_button :: widget where
  "widget_dhcp_client_button =
     Widget Obj (Some ''dhcp_client_button'')
      [Op (Set_pos (Px 0) (Px 0)), Op (Set_size (LV_PCT 100) LV_SIZE_CONTENT), St (Pad_left 0),
       St (Pad_top 0), St (Pad_right 0), St (Pad_bottom 0), St (Bg_opa 0), St (Border_width 0),
       St (Radius 0), Op (Clear_flag [LV_OBJ_FLAG_SCROLLABLE]), Style Flex_column_start]
      [Widget Button (Some ''obj2'')
        [Op (Set_pos (Px 0) (Px 0)), Op (Set_size (LV_PCT 100) (Px 50)),
         Op (Add_event_cb Action_dhcpc LV_EVENT_PRESSED),
         Op (Add_event_cb Action_dhcpc LV_EVENT_PRESSING),
         Op (Add_event_cb Action_dhcpc LV_EVENT_RELEASED), St (Bg_color 4292617766),
         St (Text_align LV_TEXT_ALIGN_LEFT), St (Pad_right 13)]
        [Widget Label (Some ''dhcp_client_change_label'')
          [Op (Set_pos (Px 0) (Px 0)), Op (Set_size LV_SIZE_CONTENT LV_SIZE_CONTENT),
           St (Align LV_ALIGN_CENTER), St (Text_align LV_TEXT_ALIGN_LEFT), Text ''Switch to udhcpc'']
          []]]"

definition widget_switch_dhcp_client_screen_2 :: widget where
  "widget_switch_dhcp_client_screen_2 =
     Widget Obj None
      [Op (Set_pos (Px 0) (Px 0)), Op (Set_size (LV_PCT 100) LV_SIZE_CONTENT), St (Pad_left 0),
       St (Pad_top 0), St (Pad_bottom 0), St (Bg_opa 0), St (Border_width 0), St (Radius 0),
       Op (Clear_flag [LV_OBJ_FLAG_SCROLLABLE]), Style Flex_column_start, St (Pad_right 10)]
      [Widget Obj (Some ''dhcp_client_label_container'')
        [Op (Set_pos (Px 0) (Px 0)), Op (Set_size (LV_PCT 100) LV_SIZE_CONTENT), St (Bg_opa 0),
         St (Border_width 0), St (Radius 0), Op (Clear_flag [LV_OBJ_FLAG_SCROLLABLE]),
         Style Flex_column_start, St (Pad_right 10), St (Pad_left 10), St (Pad_top 10),
         St (Pad_bottom 10)]
        [Widget Label (Some ''dhcpc_label'')
          [Op (Set_pos (Px 0) (Px 0)), Op (Set_size (LV_PCT 100) LV_SIZE_CONTENT),
           Style Info_content_label, St (Text_font Font_book20),
           Text (''Press and hold for'' @ newline # ''5 seconds'')]
          []],
       Widget Obj (Some ''dhcp_client_spinner'')
        [Op (Set_pos (Px 0) (Px 0)), Op (Set_size (LV_PCT 100) LV_SIZE_CONTENT), St (Pad_left 0),
         St (Pad_top 0), St (Pad_right 0), St (Pad_bottom 0), St (Bg_opa 0), St (Border_width 0),
         St (Radius 0), Op (Add_flag [LV_OBJ_FLAG_HIDDEN]),
         Op (Clear_flag [LV_OBJ_FLAG_CLICKABLE, LV_OBJ_FLAG_SCROLLABLE]), Style Flex_column_start,
         St (Flex_main_place LV_FLEX_ALIGN_CENTER), St (Flex_cross_place LV_FLEX_ALIGN_CENTER),
         St (Flex_track_place LV_FLEX_ALIGN_CENTER)]
        [Widget Spinner None
          [Op (Set_pos (Px 0) (Px 0)), Op (Set_size (Px 80) (Px 80)), Op (Set_anim_params 1000 60)]
          []],
       widget_dhcp_client_button]"

definition widget_dhcp_client_container :: widget where
  "widget_dhcp_client_container =
     Widget Obj (Some ''dhcp_client_container'')
      [Op (Set_pos (Px 0) (Px 0)), Op (Set_size (LV_PCT 100) (LV_PCT 80)), St (Pad_left 0),
       St (Pad_top 0), St (Pad_bottom 0), St (Bg_opa 0), St (Border_width 0), St (Radius 0),
       Op (Set_scrollbar_mode LV_SCROLLBAR_MODE_AUTO), Op (Set_scroll_dir LV_DIR_VER),
       Op Set_scroll_snap_start, Style Flex_column_start, St (Pad_right 4)]
      [widget_switch_dhcp_client_screen_2]"

definition widget_switch_dhcp_client_screen_1 :: widget where
  "widget_switch_dhcp_client_screen_1 =
     Widget Obj None
      [Op (Set_pos (Px 0) (Px 0)), Op (Set_size (LV_PCT 100) (LV_PCT 100)), St (Pad_left 0),
       St (Pad_top 0), St (Pad_right 0), St (Pad_bottom 0), St (Bg_opa 0), St (Border_width 0),
       St (Radius 0), Op (Clear_flag [LV_OBJ_FLAG_SCROLLABLE]), Style Flex_start]
      [widget_dhcp_client_header,
       widget_dhcp_client_container]"

definition layout_switch_dhcp_client_screen :: widget where
  "layout_switch_dhcp_client_screen =
     Widget Obj (Some ''switch_dhcp_client_screen'')
      [Op (Set_pos (Px 0) (Px 0)), Op (Set_size (Px 300) (Px 240)),
       Op (Add_event_cb Action_about_screen_gesture LV_EVENT_GESTURE), Style Flex_screen_menu]
      [widget_switch_dhcp_client_screen_1]"

lemmas layout_defs = layout_boot_screen_def layout_no_network_screen_def widget_home_header_container_def
  widget_home_info_container_def widget_usb_status_def widget_hdmi_status_def
  widget_home_status_container_def widget_home_screen_1_def layout_home_screen_def
  widget_menu_header_container_def widget_menu_screen_2_def widget_menu_items_container_def
  widget_menu_screen_1_def layout_menu_screen_def widget_menu_header_container_1_def
  widget_menu_advanced_screen_2_def widget_menu_items_container_1_def
  widget_menu_advanced_screen_1_def layout_menu_advanced_screen_def
  widget_menu_header_container_2_def widget_menu_items_container_2_def
  widget_menu_network_screen_1_def layout_menu_network_screen_def widget_about_header_container_def
  widget_system_version_container_def widget_app_version_container_def
  widget_build_branch_container_def widget_build_date_container_def
  widget_golang_version_container_def widget_lvgl_version_container_def
  widget_kernel_version_container_def widget_cpu_serial_container_def widget_about_screen_2_def
  widget_about_items_container_def widget_about_screen_1_def layout_about_screen_def
  widget_status_header_container_def widget_status_screen_2_def widget_status_items_container_def
  widget_status_screen_1_def layout_status_screen_def widget_reset_config_header_def
  widget_reset_config_button_def widget_reset_config_screen_2_def widget_reset_config_container_def
  widget_reset_config_screen_1_def layout_reset_config_screen_def widget_reboot_header_def
  widget_reboot_container_def widget_reboot_screen_1_def layout_reboot_screen_def
  layout_rebooting_screen_def widget_dhcp_client_header_def widget_dhcp_client_button_def
  widget_switch_dhcp_client_screen_2_def widget_dhcp_client_container_def
  widget_switch_dhcp_client_screen_1_def layout_switch_dhcp_client_screen_def

end
