(* ===== verification/Ui_Screens.thy ===== *)
theory Ui_Screens
  imports Ui_Layout
begin

text \<open>
  \<^verbatim>\<open>eez/src/ui/screens.c\<close>: creating the twelve screens from their layouts, and the tick functions that
  bring the labels bound to a variable up to date.
\<close>

section \<open>Running a layout\<close>

definition set_object :: "string option \<Rightarrow> lv_obj \<Rightarrow> ui \<Rightarrow> ui" where
  "set_object f ob u = (case f of None \<Rightarrow> u | Some n \<Rightarrow> u\<lparr>objects := (objects u)(n := ob)\<rparr>)"

definition run_wop :: "lv_env \<Rightarrow> lv_obj \<Rightarrow> wop \<Rightarrow> ui \<Rightarrow> ui" where
  "run_wop env ob w u = (case w of
       Op x \<Rightarrow> lrun (Lv_obj ob x) u
     | Style k \<Rightarrow> add_style_of k env ob u
     | Text t \<Rightarrow> lrun (Lv_label_set_text ob t) u)"

fun build :: "lv_env \<Rightarrow> lv_obj \<Rightarrow> widget \<Rightarrow> ui \<Rightarrow> ui"
  and build_all :: "lv_env \<Rightarrow> lv_obj \<Rightarrow> widget list \<Rightarrow> ui \<Rightarrow> ui" where
  "build env parent_obj (Widget k f ops children) u =
     (case lask env (Lv_create k parent_obj) u of (ob, u) \<Rightarrow>
        build_all env ob children (fold (run_wop env ob) ops (set_object f ob u)))"
| "build_all env parent_obj [] u = u"
| "build_all env parent_obj (w # ws) u = build_all env parent_obj ws (build env parent_obj w u)"

section \<open>Ticks\<close>

text \<open>
  The block a tick function has for each label bound to a variable: the text is set only when it
  differs from the value.
\<close>

definition tick_label :: "lv_env \<Rightarrow> string \<Rightarrow> string \<Rightarrow> ui \<Rightarrow> ui" where
  "tick_label env f new_val u =
     (let ob = objects u f; u = lrun (Lv_label_get_text ob) u; cur_val = ltext env (lcalls u) in
      if new_val \<noteq> cur_val
      then (lrun (Lv_label_set_text ob new_val) (u\<lparr>tick_value_change_obj := ob\<rparr>))\<lparr>tick_value_change_obj := 0\<rparr>
      else u)"

definition tick_screen_boot_screen :: "lv_env \<Rightarrow> ui \<Rightarrow> ui" where
  "tick_screen_boot_screen env u = tick_label env ''boot_screen_version'' (get_var_app_version (vars u)) u"

definition tick_screen_no_network_screen :: "lv_env \<Rightarrow> ui \<Rightarrow> ui" where
  "tick_screen_no_network_screen env u = u"
definition tick_screen_home_screen :: "lv_env \<Rightarrow> ui \<Rightarrow> ui" where
  "tick_screen_home_screen env u = u"
definition tick_screen_menu_screen :: "lv_env \<Rightarrow> ui \<Rightarrow> ui" where
  "tick_screen_menu_screen env u = u"
definition tick_screen_menu_advanced_screen :: "lv_env \<Rightarrow> ui \<Rightarrow> ui" where
  "tick_screen_menu_advanced_screen env u = u"
definition tick_screen_menu_network_screen :: "lv_env \<Rightarrow> ui \<Rightarrow> ui" where
  "tick_screen_menu_network_screen env u = u"

definition tick_screen_about_screen :: "lv_env \<Rightarrow> ui \<Rightarrow> ui" where
  "tick_screen_about_screen env u =
     (let u = tick_label env ''system_version'' (get_var_system_version (vars u)) u;
          u = tick_label env ''app_version'' (get_var_app_version (vars u)) u
      in case get_var_lvgl_version env (vars u) of (new_val, vs) \<Rightarrow>
           tick_label env ''lvgl_version'' new_val (u\<lparr>vars := vs\<rparr>))"

definition tick_screen_status_screen :: "lv_env \<Rightarrow> ui \<Rightarrow> ui" where
  "tick_screen_status_screen env u = u"
definition tick_screen_reset_config_screen :: "lv_env \<Rightarrow> ui \<Rightarrow> ui" where
  "tick_screen_reset_config_screen env u = u"
definition tick_screen_reboot_screen :: "lv_env \<Rightarrow> ui \<Rightarrow> ui" where
  "tick_screen_reboot_screen env u = u"
definition tick_screen_rebooting_screen :: "lv_env \<Rightarrow> ui \<Rightarrow> ui" where
  "tick_screen_rebooting_screen env u = u"
definition tick_screen_switch_dhcp_client_screen :: "lv_env \<Rightarrow> ui \<Rightarrow> ui" where
  "tick_screen_switch_dhcp_client_screen env u = u"

definition tick_screen_funcs :: "(lv_env \<Rightarrow> ui \<Rightarrow> ui) list" where
  "tick_screen_funcs = [tick_screen_boot_screen, tick_screen_no_network_screen, tick_screen_home_screen,
     tick_screen_menu_screen, tick_screen_menu_advanced_screen, tick_screen_menu_network_screen,
     tick_screen_about_screen, tick_screen_status_screen, tick_screen_reset_config_screen,
     tick_screen_reboot_screen, tick_screen_rebooting_screen, tick_screen_switch_dhcp_client_screen]"

text \<open>An index outside the table reads past it: the outcome \<open>None\<close>.\<close>

definition tick_screen :: "lv_env \<Rightarrow> int \<Rightarrow> ui \<Rightarrow> ui option" where
  "tick_screen env screen_index u =
     (if 0 \<le> screen_index \<and> screen_index < int (length tick_screen_funcs)
      then Some ((tick_screen_funcs ! nat screen_index) env u) else None)"

definition tick_screen_by_id :: "lv_env \<Rightarrow> int \<Rightarrow> ui \<Rightarrow> ui option" where
  "tick_screen_by_id env screenId u =
     (if 0 \<le> screenId - 1 \<and> screenId - 1 < int (length tick_screen_funcs)
      then Some ((tick_screen_funcs ! nat (screenId - 1)) env u) else None)"

section \<open>Creation\<close>

definition create_screen_boot_screen :: "lv_env \<Rightarrow> ui \<Rightarrow> ui" where
  "create_screen_boot_screen env u = tick_screen_boot_screen env (build env 0 layout_boot_screen u)"
definition create_screen_no_network_screen :: "lv_env \<Rightarrow> ui \<Rightarrow> ui" where
  "create_screen_no_network_screen env u = tick_screen_no_network_screen env (build env 0 layout_no_network_screen u)"
definition create_screen_home_screen :: "lv_env \<Rightarrow> ui \<Rightarrow> ui" where
  "create_screen_home_screen env u = tick_screen_home_screen env (build env 0 layout_home_screen u)"
definition create_screen_menu_screen :: "lv_env \<Rightarrow> ui \<Rightarrow> ui" where
  "create_screen_menu_screen env u = tick_screen_menu_screen env (build env 0 layout_menu_screen u)"
definition create_screen_menu_advanced_screen :: "lv_env \<Rightarrow> ui \<Rightarrow> ui" where
  "create_screen_menu_advanced_screen env u =
     tick_screen_menu_advanced_screen env (build env 0 layout_menu_advanced_screen u)"
definition create_screen_menu_network_screen :: "lv_env \<Rightarrow> ui \<Rightarrow> ui" where
  "create_screen_menu_network_screen env u =
     tick_screen_menu_network_screen env (build env 0 layout_menu_network_screen u)"
definition create_screen_about_screen :: "lv_env \<Rightarrow> ui \<Rightarrow> ui" where
  "create_screen_about_screen env u = tick_screen_about_screen env (build env 0 layout_about_screen u)"
definition create_screen_status_screen :: "lv_env \<Rightarrow> ui \<Rightarrow> ui" where
  "create_screen_status_screen env u = tick_screen_status_screen env (build env 0 layout_status_screen u)"
definition create_screen_reset_config_screen :: "lv_env \<Rightarrow> ui \<Rightarrow> ui" where
  "create_screen_reset_config_screen env u =
     tick_screen_reset_config_screen env (build env 0 layout_reset_config_screen u)"
definition create_screen_reboot_screen :: "lv_env \<Rightarrow> ui \<Rightarrow> ui" where
  "create_screen_reboot_screen env u = tick_screen_reboot_screen env (build env 0 layout_reboot_screen u)"
definition create_screen_rebooting_screen :: "lv_env \<Rightarrow> ui \<Rightarrow> ui" where
  "create_screen_rebooting_screen env u = tick_screen_rebooting_screen env (build env 0 layout_rebooting_screen u)"
definition create_screen_switch_dhcp_client_screen :: "lv_env \<Rightarrow> ui \<Rightarrow> ui" where
  "create_screen_switch_dhcp_client_screen env u =
     tick_screen_switch_dhcp_client_screen env (build env 0 layout_switch_dhcp_client_screen u)"

text \<open>The display and the theme are pointers; the palette colours and the font are arguments of LVGL's own.\<close>

definition create_screens :: "lv_env \<Rightarrow> ui \<Rightarrow> ui" where
  "create_screens env u =
     (case lask env Lv_disp_get_default u of (dispp, u) \<Rightarrow>
      case lask env (Lv_theme_default_init dispp) u of (theme, u) \<Rightarrow>
      let u = lrun (Lv_disp_set_theme dispp theme) u;
          u = create_screen_boot_screen env u;
          u = create_screen_no_network_screen env u;
          u = create_screen_home_screen env u;
          u = create_screen_menu_screen env u;
          u = create_screen_menu_advanced_screen env u;
          u = create_screen_menu_network_screen env u;
          u = create_screen_about_screen env u;
          u = create_screen_status_screen env u;
          u = create_screen_reset_config_screen env u;
          u = create_screen_reboot_screen env u;
          u = create_screen_rebooting_screen env u
      in create_screen_switch_dhcp_client_screen env u)"

lemmas create_defs = create_screen_boot_screen_def create_screen_no_network_screen_def create_screen_home_screen_def
  create_screen_menu_screen_def create_screen_menu_advanced_screen_def create_screen_menu_network_screen_def
  create_screen_about_screen_def create_screen_status_screen_def create_screen_reset_config_screen_def
  create_screen_reboot_screen_def create_screen_rebooting_screen_def create_screen_switch_dhcp_client_screen_def

lemmas tick_defs = tick_screen_boot_screen_def tick_screen_no_network_screen_def tick_screen_home_screen_def
  tick_screen_menu_screen_def tick_screen_menu_advanced_screen_def tick_screen_menu_network_screen_def
  tick_screen_about_screen_def tick_screen_status_screen_def tick_screen_reset_config_screen_def
  tick_screen_reboot_screen_def tick_screen_rebooting_screen_def tick_screen_switch_dhcp_client_screen_def

end
