(* ===== verification/Ui_Screens_Props.thy ===== *)
theory Ui_Screens_Props
  imports Ui_Screens "HOL-Library.Multiset"
begin

text \<open>
  Creating the screens fills every field of \<^verbatim>\<open>objects\<close> with an object of its own, and a tick
  brings the labels of a screen up to the variables they show.
\<close>

section \<open>The fields a layout assigns\<close>

fun fields_of :: "widget \<Rightarrow> string list" and fields_of_all :: "widget list \<Rightarrow> string list" where
  "fields_of (Widget k f ops children) = (case f of None \<Rightarrow> [] | Some n \<Rightarrow> [n]) @ fields_of_all children"
| "fields_of_all [] = []"
| "fields_of_all (w # ws) = fields_of w @ fields_of_all ws"

text \<open>\<open>assigns env fs u u'\<close>: between \<open>u\<close> and \<open>u'\<close> exactly the fields \<open>fs\<close> were given objects created in between.\<close>

definition assigns :: "lv_env \<Rightarrow> string list \<Rightarrow> ui \<Rightarrow> ui \<Rightarrow> bool" where
  "assigns env fs u u' \<longleftrightarrow> (\<exists>new. created env (lcalls u') = new @ created env (lcalls u) \<and>
     (\<forall>f. f \<notin> set fs \<longrightarrow> objects u' f = objects u f) \<and> objects u' ` set fs \<subseteq> set new \<and> inj_on (objects u') (set fs))"

lemma created_distinct:
  assumes "fresh_objects env"
  shows "distinct (created env h) \<and> 0 \<notin> set (created env h)"
proof (induction h)
  case (Cons c h)
  show ?case
  proof (cases "\<exists>k p. c = Lv_create k p")
    case True
    then obtain k p where "c = Lv_create k p" by blast
    with Cons fresh_objectsD [OF assms, of k p h] show ?thesis by simp
  next
    case False
    then have "created env (c # h) = created env h" by (cases c) simp_all
    with Cons show ?thesis by simp
  qed
qed simp

lemma assigns_append:
  assumes "fresh_objects env" "assigns env fs u v" "assigns env gs v w" "set fs \<inter> set gs = {}"
  shows "assigns env (fs @ gs) u w"
proof -
  from assms(2) obtain new where
    n: "created env (lcalls v) = new @ created env (lcalls u)" "\<forall>f. f \<notin> set fs \<longrightarrow> objects v f = objects u f"
      "objects v ` set fs \<subseteq> set new" "inj_on (objects v) (set fs)"
    unfolding assigns_def by (elim exE conjE)
  from assms(3) obtain new' where
    n': "created env (lcalls w) = new' @ created env (lcalls v)" "\<forall>f. f \<notin> set gs \<longrightarrow> objects w f = objects v f"
      "objects w ` set gs \<subseteq> set new'" "inj_on (objects w) (set gs)"
    unfolding assigns_def by (elim exE conjE)
  have eq: "objects w f = objects v f" if "f \<in> set fs" for f using n'(2) that assms(4) by blast
  then have im: "objects w ` set fs \<subseteq> set new" "inj_on (objects w) (set fs)"
    using n(3,4) by (auto simp: inj_on_def)
  have "distinct (new' @ new @ created env (lcalls u))" using created_distinct [OF assms(1), of "lcalls w"] n(1) n'(1) by simp
  then have "set new' \<inter> set new = {}" by auto
  then have "objects w ` set fs \<inter> objects w ` set gs = {}" using im(1) n'(3) by blast
  then have "inj_on (objects w) (set (fs @ gs))" using im(2) n'(4) by (auto simp: inj_on_Un)
  then show ?thesis unfolding assigns_def
    using n(1,2) n'(1,2,3) im(1) by (intro exI [of _ "new' @ new"]) auto
qed

section \<open>Layouts\<close>

text \<open>The operations of a widget assign no field, create nothing and keep the variables.\<close>

lemma run_wop_frame:
  "objects (run_wop env ob w u) = objects u" "created env (lcalls (run_wop env ob w u)) = created env (lcalls u)"
  "vars (run_wop env ob w u) = vars u" "active_screen (lcalls (run_wop env ob w u)) = active_screen (lcalls u)"
  "logs (run_wop env ob w u) = logs u"
  by (cases w; simp add: run_wop_def styled_frame [OF styled_add_style_of])+

lemma run_wops_frame:
  "objects (fold (run_wop env ob) ws u) = objects u" "created env (lcalls (fold (run_wop env ob) ws u)) = created env (lcalls u)"
  "vars (fold (run_wop env ob) ws u) = vars u"
  "active_screen (lcalls (fold (run_wop env ob) ws u)) = active_screen (lcalls u)"
  "logs (fold (run_wop env ob) ws u) = logs u"
  by (induction ws arbitrary: u) (simp_all add: run_wop_frame)

lemma set_object_frame:
  "lcalls (set_object f ob u) = lcalls u" "vars (set_object f ob u) = vars u" "logs (set_object f ob u) = logs u"
  by (simp_all add: set_object_def split: option.split)

lemma build_keeps:
  "vars (build env p w u) = vars u \<and> active_screen (lcalls (build env p w u)) = active_screen (lcalls u) \<and>
     logs (build env p w u) = logs u"
  "vars (build_all env p ws u) = vars u \<and> active_screen (lcalls (build_all env p ws u)) = active_screen (lcalls u) \<and>
     logs (build_all env p ws u) = logs u"
  by (induction env p w u and env p ws u rule: build_build_all.induct)
    (simp_all add: lask_def run_wops_frame set_object_frame)

lemma assigns_create:
  assumes "fresh_objects env"
  shows "assigns env (case f of None \<Rightarrow> [] | Some n \<Rightarrow> [n]) u
    (fold (run_wop env (lptr env (Lv_create k p # lcalls u))) ops
       (set_object f (lptr env (Lv_create k p # lcalls u)) (lrun (Lv_create k p) u)))"
  unfolding assigns_def
  by (rule exI [of _ "[lptr env (Lv_create k p # lcalls u)]"])
    (simp add: run_wops_frame set_object_frame, simp add: set_object_def split: option.split)

lemma assigns_build:
  "fresh_objects env \<Longrightarrow> distinct (fields_of w) \<Longrightarrow> assigns env (fields_of w) u (build env p w u)"
  "fresh_objects env \<Longrightarrow> distinct (fields_of_all ws) \<Longrightarrow> assigns env (fields_of_all ws) u (build_all env p ws u)"
proof (induction env p w u and env p ws u rule: build_build_all.induct)
  case (1 env p k f ops children u)
  let ?ob = "lptr env (Lv_create k p # lcalls u)"
  let ?v = "fold (run_wop env ?ob) ops (set_object f ?ob (lrun (Lv_create k p) u))"
  let ?n = "case f of None \<Rightarrow> [] | Some n \<Rightarrow> [n]"
  have d: "distinct (fields_of_all children)" "set ?n \<inter> set (fields_of_all children) = {}"
    using 1(3) by (auto split: option.splits)
  have "assigns env ?n u ?v" by (rule assigns_create) (rule 1(2))
  moreover have "assigns env (fields_of_all children) ?v (build_all env ?ob children ?v)"
    using 1(1) [of ?ob "lrun (Lv_create k p) u"] 1(2) d(1) by (simp add: lask_def)
  ultimately show ?case using assigns_append [OF 1(2) _ _ d(2)] by (simp add: lask_def)
next
  case (2 env p u)
  show ?case by (simp add: assigns_def)
next
  case (3 env p w ws u)
  then show ?case using assigns_append [OF 3(3)] by simp
qed

section \<open>Ticks\<close>

lemma tick_label_frame:
  "objects (tick_label env f v u) = objects u" "created env (lcalls (tick_label env f v u)) = created env (lcalls u)"
  "vars (tick_label env f v u) = vars u" "active_screen (lcalls (tick_label env f v u)) = active_screen (lcalls u)"
  "logs (tick_label env f v u) = logs u" "currentScreen (tick_label env f v u) = currentScreen u"
  by (simp_all add: tick_label_def Let_def)

lemma tick_label_shows:
  assumes "faithful_labels env"
  shows "label_text ob (lcalls (tick_label env f v u)) = (if ob = objects u f then v else label_text ob (lcalls u))"
  using assms by (auto simp: tick_label_def Let_def faithful_labels_def)

section \<open>All screens\<close>

definition layouts :: "widget list" where
  "layouts = [layout_boot_screen, layout_no_network_screen, layout_home_screen, layout_menu_screen,
     layout_menu_advanced_screen, layout_menu_network_screen, layout_about_screen, layout_status_screen,
     layout_reset_config_screen, layout_reboot_screen, layout_rebooting_screen, layout_switch_dhcp_client_screen]"

lemma map_fields_of_layouts: "map fields_of layouts =
    [[''boot_screen'', ''boot_logo'', ''boot_screen_version''],
     [''no_network_screen'', ''no_network_header_container'', ''no_network_header_logo'',
      ''no_network_content_container'', ''no_network_title'', ''home_info_ipv6_addr_1''],
     [''home_screen'', ''home_header_container'', ''home_header_logo'', ''cloud_status_icon'',
      ''cloud_status_label'', ''home_info_container'', ''home_info_ipv4_addr'', ''home_info_ipv6_addr'',
      ''home_info_mac_addr'', ''divider'', ''home_status_container'', ''usb_status'', ''usb_indicator'',
      ''usb_status_label'', ''hdmi_status'', ''hdmi_indicator'', ''hdmi_status_label''],
     [''menu_screen'', ''menu_header_container'', ''menu_items_container'', ''menu_btn_status'',
      ''menu_btn_network'', ''menu_btn_access'', ''menu_btn_advanced'', ''menu_btn_about''],
     [''menu_advanced_screen'', ''menu_header_container_1'', ''menu_items_container_1'',
      ''menu_btn_advanced_developer_mode'', ''menu_btn_advanced_usb_emulation'',
      ''menu_btn_advanced_reboot'', ''menu_btn_dhcp_client'', ''menu_btn_advanced_reset_config''],
     [''menu_network_screen'', ''menu_header_container_2'', ''menu_items_container_2'',
      ''menu_btn_network_ipv4'', ''menu_btn_network_ipv6'', ''menu_btn_network_lldp''],
     [''about_screen'', ''about_header_container'', ''about_items_container'',
      ''system_version_container'', ''system_version'', ''app_version_container'', ''app_version'',
      ''build_branch_container'', ''build_branch'', ''build_date_container'', ''build_date'',
      ''golang_version_container'', ''golang_version'', ''lvgl_version_container'', ''lvgl_version'',
      ''kernel_version_container'', ''kernel_version'', ''cpu_serial_container'', ''cpu_serial''],
     [''status_screen'', ''status_header_container'', ''status_items_container'', ''device_id_container'',
      ''device_id'', ''cloud_account_id_container'', ''app_version_1'', ''cloud_domain_container'',
      ''cloud_domain''],
     [''reset_config_screen'', ''reset_config_header'', ''reset_config_container'',
      ''reset_config_label_container'', ''reset_config_label'', ''reset_config_spinner'',
      ''reset_config_button'', ''obj0''],
     [''reboot_screen'', ''reboot_header'', ''reboot_container'', ''reboot_label_container'',
      ''reboot_label'', ''reboot_config_button'', ''obj1''],
     [''rebooting_screen'', ''reboot_in_progress_logo'', ''reboot_in_progress_label''],
     [''switch_dhcp_client_screen'', ''dhcp_client_header'', ''dhcp_client_container'',
      ''dhcp_client_label_container'', ''dhcpc_label'', ''dhcp_client_spinner'', ''dhcp_client_button'',
      ''obj2'', ''dhcp_client_change_label'']]"
  by (simp only: layouts_def layout_defs fields_of.simps fields_of_all.simps list.map option.case append.simps append_Nil2)

text \<open>The structure lists the screens first and then the other objects in the order of the screens.\<close>

lemma object_fields_layouts: "object_fields = map hd (map fields_of layouts) @ concat (map tl (map fields_of layouts))"
  unfolding map_fields_of_layouts object_fields_def by simp

lemma distinct_object_fields: "distinct object_fields"
  unfolding object_fields_def by simp

lemma mset_hd_tl: "[] \<notin> set xss \<Longrightarrow> mset (map hd xss @ concat (map tl xss)) = mset (concat xss)"
proof (induction xss)
  case (Cons xs xss)
  then show ?case by (cases xs) auto
qed simp

lemma fields_of_all_concat: "fields_of_all ws = concat (map fields_of ws)"
  by (induction ws) auto

text \<open>The layouts name every field of \<^verbatim>\<open>objects_t\<close>, and none twice.\<close>

lemma mset_fields_of_layouts: "mset (fields_of_all layouts) = mset object_fields"
  unfolding fields_of_all_concat object_fields_layouts
  by (rule mset_hd_tl [symmetric]) (simp add: map_fields_of_layouts del: list.map set_map)

lemma fields_of_layouts: "distinct (fields_of_all layouts)" "set (fields_of_all layouts) = set object_fields"
  using mset_eq_imp_distinct_iff [OF mset_fields_of_layouts] distinct_object_fields
    mset_eq_setD [OF mset_fields_of_layouts] by simp_all

definition objects_ok :: "lv_env \<Rightarrow> ui \<Rightarrow> bool" where
  "objects_ok env u \<longleftrightarrow> inj_on (objects u) (set object_fields) \<and>
     (\<forall>f\<in>set object_fields. objects u f \<noteq> 0 \<and> objects u f \<in> set (created env (lcalls u)))"

lemma assigns_frame: "objects u' = objects u \<Longrightarrow> created env (lcalls u') = created env (lcalls u) \<Longrightarrow> assigns env fs t u \<Longrightarrow> assigns env fs t u'"
  by (simp add: assigns_def)

lemma tick_frame:
  assumes "tick \<in> set tick_screen_funcs"
  shows "objects (tick env u) = objects u \<and> created env (lcalls (tick env u)) = created env (lcalls u) \<and>
    active_screen (lcalls (tick env u)) = active_screen (lcalls u) \<and> logs (tick env u) = logs u \<and>
    currentScreen (tick env u) = currentScreen u"
  using assms unfolding tick_screen_funcs_def
  by (auto simp: tick_defs tick_label_frame Let_def split: prod.split)

text \<open>Creating one screen after another: the layout of each is built and then its tick function runs.\<close>

fun create_all :: "lv_env \<Rightarrow> (widget \<times> (lv_env \<Rightarrow> ui \<Rightarrow> ui)) list \<Rightarrow> ui \<Rightarrow> ui" where
  "create_all env [] u = u"
| "create_all env ((w, tick) # rest) u = create_all env rest (tick env (build env 0 w u))"

lemma create_screens_all:
  "create_screens env u = create_all env (zip layouts tick_screen_funcs)
     (let d = lptr env (Lv_disp_get_default # lcalls u); th = lptr env (Lv_theme_default_init d # Lv_disp_get_default # lcalls u)
      in lrun (Lv_disp_set_theme d th) (lrun (Lv_theme_default_init d) (lrun Lv_disp_get_default u)))"
  by (simp add: create_screens_def create_defs lask_def Let_def layouts_def tick_screen_funcs_def)

lemma assigns_create_all:
  assumes "fresh_objects env"
  shows "distinct (fields_of_all (map fst wts)) \<Longrightarrow> snd ` set wts \<subseteq> set tick_screen_funcs \<Longrightarrow>
    assigns env (fields_of_all (map fst wts)) u (create_all env wts u)"
proof (induction wts arbitrary: u)
  case Nil
  then show ?case by (simp add: assigns_def)
next
  case (Cons wt wts)
  obtain w tick where wt: "wt = (w, tick)" by (cases wt)
  let ?v = "tick env (build env 0 w u)"
  have t: "tick \<in> set tick_screen_funcs" using Cons(3) by (simp add: wt)
  have "assigns env (fields_of w) u (build env 0 w u)" using Cons(2) by (intro assigns_build(1) assms) (simp add: wt)
  then have "assigns env (fields_of w) u ?v" using tick_frame [OF t, of env "build env 0 w u"] assigns_frame by blast
  moreover have "assigns env (fields_of_all (map fst wts)) ?v (create_all env wts ?v)" using Cons by (simp add: wt)
  moreover have "set (fields_of w) \<inter> set (fields_of_all (map fst wts)) = {}" using Cons(2) by (simp add: wt)
  ultimately show ?case using assigns_append [OF assms] by (simp add: wt)
qed

lemma create_screens_objects_ok:
  assumes "fresh_objects env"
  shows "objects_ok env (create_screens env u)"
proof -
  have len: "length layouts = length tick_screen_funcs" by (simp add: layouts_def tick_screen_funcs_def)
  have z: "map fst (zip layouts tick_screen_funcs) = layouts" "snd ` set (zip layouts tick_screen_funcs) \<subseteq> set tick_screen_funcs"
    using len by (simp, auto dest: set_zip_rightD)
  have "assigns env (fields_of_all layouts) v (create_all env (zip layouts tick_screen_funcs) v)" for v
    using assigns_create_all [OF assms, of "zip layouts tick_screen_funcs" v] z fields_of_layouts(1) by simp
  then obtain v where "assigns env (fields_of_all layouts) v (create_screens env u)"
    unfolding create_screens_all by blast
  moreover have "0 \<notin> set (created env (lcalls (create_screens env u)))" using created_distinct [OF assms] by blast
  ultimately obtain new where
    n: "created env (lcalls (create_screens env u)) = new @ created env (lcalls v)" "0 \<notin> set new"
      "objects (create_screens env u) ` set object_fields \<subseteq> set new" "inj_on (objects (create_screens env u)) (set object_fields)"
    unfolding assigns_def fields_of_layouts(2) by (elim exE conjE) simp
  have "objects (create_screens env u) f \<noteq> 0 \<and> objects (create_screens env u) f \<in> set (new @ created env (lcalls v))"
    if "f \<in> set object_fields" for f
  proof -
    have "objects (create_screens env u) f \<in> set new" using n(3) that by blast
    with n(2) show ?thesis by (metis Un_iff set_append)
  qed
  with n(4) show ?thesis unfolding objects_ok_def n(1) by blast
qed

lemma length_object_fields: "length object_fields = 103"
  unfolding object_fields_def by simp

section \<open>What a tick shows\<close>

text \<open>The three labels of the about screen, as a tick leaves them.\<close>

lemma bound_labels_distinct:
  assumes "objects_ok env u"
  shows "objects u ''system_version'' \<noteq> objects u ''app_version''" "objects u ''system_version'' \<noteq> objects u ''lvgl_version''"
    "objects u ''app_version'' \<noteq> objects u ''lvgl_version''"
proof -
  have m: "''system_version'' \<in> set object_fields" "''app_version'' \<in> set object_fields" "''lvgl_version'' \<in> set object_fields"
    by (simp_all add: object_fields_def)
  have "inj_on (objects u) (set object_fields)" using assms by (simp add: objects_ok_def)
  from inj_on_eq_iff [OF this] m show "objects u ''system_version'' \<noteq> objects u ''app_version''"
    "objects u ''system_version'' \<noteq> objects u ''lvgl_version''" "objects u ''app_version'' \<noteq> objects u ''lvgl_version''"
    by simp_all
qed

lemma vars_ok_lvgl: "vars_ok vs \<Longrightarrow> vars_ok (snd (get_var_lvgl_version env vs))"
  using lvgl_version_cell.get_sets [of vs env] by blast

lemma lvgl_twice: "vars_ok vs \<Longrightarrow> get_var_lvgl_version env (snd (get_var_lvgl_version env vs)) = get_var_lvgl_version env vs"
  using lvgl_version_cell.get_twice [of vs env] by simp

text \<open>Once stored, the LVGL version is the one of the library.\<close>

definition vars_inv :: "lv_env \<Rightarrow> ui_vars \<Rightarrow> bool" where
  "vars_inv env vs \<longleftrightarrow> vars_ok vs \<and> (lvgl_version vs ! 0 \<noteq> NUL \<longrightarrow> cstr (lvgl_version vs) = version_text (lversion env))"

lemma vars_inv_lvgl:
  assumes "vars_inv env vs"
  shows "fst (get_var_lvgl_version env vs) = version_text (lversion env)" "vars_inv env (snd (get_var_lvgl_version env vs))"
proof -
  have ok: "vars_ok vs" using assms by (simp add: vars_inv_def)
  show "fst (get_var_lvgl_version env vs) = version_text (lversion env)"
  proof (cases "lvgl_version vs ! 0 = NUL")
    case True
    from get_lvgl_version_first [OF ok this, of env] show ?thesis by auto
  next
    case False
    then show ?thesis using lvgl_version_cell.hit [OF ok False, of env] assms by (simp add: vars_inv_def)
  qed
  then show "vars_inv env (snd (get_var_lvgl_version env vs))"
    using lvgl_version_cell.get_sets [of vs env] ok by (simp add: vars_inv_def)
qed

lemma tick_vars_inv:
  assumes "tick \<in> set tick_screen_funcs" "vars_inv env (vars u)"
  shows "vars_inv env (vars (tick env u))"
  using assms vars_inv_lvgl(2) [OF assms(2)] unfolding tick_screen_funcs_def
  by (auto simp: tick_defs tick_label_frame Let_def case_prod_beta)

lemma create_all_vars_inv:
  "snd ` set wts \<subseteq> set tick_screen_funcs \<Longrightarrow> vars_inv env (vars u) \<Longrightarrow> vars_inv env (vars (create_all env wts u))"
proof (induction wts arbitrary: u)
  case (Cons wt wts)
  then show ?case by (cases wt) (simp add: tick_vars_inv build_keeps)
qed simp

lemma create_screens_vars_inv: "vars_inv env (vars u) \<Longrightarrow> vars_inv env (vars (create_screens env u))"
  unfolding create_screens_all Let_def
  by (rule create_all_vars_inv) (auto dest: set_zip_rightD)

lemma vars_init_inv: "vars_inv env vars_init"
  using vars_init_ok by (simp add: vars_inv_def) (simp add: vars_init_def)

lemma tick_about:
  assumes "faithful_labels env" "objects_ok env u" "vars_ok (vars u)"
  defines "u' \<equiv> tick_screen_about_screen env u"
  shows "vars u' = snd (get_var_lvgl_version env (vars u))"
    "label_text (objects u ''system_version'') (lcalls u') = get_var_system_version (vars u)"
    "label_text (objects u ''app_version'') (lcalls u') = get_var_app_version (vars u)"
    "label_text (objects u ''lvgl_version'') (lcalls u') = fst (get_var_lvgl_version env (vars u))"
    "ob \<notin> objects u ` {''system_version'', ''app_version'', ''lvgl_version''} \<Longrightarrow>
       label_text ob (lcalls u') = label_text ob (lcalls u)"
  using bound_labels_distinct [OF assms(2)]
  by (auto simp: u'_def tick_screen_about_screen_def Let_def tick_label_frame tick_label_shows [OF assms(1)] case_prod_beta)

section \<open>Stated properties\<close>

text \<open>C10: Creating the screens fills the whole object table: whatever the state before, afterwards every one of the 103
  fields of \<^verbatim>\<open>objects\<close> holds a pointer that is not NULL, to an object the library created, and no two fields hold
  the same object; so no access through the table, by name or by screen number, meets a null pointer or a stale object.\<close>

theorem create_screens_objects:
  assumes "fresh_objects env"
  shows "length object_fields = 103 \<and> inj_on (objects (create_screens env u)) (set object_fields) \<and>
    (\<forall>f\<in>set object_fields. objects (create_screens env u) f \<noteq> 0 \<and>
       objects (create_screens env u) f \<in> set (created env (lcalls (create_screens env u))))"
  using create_screens_objects_ok [OF assms, of u] length_object_fields unfolding objects_ok_def by blast

theorem create_screens_objects_witness:
  "objects (create_screens sample_lv ui_globals) ''home_screen'' \<noteq> 0 \<and>
   objects (create_screens sample_lv ui_globals) ''home_screen'' \<noteq> objects (create_screens sample_lv ui_globals) ''boot_screen''"
proof -
  note c = create_screens_objects [OF sample_lv_ok(1), of ui_globals]
  have m: "''home_screen'' \<in> set object_fields" "''boot_screen'' \<in> set object_fields" by (simp_all add: object_fields_def)
  from c have "inj_on (objects (create_screens sample_lv ui_globals)) (set object_fields)" by blast
  from inj_on_eq_iff [OF this m] c m(1) show ?thesis by auto
qed

text \<open>The about screen shows the variables: after its tick the three bound labels read the system version, the
  application version and the LVGL version, every other label reads what it read before, and once the LVGL
  version is formatted a further tick, with the variables unchanged, leaves every label as it is.\<close>

theorem about_screen_shows_vars:
  assumes "faithful_labels env" "objects_ok env u" "vars_ok (vars u)"
  shows "\<exists>u'. tick_screen_by_id env SCREEN_ID_ABOUT_SCREEN u = Some u' \<and> objects u' = objects u \<and> vars_ok (vars u') \<and>
    label_text (objects u ''system_version'') (lcalls u') = get_var_system_version (vars u) \<and>
    label_text (objects u ''app_version'') (lcalls u') = get_var_app_version (vars u) \<and>
    label_text (objects u ''lvgl_version'') (lcalls u') = fst (get_var_lvgl_version env (vars u)) \<and>
    (\<forall>ob. ob \<notin> objects u ` {''system_version'', ''app_version'', ''lvgl_version''} \<longrightarrow>
       label_text ob (lcalls u') = label_text ob (lcalls u)) \<and>
    (lvgl_version (vars u) ! 0 \<noteq> NUL \<longrightarrow> (\<exists>u''. tick_screen_by_id env SCREEN_ID_ABOUT_SCREEN u' = Some u'' \<and>
       (\<forall>ob. label_text ob (lcalls u'') = label_text ob (lcalls u'))))"
proof -
  let ?u = "tick_screen_about_screen env u"
  have id: "tick_screen_by_id env SCREEN_ID_ABOUT_SCREEN v = Some (tick_screen_about_screen env v)" for v
    by (simp add: tick_screen_by_id_def SCREEN_ID_ABOUT_SCREEN_def tick_screen_funcs_def)
  have "tick_screen_about_screen \<in> set tick_screen_funcs" by (simp add: tick_screen_funcs_def)
  from tick_frame [OF this, of env u] have f: "objects ?u = objects u" "created env (lcalls ?u) = created env (lcalls u)" by auto
  have ok: "objects_ok env ?u" using assms(2) f by (simp add: objects_ok_def)
  note t = tick_about [OF assms]
  have v: "vars_ok (vars ?u)" unfolding t(1) by (rule vars_ok_lvgl) (rule assms(3))
  have "label_text ob (lcalls (tick_screen_about_screen env ?u)) = label_text ob (lcalls ?u)"
    if "lvgl_version (vars u) ! 0 \<noteq> NUL" for ob
  proof -
    have "get_var_lvgl_version env (vars u) = (cstr (lvgl_version (vars u)), vars u)"
      by (rule lvgl_version_cell.hit [OF assms(3) that])
    with t(1) have "vars ?u = vars u" by simp
    then show ?thesis
      using tick_about [OF assms(1) ok v] t(2-4) f(1) by (cases "ob \<in> objects u ` {''system_version'', ''app_version'', ''lvgl_version''}") auto
  qed
  then show ?thesis using id t(2-5) f(1) v by auto
qed

theorem about_screen_shows_vars_witness:
  "\<exists>u'. tick_screen_by_id sample_lv 7 (create_screens sample_lv ui_globals) = Some u' \<and>
     label_text (objects (create_screens sample_lv ui_globals) ''lvgl_version'') (lcalls u') = ''9.2.2''"
proof -
  let ?u = "create_screens sample_lv ui_globals"
  have i: "vars_inv sample_lv (vars ?u)"
    by (rule create_screens_vars_inv) (simp add: ui_globals_def vars_init_inv)
  then have v: "vars_ok (vars ?u)" by (simp add: vars_inv_def)
  have "fst (get_var_lvgl_version sample_lv (vars ?u)) = ''9.2.2''"
    unfolding vars_inv_lvgl(1) [OF i] by code_simp
  with about_screen_shows_vars [OF sample_lv_ok(2) create_screens_objects_ok [OF sample_lv_ok(1)] v]
  show ?thesis unfolding SCREEN_ID_ABOUT_SCREEN_def by auto
qed

end
