(* ===== verification/Ui_Actions.thy ===== *)
theory Ui_Actions
  imports Ui_Screens_Props
begin

text \<open>
  \<^verbatim>\<open>eez/src/ui/ui.c\<close> and \<^verbatim>\<open>eez/src/ui/actions.c\<close>: loading screens, the periodic tick, and the event
  callbacks of the screens: navigation, gestures and the three buttons that act when they are held.
  An access outside the object table is the outcome \<open>None\<close>.
\<close>

section \<open>ui.c\<close>

definition ui_set_rpc_handler :: "bool \<Rightarrow> ui \<Rightarrow> ui" where
  "ui_set_rpc_handler handler u = u\<lparr>ui_rpc_handler := handler\<rparr>"

text \<open>The one handler that is ever set is \<^verbatim>\<open>jetkvm_call_rpc_handler\<close> of \<^verbatim>\<open>ctrl.c\<close>.\<close>

definition jetkvm_call_rpc_handler :: "string \<Rightarrow> string option \<Rightarrow> ui \<Rightarrow> ui" where
  "jetkvm_call_rpc_handler m params u = (if rpc_handler u then lrun (Rpc_handler m params) u else u)"

definition ui_call_rpc_handler :: "string \<Rightarrow> string option \<Rightarrow> ui \<Rightarrow> ui" where
  "ui_call_rpc_handler m params u = (if ui_rpc_handler u then jetkvm_call_rpc_handler m params u else u)"

definition getLvglObjectFromIndex :: "int \<Rightarrow> ui \<Rightarrow> lv_obj option" where
  "getLvglObjectFromIndex index u =
     (if index = -1 then Some 0
      else if 0 \<le> index \<and> index < int (length object_fields) then Some (objects u (object_fields ! nat index))
      else None)"

definition loadScreen :: "int \<Rightarrow> ui \<Rightarrow> ui option" where
  "loadScreen screenId u =
     (let u = u\<lparr>currentScreen := screenId - 1\<rparr> in
      case getLvglObjectFromIndex (currentScreen u) u of None \<Rightarrow> None
      | Some screen \<Rightarrow> Some (lrun (Lv_scr_load screen) u))"

definition ui_init :: "lv_env \<Rightarrow> ui \<Rightarrow> ui option" where
  "ui_init env u = loadScreen SCREEN_ID_BOOT_SCREEN (create_screens env u)"

definition ui_tick :: "lv_env \<Rightarrow> ui \<Rightarrow> ui option" where
  "ui_tick env u = tick_screen env (currentScreen u) u"

section \<open>Gestures and navigation\<close>

definition handle_gesture_screen_switch :: "lv_env \<Rightarrow> lv_event_code \<Rightarrow> lv_dir \<Rightarrow> int \<Rightarrow> ui \<Rightarrow> (int \<times> ui) option" where
  "handle_gesture_screen_switch env event_code direction screenId u =
     (if event_code \<noteq> LV_EVENT_GESTURE then Some (0, u)
      else case lask env Lv_indev_get_act u of (indev, u) \<Rightarrow>
        if ldir env (lcalls u) indev \<noteq> direction then Some (0, u)
        else case lask env Lv_indev_get_act u of (indev, u) \<Rightarrow>
          map_option (\<lambda>u. (1, u)) (loadScreen screenId (lrun (Lv_indev_wait_release indev) u)))"

definition handle_gesture_main_screen_switch :: "lv_event_code \<Rightarrow> lv_dir \<Rightarrow> ui \<Rightarrow> ui option" where
  "handle_gesture_main_screen_switch e direction u =
     (let main = get_var_main_screen (vars u) in
      if main = ''home_screen'' then loadScreen SCREEN_ID_HOME_SCREEN u
      else if main = ''no_network_screen'' then loadScreen SCREEN_ID_NO_NETWORK_SCREEN u
      else Some u)"

definition action_switch_to_menu :: "lv_env \<Rightarrow> lv_event_code \<Rightarrow> ui \<Rightarrow> ui option" where
  "action_switch_to_menu env e u = loadScreen SCREEN_ID_MENU_SCREEN u"
definition action_switch_to_advanced_menu :: "lv_env \<Rightarrow> lv_event_code \<Rightarrow> ui \<Rightarrow> ui option" where
  "action_switch_to_advanced_menu env e u = loadScreen SCREEN_ID_MENU_ADVANCED_SCREEN u"
definition action_switch_to_status :: "lv_env \<Rightarrow> lv_event_code \<Rightarrow> ui \<Rightarrow> ui option" where
  "action_switch_to_status env e u = loadScreen SCREEN_ID_STATUS_SCREEN u"
definition action_switch_to_about :: "lv_env \<Rightarrow> lv_event_code \<Rightarrow> ui \<Rightarrow> ui option" where
  "action_switch_to_about env e u = loadScreen SCREEN_ID_ABOUT_SCREEN u"
definition action_switch_to_reset_config :: "lv_env \<Rightarrow> lv_event_code \<Rightarrow> ui \<Rightarrow> ui option" where
  "action_switch_to_reset_config env e u = loadScreen SCREEN_ID_RESET_CONFIG_SCREEN u"
definition action_switch_to_dhcpc :: "lv_env \<Rightarrow> lv_event_code \<Rightarrow> ui \<Rightarrow> ui option" where
  "action_switch_to_dhcpc env e u = loadScreen SCREEN_ID_SWITCH_DHCP_CLIENT_SCREEN u"
definition action_switch_to_reboot :: "lv_env \<Rightarrow> lv_event_code \<Rightarrow> ui \<Rightarrow> ui option" where
  "action_switch_to_reboot env e u = loadScreen SCREEN_ID_REBOOT_SCREEN u"

definition action_menu_screen_gesture :: "lv_env \<Rightarrow> lv_event_code \<Rightarrow> ui \<Rightarrow> ui option" where
  "action_menu_screen_gesture env e u = handle_gesture_main_screen_switch e LV_DIR_RIGHT u"
definition action_menu_advanced_screen_gesture :: "lv_env \<Rightarrow> lv_event_code \<Rightarrow> ui \<Rightarrow> ui option" where
  "action_menu_advanced_screen_gesture env e u =
     map_option snd (handle_gesture_screen_switch env e LV_DIR_RIGHT SCREEN_ID_MENU_SCREEN u)"
definition action_reset_config_screen_gesture :: "lv_env \<Rightarrow> lv_event_code \<Rightarrow> ui \<Rightarrow> ui option" where
  "action_reset_config_screen_gesture env e u =
     map_option snd (handle_gesture_screen_switch env e LV_DIR_RIGHT SCREEN_ID_MENU_SCREEN u)"
definition action_home_screen_gesture :: "lv_env \<Rightarrow> lv_event_code \<Rightarrow> ui \<Rightarrow> ui option" where
  "action_home_screen_gesture env e u =
     map_option snd (handle_gesture_screen_switch env e LV_DIR_LEFT SCREEN_ID_MENU_SCREEN u)"
definition action_about_screen_gesture :: "lv_env \<Rightarrow> lv_event_code \<Rightarrow> ui \<Rightarrow> ui option" where
  "action_about_screen_gesture env e u =
     map_option snd (handle_gesture_screen_switch env e LV_DIR_RIGHT SCREEN_ID_MENU_SCREEN u)"

section \<open>Buttons that are held\<close>

definition RESET_CONFIG_HOLD_TIME :: int where "RESET_CONFIG_HOLD_TIME = 10"
definition REBOOT_HOLD_TIME :: int where "REBOOT_HOLD_TIME = 5"
definition DHCPC_HOLD_TIME :: int where "DHCPC_HOLD_TIME = 5"

lemmas hold_time_defs = RESET_CONFIG_HOLD_TIME_def REBOOT_HOLD_TIME_def DHCPC_HOLD_TIME_def

text \<open>\<^verbatim>\<open>hold_action_config_t\<close>; the three pointers to static variables are the slot.\<close>

record hold_action_config =
  slot :: hold_id
  hold_time_seconds :: int
  rpc_method :: string
  button_obj :: lv_obj
  spinner_obj :: lv_obj
  label_obj :: lv_obj
  default_text :: string

definition set_hold :: "hold_id \<Rightarrow> (hold \<Rightarrow> hold) \<Rightarrow> ui \<Rightarrow> ui" where
  "set_hold i f u = u\<lparr>holds := (holds u)(i := f (holds u i))\<rparr>"

text \<open>\<^verbatim>\<open>int remaining_time = hold_time_seconds * 1000 - lv_tick_elaps(...)\<close>: the difference is computed in 32 unsigned bits.\<close>

definition remaining_of :: "int \<Rightarrow> u32 \<Rightarrow> int" where
  "remaining_of secs elaps = sint (of_int (secs * 1000) - elaps :: u32)"

definition remaining_text :: "int \<Rightarrow> string" where
  "remaining_text remaining_time =
     (let s = remaining_time div 1000; s = (if s \<le> 1 then 1 else s)
      in ''Press and hold for'' @ newline # fmt_d s @ '' seconds'')"

text \<open>The branch taken when the button has been held long enough.\<close>

definition hold_fire :: "hold_action_config \<Rightarrow> ui \<Rightarrow> ui" where
  "hold_fire c u =
     (if lock (holds u (slot c)) then u
      else
        let u = (if button_obj c \<noteq> 0 \<and> spinner_obj c \<noteq> 0
                 then lrun (Lv_obj (spinner_obj c) (Clear_flag [LV_OBJ_FLAG_HIDDEN]))
                        (lrun (Lv_obj (button_obj c) (Add_flag [LV_OBJ_FLAG_HIDDEN])) u)
                 else u);
            u = ui_call_rpc_handler (rpc_method c) None u
        in set_hold (slot c) (\<lambda>x. x\<lparr>lock := True, completed := True\<rparr>) u)"

definition handle_hold_action :: "lv_env \<Rightarrow> lv_event_code \<Rightarrow> hold_action_config \<Rightarrow> ui \<Rightarrow> ui" where
  "handle_hold_action env event_code c u =
     (if event_code = LV_EVENT_PRESSED then
        let u = lrun Lv_tick_get u in set_hold (slot c) (\<lambda>x. x\<lparr>start_time := ltick env (lcalls u)\<rparr>) u
      else if event_code = LV_EVENT_PRESSING then
        let u = lrun (Lv_tick_elaps (start_time (holds u (slot c)))) u;
            remaining_time = remaining_of (hold_time_seconds c) (ltick env (lcalls u))
        in if remaining_time \<le> 0 then hold_fire c u
           else lrun (Lv_label_set_text (label_obj c) (remaining_text remaining_time))
                  (set_hold (slot c) (\<lambda>x. x\<lparr>completed := False\<rparr>) u)
      else if event_code = LV_EVENT_RELEASED then
        let u = (if lock (holds u (slot c)) then set_hold (slot c) (\<lambda>x. x\<lparr>lock := False\<rparr>) u else u)
        in if \<not> completed (holds u (slot c)) then lrun (Lv_label_set_text (label_obj c) (default_text c)) u else u
      else u)"

definition hold_text :: "string \<Rightarrow> string" where
  "hold_text s = ''Press and hold for'' @ newline # s @ '' seconds''"

definition reset_config_of :: "ui \<Rightarrow> hold_action_config" where
  "reset_config_of u = \<lparr>slot = Hold_reset_config, hold_time_seconds = RESET_CONFIG_HOLD_TIME, rpc_method = ''resetConfig'',
     button_obj = objects u ''reset_config_button'', spinner_obj = objects u ''reset_config_spinner'',
     label_obj = objects u ''reset_config_label'', default_text = hold_text ''10''\<rparr>"

definition action_reset_config :: "lv_env \<Rightarrow> lv_event_code \<Rightarrow> ui \<Rightarrow> ui" where
  "action_reset_config env e u = handle_hold_action env e (reset_config_of u) u"

definition dhcpc_of :: "ui \<Rightarrow> hold_action_config" where
  "dhcpc_of u = \<lparr>slot = Hold_dhcpc, hold_time_seconds = DHCPC_HOLD_TIME, rpc_method = ''toggleDHCPClient'',
     button_obj = 0, spinner_obj = 0, label_obj = objects u ''dhcpc_label'', default_text = hold_text ''5''\<rparr>"

definition action_dhcpc :: "lv_env \<Rightarrow> lv_event_code \<Rightarrow> ui \<Rightarrow> ui" where
  "action_dhcpc env e u = handle_hold_action env e (dhcpc_of u) u"

definition reboot_of :: "ui \<Rightarrow> hold_action_config" where
  "reboot_of u = \<lparr>slot = Hold_reboot, hold_time_seconds = REBOOT_HOLD_TIME, rpc_method = ''reboot'',
     button_obj = 0, spinner_obj = 0, label_obj = objects u ''reboot_label'', default_text = hold_text ''5''\<rparr>"

definition action_reboot :: "lv_env \<Rightarrow> lv_event_code \<Rightarrow> ui \<Rightarrow> ui" where
  "action_reboot env e u = handle_hold_action env e (reboot_of u) u"

text \<open>The callback an event runs.\<close>

definition run_action :: "ui_action \<Rightarrow> lv_env \<Rightarrow> lv_event_code \<Rightarrow> ui \<Rightarrow> ui option" where
  "run_action a = (case a of
       Action_switch_to_menu \<Rightarrow> action_switch_to_menu
     | Action_switch_to_advanced_menu \<Rightarrow> action_switch_to_advanced_menu
     | Action_switch_to_status \<Rightarrow> action_switch_to_status
     | Action_switch_to_about \<Rightarrow> action_switch_to_about
     | Action_switch_to_reset_config \<Rightarrow> action_switch_to_reset_config
     | Action_switch_to_dhcpc \<Rightarrow> action_switch_to_dhcpc
     | Action_switch_to_reboot \<Rightarrow> action_switch_to_reboot
     | Action_menu_screen_gesture \<Rightarrow> action_menu_screen_gesture
     | Action_menu_advanced_screen_gesture \<Rightarrow> action_menu_advanced_screen_gesture
     | Action_reset_config_screen_gesture \<Rightarrow> action_reset_config_screen_gesture
     | Action_home_screen_gesture \<Rightarrow> action_home_screen_gesture
     | Action_about_screen_gesture \<Rightarrow> action_about_screen_gesture
     | Action_reset_config \<Rightarrow> (\<lambda>env e u. Some (action_reset_config env e u))
     | Action_dhcpc \<Rightarrow> (\<lambda>env e u. Some (action_dhcpc env e u))
     | Action_reboot \<Rightarrow> (\<lambda>env e u. Some (action_reboot env e u)))"

lemmas switch_defs = action_switch_to_menu_def action_switch_to_advanced_menu_def action_switch_to_status_def
  action_switch_to_about_def action_switch_to_reset_config_def action_switch_to_dhcpc_def action_switch_to_reboot_def
lemmas gesture_defs = action_menu_screen_gesture_def action_menu_advanced_screen_gesture_def
  action_reset_config_screen_gesture_def action_home_screen_gesture_def action_about_screen_gesture_def
lemmas hold_defs = action_reset_config_def action_dhcpc_def action_reboot_def

end
