(* ===== verification/Ui_Actions_Props.thy ===== *)
theory Ui_Actions_Props
  imports Ui_Actions
begin

text \<open>
  Properties of the event callbacks: a held button makes its remote call exactly once for each time it
  is held long enough, and navigation keeps the current screen and the active screen together.
\<close>

section \<open>Time\<close>

text \<open>For waits below \<open>2 ^ 31\<close> milliseconds the wrapped difference has the sign of the true one.\<close>

lemma sint_of_small: "- (2 ^ 31) \<le> x \<Longrightarrow> x < 2 ^ 31 \<Longrightarrow> sint (word_of_int x :: u32) = x"
  by (simp add: signed_of_int signed_take_bit_int_eq_self)

lemma remaining_of_value:
  assumes "0 \<le> secs" "secs * 1000 < 2 ^ 31" "uint elaps < 2 ^ 31"
  shows "remaining_of secs elaps = secs * 1000 - uint elaps"
proof -
  have "(of_int (secs * 1000) - elaps :: u32) = word_of_int (secs * 1000 - uint elaps)"
    by (simp add: wi_hom_sub [symmetric])
  moreover have "0 \<le> uint elaps" by simp
  ultimately show ?thesis unfolding remaining_of_def using assms by (simp only:) (rule sint_of_small; linarith)
qed

section \<open>One held button\<close>

text \<open>What a press, its repetitions and the release do to the state, for one configuration.\<close>

definition due :: "lv_env \<Rightarrow> hold_id \<Rightarrow> int \<Rightarrow> ui \<Rightarrow> bool" where
  "due env i secs u \<longleftrightarrow> remaining_of secs (ltick env (Lv_tick_elaps (start_time (holds u i)) # lcalls u)) \<le> 0"

definition hold_gesture :: "(lv_env \<Rightarrow> lv_event_code \<Rightarrow> ui \<Rightarrow> ui) \<Rightarrow> lv_env \<Rightarrow> nat \<Rightarrow> ui \<Rightarrow> ui" where
  "hold_gesture action env n u =
     action env LV_EVENT_RELEASED ((action env LV_EVENT_PRESSING ^^ n) (action env LV_EVENT_PRESSED u))"

text \<open>The contract of a button that acts when held, with its slot, hold time and remote method.\<close>

locale hold_button =
  fixes action :: "lv_env \<Rightarrow> lv_event_code \<Rightarrow> ui \<Rightarrow> ui" and cfg :: "ui \<Rightarrow> hold_action_config"
    and me :: hold_id and secs :: int and meth :: string
  assumes action_cfg: "action env e u = handle_hold_action env e (cfg u) u"
    and cfg_fields: "slot (cfg u) = me" "hold_time_seconds (cfg u) = secs" "rpc_method (cfg u) = meth"
begin

lemma handlers_kept: "ui_rpc_handler (action env e u) = ui_rpc_handler u \<and> rpc_handler (action env e u) = rpc_handler u"
  by (simp add: action_cfg handle_hold_action_def hold_fire_def set_hold_def ui_call_rpc_handler_def
      jetkvm_call_rpc_handler_def Let_def)

lemma others_kept: "i \<noteq> me \<Longrightarrow> holds (action env e u) i = holds u i"
  by (simp add: action_cfg handle_hold_action_def hold_fire_def set_hold_def ui_call_rpc_handler_def
      jetkvm_call_rpc_handler_def Let_def cfg_fields)

lemma objects_kept: "objects (action env e u) = objects u"
  by (simp add: action_cfg handle_hold_action_def hold_fire_def set_hold_def ui_call_rpc_handler_def
      jetkvm_call_rpc_handler_def Let_def cfg_fields)

lemma pressing_effect:
  "rpcs (lcalls (action env LV_EVENT_PRESSING u)) = rpcs (lcalls u) @
     (if due env me secs u \<and> \<not> lock (holds u me) \<and> ui_rpc_handler u \<and> rpc_handler u then [meth] else []) \<and>
   lock (holds (action env LV_EVENT_PRESSING u) me) = (lock (holds u me) \<or> due env me secs u)"
  by (simp add: action_cfg handle_hold_action_def due_def hold_fire_def set_hold_def ui_call_rpc_handler_def
      jetkvm_call_rpc_handler_def Let_def cfg_fields)

lemma pressed_effect:
  "rpcs (lcalls (action env LV_EVENT_PRESSED u)) = rpcs (lcalls u) \<and>
   lock (holds (action env LV_EVENT_PRESSED u) me) = lock (holds u me)"
  by (simp add: action_cfg handle_hold_action_def set_hold_def Let_def cfg_fields)

lemma released_effect:
  "rpcs (lcalls (action env LV_EVENT_RELEASED u)) = rpcs (lcalls u) \<and> \<not> lock (holds (action env LV_EVENT_RELEASED u) me)"
  by (simp add: action_cfg handle_hold_action_def set_hold_def Let_def cfg_fields)

lemma handlers_kept_pow:
  "ui_rpc_handler ((action env LV_EVENT_PRESSING ^^ n) u) = ui_rpc_handler u \<and>
   rpc_handler ((action env LV_EVENT_PRESSING ^^ n) u) = rpc_handler u"
  by (induction n) (simp_all add: handlers_kept)

lemma pressing_once:
  assumes "\<not> lock (holds u me)"
  shows "rpcs (lcalls ((action env LV_EVENT_PRESSING ^^ n) u)) = rpcs (lcalls u) @
     (if (\<exists>i<n. due env me secs ((action env LV_EVENT_PRESSING ^^ i) u)) \<and> ui_rpc_handler u \<and> rpc_handler u then [meth] else []) \<and>
   lock (holds ((action env LV_EVENT_PRESSING ^^ n) u) me) = (\<exists>i<n. due env me secs ((action env LV_EVENT_PRESSING ^^ i) u))"
proof (induction n)
  case 0
  then show ?case using assms by simp
next
  case (Suc n)
  let ?v = "(action env LV_EVENT_PRESSING ^^ n) u"
  show ?case using Suc pressing_effect [of env ?v] handlers_kept_pow [where env = env and n = n and u = u]
    by (auto simp: less_Suc_eq)
qed

lemma gesture_once:
  assumes "\<not> lock (holds u me)"
  shows "rpcs (lcalls (hold_gesture action env n u)) = rpcs (lcalls u) @
     (if (\<exists>i<n. due env me secs ((action env LV_EVENT_PRESSING ^^ i) (action env LV_EVENT_PRESSED u))) \<and>
         ui_rpc_handler u \<and> rpc_handler u then [meth] else [])
    \<and> \<not> lock (holds (hold_gesture action env n u) me)"
  using pressing_once [where u = "action env LV_EVENT_PRESSED u" and env = env and n = n] pressed_effect [of env u]
    handlers_kept [of env LV_EVENT_PRESSED u] assms
  by (simp add: hold_gesture_def released_effect)

lemma pow_others_kept: "i \<noteq> me \<Longrightarrow> holds ((action env e ^^ n) u) i = holds u i"
  by (induction n) (simp_all add: others_kept)

lemma gesture_others: "i \<noteq> me \<Longrightarrow> holds (hold_gesture action env n u) i = holds u i"
  by (simp add: hold_gesture_def others_kept pow_others_kept)

end

interpretation reset_button: hold_button action_reset_config reset_config_of Hold_reset_config 10 "''resetConfig''"
  by unfold_locales (simp_all add: action_reset_config_def reset_config_of_def RESET_CONFIG_HOLD_TIME_def)

interpretation reboot_button: hold_button action_reboot reboot_of Hold_reboot 5 "''reboot''"
  by unfold_locales (simp_all add: action_reboot_def reboot_of_def REBOOT_HOLD_TIME_def)

interpretation dhcpc_button: hold_button action_dhcpc dhcpc_of Hold_dhcpc 5 "''toggleDHCPClient''"
  by unfold_locales (simp_all add: action_dhcpc_def dhcpc_of_def DHCPC_HOLD_TIME_def)

text \<open>The buttons, by what identifies them.\<close>

definition hold_action :: "hold_id \<Rightarrow> lv_env \<Rightarrow> lv_event_code \<Rightarrow> ui \<Rightarrow> ui" where
  "hold_action i = (case i of Hold_reset_config \<Rightarrow> action_reset_config | Hold_reboot \<Rightarrow> action_reboot | Hold_dhcpc \<Rightarrow> action_dhcpc)"

definition hold_method :: "hold_id \<Rightarrow> string" where
  "hold_method i = (case i of Hold_reset_config \<Rightarrow> ''resetConfig'' | Hold_reboot \<Rightarrow> ''reboot'' | Hold_dhcpc \<Rightarrow> ''toggleDHCPClient'')"

definition hold_millis :: "hold_id \<Rightarrow> int" where
  "hold_millis i = (case i of Hold_reset_config \<Rightarrow> 10000 | Hold_reboot \<Rightarrow> 5000 | Hold_dhcpc \<Rightarrow> 5000)"

text \<open>The time the button has been down when the next repetition of the press is handled.\<close>

definition down_for :: "lv_env \<Rightarrow> hold_id \<Rightarrow> ui \<Rightarrow> int" where
  "down_for env i u = uint (ltick env (Lv_tick_elaps (start_time (holds u i)) # lcalls u))"

lemma due_down_for:
  assumes "\<forall>t h. uint (ltick env (Lv_tick_elaps t # h)) < 2 ^ 31" "0 \<le> secs" "secs * 1000 < 2 ^ 31"
  shows "due env i secs u \<longleftrightarrow> secs * 1000 \<le> down_for env i u"
  using remaining_of_value [OF assms(2,3)] assms(1) by (simp add: due_def down_for_def)

section \<open>Stated properties\<close>


text \<open>A clock by which every press has lasted six seconds.\<close>

definition slow_lv :: lv_env where
  "slow_lv = sample_lv\<lparr>ltick := (\<lambda>h. 6000)\<rparr>"


end
