(* ===== verification/Ui_Navigation.thy ===== *)
theory Ui_Navigation
  imports Ui_Actions_Props
begin

text \<open>
  Navigation: the states the user interface can reach through events and ticks keep the number of the
  current screen and the screen LVGL shows together, and the event bindings of the layouts say which screens
  can be reached by touch.
\<close>

section \<open>Loading a screen\<close>

definition on_screen :: "ui \<Rightarrow> bool" where
  "on_screen u \<longleftrightarrow> 0 \<le> currentScreen u \<and> currentScreen u < 12 \<and>
     active_screen (lcalls u) = objects u (object_fields ! nat (currentScreen u))"

lemma loadScreen_ok:
  assumes "1 \<le> i" "i \<le> 12"
  shows "\<exists>u'. loadScreen i u = Some u' \<and> currentScreen u' = i - 1 \<and> on_screen u' \<and> objects u' = objects u \<and> vars u' = vars u \<and>
    lcalls u' = Lv_scr_load (objects u (object_fields ! nat (i - 1))) # lcalls u"
  using assms length_object_fields
  by (simp add: loadScreen_def getLvglObjectFromIndex_def on_screen_def Let_def)

text \<open>What a callback may do to the screen: nothing, or load one of the twelve.\<close>

definition nav_effect :: "lv_env \<Rightarrow> ui \<Rightarrow> ui \<Rightarrow> bool" where
  "nav_effect env u u' \<longleftrightarrow> objects u' = objects u \<and> vars u' = vars u \<and> created env (lcalls u') = created env (lcalls u) \<and>
     (on_screen u' \<or> (currentScreen u' = currentScreen u \<and> active_screen (lcalls u') = active_screen (lcalls u)))"

lemma nav_effect_load:
  assumes "1 \<le> i" "i \<le> 12"
  shows "\<exists>u'. loadScreen i u = Some u' \<and> nav_effect env u u' \<and> currentScreen u' = i - 1"
  using loadScreen_ok [OF assms, of u] by (auto simp: nav_effect_def)

lemma nav_effect_refl: "nav_effect env u u"
  by (simp add: nav_effect_def)

lemma nav_effect_pre:
  "nav_effect env (lrun c u) v \<Longrightarrow> neutral c \<Longrightarrow> nav_effect env u v"
  by (auto simp: nav_effect_def neutral_step simp del: created.simps active_screen.simps)

lemma nav_effect_gesture:
  assumes "1 \<le> i" "i \<le> 12"
  shows "\<exists>r u'. handle_gesture_screen_switch env e d i u = Some (r, u') \<and> nav_effect env u u' \<and>
    (currentScreen u' = currentScreen u \<or> currentScreen u' = i - 1)"
proof -
  let ?v = "lrun Lv_indev_get_act u"
  let ?w = "lrun (Lv_indev_wait_release (lptr env (Lv_indev_get_act # lcalls ?v))) (lrun Lv_indev_get_act ?v)"
  obtain u' where l: "loadScreen i ?w = Some u'" "nav_effect env ?w u'" "currentScreen u' = i - 1"
    using nav_effect_load [OF assms] by blast
  have w: "nav_effect env u u'" using l(2)
    by (elim nav_effect_pre [OF nav_effect_pre [OF nav_effect_pre]]) simp_all
  have v: "nav_effect env u ?v" by (rule nav_effect_pre [OF nav_effect_refl]) simp
  show ?thesis using l(1,3) w v nav_effect_refl [of env u]
    by (auto simp: handle_gesture_screen_switch_def lask_def)
qed

lemma nav_effect_hold: "nav_effect env u (handle_hold_action env e c u) \<and> currentScreen (handle_hold_action env e c u) = currentScreen u"
  by (simp add: nav_effect_def handle_hold_action_def hold_fire_def set_hold_def ui_call_rpc_handler_def
      jetkvm_call_rpc_handler_def Let_def)

text \<open>The screens a callback can lead to.\<close>

definition action_targets :: "ui_action \<Rightarrow> int list" where
  "action_targets a = (case a of
       Action_switch_to_menu \<Rightarrow> [SCREEN_ID_MENU_SCREEN]
     | Action_switch_to_advanced_menu \<Rightarrow> [SCREEN_ID_MENU_ADVANCED_SCREEN]
     | Action_switch_to_status \<Rightarrow> [SCREEN_ID_STATUS_SCREEN]
     | Action_switch_to_about \<Rightarrow> [SCREEN_ID_ABOUT_SCREEN]
     | Action_switch_to_reset_config \<Rightarrow> [SCREEN_ID_RESET_CONFIG_SCREEN]
     | Action_switch_to_dhcpc \<Rightarrow> [SCREEN_ID_SWITCH_DHCP_CLIENT_SCREEN]
     | Action_switch_to_reboot \<Rightarrow> [SCREEN_ID_REBOOT_SCREEN]
     | Action_menu_screen_gesture \<Rightarrow> [SCREEN_ID_HOME_SCREEN, SCREEN_ID_NO_NETWORK_SCREEN]
     | Action_menu_advanced_screen_gesture \<Rightarrow> [SCREEN_ID_MENU_SCREEN]
     | Action_reset_config_screen_gesture \<Rightarrow> [SCREEN_ID_MENU_SCREEN]
     | Action_home_screen_gesture \<Rightarrow> [SCREEN_ID_MENU_SCREEN]
     | Action_about_screen_gesture \<Rightarrow> [SCREEN_ID_MENU_SCREEN]
     | Action_reset_config \<Rightarrow> [] | Action_dhcpc \<Rightarrow> [] | Action_reboot \<Rightarrow> [])"

definition nav_to :: "lv_env \<Rightarrow> int list \<Rightarrow> ui \<Rightarrow> ui option \<Rightarrow> bool" where
  "nav_to env ids u r \<longleftrightarrow> (\<exists>u'. r = Some u' \<and> nav_effect env u u' \<and>
     (currentScreen u' = currentScreen u \<or> currentScreen u' + 1 \<in> set ids))"

lemma nav_to_load: "1 \<le> i \<Longrightarrow> i \<le> 12 \<Longrightarrow> i \<in> set ids \<Longrightarrow> nav_to env ids u (loadScreen i u)"
  using nav_effect_load [of i u env] by (auto simp: nav_to_def)

lemma nav_to_gesture:
  "1 \<le> i \<Longrightarrow> i \<le> 12 \<Longrightarrow> i \<in> set ids \<Longrightarrow> nav_to env ids u (map_option snd (handle_gesture_screen_switch env e d i u))"
  using nav_effect_gesture [of i env e d u] by (auto simp: nav_to_def)

lemma nav_to_main: "nav_to env [SCREEN_ID_HOME_SCREEN, SCREEN_ID_NO_NETWORK_SCREEN] u (handle_gesture_main_screen_switch e d u)"
  using nav_effect_refl [of env u]
  by (auto simp: handle_gesture_main_screen_switch_def Let_def screen_id_defs nav_to_load)
    (simp add: nav_to_def)

lemma nav_to_hold: "nav_to env ids u (Some (handle_hold_action env e c u))"
  using nav_effect_hold [of env u e c] by (simp add: nav_to_def)

lemma run_action_nav: "nav_to env (action_targets a) u (run_action a env e u)"
  by (cases a)
    (simp_all add: run_action_def action_targets_def switch_defs gesture_defs hold_defs nav_to_main nav_to_hold,
      simp_all add: screen_id_defs nav_to_load nav_to_gesture)

section \<open>Reachable states\<close>

text \<open>The steps of the user interface once it is initialised: a callback runs, or the periodic tick.\<close>

inductive ui_step :: "lv_env \<Rightarrow> ui \<Rightarrow> ui \<Rightarrow> bool" for env where
  step_action: "run_action a env e u = Some u' \<Longrightarrow> ui_step env u u'"
| step_tick: "ui_tick env u = Some u' \<Longrightarrow> ui_step env u u'"

inductive_cases ui_stepE: "ui_step env u u'"

definition nav_inv :: "lv_env \<Rightarrow> ui \<Rightarrow> bool" where
  "nav_inv env u \<longleftrightarrow> on_screen u \<and> objects_ok env u \<and> vars_inv env (vars u)"

lemma nav_inv_effect: "nav_inv env u \<Longrightarrow> nav_effect env u u' \<Longrightarrow> nav_inv env u'"
  by (auto simp: nav_inv_def nav_effect_def objects_ok_def on_screen_def)

lemma length_tick_screen_funcs: "length tick_screen_funcs = 12"
  by (simp add: tick_screen_funcs_def)

lemma ui_tick_ok:
  assumes "nav_inv env u"
  shows "\<exists>u'. ui_tick env u = Some u' \<and> nav_inv env u'"
proof -
  let ?t = "tick_screen_funcs ! nat (currentScreen u)"
  have r: "0 \<le> currentScreen u" "currentScreen u < int (length tick_screen_funcs)"
    using assms by (simp_all add: nav_inv_def on_screen_def length_tick_screen_funcs)
  then have t: "?t \<in> set tick_screen_funcs" by simp
  have "ui_tick env u = Some (?t env u)" using r by (simp add: ui_tick_def tick_screen_def)
  moreover have "nav_inv env (?t env u)"
    using assms tick_frame [OF t, of env u] tick_vars_inv [OF t, of env u]
    by (simp add: nav_inv_def on_screen_def objects_ok_def)
  ultimately show ?thesis by blast
qed

lemma ui_init_ok:
  assumes "fresh_objects env" "vars_inv env (vars u)"
  shows "\<exists>u'. ui_init env u = Some u' \<and> nav_inv env u' \<and> currentScreen u' = 0"
proof -
  obtain u' where l: "ui_init env u = Some u'" "nav_effect env (create_screens env u) u'" "currentScreen u' = 0" "on_screen u'"
    using loadScreen_ok [of 1 "create_screens env u"] by (auto simp: ui_init_def SCREEN_ID_BOOT_SCREEN_def nav_effect_def)
  moreover have "objects_ok env (create_screens env u)" by (rule create_screens_objects_ok) (rule assms)
  moreover have "vars_inv env (vars (create_screens env u))" by (rule create_screens_vars_inv) (rule assms)
  ultimately have "nav_inv env u'" by (auto simp: nav_inv_def nav_effect_def objects_ok_def)
  with l show ?thesis by blast
qed

interpretation nav: invariant_system "\<lambda>u. fresh_objects env \<and> (\<exists>v. vars_inv env (vars v) \<and> ui_init env v = Some u)"
  "ui_step env" "nav_inv env" for env
proof
  fix u
  assume "fresh_objects env \<and> (\<exists>v. vars_inv env (vars v) \<and> ui_init env v = Some u)"
  then show "nav_inv env u" using ui_init_ok by fastforce
next
  fix u u'
  assume i: "nav_inv env u" and s: "ui_step env u u'"
  from s show "nav_inv env u'"
  proof (rule ui_stepE)
    fix a e
    assume "run_action a env e u = Some u'"
    with run_action_nav [of env a u e] have "nav_effect env u u'" by (auto simp: nav_to_def)
    with i show ?thesis by (rule nav_inv_effect)
  next
    assume "ui_tick env u = Some u'"
    with ui_tick_ok [OF i] show ?thesis by auto
  qed
qed

section \<open>Event bindings\<close>

definition bindings :: "wop list \<Rightarrow> (ui_action \<times> lv_event_code) list" where
  "bindings ops = concat (map (\<lambda>w. case w of Op (Add_event_cb a e) \<Rightarrow> [(a, e)] | _ \<Rightarrow> []) ops)"

fun events_of :: "widget \<Rightarrow> (ui_action \<times> lv_event_code) list" and events_of_all :: "widget list \<Rightarrow> (ui_action \<times> lv_event_code) list" where
  "events_of (Widget k f ops children) = bindings ops @ events_of_all children"
| "events_of_all [] = []"
| "events_of_all (w # ws) = events_of w @ events_of_all ws"

lemma bindings_simps:
  "bindings [] = []" "bindings (Op (Add_event_cb a e) # ws) = (a, e) # bindings ws" "bindings (Style s # ws) = bindings ws"
  "bindings (Text t # ws) = bindings ws" "bindings (Op (Set_pos x y) # ws) = bindings ws" "bindings (Op (Set_size x y) # ws) = bindings ws"
  "bindings (Op (Set_style p q r) # ws) = bindings ws" "bindings (Op (Set_scrollbar_mode m) # ws) = bindings ws"
  "bindings (Op Set_scroll_snap_start # ws) = bindings ws" "bindings (Op (Set_scroll_dir d) # ws) = bindings ws"
  "bindings (Op (Add_flag fl) # ws) = bindings ws" "bindings (Op (Clear_flag fl) # ws) = bindings ws"
  "bindings (Op Set_long_dot # ws) = bindings ws" "bindings (Op (Set_src i) # ws) = bindings ws"
  "bindings (Op (Set_anim_params n n') # ws) = bindings ws"
  by (simp_all add: bindings_def)

lemma map_events_of_layouts: "map events_of layouts =
    [[],
     [(Action_switch_to_menu, LV_EVENT_LONG_PRESSED),
       (Action_home_screen_gesture, LV_EVENT_GESTURE)],
     [(Action_switch_to_menu, LV_EVENT_LONG_PRESSED),
       (Action_home_screen_gesture, LV_EVENT_GESTURE)],
     [(Action_menu_screen_gesture, LV_EVENT_GESTURE),
       (Action_menu_screen_gesture, LV_EVENT_PRESSED),
       (Action_switch_to_status, LV_EVENT_CLICKED),
       (Action_switch_to_advanced_menu, LV_EVENT_CLICKED),
       (Action_switch_to_about, LV_EVENT_CLICKED)],
     [(Action_menu_advanced_screen_gesture, LV_EVENT_GESTURE),
       (Action_switch_to_menu, LV_EVENT_CLICKED),
       (Action_reset_config, LV_EVENT_PRESSED),
       (Action_switch_to_reboot, LV_EVENT_PRESSED),
       (Action_switch_to_dhcpc, LV_EVENT_PRESSED),
       (Action_switch_to_reset_config, LV_EVENT_PRESSED)],
     [(Action_menu_advanced_screen_gesture, LV_EVENT_GESTURE),
       (Action_switch_to_menu, LV_EVENT_CLICKED)],
     [(Action_about_screen_gesture, LV_EVENT_GESTURE),
       (Action_switch_to_menu, LV_EVENT_CLICKED)],
     [(Action_about_screen_gesture, LV_EVENT_GESTURE),
       (Action_switch_to_menu, LV_EVENT_CLICKED)],
     [(Action_about_screen_gesture, LV_EVENT_GESTURE),
       (Action_switch_to_menu, LV_EVENT_CLICKED),
       (Action_reset_config, LV_EVENT_PRESSED),
       (Action_reset_config, LV_EVENT_PRESSING),
       (Action_reset_config, LV_EVENT_RELEASED)],
     [(Action_about_screen_gesture, LV_EVENT_GESTURE),
       (Action_switch_to_menu, LV_EVENT_CLICKED),
       (Action_reboot, LV_EVENT_PRESSED),
       (Action_reboot, LV_EVENT_PRESSING),
       (Action_reboot, LV_EVENT_RELEASED)],
     [],
     [(Action_about_screen_gesture, LV_EVENT_GESTURE),
       (Action_switch_to_menu, LV_EVENT_CLICKED),
       (Action_dhcpc, LV_EVENT_PRESSED),
       (Action_dhcpc, LV_EVENT_PRESSING),
       (Action_dhcpc, LV_EVENT_RELEASED)]]"
  by (simp only: layouts_def layout_defs events_of.simps events_of_all.simps bindings_simps list.map append.simps append_Nil2)

text \<open>A touch: an event of the current screen runs a callback bound on it.\<close>

inductive touch :: "lv_env \<Rightarrow> ui \<Rightarrow> ui \<Rightarrow> bool" for env where
  touch: "(a, e) \<in> set (events_of (layouts ! nat (currentScreen u))) \<Longrightarrow> run_action a env e u = Some u' \<Longrightarrow> touch env u u'"

inductive_cases touchE: "touch env u u'"

definition targets_of :: "widget \<Rightarrow> int list" where
  "targets_of w = concat (map (action_targets \<circ> fst) (events_of w))"

lemma touch_target:
  assumes "touch env u u'" "0 \<le> currentScreen u"
  shows "currentScreen u' = currentScreen u \<or> currentScreen u' + 1 \<in> set (targets_of (layouts ! nat (currentScreen u)))"
  using assms(1)
proof (rule touchE)
  fix a e
  assume 1: "(a, e) \<in> set (events_of (layouts ! nat (currentScreen u)))" "run_action a env e u = Some u'"
  then have "set (action_targets a) \<subseteq> set (targets_of (layouts ! nat (currentScreen u)))"
    by (force simp: targets_of_def)
  with 1(2) run_action_nav [of env a u e] show ?thesis by (auto simp: nav_to_def)
qed

text \<open>The screens a user gets to, as indices of the tables.\<close>

definition touch_screens :: "int set" where
  "touch_screens = {1, 2, 3, 4, 6, 7, 8, 9, 11}"

lemma layouts_nth_events: "i < 12 \<Longrightarrow> events_of (layouts ! i) = map events_of layouts ! i"
  by (rule nth_map [symmetric]) (simp add: layouts_def)

lemma targets_touch: "i \<in> touch_screens \<Longrightarrow> t \<in> set (targets_of (layouts ! nat i)) \<Longrightarrow> t - 1 \<in> touch_screens"
proof -
  assume i: "i \<in> touch_screens" and t: "t \<in> set (targets_of (layouts ! nat i))"
  from i have "nat i < 12" by (auto simp: touch_screens_def)
  with t have "t \<in> set (concat (map (action_targets \<circ> fst) (map events_of layouts ! nat i)))"
    by (simp only: targets_of_def layouts_nth_events)
  with i show ?thesis unfolding map_events_of_layouts touch_screens_def
    by (auto simp: action_targets_def screen_id_defs)
qed

section \<open>Stated properties\<close>

text \<open>C11: The screen shown and the screen that is ticked agree: in every state the user interface reaches from its
  initialisation through event callbacks and ticks, the current screen number is one of the twelve, LVGL shows the
  object of that screen, which exists, and every callback and the tick can run (no access outside the tables).\<close>

theorem navigation_consistent:
  assumes "fresh_objects env" "vars_inv env (vars v)" "ui_init env v = Some s" "(ui_step env)\<^sup>*\<^sup>* s u"
  shows "0 \<le> currentScreen u \<and> currentScreen u < 12 \<and>
    active_screen (lcalls u) = objects u (object_fields ! nat (currentScreen u)) \<and> active_screen (lcalls u) \<noteq> 0 \<and>
    (\<exists>u'. ui_tick env u = Some u') \<and> (\<forall>a e. \<exists>u'. run_action a env e u = Some u')"
proof -
  have "nav_inv env s" using assms(1-3) by (intro nav.inv_start) blast
  then have i: "nav_inv env u" using assms(4) by (rule nav.inv_steps)
  then have o: "on_screen u" "objects_ok env u" by (simp_all add: nav_inv_def)
  then have "object_fields ! nat (currentScreen u) \<in> set object_fields"
    by (intro nth_mem) (auto simp: on_screen_def length_object_fields)
  with o have "active_screen (lcalls u) \<noteq> 0" by (simp add: on_screen_def objects_ok_def)
  moreover have "\<exists>u'. run_action a env e u = Some u'" for a e
    using run_action_nav [of env a u e] by (auto simp: nav_to_def)
  ultimately show ?thesis using o(1) ui_tick_ok [OF i] by (auto simp: on_screen_def)
qed

theorem navigation_consistent_witness:
  "\<exists>s u. ui_init sample_lv ui_globals = Some s \<and> action_switch_to_about sample_lv LV_EVENT_CLICKED s = Some u \<and>
     active_screen (lcalls u) = objects u (object_fields ! nat (currentScreen u)) \<and> (\<exists>u'. ui_tick sample_lv u = Some u')"
proof -
  have v: "vars_inv sample_lv (vars ui_globals)" by (simp add: ui_globals_def vars_init_inv)
  obtain s where s: "ui_init sample_lv ui_globals = Some s" using ui_init_ok [OF sample_lv_ok(1) v] by blast
  obtain u where u: "run_action Action_switch_to_about sample_lv LV_EVENT_CLICKED s = Some u"
    using run_action_nav [of sample_lv Action_switch_to_about s LV_EVENT_CLICKED] by (auto simp: nav_to_def)
  then have "(ui_step sample_lv)\<^sup>*\<^sup>* s u" by (intro r_into_rtranclp step_action)
  from navigation_consistent [OF sample_lv_ok(1) v s this] s u show ?thesis by (auto simp: run_action_def)
qed

text \<open>Touch stays within nine screens: starting on one of them (home, no network, the menu, the advanced menu, about,
  status, reset configuration, reboot, DHCP client) no sequence of events bound on the screens leads to the boot screen,
  to the network menu or to the rebooting screen.\<close>

theorem touch_stays:
  assumes "currentScreen u \<in> touch_screens" "(touch env)\<^sup>*\<^sup>* u u'"
  shows "currentScreen u' \<in> touch_screens \<and> currentScreen u' \<notin> {SCREEN_ID_BOOT_SCREEN - 1,
    SCREEN_ID_MENU_NETWORK_SCREEN - 1, SCREEN_ID_REBOOTING_SCREEN - 1}"
proof -
  have "currentScreen u' \<in> touch_screens" using assms(2,1)
  proof (induction rule: rtranclp_induct)
    case (step v w)
    then have v: "currentScreen v \<in> touch_screens" by blast
    then have "0 \<le> currentScreen v" by (auto simp: touch_screens_def)
    from touch_target [OF step(2) this] v targets_touch [OF v] show ?case by force
  qed
  then show ?thesis by (auto simp: touch_screens_def screen_id_defs)
qed

theorem touch_stays_witness:
  "\<exists>u'. touch sample_lv (ui_globals\<lparr>currentScreen := 2\<rparr>) u' \<and> currentScreen u' \<in> touch_screens"
proof -
  let ?u = "ui_globals\<lparr>currentScreen := 2\<rparr>"
  have b: "(Action_switch_to_menu, LV_EVENT_LONG_PRESSED) \<in> set (events_of (layouts ! nat (currentScreen ?u)))"
    by (simp add: layouts_nth_events map_events_of_layouts del: list.map)
  obtain u' where u': "run_action Action_switch_to_menu sample_lv LV_EVENT_LONG_PRESSED ?u = Some u'"
    using run_action_nav [of sample_lv Action_switch_to_menu ?u LV_EVENT_LONG_PRESSED] by (auto simp: nav_to_def)
  have "touch sample_lv ?u u'" using b u' by (rule touch.intros)
  moreover from this have "currentScreen u' \<in> touch_screens"
    using touch_stays [of ?u sample_lv u'] by (simp add: touch_screens_def r_into_rtranclp)
  ultimately show ?thesis by blast
qed

end
