(* ===== verification/Screen.thy ===== *)
theory Screen
  imports Ui_Navigation
begin

text \<open>
  \<^verbatim>\<open>internal/native/cgo/screen.c\<close>: initialising LVGL, rotation and touch calibration, the clock, and the
  lookups by name. The tables of \<^verbatim>\<open>ui_index.c\<close> are written by a script at build time and are the parameter \<open>idx\<close>.
\<close>

section \<open>The name tables\<close>

datatype ui_var = Var_app_version | Var_system_version | Var_lvgl_version | Var_main_screen

text \<open>An object is known by its field of \<^verbatim>\<open>objects\<close>, a style by its getter, a variable by its getter and setter.\<close>

record ui_index =
  ui_objects :: "(string \<times> string) list"
  ui_styles :: "(string \<times> ui_style) list"
  ui_images :: "(string \<times> ui_image) list"
  ui_var_table :: "(string \<times> ui_var) list"

section \<open>Input devices and calibration\<close>

definition slog :: "(logger \<Rightarrow> logger) \<Rightarrow> ui \<Rightarrow> ui" where
  "slog f u = u\<lparr>logs := f (logs u)\<rparr>"

definition TOUCH_Y_OFFSET :: int where "TOUCH_Y_OFFSET = 20"

definition lvgl_set_indev_handler :: "bool \<Rightarrow> ui \<Rightarrow> ui" where
  "lvgl_set_indev_handler handler u = u\<lparr>indev_handler := handler\<rparr>"

text \<open>The one handler that is ever set is \<^verbatim>\<open>jetkvm_indev_wrapper\<close> of \<^verbatim>\<open>ctrl.c\<close>.\<close>

definition jetkvm_indev_wrapper :: "lv_event_code \<Rightarrow> ui \<Rightarrow> ui" where
  "jetkvm_indev_wrapper code u = (if jetkvm_indev_handler u then lrun (Indev_handler code) u else u)"

definition handle_indev_event :: "lv_event_code \<Rightarrow> ui \<Rightarrow> ui" where
  "handle_indev_event e u = (if \<not> indev_handler u then u else jetkvm_indev_wrapper e u)"

definition apply_touch_calibration :: "ui \<Rightarrow> ui" where
  "apply_touch_calibration u =
     (if touch_indev u = 0 then u
      else if current_rotation u = 90 then
        slog (log_info ''screen.c'' ''apply_touch_calibration'' 52
                (''touch calibration: rotation='' @ fmt_d (uint (current_rotation u)) @ '', Y offset=+'' @ fmt_d TOUCH_Y_OFFSET))
          (lrun (Lv_evdev_set_calibration (touch_indev u) 0 (- TOUCH_Y_OFFSET) 239 (299 - TOUCH_Y_OFFSET)) u)
      else
        slog (log_info ''screen.c'' ''apply_touch_calibration'' 56
                (''touch calibration: rotation='' @ fmt_d (uint (current_rotation u)) @ '', no offset''))
          (lrun (Lv_evdev_set_calibration (touch_indev u) 0 0 239 299) u))"

definition evdev_discovery_cb :: "lv_env \<Rightarrow> lv_obj \<Rightarrow> lv_evdev_type \<Rightarrow> ui \<Rightarrow> ui" where
  "evdev_discovery_cb env indev type u =
     (if type \<noteq> LV_EVDEV_TYPE_ABS then u
      else
        let u = slog (log_info ''screen.c'' ''evdev_discovery_cb'' 68 ''[C-UI-INIT] touchscreen discovered, configuring...'') u;
            (group, u) = lask env Lv_group_get_default u;
            u = lrun (Lv_indev_set_group indev group) u;
            u = lrun (Lv_indev_set_display indev (disp u)) u;
            u = lrun (Lv_indev_add_event_cb indev) u;
            u = apply_touch_calibration (u\<lparr>touch_indev := indev\<rparr>)
        in slog (log_info ''screen.c'' ''evdev_discovery_cb'' 76 ''[C-UI-INIT] touchscreen configured successfully'') u)"

section \<open>Lookups\<close>

definition ui_get_obj :: "ui_index \<Rightarrow> string \<Rightarrow> ui \<Rightarrow> lv_obj" where
  "ui_get_obj idx name u = (case find_key (ui_objects idx) name of Some f \<Rightarrow> objects u f | None \<Rightarrow> 0)"

definition ui_get_style :: "lv_env \<Rightarrow> ui_index \<Rightarrow> string \<Rightarrow> ui \<Rightarrow> lv_style \<times> ui" where
  "ui_get_style env idx name u = (case find_key (ui_styles idx) name of Some k \<Rightarrow> get_style_of k env u | None \<Rightarrow> (0, u))"

text \<open>The first entry whose object is \<open>scr\<close>.\<close>

fun find_obj_name :: "(string \<times> string) list \<Rightarrow> (string \<Rightarrow> lv_obj) \<Rightarrow> lv_obj \<Rightarrow> string option" where
  "find_obj_name [] obs scr = None"
| "find_obj_name ((n, f) # t) obs scr = (if obs f = scr then Some n else find_obj_name t obs scr)"

definition ui_get_current_screen :: "lv_env \<Rightarrow> ui_index \<Rightarrow> ui \<Rightarrow> string option \<times> ui" where
  "ui_get_current_screen env idx u =
     (case lask env Lv_scr_act u of (scr, u) \<Rightarrow>
        (if scr = 0 then None else find_obj_name (ui_objects idx) (objects u) scr, u))"

definition ui_get_image :: "ui_index \<Rightarrow> string \<Rightarrow> ui_image option" where
  "ui_get_image idx name = find_key (ui_images idx) name"

definition ui_set_text :: "ui_index \<Rightarrow> string \<Rightarrow> string \<Rightarrow> ui \<Rightarrow> ui" where
  "ui_set_text idx name text u =
     (let ob = ui_get_obj idx name u in
      if ob = 0
      then slog (log_error ''screen.c'' ''ui_set_text'' 225 (''ui_set_text '' @ name @ '' '' @ text @ '', obj not found'')) u
      else lrun (Lv_label_set_text ob text) u)"

section \<open>Rotation\<close>

definition set_display_rotation :: "lv_obj \<Rightarrow> u16 \<Rightarrow> ui \<Rightarrow> ui" where
  "set_display_rotation d rotation u =
     (if rotation = 0 then lrun (Lv_display_set_rotation d LV_DISP_ROTATION_0) u
      else if rotation = 90 then lrun (Lv_display_set_rotation d LV_DISP_ROTATION_90) u
      else if rotation = 180 then lrun (Lv_display_set_rotation d LV_DISP_ROTATION_180) u
      else if rotation = 270 then lrun (Lv_display_set_rotation d LV_DISP_ROTATION_270) u
      else slog (log_error ''screen.c'' ''lvgl_set_rotation'' 128 (''invalid rotation '' @ fmt_d (uint rotation))) u)"

definition set_rotation_pads :: "lv_style \<Rightarrow> lv_style \<Rightarrow> u16 \<Rightarrow> ui \<Rightarrow> ui" where
  "set_rotation_pads fs fsm rotation u =
     (if rotation = 90 then style_set fsm [Pad_left 24, Pad_right 44] (style_set fs [Pad_left 24, Pad_right 44] u)
      else if rotation = 270 then style_set fsm [Pad_left 44, Pad_right 24] (style_set fs [Pad_left 44, Pad_right 24] u)
      else u)"

text \<open>A null display argument stands for the display created at initialisation.\<close>

definition display_ref :: "lv_obj \<Rightarrow> ui \<Rightarrow> lv_obj" where
  "display_ref disp_ref u = (if disp_ref = 0 then disp u else disp_ref)"

definition rotate_display :: "lv_obj \<Rightarrow> u16 \<Rightarrow> ui \<Rightarrow> ui" where
  "rotate_display disp_ref rotation u =
     (let d = display_ref disp_ref u;
          u = slog (log_info ''screen.c'' ''lvgl_set_rotation'' 118 (''setting rotation to '' @ fmt_d (uint rotation))) u;
          u = set_display_rotation d rotation u
      in apply_touch_calibration (u\<lparr>current_rotation := rotation\<rparr>))"

definition lvgl_set_rotation :: "lv_env \<Rightarrow> ui_index \<Rightarrow> lv_obj \<Rightarrow> u16 \<Rightarrow> ui \<Rightarrow> ui" where
  "lvgl_set_rotation env idx disp_ref rotation u =
     (let u = rotate_display disp_ref rotation u;
          (fs, u) = ui_get_style env idx ''flex_screen'' u
      in if fs = 0 then slog (log_error ''screen.c'' ''lvgl_set_rotation'' 136 ''flex_screen style not found'') u
         else
           let (fsm, u) = ui_get_style env idx ''flex_screen_menu'' u in
           if fsm = 0 then slog (log_error ''screen.c'' ''lvgl_set_rotation'' 142 ''flex_screen_menu style not found'') u
           else
             let u = set_rotation_pads fs fsm rotation u;
                 u = slog (log_info ''screen.c'' ''lvgl_set_rotation'' 158 ''refreshing objects'') u
             in lrun (Lv_obj_report_style_change fsm) (lrun (Lv_obj_report_style_change fs) u))"

section \<open>Initialisation and tick\<close>

text \<open>Everything before the screens are created. The discovery of input devices runs its callback from LVGL later.\<close>

definition lvgl_setup :: "lv_env \<Rightarrow> ui_index \<Rightarrow> u16 \<Rightarrow> ui \<Rightarrow> ui" where
  "lvgl_setup env idx rotation u =
     (let u = slog (log_trace ''screen.c'' ''lvgl_init'' 80 ''initalizing lvgl'') u;
          u = lrun Lv_init u;
          (d, u) = lask env Lv_linux_fbdev_create u;
          u = u\<lparr>disp := d\<rparr>;
          u = lrun (Lv_display_set_resolution d 240 300) u;
          u = lrun (Lv_linux_fbdev_set_file d ''/dev/fb0'') u;
          u = lvgl_set_rotation env idx d rotation u;
          u = slog (log_info ''screen.c'' ''lvgl_init'' 93 ''[C-UI-INIT] step 4/6: initializing input device discovery'') u;
          u = lrun Lv_evdev_discovery_start u;
          u = (if \<not> lstart_ok env (lcalls u)
               then slog (log_warn ''screen.c'' ''lvgl_init'' 95
                            ''[C-UI-INIT] step 4/6: evdev discovery failed to start, touchscreen may not work'') u
               else slog (log_info ''screen.c'' ''lvgl_init'' 97 ''[C-UI-INIT] step 4/6: evdev discovery started'') u)
      in slog (log_trace ''screen.c'' ''lvgl_init'' 100 ''initalizing ui'') u)"

definition lvgl_init :: "lv_env \<Rightarrow> ui_index \<Rightarrow> u16 \<Rightarrow> ui \<Rightarrow> ui option" where
  "lvgl_init env idx rotation u =
     map_option (\<lambda>u. slog (log_info ''screen.c'' ''lvgl_init'' 106 ''ui initalized'') (ui_set_rpc_handler True u))
       (ui_init env (lvgl_setup env idx rotation u))"

definition lvgl_tick :: "lv_env \<Rightarrow> ui \<Rightarrow> ui option" where
  "lvgl_tick env u = ui_tick env (lrun Lv_timer_handler u)"

section \<open>The clock\<close>

text \<open>
  \<^verbatim>\<open>(tv_sec * 1000000 + tv_usec) / 1000\<close>, computed in the type of \<^verbatim>\<open>tv_sec\<close>, which has \<open>bits\<close> bits;
  \<open>None\<close> when the signed arithmetic overflows.
\<close>

definition time_ms :: "nat \<Rightarrow> int \<times> int \<Rightarrow> u64 option" where
  "time_ms bits tv =
     (case tv of (sec, usec) \<Rightarrow>
        let us = sec * 1000000 + usec in
        if - (2 ^ (bits - 1)) \<le> sec * 1000000 \<and> sec * 1000000 < 2 ^ (bits - 1) \<and> - (2 ^ (bits - 1)) \<le> us \<and> us < 2 ^ (bits - 1)
        then Some (of_int (if us < 0 then - ((- us) div 1000) else us div 1000)) else None)"

definition read_time :: "lv_env \<Rightarrow> nat \<Rightarrow> ui \<Rightarrow> u64 option \<times> ui" where
  "read_time env bits u = (let u = lrun Gettimeofday u in (time_ms bits (ltime env (lcalls u)), u))"

definition custom_tick_get :: "lv_env \<Rightarrow> nat \<Rightarrow> ui \<Rightarrow> (u32 \<times> ui) option" where
  "custom_tick_get env bits u =
     (case (if start_ms u = 0
            then (case read_time env bits u of (t, u) \<Rightarrow> map_option (\<lambda>t. u\<lparr>start_ms := t\<rparr>) t)
            else Some u) of
        None \<Rightarrow> None
      | Some u \<Rightarrow> (case read_time env bits u of (now_ms, u) \<Rightarrow> map_option (\<lambda>now_ms. (ucast (now_ms - start_ms u), u)) now_ms))"

end
