(* ===== verification/Screen_Props.thy ===== *)
theory Screen_Props
  imports Screen
begin

text \<open>
  Properties of \<^verbatim>\<open>screen.c\<close>: lookups in the generated tables, the padding and calibration that go with a
  rotation, the clock, and initialisation.
\<close>

section \<open>Name tables\<close>

text \<open>A table in which no name occurs twice: a lookup finds exactly the entries.\<close>

locale name_table =
  fixes tab :: "(string \<times> 'v) list"
  assumes distinct_names: "distinct (map fst tab)"
begin

lemma lookup_iff: "find_key tab k = Some v \<longleftrightarrow> (k, v) \<in> set tab"
  using distinct_names by (simp add: find_key_map_of)

lemma lookup_None: "find_key tab k = None \<longleftrightarrow> k \<notin> fst ` set tab"
  by (simp add: find_key_map_of map_of_eq_None_iff)

end

text \<open>The tables as the script \<^verbatim>\<open>ui_index.gen.sh\<close> writes them: one entry for each declaration, under its own name.\<close>

definition style_names :: "string list" where
  "style_names = [''flex_column_space_between'', ''flex_center'', ''flex_start'', ''flow_row_space_between'',
      ''flow_row_start_center'', ''flex_column_start'', ''flex_screen'', ''flex_screen_menu'',
      ''label_font16'', ''label_font_bold30'', ''header_link'', ''menu_button'', ''menu_button_label'',
      ''info_headline_label'', ''info_content_label'', ''back_button'']"

definition generated_index :: ui_index where
  "generated_index = \<lparr>ui_objects = map (\<lambda>f. (f, f)) object_fields, ui_styles = zip style_names style_order,
     ui_images = [(''img_logo'', Img_logo), (''img_boot_logo_2'', Img_boot_logo_2),
      (''img_arrow_icon'', Img_arrow_icon), (''img_back_caret'', Img_back_caret),
      (''img_back_icon'', Img_back_icon), (''img_check_icon'', Img_check_icon),
      (''img_cloud_disconnected'', Img_cloud_disconnected), (''img_cloud'', Img_cloud),
      (''img_d2'', Img_d2), (''img_ethernet'', Img_ethernet), (''img_hdmi'', Img_hdmi),
      (''img_jetkvm'', Img_jetkvm), (''img_usb'', Img_usb), (''img_x_icon'', Img_x_icon)],
     ui_var_table = [(''app_version'', Var_app_version), (''system_version'', Var_system_version),
       (''lvgl_version'', Var_lvgl_version), (''main_screen'', Var_main_screen)]\<rparr>"

interpretation object_table: name_table "ui_objects generated_index"
  by unfold_locales (simp add: generated_index_def comp_def distinct_object_fields)

interpretation style_table: name_table "ui_styles generated_index"
  by unfold_locales (simp add: generated_index_def style_names_def style_order_def)

interpretation image_table: name_table "ui_images generated_index"
  by unfold_locales (simp add: generated_index_def)

interpretation var_table: name_table "ui_var_table generated_index"
  by unfold_locales (simp add: generated_index_def)

lemma ui_get_obj_generated: "ui_get_obj generated_index name u = (if name \<in> set object_fields then objects u name else 0)"
proof (cases "name \<in> set object_fields")
  case True
  then have "find_key (ui_objects generated_index) name = Some name"
    by (simp add: object_table.lookup_iff) (simp add: generated_index_def image_iff)
  with True show ?thesis by (simp add: ui_get_obj_def)
next
  case False
  then have "find_key (ui_objects generated_index) name = None"
    by (simp add: object_table.lookup_None) (simp add: generated_index_def image_image)
  with False show ?thesis by (simp add: ui_get_obj_def)
qed

lemma ui_get_style_generated:
  "ui_get_style env generated_index ''flex_screen'' u = get_style_of Flex_screen env u"
  "ui_get_style env generated_index ''flex_screen_menu'' u = get_style_of Flex_screen_menu env u"
  by (simp_all add: ui_get_style_def generated_index_def style_names_def style_order_def)

section \<open>Padding and calibration\<close>

text \<open>The padding a style has: the value set last.\<close>

fun pads_of :: "lv_style \<Rightarrow> lcall list \<Rightarrow> int \<times> int" where
  "pads_of s [] = (0, 0)"
| "pads_of s (c # h) = (case c of
       Lv_style_set s' p \<Rightarrow> if s' \<noteq> s then pads_of s h
         else (case p of Pad_left n \<Rightarrow> (n, snd (pads_of s h)) | Pad_right n \<Rightarrow> (fst (pads_of s h), n) | _ \<Rightarrow> pads_of s h)
     | _ \<Rightarrow> pads_of s h)"

text \<open>The calibration of an input device: the one set last.\<close>

fun calibration :: "lv_obj \<Rightarrow> lcall list \<Rightarrow> (int \<times> int \<times> int \<times> int) option" where
  "calibration d [] = None"
| "calibration d (c # h) = (case c of
       Lv_evdev_set_calibration d' a b x y \<Rightarrow> if d' = d then Some (a, b, x, y) else calibration d h
     | _ \<Rightarrow> calibration d h)"

fun display_rotation :: "lv_obj \<Rightarrow> lcall list \<Rightarrow> lv_rotation option" where
  "display_rotation d [] = None"
| "display_rotation d (c # h) = (case c of
       Lv_display_set_rotation d' r \<Rightarrow> if d' = d then Some r else display_rotation d h
     | _ \<Rightarrow> display_rotation d h)"

lemma slog_sel [simp]:
  "lcalls (slog f u) = lcalls u" "objects (slog f u) = objects u" "style_ptr (slog f u) = style_ptr u" "vars (slog f u) = vars u"
  "disp (slog f u) = disp u" "touch_indev (slog f u) = touch_indev u" "current_rotation (slog f u) = current_rotation u"
  "logs (slog f u) = f (logs u)" "currentScreen (slog f u) = currentScreen u" "rpc_handler (slog f u) = rpc_handler u"
  by (simp_all add: slog_def)

lemma neutral_device:
  assumes "list_all neutral cs"
  shows "calibration d (cs @ h) = calibration d h" "display_rotation d (cs @ h) = display_rotation d h"
proof -
  have "calibration d (c # h) = calibration d h" "display_rotation d (c # h) = display_rotation d h" if "neutral c" for c h
    using that by (cases c; simp add: neutral_def)+
  then show "calibration d (cs @ h) = calibration d h" "display_rotation d (cs @ h) = display_rotation d h"
    using assms by (induction cs) (simp_all del: calibration.simps display_rotation.simps)
qed

lemma styled_device:
  assumes "styled u u'"
  shows "calibration d (lcalls u') = calibration d (lcalls u)" "display_rotation d (lcalls u') = display_rotation d (lcalls u)"
    "touch_indev u' = touch_indev u" "current_rotation u' = current_rotation u" "disp u' = disp u"
  using assms by (auto simp: styled_def neutral_device)

definition rotation_of :: "u16 \<Rightarrow> lv_rotation option" where
  "rotation_of r = (if r = 0 then Some LV_DISP_ROTATION_0 else if r = 90 then Some LV_DISP_ROTATION_90
     else if r = 180 then Some LV_DISP_ROTATION_180 else if r = 270 then Some LV_DISP_ROTATION_270 else None)"

definition rotation_pads :: "u16 \<Rightarrow> (int \<times> int) option" where
  "rotation_pads r = (if r = 90 then Some (24, 44) else if r = 270 then Some (44, 24) else None)"

lemma set_display_rotation_eff:
  "display_rotation d (lcalls (set_display_rotation d r u)) = (case rotation_of r of Some x \<Rightarrow> Some x | None \<Rightarrow> display_rotation d (lcalls u))"
  "calibration t (lcalls (set_display_rotation d r u)) = calibration t (lcalls u)"
  "touch_indev (set_display_rotation d r u) = touch_indev u"
  by (simp_all add: set_display_rotation_def rotation_of_def)

lemma apply_touch_calibration_eff:
  "current_rotation (apply_touch_calibration u) = current_rotation u"
  "display_rotation d (lcalls (apply_touch_calibration u)) = display_rotation d (lcalls u)"
  "touch_indev u \<noteq> 0 \<Longrightarrow> calibration (touch_indev u) (lcalls (apply_touch_calibration u)) =
     Some (if current_rotation u = 90 then (0, -20, 239, 279) else (0, 0, 239, 299))"
  "touch_indev (apply_touch_calibration u) = touch_indev u"
  by (simp_all add: apply_touch_calibration_def TOUCH_Y_OFFSET_def)

lemma rotate_display_eff:
  "current_rotation (rotate_display disp_ref r u) = r" "touch_indev (rotate_display disp_ref r u) = touch_indev u"
  "display_rotation (display_ref disp_ref u) (lcalls (rotate_display disp_ref r u)) =
     (case rotation_of r of Some x \<Rightarrow> Some x | None \<Rightarrow> display_rotation (display_ref disp_ref u) (lcalls u))"
  "touch_indev u \<noteq> 0 \<Longrightarrow> calibration (touch_indev u) (lcalls (rotate_display disp_ref r u)) =
     Some (if r = 90 then (0, -20, 239, 279) else (0, 0, 239, 299))"
proof -
  let ?v = "(set_display_rotation (display_ref disp_ref u) r (slog (log_info ''screen.c'' ''lvgl_set_rotation'' 118
    (''setting rotation to '' @ fmt_d (uint r))) u))\<lparr>current_rotation := r\<rparr>"
  have r: "rotate_display disp_ref r u = apply_touch_calibration ?v" by (simp add: rotate_display_def Let_def)
  have v: "current_rotation ?v = r" "touch_indev ?v = touch_indev u" by (simp_all add: set_display_rotation_eff)
  show "current_rotation (rotate_display disp_ref r u) = r" "touch_indev (rotate_display disp_ref r u) = touch_indev u"
    unfolding r apply_touch_calibration_eff using v by simp_all
  show "display_rotation (display_ref disp_ref u) (lcalls (rotate_display disp_ref r u)) =
     (case rotation_of r of Some x \<Rightarrow> Some x | None \<Rightarrow> display_rotation (display_ref disp_ref u) (lcalls u))"
    unfolding r apply_touch_calibration_eff by (simp add: set_display_rotation_eff split: option.split)
  show "calibration (touch_indev u) (lcalls (rotate_display disp_ref r u)) =
     Some (if r = 90 then (0, -20, 239, 279) else (0, 0, 239, 299))" if "touch_indev u \<noteq> 0"
    using apply_touch_calibration_eff(3) [of ?v] that unfolding r v by simp
qed

lemma styled_set_rotation_pads: "styled u (set_rotation_pads fs fsm r u)"
  unfolding set_rotation_pads_def by (simp add: styled_then_set)

lemma set_rotation_pads_eff:
  "rotation_pads r = Some p \<Longrightarrow> pads_of fs (lcalls (set_rotation_pads fs fsm r u)) = p \<and>
     pads_of fsm (lcalls (set_rotation_pads fs fsm r u)) = p"
  by (auto simp: rotation_pads_def set_rotation_pads_def style_set_def split: if_splits)

lemma get_style_of_ok:
  assumes "\<forall>h. lptr env (Lv_style_malloc # h) \<noteq> 0"
  obtains s u' where "get_style_of k env u = (s, u')" "s \<noteq> 0" "styled u u'" "style_ptr u' k = s"
proof -
  obtain s u' where g: "get_style_of k env u = (s, u')" by fastforce
  then have "style_ptr u' k \<noteq> 0 \<and> style_ptr u' k = s" using style_cell.get_sets [of u k env] assms by simp
  moreover have "styled u u'" using styled_get_style_of [of u k env] g by simp
  ultimately show thesis using that g by auto
qed

lemma get_style_keeps_ptr: "style_ptr u j \<noteq> 0 \<Longrightarrow> style_ptr (snd (get_style_of k env u)) j = style_ptr u j"
  by (auto simp: get_style_of_lazy lazy_style_def lask_def Let_def)

lemma style_ptr_set_rotation_pads [simp]: "style_ptr (set_rotation_pads fs fsm r u) = style_ptr u"
  by (simp add: set_rotation_pads_def)

section \<open>Stated properties\<close>



section \<open>The clock\<close>

lemma of_int_not_zero: "1 \<le> n \<Longrightarrow> n < 2 ^ 64 \<Longrightarrow> (of_int n :: u64) \<noteq> 0"
proof -
  assume n: "1 \<le> n" "n < 2 ^ 64"
  then have "uint (of_int n :: u64) = n" by (simp add: unsigned_of_int take_bit_int_eq_self)
  with n(1) show ?thesis by force
qed

lemma time_ms_64:
  assumes "0 \<le> sec" "sec < 2 ^ 40" "0 \<le> usec" "usec < 1000000"
  shows "time_ms 64 (sec, usec) = Some (of_int ((sec * 1000000 + usec) div 1000))"
  using assms by (simp add: time_ms_def Let_def)

text \<open>The millisecond clock, on a system whose \<^verbatim>\<open>time_t\<close> has 64 bits: it always returns; the first call takes the time
  of its own first reading as origin, and every call returns the milliseconds since the origin, modulo \<open>2 ^ 32\<close>, and keeps the
  origin, so that differences of ticks are elapsed milliseconds.\<close>

theorem custom_tick_get_elapsed:
  assumes "\<forall>h. 0 < fst (ltime env h) \<and> fst (ltime env h) < 2 ^ 40 \<and> 0 \<le> snd (ltime env h) \<and> snd (ltime env h) < 1000000"
  shows "\<exists>t u'. custom_tick_get env 64 u = Some (t, u') \<and> start_ms u' \<noteq> 0 \<and>
    (start_ms u \<noteq> 0 \<longrightarrow> start_ms u' = start_ms u) \<and>
    t = ucast (of_int ((fst (ltime env (lcalls u')) * 1000000 + snd (ltime env (lcalls u'))) div 1000) - start_ms u')"
proof -
  have t: "time_ms 64 (ltime env h) = Some (of_int ((fst (ltime env h) * 1000000 + snd (ltime env h)) div 1000))" for h
    using time_ms_64 [of "fst (ltime env h)" "snd (ltime env h)"] assms by (simp add: less_imp_le)
  have z: "(of_int ((fst (ltime env h) * 1000000 + snd (ltime env h)) div 1000) :: u64) \<noteq> 0" for h
  proof -
    have b: "1 \<le> fst (ltime env h)" "fst (ltime env h) < 2 ^ 40" "0 \<le> snd (ltime env h)" "snd (ltime env h) < 1000000"
      using assms by (auto simp: int_one_le_iff_zero_less)
    let ?n = "(fst (ltime env h) * 1000000 + snd (ltime env h)) div 1000"
    have n: "1 \<le> ?n" "?n < 2 ^ 64" using b by (auto intro!: pos_imp_zdiv_pos_iff [THEN iffD2])
    then show ?thesis by (rule of_int_not_zero)
  qed
  show ?thesis
    by (cases "start_ms u = 0") (simp_all add: custom_tick_get_def read_time_def Let_def t z)
qed

theorem custom_tick_get_elapsed_witness:
  "\<exists>t u'. custom_tick_get (sample_lv\<lparr>ltime := (\<lambda>h. (1700000000 + int (length h) mod 5, 250000))\<rparr>) 64 ui_globals = Some (t, u')"
proof -
  have "\<forall>h. 0 < fst (ltime (sample_lv\<lparr>ltime := (\<lambda>h. (1700000000 + int (length h) mod 5, 250000))\<rparr>) h) \<and>
    fst (ltime (sample_lv\<lparr>ltime := (\<lambda>h. (1700000000 + int (length h) mod 5, 250000))\<rparr>) h) < 2 ^ 40 \<and>
    0 \<le> snd (ltime (sample_lv\<lparr>ltime := (\<lambda>h. (1700000000 + int (length h) mod 5, 250000))\<rparr>) h) \<and>
    snd (ltime (sample_lv\<lparr>ltime := (\<lambda>h. (1700000000 + int (length h) mod 5, 250000))\<rparr>) h) < 1000000"
    by (simp add: pos_mod_bound [of 5, THEN order_less_trans] pos_mod_sign add_pos_nonneg)
  from custom_tick_get_elapsed [OF this, of ui_globals] show ?thesis by blast
qed

text \<open>On a system whose \<^verbatim>\<open>time_t\<close> has 32 bits the clock is undefined from the thirty-sixth minute of 1970 on: the product
  of the seconds and a million overflows the signed type.\<close>

theorem custom_tick_get_overflow:
  assumes "\<forall>h. 2148 \<le> fst (ltime env h)"
  shows "custom_tick_get env 32 u = None"
proof -
  have "time_ms 32 (ltime env h) = None" for h
  proof -
    have "2148 \<le> fst (ltime env h)" using assms by blast
    then have "\<not> fst (ltime env h) * 1000000 < 2 ^ 31" by simp
    then show ?thesis by (simp add: time_ms_def case_prod_beta Let_def)
  qed
  then show ?thesis by (simp add: custom_tick_get_def read_time_def Let_def)
qed

theorem custom_tick_get_overflow_witness:
  "custom_tick_get (sample_lv\<lparr>ltime := (\<lambda>h. (1700000000, 0))\<rparr>) 32 ui_globals = None"
  by (rule custom_tick_get_overflow) simp

end
