(* ===== verification/Ctrl_Ui.thy ===== *)
theory Ctrl_Ui
  imports Screen_Props
begin

text \<open>
  The user-interface half of \<^verbatim>\<open>internal/native/cgo/ctrl.c\<close>: the handlers and the functions the Go process calls
  to change the display by object name. Return values are the integers of the source.
\<close>

section \<open>Handlers\<close>

definition jetkvm_set_log_handler :: "bool \<Rightarrow> ui \<Rightarrow> ui" where
  "jetkvm_set_log_handler handler u = slog (log_set_handler handler) u"

definition jetkvm_set_indev_handler :: "bool \<Rightarrow> ui \<Rightarrow> ui" where
  "jetkvm_set_indev_handler handler u = lvgl_set_indev_handler True (u\<lparr>jetkvm_indev_handler := handler\<rparr>)"

definition jetkvm_set_rpc_handler :: "bool \<Rightarrow> ui \<Rightarrow> ui" where
  "jetkvm_set_rpc_handler handler u = u\<lparr>rpc_handler := handler\<rparr>"

definition jetkvm_ui_event_code_to_name :: "lv_env \<Rightarrow> int \<Rightarrow> ui \<Rightarrow> string \<times> ui" where
  "jetkvm_ui_event_code_to_name env code u =
     (let u = lrun (Lv_event_code_get_name code) u in (ltext env (lcalls u), u))"

section \<open>Names of flags and states\<close>

text \<open>\<open>None\<close> is the value 0, which is no flag.\<close>

definition str_to_lv_obj_flag :: "string \<Rightarrow> lv_obj_flag option" where
  "str_to_lv_obj_flag flag =
     (if flag = ''LV_OBJ_FLAG_HIDDEN'' then Some LV_OBJ_FLAG_HIDDEN
      else if flag = ''LV_OBJ_FLAG_CLICKABLE'' then Some LV_OBJ_FLAG_CLICKABLE
      else if flag = ''LV_OBJ_FLAG_SCROLLABLE'' then Some LV_OBJ_FLAG_SCROLLABLE
      else if flag = ''LV_OBJ_FLAG_CLICK_FOCUSABLE'' then Some LV_OBJ_FLAG_CLICK_FOCUSABLE
      else if flag = ''LV_OBJ_FLAG_SCROLL_ON_FOCUS'' then Some LV_OBJ_FLAG_SCROLL_ON_FOCUS
      else if flag = ''LV_OBJ_FLAG_SCROLL_CHAIN'' then Some LV_OBJ_FLAG_SCROLL_CHAIN
      else if flag = ''LV_OBJ_FLAG_PRESS_LOCK'' then Some LV_OBJ_FLAG_PRESS_LOCK
      else if flag = ''LV_OBJ_FLAG_OVERFLOW_VISIBLE'' then Some LV_OBJ_FLAG_OVERFLOW_VISIBLE
      else None)"

definition str_to_lv_state :: "string \<Rightarrow> lv_state" where
  "str_to_lv_state state_name =
     (if state_name = ''LV_STATE_USER_1'' then LV_STATE_USER_1
      else if state_name = ''LV_STATE_USER_2'' then LV_STATE_USER_2
      else if state_name = ''LV_STATE_USER_3'' then LV_STATE_USER_3
      else if state_name = ''LV_STATE_USER_4'' then LV_STATE_USER_4
      else if state_name = ''LV_STATE_DISABLED'' then LV_STATE_DISABLED
      else if state_name = ''LV_STATE_DEFAULT'' then LV_STATE_DEFAULT
      else if state_name = ''LV_STATE_CHECKED'' then LV_STATE_CHECKED
      else if state_name = ''LV_STATE_FOCUSED'' then LV_STATE_FOCUSED
      else LV_STATE_DEFAULT)"

section \<open>Variables\<close>

text \<open>The setter and getter of a table entry.\<close>

definition var_setter :: "ui_var \<Rightarrow> string \<Rightarrow> ui_vars \<Rightarrow> ui_vars" where
  "var_setter v = (case v of Var_app_version \<Rightarrow> set_var_app_version | Var_system_version \<Rightarrow> set_var_system_version
     | Var_lvgl_version \<Rightarrow> set_var_lvgl_version | Var_main_screen \<Rightarrow> set_var_main_screen)"

definition var_getter :: "lv_env \<Rightarrow> ui_var \<Rightarrow> ui_vars \<Rightarrow> string \<times> ui_vars" where
  "var_getter env v vs = (case v of Var_app_version \<Rightarrow> (get_var_app_version vs, vs)
     | Var_system_version \<Rightarrow> (get_var_system_version vs, vs)
     | Var_lvgl_version \<Rightarrow> get_var_lvgl_version env vs
     | Var_main_screen \<Rightarrow> (get_var_main_screen vs, vs))"

definition jetkvm_ui_set_var :: "ui_index \<Rightarrow> string \<Rightarrow> string \<Rightarrow> ui \<Rightarrow> ui" where
  "jetkvm_ui_set_var idx name v u =
     (case find_key (ui_var_table idx) name of
        Some x \<Rightarrow> u\<lparr>vars := var_setter x v (vars u)\<rparr>
      | None \<Rightarrow> slog (log_error ''ctrl.c'' ''jetkvm_ui_set_var'' 199 (''variable '' @ name @ '' not found'')) u)"

definition jetkvm_ui_get_var :: "lv_env \<Rightarrow> ui_index \<Rightarrow> string \<Rightarrow> ui \<Rightarrow> string option \<times> ui" where
  "jetkvm_ui_get_var env idx name u =
     (case find_key (ui_var_table idx) name of
        Some x \<Rightarrow> (case var_getter env x (vars u) of (r, vs) \<Rightarrow> (Some r, u\<lparr>vars := vs\<rparr>))
      | None \<Rightarrow> (None, slog (log_error ''ctrl.c'' ''jetkvm_ui_get_var'' 208 (''variable '' @ name @ '' not found'')) u))"

section \<open>Initialisation, tick, rotation and screens\<close>

definition jetkvm_ui_init :: "lv_env \<Rightarrow> ui_index \<Rightarrow> u16 \<Rightarrow> ui \<Rightarrow> ui option" where
  "jetkvm_ui_init env idx rotation u = lvgl_init env idx rotation u"

definition jetkvm_ui_tick :: "lv_env \<Rightarrow> ui \<Rightarrow> ui option" where
  "jetkvm_ui_tick env u = lvgl_tick env u"

definition jetkvm_ui_set_rotation :: "lv_env \<Rightarrow> ui_index \<Rightarrow> u16 \<Rightarrow> ui \<Rightarrow> ui" where
  "jetkvm_ui_set_rotation env idx rotation u = lvgl_set_rotation env idx 0 rotation u"

definition jetkvm_ui_get_current_screen :: "lv_env \<Rightarrow> ui_index \<Rightarrow> ui \<Rightarrow> string option \<times> ui" where
  "jetkvm_ui_get_current_screen env idx u = ui_get_current_screen env idx u"

definition jetkvm_ui_load_screen :: "lv_env \<Rightarrow> ui_index \<Rightarrow> string \<Rightarrow> ui \<Rightarrow> ui" where
  "jetkvm_ui_load_screen env idx obj_name u =
     (let ob = ui_get_obj idx obj_name u in
      if ob = 0 then u
      else case lask env Lv_scr_act u of (scr, u) \<Rightarrow> if scr \<noteq> ob then lrun (Lv_scr_load ob) u else u)"

section \<open>Objects\<close>

definition jetkvm_ui_set_text :: "lv_env \<Rightarrow> ui_index \<Rightarrow> string \<Rightarrow> string \<Rightarrow> ui \<Rightarrow> int \<times> ui" where
  "jetkvm_ui_set_text env idx obj_name text u =
     (let ob = ui_get_obj idx obj_name u in
      if ob = 0 then (-1, u)
      else
        let u = lrun (Lv_label_get_text ob) u in
        if ltext env (lcalls u) = text then (1, u) else (0, lrun (Lv_label_set_text ob text) u))"

definition jetkvm_ui_set_image :: "ui_index \<Rightarrow> string \<Rightarrow> string \<Rightarrow> ui \<Rightarrow> ui" where
  "jetkvm_ui_set_image idx obj_name image_name u =
     (let ob = ui_get_obj idx obj_name u in if ob = 0 then u else lrun (Lv_obj ob (Set_src_name image_name)) u)"

definition jetkvm_ui_add_state :: "ui_index \<Rightarrow> string \<Rightarrow> string \<Rightarrow> ui \<Rightarrow> ui" where
  "jetkvm_ui_add_state idx obj_name state_name u =
     (let ob = ui_get_obj idx obj_name u in
      if ob = 0 then u else lrun (Lv_obj ob (Add_state (str_to_lv_state state_name))) u)"

definition jetkvm_ui_clear_state :: "ui_index \<Rightarrow> string \<Rightarrow> string \<Rightarrow> ui \<Rightarrow> ui" where
  "jetkvm_ui_clear_state idx obj_name state_name u =
     (let ob = ui_get_obj idx obj_name u in
      if ob = 0 then u else lrun (Lv_obj ob (Clear_state (str_to_lv_state state_name))) u)"

definition jetkvm_ui_add_flag :: "ui_index \<Rightarrow> string \<Rightarrow> string \<Rightarrow> ui \<Rightarrow> int \<times> ui" where
  "jetkvm_ui_add_flag idx obj_name flag_name u =
     (let ob = ui_get_obj idx obj_name u in
      if ob = 0 then (-1, u)
      else case str_to_lv_obj_flag flag_name of None \<Rightarrow> (-2, u)
        | Some flag_val \<Rightarrow> (0, lrun (Lv_obj ob (Add_flag [flag_val])) u))"

definition jetkvm_ui_clear_flag :: "ui_index \<Rightarrow> string \<Rightarrow> string \<Rightarrow> ui \<Rightarrow> int \<times> ui" where
  "jetkvm_ui_clear_flag idx obj_name flag_name u =
     (let ob = ui_get_obj idx obj_name u in
      if ob = 0 then (-1, u)
      else case str_to_lv_obj_flag flag_name of None \<Rightarrow> (-2, u)
        | Some flag_val \<Rightarrow> (0, lrun (Lv_obj ob (Clear_flag [flag_val])) u))"

definition jetkvm_ui_fade_in :: "ui_index \<Rightarrow> string \<Rightarrow> u32 \<Rightarrow> ui \<Rightarrow> ui" where
  "jetkvm_ui_fade_in idx obj_name duration u =
     (let ob = ui_get_obj idx obj_name u in if ob = 0 then u else lrun (Lv_obj ob (Fade_in duration)) u)"

definition jetkvm_ui_fade_out :: "ui_index \<Rightarrow> string \<Rightarrow> u32 \<Rightarrow> ui \<Rightarrow> ui" where
  "jetkvm_ui_fade_out idx obj_name duration u =
     (let ob = ui_get_obj idx obj_name u in if ob = 0 then u else lrun (Lv_obj ob (Fade_out duration)) u)"

definition jetkvm_ui_set_opacity :: "ui_index \<Rightarrow> string \<Rightarrow> u8 \<Rightarrow> ui \<Rightarrow> ui" where
  "jetkvm_ui_set_opacity idx obj_name opacity u =
     (let ob = ui_get_obj idx obj_name u in
      if ob = 0 then u else lrun (Lv_obj ob (Set_style (Opa opacity) LV_PART_MAIN LV_STATE_DEFAULT)) u)"

definition jetkvm_ui_get_lvgl_version :: "lv_env \<Rightarrow> ui \<Rightarrow> string \<times> ui" where
  "jetkvm_ui_get_lvgl_version env u = (let u = lrun Lv_version_info u in (ltext env (lcalls u), u))"

end
