(* ===== verification/Ctrl_Ui_Props.thy ===== *)
theory Ctrl_Ui_Props
  imports Ctrl_Ui
begin

text \<open>
  Properties of the interface the Go process uses: initialisation makes every named object available, screens can be
  loaded and asked for by name, texts, flags and variables are set as asked, and errors change nothing.
\<close>

section \<open>Initialisation\<close>

lemma fmt_nat_u16: "n < 65536 \<Longrightarrow> length (fmt_nat n) \<le> 5"
  by (subst fmt_nat.simps, subst fmt_nat.simps, subst fmt_nat.simps, subst fmt_nat.simps, subst fmt_nat.simps) auto

lemma fmt_d_u16: "length (fmt_d (uint (r :: u16))) \<le> 5"
proof -
  have "nat (uint r) < 65536" using unsigned_less [of r, where ?'a = nat] by simp
  from fmt_nat_u16 [OF this] show ?thesis by (simp add: fmt_d_def)
qed

text \<open>What the rotation leaves alone.\<close>

definition display_only :: "ui \<Rightarrow> ui \<Rightarrow> bool" where
  "display_only u u' \<longleftrightarrow> objects u' = objects u \<and> vars u' = vars u \<and> currentScreen u' = currentScreen u \<and>
     smashed (logs u') = smashed (logs u) \<and> holds u' = holds u \<and> rpc_handler u' = rpc_handler u"

lemma display_only_refl [simp]: "display_only u u"
  by (simp add: display_only_def)

lemma display_only_trans: "display_only u v \<Longrightarrow> display_only v w \<Longrightarrow> display_only u w"
  by (simp add: display_only_def)

lemma display_only_styled: "styled u v \<Longrightarrow> display_only u v"
  by (auto simp: display_only_def styled_def)

lemma display_only_calibration: "display_only u (apply_touch_calibration u)"
  using fmt_d_u16 [of "current_rotation u"]
  by (simp add: display_only_def apply_touch_calibration_def slog_def lrun_def TOUCH_Y_OFFSET_def fmt_d_def fmt_nat.simps)

lemma display_only_rotation_call: "display_only u (set_display_rotation d r u)"
  using fmt_d_u16 [of r] by (simp add: display_only_def set_display_rotation_def slog_def lrun_def)

lemma ui_get_style_styled: "styled u (snd (ui_get_style env idx name u))"
  by (simp add: ui_get_style_def styled_get_style_of split: option.split)

lemma display_only_rotate: "display_only u (rotate_display disp_ref r u)"
proof -
  let ?a = "slog (log_info ''screen.c'' ''lvgl_set_rotation'' 118 (''setting rotation to '' @ fmt_d (uint r))) u"
  let ?b = "(set_display_rotation (display_ref disp_ref u) r ?a)\<lparr>current_rotation := r\<rparr>"
  have "display_only u ?a" using fmt_d_u16 [of r] by (simp add: display_only_def slog_def)
  moreover have "display_only ?a ?b" using display_only_rotation_call [of ?a "display_ref disp_ref u" r] by (simp add: display_only_def)
  ultimately have "display_only u (apply_touch_calibration ?b)" using display_only_calibration [of ?b] display_only_trans by blast
  then show ?thesis by (simp add: rotate_display_def Let_def)
qed

lemma display_only_set_rotation: "display_only u (lvgl_set_rotation env idx disp_ref r u)"
proof -
  let ?c = "rotate_display disp_ref r u"
  have c: "display_only u ?c" by (rule display_only_rotate)
  obtain fs e where e: "ui_get_style env idx ''flex_screen'' ?c = (fs, e)" by fastforce
  obtain fsm g where g: "ui_get_style env idx ''flex_screen_menu'' e = (fsm, g)" by fastforce
  have "display_only ?c e" "display_only e g" "display_only g (set_rotation_pads fs fsm r g)"
    using ui_get_style_styled [of ?c env idx "''flex_screen''"] ui_get_style_styled [of e env idx "''flex_screen_menu''"] e g
      styled_set_rotation_pads [of g fs fsm r] by (auto intro: display_only_styled)
  then have h: "display_only u e" "display_only u g" "display_only u (set_rotation_pads fs fsm r g)"
    using c display_only_trans by blast+
  have "lvgl_set_rotation env idx disp_ref r u =
      (if fs = 0 then slog (log_error ''screen.c'' ''lvgl_set_rotation'' 136 ''flex_screen style not found'') e
       else if fsm = 0 then slog (log_error ''screen.c'' ''lvgl_set_rotation'' 142 ''flex_screen_menu style not found'') g
       else lrun (Lv_obj_report_style_change fsm) (lrun (Lv_obj_report_style_change fs)
         (slog (log_info ''screen.c'' ''lvgl_set_rotation'' 158 ''refreshing objects'') (set_rotation_pads fs fsm r g))))"
    by (simp add: lvgl_set_rotation_def Let_def e g)
  then show ?thesis using h by (auto simp: display_only_def slog_def lrun_def)
qed

lemma create_all_logs: "snd ` set wts \<subseteq> set tick_screen_funcs \<Longrightarrow> logs (create_all env wts u) = logs u"
proof (induction wts arbitrary: u)
  case (Cons wt wts)
  then show ?case by (cases wt) (simp add: tick_frame build_keeps)
qed simp

lemma create_screens_logs: "logs (create_screens env u) = logs u"
proof -
  have "snd ` set (zip layouts tick_screen_funcs) \<subseteq> set tick_screen_funcs" by (auto dest: set_zip_rightD)
  then show ?thesis unfolding create_screens_all Let_def by (simp add: create_all_logs)
qed

lemma ui_init_logs: "ui_init env u = Some u' \<Longrightarrow> logs u' = logs u"
  using loadScreen_ok [of 1 "create_screens env u"]
  by (auto simp: ui_init_def SCREEN_ID_BOOT_SCREEN_def loadScreen_def Let_def create_screens_logs split: option.splits)

lemma lvgl_setup_keeps:
  "vars (lvgl_setup env idx r u) = vars u" "smashed (logs (lvgl_setup env idx r u)) = smashed (logs u)"
  "rpc_handler (lvgl_setup env idx r u) = rpc_handler u"
proof -
  let ?a = "lrun Lv_init (slog (log_trace ''screen.c'' ''lvgl_init'' 80 ''initalizing lvgl'') u)"
  let ?d = "lptr env (Lv_linux_fbdev_create # lcalls ?a)"
  let ?b = "lrun (Lv_linux_fbdev_set_file ?d ''/dev/fb0'') (lrun (Lv_display_set_resolution ?d 240 300)
    ((lrun Lv_linux_fbdev_create ?a)\<lparr>disp := ?d\<rparr>))"
  have "display_only ?b (lvgl_set_rotation env idx ?d r ?b)" by (rule display_only_set_rotation)
  then show "vars (lvgl_setup env idx r u) = vars u" "smashed (logs (lvgl_setup env idx r u)) = smashed (logs u)"
    "rpc_handler (lvgl_setup env idx r u) = rpc_handler u"
    by (simp_all add: display_only_def lvgl_setup_def lask_def Let_def)
qed

lemma jetkvm_ui_init_ok:
  assumes "fresh_objects env" "vars_inv env (vars u)"
  shows "\<exists>u'. jetkvm_ui_init env idx r u = Some u' \<and> nav_inv env u' \<and> currentScreen u' = 0 \<and> ui_rpc_handler u' \<and>
    smashed (logs u') = smashed (logs u)"
proof -
  let ?v = "lvgl_setup env idx r u"
  obtain w where w: "ui_init env ?v = Some w" "nav_inv env w" "currentScreen w = 0"
    using ui_init_ok [OF assms(1), of ?v] assms(2) by (auto simp: lvgl_setup_keeps)
  have "nav_inv env (slog f (ui_set_rpc_handler True w))" for f
    using w(2) by (simp add: nav_inv_def on_screen_def objects_ok_def ui_set_rpc_handler_def slog_def)
  then show ?thesis using w ui_init_logs [OF w(1)]
    by (simp add: jetkvm_ui_init_def lvgl_init_def ui_set_rpc_handler_def slog_def lvgl_setup_keeps)
qed

section \<open>Operations on a named object\<close>

text \<open>The contract of an operation that does nothing when the object is missing, and else one call on it.\<close>

locale object_op =
  fixes run :: "ui_index \<Rightarrow> string \<Rightarrow> 'a \<Rightarrow> ui \<Rightarrow> ui" and call :: "'a \<Rightarrow> obj_op"
  assumes run_call: "run idx name x u = (if ui_get_obj idx name u = 0 then u else lrun (Lv_obj (ui_get_obj idx name u) (call x)) u)"
begin

lemma run_missing: "name \<notin> set object_fields \<Longrightarrow> run generated_index name x u = u"
  by (simp add: run_call ui_get_obj_generated)

lemma run_found:
  "nav_inv env u \<Longrightarrow> name \<in> set object_fields \<Longrightarrow> run generated_index name x u = lrun (Lv_obj (objects u name) (call x)) u"
  by (auto simp: run_call ui_get_obj_generated nav_inv_def objects_ok_def)

lemma run_labels: "label_text ob (lcalls (run idx name x u)) = label_text ob (lcalls u)"
  by (simp add: run_call)

end

interpretation set_image: object_op jetkvm_ui_set_image Set_src_name
  by unfold_locales (simp add: jetkvm_ui_set_image_def Let_def)

interpretation add_state: object_op jetkvm_ui_add_state "\<lambda>s. Add_state (str_to_lv_state s)"
  by unfold_locales (simp add: jetkvm_ui_add_state_def Let_def)

interpretation clear_state: object_op jetkvm_ui_clear_state "\<lambda>s. Clear_state (str_to_lv_state s)"
  by unfold_locales (simp add: jetkvm_ui_clear_state_def Let_def)

interpretation fade_in: object_op jetkvm_ui_fade_in Fade_in
  by unfold_locales (simp add: jetkvm_ui_fade_in_def Let_def)

interpretation fade_out: object_op jetkvm_ui_fade_out Fade_out
  by unfold_locales (simp add: jetkvm_ui_fade_out_def Let_def)

interpretation set_opacity: object_op jetkvm_ui_set_opacity "\<lambda>o'. Set_style (Opa o') LV_PART_MAIN LV_STATE_DEFAULT"
  by unfold_locales (simp add: jetkvm_ui_set_opacity_def Let_def)

section \<open>Screens by name\<close>

lemma find_obj_name_inj:
  assumes "inj_on obs (set fs)" "f \<in> set fs"
  shows "find_obj_name (map (\<lambda>f. (f, f)) fs) obs (obs f) = Some f"
  using assms by (induction fs) (auto simp: inj_on_def)

lemma current_screen_name:
  assumes "faithful_screens env" "objects_ok env u" "name \<in> set object_fields" "active_screen (lcalls u) = objects u name"
  shows "fst (jetkvm_ui_get_current_screen env generated_index u) = Some name"
proof -
  have "lptr env (Lv_scr_act # lcalls u) = objects u name" using assms(1,4) by (simp add: faithful_screens_def)
  moreover have "objects u name \<noteq> 0" "inj_on (objects u) (set object_fields)" using assms(2,3) by (auto simp: objects_ok_def)
  ultimately show ?thesis using find_obj_name_inj [OF _ assms(3)]
    by (simp add: jetkvm_ui_get_current_screen_def ui_get_current_screen_def lask_def generated_index_def)
qed

lemma load_screen_active:
  assumes "faithful_screens env" "objects_ok env u" "name \<in> set object_fields"
  shows "active_screen (lcalls (jetkvm_ui_load_screen env generated_index name u)) = objects u name"
    "objects_ok env (jetkvm_ui_load_screen env generated_index name u)"
    "objects (jetkvm_ui_load_screen env generated_index name u) = objects u"
    "currentScreen (jetkvm_ui_load_screen env generated_index name u) = currentScreen u"
proof -
  have "objects u name \<noteq> 0" using assms(2,3) by (auto simp: objects_ok_def)
  moreover have "lptr env (Lv_scr_act # lcalls u) = active_screen (lcalls u)" using assms(1) by (simp add: faithful_screens_def)
  ultimately show "active_screen (lcalls (jetkvm_ui_load_screen env generated_index name u)) = objects u name"
    "objects_ok env (jetkvm_ui_load_screen env generated_index name u)"
    "objects (jetkvm_ui_load_screen env generated_index name u) = objects u"
    "currentScreen (jetkvm_ui_load_screen env generated_index name u) = currentScreen u"
    using assms(2,3) by (auto simp: jetkvm_ui_load_screen_def ui_get_obj_generated lask_def Let_def objects_ok_def)
qed

text \<open>The state after initialisation with the sample library.\<close>

lemma sample_started: "\<exists>u. jetkvm_ui_init sample_lv generated_index 270 ui_globals = Some u \<and> nav_inv sample_lv u \<and> currentScreen u = 0"
  using jetkvm_ui_init_ok [OF sample_lv_ok(1), of ui_globals generated_index 270]
  by (auto simp: ui_globals_def vars_init_inv)

section \<open>Stated properties\<close>

text \<open>Initialising the user interface always completes, on the boot screen, with the remote-call handler connected and no log
  message too long for its buffer; from then on each of the 103 object names finds its own object and every other name finds none.\<close>

theorem ui_init_ready:
  assumes "fresh_objects env" "vars_inv env (vars u)"
  shows "\<exists>u'. jetkvm_ui_init env idx r u = Some u' \<and> currentScreen u' = 0 \<and> ui_rpc_handler u' \<and>
    active_screen (lcalls u') = objects u' ''boot_screen'' \<and> smashed (logs u') = smashed (logs u) \<and>
    (\<forall>name. ui_get_obj generated_index name u' \<noteq> 0 \<longleftrightarrow> name \<in> set object_fields) \<and>
    inj_on (\<lambda>name. ui_get_obj generated_index name u') (set object_fields)"
proof -
  obtain u' where u': "jetkvm_ui_init env idx r u = Some u'" "nav_inv env u'" "currentScreen u' = 0" "ui_rpc_handler u'"
    "smashed (logs u') = smashed (logs u)" using jetkvm_ui_init_ok [OF assms] by blast
  have "object_fields ! 0 = ''boot_screen''" by (simp add: object_fields_def)
  then have "active_screen (lcalls u') = objects u' ''boot_screen''" using u'(2,3) by (simp add: nav_inv_def on_screen_def)
  moreover have o: "objects_ok env u'" using u'(2) by (simp add: nav_inv_def)
  then have "inj_on (\<lambda>name. ui_get_obj generated_index name u') (set object_fields)"
    by (simp add: objects_ok_def ui_get_obj_generated inj_on_def)
  moreover have "ui_get_obj generated_index name u' \<noteq> 0 \<longleftrightarrow> name \<in> set object_fields" for name
    using o by (simp add: ui_get_obj_generated objects_ok_def)
  ultimately show ?thesis using u' by blast
qed

theorem ui_init_ready_witness:
  "\<exists>u'. jetkvm_ui_init sample_lv generated_index 270 ui_globals = Some u' \<and> ui_get_obj generated_index ''home_screen'' u' \<noteq> 0 \<and>
     ui_get_obj generated_index ''nowhere'' u' = 0"
proof -
  have v: "vars_inv sample_lv (vars ui_globals)" by (simp add: ui_globals_def vars_init_inv)
  have "''home_screen'' \<in> set object_fields" "''nowhere'' \<notin> set object_fields" by (simp_all add: object_fields_def)
  with ui_init_ready [OF sample_lv_ok(1) v, of generated_index 270] show ?thesis by metis
qed



text \<open>Loading a screen by name does not tell the tick which screen is shown: the tick keeps serving the screen that was loaded
  last by a touch. Right after initialisation, with the about screen loaded by name, a tick leaves the labels of the about screen that show
  variables as they are, whatever the variables are.\<close>

theorem load_screen_not_ticked:
  assumes "faithful_screens env" "faithful_labels env" "nav_inv env u" "currentScreen u = 0"
  shows "\<exists>u'. jetkvm_ui_tick env (jetkvm_ui_load_screen env generated_index ''about_screen'' u) = Some u' \<and>
    active_screen (lcalls u') = objects u' ''about_screen'' \<and>
    (\<forall>f\<in>{''system_version'', ''app_version'', ''lvgl_version''}.
       label_text (objects u' f) (lcalls u') = label_text (objects u f) (lcalls u))"
proof -
  have ok: "objects_ok env u" using assms(3) by (simp add: nav_inv_def)
  have n: "''about_screen'' \<in> set object_fields" "''boot_screen_version'' \<in> set object_fields"
    "{''system_version'', ''app_version'', ''lvgl_version''} \<subseteq> set object_fields" by (simp_all add: object_fields_def)
  have inj: "inj_on (objects u) (set object_fields)" using ok by (simp add: objects_ok_def)
  have d: "objects u f \<noteq> objects u ''boot_screen_version''" if "f \<in> {''system_version'', ''app_version'', ''lvgl_version''}" for f
    using inj_on_eq_iff [OF inj, of f "''boot_screen_version''"] that n by auto
  let ?l = "jetkvm_ui_load_screen env generated_index ''about_screen'' u"
  let ?v = "lrun Lv_timer_handler ?l"
  note l = load_screen_active [OF assms(1) ok n(1)]
  have t: "jetkvm_ui_tick env ?l = Some (tick_screen_boot_screen env ?v)"
    using l(4) assms(4) by (simp add: jetkvm_ui_tick_def lvgl_tick_def ui_tick_def tick_screen_def tick_screen_funcs_def)
  have "label_text ob (lcalls ?l) = label_text ob (lcalls u)" for ob
    by (simp add: jetkvm_ui_load_screen_def lask_def Let_def)
  then have "label_text (objects u f) (lcalls (tick_screen_boot_screen env ?v)) = label_text (objects u f) (lcalls u)"
    if "f \<in> {''system_version'', ''app_version'', ''lvgl_version''}" for f
    using d [OF that] by (simp add: tick_screen_boot_screen_def tick_label_shows [OF assms(2)] l(3))
  moreover have "objects (tick_screen_boot_screen env ?v) = objects u"
    "active_screen (lcalls (tick_screen_boot_screen env ?v)) = objects u ''about_screen''"
    using l by (simp_all add: tick_screen_boot_screen_def tick_label_frame)
  ultimately show ?thesis unfolding t by (intro exI [of _ "tick_screen_boot_screen env ?v"]) metis
qed

theorem load_screen_not_ticked_witness:
  "\<exists>u u'. jetkvm_ui_init sample_lv generated_index 270 ui_globals = Some u \<and>
     jetkvm_ui_tick sample_lv (jetkvm_ui_load_screen sample_lv generated_index ''about_screen'' u) = Some u' \<and>
     label_text (objects u' ''system_version'') (lcalls u') = label_text (objects u ''system_version'') (lcalls u)"
proof -
  obtain u where u: "jetkvm_ui_init sample_lv generated_index 270 ui_globals = Some u" "nav_inv sample_lv u" "currentScreen u = 0"
    using sample_started by blast
  from load_screen_not_ticked [OF sample_lv_ok(3) sample_lv_ok(2) u(2,3)] u(1) show ?thesis by blast
qed

text \<open>Setting a text by object name: for an unknown name the result is -1 and nothing is called; otherwise the label reads the
  text afterwards, every other label is unchanged, the result is 1 exactly when the label read that text already, and then, as on any
  repetition of the call, the label is not set again.\<close>

theorem set_text_spec:
  assumes "faithful_labels env" "objects_ok env u"
  shows "case jetkvm_ui_set_text env generated_index name text u of (r, u') \<Rightarrow>
    (if name \<notin> set object_fields then r = -1 \<and> u' = u
     else label_text (objects u name) (lcalls u') = text \<and>
       (\<forall>ob. ob \<noteq> objects u name \<longrightarrow> label_text ob (lcalls u') = label_text ob (lcalls u)) \<and>
       r = (if label_text (objects u name) (lcalls u) = text then 1 else 0) \<and>
       (r = 1 \<longrightarrow> lcalls u' = Lv_label_get_text (objects u name) # lcalls u) \<and>
       fst (jetkvm_ui_set_text env generated_index name text u') = 1)"
proof -
  have "name \<in> set object_fields \<Longrightarrow> objects u name \<noteq> 0" using assms(2) by (simp add: objects_ok_def)
  then show ?thesis using assms(1)
    by (auto simp: jetkvm_ui_set_text_def ui_get_obj_generated Let_def faithful_labels_def)
qed

theorem set_text_spec_witness:
  "\<exists>u r u'. jetkvm_ui_init sample_lv generated_index 270 ui_globals = Some u \<and>
     jetkvm_ui_set_text sample_lv generated_index ''usb_status_label'' ''Connected'' u = (r, u') \<and>
     label_text (objects u ''usb_status_label'') (lcalls u') = ''Connected''"
proof -
  obtain u where u: "jetkvm_ui_init sample_lv generated_index 270 ui_globals = Some u" "nav_inv sample_lv u"
    using sample_started by blast
  then have o: "objects_ok sample_lv u" by (simp add: nav_inv_def)
  obtain r u' where r: "jetkvm_ui_set_text sample_lv generated_index ''usb_status_label'' ''Connected'' u = (r, u')" by fastforce
  have "''usb_status_label'' \<in> set object_fields" by (simp add: object_fields_def)
  with set_text_spec [OF sample_lv_ok(2) o, of "''usb_status_label''" "''Connected''"] r u(1) show ?thesis by auto
qed

section \<open>Flags\<close>

text \<open>Whether a flag of an object was set (or cleared) last; \<open>None\<close> when it was never touched.\<close>

fun flag_of :: "lv_obj \<Rightarrow> lv_obj_flag \<Rightarrow> lcall list \<Rightarrow> bool option" where
  "flag_of ob fl [] = None"
| "flag_of ob fl (c # h) = (case c of
       Lv_obj ob' x \<Rightarrow> if ob' \<noteq> ob then flag_of ob fl h else
         (case x of Add_flag fs \<Rightarrow> if fl \<in> set fs then Some True else flag_of ob fl h
          | Clear_flag fs \<Rightarrow> if fl \<in> set fs then Some False else flag_of ob fl h
          | _ \<Rightarrow> flag_of ob fl h)
     | _ \<Rightarrow> flag_of ob fl h)"

definition flag_names :: "string list" where
  "flag_names = [''LV_OBJ_FLAG_HIDDEN'', ''LV_OBJ_FLAG_CLICKABLE'', ''LV_OBJ_FLAG_SCROLLABLE'', ''LV_OBJ_FLAG_CLICK_FOCUSABLE'',
     ''LV_OBJ_FLAG_SCROLL_ON_FOCUS'', ''LV_OBJ_FLAG_SCROLL_CHAIN'', ''LV_OBJ_FLAG_PRESS_LOCK'', ''LV_OBJ_FLAG_OVERFLOW_VISIBLE'']"

lemma str_to_lv_obj_flag_None: "str_to_lv_obj_flag n = None \<longleftrightarrow> n \<notin> set flag_names"
  by (simp add: str_to_lv_obj_flag_def flag_names_def)

text \<open>Adding and clearing a flag by name: -1 for an unknown object, -2 for a flag name outside the eight that are known, and
  nothing is called in either case; otherwise the result is 0, the flag is set (or cleared), and no other flag of the object and no
  flag of another object changes.\<close>

theorem flag_ops_spec:
  assumes "objects_ok env u"
  shows "case jetkvm_ui_add_flag generated_index name fl u of (r, u') \<Rightarrow>
    case jetkvm_ui_clear_flag generated_index name fl u of (r', u'') \<Rightarrow> r' = r \<and>
    (if name \<notin> set object_fields then r = -1 \<and> u' = u \<and> u'' = u
     else if fl \<notin> set flag_names then r = -2 \<and> u' = u \<and> u'' = u
     else r = 0 \<and> (\<exists>x. str_to_lv_obj_flag fl = Some x \<and>
       flag_of (objects u name) x (lcalls u') = Some True \<and> flag_of (objects u name) x (lcalls u'') = Some False \<and>
       (\<forall>ob y. (ob, y) \<noteq> (objects u name, x) \<longrightarrow>
          flag_of ob y (lcalls u') = flag_of ob y (lcalls u) \<and> flag_of ob y (lcalls u'') = flag_of ob y (lcalls u))))"
proof -
  have "name \<in> set object_fields \<Longrightarrow> objects u name \<noteq> 0" using assms by (simp add: objects_ok_def)
  then show ?thesis using str_to_lv_obj_flag_None [of fl]
    by (cases "str_to_lv_obj_flag fl")
      (auto simp: jetkvm_ui_add_flag_def jetkvm_ui_clear_flag_def ui_get_obj_generated Let_def)
qed

theorem flag_ops_spec_witness:
  "\<exists>u. jetkvm_ui_init sample_lv generated_index 270 ui_globals = Some u \<and>
     fst (jetkvm_ui_add_flag generated_index ''hdmi_status'' ''LV_OBJ_FLAG_HIDDEN'' u) = 0 \<and>
     fst (jetkvm_ui_clear_flag generated_index ''hdmi_status'' ''HIDDEN'' u) = -2"
proof -
  obtain u where u: "jetkvm_ui_init sample_lv generated_index 270 ui_globals = Some u" "nav_inv sample_lv u"
    using sample_started by blast
  then have o: "objects_ok sample_lv u" by (simp add: nav_inv_def)
  have m: "''hdmi_status'' \<in> set object_fields" "''LV_OBJ_FLAG_HIDDEN'' \<in> set flag_names" "''HIDDEN'' \<notin> set flag_names"
    by (simp_all add: object_fields_def flag_names_def)
  from flag_ops_spec [OF o, of "''hdmi_status''" "''LV_OBJ_FLAG_HIDDEN''"] flag_ops_spec [OF o, of "''hdmi_status''" "''HIDDEN''"] m u(1)
  show ?thesis by (auto split: prod.splits)
qed

section \<open>Variables\<close>

text \<open>Variables by name: reading one of the three settable variables after setting it gives the value, cut to 99 characters (31 for the
  main screen), and the object table is untouched; setting the LVGL version has no effect; an unknown name changes no variable, reports
  an error, and overruns the log buffer exactly when the name is longer than 1004 characters.\<close>

theorem var_by_name:
  assumes "vars_ok (vars u)" "NUL \<notin> set v"
  shows "fst (jetkvm_ui_get_var env generated_index ''app_version'' (jetkvm_ui_set_var generated_index ''app_version'' v u)) = Some (take 99 v) \<and>
    fst (jetkvm_ui_get_var env generated_index ''system_version'' (jetkvm_ui_set_var generated_index ''system_version'' v u)) = Some (take 99 v) \<and>
    fst (jetkvm_ui_get_var env generated_index ''main_screen'' (jetkvm_ui_set_var generated_index ''main_screen'' v u)) = Some (take 31 v) \<and>
    vars (jetkvm_ui_set_var generated_index ''lvgl_version'' v u) = vars u \<and>
    objects (jetkvm_ui_set_var generated_index name v u) = objects u \<and>
    vars_ok (vars (jetkvm_ui_set_var generated_index name v u)) \<and>
    (name \<notin> {''app_version'', ''system_version'', ''lvgl_version'', ''main_screen''} \<longrightarrow>
       vars (jetkvm_ui_set_var generated_index name v u) = vars u \<and>
       fst (jetkvm_ui_get_var env generated_index name u) = None \<and>
       smashed (logs (jetkvm_ui_set_var generated_index name v u)) = (smashed (logs u) \<or> 1004 < length name))"
proof -
  have ne: "app_version (vars u) \<noteq> []" "system_version (vars u) \<noteq> []" "main_screen (vars u) \<noteq> []"
    using assms(1) by (auto simp: vars_ok_def)
  have k: "vars_ok (var_setter x v (vars u))" for x
    using assms(1) ne by (cases x) (simp_all add: var_setter_def var_defs vars_ok_def terminated_copy_var)
  have s: "vars_ok (vars (jetkvm_ui_set_var generated_index name v u))" "objects (jetkvm_ui_set_var generated_index name v u) = objects u"
    using assms(1) k by (simp_all add: jetkvm_ui_set_var_def split: option.split)
  have "get_var_app_version (set_var_app_version v (vars u)) = take 99 v"
    "get_var_system_version (set_var_system_version v (vars u)) = take 99 v"
    "get_var_main_screen (set_var_main_screen v (vars u)) = take 31 v"
    using assms ne by (simp_all add: var_defs cstr_copy_var vars_ok_def)
  then show ?thesis using s
    by (simp add: jetkvm_ui_get_var_def) (simp add: jetkvm_ui_set_var_def generated_index_def var_getter_def var_setter_def
        set_var_lvgl_version_def; linarith)
qed

theorem var_by_name_witness:
  "fst (jetkvm_ui_get_var sample_lv generated_index ''app_version'' (jetkvm_ui_set_var generated_index ''app_version'' ''0.5.1'' ui_globals))
     = Some ''0.5.1''"
proof -
  have "vars_ok (vars ui_globals)" by (simp add: ui_globals_def vars_init_ok)
  moreover have "NUL \<notin> set ''0.5.1''" by (simp add: NUL_def)
  ultimately show ?thesis using var_by_name [of ui_globals "''0.5.1''" sample_lv "''x''"] by simp
qed

end
