(* ===== verification/Ui_Types.thy ===== *)
theory Ui_Types
  imports Ctrl_Ui_Props
begin

text \<open>
  Types of the display objects. LVGL does not check what kind of object a function is given: setting the text of an image
  or the source of a label writes into memory of another layout. Every call has a requirement on the objects it names;
  here the layouts are checked against it statically, and the whole user interface keeps to it at run time.
\<close>

section \<open>The kind of an object\<close>

text \<open>The class and the parent an object was created with. A screen is an object without parent.\<close>

fun info_of :: "lv_env \<Rightarrow> lv_obj \<Rightarrow> lcall list \<Rightarrow> (widget_class \<times> lv_obj) option" where
  "info_of env ob [] = None"
| "info_of env ob (c # h) = (case c of
       Lv_create k p \<Rightarrow> if lptr env (c # h) = ob then Some (k, p) else info_of env ob h
     | _ \<Rightarrow> info_of env ob h)"

definition is_object :: "lv_env \<Rightarrow> lv_obj \<Rightarrow> lcall list \<Rightarrow> bool" where
  "is_object env ob h \<longleftrightarrow> info_of env ob h \<noteq> None"

definition is_class :: "lv_env \<Rightarrow> widget_class \<Rightarrow> lv_obj \<Rightarrow> lcall list \<Rightarrow> bool" where
  "is_class env k ob h \<longleftrightarrow> (\<exists>p. info_of env ob h = Some (k, p))"

definition is_screen :: "lv_env \<Rightarrow> lv_obj \<Rightarrow> lcall list \<Rightarrow> bool" where
  "is_screen env ob h \<longleftrightarrow> (\<exists>k. info_of env ob h = Some (k, 0))"

section \<open>What the calls require\<close>

text \<open>The class an operation needs, if it is not one for all objects.\<close>

fun op_class :: "obj_op \<Rightarrow> widget_class option" where
  "op_class Set_long_dot = Some Label"
| "op_class (Set_src i) = Some Image"
| "op_class (Set_src_name s) = Some Image"
| "op_class (Set_anim_params a b) = Some Spinner"
| "op_class _ = None"

definition call_ok :: "lv_env \<Rightarrow> lcall list \<Rightarrow> lcall \<Rightarrow> bool" where
  "call_ok env h c \<longleftrightarrow> (case c of
       Lv_create k p \<Rightarrow> p = 0 \<or> is_object env p h
     | Lv_obj ob x \<Rightarrow> (case op_class x of None \<Rightarrow> is_object env ob h | Some k \<Rightarrow> is_class env k ob h)
     | Lv_obj_add_style ob _ \<Rightarrow> is_object env ob h
     | Lv_obj_remove_style ob _ \<Rightarrow> is_object env ob h
     | Lv_label_set_text ob _ \<Rightarrow> is_class env Label ob h
     | Lv_label_get_text ob \<Rightarrow> is_class env Label ob h
     | Lv_scr_load ob \<Rightarrow> is_screen env ob h
     | _ \<Rightarrow> True)"

fun calls_ok :: "lv_env \<Rightarrow> lcall list \<Rightarrow> bool" where
  "calls_ok env [] = True"
| "calls_ok env (c # h) = (call_ok env h c \<and> calls_ok env h)"

text \<open>The objects a history knows keep their class.\<close>

lemma info_created: "info_of env ob h = Some i \<Longrightarrow> ob \<in> set (created env h)"
  by (induction h) (auto split: lcall.splits if_splits)

lemma info_append:
  assumes "fresh_objects env" "info_of env ob h = Some i"
  shows "info_of env ob (cs @ h) = Some i"
proof (induction cs)
  case (Cons c cs)
  from info_created [OF Cons] fresh_objectsD(2) [OF assms(1)] have "lptr env (Lv_create k p # cs @ h) \<noteq> ob" for k p by metis
  then show ?case using Cons by (simp split: lcall.split)
qed (simp add: assms(2))

lemma kept_append:
  assumes "fresh_objects env"
  shows "is_object env ob h \<Longrightarrow> is_object env ob (cs @ h)" "is_class env k ob h \<Longrightarrow> is_class env k ob (cs @ h)"
    "is_screen env ob h \<Longrightarrow> is_screen env ob (cs @ h)"
  using info_append [OF assms] by (auto simp: is_object_def is_class_def is_screen_def)

lemma is_class_object: "is_class env k ob h \<Longrightarrow> is_object env ob h"
  by (auto simp: is_class_def is_object_def)

section \<open>Typed runs\<close>

text \<open>From \<open>u\<close> to \<open>u'\<close> only calls were made that meet their requirements.\<close>

definition typed_run :: "lv_env \<Rightarrow> ui \<Rightarrow> ui \<Rightarrow> bool" where
  "typed_run env u u' \<longleftrightarrow> (\<exists>cs. lcalls u' = cs @ lcalls u) \<and> (calls_ok env (lcalls u) \<longrightarrow> calls_ok env (lcalls u'))"

lemma typed_run_refl [simp]: "typed_run env u u"
  by (simp add: typed_run_def)

lemma typed_run_same: "lcalls u' = lcalls u \<Longrightarrow> typed_run env u u'"
  by (simp add: typed_run_def)

lemma typed_run_trans [trans]: "typed_run env u v \<Longrightarrow> typed_run env v w \<Longrightarrow> typed_run env u w"
  by (auto simp: typed_run_def)

lemma typed_run_lrun: "call_ok env (lcalls u) c \<Longrightarrow> typed_run env u (lrun c u)"
  by (simp add: typed_run_def)

lemma typed_run_then: "typed_run env u v \<Longrightarrow> call_ok env (lcalls v) c \<Longrightarrow> typed_run env u (lrun c v)"
  using typed_run_trans typed_run_lrun by blast

lemma typed_run_kept:
  assumes "fresh_objects env" "typed_run env u v"
  shows "is_object env ob (lcalls u) \<Longrightarrow> is_object env ob (lcalls v)" "is_class env k ob (lcalls u) \<Longrightarrow> is_class env k ob (lcalls v)"
    "is_screen env ob (lcalls u) \<Longrightarrow> is_screen env ob (lcalls v)"
  using assms kept_append [OF assms(1)] by (auto simp: typed_run_def)

text \<open>Calls that name no object.\<close>

definition untyped :: "lcall \<Rightarrow> bool" where
  "untyped c \<longleftrightarrow> (\<forall>env h. call_ok env h c)"

lemma untyped_call [simp]: "untyped c \<Longrightarrow> call_ok env h c"
  by (simp add: untyped_def)

lemma untyped_calls [simp]:
  "untyped Lv_style_malloc" "untyped (Lv_style_init s)" "untyped (Lv_style_set s p)" "untyped (Lv_obj_report_style_change s)"
  "untyped Lv_tick_get" "untyped (Lv_tick_elaps n)" "untyped Lv_indev_get_act" "untyped (Lv_indev_wait_release d)"
  "untyped Lv_scr_act" "untyped Lv_disp_get_default" "untyped (Lv_theme_default_init d)" "untyped (Lv_disp_set_theme d t)"
  "untyped Lv_timer_handler" "untyped (Rpc_handler m par)" "untyped Lv_init" "untyped Lv_linux_fbdev_create"
  "untyped (Lv_display_set_resolution d x y)" "untyped (Lv_linux_fbdev_set_file d file)" "untyped (Lv_display_set_rotation d r)"
  "untyped Lv_evdev_discovery_start" "untyped (Lv_evdev_set_calibration d a b x y)"
  by (simp_all add: untyped_def call_ok_def)

section \<open>Styles\<close>

lemma typed_style_set: "typed_run env u (style_set style ps u)"
proof (induction ps arbitrary: u)
  case (Cons p ps)
  have "typed_run env u (lrun (Lv_style_set style p) u)" by (rule typed_run_lrun) simp
  also have "typed_run env \<dots> (style_set style ps \<dots>)" by (rule Cons)
  finally show ?case by (simp add: style_set_def)
qed (simp add: style_set_def)

lemma typed_then_set: "typed_run env u v \<Longrightarrow> typed_run env u (style_set style ps v)"
  using typed_run_trans typed_style_set by blast

lemma typed_init_style_of: "typed_run env u (init_style_of k style u)"
  by (cases k) (simp_all add: init_style_of_def init_style_defs typed_then_set)

lemma typed_get_style_of: "typed_run env u (snd (get_style_of k env u))"
proof (cases "style_ptr u k = 0")
  case True
  let ?s = "lptr env (Lv_style_malloc # lcalls u)"
  let ?v = "(lrun Lv_style_malloc u)\<lparr>style_ptr := (style_ptr u)(k := ?s)\<rparr>"
  have "typed_run env u ?v" by (simp add: typed_run_def)
  also have "typed_run env ?v (lrun (Lv_style_init ?s) ?v)" by (rule typed_run_lrun) simp
  also have "typed_run env \<dots> (init_style_of k ?s \<dots>)" by (rule typed_init_style_of)
  finally show ?thesis using True by (simp add: get_style_of_lazy lazy_style_def lask_def Let_def)
qed (simp add: get_style_of_lazy lazy_style_def)

lemma typed_add_style_of:
  assumes "fresh_objects env" "is_object env ob (lcalls u)"
  shows "typed_run env u (add_style_of k env ob u)"
  using typed_get_style_of [of env u k] typed_run_kept(1) [OF assms(1) typed_get_style_of assms(2)]
  by (simp add: add_style_of_get case_prod_beta typed_run_then call_ok_def)

section \<open>Layouts\<close>

text \<open>The static check: every operation of a block suits the class of its object.\<close>

fun wop_ok :: "widget_class \<Rightarrow> wop \<Rightarrow> bool" where
  "wop_ok k (Op x) = (case op_class x of None \<Rightarrow> True | Some k' \<Rightarrow> k = k')"
| "wop_ok k (Style s) = True"
| "wop_ok k (Text t) = (k = Label)"

fun widget_ok :: "widget \<Rightarrow> bool" and widgets_ok :: "widget list \<Rightarrow> bool" where
  "widget_ok (Widget k f ops children) = (list_all (wop_ok k) ops \<and> widgets_ok children)"
| "widgets_ok [] = True"
| "widgets_ok (w # ws) = (widget_ok w \<and> widgets_ok ws)"

text \<open>The class of every named object.\<close>

fun classes_of :: "widget \<Rightarrow> (string \<times> widget_class) list" and classes_of_all :: "widget list \<Rightarrow> (string \<times> widget_class) list" where
  "classes_of (Widget k f ops children) = (case f of None \<Rightarrow> [] | Some n \<Rightarrow> [(n, k)]) @ classes_of_all children"
| "classes_of_all [] = []"
| "classes_of_all (w # ws) = classes_of w @ classes_of_all ws"

lemma fields_of_classes: "map fst (classes_of w) = fields_of w" "map fst (classes_of_all ws) = fields_of_all ws"
  by (induction w and ws rule: classes_of_classes_of_all.induct) (auto split: option.splits)

definition have_classes :: "lv_env \<Rightarrow> (string \<times> widget_class) list \<Rightarrow> ui \<Rightarrow> bool" where
  "have_classes env cs u \<longleftrightarrow> (\<forall>(f, k)\<in>set cs. is_class env k (objects u f) (lcalls u))"

lemma have_classes_append: "have_classes env (cs @ ds) u \<longleftrightarrow> have_classes env cs u \<and> have_classes env ds u"
  by (auto simp: have_classes_def)

lemma have_classesD: "have_classes env cs u \<Longrightarrow> (f, k) \<in> set cs \<Longrightarrow> is_class env k (objects u f) (lcalls u)"
  by (auto simp: have_classes_def)

lemma have_classes_run:
  assumes "fresh_objects env" "typed_run env u v" "have_classes env cs u" "\<forall>f\<in>fst ` set cs. objects v f = objects u f"
  shows "have_classes env cs v"
  using assms(3,4) typed_run_kept(2) [OF assms(1,2)] by (force simp: have_classes_def)

lemma typed_run_wop:
  assumes "fresh_objects env" "is_class env k ob (lcalls u)" "wop_ok k w"
  shows "typed_run env u (run_wop env ob w u)"
proof (cases w)
  case (Op x)
  with assms(2,3) is_class_object [OF assms(2)] show ?thesis
    by (simp add: run_wop_def typed_run_lrun call_ok_def split: option.splits)
qed (use assms typed_add_style_of [OF assms(1) is_class_object [OF assms(2)]] in
      \<open>simp_all add: run_wop_def typed_run_lrun call_ok_def\<close>)

lemma typed_run_wops:
  assumes "fresh_objects env"
  shows "is_class env k ob (lcalls u) \<Longrightarrow> list_all (wop_ok k) ws \<Longrightarrow> typed_run env u (fold (run_wop env ob) ws u)"
proof (induction ws arbitrary: u)
  case (Cons w ws)
  then have t: "typed_run env u (run_wop env ob w u)" by (intro typed_run_wop [OF assms Cons(2)]) simp
  from typed_run_kept(2) [OF assms t Cons(2)] Cons have "typed_run env (run_wop env ob w u) (fold (run_wop env ob) ws (run_wop env ob w u))"
    by simp
  with t show ?case using typed_run_trans by simp
qed simp

text \<open>The start of a block: the object is created, stored, and its operations run.\<close>

lemma typed_create:
  fixes f :: "string option" and u :: ui
  assumes "fresh_objects env" "p = 0 \<or> is_object env p (lcalls u)" "list_all (wop_ok k) ops"
  defines "ob \<equiv> lptr env (Lv_create k p # lcalls u)"
  defines "v \<equiv> fold (run_wop env ob) ops (set_object f ob (lrun (Lv_create k p) u))"
  shows "typed_run env u v \<and> info_of env ob (lcalls v) = Some (k, p) \<and> objects v = objects (set_object f ob u)"
proof -
  let ?c = "set_object f ob (lrun (Lv_create k p) u)"
  have c: "typed_run env u ?c" "info_of env ob (lcalls ?c) = Some (k, p)"
    using assms(2) by (simp_all add: typed_run_def set_object_frame call_ok_def ob_def)
  then have t: "typed_run env ?c v" unfolding v_def using assms(3) by (intro typed_run_wops [OF assms(1)]) (auto simp: is_class_def)
  then have "info_of env ob (lcalls v) = Some (k, p)" using c(2) info_append [OF assms(1)] by (auto simp: typed_run_def)
  moreover have "objects v = objects (set_object f ob u)"
    by (simp add: v_def run_wops_frame) (simp add: set_object_def split: option.split)
  ultimately show ?thesis using typed_run_trans [OF c(1) t] by blast
qed

lemma build_frame:
  assumes "fresh_objects env"
  shows "distinct (fields_of w) \<Longrightarrow> f \<notin> set (fields_of w) \<Longrightarrow> objects (build env p w u) f = objects u f"
    "distinct (fields_of_all ws) \<Longrightarrow> f \<notin> set (fields_of_all ws) \<Longrightarrow> objects (build_all env p ws u) f = objects u f"
  using assigns_build(1) [OF assms, of w u p] assigns_build(2) [OF assms, of ws u p] unfolding assigns_def by blast+

lemma typed_build:
  "fresh_objects env \<Longrightarrow> p = 0 \<or> is_object env p (lcalls u) \<Longrightarrow> widget_ok w \<Longrightarrow> distinct (fields_of w) \<Longrightarrow>
     typed_run env u (build env p w u) \<and> have_classes env (classes_of w) (build env p w u)"
  "fresh_objects env \<Longrightarrow> p = 0 \<or> is_object env p (lcalls u) \<Longrightarrow> widgets_ok ws \<Longrightarrow> distinct (fields_of_all ws) \<Longrightarrow>
     typed_run env u (build_all env p ws u) \<and> have_classes env (classes_of_all ws) (build_all env p ws u)"
proof (induction env p w u and env p ws u rule: build_build_all.induct)
  case (1 env p k f ops children u)
  let ?ob = "lptr env (Lv_create k p # lcalls u)"
  let ?v = "fold (run_wop env ?ob) ops (set_object f ?ob (lrun (Lv_create k p) u))"
  let ?w = "build_all env ?ob children ?v"
  have b: "build env p (Widget k f ops children) u = ?w" by (simp add: lask_def)
  have v: "typed_run env u ?v" "info_of env ?ob (lcalls ?v) = Some (k, p)" "objects ?v = objects (set_object f ?ob u)"
    using typed_create [OF 1(2,3), of k ops f] 1(4) by simp_all
  then have "is_object env ?ob (lcalls ?v)" by (simp add: is_object_def)
  moreover have d: "distinct (fields_of_all children)" using 1(5) by simp
  ultimately have w: "typed_run env ?v ?w" "have_classes env (classes_of_all children) ?w"
    using 1(1) [of ?ob "lrun (Lv_create k p) u"] 1(2,4) by (simp_all add: lask_def)
  have "have_classes env (case f of None \<Rightarrow> [] | Some n \<Rightarrow> [(n, k)]) ?w"
  proof (cases f)
    case (Some n)
    then have "n \<notin> set (fields_of_all children)" using 1(5) by simp
    from build_frame(2) [OF 1(2) d this, of ?ob ?v] v(3) Some have "objects ?w n = ?ob" by (simp add: set_object_def)
    moreover have "is_class env k ?ob (lcalls ?w)" using v(2) by (intro typed_run_kept(2) [OF 1(2) w(1)]) (simp add: is_class_def)
    ultimately show ?thesis using Some by (simp add: have_classes_def)
  qed (simp add: have_classes_def)
  with typed_run_trans [OF v(1) w(1)] w(2) show ?case unfolding b by (simp add: have_classes_append)
next
  case (2 env p u)
  show ?case by (simp add: have_classes_def)
next
  case (3 env p w ws u)
  let ?v = "build env p w u"
  let ?w = "build_all env p ws ?v"
  have v: "typed_run env u ?v" "have_classes env (classes_of w) ?v" using 3 by simp_all
  have d: "distinct (fields_of_all ws)" "set (fields_of w) \<inter> set (fields_of_all ws) = {}" using 3(6) by simp_all
  have "p = 0 \<or> is_object env p (lcalls ?v)" using 3(4) typed_run_kept(1) [OF 3(3) v(1)] by blast
  then have w: "typed_run env ?v ?w" "have_classes env (classes_of_all ws) ?w" using 3(2) [OF 3(3)] 3(5) d(1) by simp_all
  have "have_classes env (classes_of w) ?w"
    using build_frame(2) [OF 3(3) d(1), of _ p ?v] d(2) fields_of_classes(1) [of w]
    by (intro have_classes_run [OF 3(3) w(1) v(2)]) (metis disjoint_iff image_set)
  with typed_run_trans [OF v(1) w(1)] w(2) show ?case by (simp add: have_classes_append)
qed

section \<open>All screens\<close>

lemma map_classes_of_layouts: "map classes_of layouts = [
     [(''boot_screen'', Obj), (''boot_logo'', Image), (''boot_screen_version'', Label)],
     [(''no_network_screen'', Obj), (''no_network_header_container'', Obj), (''no_network_header_logo'', Image),
       (''no_network_content_container'', Obj), (''no_network_title'', Label), (''home_info_ipv6_addr_1'', Label)],
     [(''home_screen'', Obj), (''home_header_container'', Obj), (''home_header_logo'', Image),
       (''cloud_status_icon'', Image), (''cloud_status_label'', Label), (''home_info_container'', Obj),
       (''home_info_ipv4_addr'', Label), (''home_info_ipv6_addr'', Label), (''home_info_mac_addr'', Label),
       (''divider'', Obj), (''home_status_container'', Obj), (''usb_status'', Obj), (''usb_indicator'', Obj),
       (''usb_status_label'', Label), (''hdmi_status'', Obj), (''hdmi_indicator'', Obj), (''hdmi_status_label'', Label)],
     [(''menu_screen'', Obj), (''menu_header_container'', Obj), (''menu_items_container'', Obj),
       (''menu_btn_status'', Button), (''menu_btn_network'', Button), (''menu_btn_access'', Button),
       (''menu_btn_advanced'', Button), (''menu_btn_about'', Button)],
     [(''menu_advanced_screen'', Obj), (''menu_header_container_1'', Obj), (''menu_items_container_1'', Obj),
       (''menu_btn_advanced_developer_mode'', Button), (''menu_btn_advanced_usb_emulation'', Button),
       (''menu_btn_advanced_reboot'', Button), (''menu_btn_dhcp_client'', Button),
       (''menu_btn_advanced_reset_config'', Button)],
     [(''menu_network_screen'', Obj), (''menu_header_container_2'', Obj), (''menu_items_container_2'', Obj),
       (''menu_btn_network_ipv4'', Button), (''menu_btn_network_ipv6'', Button), (''menu_btn_network_lldp'', Button)],
     [(''about_screen'', Obj), (''about_header_container'', Obj), (''about_items_container'', Obj),
       (''system_version_container'', Obj), (''system_version'', Label), (''app_version_container'', Obj),
       (''app_version'', Label), (''build_branch_container'', Obj), (''build_branch'', Label),
       (''build_date_container'', Obj), (''build_date'', Label), (''golang_version_container'', Obj),
       (''golang_version'', Label), (''lvgl_version_container'', Obj), (''lvgl_version'', Label),
       (''kernel_version_container'', Obj), (''kernel_version'', Label), (''cpu_serial_container'', Obj),
       (''cpu_serial'', Label)],
     [(''status_screen'', Obj), (''status_header_container'', Obj), (''status_items_container'', Obj),
       (''device_id_container'', Obj), (''device_id'', Label), (''cloud_account_id_container'', Obj),
       (''app_version_1'', Label), (''cloud_domain_container'', Obj), (''cloud_domain'', Label)],
     [(''reset_config_screen'', Obj), (''reset_config_header'', Obj), (''reset_config_container'', Obj),
       (''reset_config_label_container'', Obj), (''reset_config_label'', Label), (''reset_config_spinner'', Obj),
       (''reset_config_button'', Obj), (''obj0'', Button)],
     [(''reboot_screen'', Obj), (''reboot_header'', Obj), (''reboot_container'', Obj), (''reboot_label_container'', Obj),
       (''reboot_label'', Label), (''reboot_config_button'', Obj), (''obj1'', Button)],
     [(''rebooting_screen'', Obj), (''reboot_in_progress_logo'', Image), (''reboot_in_progress_label'', Label)],
     [(''switch_dhcp_client_screen'', Obj), (''dhcp_client_header'', Obj), (''dhcp_client_container'', Obj),
       (''dhcp_client_label_container'', Obj), (''dhcpc_label'', Label), (''dhcp_client_spinner'', Obj),
       (''dhcp_client_button'', Obj), (''obj2'', Button), (''dhcp_client_change_label'', Label)]]"
  by (simp only: layouts_def layout_defs classes_of.simps classes_of_all.simps list.map option.case append.simps append_Nil2)

lemma layouts_ok: "widgets_ok layouts"
  by (simp only: layouts_def layout_defs widget_ok.simps widgets_ok.simps list.pred_inject wop_ok.simps op_class.simps
      option.case simp_thms)

definition field_classes :: "(string \<times> widget_class) list" where
  "field_classes = classes_of_all layouts"

lemma classes_of_all_concat: "classes_of_all ws = concat (map classes_of ws)"
  by (induction ws) auto

lemma field_classes_names: "map fst field_classes = fields_of_all layouts"
  by (simp add: field_classes_def fields_of_classes)

text \<open>A tick suits a screen when it meets its requirements wherever the objects of that screen have their classes.\<close>

definition tick_ok :: "lv_env \<Rightarrow> widget \<Rightarrow> (lv_env \<Rightarrow> ui \<Rightarrow> ui) \<Rightarrow> bool" where
  "tick_ok env w tick \<longleftrightarrow> tick \<in> set tick_screen_funcs \<and> (\<forall>u. have_classes env (classes_of w) u \<longrightarrow> typed_run env u (tick env u))"

lemma typed_tick_label:
  assumes "is_class env Label (objects u f) (lcalls u)"
  shows "typed_run env u (tick_label env f v u)"
  using assms by (auto simp: tick_label_def Let_def typed_run_def call_ok_def is_class_def)

fun root_field :: "widget \<Rightarrow> string option" where
  "root_field (Widget k f ops children) = f"

lemma build_root:
  assumes "fresh_objects env" "widget_ok w" "distinct (fields_of w)" "root_field w = Some f"
  shows "is_screen env (objects (build env 0 w u) f) (lcalls (build env 0 w u))"
proof (cases w)
  case (Widget k f' ops children)
  let ?ob = "lptr env (Lv_create k 0 # lcalls u)"
  let ?v = "fold (run_wop env ?ob) ops (set_object f' ?ob (lrun (Lv_create k 0) u))"
  have w: "widgets_ok children" "distinct (fields_of_all children)" "f' = Some f" "f \<notin> set (fields_of_all children)"
    using assms(2-4) Widget by auto
  have v: "info_of env ?ob (lcalls ?v) = Some (k, 0)" "objects ?v f = ?ob"
    using typed_create [OF assms(1), of 0 u k ops f'] assms(2) Widget w(3) by (simp_all add: set_object_def)
  have "typed_run env ?v (build_all env ?ob children ?v)"
    using v(1) w(1,2) by (intro conjunct1 [OF typed_build(2) [OF assms(1)]]) (simp_all add: is_object_def)
  from typed_run_kept(3) [OF assms(1) this, of ?ob] v(1) have "is_screen env ?ob (lcalls (build_all env ?ob children ?v))"
    by (simp add: is_screen_def)
  then show ?thesis using build_frame(2) [OF assms(1) w(2,4), of ?ob ?v] v(2) Widget by (simp add: lask_def)
qed

lemma create_all_typed:
  assumes "fresh_objects env"
  shows "distinct (fields_of_all (map fst wts)) \<Longrightarrow> \<forall>(w, t)\<in>set wts. widget_ok w \<and> tick_ok env w t \<Longrightarrow>
    typed_run env u (create_all env wts u) \<and> have_classes env (classes_of_all (map fst wts)) (create_all env wts u) \<and>
    (\<forall>w\<in>fst ` set wts. \<forall>f. root_field w = Some f \<longrightarrow>
       is_screen env (objects (create_all env wts u) f) (lcalls (create_all env wts u)))"
proof (induction wts arbitrary: u)
  case Nil
  then show ?case by (simp add: have_classes_def)
next
  case (Cons wt wts)
  obtain w t where wt: "wt = (w, t)" by (cases wt)
  let ?b = "build env 0 w u" and ?v = "t env (build env 0 w u)"
  let ?e = "create_all env wts ?v"
  have c: "widget_ok w" "tick_ok env w t" "distinct (fields_of w)" "distinct (fields_of_all (map fst wts))"
    "set (fields_of w) \<inter> set (fields_of_all (map fst wts)) = {}" using Cons(2,3) by (auto simp: wt)
  then have tick: "t \<in> set tick_screen_funcs" by (simp add: tick_ok_def)
  have b: "typed_run env u ?b" "have_classes env (classes_of w) ?b" using typed_build(1) [OF assms _ c(1,3), of 0 u] by simp_all
  have v: "typed_run env ?b ?v" "objects ?v = objects ?b" using b(2) c(2) tick_frame [OF tick] by (simp_all add: tick_ok_def)
  have e: "typed_run env ?v ?e" "have_classes env (classes_of_all (map fst wts)) ?e"
    "\<forall>w\<in>fst ` set wts. \<forall>f. root_field w = Some f \<longrightarrow> is_screen env (objects ?e f) (lcalls ?e)"
    using Cons(1) [of ?v] c(4) Cons(3) by auto
  have "snd ` set wts \<subseteq> set tick_screen_funcs" using Cons(3) by (auto simp: tick_ok_def)
  from assigns_create_all [OF assms c(4) this, of ?v] have f: "\<forall>f. f \<notin> set (fields_of_all (map fst wts)) \<longrightarrow> objects ?e f = objects ?v f"
    unfolding assigns_def by blast
  then have k: "\<forall>f\<in>set (fields_of w). objects ?e f = objects ?b f" using c(5) v(2) by auto
  note be = typed_run_trans [OF v(1) e(1)]
  have "have_classes env (classes_of w) ?e"
    using k fields_of_classes(1) [of w] by (intro have_classes_run [OF assms be b(2)]) (metis image_set)
  moreover have "is_screen env (objects ?e f) (lcalls ?e)" if r: "root_field w = Some f" for f
  proof -
    have "f \<in> set (fields_of w)" using r by (cases w) simp
    with k have "objects ?e f = objects ?b f" by blast
    with typed_run_kept(3) [OF assms be build_root [OF assms c(1,3) r]] show ?thesis by simp
  qed
  ultimately show ?case using typed_run_trans [OF b(1) be] e(2,3) by (auto simp: wt have_classes_append)
qed

lemma bound_labels:
  "(''boot_screen_version'', Label) \<in> set (classes_of layout_boot_screen)"
  "(''system_version'', Label) \<in> set (classes_of layout_about_screen)"
  "(''app_version'', Label) \<in> set (classes_of layout_about_screen)"
  "(''lvgl_version'', Label) \<in> set (classes_of layout_about_screen)"
  using map_classes_of_layouts by (simp_all add: layouts_def)

lemma typed_tick_about:
  assumes "fresh_objects env" "have_classes env (classes_of layout_about_screen) u"
  shows "typed_run env u (tick_screen_about_screen env u)"
proof -
  let ?a = "tick_label env ''system_version'' (get_var_system_version (vars u)) u"
  let ?b = "tick_label env ''app_version'' (get_var_app_version (vars ?a)) ?a"
  let ?c = "?b\<lparr>vars := snd (get_var_lvgl_version env (vars ?b))\<rparr>"
  have a: "typed_run env u ?a" by (intro typed_tick_label have_classesD [OF assms(2)] bound_labels)
  then have ca: "have_classes env (classes_of layout_about_screen) ?a"
    by (intro have_classes_run [OF assms(1) a assms(2)]) (simp add: tick_label_frame)
  have b: "typed_run env ?a ?b" by (intro typed_tick_label have_classesD [OF ca] bound_labels)
  then have cb: "have_classes env (classes_of layout_about_screen) ?b"
    by (intro have_classes_run [OF assms(1) b ca]) (simp add: tick_label_frame)
  then have cc: "have_classes env (classes_of layout_about_screen) ?c" by (simp add: have_classes_def)
  have "typed_run env ?b ?c" by (rule typed_run_same) simp
  moreover have "typed_run env ?c (tick_label env ''lvgl_version'' (fst (get_var_lvgl_version env (vars ?b))) ?c)"
    by (intro typed_tick_label have_classesD [OF cc] bound_labels)
  ultimately have "typed_run env u (tick_label env ''lvgl_version'' (fst (get_var_lvgl_version env (vars ?b))) ?c)"
    using typed_run_trans [OF a b] typed_run_trans by blast
  then show ?thesis unfolding tick_screen_about_screen_def Let_def case_prod_beta .
qed

lemma ticks_ok:
  assumes "fresh_objects env"
  shows "\<forall>(w, t)\<in>set (zip layouts tick_screen_funcs). tick_ok env w t"
proof -
  have "tick_ok env layout_boot_screen tick_screen_boot_screen"
    by (auto simp: tick_ok_def tick_screen_funcs_def tick_screen_boot_screen_def intro!: typed_tick_label have_classesD bound_labels)
  moreover have "tick_ok env layout_about_screen tick_screen_about_screen"
    by (simp add: tick_ok_def typed_tick_about [OF assms]) (simp add: tick_screen_funcs_def)
  ultimately show ?thesis
    by (simp add: layouts_def tick_screen_funcs_def) (simp add: tick_ok_def tick_screen_funcs_def tick_defs)
qed

lemma widgets_ok_all: "widgets_ok ws \<Longrightarrow> w \<in> set ws \<Longrightarrow> widget_ok w"
  by (induction ws) auto

section \<open>The typed states of the user interface\<close>

definition ui_typed :: "lv_env \<Rightarrow> ui \<Rightarrow> bool" where
  "ui_typed env u \<longleftrightarrow> calls_ok env (lcalls u) \<and> have_classes env field_classes u \<and>
     (\<forall>i < 12. is_screen env (objects u (object_fields ! i)) (lcalls u))"

lemma ui_typed_run:
  assumes "fresh_objects env" "ui_typed env u" "typed_run env u u'" "objects u' = objects u"
  shows "ui_typed env u'"
  using assms(2) typed_run_kept(3) [OF assms(1,3)] have_classes_run [OF assms(1,3), of field_classes] assms(3,4)
  by (simp add: ui_typed_def typed_run_def)

lemma layout_roots: "map root_field layouts = map Some (take 12 object_fields)"
  by (simp add: layouts_def layout_defs object_fields_def)

lemma create_screens_typed:
  assumes "fresh_objects env" "calls_ok env (lcalls u)"
  shows "ui_typed env (create_screens env u)"
proof -
  let ?z = "zip layouts tick_screen_funcs"
  let ?d = "lptr env (Lv_disp_get_default # lcalls u)"
  let ?t = "lptr env (Lv_theme_default_init ?d # Lv_disp_get_default # lcalls u)"
  let ?v = "lrun (Lv_disp_set_theme ?d ?t) (lrun (Lv_theme_default_init ?d) (lrun Lv_disp_get_default u))"
  have z: "map fst ?z = layouts" by (simp add: layouts_def tick_screen_funcs_def)
  have e: "create_screens env u = create_all env ?z ?v" by (simp add: create_screens_all Let_def)
  have w: "widget_ok w \<and> tick_ok env w t" if "(w, t) \<in> set ?z" for w t
    using set_zip_leftD [OF that] widgets_ok_all [OF layouts_ok] ticks_ok [OF assms(1)] that by blast
  have c: "typed_run env ?v (create_screens env u)" "have_classes env field_classes (create_screens env u)"
    "\<forall>w\<in>set layouts. \<forall>f. root_field w = Some f \<longrightarrow>
       is_screen env (objects (create_screens env u) f) (lcalls (create_screens env u))"
    using create_all_typed [OF assms(1), of ?z ?v] fields_of_layouts(1) w z unfolding e field_classes_def
    by (auto simp: list.set_map [symmetric] simp del: list.set_map)
  have "is_screen env (objects (create_screens env u) (object_fields ! i)) (lcalls (create_screens env u))" if "i < 12" for i
  proof -
    have "map root_field layouts ! i = Some (object_fields ! i)" using that by (simp add: layout_roots length_object_fields)
    moreover have "i < length layouts" using that by (simp add: layouts_def)
    ultimately show ?thesis using bspec [OF c(3) nth_mem] by simp
  qed
  moreover have "calls_ok env (lcalls ?v)" using assms(2) by simp
  ultimately show ?thesis using c(1,2) by (auto simp: ui_typed_def typed_run_def)
qed

lemma typed_load:
  assumes "ui_typed env u" "loadScreen i u = Some u'" "1 \<le> i" "i \<le> 12"
  shows "typed_run env u u'"
  using loadScreen_ok [OF assms(3,4), of u] assms
  by (auto simp: typed_run_def ui_typed_def call_ok_def)

lemma typed_gesture:
  assumes "fresh_objects env" "ui_typed env u" "handle_gesture_screen_switch env e d i u = Some (r, u')" "1 \<le> i" "i \<le> 12"
  shows "typed_run env u u'"
proof -
  let ?v = "lrun Lv_indev_get_act u"
  let ?w = "lrun (Lv_indev_wait_release (lptr env (Lv_indev_get_act # lcalls ?v))) (lrun Lv_indev_get_act ?v)"
  have v: "typed_run env u ?v" and w: "typed_run env u ?w"
    by (simp_all add: typed_run_def)
  from ui_typed_run [OF assms(1,2) w] have "ui_typed env ?w" by simp
  from typed_load [OF this _ assms(4,5)] have "loadScreen i ?w = Some u' \<Longrightarrow> typed_run env u u'"
    using typed_run_trans [OF w] by blast
  then show ?thesis using assms(3) v by (auto simp: handle_gesture_screen_switch_def lask_def split: if_splits)
qed

lemma typed_rpc: "typed_run env u (ui_call_rpc_handler m par u)"
  by (simp add: ui_call_rpc_handler_def jetkvm_call_rpc_handler_def typed_run_def)

lemma typed_set_hold: "typed_run env u (set_hold i f v) = typed_run env u v"
  by (simp add: typed_run_def set_hold_def)

lemma typed_hold_fire:
  assumes "button_obj c \<noteq> 0 \<longrightarrow> is_object env (button_obj c) (lcalls v)" "spinner_obj c \<noteq> 0 \<longrightarrow> is_object env (spinner_obj c) (lcalls v)"
  shows "typed_run env v (hold_fire c v)"
proof (cases "lock (holds v (slot c))")
  case False
  let ?w = "if button_obj c \<noteq> 0 \<and> spinner_obj c \<noteq> 0
    then lrun (Lv_obj (spinner_obj c) (Clear_flag [LV_OBJ_FLAG_HIDDEN])) (lrun (Lv_obj (button_obj c) (Add_flag [LV_OBJ_FLAG_HIDDEN])) v)
    else v"
  have "typed_run env v ?w" using assms by (simp add: typed_run_def call_ok_def is_object_def)
  from typed_run_trans [OF this typed_rpc] show ?thesis using False by (simp only: hold_fire_def Let_def if_False typed_set_hold)
qed (simp add: hold_fire_def)

lemma typed_hold:
  assumes "is_class env Label (label_obj c) (lcalls u)"
    and "button_obj c \<noteq> 0 \<longrightarrow> is_object env (button_obj c) (lcalls u)" "spinner_obj c \<noteq> 0 \<longrightarrow> is_object env (spinner_obj c) (lcalls u)"
  shows "typed_run env u (handle_hold_action env e c u)"
proof -
  let ?v = "lrun (Lv_tick_elaps (start_time (holds u (slot c)))) u"
  have v: "typed_run env u ?v" by (rule typed_run_lrun) simp
  have "typed_run env ?v (hold_fire c ?v)" using assms(2,3) by (intro typed_hold_fire) (simp_all add: is_object_def)
  note fire = typed_run_trans [OF v this]
  have "typed_run env (set_hold i f ?v) (lrun (Lv_label_set_text (label_obj c) t) (set_hold i f ?v))" for i f t
    using assms(1) by (simp add: typed_run_def call_ok_def set_hold_def is_class_def)
  note press = typed_run_trans [OF _ this, unfolded typed_set_hold, OF v]
  have release: "typed_run env u (lrun (Lv_label_set_text (label_obj c) t) (set_hold i f u))"
    "typed_run env u (lrun (Lv_label_set_text (label_obj c) t) u)" for i f t
    using assms(1) by (simp_all add: typed_run_def call_ok_def set_hold_def)
  consider "e = LV_EVENT_PRESSED" | "e = LV_EVENT_PRESSING" | "e = LV_EVENT_RELEASED"
    | "e \<notin> {LV_EVENT_PRESSED, LV_EVENT_PRESSING, LV_EVENT_RELEASED}" by blast
  then show ?thesis
  proof cases
    case 1
    have "typed_run env u (lrun Lv_tick_get u)" by (rule typed_run_lrun) simp
    then show ?thesis using 1 by (simp add: handle_hold_action_def Let_def typed_set_hold)
  next
    case 2
    then show ?thesis using fire press by (simp add: handle_hold_action_def Let_def)
  next
    case 3
    then show ?thesis using release by (simp add: handle_hold_action_def Let_def typed_set_hold)
  qed (simp add: handle_hold_action_def)
qed

end
