(* ===== verification/Ui_Session.thy ===== *)
theory Ui_Session
  imports Ui_Types
begin

text \<open>
  A session of the user interface: initialisation, then any sequence of touches, ticks and calls by object name. Along
  every session whose calls by name respect the class of the named object, every call of LVGL meets its requirement.
\<close>

section \<open>Callbacks and ticks\<close>

lemma ui_typed_named:
  assumes "ui_typed env u" "(f, k) \<in> set field_classes"
  shows "is_class env k (objects u f) (lcalls u)"
  using assms have_classesD by (auto simp: ui_typed_def)

lemma field_classes_mem:
  "(''reset_config_label'', Label) \<in> set field_classes" "(''reset_config_button'', Obj) \<in> set field_classes"
  "(''reset_config_spinner'', Obj) \<in> set field_classes" "(''dhcpc_label'', Label) \<in> set field_classes"
  "(''reboot_label'', Label) \<in> set field_classes" "(''boot_screen_version'', Label) \<in> set field_classes"
  "(''system_version'', Label) \<in> set field_classes" "(''app_version'', Label) \<in> set field_classes"
  "(''lvgl_version'', Label) \<in> set field_classes"
  unfolding field_classes_def classes_of_all_concat map_classes_of_layouts by (simp_all del: list.map)

lemma typed_holds:
  assumes "ui_typed env u"
  shows "typed_run env u (action_reset_config env e u)" "typed_run env u (action_dhcpc env e u)"
    "typed_run env u (action_reboot env e u)"
proof -
  note n = field_classes_mem [THEN ui_typed_named [OF assms]]
  with is_class_object [OF n(2)] is_class_object [OF n(3)]
  show "typed_run env u (action_reset_config env e u)" "typed_run env u (action_dhcpc env e u)"
    "typed_run env u (action_reboot env e u)"
    by (simp_all add: hold_defs reset_config_of_def dhcpc_of_def reboot_of_def typed_hold)
qed

lemma typed_main_gesture:
  assumes "ui_typed env u" "handle_gesture_main_screen_switch e d u = Some u'"
  shows "typed_run env u u'"
  using assms(2) typed_load [OF assms(1), of SCREEN_ID_HOME_SCREEN] typed_load [OF assms(1), of SCREEN_ID_NO_NETWORK_SCREEN]
  by (auto simp: handle_gesture_main_screen_switch_def Let_def screen_id_defs split: if_splits)

lemma typed_action:
  assumes "fresh_objects env" "ui_typed env u" "run_action a env e u = Some u'"
  shows "typed_run env u u'"
proof -
  note l = typed_load [OF assms(2)] and g = typed_gesture [OF assms(1,2)] and m = typed_main_gesture [OF assms(2)]
  show ?thesis using assms(3) typed_holds [OF assms(2)]
    by (cases a) (auto simp: run_action_def switch_defs gesture_defs screen_id_defs elim: l m g)
qed

lemma typed_tick:
  assumes "fresh_objects env" "ui_typed env u" "tick \<in> set tick_screen_funcs"
  shows "typed_run env u (tick env u)"
proof -
  have "length layouts = length tick_screen_funcs" by (simp add: layouts_def tick_screen_funcs_def)
  with assms(3) obtain w where w: "(w, tick) \<in> set (zip layouts tick_screen_funcs)" by (metis in_set_impl_in_set_zip2)
  then have "set (classes_of w) \<subseteq> set field_classes"
    unfolding field_classes_def classes_of_all_concat by (auto dest: set_zip_leftD)
  then have "have_classes env (classes_of w) u" using assms(2) by (auto simp: ui_typed_def have_classes_def)
  with ticks_ok [OF assms(1)] w show ?thesis by (auto simp: tick_ok_def)
qed

lemma typed_ui_tick:
  assumes "fresh_objects env" "ui_typed env u" "ui_tick env u = Some u'"
  shows "typed_run env u u' \<and> objects u' = objects u"
proof -
  let ?t = "tick_screen_funcs ! nat (currentScreen u)"
  from assms(3) have r: "u' = ?t env u" "?t \<in> set tick_screen_funcs"
    by (auto simp: ui_tick_def tick_screen_def split: if_splits)
  with typed_tick [OF assms(1,2) r(2)] tick_frame [OF r(2), of env u] show ?thesis by simp
qed

lemma ui_step_typed:
  assumes "fresh_objects env" "ui_typed env u" "ui_step env u u'"
  shows "ui_typed env u'"
  using assms(3)
proof (rule ui_stepE)
  fix a e
  assume a: "run_action a env e u = Some u'"
  with run_action_nav [of env a u e] have "objects u' = objects u" by (auto simp: nav_to_def nav_effect_def)
  with typed_action [OF assms(1,2) a] show ?thesis by (rule ui_typed_run [OF assms(1,2)])
qed (use typed_ui_tick [OF assms(1,2)] ui_typed_run [OF assms(1,2)] in blast)

section \<open>Rotation and initialisation\<close>

lemma typed_calibration: "typed_run env u (apply_touch_calibration u)"
  by (simp add: apply_touch_calibration_def slog_def typed_run_def)

lemma typed_slog [simp]: "typed_run env u (slog f v) = typed_run env u v"
  by (simp add: typed_run_def slog_def)

lemma typed_display_rotation: "typed_run env u (set_display_rotation d r u)"
  by (simp add: set_display_rotation_def typed_run_lrun)

lemma typed_rotate: "typed_run env u (rotate_display disp_ref r u)"
proof -
  let ?a = "slog (log_info ''screen.c'' ''lvgl_set_rotation'' 118 (''setting rotation to '' @ fmt_d (uint r))) u"
  let ?b = "(set_display_rotation (display_ref disp_ref u) r ?a)\<lparr>current_rotation := r\<rparr>"
  have "typed_run env u ?a" by simp
  also have "typed_run env ?a ?b" using typed_display_rotation [of env ?a] by (simp add: typed_run_def)
  also have "typed_run env ?b (apply_touch_calibration ?b)" by (rule typed_calibration)
  finally show ?thesis by (simp add: rotate_display_def Let_def)
qed

lemma typed_ui_get_style: "typed_run env u (snd (ui_get_style env idx name u))"
  by (simp add: ui_get_style_def typed_get_style_of split: option.split)

lemma typed_set_rotation: "typed_run env u (lvgl_set_rotation env idx disp_ref r u)"
proof -
  let ?c = "rotate_display disp_ref r u"
  obtain fs e where e: "ui_get_style env idx ''flex_screen'' ?c = (fs, e)" by fastforce
  obtain fsm g where g: "ui_get_style env idx ''flex_screen_menu'' e = (fsm, g)" by fastforce
  have "typed_run env ?c e" "typed_run env e g" "typed_run env g (set_rotation_pads fs fsm r g)"
    using typed_ui_get_style [of env ?c idx "''flex_screen''"] typed_ui_get_style [of env e idx "''flex_screen_menu''"] e g
    by (simp_all add: set_rotation_pads_def typed_then_set)
  then have h: "typed_run env u e" "typed_run env u g" "typed_run env u (set_rotation_pads fs fsm r g)"
    using typed_rotate [of env u disp_ref r] typed_run_trans by blast+
  then have "typed_run env u (lrun (Lv_obj_report_style_change fsm) (lrun (Lv_obj_report_style_change fs)
      (slog (log_info ''screen.c'' ''lvgl_set_rotation'' 158 ''refreshing objects'') (set_rotation_pads fs fsm r g))))"
    by (intro typed_run_then) simp_all
  with h show ?thesis by (simp add: lvgl_set_rotation_def Let_def e g)
qed

lemma set_rotation_objects: "objects (lvgl_set_rotation env idx d r u) = objects u"
  using display_only_set_rotation by (simp add: display_only_def)

lemma typed_setup: "typed_run env u (lvgl_setup env idx r u)"
proof -
  let ?a = "lrun Lv_init (slog (log_trace ''screen.c'' ''lvgl_init'' 80 ''initalizing lvgl'') u)"
  let ?d = "lptr env (Lv_linux_fbdev_create # lcalls ?a)"
  let ?b = "lrun (Lv_linux_fbdev_set_file ?d ''/dev/fb0'') (lrun (Lv_display_set_resolution ?d 240 300)
    ((lrun Lv_linux_fbdev_create ?a)\<lparr>disp := ?d\<rparr>))"
  have "typed_run env u ?b" by (simp add: typed_run_def slog_def)
  also have "typed_run env ?b (lvgl_set_rotation env idx ?d r ?b)" by (rule typed_set_rotation)
  finally show ?thesis by (simp add: lvgl_setup_def lask_def Let_def typed_run_then)
qed

lemma ui_init_typed:
  assumes "fresh_objects env" "calls_ok env (lcalls u)" "jetkvm_ui_init env idx r u = Some u'"
  shows "ui_typed env u'"
proof -
  let ?v = "lvgl_setup env idx r u"
  obtain w where w: "ui_init env ?v = Some w" "lcalls u' = lcalls w" "objects u' = objects w"
    using assms(3) by (auto simp: jetkvm_ui_init_def lvgl_init_def ui_set_rpc_handler_def slog_def)
  have "calls_ok env (lcalls ?v)" using typed_setup assms(2) by (auto simp: typed_run_def)
  from create_screens_typed [OF assms(1) this] have t: "ui_typed env (create_screens env ?v)" .
  have l: "loadScreen 1 (create_screens env ?v) = Some w" using w(1) by (simp add: ui_init_def SCREEN_ID_BOOT_SCREEN_def)
  then have "objects w = objects (create_screens env ?v)" using loadScreen_ok [of 1 "create_screens env ?v"] by auto
  with typed_load [OF t l] have "ui_typed env w" by (intro ui_typed_run [OF assms(1) t]) simp_all
  with w(2,3) show ?thesis by (simp add: ui_typed_def have_classes_def)
qed

section \<open>Calls by name\<close>

definition class_named :: "string \<Rightarrow> widget_class option" where
  "class_named name = map_of field_classes name"

lemma distinct_field_classes: "distinct (map fst field_classes)"
  using fields_of_layouts(1) by (simp add: field_classes_names)

lemma class_named_iff: "class_named name = Some k \<longleftrightarrow> (name, k) \<in> set field_classes"
  by (simp add: class_named_def distinct_field_classes map_of_eq_Some_iff)

lemma class_named_None: "class_named name = None \<longleftrightarrow> name \<notin> set object_fields"
proof -
  have "fst ` set field_classes = set object_fields"
    using fields_of_layouts(2) field_classes_names by (metis set_map)
  then show ?thesis by (simp add: class_named_def map_of_eq_None_iff)
qed

text \<open>The class a name asks for at run time.\<close>

lemma typed_name:
  assumes "ui_typed env u" "name \<in> set object_fields"
  shows "is_object env (objects u name) (lcalls u)"
    "is_class env k (objects u name) (lcalls u) \<longleftrightarrow> class_named name = Some k"
proof -
  from assms(2) obtain k' where k': "class_named name = Some k'" using class_named_None by (cases "class_named name") auto
  then have c: "is_class env k' (objects u name) (lcalls u)" using ui_typed_named [OF assms(1)] by (simp add: class_named_iff)
  then show "is_object env (objects u name) (lcalls u)" by (rule is_class_object)
  show "is_class env k (objects u name) (lcalls u) \<longleftrightarrow> class_named name = Some k" using c k' by (auto simp: is_class_def)
qed

context object_op
begin

text \<open>An operation for all objects is typed for every name, one for a class exactly for the names of that class.\<close>

lemma run_typed_iff:
  assumes "ui_typed env u" "objects_ok env u"
  shows "calls_ok env (lcalls (run generated_index name x u)) \<longleftrightarrow>
    name \<notin> set object_fields \<or> op_class (call x) = None \<or> class_named name = op_class (call x)"
proof (cases "name \<in> set object_fields")
  case True
  then have "run generated_index name x u = lrun (Lv_obj (objects u name) (call x)) u"
    using assms(2) by (auto simp: run_call ui_get_obj_generated objects_ok_def)
  moreover have "calls_ok env (lcalls u)" using assms(1) by (simp add: ui_typed_def)
  ultimately show ?thesis using typed_name [OF assms(1) True] True by (auto simp: call_ok_def split: option.splits)
qed (use assms(1) in \<open>simp add: run_missing ui_typed_def\<close>)

lemma run_grows: "(\<exists>cs. lcalls (run idx name x u) = cs @ lcalls u) \<and> objects (run idx name x u) = objects u"
  by (simp add: run_call)

end

section \<open>Requests\<close>

text \<open>What the Go process can ask for; each request is one function of \<^verbatim>\<open>ctrl.c\<close>.\<close>

datatype (plugins only: code size) ui_request =
    Req_text string string
  | Req_image string string
  | Req_add_state string string
  | Req_clear_state string string
  | Req_add_flag string string
  | Req_clear_flag string string
  | Req_fade_in string u32
  | Req_fade_out string u32
  | Req_opacity string u8
  | Req_var string string
  | Req_screen string
  | Req_rotation u16

fun run_request :: "lv_env \<Rightarrow> ui_request \<Rightarrow> ui \<Rightarrow> ui" where
  "run_request env (Req_text n t) u = snd (jetkvm_ui_set_text env generated_index n t u)"
| "run_request env (Req_image n i) u = jetkvm_ui_set_image generated_index n i u"
| "run_request env (Req_add_state n x) u = jetkvm_ui_add_state generated_index n x u"
| "run_request env (Req_clear_state n x) u = jetkvm_ui_clear_state generated_index n x u"
| "run_request env (Req_add_flag n x) u = snd (jetkvm_ui_add_flag generated_index n x u)"
| "run_request env (Req_clear_flag n x) u = snd (jetkvm_ui_clear_flag generated_index n x u)"
| "run_request env (Req_fade_in n d) u = jetkvm_ui_fade_in generated_index n d u"
| "run_request env (Req_fade_out n d) u = jetkvm_ui_fade_out generated_index n d u"
| "run_request env (Req_opacity n x) u = jetkvm_ui_set_opacity generated_index n x u"
| "run_request env (Req_var n x) u = jetkvm_ui_set_var generated_index n x u"
| "run_request env (Req_screen n) u = jetkvm_ui_load_screen env generated_index n u"
| "run_request env (Req_rotation r) u = jetkvm_ui_set_rotation env generated_index r u"

text \<open>The class a request needs its object to have.\<close>

fun request_ok :: "ui_request \<Rightarrow> bool" where
  "request_ok (Req_text n t) = (class_named n \<in> {None, Some Label})"
| "request_ok (Req_image n i) = (class_named n \<in> {None, Some Image})"
| "request_ok (Req_screen n) = (class_named n = None \<or> n \<in> set (take 12 object_fields))"
| "request_ok _ = True"

lemma run_request_grows: "(\<exists>cs. lcalls (run_request env q u) = cs @ lcalls u) \<and> objects (run_request env q u) = objects u"
proof (cases q)
  case (Req_rotation r)
  have "typed_run env u (lvgl_set_rotation env generated_index 0 r u)" by (rule typed_set_rotation)
  with Req_rotation set_rotation_objects show ?thesis by (simp add: jetkvm_ui_set_rotation_def typed_run_def)
qed (simp_all add: set_image.run_grows add_state.run_grows clear_state.run_grows fade_in.run_grows fade_out.run_grows
    set_opacity.run_grows jetkvm_ui_set_text_def jetkvm_ui_add_flag_def jetkvm_ui_clear_flag_def jetkvm_ui_set_var_def slog_def
    jetkvm_ui_load_screen_def lask_def Let_def split: option.split)

lemma created_append: "set (created env h) \<subseteq> set (created env (cs @ h))"
  by (induction cs) (auto split: lcall.splits)

lemma objects_ok_grows:
  assumes "objects_ok env u" "objects u' = objects u" "\<exists>cs. lcalls u' = cs @ lcalls u"
  shows "objects_ok env u'"
proof -
  from assms(3) have "set (created env (lcalls u)) \<subseteq> set (created env (lcalls u'))" using created_append by fastforce
  with assms(1,2) show ?thesis by (auto simp: objects_ok_def)
qed

lemma screen_named:
  assumes "ui_typed env u" "n \<in> set (take 12 object_fields)"
  shows "is_screen env (objects u n) (lcalls u)"
proof -
  from assms(2) obtain i where "i < 12" "n = object_fields ! i" by (auto simp: in_set_conv_nth)
  with assms(1) show ?thesis by (simp add: ui_typed_def)
qed


lemma set_text_typed_iff:
  assumes "ui_typed env u" "objects_ok env u"
  shows "calls_ok env (lcalls (snd (jetkvm_ui_set_text env generated_index n t u))) \<longleftrightarrow> class_named n \<in> {None, Some Label}"
proof (cases "n \<in> set object_fields")
  case True
  then have "objects u n \<noteq> 0" "class_named n \<noteq> None" using assms(2) class_named_None by (auto simp: objects_ok_def)
  moreover have "calls_ok env (lcalls u)" using assms(1) by (simp add: ui_typed_def)
  ultimately show ?thesis using typed_name(2) [OF assms(1) True, of Label] True
    by (auto simp: jetkvm_ui_set_text_def ui_get_obj_generated Let_def call_ok_def is_class_def)
next
  case False
  then show ?thesis using assms(1) class_named_None [of n]
    by (simp add: jetkvm_ui_set_text_def ui_get_obj_generated Let_def ui_typed_def)
qed

lemma flag_typed:
  assumes "ui_typed env u" "objects_ok env u"
  shows "calls_ok env (lcalls (snd (jetkvm_ui_add_flag generated_index n x u)))"
    "calls_ok env (lcalls (snd (jetkvm_ui_clear_flag generated_index n x u)))"
proof -
  have "n \<in> set object_fields \<Longrightarrow> is_object env (objects u n) (lcalls u)" by (rule typed_name(1) [OF assms(1)])
  moreover have "calls_ok env (lcalls u)" using assms(1) by (simp add: ui_typed_def)
  ultimately show "calls_ok env (lcalls (snd (jetkvm_ui_add_flag generated_index n x u)))"
    "calls_ok env (lcalls (snd (jetkvm_ui_clear_flag generated_index n x u)))"
    by (auto simp: jetkvm_ui_add_flag_def jetkvm_ui_clear_flag_def ui_get_obj_generated Let_def call_ok_def split: option.split)
qed

lemma load_screen_typed:
  assumes "ui_typed env u" "class_named n = None \<or> n \<in> set (take 12 object_fields)"
  shows "calls_ok env (lcalls (jetkvm_ui_load_screen env generated_index n u))"
proof -
  have "calls_ok env (lcalls u)" using assms(1) by (simp add: ui_typed_def)
  moreover have "n \<in> set object_fields \<Longrightarrow> is_screen env (objects u n) (lcalls u)"
    using screen_named [OF assms(1)] assms(2) class_named_None by blast
  ultimately show ?thesis
    by (auto simp: jetkvm_ui_load_screen_def ui_get_obj_generated lask_def Let_def call_ok_def is_screen_def)
qed

lemma rotation_typed: "ui_typed env u \<Longrightarrow> calls_ok env (lcalls (jetkvm_ui_set_rotation env idx r u))"
  using typed_set_rotation [of env u idx 0 r] by (simp add: jetkvm_ui_set_rotation_def typed_run_def ui_typed_def)

lemma request_typed_iff:
  assumes "ui_typed env u" "objects_ok env u" "\<forall>n. q \<noteq> Req_screen n"
  shows "calls_ok env (lcalls (run_request env q u)) \<longleftrightarrow> request_ok q"
proof (cases q)
  case (Req_image n i)
  show ?thesis using set_image.run_typed_iff [OF assms(1,2), of n i] class_named_None [of n] Req_image by auto
next
  case (Req_var n x)
  then show ?thesis using assms(1) by (simp add: jetkvm_ui_set_var_def slog_def ui_typed_def split: option.split)
qed (use assms(3) in \<open>simp_all add: set_text_typed_iff [OF assms(1,2)] flag_typed [OF assms(1,2)] rotation_typed [OF assms(1)]
    add_state.run_typed_iff [OF assms(1,2)] clear_state.run_typed_iff [OF assms(1,2)] fade_in.run_typed_iff [OF assms(1,2)]
    fade_out.run_typed_iff [OF assms(1,2)] set_opacity.run_typed_iff [OF assms(1,2)]\<close>)

lemma request_typed:
  assumes "fresh_objects env" "ui_typed env u" "objects_ok env u" "request_ok q"
  shows "ui_typed env (run_request env q u)"
proof -
  have "calls_ok env (lcalls (run_request env q u))"
  proof (cases "\<exists>n. q = Req_screen n")
    case True
    then show ?thesis using load_screen_typed [OF assms(2)] assms(4) by auto
  qed (use request_typed_iff [OF assms(2,3)] assms(4) in simp)
  then have "typed_run env u (run_request env q u)" using run_request_grows [of env q u] by (simp add: typed_run_def)
  then show ?thesis by (rule ui_typed_run [OF assms(1,2)]) (simp add: run_request_grows)
qed

section \<open>Sessions\<close>

text \<open>The requests are those that \<open>ok\<close> allows.\<close>

inductive session_step :: "(ui_request \<Rightarrow> bool) \<Rightarrow> lv_env \<Rightarrow> ui \<Rightarrow> ui \<Rightarrow> bool" for ok env where
  by_touch: "run_action a env e u = Some u' \<Longrightarrow> session_step ok env u u'"
| by_tick: "jetkvm_ui_tick env u = Some u' \<Longrightarrow> session_step ok env u u'"
| by_request: "ok q \<Longrightarrow> session_step ok env u (run_request env q u)"
| by_query: "session_step ok env u (snd (jetkvm_ui_get_current_screen env generated_index u))"

inductive_cases session_stepE: "session_step ok env u u'"

definition session_inv :: "lv_env \<Rightarrow> ui \<Rightarrow> bool" where
  "session_inv env u \<longleftrightarrow> fresh_objects env \<and> ui_typed env u \<and> objects_ok env u \<and> 0 \<le> currentScreen u \<and> currentScreen u < 12"

lemma request_screen: "currentScreen (run_request env q u) = currentScreen u"
proof (cases q)
  case (Req_rotation r)
  with display_only_set_rotation [of u env generated_index 0 r] show ?thesis by (simp add: jetkvm_ui_set_rotation_def display_only_def)
qed (simp_all add: set_image.run_call add_state.run_call clear_state.run_call fade_in.run_call fade_out.run_call
    set_opacity.run_call jetkvm_ui_set_text_def jetkvm_ui_add_flag_def jetkvm_ui_clear_flag_def jetkvm_ui_set_var_def slog_def
    jetkvm_ui_load_screen_def lask_def Let_def split: option.split)

lemma session_inv_step:
  assumes "session_inv env u" "session_step request_ok env u u'"
  shows "session_inv env u'"
proof -
  have i: "fresh_objects env" "ui_typed env u" "objects_ok env u" "0 \<le> currentScreen u" "currentScreen u < 12"
    using assms(1) by (simp_all add: session_inv_def)
  from assms(2) show ?thesis
  proof (rule session_stepE)
    fix a e
    assume a: "run_action a env e u = Some u'"
    then have o: "objects u' = objects u" "created env (lcalls u') = created env (lcalls u)"
      "on_screen u' \<or> currentScreen u' = currentScreen u"
      using run_action_nav [of env a u e] by (auto simp: nav_to_def nav_effect_def)
    with ui_typed_run [OF i(1,2) typed_action [OF i(1,2) a]] i show ?thesis
      by (auto simp: session_inv_def objects_ok_def on_screen_def)
  next
    assume t: "jetkvm_ui_tick env u = Some u'"
    let ?v = "lrun Lv_timer_handler u"
    have v: "typed_run env u ?v" by (rule typed_run_lrun) simp
    then have tv: "ui_typed env ?v" by (rule ui_typed_run [OF i(1,2)]) simp
    have ut: "ui_tick env ?v = Some u'" using t by (simp add: jetkvm_ui_tick_def lvgl_tick_def)
    from typed_ui_tick [OF i(1) tv this] have w: "typed_run env ?v u'" "objects u' = objects u" by simp_all
    then have "ui_typed env u'" by (intro ui_typed_run [OF i(1) tv]) simp_all
    moreover have "objects_ok env u'"
      using typed_run_trans [OF v w(1)] by (intro objects_ok_grows [OF i(3) w(2)]) (simp add: typed_run_def)
    moreover have "currentScreen u' = currentScreen u"
      using ut tick_frame [of "tick_screen_funcs ! nat (currentScreen u)" env ?v]
      by (auto simp: ui_tick_def tick_screen_def split: if_splits)
    ultimately show ?thesis using i by (simp add: session_inv_def)
  next
    fix q
    assume q: "u' = run_request env q u" "request_ok q"
    have g: "objects u' = objects u" "\<exists>cs. lcalls u' = cs @ lcalls u" using run_request_grows [of env q u] q(1) by simp_all
    from request_typed [OF i(1-3) q(2)] objects_ok_grows [OF i(3) g] request_screen [of env q u] i show ?thesis
      by (simp add: session_inv_def q(1))
  next
    assume u': "u' = snd (jetkvm_ui_get_current_screen env generated_index u)"
    then have q: "u' = lrun Lv_scr_act u"
      by (simp add: jetkvm_ui_get_current_screen_def ui_get_current_screen_def lask_def split: option.split)
    have "typed_run env u u'" unfolding q by (rule typed_run_lrun) simp
    from ui_typed_run [OF i(1,2) this] i show ?thesis by (simp add: session_inv_def objects_ok_def q)
  qed
qed

interpretation session: invariant_system
  "\<lambda>u. fresh_objects env \<and> (\<exists>v r. calls_ok env (lcalls v) \<and> vars_inv env (vars v) \<and> jetkvm_ui_init env generated_index r v = Some u)"
  "session_step request_ok env" "session_inv env" for env
proof
  fix u
  assume "fresh_objects env \<and> (\<exists>v r. calls_ok env (lcalls v) \<and> vars_inv env (vars v) \<and> jetkvm_ui_init env generated_index r v = Some u)"
  then obtain v r where v: "fresh_objects env" "calls_ok env (lcalls v)" "vars_inv env (vars v)"
    "jetkvm_ui_init env generated_index r v = Some u" by blast
  from jetkvm_ui_init_ok [OF v(1,3), of generated_index r] v(4) have "nav_inv env u" "currentScreen u = 0" by auto
  with ui_init_typed [OF v(1,2,4)] v(1) show "session_inv env u" by (simp add: session_inv_def nav_inv_def)
qed (rule session_inv_step)

section \<open>Stated properties\<close>

text \<open>C12: Every call of LVGL meets the requirement it has on its object: starting from the initialisation, through any sequence of event
  callbacks, ticks and requests by name whose object has the class the request needs, texts are set and read on labels only, sources on
  images only, animation parameters on spinners only, screens are loaded only from objects without parent, and every object a
  call names was created before. Each of the 103 named objects keeps the class its layout gives it.\<close>

theorem session_calls_typed:
  assumes "fresh_objects env" "calls_ok env (lcalls v)" "vars_inv env (vars v)"
    and "jetkvm_ui_init env generated_index r v = Some s" "(session_step request_ok env)\<^sup>*\<^sup>* s u"
  shows "calls_ok env (lcalls u) \<and> (\<forall>(name, k)\<in>set field_classes. is_class env k (objects u name) (lcalls u)) \<and>
    (\<forall>i < 12. is_screen env (objects u (object_fields ! i)) (lcalls u))"
proof -
  have "session_inv env s" using assms(1-4) by (intro session.inv_start) blast
  from session.inv_steps [OF this assms(5)] show ?thesis by (simp add: session_inv_def ui_typed_def have_classes_def)
qed

theorem session_calls_typed_witness:
  "\<exists>s u. jetkvm_ui_init sample_lv generated_index 270 ui_globals = Some s \<and>
     u = run_request sample_lv (Req_text ''usb_status_label'' ''Connected'') s \<and> calls_ok sample_lv (lcalls u) \<and>
     is_class sample_lv Label (objects u ''usb_status_label'') (lcalls u)"
proof -
  obtain s where s: "jetkvm_ui_init sample_lv generated_index 270 ui_globals = Some s" using sample_started by blast
  have m: "(''usb_status_label'', Label) \<in> set field_classes"
    unfolding field_classes_def classes_of_all_concat map_classes_of_layouts by (simp del: list.map)
  then have "request_ok (Req_text ''usb_status_label'' ''Connected'')" by (simp add: class_named_iff [symmetric])
  then have "(session_step request_ok sample_lv)\<^sup>*\<^sup>* s (run_request sample_lv (Req_text ''usb_status_label'' ''Connected'') s)"
    by (intro r_into_rtranclp by_request)
  moreover have "calls_ok sample_lv (lcalls ui_globals)" "vars_inv sample_lv (vars ui_globals)"
    by (simp_all add: ui_globals_def vars_init_inv)
  ultimately show ?thesis using session_calls_typed [OF sample_lv_ok(1) _ _ s] s m by blast
qed

text \<open>The functions called by name do not check the class themselves: in every state of a session, a request other than the loading
  of a screen keeps the calls within their requirements exactly when its object has the class it needs or does not exist.
  Setting a text by the name of an object that is no label, or an image by the name of one that is no image, reaches LVGL.\<close>

theorem request_class_unchecked:
  assumes "fresh_objects env" "calls_ok env (lcalls v)" "vars_inv env (vars v)"
    and "jetkvm_ui_init env generated_index r v = Some s" "(session_step request_ok env)\<^sup>*\<^sup>* s u" "\<forall>n. q \<noteq> Req_screen n"
  shows "calls_ok env (lcalls (run_request env q u)) \<longleftrightarrow> request_ok q"
proof -
  have "session_inv env s" using assms(1-4) by (intro session.inv_start) blast
  from session.inv_steps [OF this assms(5)] assms(6) show ?thesis by (intro request_typed_iff) (simp_all add: session_inv_def)
qed

theorem request_class_unchecked_witness:
  "\<exists>s. jetkvm_ui_init sample_lv generated_index 270 ui_globals = Some s \<and>
     \<not> calls_ok sample_lv (lcalls (snd (jetkvm_ui_set_text sample_lv generated_index ''boot_logo'' ''text'' s)))"
proof -
  obtain s where s: "jetkvm_ui_init sample_lv generated_index 270 ui_globals = Some s" using sample_started by blast
  have "(''boot_logo'', Image) \<in> set field_classes"
    unfolding field_classes_def classes_of_all_concat map_classes_of_layouts by (simp del: list.map)
  then have "\<not> request_ok (Req_text ''boot_logo'' ''text'')" by (simp add: class_named_iff [symmetric])
  moreover have "calls_ok sample_lv (lcalls ui_globals)" "vars_inv sample_lv (vars ui_globals)"
    by (simp_all add: ui_globals_def vars_init_inv)
  ultimately show ?thesis
    using request_class_unchecked [OF sample_lv_ok(1) _ _ s rtranclp.rtrancl_refl, of "Req_text ''boot_logo'' ''text''"] s
    by simp
qed

end
