(* ===== verification/Go_Display.thy ===== *)
theory Go_Display
  imports Ui_Session
begin

text \<open>
  What the Go process does to the display: the wrappers of \<^verbatim>\<open>internal/native/cgo_linux.go\<close>, the helpers of
  \<^verbatim>\<open>internal/native/display.go\<close> and the update of the home screen in \<^verbatim>\<open>display.go\<close>. A string crosses to C through
  \<^verbatim>\<open>C.CString\<close>, where it ends at its first NUL; error results are only logged. The network manager, the USB state and
  the other sources of the values shown are the fields of \<open>display_input\<close>.
\<close>

section \<open>Wrappers\<close>

definition uiLabelSetText :: "lv_env \<Rightarrow> string \<Rightarrow> string \<Rightarrow> ui \<Rightarrow> ui" where
  "uiLabelSetText env objName text u = run_request env (Req_text (cstr objName) (cstr text)) u"

definition uiObjAddFlag :: "lv_env \<Rightarrow> string \<Rightarrow> string \<Rightarrow> ui \<Rightarrow> ui" where
  "uiObjAddFlag env objName flag u = run_request env (Req_add_flag (cstr objName) (cstr flag)) u"

definition uiObjClearFlag :: "lv_env \<Rightarrow> string \<Rightarrow> string \<Rightarrow> ui \<Rightarrow> ui" where
  "uiObjClearFlag env objName flag u = run_request env (Req_clear_flag (cstr objName) (cstr flag)) u"

definition uiObjHide :: "lv_env \<Rightarrow> string \<Rightarrow> ui \<Rightarrow> ui" where
  "uiObjHide env objName u = uiObjAddFlag env objName ''LV_OBJ_FLAG_HIDDEN'' u"

definition uiObjShow :: "lv_env \<Rightarrow> string \<Rightarrow> ui \<Rightarrow> ui" where
  "uiObjShow env objName u = uiObjClearFlag env objName ''LV_OBJ_FLAG_HIDDEN'' u"

definition uiObjAddState :: "lv_env \<Rightarrow> string \<Rightarrow> string \<Rightarrow> ui \<Rightarrow> ui" where
  "uiObjAddState env objName x u = run_request env (Req_add_state (cstr objName) (cstr x)) u"

definition uiObjClearState :: "lv_env \<Rightarrow> string \<Rightarrow> string \<Rightarrow> ui \<Rightarrow> ui" where
  "uiObjClearState env objName x u = run_request env (Req_clear_state (cstr objName) (cstr x)) u"

definition uiImgSetSrc :: "lv_env \<Rightarrow> string \<Rightarrow> string \<Rightarrow> ui \<Rightarrow> ui" where
  "uiImgSetSrc env objName src u = run_request env (Req_image (cstr objName) (cstr src)) u"

definition uiObjFadeIn :: "lv_env \<Rightarrow> string \<Rightarrow> u32 \<Rightarrow> ui \<Rightarrow> ui" where
  "uiObjFadeIn env objName duration u = run_request env (Req_fade_in (cstr objName) duration) u"

definition uiObjFadeOut :: "lv_env \<Rightarrow> string \<Rightarrow> u32 \<Rightarrow> ui \<Rightarrow> ui" where
  "uiObjFadeOut env objName duration u = run_request env (Req_fade_out (cstr objName) duration) u"

definition uiSetVar :: "lv_env \<Rightarrow> string \<Rightarrow> string \<Rightarrow> ui \<Rightarrow> ui" where
  "uiSetVar env name x u = run_request env (Req_var (cstr name) (cstr x)) u"

definition uiSwitchToScreen :: "lv_env \<Rightarrow> string \<Rightarrow> ui \<Rightarrow> ui" where
  "uiSwitchToScreen env screen u = run_request env (Req_screen (cstr screen)) u"

text \<open>\<^verbatim>\<open>C.GoString\<close> of a null pointer is the empty string.\<close>

definition uiGetCurrentScreen :: "lv_env \<Rightarrow> ui \<Rightarrow> string \<times> ui" where
  "uiGetCurrentScreen env u =
     (case jetkvm_ui_get_current_screen env generated_index u of (None, u) \<Rightarrow> ([], u) | (Some s, u) \<Rightarrow> (s, u))"

section \<open>Helpers\<close>

definition UpdateLabelIfChanged :: "lv_env \<Rightarrow> string \<Rightarrow> string \<Rightarrow> ui \<Rightarrow> ui" where
  "UpdateLabelIfChanged env objName newText u = uiLabelSetText env objName newText u"

definition UpdateLabelAndChangeVisibility :: "lv_env \<Rightarrow> string \<Rightarrow> string \<Rightarrow> ui \<Rightarrow> ui" where
  "UpdateLabelAndChangeVisibility env objName newText u =
     (let u = UpdateLabelIfChanged env objName newText u; containerName = objName @ ''_container'' in
      if newText = [] then uiObjHide env containerName (uiObjHide env objName u)
      else uiObjShow env containerName (uiObjShow env objName u))"

definition SwitchToScreenIf :: "lv_env \<Rightarrow> string \<Rightarrow> string list \<Rightarrow> ui \<Rightarrow> ui" where
  "SwitchToScreenIf env screenName shouldSwitch u =
     (case uiGetCurrentScreen env u of (cur, u) \<Rightarrow>
        if cur = screenName then u
        else if length shouldSwitch > 0 \<and> cur \<notin> set shouldSwitch then u
        else uiSwitchToScreen env screenName u)"

definition SwitchToScreenIfDifferent :: "lv_env \<Rightarrow> string \<Rightarrow> ui \<Rightarrow> ui" where
  "SwitchToScreenIfDifferent env screenName u = SwitchToScreenIf env screenName [] u"

section \<open>The home screen\<close>

datatype cloud_state = CloudConnectionStateNotConfigured | CloudConnectionStateDisconnected
  | CloudConnectionStateConnecting | CloudConnectionStateConnected

text \<open>\<open>network\<close> is \<^verbatim>\<open>networkManager\<close>: the two addresses, the hardware address, and whether the link is up.\<close>

record display_input =
  network :: "(string \<times> string \<times> string \<times> bool) option"
  usbState :: string
  dhcpClient :: string
  videoReady :: bool
  actionSessions :: int
  cloudConnectionState :: cloud_state

definition switchToMainScreen :: "lv_env \<Rightarrow> display_input \<Rightarrow> ui \<Rightarrow> ui" where
  "switchToMainScreen env d u = (case network d of
       None \<Rightarrow> SwitchToScreenIfDifferent env ''no_network_screen'' u
     | Some (_, _, _, up) \<Rightarrow>
         if up then SwitchToScreenIfDifferent env ''home_screen'' u else SwitchToScreenIfDifferent env ''no_network_screen'' u)"

text \<open>The two status lines at the bottom of the home screen have the same form.\<close>

definition status_line :: "lv_env \<Rightarrow> string \<Rightarrow> bool \<Rightarrow> ui \<Rightarrow> ui" where
  "status_line env f on u =
     (if on then uiObjAddState env f ''LV_STATE_CHECKED'' (UpdateLabelIfChanged env f ''Connected'' u)
      else uiObjClearState env f ''LV_STATE_CHECKED'' (UpdateLabelIfChanged env f ''Disconnected'' u))"

definition updateDisplayUsbState :: "lv_env \<Rightarrow> display_input \<Rightarrow> ui \<Rightarrow> ui" where
  "updateDisplayUsbState env d u = status_line env ''usb_status_label'' (usbState d = ''configured'') u"

text \<open>The parts of \<^verbatim>\<open>updateDisplay\<close>, in its order. The blinking of the icon is a goroutine of its own, in
  \<^verbatim>\<open>Go_Blink\<close>.\<close>

definition update_network :: "lv_env \<Rightarrow> display_input \<Rightarrow> ui \<Rightarrow> ui" where
  "update_network env d u = (case network d of None \<Rightarrow> u | Some (ip4, ip6, mac, up) \<Rightarrow>
     UpdateLabelIfChanged env ''home_info_mac_addr'' mac (UpdateLabelAndChangeVisibility env ''home_info_ipv6_addr'' ip6
       (UpdateLabelIfChanged env ''home_info_ipv4_addr'' ip4 u)))"

definition update_dhcp :: "lv_env \<Rightarrow> display_input \<Rightarrow> ui \<Rightarrow> ui" where
  "update_dhcp env d u =
     (if dhcpClient d = ''jetdhcpc'' then UpdateLabelIfChanged env ''dhcp_client_change_label'' ''Change to udhcpc'' u
      else if dhcpClient d = ''udhcpc'' then UpdateLabelIfChanged env ''dhcp_client_change_label'' ''Change to JetKVM'' u
      else u)"

definition update_main_screen :: "lv_env \<Rightarrow> display_input \<Rightarrow> ui \<Rightarrow> ui" where
  "update_main_screen env d u =
     (if (case network d of None \<Rightarrow> False | Some (_, _, _, up) \<Rightarrow> up)
      then SwitchToScreenIf env ''home_screen'' [''no_network_screen'', ''boot_screen'']
             (uiSetVar env ''main_screen'' ''home_screen'' u)
      else SwitchToScreenIf env ''no_network_screen'' [''home_screen'', ''boot_screen'']
             (uiSetVar env ''main_screen'' ''no_network_screen'' u))"

definition update_cloud :: "lv_env \<Rightarrow> display_input \<Rightarrow> ui \<Rightarrow> ui" where
  "update_cloud env d u =
     (let u = (if cloudConnectionState d = CloudConnectionStateNotConfigured then uiObjHide env ''cloud_status_icon'' u
               else uiObjShow env ''cloud_status_icon'' u)
      in case cloudConnectionState d of
           CloudConnectionStateDisconnected \<Rightarrow> uiImgSetSrc env ''cloud_status_icon'' ''cloud_disconnected'' u
         | CloudConnectionStateConnecting \<Rightarrow> uiImgSetSrc env ''cloud_status_icon'' ''cloud'' u
         | CloudConnectionStateConnected \<Rightarrow> uiImgSetSrc env ''cloud_status_icon'' ''cloud'' u
         | CloudConnectionStateNotConfigured \<Rightarrow> u)"

definition updateDisplay :: "lv_env \<Rightarrow> display_input \<Rightarrow> ui \<Rightarrow> ui" where
  "updateDisplay env d u =
     (let u = update_network env d u;
          u = uiObjHide env ''menu_btn_network'' u;
          u = uiObjHide env ''menu_btn_access'' u;
          u = update_dhcp env d u;
          u = updateDisplayUsbState env d u;
          u = status_line env ''hdmi_status_label'' (videoReady d) u;
          u = UpdateLabelIfChanged env ''cloud_status_label'' (fmt_d (actionSessions d) @ '' active'') u;
          u = update_main_screen env d u
      in update_cloud env d u)"

text \<open>The two fades of \<^verbatim>\<open>doCloudBlink\<close>.\<close>

definition cloud_fade_out :: "lv_env \<Rightarrow> ui \<Rightarrow> ui" where
  "cloud_fade_out env u = uiObjFadeOut env ''ui_Home_Header_Cloud_Status_Icon'' 1000 u"

definition cloud_fade_in :: "lv_env \<Rightarrow> ui \<Rightarrow> ui" where
  "cloud_fade_in env u = uiObjFadeIn env ''ui_Home_Header_Cloud_Status_Icon'' 1000 u"

end
