(* ===== verification/Go_Blink.thy ===== *)
theory Go_Blink
  imports Go_Display
begin

text \<open>
  The goroutines of \<^verbatim>\<open>display.go\<close> that blink the icon of the cloud connection. \<^verbatim>\<open>restartCloudBlink\<close> starts a new one each time and
  cancels the context of the one before; a goroutine looks at its context only after a fade. Starting and stopping hold
  \<^verbatim>\<open>cloudBlinkLock\<close>, so each is one step.
\<close>

section \<open>State\<close>

text \<open>Where a goroutine is: at the ticker, or in the wait after the fade out or the fade in.\<close>

datatype blink_place = At_ticker | Faded_out | Faded_in

text \<open>\<open>blinkTicker\<close> is \<^verbatim>\<open>cloudBlinkTicker\<close>, \<open>None\<close> while it is \<^verbatim>\<open>nil\<close> and then whether it runs. Contexts are numbered in the order they
  are made, \<open>blinkCancel\<close> is the one \<^verbatim>\<open>cloudBlinkCancel\<close> cancels. \<open>blinkers\<close> are the goroutines with their contexts.\<close>

record blinker =
  blinkTicker :: "bool option"
  blinkCancel :: "nat option"
  contexts :: nat
  cancelled :: "nat list"
  blinkers :: "(nat \<times> blink_place) list"

definition blinker_init :: blinker where
  "blinker_init = \<lparr>blinkTicker = None, blinkCancel = None, contexts = 0, cancelled = [], blinkers = []\<rparr>"

section \<open>Operations\<close>

definition startCloudBlink :: "blinker \<Rightarrow> blinker" where
  "startCloudBlink b = b\<lparr>blinkTicker := Some True, contexts := Suc (contexts b), blinkCancel := Some (contexts b),
     blinkers := blinkers b @ [(contexts b, At_ticker)]\<rparr>"

definition stopCloudBlink :: "blinker \<Rightarrow> blinker" where
  "stopCloudBlink b =
     (let b = (case blinkCancel b of None \<Rightarrow> b | Some c \<Rightarrow> b\<lparr>cancelled := c # cancelled b, blinkCancel := None\<rparr>)
      in b\<lparr>blinkTicker := map_option (\<lambda>_. False) (blinkTicker b)\<rparr>)"

definition restartCloudBlink :: "blinker \<Rightarrow> blinker" where
  "restartCloudBlink b = startCloudBlink (stopCloudBlink b)"

text \<open>What \<^verbatim>\<open>updateDisplay\<close> does about the blinking.\<close>

definition update_blink :: "cloud_state \<Rightarrow> blinker \<Rightarrow> blinker" where
  "update_blink c b = (case c of
       CloudConnectionStateDisconnected \<Rightarrow> stopCloudBlink b
     | CloudConnectionStateConnecting \<Rightarrow> restartCloudBlink b
     | CloudConnectionStateConnected \<Rightarrow> stopCloudBlink b
     | CloudConnectionStateNotConfigured \<Rightarrow> b)"

text \<open>The steps of the goroutine at position \<open>i\<close>: a tick, which is passed over unless the connection is being made; the end of a wait;
  and the return, which a cancelled context allows in a wait.\<close>

inductive blink_step :: "lv_env \<Rightarrow> bool \<Rightarrow> blinker \<times> ui \<Rightarrow> blinker \<times> ui \<Rightarrow> bool" for env :: lv_env and connecting :: bool where
  by_tick: "i < length (blinkers b) \<Longrightarrow> blinkers b ! i = (c, At_ticker) \<Longrightarrow> blinkTicker b = Some True \<Longrightarrow> connecting \<Longrightarrow>
    blink_step env connecting (b, u) (b\<lparr>blinkers := (blinkers b)[i := (c, Faded_out)]\<rparr>, cloud_fade_out env u)"
| by_skip: "i < length (blinkers b) \<Longrightarrow> blinkers b ! i = (c, At_ticker) \<Longrightarrow> blinkTicker b = Some True \<Longrightarrow> \<not> connecting \<Longrightarrow>
    blink_step env connecting (b, u) (b, u)"
| by_out: "i < length (blinkers b) \<Longrightarrow> blinkers b ! i = (c, Faded_out) \<Longrightarrow>
    blink_step env connecting (b, u) (b\<lparr>blinkers := (blinkers b)[i := (c, Faded_in)]\<rparr>, cloud_fade_in env u)"
| by_in: "i < length (blinkers b) \<Longrightarrow> blinkers b ! i = (c, Faded_in) \<Longrightarrow>
    blink_step env connecting (b, u) (b\<lparr>blinkers := (blinkers b)[i := (c, At_ticker)]\<rparr>, u)"
| by_return: "i < length (blinkers b) \<Longrightarrow> blinkers b ! i = (c, p) \<Longrightarrow> p \<noteq> At_ticker \<Longrightarrow> c \<in> set (cancelled b) \<Longrightarrow>
    blink_step env connecting (b, u) (b\<lparr>blinkers := take i (blinkers b) @ drop (Suc i) (blinkers b)\<rparr>, u)"

inductive_cases blink_stepE: "blink_step env connecting (b, u) (b', u')"

section \<open>Live goroutines\<close>

text \<open>The contexts of the goroutines that nobody has cancelled.\<close>

definition live :: "blinker \<Rightarrow> nat list" where
  "live b = filter (\<lambda>c. c \<notin> set (cancelled b)) (map fst (blinkers b))"

definition blinker_ok :: "blinker \<Rightarrow> bool" where
  "blinker_ok b \<longleftrightarrow> live b = (case blinkCancel b of None \<Rightarrow> [] | Some c \<Rightarrow> [c]) \<and>
     set (cancelled b) \<union> set (map fst (blinkers b)) \<union> set_option (blinkCancel b) \<subseteq> {..<contexts b} \<and>
     (blinkers b \<noteq> [] \<longrightarrow> blinkTicker b \<noteq> None) \<and> (blinkCancel b \<noteq> None \<longrightarrow> blinkTicker b = Some True)"

lemma blinker_ok_init: "blinker_ok blinker_init"
  by (simp add: blinker_ok_def live_def blinker_init_def)

lemma blinker_ok_stop: "blinker_ok b \<Longrightarrow> blinker_ok (stopCloudBlink b) \<and> blinkCancel (stopCloudBlink b) = None"
proof -
  assume ok: "blinker_ok b"
  show ?thesis
  proof (cases "blinkCancel b")
    case None
    with ok show ?thesis by (auto simp: blinker_ok_def stopCloudBlink_def live_def)
  next
    case (Some c)
    then have "live b = [c]" using ok by (simp add: blinker_ok_def)
    then have "filter (\<lambda>x. x \<noteq> c) (live b) = []" by simp
    then have "filter (\<lambda>x. x \<noteq> c \<and> x \<notin> set (cancelled b)) (map fst (blinkers b)) = []"
      by (simp add: live_def filter_filter conj_commute)
    with ok Some show ?thesis by (auto simp: blinker_ok_def stopCloudBlink_def live_def)
  qed
qed

lemma blinker_ok_start:
  assumes "blinker_ok b" "blinkCancel b = None"
  shows "blinker_ok (startCloudBlink b)"
proof -
  have "contexts b \<notin> set (cancelled b)" using assms(1) by (auto simp: blinker_ok_def)
  with assms show ?thesis by (auto simp: blinker_ok_def startCloudBlink_def live_def less_Suc_eq)
qed

lemma blinker_ok_update: "blinker_ok b \<Longrightarrow> blinker_ok (update_blink c b)"
  using blinker_ok_stop blinker_ok_start by (cases c) (auto simp: update_blink_def restartCloudBlink_def)

lemma map_fst_update: "i < length xs \<Longrightarrow> xs ! i = (c, p) \<Longrightarrow> map fst (xs[i := (c, q)]) = map fst xs"
  by (rule nth_equalityI) (auto simp: nth_list_update)

lemma blinker_ok_step:
  assumes "blink_step env connecting (b, u) (b', u')" "blinker_ok b"
  shows "blinker_ok b'"
proof -
  have same: "blinker_ok (b\<lparr>blinkers := (blinkers b)[i := (c, q)]\<rparr>)" if "i < length (blinkers b)" "blinkers b ! i = (c, p)" for i c p q
    using map_fst_update [OF that, of q] assms(2) that(1) by (auto simp: blinker_ok_def live_def)
  have gone: "blinker_ok (b\<lparr>blinkers := take i (blinkers b) @ drop (Suc i) (blinkers b)\<rparr>)"
    if "i < length (blinkers b)" "blinkers b ! i = (c, p)" "c \<in> set (cancelled b)" for i c p
  proof -
    have split: "blinkers b = take i (blinkers b) @ (c, p) # drop (Suc i) (blinkers b)" using that(1,2) by (metis id_take_nth_drop)
    have "live (b\<lparr>blinkers := take i (blinkers b) @ drop (Suc i) (blinkers b)\<rparr>) = live b"
      unfolding live_def by (subst (3) split) (use that(3) in simp)
    moreover have "set (map fst (take i (blinkers b) @ drop (Suc i) (blinkers b))) \<subseteq> set (map fst (blinkers b))"
      by (subst (3) split) auto
    moreover have "blinkers b \<noteq> []" using that(1) by auto
    ultimately show ?thesis using assms(2) unfolding blinker_ok_def by (simp del: set_append set_map) blast
  qed
  from assms(1) show ?thesis by (cases rule: blink_stepE) (use assms(2) same gone in blast)+
qed

end
