(* ===== verification/Go_Backlight.thy ===== *)
theory Go_Backlight
  imports Prelude "HOL-Library.Signed_Division"
begin

text \<open>
  The backlight of the display, which the Go process controls: the dim and off timers of \<^verbatim>\<open>display.go\<close> and the settings
  handler of \<^verbatim>\<open>jsonrpc.go\<close>. A panic is \<open>None\<close>. Each operation is taken as one step: the code runs them in goroutines of
  their own without a lock. Go's \<^verbatim>\<open>int\<close> has 32 bits on the device (\<^verbatim>\<open>GOARCH=arm\<close>), so a number of seconds times
  \<^verbatim>\<open>time.Second\<close> fits the 64 bits of a \<^verbatim>\<open>time.Duration\<close>, and no other operation here can overflow.
\<close>

section \<open>State\<close>

text \<open>A \<^verbatim>\<open>time.Ticker\<close> of the standard library: stopped, or with its period and the time left to the next tick, in seconds.\<close>

datatype ticker = Stopped | Armed int int

text \<open>
  \<open>level\<close> is the content of \<^verbatim>\<open>/sys/class/backlight/backlight/brightness\<close>; the tickers are \<open>None\<close> while their variables are
  \<^verbatim>\<open>nil\<close>; \<open>dimLoops\<close> and \<open>offLoops\<close> count the goroutines started to receive ticks, which never end.
\<close>

record backlight =
  maxBrightness :: int
  dimAfterSec :: int
  offAfterSec :: int
  backlightState :: int
  dimTicker :: "ticker option"
  offTicker :: "ticker option"
  level :: int
  dimLoops :: nat
  offLoops :: nat

text \<open>How the file answers: it does not exist, the write fails, or the write succeeds.\<close>

datatype sysfs = Sys_absent | Sys_fails | Sys_writes

datatype brightness_error = Out_of_bounds | Not_hardware | Write_failed

section \<open>Brightness\<close>

definition setDisplayBrightness :: "sysfs \<Rightarrow> int \<Rightarrow> backlight \<Rightarrow> brightness_error option \<times> backlight" where
  "setDisplayBrightness a brightness b =
     (if brightness > 100 \<or> brightness < 0 then (Some Out_of_bounds, b)
      else case a of
        Sys_absent \<Rightarrow> (Some Not_hardware, b)
      | Sys_fails \<Rightarrow> (Some Write_failed, b)
      | Sys_writes \<Rightarrow> (None, b\<lparr>level := brightness\<rparr>))"

section \<open>Timers\<close>

text \<open>\<^verbatim>\<open>NewTicker\<close> and \<^verbatim>\<open>Reset\<close> panic unless the interval is positive.\<close>

definition start_ticker :: "int \<Rightarrow> ticker option" where
  "start_ticker sec = (if sec \<le> 0 then None else Some (Armed sec sec))"

text \<open>The handlers are called from a receiving loop, so the tickers are not \<^verbatim>\<open>nil\<close>; a call of \<^verbatim>\<open>Stop\<close> on \<^verbatim>\<open>nil\<close> panics.\<close>

definition tick_displayDim :: "sysfs \<Rightarrow> backlight \<Rightarrow> backlight option" where
  "tick_displayDim a b =
     (case setDisplayBrightness a (maxBrightness b sdiv 2) b of (_, b) \<Rightarrow>
        if dimTicker b = None then None else Some (b\<lparr>dimTicker := Some Stopped, backlightState := 1\<rparr>))"

definition tick_displayOff :: "sysfs \<Rightarrow> backlight \<Rightarrow> backlight option" where
  "tick_displayOff a b =
     (case setDisplayBrightness a 0 b of (_, b) \<Rightarrow>
        if offTicker b = None then None else Some (b\<lparr>offTicker := Some Stopped, backlightState := 2\<rparr>))"

text \<open>Resetting the timers when the display wakes: a timer set to zero seconds or never made is left alone.\<close>

definition reset_dim :: "backlight \<Rightarrow> backlight option" where
  "reset_dim b =
     (if dimAfterSec b \<noteq> 0 \<and> dimTicker b \<noteq> None
      then (case start_ticker (dimAfterSec b) of None \<Rightarrow> None | Some t \<Rightarrow> Some (b\<lparr>dimTicker := Some t\<rparr>))
      else Some b)"

definition reset_off :: "backlight \<Rightarrow> backlight option" where
  "reset_off b =
     (if offAfterSec b \<noteq> 0 \<and> offTicker b \<noteq> None
      then (case start_ticker (offAfterSec b) of None \<Rightarrow> None | Some t \<Rightarrow> Some (b\<lparr>offTicker := Some t\<rparr>))
      else Some b)"

definition wakeDisplay :: "sysfs \<Rightarrow> bool \<Rightarrow> backlight \<Rightarrow> backlight option" where
  "wakeDisplay a force b =
     (if backlightState b = 0 \<and> \<not> force then Some b
      else if maxBrightness b = 0 then Some b
      else case setDisplayBrightness a (maxBrightness b) b of (_, b) \<Rightarrow>
        (case reset_dim b of None \<Rightarrow> None | Some b \<Rightarrow>
          (case reset_off b of None \<Rightarrow> None | Some b \<Rightarrow> Some (b\<lparr>backlightState := 0\<rparr>))))"

definition stop_ticker :: "ticker option \<Rightarrow> ticker option" where
  "stop_ticker t = map_option (\<lambda>_. Stopped) t"

definition new_dim :: "backlight \<Rightarrow> backlight option" where
  "new_dim b =
     (if dimAfterSec b \<noteq> 0
      then (case start_ticker (dimAfterSec b) of None \<Rightarrow> None
            | Some t \<Rightarrow> Some (b\<lparr>dimTicker := Some t, dimLoops := Suc (dimLoops b)\<rparr>))
      else Some b)"

definition new_off :: "backlight \<Rightarrow> backlight option" where
  "new_off b =
     (if offAfterSec b \<noteq> 0
      then (case start_ticker (offAfterSec b) of None \<Rightarrow> None
            | Some t \<Rightarrow> Some (b\<lparr>offTicker := Some t, offLoops := Suc (offLoops b)\<rparr>))
      else Some b)"

definition startBacklightTickers :: "sysfs \<Rightarrow> backlight \<Rightarrow> backlight option" where
  "startBacklightTickers a b =
     (if maxBrightness b = 0 then Some (snd (setDisplayBrightness a 0 b))
      else let b = b\<lparr>dimTicker := stop_ticker (dimTicker b), offTicker := stop_ticker (offTicker b)\<rparr> in
        (case new_dim b of None \<Rightarrow> None | Some b \<Rightarrow> new_off b))"

section \<open>Settings\<close>

record backlight_settings =
  MaxBrightness :: int
  DimAfter :: int
  OffAfter :: int

datatype settings_error = Bad_brightness | Bad_dim | Bad_off | Save_failed

text \<open>\<open>saved\<close> is whether \<^verbatim>\<open>SaveConfig\<close> succeeds; the settings have changed by then. \<open>a1\<close> and \<open>a2\<close> answer the two writes.\<close>

definition rpcSetBacklightSettings ::
    "bool \<Rightarrow> sysfs \<Rightarrow> sysfs \<Rightarrow> backlight_settings \<Rightarrow> backlight \<Rightarrow> (settings_error option \<times> backlight) option" where
  "rpcSetBacklightSettings saved a1 a2 p b =
     (if MaxBrightness p > 255 \<or> MaxBrightness p < 0 then Some (Some Bad_brightness, b)
      else if DimAfter p < 0 then Some (Some Bad_dim, b)
      else if OffAfter p < 0 then Some (Some Bad_off, b)
      else let b = b\<lparr>maxBrightness := MaxBrightness p, dimAfterSec := DimAfter p, offAfterSec := OffAfter p\<rparr> in
        if \<not> saved then Some (Some Save_failed, b)
        else (case startBacklightTickers a1 b of None \<Rightarrow> None
          | Some b \<Rightarrow> (case wakeDisplay a2 True b of None \<Rightarrow> None | Some b \<Rightarrow> Some (None, b))))"

definition rpcGetBacklightSettings :: "backlight \<Rightarrow> backlight_settings" where
  "rpcGetBacklightSettings b = \<lparr>MaxBrightness = maxBrightness b, DimAfter = dimAfterSec b, OffAfter = offAfterSec b\<rparr>"

section \<open>Time\<close>

text \<open>One second passes for a ticker: whether it ticks, and what it is then.\<close>

fun pass :: "ticker option \<Rightarrow> bool \<times> ticker option" where
  "pass (Some (Armed p r)) = (if r \<le> 1 then (True, Some (Armed p p)) else (False, Some (Armed p (r - 1))))"
| "pass t = (False, t)"

text \<open>One second passes for both. The receiving loops run the handlers, in either order when both tick at the same time.\<close>

definition dim_due :: "bool \<Rightarrow> sysfs \<Rightarrow> backlight \<Rightarrow> backlight option" where
  "dim_due due a b = (if due then tick_displayDim a b else Some b)"

definition off_due :: "bool \<Rightarrow> sysfs \<Rightarrow> backlight \<Rightarrow> backlight option" where
  "off_due due a b = (if due then tick_displayOff a b else Some b)"

definition second :: "bool \<Rightarrow> sysfs \<Rightarrow> sysfs \<Rightarrow> backlight \<Rightarrow> backlight option" where
  "second dim_first a1 a2 b =
     (case pass (dimTicker b) of (dim, t1) \<Rightarrow>
      case pass (offTicker b) of (off, t2) \<Rightarrow>
        let b = b\<lparr>dimTicker := t1, offTicker := t2\<rparr> in
        if dim_first then Option.bind (dim_due dim a1 b) (off_due off a2)
        else Option.bind (off_due off a2 b) (dim_due dim a1))"

text \<open>What happens to the backlight: time, events that ask for the display to wake, and new settings. \<open>A\<close> are the
  answers the file may give, \<open>P\<close> the settings that may come, with the outcome of saving them.\<close>

inductive backlight_step :: "(sysfs \<Rightarrow> bool) \<Rightarrow> (bool \<Rightarrow> backlight_settings \<Rightarrow> bool) \<Rightarrow> backlight \<Rightarrow> backlight \<Rightarrow> bool"
  for A :: "sysfs \<Rightarrow> bool" and P :: "bool \<Rightarrow> backlight_settings \<Rightarrow> bool" where
  by_second: "A a1 \<Longrightarrow> A a2 \<Longrightarrow> second dim_first a1 a2 b = Some b' \<Longrightarrow> backlight_step A P b b'"
| by_wake: "A a \<Longrightarrow> wakeDisplay a False b = Some b' \<Longrightarrow> backlight_step A P b b'"
| by_settings: "A a1 \<Longrightarrow> A a2 \<Longrightarrow> P saved p \<Longrightarrow> rpcSetBacklightSettings saved a1 a2 p b = Some (e, b') \<Longrightarrow> backlight_step A P b b'"

text \<open>The state at the start: the settings read from the configuration, no ticker, and the brightness the kernel has set.\<close>

definition backlight_boot :: "backlight_settings \<Rightarrow> int \<Rightarrow> backlight" where
  "backlight_boot p l = \<lparr>maxBrightness = MaxBrightness p, dimAfterSec = DimAfter p, offAfterSec = OffAfter p,
     backlightState = 0, dimTicker = None, offTicker = None, level = l, dimLoops = 0, offLoops = 0\<rparr>"

end
