(* ===== verification/Go_Startup.thy ===== *)
theory Go_Startup
  imports Go_Blink Go_Backlight
begin

text \<open>
  The start of the display in the Go process, \<^verbatim>\<open>display.go\<close>: the contents that never change, the requests for updates, and the
  set-up at the start and after a restart of the native process. The files under \<^verbatim>\<open>/proc\<close> and the build information are the
  fields of \<open>static_input\<close>; a panic is \<open>None\<close>.
\<close>

section \<open>Texts\<close>

text \<open>\<^verbatim>\<open>strings.SplitSeq\<close> and \<^verbatim>\<open>strings.SplitN(s, sep, 2)\<close> with a separator of one byte.\<close>

function split_on :: "char \<Rightarrow> string \<Rightarrow> string list" where
  "split_on c s = takeWhile (\<lambda>x. x \<noteq> c) s # (case dropWhile (\<lambda>x. x \<noteq> c) s of [] \<Rightarrow> [] | _ # r \<Rightarrow> split_on c r)"
  by auto
termination
proof (relation "measure (length \<circ> snd)")
  fix c s x r assume "dropWhile (\<lambda>x. x \<noteq> c) s = x # (r :: string)"
  moreover have "length (dropWhile (\<lambda>x. x \<noteq> c) s) \<le> length s" by (rule length_dropWhile_le)
  ultimately show "((c, r), (c, s)) \<in> measure (length \<circ> snd)" by simp
qed simp

declare split_on.simps [simp del]

definition split_two :: "char \<Rightarrow> string \<Rightarrow> string list" where
  "split_two c s = takeWhile (\<lambda>x. x \<noteq> c) s # (case dropWhile (\<lambda>x. x \<noteq> c) s of [] \<Rightarrow> [] | _ # r \<Rightarrow> [r])"

text \<open>An element of a slice: an index out of range panics.\<close>

definition go_nth :: "'a list \<Rightarrow> nat \<Rightarrow> 'a option" where
  "go_nth xs i = (if i < length xs then Some (xs ! i) else None)"

definition trim_prefix :: "string \<Rightarrow> string \<Rightarrow> string" where
  "trim_prefix p s = (if is_prefix_of p s then drop (length p) s else s)"

text \<open>The white space that \<^verbatim>\<open>strings.TrimSpace\<close> removes: the Unicode spaces, each as its bytes in UTF-8.\<close>

definition white_spaces :: "string list" where
  "white_spaces =
     map (\<lambda>c. [c]) [CHR 0x09, CHR 0x0A, CHR 0x0B, CHR 0x0C, CHR 0x0D, CHR 0x20] @
     [[CHR 0xC2, CHR 0x85], [CHR 0xC2, CHR 0xA0], [CHR 0xE1, CHR 0x9A, CHR 0x80]] @
     map (\<lambda>c. [CHR 0xE2, CHR 0x80, c]) [CHR 0x80, CHR 0x81, CHR 0x82, CHR 0x83, CHR 0x84, CHR 0x85, CHR 0x86, CHR 0x87,
       CHR 0x88, CHR 0x89, CHR 0x8A, CHR 0xA8, CHR 0xA9, CHR 0xAF] @
     [[CHR 0xE2, CHR 0x81, CHR 0x9F], [CHR 0xE3, CHR 0x80, CHR 0x80]]"

function trim_left :: "string list \<Rightarrow> string \<Rightarrow> string" where
  "trim_left ws s = (case find (\<lambda>w. w \<noteq> [] \<and> is_prefix_of w s) ws of None \<Rightarrow> s | Some w \<Rightarrow> trim_left ws (drop (length w) s))"
  by auto
termination
proof (relation "measure (length \<circ> snd)")
  fix ws s w assume "find (\<lambda>w. w \<noteq> [] \<and> is_prefix_of w s) ws = Some w"
  then have "w \<noteq> []" "is_prefix_of w s" by (auto simp: find_Some_iff)
  then show "((ws, drop (length w) s), (ws, s)) \<in> measure (length \<circ> snd)"
    by (cases s) (auto simp: is_prefix_of_def)
qed simp

declare trim_left.simps [simp del]

definition TrimSpace :: "string \<Rightarrow> string" where
  "TrimSpace s = rev (trim_left (map rev white_spaces) (rev (trim_left white_spaces s)))"

section \<open>Static contents\<close>

text \<open>\<open>cpuInfo\<close> and \<open>procVersion\<close> are the two files, \<open>None\<close> when they cannot be read.\<close>

record static_input =
  cpuInfo :: "string option"
  procVersion :: "string option"
  branch :: string
  buildDate :: string
  goVersion :: string

text \<open>The text of the first line that begins with \<^verbatim>\<open>Serial\<close>: \<open>None\<close> without such a line; the index panics without a colon.\<close>

definition serial_of :: "string \<Rightarrow> string option option" where
  "serial_of info = (case find (is_prefix_of ''Serial'') (split_on (CHR 0x0A) info) of
       None \<Rightarrow> Some None
     | Some line \<Rightarrow> map_option (\<lambda>serial. Some (TrimSpace serial)) (go_nth (split_two (CHR '':'') line) 1))"

definition update_serial :: "lv_env \<Rightarrow> static_input \<Rightarrow> ui \<Rightarrow> ui option" where
  "update_serial env i u = (case cpuInfo i of None \<Rightarrow> Some u | Some info \<Rightarrow>
     (case serial_of info of None \<Rightarrow> None | Some None \<Rightarrow> Some u
      | Some (Some serial) \<Rightarrow> Some (UpdateLabelAndChangeVisibility env ''cpu_serial'' serial u)))"

definition kernel_of :: "string \<Rightarrow> string" where
  "kernel_of v = hd (split_two (CHR '' '') (trim_prefix ''Linux version '' v))"

definition update_kernel :: "lv_env \<Rightarrow> static_input \<Rightarrow> ui \<Rightarrow> ui" where
  "update_kernel env i u = (case procVersion i of None \<Rightarrow> u
     | Some v \<Rightarrow> UpdateLabelAndChangeVisibility env ''kernel_version'' (kernel_of v) u)"

definition update_mac :: "lv_env \<Rightarrow> display_input \<Rightarrow> ui \<Rightarrow> ui" where
  "update_mac env d u = (case network d of None \<Rightarrow> u | Some (_, _, mac, _) \<Rightarrow> UpdateLabelIfChanged env ''home_info_mac_addr'' mac u)"

definition updateStaticContents :: "lv_env \<Rightarrow> static_input \<Rightarrow> display_input \<Rightarrow> ui \<Rightarrow> ui option" where
  "updateStaticContents env i d u = (case update_serial env i (update_mac env d u) of None \<Rightarrow> None | Some u \<Rightarrow>
     (let u = update_kernel env i u;
          u = UpdateLabelAndChangeVisibility env ''build_branch'' (branch i) u;
          u = UpdateLabelAndChangeVisibility env ''build_date'' (buildDate i) u
      in Some (UpdateLabelAndChangeVisibility env ''golang_version'' (goVersion i) u)))"

section \<open>Requests for updates\<close>

text \<open>\<open>panel\<close> is the native process, \<open>light\<close> the backlight, \<open>blinking\<close> the goroutines of the cloud icon; \<open>updates\<close> are the goroutines that requests have started and that
  have not run, each with whether it wakes the display. A goroutine is taken as one step.\<close>

record go_display =
  panel :: ui
  light :: backlight
  blinking :: blinker
  displayInited :: bool
  updates :: "bool list"

definition requestDisplayUpdate :: "bool \<Rightarrow> go_display \<Rightarrow> go_display" where
  "requestDisplayUpdate shouldWakeDisplay g =
     (if \<not> displayInited g then g else g\<lparr>updates := updates g @ [shouldWakeDisplay]\<rparr>)"

definition waitCtrlAndRequestDisplayUpdate :: "bool \<Rightarrow> go_display \<Rightarrow> go_display" where
  "waitCtrlAndRequestDisplayUpdate shouldWakeDisplay g = requestDisplayUpdate shouldWakeDisplay g"

text \<open>The goroutine at position \<open>k\<close>; goroutines run in any order.\<close>

definition run_update :: "lv_env \<Rightarrow> sysfs \<Rightarrow> display_input \<Rightarrow> nat \<Rightarrow> go_display \<Rightarrow> go_display option" where
  "run_update env a d k g =
     (let shouldWakeDisplay = updates g ! k; g = g\<lparr>updates := take k (updates g) @ drop (Suc k) (updates g)\<rparr> in
      case (if shouldWakeDisplay then wakeDisplay a False (light g) else Some (light g)) of None \<Rightarrow> None
      | Some b \<Rightarrow> Some (g\<lparr>light := b, panel := updateDisplay env d (panel g),
          blinking := update_blink (cloudConnectionState d) (blinking g)\<rparr>))"

definition configureDisplayOnNativeRestart :: "lv_env \<Rightarrow> static_input \<Rightarrow> display_input \<Rightarrow> go_display \<Rightarrow> go_display option" where
  "configureDisplayOnNativeRestart env i d g = (case updateStaticContents env i d (panel g) of None \<Rightarrow> None
     | Some u \<Rightarrow> Some (requestDisplayUpdate True (g\<lparr>panel := u\<rparr>)))"

definition initDisplay :: "lv_env \<Rightarrow> static_input \<Rightarrow> display_input \<Rightarrow> sysfs \<Rightarrow> go_display \<Rightarrow> go_display option" where
  "initDisplay env i d a g = (case updateStaticContents env i d (panel g) of None \<Rightarrow> None
     | Some u \<Rightarrow> (let u = updateDisplayUsbState env d u in
         case startBacklightTickers a (light g) of None \<Rightarrow> None
         | Some b \<Rightarrow> Some (requestDisplayUpdate True (g\<lparr>panel := u, displayInited := True, light := b\<rparr>))))"

text \<open>What happens to the display: it is set up once; requests come and are carried out; the backlight, the native process and
  the goroutines of the cloud icon take their own steps; and the native process may be replaced by one that has just been initialised.\<close>

definition new_panel :: "lv_env \<Rightarrow> ui \<Rightarrow> bool" where
  "new_panel env u \<longleftrightarrow> (\<exists>v r. calls_ok env (lcalls v) \<and> vars_inv env (vars v) \<and> jetkvm_ui_init env generated_index r v = Some u)"

inductive display_step :: "lv_env \<Rightarrow> go_display \<Rightarrow> go_display \<Rightarrow> bool" for env :: lv_env where
  by_init: "\<not> displayInited g \<Longrightarrow> initDisplay env i d Sys_writes g = Some g' \<Longrightarrow> display_step env g g'"
| by_restart: "new_panel env u \<Longrightarrow> configureDisplayOnNativeRestart env i d (g\<lparr>panel := u\<rparr>) = Some g' \<Longrightarrow> display_step env g g'"
| by_ask: "display_step env g (requestDisplayUpdate w g)"
| by_update: "k < length (updates g) \<Longrightarrow> run_update env Sys_writes d k g = Some g' \<Longrightarrow> display_step env g g'"
| by_light: "backlight_step (\<lambda>a. a = Sys_writes) (\<lambda>saved q. saved \<and> MaxBrightness q \<le> 100) (light g) b \<Longrightarrow>
    display_step env g (g\<lparr>light := b\<rparr>)"
| by_panel: "session_step request_ok env (panel g) u \<Longrightarrow> display_step env g (g\<lparr>panel := u\<rparr>)"
| by_blink: "blink_step env connecting (blinking g, panel g) (b, u) \<Longrightarrow> display_step env g (g\<lparr>blinking := b, panel := u\<rparr>)"

definition display_boot :: "lv_env \<Rightarrow> backlight_settings \<Rightarrow> int \<Rightarrow> go_display \<Rightarrow> bool" where
  "display_boot env p l g \<longleftrightarrow> new_panel env (panel g) \<and> light g = backlight_boot p l \<and>
     blinking g = blinker_init \<and> \<not> displayInited g \<and> updates g = []"

end
