(* ===== verification/Go_Display_Props.thy ===== *)
theory Go_Display_Props
  imports Go_Display
begin

text \<open>
  What the display shows. A view is the abstract state of the display by object name: texts, hidden objects, checked
  objects, and the screen. Every request refines an update of the view, and the update of the home screen refines one
  closed-form update.
\<close>

section \<open>Views\<close>

text \<open>Whether a state was last added or cleared.\<close>

fun state_of :: "lv_obj \<Rightarrow> lv_state \<Rightarrow> lcall list \<Rightarrow> bool option" where
  "state_of ob x [] = None"
| "state_of ob x (c # h) = (case c of
       Lv_obj ob' (Add_state y) \<Rightarrow> if ob' = ob \<and> y = x then Some True else state_of ob x h
     | Lv_obj ob' (Clear_state y) \<Rightarrow> if ob' = ob \<and> y = x then Some False else state_of ob x h
     | _ \<Rightarrow> state_of ob x h)"

record view =
  texts :: "string \<Rightarrow> string"
  hidden :: "string \<Rightarrow> bool option"
  checked :: "string \<Rightarrow> bool option"
  screen :: string

definition named :: "string \<Rightarrow> bool" where
  "named n \<longleftrightarrow> n \<in> set object_fields"

definition screen_name :: "ui \<Rightarrow> string" where
  "screen_name u = (if active_screen (lcalls u) = 0 then []
     else case find_obj_name (map (\<lambda>f. (f, f)) object_fields) (objects u) (active_screen (lcalls u)) of None \<Rightarrow> [] | Some n \<Rightarrow> n)"

definition view_of :: "ui \<Rightarrow> view" where
  "view_of u = \<lparr>texts = (\<lambda>n. if named n then label_text (objects u n) (lcalls u) else []),
     hidden = (\<lambda>n. if named n then flag_of (objects u n) LV_OBJ_FLAG_HIDDEN (lcalls u) else None),
     checked = (\<lambda>n. if named n then state_of (objects u n) LV_STATE_CHECKED (lcalls u) else None),
     screen = screen_name u\<rparr>"

section \<open>Requests on views\<close>

lemma objects_ok_request: "objects_ok env u \<Longrightarrow> objects_ok env (run_request env q u)"
  by (rule objects_ok_grows [OF _ conjunct2 [OF run_request_grows] conjunct1 [OF run_request_grows]])

lemma named_object:
  assumes "objects_ok env u" "named n"
  shows "ui_get_obj generated_index n u = objects u n" "objects u n \<noteq> 0" "named m \<Longrightarrow> objects u m = objects u n \<longleftrightarrow> m = n"
    "named m \<Longrightarrow> objects u n = objects u m \<longleftrightarrow> n = m"
  using assms by (auto simp: objects_ok_def named_def ui_get_obj_generated inj_on_eq_iff)

lemma unnamed_object: "\<not> named n \<Longrightarrow> ui_get_obj generated_index n u = 0"
  by (simp add: ui_get_obj_generated named_def)

lemma view_eqI:
  assumes "\<And>n. named n \<Longrightarrow> texts v n = texts w n \<and> hidden v n = hidden w n \<and> checked v n = checked w n"
    and "\<And>n. \<not> named n \<Longrightarrow> texts v n = texts w n \<and> hidden v n = hidden w n \<and> checked v n = checked w n" "screen v = screen w"
  shows "(v :: view) = w"
proof -
  have "texts v = texts w" "hidden v = hidden w" "checked v = checked w" using assms(1,2) by (metis ext)+
  with assms(3) show ?thesis by simp
qed

lemma view_text:
  assumes "objects_ok env u" "faithful_labels env"
  shows "view_of (run_request env (Req_text n t) u) =
    (if named n then (view_of u)\<lparr>texts := (texts (view_of u))(n := t)\<rparr> else view_of u)"
proof (cases "named n")
  case True
  note n = named_object [OF assms(1) True]
  show ?thesis using assms(2) n(1,2) True
    by (intro view_eqI) (auto simp: view_of_def screen_name_def jetkvm_ui_set_text_def Let_def faithful_labels_def n(3,4))
qed (simp add: jetkvm_ui_set_text_def unnamed_object)

lemma view_flag:
  assumes "objects_ok env u"
  shows "view_of (run_request env (Req_add_flag n ''LV_OBJ_FLAG_HIDDEN'') u) =
      (if named n then (view_of u)\<lparr>hidden := (hidden (view_of u))(n := Some True)\<rparr> else view_of u)"
    "view_of (run_request env (Req_clear_flag n ''LV_OBJ_FLAG_HIDDEN'') u) =
      (if named n then (view_of u)\<lparr>hidden := (hidden (view_of u))(n := Some False)\<rparr> else view_of u)"
proof -
  have f: "str_to_lv_obj_flag ''LV_OBJ_FLAG_HIDDEN'' = Some LV_OBJ_FLAG_HIDDEN" by (simp add: str_to_lv_obj_flag_def)
  show "view_of (run_request env (Req_add_flag n ''LV_OBJ_FLAG_HIDDEN'') u) =
      (if named n then (view_of u)\<lparr>hidden := (hidden (view_of u))(n := Some True)\<rparr> else view_of u)"
    "view_of (run_request env (Req_clear_flag n ''LV_OBJ_FLAG_HIDDEN'') u) =
      (if named n then (view_of u)\<lparr>hidden := (hidden (view_of u))(n := Some False)\<rparr> else view_of u)"
    using named_object [OF assms, of n] unnamed_object [of n u]
    by (intro view_eqI; auto simp: view_of_def screen_name_def jetkvm_ui_add_flag_def jetkvm_ui_clear_flag_def Let_def f)+
qed

lemma view_state:
  assumes "objects_ok env u"
  shows "view_of (run_request env (Req_add_state n ''LV_STATE_CHECKED'') u) =
      (if named n then (view_of u)\<lparr>checked := (checked (view_of u))(n := Some True)\<rparr> else view_of u)"
    "view_of (run_request env (Req_clear_state n ''LV_STATE_CHECKED'') u) =
      (if named n then (view_of u)\<lparr>checked := (checked (view_of u))(n := Some False)\<rparr> else view_of u)"
proof -
  have f: "str_to_lv_state ''LV_STATE_CHECKED'' = LV_STATE_CHECKED" by (simp add: str_to_lv_state_def)
  show "view_of (run_request env (Req_add_state n ''LV_STATE_CHECKED'') u) =
      (if named n then (view_of u)\<lparr>checked := (checked (view_of u))(n := Some True)\<rparr> else view_of u)"
    "view_of (run_request env (Req_clear_state n ''LV_STATE_CHECKED'') u) =
      (if named n then (view_of u)\<lparr>checked := (checked (view_of u))(n := Some False)\<rparr> else view_of u)"
    using named_object [OF assms, of n] unnamed_object [of n u]
    by (intro view_eqI; auto simp: view_of_def screen_name_def add_state.run_call clear_state.run_call f)+
qed

lemma view_other:
  "view_of (run_request env (Req_image n i) u) = view_of u"
  "view_of (run_request env (Req_var n x) u) = view_of u"
  "view_of (run_request env (Req_fade_in n d) u) = view_of u"
  "view_of (run_request env (Req_fade_out n d) u) = view_of u"
  by (intro view_eqI; simp add: view_of_def screen_name_def set_image.run_call fade_in.run_call fade_out.run_call
      jetkvm_ui_set_var_def slog_def split: option.split)+

lemma screen_name_active:
  assumes "objects_ok env u" "named n" "active_screen (lcalls u) = objects u n"
  shows "screen_name u = n"
  using find_obj_name_inj [of "objects u" object_fields n] assms by (auto simp: screen_name_def objects_ok_def named_def)

lemma view_screen:
  assumes "objects_ok env u" "faithful_screens env"
  shows "view_of (run_request env (Req_screen n) u) = (if named n then (view_of u)\<lparr>screen := n\<rparr> else view_of u)"
proof (cases "named n")
  case True
  let ?v = "jetkvm_ui_load_screen env generated_index n u"
  note l = load_screen_active [OF assms(2,1), of n]
  have "screen_name ?v = n" using l True by (intro screen_name_active) (simp_all add: named_def)
  moreover have "label_text ob (lcalls ?v) = label_text ob (lcalls u)" "flag_of ob fl (lcalls ?v) = flag_of ob fl (lcalls u)"
    "state_of ob x (lcalls ?v) = state_of ob x (lcalls u)" for ob fl x
    by (simp_all add: jetkvm_ui_load_screen_def lask_def Let_def)
  moreover have "objects ?v = objects u" using l(3) True by (simp add: named_def)
  ultimately show ?thesis using True by (intro view_eqI) (simp_all add: view_of_def)
qed (simp add: jetkvm_ui_load_screen_def unnamed_object)

lemma current_screen_view:
  assumes "faithful_screens env"
  shows "fst (uiGetCurrentScreen env u) = screen (view_of u)" "view_of (snd (uiGetCurrentScreen env u)) = view_of u"
    "objects_ok env u \<Longrightarrow> objects_ok env (snd (uiGetCurrentScreen env u))"
proof -
  have "lptr env (Lv_scr_act # lcalls u) = active_screen (lcalls u)" using assms by (simp add: faithful_screens_def)
  then show "fst (uiGetCurrentScreen env u) = screen (view_of u)"
    by (simp add: uiGetCurrentScreen_def jetkvm_ui_get_current_screen_def ui_get_current_screen_def lask_def view_of_def
        screen_name_def generated_index_def split: option.split)
  have s: "snd (uiGetCurrentScreen env u) = lrun Lv_scr_act u"
    by (simp add: uiGetCurrentScreen_def jetkvm_ui_get_current_screen_def ui_get_current_screen_def lask_def split: option.split)
  show "view_of (snd (uiGetCurrentScreen env u)) = view_of u" unfolding s by (intro view_eqI) (simp_all add: view_of_def screen_name_def)
  show "objects_ok env u \<Longrightarrow> objects_ok env (snd (uiGetCurrentScreen env u))" unfolding s by (simp add: objects_ok_def)
qed

section \<open>The update of the home screen as one update of the view\<close>

definition link_up :: "display_input \<Rightarrow> bool" where
  "link_up d = (case network d of None \<Rightarrow> False | Some (_, _, _, up) \<Rightarrow> up)"

definition network_texts :: "display_input \<Rightarrow> (string \<times> string) list" where
  "network_texts d = (case network d of None \<Rightarrow> [] | Some (ip4, ip6, mac, _) \<Rightarrow>
     [(''home_info_ipv4_addr'', cstr ip4), (''home_info_ipv6_addr'', cstr ip6), (''home_info_mac_addr'', cstr mac)])"

definition network_hidden :: "display_input \<Rightarrow> (string \<times> bool) list" where
  "network_hidden d = (case network d of None \<Rightarrow> [] | Some (_, ip6, _, _) \<Rightarrow> [(''home_info_ipv6_addr'', ip6 = [])])"

definition dhcp_texts :: "display_input \<Rightarrow> (string \<times> string) list" where
  "dhcp_texts d =
     (if dhcpClient d = ''jetdhcpc'' then [(''dhcp_client_change_label'', ''Change to udhcpc'')]
      else if dhcpClient d = ''udhcpc'' then [(''dhcp_client_change_label'', ''Change to JetKVM'')] else [])"

definition new_texts :: "display_input \<Rightarrow> (string \<times> string) list" where
  "new_texts d =
     network_texts d @
     dhcp_texts d @
     [(''usb_status_label'', if usbState d = ''configured'' then ''Connected'' else ''Disconnected''),
      (''hdmi_status_label'', if videoReady d then ''Connected'' else ''Disconnected''),
      (''cloud_status_label'', fmt_d (actionSessions d) @ '' active'')]"

definition new_hidden :: "display_input \<Rightarrow> (string \<times> bool) list" where
  "new_hidden d =
     network_hidden d @
     [(''menu_btn_network'', True), (''menu_btn_access'', True),
      (''cloud_status_icon'', cloudConnectionState d = CloudConnectionStateNotConfigured)]"

definition new_checked :: "display_input \<Rightarrow> (string \<times> bool) list" where
  "new_checked d = [(''usb_status_label'', usbState d = ''configured''), (''hdmi_status_label'', videoReady d)]"

text \<open>The main screen follows the link, but only from the other main screen and from the boot screen.\<close>

definition new_screen :: "display_input \<Rightarrow> string \<Rightarrow> string" where
  "new_screen d cur =
     (let main = (if link_up d then ''home_screen'' else ''no_network_screen'') in
      if cur \<in> {''home_screen'', ''no_network_screen'', ''boot_screen''} then main else cur)"

text \<open>Writing a list of entries, the first first, and a view amended by lists of texts, hidings and checks.\<close>

definition enter :: "(string \<times> 'a) list \<Rightarrow> (string \<Rightarrow> 'a) \<Rightarrow> string \<Rightarrow> 'a" where
  "enter ts f = fold (\<lambda>(n, t) f. f(n := t)) ts f"

definition amend :: "(string \<times> string) list \<Rightarrow> (string \<times> bool) list \<Rightarrow> (string \<times> bool) list \<Rightarrow> view \<Rightarrow> view" where
  "amend ts hs cs v = \<lparr>texts = enter ts (texts v), hidden = enter (map (apsnd Some) hs) (hidden v),
     checked = enter (map (apsnd Some) cs) (checked v), screen = screen v\<rparr>"

definition update_view :: "display_input \<Rightarrow> view \<Rightarrow> view" where
  "update_view d v = (amend (new_texts d) (new_hidden d) (new_checked d) v)\<lparr>screen := new_screen d (screen v)\<rparr>"

lemma amend_amend [simp]: "amend ts' hs' cs' (amend ts hs cs v) = amend (ts @ ts') (hs @ hs') (cs @ cs') v"
  by (simp add: amend_def enter_def)

lemma amend_Nil [simp]: "amend [] [] [] v = v"
  by (simp add: amend_def enter_def)

lemma amend_screen [simp]: "screen (amend ts hs cs v) = screen v" "amend ts hs cs (v\<lparr>screen := s\<rparr>) = (amend ts hs cs v)\<lparr>screen := s\<rparr>"
  by (simp_all add: amend_def)

lemma cstr_id: "NUL \<notin> set s \<Longrightarrow> cstr s = s"
  by (auto simp: cstr_def takeWhile_eq_all_conv)

lemma cstr_append: "NUL \<notin> set s \<Longrightarrow> cstr (s @ t) = s @ cstr t"
  unfolding cstr_def by (subst takeWhile_append2) auto

lemma fmt_d_no_NUL: "NUL \<notin> set (fmt_d n)"
  using NUL_notin_fmt_nat by (auto simp: fmt_d_def NUL_def)

text \<open>The names in use.\<close>

lemma named_labels [simp]:
  "named ''home_info_ipv4_addr''" "named ''home_info_ipv6_addr''" "named ''home_info_mac_addr''" "named ''menu_btn_network''"
  "named ''menu_btn_access''" "named ''dhcp_client_change_label''" "named ''usb_status_label''" "named ''hdmi_status_label''"
  "named ''cloud_status_label''" "named ''cloud_status_icon''" "named ''home_screen''" "named ''no_network_screen''"
  "\<not> named ''home_info_ipv6_addr_container''" "\<not> named ''ui_Home_Header_Cloud_Status_Icon''"
  by (simp_all add: named_def object_fields_def)

lemma named_no_NUL: "named n \<Longrightarrow> NUL \<notin> set n"
proof -
  have "list_all (\<lambda>n. NUL \<notin> set n) object_fields" by (simp add: object_fields_def NUL_def)
  then show "named n \<Longrightarrow> NUL \<notin> set n" by (simp add: named_def list_all_iff)
qed

lemmas named_cstr [simp] = cstr_id [OF named_no_NUL]

section \<open>Showing a view\<close>

definition shows_view :: "lv_env \<Rightarrow> ui \<Rightarrow> view \<Rightarrow> bool" where
  "shows_view env u v \<longleftrightarrow> objects_ok env u \<and> view_of u = v"

named_theorems display_steps \<open>steps of the display on the view it shows\<close>

lemma shows_text [display_steps]:
  "shows_view env u v \<Longrightarrow> faithful_labels env \<Longrightarrow> named n \<Longrightarrow>
     shows_view env (UpdateLabelIfChanged env n t u) (amend [(n, cstr t)] [] [] v)"
  by (simp add: shows_view_def UpdateLabelIfChanged_def uiLabelSetText_def objects_ok_request view_text amend_def enter_def
      del: run_request.simps)

lemma cstr_words [simp]:
  "cstr ''LV_OBJ_FLAG_HIDDEN'' = ''LV_OBJ_FLAG_HIDDEN''" "cstr ''LV_STATE_CHECKED'' = ''LV_STATE_CHECKED''"
  "cstr ''Connected'' = ''Connected''" "cstr ''Disconnected'' = ''Disconnected''"
  "cstr ''Change to udhcpc'' = ''Change to udhcpc''" "cstr ''Change to JetKVM'' = ''Change to JetKVM''"
  "cstr (fmt_d n @ '' active'') = fmt_d n @ '' active''"
  by (simp_all add: cstr_id NUL_def cstr_append [OF fmt_d_no_NUL, unfolded NUL_def])

lemma shows_hide [display_steps]:
  "shows_view env u v \<Longrightarrow> named n \<Longrightarrow> shows_view env (uiObjHide env n u) (amend [] [(n, True)] [] v)"
  "shows_view env u v \<Longrightarrow> named n \<Longrightarrow> shows_view env (uiObjShow env n u) (amend [] [(n, False)] [] v)"
  by (auto simp: shows_view_def uiObjHide_def uiObjShow_def uiObjAddFlag_def uiObjClearFlag_def objects_ok_request view_flag
      amend_def enter_def simp del: run_request.simps)

lemma shows_state [display_steps]:
  "shows_view env u v \<Longrightarrow> named n \<Longrightarrow> shows_view env (uiObjAddState env n ''LV_STATE_CHECKED'' u) (amend [] [] [(n, True)] v)"
  "shows_view env u v \<Longrightarrow> named n \<Longrightarrow> shows_view env (uiObjClearState env n ''LV_STATE_CHECKED'' u) (amend [] [] [(n, False)] v)"
  by (auto simp: shows_view_def uiObjAddState_def uiObjClearState_def objects_ok_request view_state
      amend_def enter_def simp del: run_request.simps)

lemma shows_no_container:
  assumes "shows_view env u v" "\<not> named (cstr n)"
  shows "shows_view env (uiObjHide env n u) v" "shows_view env (uiObjShow env n u) v"
  using assms by (auto simp: shows_view_def uiObjHide_def uiObjShow_def uiObjAddFlag_def uiObjClearFlag_def objects_ok_request
      view_flag simp del: run_request.simps)

lemma shows_other:
  "shows_view env u v \<Longrightarrow> shows_view env (uiImgSetSrc env n i u) v"
  "shows_view env u v \<Longrightarrow> shows_view env (uiSetVar env n x u) v"
  by (auto simp: shows_view_def uiImgSetSrc_def uiSetVar_def objects_ok_request view_other simp del: run_request.simps)

lemma shows_screen_if:
  assumes "shows_view env u v" "faithful_screens env" "named n"
  shows "shows_view env (SwitchToScreenIf env n from u)
    (v\<lparr>screen := if from = [] \<or> screen v \<in> set from then n else screen v\<rparr>)"
proof -
  obtain cur u' where c: "uiGetCurrentScreen env u = (cur, u')" by fastforce
  with current_screen_view [OF assms(2), of u] assms(1) have u': "cur = screen v" "shows_view env u' v"
    by (simp_all add: shows_view_def)
  then show ?thesis using assms(2,3)
    by (auto simp: SwitchToScreenIf_def c uiSwitchToScreen_def shows_view_def objects_ok_request view_screen
        simp del: run_request.simps)
qed

lemma shows_status_line [display_steps]:
  assumes "shows_view env u v" "faithful_labels env" "named n"
  shows "shows_view env (status_line env n on u)
    (amend [(n, if on then ''Connected'' else ''Disconnected'')] [] [(n, on)] v)"
  using shows_state(1) [OF shows_text [OF assms, of "''Connected''"] assms(3)]
    shows_state(2) [OF shows_text [OF assms, of "''Disconnected''"] assms(3)] by (simp add: status_line_def)

lemma shows_network:
  assumes "shows_view env u v" "faithful_labels env"
  shows "shows_view env (UpdateLabelIfChanged env ''home_info_mac_addr'' mac
      (UpdateLabelAndChangeVisibility env ''home_info_ipv6_addr'' ip6 (UpdateLabelIfChanged env ''home_info_ipv4_addr'' ip4 u)))
    (amend [(''home_info_ipv4_addr'', cstr ip4), (''home_info_ipv6_addr'', cstr ip6), (''home_info_mac_addr'', cstr mac)]
       [(''home_info_ipv6_addr'', ip6 = [])] [] v)"
proof -
  let ?u = "UpdateLabelIfChanged env ''home_info_ipv6_addr'' ip6 (UpdateLabelIfChanged env ''home_info_ipv4_addr'' ip4 u)"
  let ?v = "amend [(''home_info_ipv4_addr'', cstr ip4), (''home_info_ipv6_addr'', cstr ip6)] [] [] v"
  have c: "\<not> named (cstr ''home_info_ipv6_addr_container'')" by (simp add: cstr_id NUL_def)
  have "shows_view env ?u ?v" using assms by (auto intro: shows_text [OF shows_text, of env u v, simplified])
  note h = shows_hide [OF this named_labels(2)]
  have "shows_view env (UpdateLabelAndChangeVisibility env ''home_info_ipv6_addr'' ip6 (UpdateLabelIfChanged env ''home_info_ipv4_addr'' ip4 u))
    (amend [] [(''home_info_ipv6_addr'', ip6 = [])] [] ?v)"
    using shows_no_container(1) [OF h(1) c] shows_no_container(2) [OF h(2) c]
    by (auto simp: UpdateLabelAndChangeVisibility_def Let_def)
  from shows_text [OF this assms(2) named_labels(3), of mac] show ?thesis by simp
qed

lemma shows_update_network [display_steps]:
  assumes "shows_view env u v" "faithful_labels env"
  shows "shows_view env (update_network env d u) (amend (network_texts d) (network_hidden d) [] v)"
  using assms(1) shows_network [OF assms]
  by (auto simp: update_network_def network_texts_def network_hidden_def split: option.split)

lemma shows_update_dhcp [display_steps]:
  assumes "shows_view env u v" "faithful_labels env"
  shows "shows_view env (update_dhcp env d u) (amend (dhcp_texts d) [] [] v)"
  using shows_text [OF assms named_labels(6), of "''Change to udhcpc''"] shows_text [OF assms named_labels(6), of "''Change to JetKVM''"]
    assms(1) by (simp add: update_dhcp_def dhcp_texts_def)

lemma shows_main_screen [display_steps]:
  assumes "shows_view env u v" "faithful_screens env"
  shows "shows_view env (update_main_screen env d u) (v\<lparr>screen := new_screen d (screen v)\<rparr>)"
proof -
  note s = shows_screen_if [OF shows_other(2) [OF assms(1)] assms(2)]
  have "new_screen d c = (if [''no_network_screen'', ''boot_screen''] = [] \<or> c \<in> set [''no_network_screen'', ''boot_screen''] then ''home_screen'' else c)"
    if "link_up d" for c using that by (auto simp: new_screen_def)
  moreover have "new_screen d c = (if [''home_screen'', ''boot_screen''] = [] \<or> c \<in> set [''home_screen'', ''boot_screen''] then ''no_network_screen'' else c)"
    if "\<not> link_up d" for c using that by (auto simp: new_screen_def)
  ultimately show ?thesis
    using s [OF named_labels(11), of "[''no_network_screen'', ''boot_screen'']"] s [OF named_labels(12), of "[''home_screen'', ''boot_screen'']"]
    by (cases "link_up d") (simp_all only: update_main_screen_def link_up_def [symmetric] if_True if_False not_False_eq_True simp_thms)
qed

lemma shows_update_cloud [display_steps]:
  assumes "shows_view env u v"
  shows "shows_view env (update_cloud env d u)
    (amend [] [(''cloud_status_icon'', cloudConnectionState d = CloudConnectionStateNotConfigured)] [] v)"
  using shows_hide [OF assms named_labels(10)]
  by (cases "cloudConnectionState d") (auto simp: update_cloud_def intro: shows_other)

lemma shows_update:
  assumes "shows_view env u v" "faithful_labels env" "faithful_screens env"
  shows "shows_view env (updateDisplay env d u) (update_view d v)"
proof -
  note hide = shows_hide(1) [OF shows_hide(1) [OF shows_update_network [OF assms(1,2), of d] named_labels(4)] named_labels(5)]
  note dhcp = shows_update_dhcp [OF hide assms(2), of d]
  note usb = shows_status_line [OF dhcp assms(2) named_labels(7), of "usbState d = ''configured''"]
  note hdmi = shows_status_line [OF usb assms(2) named_labels(8), of "videoReady d"]
  note sessions = shows_text [OF hdmi assms(2) named_labels(9), of "fmt_d (actionSessions d) @ '' active''"]
  from shows_update_cloud [OF shows_main_screen [OF sessions assms(3), of d], of d] show ?thesis
    by (simp add: updateDisplay_def updateDisplayUsbState_def update_view_def new_texts_def new_hidden_def new_checked_def Let_def)
qed

section \<open>The update as a session\<close>

text \<open>Every request of the update has the class its object needs.\<close>

lemma session_request:
  "(session_step request_ok env)\<^sup>*\<^sup>* s u \<Longrightarrow> request_ok q \<Longrightarrow> (session_step request_ok env)\<^sup>*\<^sup>* s (run_request env q u)"
  by (meson by_request rtranclp.rtrancl_into_rtrancl)

lemma session_class [simp]:
  "class_named ''home_info_ipv4_addr'' = Some Label" "class_named ''home_info_ipv6_addr'' = Some Label"
  "class_named ''home_info_mac_addr'' = Some Label" "class_named ''dhcp_client_change_label'' = Some Label"
  "class_named ''usb_status_label'' = Some Label" "class_named ''hdmi_status_label'' = Some Label"
  "class_named ''cloud_status_label'' = Some Label" "class_named ''cloud_status_icon'' = Some Image"
  by (simp_all add: class_named_iff, unfold field_classes_def classes_of_all_concat map_classes_of_layouts) (simp_all del: list.map)

lemma session_wrappers:
  assumes "(session_step request_ok env)\<^sup>*\<^sup>* s u"
  shows "named n \<Longrightarrow> class_named n = Some Label \<Longrightarrow> (session_step request_ok env)\<^sup>*\<^sup>* s (UpdateLabelIfChanged env n t u)"
    "(session_step request_ok env)\<^sup>*\<^sup>* s (uiObjHide env n u)" "(session_step request_ok env)\<^sup>*\<^sup>* s (uiObjShow env n u)"
    "(session_step request_ok env)\<^sup>*\<^sup>* s (uiObjAddState env n x u)" "(session_step request_ok env)\<^sup>*\<^sup>* s (uiObjClearState env n x u)"
    "named n \<Longrightarrow> class_named n = Some Image \<Longrightarrow> (session_step request_ok env)\<^sup>*\<^sup>* s (uiImgSetSrc env n i u)"
    "(session_step request_ok env)\<^sup>*\<^sup>* s (uiSetVar env n t u)" "(session_step request_ok env)\<^sup>*\<^sup>* s (snd (uiGetCurrentScreen env u))"
    "named n \<Longrightarrow> n \<in> set (take 12 object_fields) \<Longrightarrow> (session_step request_ok env)\<^sup>*\<^sup>* s (uiSwitchToScreen env n u)"
proof -
  have "snd (uiGetCurrentScreen env u) = snd (jetkvm_ui_get_current_screen env generated_index u)"
    by (simp add: uiGetCurrentScreen_def split: prod.split option.split)
  then show "(session_step request_ok env)\<^sup>*\<^sup>* s (snd (uiGetCurrentScreen env u))"
    using rtranclp.rtrancl_into_rtrancl [OF assms by_query] by simp
qed (auto simp: UpdateLabelIfChanged_def uiLabelSetText_def uiObjHide_def uiObjShow_def uiObjAddFlag_def uiObjClearFlag_def
    uiObjAddState_def uiObjClearState_def uiImgSetSrc_def uiSetVar_def uiSwitchToScreen_def
    simp del: run_request.simps intro!: session_request assms)

lemma session_screen_if:
  assumes "(session_step request_ok env)\<^sup>*\<^sup>* s u" "named n" "n \<in> set (take 12 object_fields)"
  shows "(session_step request_ok env)\<^sup>*\<^sup>* s (SwitchToScreenIf env n from u)"
  using session_wrappers(8) [OF assms(1)] assms(2,3)
  by (auto simp: SwitchToScreenIf_def split: prod.split intro: session_wrappers(9))

lemma session_status_line:
  "(session_step request_ok env)\<^sup>*\<^sup>* s u \<Longrightarrow> named n \<Longrightarrow> class_named n = Some Label \<Longrightarrow>
     (session_step request_ok env)\<^sup>*\<^sup>* s (status_line env n on u)"
  by (auto simp: status_line_def intro!: session_wrappers)

lemma session_update:
  assumes "(session_step request_ok env)\<^sup>*\<^sup>* s u"
  shows "(session_step request_ok env)\<^sup>*\<^sup>* s (updateDisplay env d u)"
proof -
  have net: "(session_step request_ok env)\<^sup>*\<^sup>* s (update_network env d u)" if "(session_step request_ok env)\<^sup>*\<^sup>* s u" for u
    using that by (auto simp: update_network_def UpdateLabelAndChangeVisibility_def Let_def split: option.split intro!: session_wrappers)
  have dhcp: "(session_step request_ok env)\<^sup>*\<^sup>* s (update_dhcp env d u)" if "(session_step request_ok env)\<^sup>*\<^sup>* s u" for u
    using that by (auto simp: update_dhcp_def intro!: session_wrappers)
  have main: "(session_step request_ok env)\<^sup>*\<^sup>* s (update_main_screen env d u)" if "(session_step request_ok env)\<^sup>*\<^sup>* s u" for u
    using that unfolding update_main_screen_def
    by (cases "case network d of None \<Rightarrow> False | Some (_, _, _, up) \<Rightarrow> up")
      (simp_all only: if_True if_False, (intro session_screen_if session_wrappers, assumption, simp_all add: object_fields_def)+)
  have cloud: "(session_step request_ok env)\<^sup>*\<^sup>* s (update_cloud env d u)" if "(session_step request_ok env)\<^sup>*\<^sup>* s u" for u
    using that by (cases "cloudConnectionState d") (auto simp: update_cloud_def intro!: session_wrappers)
  show ?thesis unfolding updateDisplay_def updateDisplayUsbState_def Let_def
    by (intro cloud main session_status_line session_wrappers dhcp net assms) simp_all
qed

lemma enter_lookup: "enter ts f n = (case map_of (rev ts) n of None \<Rightarrow> f n | Some t \<Rightarrow> t)"
  by (induction ts arbitrary: f) (auto simp: enter_def map_add_def split: option.split)

lemma enter_enter: "enter ts (enter ts f) = enter ts f"
  by (rule ext) (simp add: enter_lookup split: option.split)

lemma update_view_idem: "update_view d (update_view d v) = update_view d v"
  by (simp add: update_view_def amend_def enter_enter) (simp add: new_screen_def Let_def)

section \<open>Stated properties\<close>



text \<open>The icon of the cloud connection never blinks: the fades are asked of an object that no screen has, so they leave the display as
  it is.\<close>

lemma cloud_fades [simp]: "cloud_fade_out env u = u" "cloud_fade_in env u = u"
proof -
  have "\<not> named (cstr ''ui_Home_Header_Cloud_Status_Icon'')" by (simp add: cstr_id NUL_def)
  then show "cloud_fade_out env u = u" "cloud_fade_in env u = u"
    by (simp_all add: cloud_fade_out_def cloud_fade_in_def uiObjFadeIn_def uiObjFadeOut_def fade_in.run_call fade_out.run_call unnamed_object)
qed

end
