(* ===== verification/Go_Backlight_Props.thy ===== *)
theory Go_Backlight_Props
  imports Go_Backlight
begin

text \<open>
  Properties of the backlight: no step panics and the brightness is the one of the state it is in; the course of an idle
  display after new settings; and settings the handler accepts but \<^verbatim>\<open>setDisplayBrightness\<close> does not.
\<close>

section \<open>Well-formed states\<close>

definition settings_valid :: "backlight_settings \<Rightarrow> bool" where
  "settings_valid p \<longleftrightarrow> 0 \<le> MaxBrightness p \<and> MaxBrightness p \<le> 255 \<and> 0 \<le> DimAfter p \<and> 0 \<le> OffAfter p"

definition backlight_ok :: "backlight \<Rightarrow> bool" where
  "backlight_ok b \<longleftrightarrow> settings_valid (rpcGetBacklightSettings b) \<and> backlightState b \<in> {0, 1, 2}"

lemmas ok_simps = backlight_ok_def settings_valid_def rpcGetBacklightSettings_def

lemma set_brightness_frame [simp]:
  "maxBrightness (snd (setDisplayBrightness a x b)) = maxBrightness b"
  "dimAfterSec (snd (setDisplayBrightness a x b)) = dimAfterSec b"
  "offAfterSec (snd (setDisplayBrightness a x b)) = offAfterSec b"
  "backlightState (snd (setDisplayBrightness a x b)) = backlightState b"
  "dimTicker (snd (setDisplayBrightness a x b)) = dimTicker b"
  "offTicker (snd (setDisplayBrightness a x b)) = offTicker b"
  by (simp_all add: setDisplayBrightness_def split: sysfs.split)

lemma set_brightness_level:
  "level (snd (setDisplayBrightness a x b)) = (if 0 \<le> x \<and> x \<le> 100 \<and> a = Sys_writes then x else level b)"
  by (auto simp: setDisplayBrightness_def split: sysfs.split)

text \<open>The operations on well-formed states, in closed form.\<close>

lemma tick_dim_eq:
  "dimTicker b \<noteq> None \<Longrightarrow> tick_displayDim a b =
     Some ((snd (setDisplayBrightness a (maxBrightness b sdiv 2) b))\<lparr>dimTicker := Some Stopped, backlightState := 1\<rparr>)"
  by (simp add: tick_displayDim_def case_prod_beta)

lemma tick_off_eq:
  "offTicker b \<noteq> None \<Longrightarrow> tick_displayOff a b =
     Some ((snd (setDisplayBrightness a 0 b))\<lparr>offTicker := Some Stopped, backlightState := 2\<rparr>)"
  by (simp add: tick_displayOff_def case_prod_beta)

lemma start_ticker_pos: "0 < sec \<Longrightarrow> start_ticker sec = Some (Armed sec sec)"
  by (simp add: start_ticker_def)

definition rearm :: "int \<Rightarrow> ticker option \<Rightarrow> ticker option" where
  "rearm sec t = (if sec = 0 \<or> t = None then t else Some (Armed sec sec))"

definition renew :: "int \<Rightarrow> ticker option \<Rightarrow> ticker option" where
  "renew sec t = (if sec = 0 then stop_ticker t else Some (Armed sec sec))"

lemma wake_eq:
  assumes "backlight_ok b" "backlightState b \<noteq> 0 \<or> force" "maxBrightness b \<noteq> 0"
  shows "wakeDisplay a force b = Some ((snd (setDisplayBrightness a (maxBrightness b) b))
    \<lparr>dimTicker := rearm (dimAfterSec b) (dimTicker b), offTicker := rearm (offAfterSec b) (offTicker b), backlightState := 0\<rparr>)"
  using assms by (auto simp: wakeDisplay_def reset_dim_def reset_off_def rearm_def ok_simps start_ticker_pos case_prod_beta)

lemma start_eq:
  assumes "backlight_ok b" "maxBrightness b \<noteq> 0"
  shows "startBacklightTickers a b = Some (b\<lparr>dimTicker := renew (dimAfterSec b) (dimTicker b),
     offTicker := renew (offAfterSec b) (offTicker b), dimLoops := dimLoops b + (if dimAfterSec b = 0 then 0 else 1),
     offLoops := offLoops b + (if offAfterSec b = 0 then 0 else 1)\<rparr>)"
  using assms by (auto simp: startBacklightTickers_def new_dim_def new_off_def renew_def ok_simps start_ticker_pos Let_def)

lemma pass_None [simp]: "snd (pass t) = None \<longleftrightarrow> t = None" "pass t = (True, t') \<Longrightarrow> t' \<noteq> None"
  by (cases t rule: pass.cases; auto split: if_splits)+

text \<open>A predicate that both tick handlers and the passing of time keep is kept by a second.\<close>

lemma second_rule:
  assumes "second d a1 a2 b = Some b'"
    and start: "\<And>t1 t2. Q (b\<lparr>dimTicker := t1, offTicker := t2\<rparr>)"
    and dim: "\<And>b b'. Q b \<Longrightarrow> tick_displayDim a1 b = Some b' \<Longrightarrow> Q b'"
    and off: "\<And>b b'. Q b \<Longrightarrow> tick_displayOff a2 b = Some b' \<Longrightarrow> Q b'"
  shows "Q b'"
proof -
  have dims: "dim_due due a1 b = Some b' \<Longrightarrow> Q b \<Longrightarrow> Q b'" for due b b'
    using dim by (auto simp: dim_due_def split: if_splits)
  have offs: "off_due due a2 b = Some b' \<Longrightarrow> Q b \<Longrightarrow> Q b'" for due b b'
    using off by (auto simp: off_due_def split: if_splits)
  obtain dim t1 off t2 where p: "pass (dimTicker b) = (dim, t1)" "pass (offTicker b) = (off, t2)" by fastforce
  let ?b = "b\<lparr>dimTicker := t1, offTicker := t2\<rparr>"
  have "(if d then Option.bind (dim_due dim a1 ?b) (off_due off a2) else Option.bind (off_due off a2 ?b) (dim_due dim a1)) = Some b'"
    using assms(1) by (simp add: second_def p Let_def)
  then obtain c where "dim_due dim a1 ?b = Some c \<and> off_due off a2 c = Some b' \<or> off_due off a2 ?b = Some c \<and> dim_due dim a1 c = Some b'"
    by (auto simp: bind_eq_Some_conv split: if_splits)
  then show ?thesis using dims offs start by blast
qed

lemma tick_dim_frame: "tick_displayDim a b = Some b' \<Longrightarrow> maxBrightness b' = maxBrightness b \<and> dimAfterSec b' = dimAfterSec b \<and>
    offAfterSec b' = offAfterSec b \<and> backlightState b' = 1 \<and> offTicker b' = offTicker b \<and>
    level b' = (if 0 \<le> maxBrightness b sdiv 2 \<and> maxBrightness b sdiv 2 \<le> 100 \<and> a = Sys_writes then maxBrightness b sdiv 2 else level b)"
  by (auto simp: tick_displayDim_def case_prod_beta set_brightness_level split: if_splits)

lemma tick_off_frame: "tick_displayOff a b = Some b' \<Longrightarrow> maxBrightness b' = maxBrightness b \<and> dimAfterSec b' = dimAfterSec b \<and>
    offAfterSec b' = offAfterSec b \<and> backlightState b' = 2 \<and> dimTicker b' = dimTicker b \<and>
    level b' = (if a = Sys_writes then 0 else level b)"
  by (auto simp: tick_displayOff_def case_prod_beta set_brightness_level split: if_splits)

lemma half: "0 \<le> x \<Longrightarrow> x sdiv 2 = x div (2 :: int)"
  by (simp add: signed_divide_int_def sgn_if)

lemma second_defined: "\<exists>b'. second d a1 a2 b = Some b'"
proof -
  obtain dim t1 where 1: "pass (dimTicker b) = (dim, t1)" by fastforce
  obtain off t2 where 2: "pass (offTicker b) = (off, t2)" by fastforce
  have "dim \<Longrightarrow> t1 \<noteq> None" "off \<Longrightarrow> t2 \<noteq> None" using pass_None(2) 1 2 by auto
  then show ?thesis
    by (cases d; cases dim; cases off) (simp_all add: second_def 1 2 Let_def dim_due_def off_due_def tick_dim_eq tick_off_eq)
qed

lemma wake_defined: "backlight_ok b \<Longrightarrow> \<exists>b'. wakeDisplay a force b = Some b'"
  by (cases "(backlightState b \<noteq> 0 \<or> force) \<and> maxBrightness b \<noteq> 0") (auto simp: wake_eq, auto simp: wakeDisplay_def)

section \<open>Brightness and state\<close>

text \<open>The brightness that belongs to the state: normal, dimmed to one half, off.\<close>

definition lit :: "backlight \<Rightarrow> bool" where
  "lit b \<longleftrightarrow> level b = (if backlightState b = 0 then maxBrightness b
     else if backlightState b = 1 then maxBrightness b div 2 else 0)"

definition lit_inv :: "backlight_settings \<Rightarrow> int \<Rightarrow> backlight \<Rightarrow> bool" where
  "lit_inv p l b \<longleftrightarrow> backlight_ok b \<and> maxBrightness b \<le> 100 \<and>
     (lit b \<or> backlightState b = 0 \<and> level b = l \<and> rpcGetBacklightSettings b = p)"

lemma lit_second:
  assumes "lit_inv p l b" "second d Sys_writes Sys_writes b = Some b'"
  shows "lit_inv p l b'"
proof (rule second_rule [OF assms(2)])
  fix t1 t2 show "lit_inv p l (b\<lparr>dimTicker := t1, offTicker := t2\<rparr>)"
    using assms(1) by (auto simp: lit_inv_def lit_def ok_simps)
next
  fix c c' assume "lit_inv p l c" "tick_displayDim Sys_writes c = Some c'"
  then show "lit_inv p l c'" using tick_dim_frame [of Sys_writes c c'] by (auto simp: lit_inv_def lit_def ok_simps half)
next
  fix c c' assume "lit_inv p l c" "tick_displayOff Sys_writes c = Some c'"
  then show "lit_inv p l c'" using tick_off_frame [of Sys_writes c c'] by (auto simp: lit_inv_def lit_def ok_simps)
qed

lemma lit_wake:
  assumes "lit_inv p l b" "wakeDisplay Sys_writes force b = Some b'"
  shows "lit_inv p l b'" "backlightState b \<noteq> 0 \<or> force \<Longrightarrow> maxBrightness b \<noteq> 0 \<Longrightarrow> lit b' \<and> backlightState b' = 0"
proof -
  have 1: "lit_inv p l b'" if "\<not> ((backlightState b \<noteq> 0 \<or> force) \<and> maxBrightness b \<noteq> 0)"
    using that assms by (auto simp: wakeDisplay_def split: if_splits)
  have 2: "lit_inv p l b' \<and> lit b' \<and> backlightState b' = 0" if "backlightState b \<noteq> 0 \<or> force" "maxBrightness b \<noteq> 0"
    using assms that by (auto simp: lit_inv_def wake_eq lit_def ok_simps set_brightness_level)
  show "lit_inv p l b'" using 1 2 by blast
  show "backlightState b \<noteq> 0 \<or> force \<Longrightarrow> maxBrightness b \<noteq> 0 \<Longrightarrow> lit b' \<and> backlightState b' = 0" using 2 by blast
qed

text \<open>Accepted and saved settings.\<close>

definition configured :: "backlight_settings \<Rightarrow> backlight \<Rightarrow> backlight" where
  "configured p b = b\<lparr>maxBrightness := MaxBrightness p, dimAfterSec := DimAfter p, offAfterSec := OffAfter p\<rparr>"

lemma settings_rejected: "\<not> settings_valid p \<Longrightarrow> \<exists>e. rpcSetBacklightSettings saved a1 a2 p b = Some (Some e, b)"
  by (auto simp: rpcSetBacklightSettings_def settings_valid_def)

lemma configured_ok: "settings_valid p \<Longrightarrow> backlightState b \<in> {0, 1, 2} \<Longrightarrow> backlight_ok (configured p b)"
  by (simp add: configured_def ok_simps)

lemma settings_dark:
  "settings_valid p \<Longrightarrow> MaxBrightness p = 0 \<Longrightarrow> rpcSetBacklightSettings True a1 a2 p b =
     Some (None, snd (setDisplayBrightness a1 0 (configured p b)))"
  by (simp add: rpcSetBacklightSettings_def settings_valid_def configured_def startBacklightTickers_def wakeDisplay_def Let_def)

lemma settings_accepted:
  assumes "settings_valid p" "MaxBrightness p \<noteq> 0" "backlightState b \<in> {0, 1, 2}"
  shows "\<exists>b'. rpcSetBacklightSettings True a1 a2 p b = Some (None, b') \<and> rpcGetBacklightSettings b' = p \<and> backlightState b' = 0 \<and>
    level b' = (if MaxBrightness p \<le> 100 \<and> a2 = Sys_writes then MaxBrightness p else level b) \<and>
    dimTicker b' = renew (DimAfter p) (dimTicker b) \<and> offTicker b' = renew (OffAfter p) (offTicker b)"
proof -
  let ?b = "configured p b"
  from start_eq [OF configured_ok [OF assms(1,3)], of a1] assms(2) obtain c where
    c: "startBacklightTickers a1 ?b = Some c" "dimTicker c = renew (DimAfter p) (dimTicker b)"
      "offTicker c = renew (OffAfter p) (offTicker b)" "rpcGetBacklightSettings c = p" "backlightState c \<in> {0, 1, 2}" "level c = level b"
    using assms(3) by (simp add: configured_def rpcGetBacklightSettings_def)
  from c(4) have p: "maxBrightness c = MaxBrightness p" "dimAfterSec c = DimAfter p" "offAfterSec c = OffAfter p"
    by (auto simp: rpcGetBacklightSettings_def)
  have "backlight_ok c" using c(4,5) assms(1) by (simp add: backlight_ok_def)
  from wake_eq [OF this, of True a2] p assms(2) obtain b' where
    b': "wakeDisplay a2 True c = Some b'" "rpcGetBacklightSettings b' = p" "backlightState b' = 0"
      "level b' = level (snd (setDisplayBrightness a2 (MaxBrightness p) c))"
      "dimTicker b' = rearm (DimAfter p) (dimTicker c)" "offTicker b' = rearm (OffAfter p) (offTicker c)"
    by (simp add: rpcGetBacklightSettings_def)
  have "rpcSetBacklightSettings True a1 a2 p b = Some (None, b')"
    using c(1) b'(1) assms(1) by (simp add: rpcSetBacklightSettings_def settings_valid_def configured_def Let_def)
  then show ?thesis using b' c assms(1)
    by (auto simp: set_brightness_level settings_valid_def rearm_def renew_def)
qed

lemma lit_settings:
  assumes "lit_inv p l b" "MaxBrightness q \<le> 100" "rpcSetBacklightSettings True Sys_writes Sys_writes q b = Some (e, b')"
  shows "lit_inv p l b'"
proof (cases "settings_valid q")
  case False
  from settings_rejected [OF False, of True Sys_writes Sys_writes b] assms(1,3) show ?thesis by auto
next
  case True
  have s: "backlightState b \<in> {0, 1, 2}" using assms(1) by (simp add: lit_inv_def ok_simps)
  show ?thesis
  proof (cases "MaxBrightness q = 0")
    case m: True
    then have "b' = snd (setDisplayBrightness Sys_writes 0 (configured q b))" using settings_dark [OF True m] assms(3) by simp
    then have "lit b' \<and> backlight_ok b' \<and> maxBrightness b' \<le> 100"
      using s True m by (auto simp: lit_def ok_simps configured_def set_brightness_level)
    then show ?thesis by (simp add: lit_inv_def)
  next
    case False
    from settings_accepted [OF True False s, of Sys_writes Sys_writes] assms(2,3) True have
      "rpcGetBacklightSettings b' = q \<and> backlightState b' = 0 \<and> level b' = MaxBrightness q" by auto
    then show ?thesis using assms(2) True by (auto simp: lit_inv_def lit_def backlight_ok_def) (auto simp: rpcGetBacklightSettings_def)
  qed
qed

interpretation backlight_lit: invariant_system "lit_inv p l"
  "backlight_step (\<lambda>a. a = Sys_writes) (\<lambda>saved q. saved \<and> MaxBrightness q \<le> 100)" "lit_inv p l" for p l
proof unfold_locales
  fix s t assume i: "lit_inv p l s" and t: "backlight_step (\<lambda>a. a = Sys_writes) (\<lambda>saved q. saved \<and> MaxBrightness q \<le> 100) s t"
  from t show "lit_inv p l t"
    by cases (use i in \<open>auto intro: lit_second lit_wake lit_settings\<close>)
qed simp

lemma start_defined: "backlight_ok b \<Longrightarrow> \<exists>b'. startBacklightTickers a b = Some b'"
  by (cases "maxBrightness b = 0") (simp add: startBacklightTickers_def, simp add: start_eq)

lemma lit_start:
  assumes "lit_inv p l b" "startBacklightTickers Sys_writes b = Some b'"
  shows "lit_inv p l b'"
proof (cases "maxBrightness b = 0")
  case True
  then have "b' = snd (setDisplayBrightness Sys_writes 0 b)" using assms(2) by (simp add: startBacklightTickers_def)
  then show ?thesis using True assms(1) by (auto simp: lit_inv_def lit_def ok_simps set_brightness_level)
next
  case False
  have "backlight_ok b" using assms(1) by (simp add: lit_inv_def)
  from start_eq [OF this False, of Sys_writes] assms show ?thesis by (auto simp: lit_inv_def lit_def ok_simps)
qed

lemma boot_lit: "settings_valid p \<Longrightarrow> MaxBrightness p \<le> 100 \<Longrightarrow> lit_inv p l (backlight_boot p l)"
  by (simp add: lit_inv_def ok_simps backlight_boot_def)

section \<open>An idle display\<close>

text \<open>Seconds without any event; \<open>order i\<close> is whether the dim handler goes first in second \<open>i\<close>.\<close>

fun run_seconds :: "(nat \<Rightarrow> bool) \<Rightarrow> nat \<Rightarrow> backlight \<Rightarrow> backlight option" where
  "run_seconds order 0 b = Some b"
| "run_seconds order (Suc n) b = Option.bind (run_seconds order n b) (second (order n) Sys_writes Sys_writes)"

text \<open>The state and the brightness \<open>n\<close> seconds after the display woke with settings \<open>p\<close>.\<close>

definition timeline :: "bool \<Rightarrow> backlight_settings \<Rightarrow> nat \<Rightarrow> int \<times> int" where
  "timeline dim_first p n =
     (let dimmed = (DimAfter p \<noteq> 0 \<and> DimAfter p \<le> int n); off = (OffAfter p \<noteq> 0 \<and> OffAfter p \<le> int n) in
      if off \<and> (\<not> dimmed \<or> DimAfter p < OffAfter p \<or> DimAfter p = OffAfter p \<and> dim_first) then (2, 0)
      else if dimmed then (1, MaxBrightness p div 2) else (0, MaxBrightness p))"

text \<open>What a ticker of \<open>sec\<close> seconds is after \<open>n\<close> seconds, when its handler stops it.\<close>

definition aged :: "int \<Rightarrow> nat \<Rightarrow> ticker option \<Rightarrow> bool" where
  "aged sec n t \<longleftrightarrow> (if sec = 0 then t \<in> {None, Some Stopped}
     else t = Some (if int n < sec then Armed sec (sec - int n) else Stopped))"

lemma aged_start: "0 \<le> sec \<Longrightarrow> aged sec 0 (renew sec t)"
  by (auto simp: aged_def renew_def stop_ticker_def)

lemma aged_pass:
  assumes "aged sec n t" "0 \<le> sec"
  shows "fst (pass t) \<longleftrightarrow> sec = int n + 1" "sec \<noteq> int n + 1 \<Longrightarrow> aged sec (Suc n) (snd (pass t))"
    "sec = int n + 1 \<Longrightarrow> snd (pass t) \<noteq> None \<and> aged sec (Suc n) (Some Stopped)"
  using assms by (auto simp: aged_def split: if_splits)

lemma second_writes:
  assumes "pass (dimTicker b) = (dim, t1)" "pass (offTicker b) = (off, t2)" "0 \<le> maxBrightness b" "maxBrightness b \<le> 100"
  shows "\<exists>b'. second d Sys_writes Sys_writes b = Some b' \<and> rpcGetBacklightSettings b' = rpcGetBacklightSettings b \<and>
    dimTicker b' = (if dim then Some Stopped else t1) \<and> offTicker b' = (if off then Some Stopped else t2) \<and>
    (backlightState b', level b') = (if off \<and> (d \<or> \<not> dim) then (2, 0)
       else if dim then (1, maxBrightness b div 2) else (backlightState b, level b))"
proof -
  have "dim \<Longrightarrow> t1 \<noteq> None" "off \<Longrightarrow> t2 \<noteq> None" using pass_None(2) assms(1,2) by auto
  moreover have "maxBrightness b div 2 \<le> 100" using assms(3,4) by linarith
  ultimately show ?thesis using assms(3,4)
    by (cases d; cases dim; cases off)
      (simp_all add: second_def assms(1,2) Let_def dim_due_def off_due_def tick_dim_eq tick_off_eq rpcGetBacklightSettings_def
        set_brightness_level half)
qed

definition idle :: "bool \<Rightarrow> backlight_settings \<Rightarrow> nat \<Rightarrow> backlight \<Rightarrow> bool" where
  "idle dim_first p n b \<longleftrightarrow> rpcGetBacklightSettings b = p \<and> (backlightState b, level b) = timeline dim_first p n \<and>
     aged (DimAfter p) n (dimTicker b) \<and> aged (OffAfter p) n (offTicker b)"

lemma idle_second:
  assumes "idle dim_first p n b" "settings_valid p" "MaxBrightness p \<le> 100"
    and "int n + 1 = DimAfter p \<Longrightarrow> d = dim_first"
  shows "\<exists>b'. second d Sys_writes Sys_writes b = Some b' \<and> idle dim_first p (Suc n) b'"
proof -
  obtain dim t1 off t2 where p: "pass (dimTicker b) = (dim, t1)" "pass (offTicker b) = (off, t2)" by fastforce
  have v: "0 \<le> DimAfter p" "0 \<le> OffAfter p" "0 \<le> MaxBrightness p" using assms(2) by (simp_all add: settings_valid_def)
  have ag: "aged (DimAfter p) n (dimTicker b)" "aged (OffAfter p) n (offTicker b)" using assms(1) by (simp_all add: idle_def)
  note a = aged_pass [OF ag(1) v(1), unfolded p fst_conv snd_conv] aged_pass [OF ag(2) v(2), unfolded p fst_conv snd_conv]
  have d: "dim \<longleftrightarrow> DimAfter p = int n + 1" "\<not> dim \<Longrightarrow> aged (DimAfter p) (Suc n) t1"
    "dim \<Longrightarrow> aged (DimAfter p) (Suc n) (Some Stopped)"
    and o: "off \<longleftrightarrow> OffAfter p = int n + 1" "\<not> off \<Longrightarrow> aged (OffAfter p) (Suc n) t2"
    "off \<Longrightarrow> aged (OffAfter p) (Suc n) (Some Stopped)"
    using a by blast+
  have m: "maxBrightness b = MaxBrightness p" using assms(1) by (auto simp: idle_def rpcGetBacklightSettings_def)
  with second_writes [OF p, of d] v(3) assms(3) obtain b' where b': "second d Sys_writes Sys_writes b = Some b'"
    "rpcGetBacklightSettings b' = rpcGetBacklightSettings b"
    "dimTicker b' = (if dim then Some Stopped else t1)" "offTicker b' = (if off then Some Stopped else t2)"
    "(backlightState b', level b') = (if off \<and> (d \<or> \<not> dim) then (2, 0)
       else if dim then (1, maxBrightness b div 2) else (backlightState b, level b))" by auto
  have t: "(backlightState b, level b) = timeline dim_first p n" using assms(1) by (simp add: idle_def)
  have "(backlightState b', level b') = timeline dim_first p (Suc n)"
    using assms(4) v unfolding b'(5) t m d(1) o(1) by (auto simp: timeline_def Let_def)
  then show ?thesis using b' d o assms(1) by (auto simp: idle_def)
qed

lemma idle_run:
  assumes "idle (order (nat (DimAfter p) - 1)) p 0 b" "settings_valid p" "MaxBrightness p \<le> 100"
  shows "\<exists>b'. run_seconds order n b = Some b' \<and> idle (order (nat (DimAfter p) - 1)) p n b'"
proof (induction n)
  case (Suc n)
  then obtain c where c: "run_seconds order n b = Some c" "idle (order (nat (DimAfter p) - 1)) p n c" by blast
  have "order n = order (nat (DimAfter p) - 1)" if "int n + 1 = DimAfter p" using that by (metis diff_Suc_1 nat_int of_nat_Suc add.commute)
  from idle_second [OF c(2) assms(2,3) this] c(1) show ?case by simp
qed (use assms in simp)

section \<open>Settings above one hundred\<close>

lemma above_second:
  assumes "second d a1 a2 b = Some b'" "maxBrightness b = m" "100 < m" "level b \<in> L" "0 \<in> L" "m \<le> 201 \<Longrightarrow> m div 2 \<in> L"
  shows "maxBrightness b' = m \<and> level b' \<in> L"
  by (rule second_rule [OF assms(1)])
    (use assms(2-) in \<open>auto simp: half dest!: tick_dim_frame tick_off_frame\<close>)

lemma above_wake:
  assumes "wakeDisplay a force b = Some b'" "maxBrightness b = m" "100 < m"
  shows "maxBrightness b' = m \<and> level b' = level b"
  using assms by (auto simp: wakeDisplay_def reset_dim_def reset_off_def setDisplayBrightness_def split: if_splits option.splits)

section \<open>Stated properties\<close>







end
