(* ===== verification/Go_Startup_Props.thy ===== *)
theory Go_Startup_Props
  imports Go_Startup Go_Display_Props Go_Backlight_Props
begin

text \<open>
  The display from the start of the Go process on: what the static contents show, when reading them panics, and the
  invariant that joins the native process, the backlight and the requests for updates.
\<close>

section \<open>Texts\<close>

lemma split_two_nth: "go_nth (split_two c s) (Suc 0) = (if c \<in> set s then Some (tl (dropWhile (\<lambda>x. x \<noteq> c) s)) else None)"
proof (cases "dropWhile (\<lambda>x. x \<noteq> c) s")
  case Nil
  then have "c \<notin> set s" by (auto simp: dropWhile_eq_Nil_conv)
  then show ?thesis unfolding split_two_def Nil by (simp add: go_nth_def)
next
  case (Cons x r)
  have "c \<in> set s"
  proof (rule ccontr)
    assume "c \<notin> set s"
    then have "\<forall>x\<in>set s. x \<noteq> c" by blast
    then have "dropWhile (\<lambda>x. x \<noteq> c) s = []" by (simp only: dropWhile_eq_Nil_conv)
    with Cons show False by simp
  qed
  then show ?thesis unfolding split_two_def Cons by (simp add: go_nth_def)
qed

text \<open>The line of the serial number.\<close>

definition serial_line :: "string \<Rightarrow> string option" where
  "serial_line info = find (is_prefix_of ''Serial'') (split_on (CHR 0x0A) info)"

definition serial_text :: "static_input \<Rightarrow> string option" where
  "serial_text i = (case Option.bind (cpuInfo i) serial_line of None \<Rightarrow> None
     | Some line \<Rightarrow> Some (TrimSpace (tl (dropWhile (\<lambda>x. x \<noteq> CHR '':'') line))))"

definition serial_readable :: "static_input \<Rightarrow> bool" where
  "serial_readable i \<longleftrightarrow> (case Option.bind (cpuInfo i) serial_line of None \<Rightarrow> True | Some line \<Rightarrow> CHR '':'' \<in> set line)"

lemma update_serial_eq:
  "update_serial env i u = (if serial_readable i
     then Some (case serial_text i of None \<Rightarrow> u | Some s \<Rightarrow> UpdateLabelAndChangeVisibility env ''cpu_serial'' s u) else None)"
  by (auto simp: update_serial_def serial_of_def serial_text_def serial_readable_def serial_line_def
      split_two_nth One_nat_def split: option.split)

section \<open>The static contents as one update of the view\<close>

definition static_labels :: "static_input \<Rightarrow> (string \<times> string) list" where
  "static_labels i =
     (case serial_text i of None \<Rightarrow> [] | Some s \<Rightarrow> [(''cpu_serial'', s)]) @
     (case procVersion i of None \<Rightarrow> [] | Some v \<Rightarrow> [(''kernel_version'', kernel_of v)]) @
     [(''build_branch'', branch i), (''build_date'', buildDate i), (''golang_version'', goVersion i)]"

definition mac_text :: "display_input \<Rightarrow> (string \<times> string) list" where
  "mac_text d = (case network d of None \<Rightarrow> [] | Some (_, _, mac, _) \<Rightarrow> [(''home_info_mac_addr'', cstr mac)])"

text \<open>Each label and its container are hidden when the text is empty.\<close>

definition static_view :: "static_input \<Rightarrow> display_input \<Rightarrow> view \<Rightarrow> view" where
  "static_view i d = amend (mac_text d @ map (apsnd cstr) (static_labels i))
     (concat (map (\<lambda>(n, t). [(n, t = []), (n @ ''_container'', t = [])]) (static_labels i))) []"

lemma named_static [simp]:
  "named ''cpu_serial''" "named ''kernel_version''" "named ''build_branch''" "named ''build_date''" "named ''golang_version''"
  "named ''cpu_serial_container''" "named ''kernel_version_container''" "named ''build_branch_container''"
  "named ''build_date_container''" "named ''golang_version_container''"
  by (simp_all add: named_def object_fields_def)

lemma shows_visibility:
  assumes "shows_view env u v" "faithful_labels env" "named n" "named (n @ ''_container'')"
  shows "shows_view env (UpdateLabelAndChangeVisibility env n t u) (amend [(n, cstr t)] [(n, t = []), (n @ ''_container'', t = [])] [] v)"
  using shows_hide [OF shows_hide(1) [OF shows_text [OF assms(1-3), of t] assms(3)] assms(4)]
    shows_hide [OF shows_hide(2) [OF shows_text [OF assms(1-3), of t] assms(3)] assms(4)]
  by (auto simp: UpdateLabelAndChangeVisibility_def Let_def)

lemma shows_static:
  assumes "shows_view env u v" "faithful_labels env" "serial_readable i"
  shows "\<exists>u'. updateStaticContents env i d u = Some u' \<and> shows_view env u' (static_view i d v)"
proof -
  note vis = shows_visibility [OF _ assms(2)]
  have "shows_view env (update_mac env d u) (amend (mac_text d) [] [] v)"
    using assms(1) shows_text [OF assms(1,2) named_labels(3)] by (auto simp: update_mac_def mac_text_def split: option.split)
  moreover define u1 where "u1 = (case serial_text i of None \<Rightarrow> update_mac env d u
      | Some s \<Rightarrow> UpdateLabelAndChangeVisibility env ''cpu_serial'' s (update_mac env d u))"
  ultimately have 1: "shows_view env u1 (case serial_text i of None \<Rightarrow> amend (mac_text d) [] [] v
      | Some s \<Rightarrow> amend (mac_text d @ [(''cpu_serial'', cstr s)]) [(''cpu_serial'', s = []), (''cpu_serial_container'', s = [])] [] v)"
    using vis [of "update_mac env d u" "amend (mac_text d) [] [] v" "''cpu_serial''"] by (simp split: option.split)
  define v1 where "v1 = (case serial_text i of None \<Rightarrow> amend (mac_text d) [] [] v
      | Some s \<Rightarrow> amend (mac_text d @ [(''cpu_serial'', cstr s)]) [(''cpu_serial'', s = []), (''cpu_serial_container'', s = [])] [] v)"
  have 2: "shows_view env (update_kernel env i u1) (case procVersion i of None \<Rightarrow> v1
      | Some k \<Rightarrow> amend [(''kernel_version'', cstr (kernel_of k))] [(''kernel_version'', kernel_of k = []), (''kernel_version_container'', kernel_of k = [])] [] v1)"
    using 1 vis [of u1 v1 "''kernel_version''"] by (simp add: v1_def [symmetric] update_kernel_def split: option.split)
  note 3 = vis [OF vis [OF vis [OF 2 named_static(3), of "branch i"] named_static(4), of "buildDate i"] named_static(5), of "goVersion i"]
  have "static_view i d v = amend [(''golang_version'', cstr (goVersion i))] [(''golang_version'', goVersion i = []), (''golang_version_container'', goVersion i = [])] []
     (amend [(''build_date'', cstr (buildDate i))] [(''build_date'', buildDate i = []), (''build_date_container'', buildDate i = [])] []
     (amend [(''build_branch'', cstr (branch i))] [(''build_branch'', branch i = []), (''build_branch_container'', branch i = [])] []
     (case procVersion i of None \<Rightarrow> v1
      | Some k \<Rightarrow> amend [(''kernel_version'', cstr (kernel_of k))] [(''kernel_version'', kernel_of k = []), (''kernel_version_container'', kernel_of k = [])] [] v1)))"
    by (simp add: static_view_def static_labels_def v1_def split: option.split)
  with 3 assms(3) show ?thesis
    by (simp add: updateStaticContents_def update_serial_eq u1_def [symmetric] Let_def)
qed

lemma static_panics: "\<not> serial_readable i \<Longrightarrow> updateStaticContents env i d u = None"
  by (simp add: updateStaticContents_def update_serial_eq)

section \<open>Static contents in a session\<close>

lemma session_class_static [simp]:
  "class_named ''cpu_serial'' = Some Label" "class_named ''kernel_version'' = Some Label" "class_named ''build_branch'' = Some Label"
  "class_named ''build_date'' = Some Label" "class_named ''golang_version'' = Some Label"
  by (simp_all add: class_named_iff, unfold field_classes_def classes_of_all_concat map_classes_of_layouts) (simp_all del: list.map)

lemma session_static:
  assumes "(session_step request_ok env)\<^sup>*\<^sup>* s u" "updateStaticContents env i d u = Some u'"
  shows "(session_step request_ok env)\<^sup>*\<^sup>* s u'"
proof -
  have vis: "(session_step request_ok env)\<^sup>*\<^sup>* s (UpdateLabelAndChangeVisibility env n t u)"
    if "(session_step request_ok env)\<^sup>*\<^sup>* s u" "named n" "class_named n = Some Label" for n t u
    using that by (auto simp: UpdateLabelAndChangeVisibility_def Let_def intro!: session_wrappers)
  have mac: "(session_step request_ok env)\<^sup>*\<^sup>* s (update_mac env d u)"
    using assms(1) by (auto simp: update_mac_def split: option.split intro!: session_wrappers)
  have kernel: "(session_step request_ok env)\<^sup>*\<^sup>* s (update_kernel env i u)" if "(session_step request_ok env)\<^sup>*\<^sup>* s u" for u
    using that by (auto simp: update_kernel_def split: option.split intro!: vis)
  have serial: "(session_step request_ok env)\<^sup>*\<^sup>* s w" if "update_serial env i (update_mac env d u) = Some w" for w
    using that mac by (auto simp: update_serial_eq split: if_splits option.splits intro!: vis)
  show ?thesis using assms(2)
    by (auto simp: updateStaticContents_def Let_def split: option.splits intro!: vis kernel dest: serial)
qed

section \<open>The invariant of the display\<close>

definition go_inv :: "lv_env \<Rightarrow> backlight_settings \<Rightarrow> int \<Rightarrow> go_display \<Rightarrow> bool" where
  "go_inv env p l g \<longleftrightarrow> (\<exists>s. new_panel env s \<and> (session_step request_ok env)\<^sup>*\<^sup>* s (panel g)) \<and> lit_inv p l (light g) \<and>
     blinker_ok (blinking g) \<and> (updates g \<noteq> [] \<longrightarrow> displayInited g)"

lemma go_inv_start: "settings_valid p \<Longrightarrow> MaxBrightness p \<le> 100 \<Longrightarrow> display_boot env p l g \<Longrightarrow> go_inv env p l g"
  by (auto simp: go_inv_def display_boot_def boot_lit blinker_ok_init)

lemma go_inv_request: "go_inv env p l g \<Longrightarrow> go_inv env p l (requestDisplayUpdate w g)"
  by (auto simp: go_inv_def requestDisplayUpdate_def)

lemma go_inv_panel:
  "go_inv env p l g \<Longrightarrow> new_panel env s \<Longrightarrow> (session_step request_ok env)\<^sup>*\<^sup>* s u \<Longrightarrow> go_inv env p l (g\<lparr>panel := u\<rparr>)"
  by (auto simp: go_inv_def)

lemma go_inv_update:
  assumes "go_inv env p l g" "run_update env Sys_writes d k g = Some g'" "k < length (updates g)"
  shows "go_inv env p l g'"
proof -
  obtain s where s: "new_panel env s" "(session_step request_ok env)\<^sup>*\<^sup>* s (panel g)" using assms(1) by (auto simp: go_inv_def)
  have "displayInited g" using assms(1,3) by (cases "updates g") (auto simp: go_inv_def)
  moreover obtain b where b: "g' = g\<lparr>updates := take k (updates g) @ drop (Suc k) (updates g), light := b, panel := updateDisplay env d (panel g),
      blinking := update_blink (cloudConnectionState d) (blinking g)\<rparr>"
    "b = light g \<or> wakeDisplay Sys_writes False (light g) = Some b"
    using assms(2) by (auto simp: run_update_def Let_def split: option.splits if_splits)
  moreover have "lit_inv p l b" using b(2) assms(1) lit_wake(1) by (auto simp: go_inv_def)
  moreover have "blinker_ok (update_blink (cloudConnectionState d) (blinking g))"
    using assms(1) by (simp add: go_inv_def blinker_ok_update)
  ultimately show ?thesis using s session_update [OF s(2), of d] by (auto simp: go_inv_def)
qed

lemma go_inv_init:
  assumes "go_inv env p l g" "initDisplay env i d Sys_writes g = Some g'"
  shows "go_inv env p l g'"
proof -
  obtain s where s: "new_panel env s" "(session_step request_ok env)\<^sup>*\<^sup>* s (panel g)" using assms(1) by (auto simp: go_inv_def)
  from assms(2) obtain u b where u: "updateStaticContents env i d (panel g) = Some u"
    "startBacklightTickers Sys_writes (light g) = Some b"
    "g' = requestDisplayUpdate True (g\<lparr>panel := updateDisplayUsbState env d u, displayInited := True, light := b\<rparr>)"
    by (auto simp: initDisplay_def Let_def split: option.splits)
  have "(session_step request_ok env)\<^sup>*\<^sup>* s (updateDisplayUsbState env d u)"
    unfolding updateDisplayUsbState_def by (rule session_status_line [OF session_static [OF s(2) u(1)]]) simp_all
  moreover have "lit_inv p l b" using lit_start [OF _ u(2)] assms(1) by (simp add: go_inv_def)
  ultimately show ?thesis unfolding u(3) using s(1) assms(1) by (intro go_inv_request) (auto simp: go_inv_def)
qed

lemma blink_panel: "blink_step env connecting (b, u) (b', u') \<Longrightarrow> u' = u"
  by (cases rule: blink_stepE) simp_all

interpretation go_displays: invariant_system "go_inv env p l" "display_step env" "go_inv env p l" for env p l
proof unfold_locales
  fix g g' assume i: "go_inv env p l g" and "display_step env g g'"
  then obtain s where s: "new_panel env s" "(session_step request_ok env)\<^sup>*\<^sup>* s (panel g)" by (auto simp: go_inv_def)
  from \<open>display_step env g g'\<close> show "go_inv env p l g'"
  proof cases
    case (by_init i' d) then show ?thesis using i go_inv_init by blast
  next
    case (by_restart u i' d)
    then obtain w where w: "updateStaticContents env i' d u = Some w" "g' = requestDisplayUpdate True (g\<lparr>panel := w\<rparr>)"
      by (auto simp: configureDisplayOnNativeRestart_def split: option.splits)
    from session_static [OF rtranclp.rtrancl_refl w(1)] by_restart(1) i show ?thesis
      unfolding w(2) by (intro go_inv_request go_inv_panel) auto
  next
    case (by_ask w) then show ?thesis using i go_inv_request by blast
  next
    case (by_update k d) then show ?thesis using i go_inv_update by blast
  next
    case (by_light b) then show ?thesis using i backlight_lit.inv_step [of p l "light g" b] by (simp add: go_inv_def)
  next
    case (by_panel u)
    then have "(session_step request_ok env)\<^sup>*\<^sup>* s u" using s(2) by (meson rtranclp.rtrancl_into_rtrancl)
    then show ?thesis using by_panel(1) i s(1) by (auto intro: go_inv_panel)
  next
    case (by_blink connecting b u)
    then show ?thesis using blink_panel [OF by_blink(2)] blinker_ok_step [OF by_blink(2)] i by (auto simp: go_inv_def)
  qed
qed simp

lemma go_inv_session:
  assumes "go_inv env p l g" "fresh_objects env"
  shows "session_inv env (panel g)"
proof -
  obtain s v r where s: "(session_step request_ok env)\<^sup>*\<^sup>* s (panel g)" "calls_ok env (lcalls v)" "vars_inv env (vars v)"
    "jetkvm_ui_init env generated_index r v = Some s" using assms(1) by (auto simp: go_inv_def new_panel_def)
  have "session_inv env s" using assms(2) s(2-4) by (intro session.inv_start) blast
  from session.inv_steps [OF this s(1)] show ?thesis .
qed

lemma run_update_shows:
  assumes "go_inv env p l g" "fresh_objects env" "faithful_labels env" "faithful_screens env"
  shows "\<exists>g'. run_update env Sys_writes d k g = Some g' \<and> view_of (panel g') = update_view d (view_of (panel g)) \<and>
    (updates g ! k \<longrightarrow> backlightState (light g') = 0 \<or> maxBrightness (light g) = 0)"
proof -
  have "shows_view env (panel g) (view_of (panel g))"
    using go_inv_session [OF assms(1,2)] by (simp add: shows_view_def session_inv_def)
  from shows_update [OF this assms(3,4), of d] have v: "view_of (updateDisplay env d (panel g)) = update_view d (view_of (panel g))"
    by (simp add: shows_view_def)
  have i: "lit_inv p l (light g)" using assms(1) by (simp add: go_inv_def)
  then have "backlight_ok (light g)" by (simp add: lit_inv_def)
  from wake_defined [OF this, of Sys_writes False] obtain b where b: "wakeDisplay Sys_writes False (light g) = Some b" by blast
  have "backlightState b = 0 \<or> maxBrightness (light g) = 0"
    using lit_wake(2) [OF i b] b by (cases "backlightState (light g) = 0") (auto simp: wakeDisplay_def)
  then show ?thesis using v b by (auto simp: run_update_def Let_def)
qed

section \<open>Stated properties\<close>

text \<open>What the static contents show: when the first line of the processor information that begins with Serial has a colon, or there is
  no such line, the update ends and changes exactly the labels of \<open>static_labels\<close>, each hidden with its container when its
  text is empty, and the hardware address; every call of LVGL meets its requirement. Without a colon it panics.\<close>

theorem static_contents_shown:
  assumes "fresh_objects env" "faithful_labels env" "calls_ok env (lcalls v)" "vars_inv env (vars v)"
    and "jetkvm_ui_init env generated_index r v = Some s" "(session_step request_ok env)\<^sup>*\<^sup>* s u"
  shows "if serial_readable i
    then \<exists>u'. updateStaticContents env i d u = Some u' \<and> view_of u' = static_view i d (view_of u) \<and> calls_ok env (lcalls u')
    else updateStaticContents env i d u = None"
proof -
  have start: "session_inv env s" using assms(1,3-5) by (intro session.inv_start) blast
  have "shows_view env u (view_of u)" using session.inv_steps [OF start assms(6)] by (simp add: shows_view_def session_inv_def)
  from shows_static [OF this assms(2), of i d] show ?thesis
    using session.inv_steps [OF start session_static [OF assms(6), of i d]] static_panics [of i env d u]
    by (auto simp: shows_view_def session_inv_def ui_typed_def)
qed

theorem static_contents_shown_witness:
  "\<exists>s u'. jetkvm_ui_init sample_lv generated_index 270 ui_globals = Some s \<and>
     updateStaticContents sample_lv \<lparr>cpuInfo = Some (''Hardware : X'' @ [CHR 0x0A] @ ''Serial'' @ [CHR 0x09] @ '': 1f9 '' @ [CHR 0x0A]),
       procVersion = Some ''Linux version 5.10 (builder)'', branch = ''dev'', buildDate = [], goVersion = ''go1.24''\<rparr>
       \<lparr>network = None, usbState = [], dhcpClient = [], videoReady = False, actionSessions = 0,
         cloudConnectionState = CloudConnectionStateNotConfigured\<rparr> s = Some u' \<and>
     texts (view_of u') ''cpu_serial'' = ''1f9'' \<and> texts (view_of u') ''kernel_version'' = ''5.10'' \<and>
     hidden (view_of u') ''build_date_container'' = Some True"
proof -
  obtain s where s: "jetkvm_ui_init sample_lv generated_index 270 ui_globals = Some s" using sample_started by blast
  let ?i = "\<lparr>cpuInfo = Some (''Hardware : X'' @ [CHR 0x0A] @ ''Serial'' @ [CHR 0x09] @ '': 1f9 '' @ [CHR 0x0A]),
       procVersion = Some ''Linux version 5.10 (builder)'', branch = ''dev'', buildDate = [], goVersion = ''go1.24''\<rparr>"
  let ?d = "\<lparr>network = None, usbState = [], dhcpClient = [], videoReady = False, actionSessions = 0,
         cloudConnectionState = CloudConnectionStateNotConfigured\<rparr>"
  have t: "serial_text ?i = Some ''1f9''" "serial_readable ?i" "kernel_of ''Linux version 5.10 (builder)'' = ''5.10''" by code_simp+
  have "calls_ok sample_lv (lcalls ui_globals)" "vars_inv sample_lv (vars ui_globals)"
    by (simp_all add: ui_globals_def vars_init_inv)
  from static_contents_shown [OF sample_lv_ok(1,2) this s rtranclp.rtrancl_refl, of ?i ?d] t(2) obtain u' where
    u': "updateStaticContents sample_lv ?i ?d s = Some u'" "view_of u' = static_view ?i ?d (view_of s)" by auto
  have "texts (view_of u') ''cpu_serial'' = ''1f9''" "texts (view_of u') ''kernel_version'' = ''5.10''"
    "hidden (view_of u') ''build_date_container'' = Some True"
    unfolding u'(2) by (simp_all add: static_view_def static_labels_def mac_text_def amend_def enter_def t(3) t(1) [simplified] cstr_id NUL_def)
  with s u'(1) show ?thesis by blast
qed



end
