(* ===== verification/Ui_Index_Gen.thy ===== *)
theory Ui_Index_Gen
  imports Screen_Props
begin

text \<open>
  The script \<^verbatim>\<open>internal/native/cgo/ui_index.gen.sh\<close>, which writes the name tables \<^verbatim>\<open>ui_index.c\<close> from four headers at build
  time, as a function on their lines, and the lines of the headers \<^verbatim>\<open>screens.h\<close>, \<^verbatim>\<open>styles.h\<close>, \<^verbatim>\<open>images.h\<close> and \<^verbatim>\<open>vars.h\<close>.
  The property is that the tables the other theories use are the ones the script writes.
\<close>

section \<open>The tools of the script\<close>

definition CR :: char where "CR = CHR 0x0D"
definition DQ :: char where "DQ = CHR 0x22"

text \<open>\<^verbatim>\<open>grep\<close> with a pattern that stands for itself: the lines it occurs in.\<close>

definition grep :: "string \<Rightarrow> string list \<Rightarrow> string list" where
  "grep p ls = filter (\<lambda>l. strstr l p \<noteq> None) ls"

text \<open>\<^verbatim>\<open>sed 's/p//g'\<close>: every occurrence removed, from the left; \<^verbatim>\<open>sed 's/c//'\<close>: the first.\<close>

fun sed_all :: "string \<Rightarrow> string \<Rightarrow> string" where
  "sed_all p [] = []"
| "sed_all p (c # s) = (if p \<noteq> [] \<and> is_prefix_of p (c # s) then sed_all p (drop (length p - 1) s) else c # sed_all p s)"

definition sed_first :: "char \<Rightarrow> string \<Rightarrow> string" where
  "sed_first c s = remove1 c s"

text \<open>\<^verbatim>\<open>read -r line\<close> removes the blanks at both ends.\<close>

definition blank :: "char \<Rightarrow> bool" where
  "blank c \<longleftrightarrow> c = CHR 0x20 \<or> c = CHR 0x09"

definition read_line :: "string \<Rightarrow> string" where
  "read_line s = rev (dropWhile blank (rev (dropWhile blank s)))"

text \<open>A command substitution that prints nothing leaves an empty line.\<close>

definition substituted :: "string list \<Rightarrow> string list" where
  "substituted ls = (if ls = [] then [[]] else ls)"

section \<open>The script\<close>

definition quoted :: "string \<Rightarrow> string" where
  "quoted line = ''    {'' @ [DQ] @ line @ [DQ] @ '', ''"

definition object_row :: "string \<Rightarrow> string" where
  "object_row line = quoted line @ ''&(objects.'' @ line @ '')},''"

definition style_row :: "string \<Rightarrow> string" where
  "style_row line = quoted line @ ''&get_style_'' @ line @ ''_MAIN_DEFAULT},''"

definition image_row :: "string \<Rightarrow> string" where
  "image_row line = quoted line @ ''&'' @ line @ ''},''"

definition var_row :: "string \<Rightarrow> string" where
  "var_row line = quoted line @ ''&get_var_'' @ line @ '', &set_var_'' @ line @ ''},''"

definition object_lines :: "string list \<Rightarrow> string list" where
  "object_lines h = map (\<lambda>l. object_row (read_line (sed_all '';'' (sed_all ''lv_obj_t *'' l)))) (grep ''lv_obj_t *'' h)"

definition style_lines :: "string list \<Rightarrow> string list" where
  "style_lines h = map (\<lambda>l. style_row (read_line (sed_first CR (sed_all ''_MAIN_DEFAULT();'' (sed_all ''lv_style_t *get_style_'' l)))))
     (grep ''lv_style_t *get_style_'' h)"

definition image_lines :: "string list \<Rightarrow> string list" where
  "image_lines h = map (\<lambda>l. image_row (read_line (sed_all '';'' (sed_all ''extern const lv_img_dsc_t '' l))))
     (grep ''extern const lv_img_dsc_t '' h)"

definition var_lines :: "string list \<Rightarrow> string list" where
  "var_lines h = map (\<lambda>l. var_row (read_line (sed_first CR (sed_all ''();'' (sed_all ''extern const char *get_var_'' l)))))
     (grep ''extern const char *get_var_'' h)"

text \<open>One table of the file: its opening line, its rows, and the declaration of its size.\<close>

definition table_of :: "string \<Rightarrow> string \<Rightarrow> string list \<Rightarrow> string list" where
  "table_of ty name rows = [ty @ '' '' @ name @ ''[] = {''] @ substituted rows @
     [''};'', [], ''const int '' @ name @ ''_size = sizeof('' @ name @ '') / sizeof('' @ name @ ''[0]);'']"

definition ui_index_gen :: "string list \<Rightarrow> string list \<Rightarrow> string list \<Rightarrow> string list \<Rightarrow> string list" where
  "ui_index_gen screens_h styles_h images_h vars_h =
     [''// This file was generated by ui_index.gen.sh, do not edit it manually'', ''#include '' @ [DQ] @ ''ui_index.h'' @ [DQ], []] @
     table_of ''ui_obj_map'' ''ui_objects'' (object_lines screens_h) @ [[]] @
     table_of ''ui_style_map'' ''ui_styles'' (style_lines styles_h) @ [[]] @
     table_of ''ui_img_map'' ''ui_images'' (image_lines images_h) @ [[]] @
     table_of ''ui_var_map'' ''ui_vars'' (var_lines vars_h)"

section \<open>The headers\<close>

text \<open>The frame that the four headers share has carriage returns, the declarations in between have none.\<close>

definition header_top :: "string \<Rightarrow> string list \<Rightarrow> string list" where
  "header_top guard includes = map (\<lambda>l. l @ [CR])
     ([''#ifndef '' @ guard, ''#define '' @ guard, []] @ includes @
      [[], ''#ifdef __cplusplus'', ''extern '' @ [DQ] @ ''C'' @ [DQ] @ '' {'', ''#endif'', []])"

definition header_end :: "string \<Rightarrow> string list" where
  "header_end guard = map (\<lambda>l. l @ [CR]) [[], [], ''#ifdef __cplusplus'', ''}'', ''#endif'', []] @ [''#endif /*'' @ guard @ ''*/'']"

definition field_line :: "string \<Rightarrow> string" where
  "field_line f = ''    lv_obj_t *'' @ f @ '';''"

definition screen_prototypes :: "string \<Rightarrow> string list" where
  "screen_prototypes s = [''void create_screen_'' @ s @ ''();'', ''void tick_screen_'' @ s @ ''();'']"

definition screens_h_enum :: "string list" where
  "screens_h_enum = [''enum ScreensEnum {'',
     ''    SCREEN_ID_BOOT_SCREEN = 1,'', ''    SCREEN_ID_NO_NETWORK_SCREEN = 2,'', ''    SCREEN_ID_HOME_SCREEN = 3,'',
     ''    SCREEN_ID_MENU_SCREEN = 4,'', ''    SCREEN_ID_MENU_ADVANCED_SCREEN = 5,'', ''    SCREEN_ID_MENU_NETWORK_SCREEN = 6,'',
     ''    SCREEN_ID_ABOUT_SCREEN = 7,'', ''    SCREEN_ID_STATUS_SCREEN = 8,'', ''    SCREEN_ID_RESET_CONFIG_SCREEN = 9,'',
     ''    SCREEN_ID_REBOOT_SCREEN = 10,'', ''    SCREEN_ID_REBOOTING_SCREEN = 11,'', ''    SCREEN_ID_SWITCH_DHCP_CLIENT_SCREEN = 12,'',
     ''};'', []]"

definition screens_h_rest :: "string list" where
  "screens_h_rest = [''} objects_t;'', [], ''extern objects_t objects;'', []] @ screens_h_enum @
     concat (map (\<lambda>s. screen_prototypes s @ [[]])
       [''boot_screen'', ''no_network_screen'', ''home_screen'', ''menu_screen'', ''menu_advanced_screen'', ''menu_network_screen'',
        ''about_screen'', ''status_screen'', ''reset_config_screen'', ''reboot_screen'', ''rebooting_screen'']) @
     screen_prototypes ''switch_dhcp_client_screen'' @
     [[CR], ''void tick_screen_by_id(enum ScreensEnum screenId);'', ''void tick_screen(int screen_index);'', [], ''void create_screens();''] @
     header_end ''EEZ_LVGL_UI_SCREENS_H''"

definition screens_h :: "string list" where
  "screens_h = header_top ''EEZ_LVGL_UI_SCREENS_H'' [''#include <lvgl.h>''] @ [''typedef struct _objects_t {''] @
     map field_line object_fields @ screens_h_rest"

definition style_decls :: "string \<Rightarrow> string \<Rightarrow> string list" where
  "style_decls camel s = [''// Style: '' @ camel, ''lv_style_t *get_style_'' @ s @ ''_MAIN_DEFAULT();'',
     ''void add_style_'' @ s @ ''(lv_obj_t *obj);'', ''void remove_style_'' @ s @ ''(lv_obj_t *obj);'', []]"

definition styles_h :: "string list" where
  "styles_h = header_top ''EEZ_LVGL_UI_STYLES_H'' [''#include <lvgl.h>''] @
     style_decls ''FlexColumnSpaceBetween'' ''flex_column_space_between'' @
     style_decls ''FlexCenter'' ''flex_center'' @
     style_decls ''FlexStart'' ''flex_start'' @
     style_decls ''FlowRowSpaceBetween'' ''flow_row_space_between'' @
     style_decls ''FlowRowStartCenter'' ''flow_row_start_center'' @
     style_decls ''FlexColumnStart'' ''flex_column_start'' @
     style_decls ''FlexScreen'' ''flex_screen'' @
     style_decls ''FlexScreenMenu'' ''flex_screen_menu'' @
     style_decls ''LabelFont16'' ''label_font16'' @
     style_decls ''LabelFontBold30'' ''label_font_bold30'' @
     style_decls ''HeaderLink'' ''header_link'' @
     style_decls ''MenuButton'' ''menu_button'' @
     style_decls ''MenuButtonLabel'' ''menu_button_label'' @
     style_decls ''InfoHeadlineLabel'' ''info_headline_label'' @
     style_decls ''InfoContentLabel'' ''info_content_label'' @
     style_decls ''BackButton'' ''back_button'' @
     header_end ''EEZ_LVGL_UI_STYLES_H''"

definition images_h :: "string list" where
  "images_h = header_top ''EEZ_LVGL_UI_IMAGES_H'' [''#include <lvgl.h>''] @
     map (\<lambda>n. ''extern const lv_img_dsc_t '' @ n @ '';'')
       [''img_logo'', ''img_boot_logo_2'', ''img_arrow_icon'', ''img_back_caret'', ''img_back_icon'', ''img_check_icon'',
        ''img_cloud_disconnected'', ''img_cloud'', ''img_d2'', ''img_ethernet'', ''img_hdmi'', ''img_jetkvm'', ''img_usb'', ''img_x_icon''] @
     [[], ''#ifndef EXT_IMG_DESC_T'', ''#define EXT_IMG_DESC_T'', ''typedef struct _ext_img_desc_t {'', ''    const char *name;'',
      ''    const lv_img_dsc_t *img_dsc;'', ''} ext_img_desc_t;'', ''#endif'', [], ''extern const ext_img_desc_t images[14];''] @
     header_end ''EEZ_LVGL_UI_IMAGES_H''"

definition var_decls :: "string \<Rightarrow> string list" where
  "var_decls v = [''extern const char *get_var_'' @ v @ ''();'', ''extern void set_var_'' @ v @ ''(const char *value);'']"

definition vars_h :: "string list" where
  "vars_h = header_top ''EEZ_LVGL_UI_VARS_H'' [''#include <stdint.h>'', ''#include <stdbool.h>''] @
     map (\<lambda>l. l @ [CR]) [''// enum declarations'', [], [], [], ''// Flow global variables'', []] @
     [''enum FlowGlobalVariables {'', ''    FLOW_GLOBAL_VARIABLE_APP_VERSION = 0,'', ''    FLOW_GLOBAL_VARIABLE_SYSTEM_VERSION = 1,'',
      ''    FLOW_GLOBAL_VARIABLE_LVGL_VERSION = 2,'', ''    FLOW_GLOBAL_VARIABLE_MAIN_SCREEN = 3''] @
     map (\<lambda>l. l @ [CR]) [''};'', [], ''// Native global variables'', []] @
     var_decls ''app_version'' @ var_decls ''system_version'' @ var_decls ''lvgl_version'' @ var_decls ''main_screen'' @
     header_end ''EEZ_LVGL_UI_VARS_H''"

section \<open>The tables as text\<close>

text \<open>The C identifiers of the entries of \<open>ui_index\<close>.\<close>

primrec style_symbol :: "ui_style \<Rightarrow> string" where
  "style_symbol Flex_column_space_between = ''flex_column_space_between''"
| "style_symbol Flex_center = ''flex_center''"
| "style_symbol Flex_start = ''flex_start''"
| "style_symbol Flow_row_space_between = ''flow_row_space_between''"
| "style_symbol Flow_row_start_center = ''flow_row_start_center''"
| "style_symbol Flex_column_start = ''flex_column_start''"
| "style_symbol Flex_screen = ''flex_screen''"
| "style_symbol Flex_screen_menu = ''flex_screen_menu''"
| "style_symbol Label_font16 = ''label_font16''"
| "style_symbol Label_font_bold30 = ''label_font_bold30''"
| "style_symbol Header_link = ''header_link''"
| "style_symbol Menu_button = ''menu_button''"
| "style_symbol Menu_button_label = ''menu_button_label''"
| "style_symbol Info_headline_label = ''info_headline_label''"
| "style_symbol Info_content_label = ''info_content_label''"
| "style_symbol Back_button = ''back_button''"

primrec image_symbol :: "ui_image \<Rightarrow> string" where
  "image_symbol Img_logo = ''img_logo''"
| "image_symbol Img_boot_logo_2 = ''img_boot_logo_2''"
| "image_symbol Img_arrow_icon = ''img_arrow_icon''"
| "image_symbol Img_back_caret = ''img_back_caret''"
| "image_symbol Img_back_icon = ''img_back_icon''"
| "image_symbol Img_check_icon = ''img_check_icon''"
| "image_symbol Img_cloud_disconnected = ''img_cloud_disconnected''"
| "image_symbol Img_cloud = ''img_cloud''"
| "image_symbol Img_d2 = ''img_d2''"
| "image_symbol Img_ethernet = ''img_ethernet''"
| "image_symbol Img_hdmi = ''img_hdmi''"
| "image_symbol Img_jetkvm = ''img_jetkvm''"
| "image_symbol Img_usb = ''img_usb''"
| "image_symbol Img_x_icon = ''img_x_icon''"

primrec var_symbol :: "ui_var \<Rightarrow> string" where
  "var_symbol Var_app_version = ''app_version''"
| "var_symbol Var_system_version = ''system_version''"
| "var_symbol Var_lvgl_version = ''lvgl_version''"
| "var_symbol Var_main_screen = ''main_screen''"

definition index_text :: "ui_index \<Rightarrow> string list" where
  "index_text ix =
     [''// This file was generated by ui_index.gen.sh, do not edit it manually'', ''#include '' @ [DQ] @ ''ui_index.h'' @ [DQ], []] @
     table_of ''ui_obj_map'' ''ui_objects'' (map (\<lambda>(n, f). quoted n @ ''&(objects.'' @ f @ '')},'') (ui_objects ix)) @ [[]] @
     table_of ''ui_style_map'' ''ui_styles''
       (map (\<lambda>(n, k). quoted n @ ''&get_style_'' @ style_symbol k @ ''_MAIN_DEFAULT},'') (ui_styles ix)) @ [[]] @
     table_of ''ui_img_map'' ''ui_images'' (map (\<lambda>(n, i). quoted n @ ''&'' @ image_symbol i @ ''},'') (ui_images ix)) @ [[]] @
     table_of ''ui_var_map'' ''ui_vars''
       (map (\<lambda>(n, v). quoted n @ ''&get_var_'' @ var_symbol v @ '', &set_var_'' @ var_symbol v @ ''},'') (ui_var_table ix))"

section \<open>The objects\<close>

text \<open>A pattern with a character that does not occur in a line is not found in it.\<close>

lemma no_prefix: "q \<in> set p \<Longrightarrow> q \<notin> set s \<Longrightarrow> \<not> is_prefix_of p s"
  unfolding is_prefix_of_def by (metis in_set_takeD)

lemma sed_all_absent: "q \<in> set p \<Longrightarrow> q \<notin> set s \<Longrightarrow> sed_all p s = s"
  by (induction s) (auto simp: no_prefix)

lemma sed_all_char: "sed_all [c] s = filter (\<lambda>x. x \<noteq> c) s"
  by (induction s) (auto simp: is_prefix_of_def)

lemma strstr_inside: "strstr (s @ p @ t) p \<noteq> None"
proof (cases "p = []")
  case True
  then show ?thesis by (cases "s @ t") (auto simp: is_prefix_of_def)
next
  case False
  have "is_prefix_of p (drop (length s) (s @ p @ t))" by (simp add: is_prefix_of_def)
  then show ?thesis unfolding strstr_None [OF False] by blast
qed

definition plain :: "string \<Rightarrow> bool" where
  "plain f \<longleftrightarrow> f \<noteq> [] \<and> list_all (\<lambda>c. c \<noteq> CHR ''*'' \<and> c \<noteq> CHR '';'' \<and> c \<noteq> CHR 0x20 \<and> c \<noteq> CHR 0x09) f"

lemma field_pipeline:
  assumes "plain f"
  shows "read_line (sed_all '';'' (sed_all ''lv_obj_t *'' (field_line f))) = f"
proof -
  have f: "f \<noteq> []" "CHR ''*'' \<notin> set f" "CHR '';'' \<notin> set f" "\<forall>c\<in>set f. \<not> blank c"
    using assms by (auto simp: plain_def list_all_iff blank_def)
  have "sed_all ''lv_obj_t *'' (f @ '';'') = f @ '';''" using f(2) by (intro sed_all_absent [of "CHR ''*''"]) auto
  then have 1: "sed_all ''lv_obj_t *'' (field_line f) = ''    '' @ f @ '';''"
    by (simp add: field_line_def is_prefix_of_def)
  have 2: "sed_all '';'' (''    '' @ f @ '';'') = ''    '' @ f"
    using f(3) unfolding sed_all_char by (auto simp: filter_id_conv)
  have b: "dropWhile blank f = f" "dropWhile blank (rev f) = rev f"
    using f(1,4) by (simp_all add: dropWhile_eq_self_iff hd_rev)
  then have "read_line (''    '' @ f) = f" by (simp add: read_line_def blank_def)
  then show ?thesis unfolding 1 2 .
qed

lemma plain_fields: "list_all plain object_fields"
  by (simp add: object_fields_def plain_def)

lemma grep_append: "grep p (a @ b) = grep p a @ grep p b"
  by (simp add: grep_def)

lemma grep_fields: "grep ''lv_obj_t *'' (map field_line fs) = map field_line fs"
proof -
  have "strstr (field_line f) ''lv_obj_t *'' \<noteq> None" for f
    using strstr_inside [of "''    ''" "''lv_obj_t *''" "f @ '';''"] unfolding field_line_def by simp
  then show ?thesis unfolding grep_def by (simp add: filter_id_conv)
qed

lemma grep_screens: "grep ''lv_obj_t *'' screens_h = map field_line object_fields"
proof -
  have "grep ''lv_obj_t *'' (header_top ''EEZ_LVGL_UI_SCREENS_H'' [''#include <lvgl.h>'']) = []" by code_simp
  moreover have "grep ''lv_obj_t *'' [''typedef struct _objects_t {''] = []" by code_simp
  moreover have "grep ''lv_obj_t *'' screens_h_rest = []" by code_simp
  ultimately show ?thesis by (simp only: screens_h_def grep_append grep_fields append_Nil append_Nil2)
qed

lemma object_lines_screens: "object_lines screens_h = map object_row object_fields"
proof -
  have "read_line (sed_all '';'' (sed_all ''lv_obj_t *'' (field_line f))) = f" if "f \<in> set object_fields" for f
    using plain_fields that by (intro field_pipeline) (simp add: list_all_iff)
  then show ?thesis unfolding object_lines_def grep_screens by simp
qed

section \<open>The other tables\<close>

lemma style_lines_styles:
  "style_lines styles_h = map (\<lambda>(n, k). quoted n @ ''&get_style_'' @ style_symbol k @ ''_MAIN_DEFAULT},'') (zip style_names style_order)"
  by code_simp

lemma image_lines_images:
  "image_lines images_h = map (\<lambda>(n, i). quoted n @ ''&'' @ image_symbol i @ ''},'') (ui_images generated_index)"
  unfolding generated_index_def ui_index.simps by code_simp

lemma var_lines_vars:
  "var_lines vars_h = map (\<lambda>(n, v). quoted n @ ''&get_var_'' @ var_symbol v @ '', &set_var_'' @ var_symbol v @ ''},'') (ui_var_table generated_index)"
  unfolding generated_index_def ui_index.simps by code_simp

section \<open>Stated property\<close>

text \<open>C16: The name tables are the ones the build generates: run on the lines of the four headers, the script writes exactly the text of
  the tables \<open>generated_index\<close>, in which each of the 103 objects, 16 styles, 14 images and 4 variables declared there has
  one entry under its own name, with its own object pointer, getter, descriptor, or getter and setter.\<close>

theorem ui_index_generated: "ui_index_gen screens_h styles_h images_h vars_h = index_text generated_index"
proof -
  have "map (\<lambda>(n, f). quoted n @ ''&(objects.'' @ f @ '')},'') (ui_objects generated_index) = map object_row object_fields"
    unfolding generated_index_def by (simp add: object_row_def comp_def)
  moreover have "ui_styles generated_index = zip style_names style_order" by (simp add: generated_index_def)
  ultimately show ?thesis
    by (simp only: ui_index_gen_def index_text_def object_lines_screens style_lines_styles image_lines_images var_lines_vars)
qed

end
