(* ===== verification/Fonts.thy ===== *)
theory Fonts
  imports C_Lib
begin

text \<open>
  The format of the bitmap fonts of \<^verbatim>\<open>eez/src/ui/fonts\<close>: the records of LVGL's text font format that the files fill in, the
  reading of a glyph that the format stands for (the box of a glyph takes \<open>bpp\<close> bits for each pixel, from
  \<open>bitmap_index\<close> on), and the laws a font file has to satisfy, as a locale each font interprets with its own tables.
  The tables are kept as numbers; that they fit the fields of LVGL is one of the laws.
\<close>

section \<open>The records of a font file\<close>

record glyph_dsc =
  bitmap_index :: nat
  adv_w :: nat
  box_w :: nat
  box_h :: nat
  ofs_x :: int
  ofs_y :: int

record font_cmap =
  range_start :: nat
  range_length :: nat
  glyph_id_start :: nat

record kern_classes =
  class_pair_values :: "int list"
  left_class_mapping :: "nat list"
  right_class_mapping :: "nat list"
  left_class_cnt :: nat
  right_class_cnt :: nat

record font_dsc =
  glyph_bitmap :: "u8 list"
  glyph_dsc :: "glyph_dsc list"
  cmaps :: "font_cmap list"
  kern_dsc :: kern_classes
  kern_scale :: nat
  bpp :: nat

record lv_font =
  line_height :: int
  base_line :: int
  underline_position :: int
  underline_thickness :: int
  dsc :: font_dsc

text \<open>One row of the table of glyphs, and one character map of the kind without lists.\<close>

abbreviation glyph :: "nat \<Rightarrow> nat \<Rightarrow> nat \<Rightarrow> nat \<Rightarrow> int \<Rightarrow> int \<Rightarrow> glyph_dsc" where
  "glyph i a w h x y \<equiv> \<lparr>bitmap_index = i, adv_w = a, box_w = w, box_h = h, ofs_x = x, ofs_y = y\<rparr>"

section \<open>Reading a font\<close>

definition glyph_bytes :: "nat \<Rightarrow> glyph_dsc \<Rightarrow> nat" where
  "glyph_bytes b g = (box_w g * box_h g * b + 7) div 8"

definition glyph_bits :: "font_dsc \<Rightarrow> glyph_dsc \<Rightarrow> u8 list" where
  "glyph_bits d g = take (glyph_bytes (bpp d) g) (drop (bitmap_index g) (glyph_bitmap d))"

fun cmap_glyph :: "font_cmap list \<Rightarrow> nat \<Rightarrow> nat option" where
  "cmap_glyph [] c = None"
| "cmap_glyph (m # ms) c =
     (if range_start m \<le> c \<and> c - range_start m < range_length m then Some (glyph_id_start m + (c - range_start m))
      else cmap_glyph ms c)"

definition glyph_of :: "font_dsc \<Rightarrow> char \<Rightarrow> glyph_dsc option" where
  "glyph_of d c = map_option (\<lambda>i. glyph_dsc d ! i) (cmap_glyph (cmaps d) (of_char c))"

text \<open>The kerning of two glyph numbers, in sixteenths of a pixel; class 0 has none.\<close>

definition kern_index :: "kern_classes \<Rightarrow> nat \<Rightarrow> nat \<Rightarrow> nat option" where
  "kern_index k i j =
     (let l = left_class_mapping k ! i; r = right_class_mapping k ! j
      in if l = 0 \<or> r = 0 then None else Some ((l - 1) * right_class_cnt k + (r - 1)))"

definition kern_of :: "font_dsc \<Rightarrow> nat \<Rightarrow> nat \<Rightarrow> int" where
  "kern_of d i j = (case kern_index (kern_dsc d) i j of None \<Rightarrow> 0
     | Some n \<Rightarrow> class_pair_values (kern_dsc d) ! n * int (kern_scale d) div 16)"

definition pen_step :: "font_dsc \<Rightarrow> nat \<Rightarrow> nat \<Rightarrow> int" where
  "pen_step d i j = int (adv_w (glyph_dsc d ! i)) + kern_of d i j"

section \<open>The laws of a font file\<close>

named_theorems font_lengths \<open>the sizes of the parts of the tables\<close>
named_theorems font_values \<open>the bounds of the parts of the tables\<close>

fun offsets :: "nat \<Rightarrow> nat list \<Rightarrow> nat list" where
  "offsets k [] = []"
| "offsets k (n # ns) = k # offsets (k + n) ns"

definition fits_line :: "lv_font \<Rightarrow> glyph_dsc \<Rightarrow> bool" where
  "fits_line f g \<longleftrightarrow> 0 \<le> base_line f + ofs_y g \<and> base_line f + ofs_y g + int (box_h g) \<le> line_height f"

definition fits_fields :: "glyph_dsc \<Rightarrow> bool" where
  "fits_fields g \<longleftrightarrow> bitmap_index g < 2 ^ 20 \<and> adv_w g < 2 ^ 12 \<and> box_w g < 2 ^ 8 \<and> box_h g < 2 ^ 8 \<and>
     - 128 \<le> ofs_x g \<and> ofs_x g < 128 \<and> - 128 \<le> ofs_y g \<and> ofs_y g < 128"

lemma list_all_concat [font_values]: "list_all P (concat xss) = list_all (list_all P) xss"
  by (induction xss) simp_all

lemma offsets_nth: "i < length ns \<Longrightarrow> offsets k ns ! i = k + sum_list (take i ns)"
  by (induction k ns arbitrary: i rule: offsets.induct) (auto simp: nth_Cons split: nat.split)

lemma concat_slice:
  assumes "i < length xss"
  shows "take (length (xss ! i)) (drop (sum_list (take i (map length xss))) (concat xss)) = xss ! i"
  using assms
proof (induction xss arbitrary: i)
  case (Cons xs xss)
  then show ?case by (cases i) simp_all
qed simp

lemma concat_slice_fits:
  assumes "i < length xss"
  shows "sum_list (take i (map length xss)) + length (xss ! i) \<le> length (concat xss)"
  using assms
proof (induction xss arbitrary: i)
  case (Cons xs xss)
  then show ?case by (cases i) simp_all
qed simp

lemma sum_list_take_mono:
  fixes ns :: "nat list"
  assumes "i < j" "j < length ns"
  shows "sum_list (take i ns) + ns ! i \<le> sum_list (take j ns)"
proof -
  have "sum_list (take (Suc i) ns) \<le> sum_list (take j ns)"
    using assms by (metis Suc_leI le_add1 le_iff_add sum_list_append take_add)
  then show ?thesis using assms by (simp add: take_Suc_conv_app_nth)
qed

locale font_tables =
  fixes f :: lv_font and gs :: "u8 list list" and low :: int
  assumes bitmap: "glyph_bitmap (dsc f) = concat gs"
    and indices: "map bitmap_index (tl (glyph_dsc (dsc f))) = offsets 0 (map length gs)"
    and sizes: "map (glyph_bytes (bpp (dsc f))) (tl (glyph_dsc (dsc f))) = map length gs"
    and map_of_font: "cmaps (dsc f) = [\<lparr>range_start = 32, range_length = length gs, glyph_id_start = 1\<rparr>]"
    and lines: "list_all (fits_line f) (tl (glyph_dsc (dsc f)))"
    and fields: "list_all fits_fields (glyph_dsc (dsc f))"
    and advances: "list_all (\<lambda>g. - low < int (adv_w g)) (tl (glyph_dsc (dsc f)))"
    and left_classes: "length (left_class_mapping (kern_dsc (dsc f))) = Suc (length gs)"
      "list_all (\<lambda>c. c \<le> left_class_cnt (kern_dsc (dsc f))) (left_class_mapping (kern_dsc (dsc f)))"
    and right_classes: "length (right_class_mapping (kern_dsc (dsc f))) = Suc (length gs)"
      "list_all (\<lambda>c. c \<le> right_class_cnt (kern_dsc (dsc f))) (right_class_mapping (kern_dsc (dsc f)))"
    and class_counts: "left_class_cnt (kern_dsc (dsc f)) < 2 ^ 8" "right_class_cnt (kern_dsc (dsc f)) < 2 ^ 8"
    and pair_count: "length (class_pair_values (kern_dsc (dsc f))) =
      left_class_cnt (kern_dsc (dsc f)) * right_class_cnt (kern_dsc (dsc f))"
    and pair_values: "list_all (\<lambda>v. low \<le> v \<and> v < 128) (class_pair_values (kern_dsc (dsc f)))"
    and low: "- 128 \<le> low" "low \<le> 0"
    and scale: "kern_scale (dsc f) = 16"
begin

abbreviation "table \<equiv> glyph_dsc (dsc f)"

lemma table_nth: "i < length gs \<Longrightarrow> table ! Suc i = tl table ! i \<and> i < length (tl table)"
  using sizes by (cases table) (auto dest: arg_cong [of _ _ length])

lemma table_entry:
  assumes "i < length gs"
  shows "bitmap_index (table ! Suc i) = sum_list (take i (map length gs))" "glyph_bytes (bpp (dsc f)) (table ! Suc i) = length (gs ! i)"
    "fits_line f (table ! Suc i)" "- low < int (adv_w (table ! Suc i))"
proof -
  note t = table_nth [OF assms]
  have "bitmap_index (tl table ! i) = offsets 0 (map length gs) ! i"
    using t by (metis indices nth_map)
  then show "bitmap_index (table ! Suc i) = sum_list (take i (map length gs))" using t assms by (simp add: offsets_nth)
  have "glyph_bytes (bpp (dsc f)) (tl table ! i) = map length gs ! i" using t by (metis sizes nth_map)
  then show "glyph_bytes (bpp (dsc f)) (table ! Suc i) = length (gs ! i)" using t assms by simp
  show "fits_line f (table ! Suc i)" "- low < int (adv_w (table ! Suc i))"
    using t lines advances by (simp_all add: list_all_length)
qed

text \<open>The bytes of a glyph are the ones the file lists for it, inside the bitmap, and no two glyphs share a byte.\<close>

lemma bits: "i < length gs \<Longrightarrow> glyph_bits (dsc f) (table ! Suc i) = gs ! i"
  by (simp add: glyph_bits_def table_entry bitmap concat_slice)

lemma bits_inside:
  "i < length gs \<Longrightarrow> bitmap_index (table ! Suc i) + glyph_bytes (bpp (dsc f)) (table ! Suc i) \<le> length (glyph_bitmap (dsc f))"
  using concat_slice_fits [of i gs] by (simp add: table_entry bitmap)

lemma bits_apart:
  assumes "i < j" "j < length gs"
  shows "bitmap_index (table ! Suc i) + glyph_bytes (bpp (dsc f)) (table ! Suc i) \<le> bitmap_index (table ! Suc j)"
  using sum_list_take_mono [of i j "map length gs"] assms by (simp add: table_entry)

lemma cmap: "cmap_glyph (cmaps (dsc f)) c = (if 32 \<le> c \<and> c < 32 + length gs then Some (Suc (c - 32)) else None)"
  by (auto simp: map_of_font)

text \<open>Kerning stays in the table of pairs, and the pen always moves on.\<close>

lemma kern_inside:
  assumes "i \<le> length gs" "j \<le> length gs" "kern_index (kern_dsc (dsc f)) i j = Some n"
  shows "n < length (class_pair_values (kern_dsc (dsc f)))"
proof -
  let ?k = "kern_dsc (dsc f)"
  have c: "left_class_mapping ?k ! i \<le> left_class_cnt ?k" "right_class_mapping ?k ! j \<le> right_class_cnt ?k"
    using left_classes right_classes assms(1,2) by (simp_all add: list_all_length)
  define l where "l = left_class_mapping ?k ! i - 1"
  define r where "r = right_class_mapping ?k ! j - 1"
  have lr: "left_class_mapping ?k ! i = Suc l" "right_class_mapping ?k ! j = Suc r" "n = l * right_class_cnt ?k + r"
    using assms(3) by (auto simp: kern_index_def Let_def l_def r_def split: if_splits)
  with c have "l < left_class_cnt ?k" "r < right_class_cnt ?k" by simp_all
  then have "Suc l * right_class_cnt ?k \<le> left_class_cnt ?k * right_class_cnt ?k" by (intro mult_le_mono1) simp
  with \<open>r < right_class_cnt ?k\<close> show ?thesis by (simp add: lr(3) pair_count)
qed

lemma pen_moves:
  assumes "i < length gs" "j \<le> length gs"
  shows "0 < pen_step (dsc f) (Suc i) j"
proof (cases "kern_index (kern_dsc (dsc f)) (Suc i) j")
  case None
  with table_entry(4) [OF assms(1)] low show ?thesis by (simp add: pen_step_def kern_of_def)
next
  case (Some n)
  with kern_inside [of "Suc i" j n] assms have "n < length (class_pair_values (kern_dsc (dsc f)))" by simp
  then have "low \<le> class_pair_values (kern_dsc (dsc f)) ! n" using pair_values by (simp add: list_all_length)
  with Some table_entry(4) [OF assms(1)] show ?thesis by (simp add: pen_step_def kern_of_def scale)
qed

end

end
