(* ===== verification/Font_Book18.thy ===== *)
theory Font_Book18
  imports Fonts
begin

text \<open>
  The font of \<^verbatim>\<open>eez/src/ui/fonts/ui_font_font_book18.c\<close>: its tables as the file has them, and that they satisfy the
  laws of a font file.
\<close>

section \<open>Bitmaps\<close>

text \<open>The bytes of each glyph, space first, in the groups the file gives them.\<close>

definition book18_glyphs_1 :: "u8 list list" where
  "book18_glyphs_1 = [
    [],
    [0x3f, 0xd3, 0xfc, 0x2f, 0xb1, 0xfa, 0xf, 0xa0, 0xf9, 0xe, 0x80, 0xe7, 0xd, 0x70, 0x21, 0x4, 0x24, 0xfe, 0x2e,
     0xa0],
    [0x1b, 0x70, 0xb9, 0x3, 0xfd, 0x1f, 0xf0, 0xf, 0xa0, 0xec, 0x0, 0xd7, 0xb, 0x80, 0x9, 0x30, 0x85, 0x0],
    [0x0, 0x0, 0x1f, 0x60, 0xf, 0x70, 0x0, 0x0, 0x4, 0xf3, 0x3, 0xf4, 0x0, 0x0, 0x0, 0x8f, 0x0, 0x7f, 0x10, 0x0, 0x3f,
     0xff, 0xff, 0xff, 0xff, 0xf6, 0x1, 0x66, 0xfb, 0x66, 0xec, 0x66, 0x20, 0x0, 0x1f, 0x60, 0xf, 0x70, 0x0, 0x0, 0x4,
     0xf3, 0x3, 0xf4, 0x0, 0x0, 0x11, 0x8f, 0x21, 0x6f, 0x31, 0x0, 0x1f, 0xff, 0xff, 0xff, 0xff, 0xf8, 0x0, 0x44,
     0xfb, 0x44, 0xec, 0x44, 0x20, 0x0, 0x2f, 0x60, 0xf, 0x70, 0x0, 0x0, 0x5, 0xf2, 0x4, 0xf3, 0x0, 0x0],
    [0x0, 0x0, 0x0, 0x0, 0x0, 0x0, 0x0, 0x2f, 0x30, 0x0, 0x0, 0x0, 0x3f, 0x40, 0x0, 0x0, 0x1b, 0xff, 0xfb, 0x10, 0x1,
     0xef, 0xaf, 0xcf, 0xe0, 0x7, 0xf6, 0x2f, 0x37, 0xf6, 0x8, 0xf3, 0x2f, 0x30, 0x40, 0x5, 0xfc, 0x5f, 0x30, 0x0,
     0x0, 0xbf, 0xff, 0xb5, 0x0, 0x0, 0x5, 0xaf, 0xff, 0xb0, 0x0, 0x0, 0x2f, 0x5b, 0xf6, 0xa, 0xa0, 0x2f, 0x32, 0xfa,
     0xc, 0xf3, 0x2f, 0x34, 0xf8, 0x3, 0xff, 0xbf, 0xbf, 0xf1, 0x0, 0x3b, 0xff, 0xfb, 0x20, 0x0, 0x0, 0x3f, 0x40, 0x0,
     0x0, 0x0, 0x2f, 0x30, 0x0],
    [0x0, 0x0, 0x0, 0x0, 0x0, 0x2, 0x0, 0x1, 0xbf, 0xf9, 0x0, 0x0, 0x9e, 0x10, 0xb, 0xe6, 0x7f, 0x70, 0x4, 0xf5, 0x0,
     0xf, 0x80, 0xc, 0xb0, 0x1e, 0xa0, 0x0, 0xc, 0xd3, 0x4f, 0x80, 0xbe, 0x0, 0x0, 0x3, 0xef, 0xfc, 0x6, 0xf4, 0x0,
     0x0, 0x0, 0x3, 0x30, 0x2f, 0x90, 0x0, 0x0, 0x0, 0x0, 0x0, 0xcd, 0x9, 0xff, 0x90, 0x0, 0x0, 0x7, 0xf3, 0x7f, 0x77,
     0xf7, 0x0, 0x0, 0x2f, 0x80, 0xcb, 0x0, 0xbc, 0x0, 0x0, 0xdc, 0x0, 0xcb, 0x0, 0xbc, 0x0, 0x8, 0xf2, 0x0, 0x6f,
     0x99, 0xf6, 0x0, 0x3f, 0x70, 0x0, 0x7, 0xee, 0x70],
    [0x0, 0x7e, 0xfc, 0x30, 0x0, 0x0, 0x9, 0xfc, 0x9f, 0xf2, 0x0, 0x0, 0xf, 0xd0, 0x4, 0xf8, 0x0, 0x0, 0xf, 0xc0, 0x4,
     0xf8, 0x0, 0x0, 0xa, 0xf6, 0x2d, 0xf2, 0x0, 0x0, 0x1, 0xdf, 0xfe, 0x40, 0x0, 0x10, 0x0, 0xbf, 0xf7, 0x0, 0x7,
     0x50, 0xc, 0xf8, 0xdf, 0x50, 0x5f, 0x50, 0x7f, 0x70, 0x1e, 0xf8, 0xfc, 0x0, 0xaf, 0x10, 0x2, 0xef, 0xe1, 0x0,
     0x9f, 0x60, 0x4, 0xff, 0xf4, 0x0, 0x2f, 0xfb, 0xbf, 0xf8, 0xff, 0x30, 0x3, 0xcf, 0xfb, 0x30, 0x5f, 0xe2],
    [0x1b, 0x73, 0xfd, 0xf, 0xa0, 0xd7, 0x9, 0x30],
    [0x0, 0x0, 0x20, 0x0, 0x5, 0xf3, 0x0, 0x2f, 0xa0, 0x0, 0xae, 0x10, 0x2, 0xf7, 0x0, 0x7, 0xf1, 0x0, 0xb, 0xc0, 0x0,
     0xe, 0x90, 0x0, 0xf, 0x80, 0x0, 0xf, 0x70, 0x0, 0xf, 0x80, 0x0, 0xd, 0xa0, 0x0, 0x9, 0xe0, 0x0, 0x4, 0xf4, 0x0,
     0x0, 0xeb, 0x0, 0x0, 0x5f, 0x50, 0x0, 0xb, 0xe2, 0x0, 0x1, 0xa1],
    [0x11, 0x0, 0xc, 0xc0, 0x0, 0x4f, 0x80, 0x0, 0x9f, 0x10, 0x1, 0xf8, 0x0, 0xa, 0xd0, 0x0, 0x5f, 0x20, 0x2, 0xf5,
     0x0, 0x1f, 0x60, 0x0, 0xf7, 0x0, 0x2f, 0x60, 0x3, 0xf4, 0x0, 0x8f, 0x0, 0xd, 0xb0, 0x5, 0xf5, 0x0, 0xdc, 0x0,
     0xaf, 0x30, 0x7, 0x50, 0x0],
    [0x0, 0xc, 0xa0, 0x0, 0x2, 0xc, 0xa0, 0x20, 0x3f, 0xce, 0xdd, 0xf2, 0x4, 0xaf, 0xf9, 0x30, 0x0, 0xbd, 0xea, 0x0,
     0x5, 0xf3, 0x4f, 0x40, 0x0, 0x30, 0x3, 0x0],
    [0x0, 0x0, 0x57, 0x0, 0x0, 0x0, 0x0, 0xad, 0x0, 0x0, 0x0, 0x0, 0xad, 0x0, 0x0, 0x2, 0x22, 0xad, 0x22, 0x20, 0xf,
     0xff, 0xff, 0xff, 0xf3, 0x5, 0x55, 0xce, 0x55, 0x51, 0x0, 0x0, 0xad, 0x0, 0x0, 0x0, 0x0, 0xad, 0x0, 0x0, 0x0,
     0x0, 0xad, 0x0, 0x0],
    [0x16, 0x20, 0xaf, 0xd0, 0x7f, 0xf0, 0x4, 0xd0, 0x2d, 0x50, 0x75, 0x0],
    [0x2, 0x22, 0x21, 0x3f, 0xff, 0xfb, 0x5, 0x55, 0x53],
    [0x17, 0x1a, 0xfb, 0x6f, 0x60],
    [0x0, 0x0, 0x1, 0xf9, 0x0, 0x0, 0x8, 0xf1, 0x0, 0x0, 0x1f, 0x90, 0x0, 0x0, 0x7f, 0x20, 0x0, 0x0, 0xea, 0x0, 0x0,
     0x7, 0xf3, 0x0, 0x0, 0xe, 0xb0, 0x0, 0x0, 0x6f, 0x40, 0x0, 0x0, 0xdc, 0x0, 0x0, 0x5, 0xf4, 0x0, 0x0, 0xc, 0xd0,
     0x0, 0x0, 0x4f, 0x50, 0x0, 0x0, 0xcd, 0x0, 0x0, 0x0],
    [0x0, 0x1, 0x78, 0x71, 0x0, 0x0, 0x5, 0xff, 0xff, 0xf5, 0x0, 0x2, 0xfd, 0x30, 0x3d, 0xf3, 0x0, 0x9f, 0x30, 0x0,
     0x2f, 0xa0, 0xd, 0xd0, 0x0, 0x0, 0xde, 0x0, 0xfb, 0x0, 0x0, 0xa, 0xf0, 0x1f, 0xa0, 0x0, 0x0, 0x9f, 0x20, 0xfa,
     0x0, 0x0, 0xa, 0xf1, 0xe, 0xc0, 0x0, 0x0, 0xbf, 0x0, 0xbf, 0x10, 0x0, 0xf, 0xc0, 0x5, 0xf9, 0x0, 0x8, 0xf6, 0x0,
     0xb, 0xfd, 0x9c, 0xfb, 0x0, 0x0, 0x8, 0xdf, 0xe8, 0x0, 0x0],
    [0x0, 0x8, 0xc0, 0x29, 0xff, 0x8f, 0xff, 0xf1, 0x33, 0xcf, 0x0, 0xb, 0xf0, 0x0, 0xbf, 0x0, 0xb, 0xf0, 0x0, 0xbf,
     0x0, 0xb, 0xf0, 0x0, 0xbf, 0x0, 0xb, 0xf0, 0x0, 0xbf],
    [0x0, 0x4c, 0xfe, 0xa1, 0x0, 0x6f, 0xe9, 0xbf, 0xe1, 0xf, 0xe0, 0x0, 0x6f, 0x83, 0xf8, 0x0, 0x1, 0xfb, 0x15, 0x30,
     0x0, 0x4f, 0x90, 0x0, 0x0, 0x2d, 0xf3, 0x0, 0x0, 0x6e, 0xf6, 0x0, 0x1, 0xbf, 0xd3, 0x0, 0x1, 0xdf, 0x80, 0x0,
     0x0, 0xbf, 0x40, 0x0, 0x0, 0x2f, 0xfa, 0xaa, 0xaa, 0x85, 0xff, 0xff, 0xff, 0xfc]]"

lemma book18_glyphs_1_lengths [font_lengths]: "map length book18_glyphs_1 = [0, 20, 18, 78, 85, 91, 78, 8, 54, 45, 28, 45, 12, 9, 5, 52, 72, 30, 54]"
  by (simp add: book18_glyphs_1_def)

definition book18_glyphs_2 :: "u8 list list" where
  "book18_glyphs_2 = [
    [0xf, 0xff, 0xff, 0xff, 0xf0, 0x9, 0xaa, 0xaa, 0xdf, 0xe0, 0x0, 0x0, 0x5, 0xfd, 0x20, 0x0, 0x0, 0x6f, 0xd1, 0x0,
     0x0, 0x7, 0xfe, 0x30, 0x0, 0x0, 0x6, 0xff, 0xfc, 0x10, 0x0, 0x0, 0x32, 0x8f, 0xc0, 0x0, 0x0, 0x0, 0xb, 0xf2,
     0x3e, 0x80, 0x0, 0x9, 0xf3, 0x1f, 0xe1, 0x0, 0x1e, 0xf0, 0x6, 0xff, 0xaa, 0xef, 0x60, 0x0, 0x4c, 0xff, 0xc4, 0x0],
    [0x0, 0x0, 0xb, 0xff, 0x10, 0x0, 0x0, 0x5, 0xff, 0xf1, 0x0, 0x0, 0x1, 0xed, 0xaf, 0x10, 0x0, 0x0, 0xaf, 0x4a,
     0xf1, 0x0, 0x0, 0x5f, 0x90, 0xaf, 0x10, 0x0, 0x1e, 0xd0, 0xa, 0xf1, 0x0, 0xa, 0xf4, 0x0, 0xaf, 0x10, 0x4, 0xf9,
     0x0, 0xa, 0xf1, 0x0, 0x6f, 0xff, 0xff, 0xff, 0xff, 0x13, 0xaa, 0xaa, 0xad, 0xfa, 0xa0, 0x0, 0x0, 0x0, 0xaf, 0x10,
     0x0, 0x0, 0x0, 0xa, 0xf1, 0x0],
    [0x0, 0x8f, 0xff, 0xff, 0xc0, 0x0, 0xce, 0xaa, 0xaa, 0x70, 0x1, 0xf8, 0x0, 0x0, 0x0, 0x5, 0xf4, 0x0, 0x0, 0x0,
     0x9, 0xf8, 0xdf, 0xd5, 0x0, 0xc, 0xfe, 0xaa, 0xff, 0x60, 0x0, 0x40, 0x0, 0x2f, 0xf0, 0x0, 0x0, 0x0, 0xa, 0xf3,
     0x3c, 0x70, 0x0, 0xa, 0xf2, 0x1f, 0xe1, 0x0, 0x2f, 0xe0, 0x7, 0xfe, 0xaa, 0xff, 0x50, 0x0, 0x4c, 0xff, 0xb3, 0x0],
    [0x0, 0x0, 0x7d, 0xfe, 0xb2, 0x0, 0x2e, 0xfc, 0x9a, 0xe2, 0x0, 0xdf, 0x50, 0x0, 0x0, 0x7, 0xf6, 0x0, 0x0, 0x0,
     0xc, 0xe4, 0xcf, 0xea, 0x20, 0xf, 0xef, 0xb8, 0xcf, 0xe1, 0xf, 0xf8, 0x0, 0x8, 0xf8, 0xf, 0xf1, 0x0, 0x1, 0xfc,
     0xd, 0xf1, 0x0, 0x1, 0xfb, 0x8, 0xf8, 0x0, 0x8, 0xf7, 0x0, 0xcf, 0xc9, 0xcf, 0xc0, 0x0, 0x8, 0xef, 0xe8, 0x0],
    [0x9a, 0xaa, 0xaa, 0xaa, 0x6e, 0xff, 0xff, 0xff, 0xf9, 0x0, 0x0, 0x1, 0xce, 0x30, 0x0, 0x0, 0xcf, 0x20, 0x0, 0x0,
     0x8f, 0x50, 0x0, 0x0, 0x2f, 0xb0, 0x0, 0x0, 0xa, 0xf2, 0x0, 0x0, 0x2, 0xfb, 0x0, 0x0, 0x0, 0x7f, 0x60, 0x0, 0x0,
     0xb, 0xf1, 0x0, 0x0, 0x0, 0xee, 0x0, 0x0, 0x0, 0x1f, 0xb0, 0x0, 0x0],
    [0x0, 0x0, 0x1, 0x0, 0x0, 0x0, 0x6d, 0xff, 0xe6, 0x0, 0x6, 0xfd, 0x66, 0xcf, 0x70, 0xd, 0xf1, 0x0, 0xe, 0xe0, 0xc,
     0xf0, 0x0, 0xe, 0xd0, 0x5, 0xfa, 0x33, 0xaf, 0x60, 0x0, 0x7f, 0xff, 0xf8, 0x0, 0x5, 0xfc, 0x66, 0xbf, 0x60, 0xe,
     0xd0, 0x0, 0xc, 0xf1, 0x2f, 0xa0, 0x0, 0x9, 0xf3, 0xf, 0xe1, 0x0, 0xd, 0xf1, 0x7, 0xfe, 0x99, 0xef, 0x90, 0x0,
     0x5c, 0xff, 0xc5, 0x0],
    [0x0, 0x4, 0x77, 0x40, 0x0, 0x1, 0xbf, 0xff, 0xfb, 0x0, 0xa, 0xf8, 0x11, 0x8f, 0xa0, 0x2f, 0xb0, 0x0, 0xb, 0xf2,
     0x4f, 0x80, 0x0, 0x8, 0xf6, 0x2f, 0xb0, 0x0, 0xb, 0xf8, 0xc, 0xf8, 0x11, 0x8f, 0xf8, 0x1, 0xdf, 0xff, 0xfa, 0xf7,
     0x0, 0x4, 0x76, 0x27, 0xf4, 0x0, 0x0, 0x0, 0xd, 0xf0, 0x0, 0x0, 0x0, 0x9f, 0x80, 0xa, 0xca, 0xae, 0xfb, 0x0, 0x8,
     0xdf, 0xec, 0x60, 0x0],
    [0x5f, 0x89, 0xfc, 0x17, 0x20, 0x0, 0x0, 0x0, 0x0, 0x17, 0x28, 0xfc, 0x5f, 0x80],
    [0x4f, 0x88, 0xfc, 0x17, 0x20, 0x0, 0x0, 0x0, 0x0, 0x4, 0x8, 0xfc, 0x6f, 0xf0, 0x4c, 0x2d, 0x45, 0x30],
    [0x0, 0x0, 0x0, 0x7, 0x0, 0x0, 0x0, 0x6e, 0xf0, 0x0, 0x6, 0xef, 0xc4, 0x0, 0x6e, 0xfc, 0x40, 0x0, 0x5f, 0xd4, 0x0,
     0x0, 0x3, 0xff, 0xb3, 0x0, 0x0, 0x1, 0x8f, 0xfb, 0x30, 0x0, 0x0, 0x18, 0xff, 0xb0, 0x0, 0x0, 0x1, 0x8f, 0x0, 0x0,
     0x0, 0x0, 0x10],
    [0x11, 0x11, 0x11, 0x11, 0xd, 0xff, 0xff, 0xff, 0xf8, 0x34, 0x44, 0x44, 0x44, 0x20, 0x0, 0x0, 0x0, 0x0, 0x12,
     0x22, 0x22, 0x22, 0x1d, 0xff, 0xff, 0xff, 0xf8, 0x45, 0x55, 0x55, 0x55, 0x20],
    [0x34, 0x0, 0x0, 0x0, 0x6, 0xfc, 0x40, 0x0, 0x0, 0x7, 0xef, 0xc4, 0x0, 0x0, 0x0, 0x6e, 0xfb, 0x30, 0x0, 0x0, 0x6,
     0xff, 0x0, 0x0, 0x5, 0xdf, 0xd0, 0x0, 0x5d, 0xfd, 0x50, 0x3, 0xdf, 0xd5, 0x0, 0x0, 0x6d, 0x50, 0x0, 0x0, 0x1,
     0x0, 0x0, 0x0, 0x0],
    [0x0, 0x7d, 0xfe, 0x80, 0x0, 0x9f, 0xda, 0xcf, 0xc0, 0x2f, 0xc0, 0x0, 0xaf, 0x55, 0xf6, 0x0, 0x4, 0xf8, 0x29,
     0x40, 0x0, 0x8f, 0x60, 0x0, 0x0, 0x7f, 0xd0, 0x0, 0x0, 0xaf, 0xc1, 0x0, 0x0, 0x4f, 0xa0, 0x0, 0x0, 0x7, 0xf2,
     0x0, 0x0, 0x0, 0x14, 0x0, 0x0, 0x0, 0x1, 0x40, 0x0, 0x0, 0x0, 0xcf, 0x60, 0x0, 0x0, 0x9, 0xe3, 0x0, 0x0],
    [0x0, 0x0, 0x29, 0xdf, 0xfc, 0x71, 0x0, 0x0, 0x0, 0x8f, 0xd7, 0x55, 0x8e, 0xe4, 0x0, 0x0, 0x8f, 0x60, 0x0, 0x0,
     0x1a, 0xf2, 0x0, 0x3f, 0x70, 0x2c, 0xfe, 0x7f, 0x2c, 0xb0, 0xb, 0xd0, 0x1e, 0xc5, 0x8f, 0xe0, 0x5f, 0x10, 0xf8,
     0x8, 0xf1, 0x0, 0xdb, 0x2, 0xf3, 0x2f, 0x50, 0xca, 0x0, 0xd, 0x80, 0x4f, 0x22, 0xf4, 0xc, 0xa0, 0x1, 0xf5, 0x8,
     0xe0, 0x1f, 0x60, 0x9f, 0x32, 0xbf, 0x64, 0xf7, 0x0, 0xdb, 0x1, 0xcf, 0xf9, 0xbf, 0xf9, 0x0, 0x7, 0xf3, 0x0,
     0x21, 0x0, 0x21, 0x0, 0x0, 0xc, 0xd2, 0x0, 0x0, 0x0, 0x70, 0x0, 0x0, 0x1c, 0xf8, 0x31, 0x15, 0xcf, 0x30, 0x0,
     0x0, 0x7, 0xdf, 0xff, 0xfb, 0x30, 0x0, 0x0, 0x0, 0x0, 0x13, 0x31, 0x0, 0x0, 0x0],
    [0x0, 0x0, 0xe, 0xf7, 0x0, 0x0, 0x0, 0x0, 0x5, 0xff, 0xd0, 0x0, 0x0, 0x0, 0x0, 0xbf, 0xaf, 0x40, 0x0, 0x0, 0x0,
     0x1f, 0xa3, 0xfa, 0x0, 0x0, 0x0, 0x8, 0xf4, 0xd, 0xf1, 0x0, 0x0, 0x0, 0xee, 0x0, 0x7f, 0x70, 0x0, 0x0, 0x4f,
     0x90, 0x1, 0xfd, 0x0, 0x0, 0xa, 0xf3, 0x0, 0xb, 0xf3, 0x0, 0x1, 0xff, 0xff, 0xff, 0xff, 0x90, 0x0, 0x7f, 0xca,
     0xaa, 0xaa, 0xff, 0x0, 0xd, 0xf1, 0x0, 0x0, 0x9, 0xf6, 0x3, 0xfa, 0x0, 0x0, 0x0, 0x2f, 0xc0, 0x9f, 0x40, 0x0,
     0x0, 0x0, 0xcf, 0x20]]"

lemma book18_glyphs_2_lengths [font_lengths]: "map length book18_glyphs_2 = [60, 66, 60, 60, 54, 65, 65, 14, 18, 45, 32, 45, 59, 113, 85]"
  by (simp add: book18_glyphs_2_def)

definition book18_glyphs_3 :: "u8 list list" where
  "book18_glyphs_3 = [
    [0x6f, 0xff, 0xfe, 0xa1, 0x0, 0x6f, 0xb9, 0x9c, 0xfd, 0x0, 0x6f, 0x60, 0x0, 0x9f, 0x60, 0x6f, 0x60, 0x0, 0x3f,
     0x90, 0x6f, 0x60, 0x0, 0x4f, 0x80, 0x6f, 0x60, 0x3, 0xdf, 0x20, 0x6f, 0xff, 0xff, 0xf3, 0x0, 0x6f, 0xb8, 0x89,
     0xee, 0x30, 0x6f, 0x60, 0x0, 0x2f, 0xc0, 0x6f, 0x60, 0x0, 0xd, 0xf0, 0x6f, 0x60, 0x0, 0x2f, 0xe0, 0x6f, 0xb9,
     0x9a, 0xff, 0x50, 0x6f, 0xff, 0xfe, 0xc4, 0x0],
    [0x0, 0x0, 0x6c, 0xff, 0xd8, 0x10, 0x0, 0x2, 0xdf, 0xeb, 0xad, 0xff, 0x30, 0x0, 0xdf, 0x70, 0x0, 0x4, 0xff, 0x10,
     0x8f, 0x70, 0x0, 0x0, 0x5, 0xf8, 0xe, 0xe0, 0x0, 0x0, 0x0, 0x6, 0x11, 0xfb, 0x0, 0x0, 0x0, 0x0, 0x0, 0x2f, 0xa0,
     0x0, 0x0, 0x0, 0x0, 0x1, 0xfb, 0x0, 0x0, 0x0, 0x0, 0x0, 0xe, 0xe0, 0x0, 0x0, 0x0, 0x6, 0x20, 0x8f, 0x70, 0x0,
     0x0, 0x5, 0xf9, 0x0, 0xdf, 0x70, 0x0, 0x5, 0xfe, 0x10, 0x2, 0xdf, 0xeb, 0xad, 0xff, 0x30, 0x0, 0x0, 0x7c, 0xff,
     0xd8, 0x10, 0x0],
    [0x6f, 0xff, 0xff, 0xd7, 0x10, 0x0, 0x6f, 0xb9, 0x99, 0xdf, 0xe2, 0x0, 0x6f, 0x60, 0x0, 0x6, 0xfe, 0x10, 0x6f,
     0x60, 0x0, 0x0, 0x7f, 0x80, 0x6f, 0x60, 0x0, 0x0, 0xf, 0xe0, 0x6f, 0x60, 0x0, 0x0, 0xc, 0xf1, 0x6f, 0x60, 0x0,
     0x0, 0xb, 0xf2, 0x6f, 0x60, 0x0, 0x0, 0xc, 0xf1, 0x6f, 0x60, 0x0, 0x0, 0xf, 0xe0, 0x6f, 0x60, 0x0, 0x0, 0x7f,
     0x80, 0x6f, 0x60, 0x0, 0x5, 0xfe, 0x10, 0x6f, 0xb9, 0x99, 0xdf, 0xe3, 0x0, 0x6f, 0xff, 0xff, 0xd8, 0x10, 0x0],
    [0x6f, 0xff, 0xff, 0xff, 0x66, 0xfc, 0xaa, 0xaa, 0xa3, 0x6f, 0x60, 0x0, 0x0, 0x6, 0xf6, 0x0, 0x0, 0x0, 0x6f, 0x60,
     0x0, 0x0, 0x6, 0xf6, 0x0, 0x0, 0x0, 0x6f, 0xff, 0xff, 0xfd, 0x6, 0xfc, 0xaa, 0xaa, 0x80, 0x6f, 0x60, 0x0, 0x0,
     0x6, 0xf6, 0x0, 0x0, 0x0, 0x6f, 0x60, 0x0, 0x0, 0x6, 0xfc, 0xaa, 0xaa, 0xa3, 0x6f, 0xff, 0xff, 0xff, 0x60],
    [0x6f, 0xff, 0xff, 0xff, 0x66, 0xfc, 0xaa, 0xaa, 0xa3, 0x6f, 0x60, 0x0, 0x0, 0x6, 0xf6, 0x0, 0x0, 0x0, 0x6f, 0x60,
     0x0, 0x0, 0x6, 0xf6, 0x0, 0x0, 0x0, 0x6f, 0xff, 0xff, 0xfd, 0x6, 0xfc, 0xaa, 0xaa, 0x80, 0x6f, 0x60, 0x0, 0x0,
     0x6, 0xf6, 0x0, 0x0, 0x0, 0x6f, 0x60, 0x0, 0x0, 0x6, 0xf6, 0x0, 0x0, 0x0, 0x6f, 0x60, 0x0, 0x0, 0x0],
    [0x0, 0x0, 0x6c, 0xff, 0xd8, 0x10, 0x0, 0x2, 0xdf, 0xea, 0xad, 0xff, 0x40, 0x0, 0xdf, 0x70, 0x0, 0x4, 0xef, 0x30,
     0x8f, 0x70, 0x0, 0x0, 0x4, 0xf8, 0xe, 0xf0, 0x0, 0x0, 0x0, 0x2, 0x1, 0xfb, 0x0, 0x0, 0x0, 0x0, 0x0, 0x2f, 0xa0,
     0x0, 0x49, 0x99, 0x99, 0x61, 0xfb, 0x0, 0x7, 0xff, 0xff, 0xfa, 0xe, 0xe0, 0x0, 0x0, 0x0, 0x1f, 0xa0, 0x8f, 0x70,
     0x0, 0x0, 0x8, 0xfa, 0x1, 0xef, 0x60, 0x0, 0x5, 0xff, 0xa0, 0x2, 0xef, 0xea, 0xad, 0xf9, 0xda, 0x0, 0x1, 0x7d,
     0xff, 0xc6, 0xc, 0xa0],
    [0x6f, 0x60, 0x0, 0x0, 0x1f, 0xa6, 0xf6, 0x0, 0x0, 0x1, 0xfa, 0x6f, 0x60, 0x0, 0x0, 0x1f, 0xa6, 0xf6, 0x0, 0x0,
     0x1, 0xfa, 0x6f, 0x60, 0x0, 0x0, 0x1f, 0xa6, 0xfc, 0xaa, 0xaa, 0xab, 0xfa, 0x6f, 0xff, 0xff, 0xff, 0xff, 0xa6,
     0xf6, 0x0, 0x0, 0x1, 0xfa, 0x6f, 0x60, 0x0, 0x0, 0x1f, 0xa6, 0xf6, 0x0, 0x0, 0x1, 0xfa, 0x6f, 0x60, 0x0, 0x0,
     0x1f, 0xa6, 0xf6, 0x0, 0x0, 0x1, 0xfa, 0x6f, 0x60, 0x0, 0x0, 0x1f, 0xa0],
    [0x6f, 0x66, 0xf6, 0x6f, 0x66, 0xf6, 0x6f, 0x66, 0xf6, 0x6f, 0x66, 0xf6, 0x6f, 0x66, 0xf6, 0x6f, 0x66, 0xf6, 0x6f,
     0x60],
    [0x0, 0x0, 0x0, 0x9f, 0x20, 0x0, 0x0, 0x9, 0xf2, 0x0, 0x0, 0x0, 0x9f, 0x20, 0x0, 0x0, 0x9, 0xf2, 0x0, 0x0, 0x0,
     0x9f, 0x20, 0x0, 0x0, 0x9, 0xf2, 0x0, 0x0, 0x0, 0x9f, 0x20, 0x20, 0x0, 0x9, 0xf2, 0x9f, 0x20, 0x0, 0x9f, 0x29,
     0xf3, 0x0, 0xa, 0xf1, 0x6f, 0x90, 0x1, 0xee, 0x0, 0xcf, 0xdb, 0xef, 0x50, 0x0, 0x9e, 0xfd, 0x40, 0x0],
    [0x6f, 0x60, 0x0, 0x2, 0xef, 0x46, 0xf6, 0x0, 0x1, 0xef, 0x50, 0x6f, 0x60, 0x0, 0xdf, 0x60, 0x6, 0xf6, 0x0, 0xbf,
     0x70, 0x0, 0x6f, 0x60, 0xaf, 0x90, 0x0, 0x6, 0xf6, 0x8f, 0xa0, 0x0, 0x0, 0x6f, 0xcf, 0xfd, 0x0, 0x0, 0x6, 0xff,
     0xc9, 0xfa, 0x0, 0x0, 0x6f, 0xd1, 0xc, 0xf6, 0x0, 0x6, 0xf6, 0x0, 0x1e, 0xf2, 0x0, 0x6f, 0x60, 0x0, 0x5f, 0xd0,
     0x6, 0xf6, 0x0, 0x0, 0x9f, 0xa0, 0x6f, 0x60, 0x0, 0x0, 0xdf, 0x60],
    [0x6f, 0x60, 0x0, 0x0, 0x6, 0xf6, 0x0, 0x0, 0x0, 0x6f, 0x60, 0x0, 0x0, 0x6, 0xf6, 0x0, 0x0, 0x0, 0x6f, 0x60, 0x0,
     0x0, 0x6, 0xf6, 0x0, 0x0, 0x0, 0x6f, 0x60, 0x0, 0x0, 0x6, 0xf6, 0x0, 0x0, 0x0, 0x6f, 0x60, 0x0, 0x0, 0x6, 0xf6,
     0x0, 0x0, 0x0, 0x6f, 0x60, 0x0, 0x0, 0x6, 0xfc, 0xaa, 0xaa, 0xa4, 0x6f, 0xff, 0xff, 0xff, 0x60],
    [0x6f, 0xf3, 0x0, 0x0, 0x0, 0x2, 0xff, 0x66, 0xff, 0xa0, 0x0, 0x0, 0x0, 0x9f, 0xf6, 0x6f, 0xff, 0x10, 0x0, 0x0,
     0x1f, 0xff, 0x66, 0xfb, 0xf8, 0x0, 0x0, 0x7, 0xfb, 0xf6, 0x6f, 0x6e, 0xe0, 0x0, 0x0, 0xde, 0x6f, 0x66, 0xf5,
     0x8f, 0x50, 0x0, 0x4f, 0x85, 0xf6, 0x6f, 0x51, 0xfc, 0x0, 0xb, 0xf1, 0x5f, 0x66, 0xf5, 0xa, 0xf3, 0x2, 0xfa, 0x5,
     0xf6, 0x6f, 0x50, 0x3f, 0xa0, 0x9f, 0x30, 0x5f, 0x66, 0xf5, 0x0, 0xcf, 0x2f, 0xd0, 0x5, 0xf6, 0x6f, 0x50, 0x6,
     0xfd, 0xf6, 0x0, 0x5f, 0x66, 0xf5, 0x0, 0xe, 0xfe, 0x0, 0x5, 0xf6, 0x6f, 0x50, 0x0, 0x8f, 0x80, 0x0, 0x5f, 0x60],
    [0x6f, 0xf4, 0x0, 0x0, 0xa, 0xf1, 0x6f, 0xfe, 0x0, 0x0, 0xa, 0xf1, 0x6f, 0xef, 0x90, 0x0, 0xa, 0xf1, 0x6f, 0x6d,
     0xf3, 0x0, 0xa, 0xf1, 0x6f, 0x64, 0xfd, 0x0, 0xa, 0xf1, 0x6f, 0x60, 0x9f, 0x70, 0xa, 0xf1, 0x6f, 0x60, 0xe, 0xf2,
     0xa, 0xf1, 0x6f, 0x60, 0x4, 0xfc, 0xa, 0xf1, 0x6f, 0x60, 0x0, 0xaf, 0x6a, 0xf1, 0x6f, 0x60, 0x0, 0x1e, 0xfc,
     0xf1, 0x6f, 0x60, 0x0, 0x5, 0xff, 0xf1, 0x6f, 0x60, 0x0, 0x0, 0xbf, 0xf1, 0x6f, 0x60, 0x0, 0x0, 0x1f, 0xf1]]"

lemma book18_glyphs_3_lengths [font_lengths]: "map length book18_glyphs_3 = [65, 85, 78, 59, 59, 85, 72, 20, 59, 72, 59, 98, 78]"
  by (simp add: book18_glyphs_3_def)

definition book18_glyphs_4 :: "u8 list list" where
  "book18_glyphs_4 = [
    [0x0, 0x0, 0x6b, 0xef, 0xd9, 0x20, 0x0, 0x0, 0x1c, 0xfe, 0xba, 0xdf, 0xf6, 0x0, 0x0, 0xdf, 0x70, 0x0, 0x3, 0xdf,
     0x50, 0x8, 0xf8, 0x0, 0x0, 0x0, 0x2f, 0xe0, 0xe, 0xf0, 0x0, 0x0, 0x0, 0x8, 0xf5, 0x1f, 0xb0, 0x0, 0x0, 0x0, 0x4,
     0xf8, 0x2f, 0xa0, 0x0, 0x0, 0x0, 0x3, 0xf9, 0x1f, 0xb0, 0x0, 0x0, 0x0, 0x4, 0xf8, 0xe, 0xf0, 0x0, 0x0, 0x0, 0x8,
     0xf5, 0x8, 0xf8, 0x0, 0x0, 0x0, 0x2f, 0xe0, 0x0, 0xdf, 0x70, 0x0, 0x3, 0xdf, 0x50, 0x0, 0x1c, 0xfe, 0xba, 0xcf,
     0xf6, 0x0, 0x0, 0x0, 0x6c, 0xff, 0xd9, 0x20, 0x0],
    [0x6f, 0xff, 0xff, 0xc4, 0x0, 0x6f, 0xc9, 0x9a, 0xff, 0x50, 0x6f, 0x60, 0x0, 0x2e, 0xe0, 0x6f, 0x60, 0x0, 0xa,
     0xf2, 0x6f, 0x60, 0x0, 0xb, 0xf1, 0x6f, 0x60, 0x1, 0x7f, 0xc0, 0x6f, 0xff, 0xff, 0xfd, 0x20, 0x6f, 0xc9, 0x99,
     0x60, 0x0, 0x6f, 0x60, 0x0, 0x0, 0x0, 0x6f, 0x60, 0x0, 0x0, 0x0, 0x6f, 0x60, 0x0, 0x0, 0x0, 0x6f, 0x60, 0x0, 0x0,
     0x0, 0x6f, 0x60, 0x0, 0x0, 0x0],
    [0x0, 0x0, 0x6b, 0xef, 0xd9, 0x20, 0x0, 0x0, 0x1c, 0xfe, 0xba, 0xdf, 0xf6, 0x0, 0x0, 0xdf, 0x70, 0x0, 0x3, 0xdf,
     0x50, 0x8, 0xf8, 0x0, 0x0, 0x0, 0x2f, 0xe0, 0xe, 0xf0, 0x0, 0x0, 0x0, 0x8, 0xf5, 0x1f, 0xb0, 0x0, 0x0, 0x0, 0x4,
     0xf8, 0x2f, 0xa0, 0x0, 0x0, 0x0, 0x3, 0xf9, 0x1f, 0xb0, 0x0, 0x0, 0x50, 0x4, 0xf8, 0xe, 0xf0, 0x0, 0x8, 0xf7,
     0x9, 0xf4, 0x8, 0xf8, 0x0, 0x0, 0xbf, 0x7f, 0xe0, 0x0, 0xdf, 0x70, 0x0, 0xd, 0xff, 0x40, 0x0, 0x1c, 0xfe, 0xba,
     0xdf, 0xff, 0x30, 0x0, 0x0, 0x6c, 0xff, 0xd8, 0x4e, 0xe1, 0x0, 0x0, 0x0, 0x0, 0x0, 0x3, 0x70],
    [0x6f, 0xff, 0xff, 0xd6, 0x0, 0x6f, 0xc9, 0x9a, 0xef, 0x80, 0x6f, 0x60, 0x0, 0x1e, 0xf1, 0x6f, 0x60, 0x0, 0x8,
     0xf4, 0x6f, 0x60, 0x0, 0xa, 0xf3, 0x6f, 0x60, 0x0, 0x6f, 0xd0, 0x6f, 0xff, 0xff, 0xfe, 0x30, 0x6f, 0xc9, 0xdf,
     0x90, 0x0, 0x6f, 0x60, 0x3f, 0xc0, 0x0, 0x6f, 0x60, 0xa, 0xf5, 0x0, 0x6f, 0x60, 0x2, 0xfd, 0x0, 0x6f, 0x60, 0x0,
     0x9f, 0x70, 0x6f, 0x60, 0x0, 0x1f, 0xe1],
    [0x0, 0x8, 0xef, 0xe8, 0x10, 0x0, 0xcf, 0xc9, 0xcf, 0xd0, 0x8, 0xf7, 0x0, 0x6, 0xf8, 0xb, 0xf0, 0x0, 0x0, 0x83,
     0xa, 0xf4, 0x0, 0x0, 0x0, 0x3, 0xff, 0xa6, 0x20, 0x0, 0x0, 0x4c, 0xff, 0xfd, 0x40, 0x0, 0x0, 0x15, 0x9f, 0xf4,
     0x0, 0x10, 0x0, 0x4, 0xfb, 0x2f, 0x90, 0x0, 0x0, 0xfd, 0xe, 0xf4, 0x0, 0x6, 0xf9, 0x4, 0xff, 0xca, 0xcf, 0xe1,
     0x0, 0x2a, 0xef, 0xe9, 0x10],
    [0xdf, 0xff, 0xff, 0xff, 0xff, 0x78, 0xaa, 0xad, 0xfb, 0xaa, 0xa4, 0x0, 0x0, 0x8f, 0x30, 0x0, 0x0, 0x0, 0x8, 0xf3,
     0x0, 0x0, 0x0, 0x0, 0x8f, 0x30, 0x0, 0x0, 0x0, 0x8, 0xf3, 0x0, 0x0, 0x0, 0x0, 0x8f, 0x30, 0x0, 0x0, 0x0, 0x8,
     0xf3, 0x0, 0x0, 0x0, 0x0, 0x8f, 0x30, 0x0, 0x0, 0x0, 0x8, 0xf3, 0x0, 0x0, 0x0, 0x0, 0x8f, 0x30, 0x0, 0x0, 0x0,
     0x8, 0xf3, 0x0, 0x0, 0x0, 0x0, 0x8f, 0x30, 0x0, 0x0],
    [0x9f, 0x30, 0x0, 0x2, 0xfa, 0x9f, 0x30, 0x0, 0x2, 0xfa, 0x9f, 0x30, 0x0, 0x2, 0xfa, 0x9f, 0x30, 0x0, 0x2, 0xfa,
     0x9f, 0x30, 0x0, 0x2, 0xfa, 0x9f, 0x30, 0x0, 0x2, 0xfa, 0x9f, 0x30, 0x0, 0x2, 0xfa, 0x9f, 0x30, 0x0, 0x2, 0xfa,
     0x8f, 0x30, 0x0, 0x2, 0xf9, 0x7f, 0x60, 0x0, 0x5, 0xf7, 0x2f, 0xd1, 0x0, 0x1d, 0xf3, 0x8, 0xff, 0xbb, 0xff, 0x90,
     0x0, 0x5c, 0xff, 0xc5, 0x0],
    [0xaf, 0x30, 0x0, 0x0, 0x6, 0xf7, 0x4f, 0x90, 0x0, 0x0, 0xc, 0xf1, 0xe, 0xe0, 0x0, 0x0, 0x1f, 0xb0, 0x8, 0xf4,
     0x0, 0x0, 0x7f, 0x50, 0x2, 0xfa, 0x0, 0x0, 0xde, 0x0, 0x0, 0xcf, 0x0, 0x3, 0xf9, 0x0, 0x0, 0x6f, 0x60, 0x9, 0xf3,
     0x0, 0x0, 0x1f, 0xc0, 0xe, 0xc0, 0x0, 0x0, 0xa, 0xf1, 0x4f, 0x60, 0x0, 0x0, 0x4, 0xf7, 0xaf, 0x10, 0x0, 0x0, 0x0,
     0xed, 0xfa, 0x0, 0x0, 0x0, 0x0, 0x9f, 0xf4, 0x0, 0x0, 0x0, 0x0, 0x3f, 0xe0, 0x0, 0x0],
    [0x9f, 0x30, 0x0, 0x1, 0xff, 0x10, 0x0, 0x2, 0xfa, 0x4f, 0x80, 0x0, 0x6, 0xff, 0x60, 0x0, 0x6, 0xf6, 0xf, 0xc0,
     0x0, 0xb, 0xff, 0xc0, 0x0, 0xa, 0xf1, 0xb, 0xf1, 0x0, 0xf, 0xba, 0xf1, 0x0, 0xf, 0xd0, 0x7, 0xf5, 0x0, 0x5f,
     0x65, 0xf6, 0x0, 0x3f, 0x80, 0x2, 0xf9, 0x0, 0xaf, 0x10, 0xfb, 0x0, 0x7f, 0x40, 0x0, 0xee, 0x0, 0xec, 0x0, 0xbf,
     0x0, 0xcf, 0x0, 0x0, 0x9f, 0x24, 0xf7, 0x0, 0x6f, 0x50, 0xfb, 0x0, 0x0, 0x5f, 0x69, 0xf2, 0x0, 0x1f, 0xa4, 0xf6,
     0x0, 0x0, 0xf, 0xbe, 0xd0, 0x0, 0xc, 0xf9, 0xf2, 0x0, 0x0, 0xc, 0xff, 0x80, 0x0, 0x7, 0xff, 0xd0, 0x0, 0x0, 0x7,
     0xff, 0x30, 0x0, 0x2, 0xff, 0x90, 0x0, 0x0, 0x3, 0xfd, 0x0, 0x0, 0x0, 0xdf, 0x40, 0x0],
    [0x7f, 0xa0, 0x0, 0x0, 0x7f, 0x90, 0xcf, 0x40, 0x0, 0x2f, 0xd0, 0x2, 0xfe, 0x0, 0xc, 0xf4, 0x0, 0x7, 0xf8, 0x6,
     0xf9, 0x0, 0x0, 0xc, 0xf4, 0xfd, 0x0, 0x0, 0x0, 0x2f, 0xff, 0x40, 0x0, 0x0, 0x0, 0xaf, 0xc0, 0x0, 0x0, 0x0, 0x2f,
     0xff, 0x40, 0x0, 0x0, 0xc, 0xf5, 0xfd, 0x0, 0x0, 0x7, 0xf8, 0x7, 0xf9, 0x0, 0x2, 0xfd, 0x0, 0xc, 0xf3, 0x0, 0xcf,
     0x30, 0x0, 0x3f, 0xd0, 0x7f, 0x90, 0x0, 0x0, 0x8f, 0x80],
    [0x8f, 0x90, 0x0, 0x0, 0x5f, 0xa0, 0xdf, 0x20, 0x0, 0xe, 0xf1, 0x4, 0xfb, 0x0, 0x8, 0xf6, 0x0, 0xb, 0xf4, 0x1,
     0xfc, 0x0, 0x0, 0x2f, 0xd0, 0xaf, 0x30, 0x0, 0x0, 0x7f, 0xaf, 0x90, 0x0, 0x0, 0x0, 0xdf, 0xe1, 0x0, 0x0, 0x0,
     0x5, 0xf7, 0x0, 0x0, 0x0, 0x0, 0x5f, 0x70, 0x0, 0x0, 0x0, 0x5, 0xf7, 0x0, 0x0, 0x0, 0x0, 0x5f, 0x70, 0x0, 0x0,
     0x0, 0x5, 0xf7, 0x0, 0x0, 0x0, 0x0, 0x5f, 0x70, 0x0, 0x0],
    [0xf, 0xff, 0xff, 0xff, 0xff, 0x90, 0xaa, 0xaa, 0xaa, 0xae, 0xf8, 0x0, 0x0, 0x0, 0x4, 0xfd, 0x10, 0x0, 0x0, 0x1,
     0xef, 0x30, 0x0, 0x0, 0x0, 0xcf, 0x50, 0x0, 0x0, 0x0, 0xaf, 0x90, 0x0, 0x0, 0x0, 0x6f, 0xc0, 0x0, 0x0, 0x0, 0x3f,
     0xe1, 0x0, 0x0, 0x0, 0x1e, 0xf3, 0x0, 0x0, 0x0, 0xc, 0xf6, 0x0, 0x0, 0x0, 0x9, 0xf9, 0x0, 0x0, 0x0, 0x2, 0xff,
     0xba, 0xaa, 0xaa, 0xa7, 0x3f, 0xff, 0xff, 0xff, 0xff, 0xa0]]"

lemma book18_glyphs_4_lengths [font_lengths]: "map length book18_glyphs_4 = [91, 65, 98, 65, 65, 72, 65, 78, 117, 72, 72, 72]"
  by (simp add: book18_glyphs_4_def)

definition book18_glyphs_5 :: "u8 list list" where
  "book18_glyphs_5 = [
    [0x1, 0x11, 0x6, 0xff, 0xf1, 0x6f, 0x54, 0x6, 0xf1, 0x0, 0x6f, 0x10, 0x6, 0xf1, 0x0, 0x6f, 0x10, 0x6, 0xf1, 0x0,
     0x6f, 0x10, 0x6, 0xf1, 0x0, 0x6f, 0x10, 0x6, 0xf1, 0x0, 0x6f, 0x10, 0x6, 0xf1, 0x0, 0x6f, 0x10, 0x6, 0xf1, 0x0,
     0x6f, 0x21, 0x6, 0xff, 0xf1, 0x14, 0x44, 0x0],
    [0xce, 0x0, 0x0, 0x0, 0x4f, 0x60, 0x0, 0x0, 0xd, 0xd0, 0x0, 0x0, 0x5, 0xf5, 0x0, 0x0, 0x0, 0xdc, 0x0, 0x0, 0x0,
     0x6f, 0x40, 0x0, 0x0, 0xe, 0xb0, 0x0, 0x0, 0x7, 0xf3, 0x0, 0x0, 0x0, 0xea, 0x0, 0x0, 0x0, 0x8f, 0x20, 0x0, 0x0,
     0x1f, 0xa0, 0x0, 0x0, 0x9, 0xf1, 0x0, 0x0, 0x1, 0xf9],
    [0x11, 0x10, 0xef, 0xf9, 0x44, 0xe9, 0x0, 0xe9, 0x0, 0xe9, 0x0, 0xe9, 0x0, 0xe9, 0x0, 0xe9, 0x0, 0xe9, 0x0, 0xe9,
     0x0, 0xe9, 0x0, 0xe9, 0x0, 0xe9, 0x0, 0xe9, 0x0, 0xe9, 0x0, 0xe9, 0x11, 0xe9, 0xef, 0xf9, 0x34, 0x42],
    [0x0, 0x1, 0x84, 0x0, 0x0, 0x0, 0x9f, 0xe0, 0x0, 0x0, 0x2f, 0xbf, 0x80, 0x0, 0xa, 0xf1, 0xaf, 0x10, 0x3, 0xf8,
     0x2, 0xf9, 0x0, 0xbf, 0x10, 0xa, 0xf2, 0x4f, 0x70, 0x0, 0x2f, 0xa0],
    [0x12, 0x22, 0x22, 0x22, 0x20, 0xbf, 0xff, 0xff, 0xff, 0xf7, 0x35, 0x55, 0x55, 0x55, 0x52],
    [0x17, 0x70, 0x0, 0x7f, 0x50, 0x0, 0x9e, 0x10],
    [0x0, 0x5c, 0xfe, 0x91, 0x0, 0x6f, 0xc7, 0x9f, 0xb0, 0xb, 0xe0, 0x0, 0x9f, 0x10, 0x0, 0x13, 0x5c, 0xf3, 0x2, 0xcf,
     0xfd, 0xdf, 0x30, 0xde, 0x40, 0x8, 0xf3, 0xf, 0xb0, 0x0, 0xdf, 0x30, 0xcf, 0x87, 0xce, 0xf3, 0x2, 0xbf, 0xe8,
     0x6f, 0x40],
    [0x9f, 0x10, 0x0, 0x0, 0x9, 0xf1, 0x0, 0x0, 0x0, 0x9f, 0x10, 0x0, 0x0, 0x9, 0xf1, 0x0, 0x0, 0x0, 0x9f, 0x3a, 0xff,
     0xb2, 0x9, 0xfe, 0xd8, 0xaf, 0xe2, 0x9f, 0xb0, 0x0, 0x6f, 0x99, 0xf4, 0x0, 0x0, 0xed, 0x9f, 0x20, 0x0, 0xd, 0xe9,
     0xf4, 0x0, 0x0, 0xed, 0x9f, 0xb0, 0x0, 0x6f, 0x89, 0xfe, 0xd9, 0xbf, 0xe1, 0x9f, 0x3b, 0xff, 0xa1, 0x0],
    [0x0, 0x2a, 0xfe, 0xb3, 0x0, 0x3f, 0xfb, 0xaf, 0xf4, 0xc, 0xf3, 0x0, 0x1e, 0xb2, 0xf9, 0x0, 0x0, 0x20, 0x4f, 0x70,
     0x0, 0x0, 0x2, 0xfa, 0x0, 0x0, 0x10, 0xc, 0xf3, 0x0, 0x1d, 0xc0, 0x3f, 0xfb, 0xae, 0xf5, 0x0, 0x2b, 0xfe, 0xb4,
     0x0],
    [0x0, 0x0, 0x0, 0x8, 0xf2, 0x0, 0x0, 0x0, 0x8, 0xf2, 0x0, 0x0, 0x0, 0x8, 0xf2, 0x0, 0x0, 0x0, 0x8, 0xf2, 0x0,
     0x2b, 0xfe, 0x88, 0xf2, 0x3, 0xfe, 0x99, 0xee, 0xf2, 0xd, 0xf2, 0x0, 0x2f, 0xf2, 0x2f, 0x90, 0x0, 0xa, 0xf2,
     0x4f, 0x70, 0x0, 0x8, 0xf2, 0x2f, 0x90, 0x0, 0xb, 0xf2, 0xd, 0xf2, 0x0, 0x3f, 0xf2, 0x4, 0xfe, 0x99, 0xfe, 0xf2,
     0x0, 0x4c, 0xfe, 0x87, 0xf2],
    [0x0, 0x3b, 0xfe, 0xa2, 0x0, 0x3, 0xfe, 0x99, 0xfe, 0x10, 0xc, 0xf2, 0x0, 0x3f, 0x90, 0x2f, 0xa1, 0x11, 0x1d,
     0xe0, 0x3f, 0xff, 0xff, 0xff, 0xf0, 0x2f, 0xa4, 0x44, 0x44, 0x40, 0xd, 0xe1, 0x0, 0xb, 0x90, 0x3, 0xfe, 0x98,
     0xdf, 0x50, 0x0, 0x3b, 0xff, 0xc4, 0x0],
    [0x0, 0x1b, 0xfb, 0x0, 0xbf, 0xb8, 0x0, 0xfc, 0x0, 0x0, 0xfb, 0x0, 0xaf, 0xff, 0xfc, 0x58, 0xfd, 0x86, 0x0, 0xfb,
     0x0, 0x0, 0xfb, 0x0, 0x0, 0xfb, 0x0, 0x0, 0xfb, 0x0, 0x0, 0xfb, 0x0, 0x0, 0xfb, 0x0, 0x0, 0xfb, 0x0],
    [0x0, 0x2b, 0xfe, 0x98, 0xf2, 0x2, 0xfe, 0x98, 0xef, 0xf2, 0xb, 0xf2, 0x0, 0x1f, 0xf2, 0x1f, 0xb0, 0x0, 0x9, 0xf2,
     0x2f, 0x90, 0x0, 0x8, 0xf2, 0x1f, 0xb0, 0x0, 0x9, 0xf2, 0xc, 0xf2, 0x0, 0x1f, 0xf2, 0x3, 0xfe, 0x88, 0xee, 0xf2,
     0x0, 0x2c, 0xfe, 0x89, 0xf0, 0x1a, 0x80, 0x0, 0xd, 0xd0, 0xb, 0xfb, 0x88, 0xdf, 0x50, 0x0, 0x7d, 0xff, 0xc4, 0x0],
    [0x9f, 0x20, 0x0, 0x0, 0x9f, 0x20, 0x0, 0x0, 0x9f, 0x20, 0x0, 0x0, 0x9f, 0x20, 0x0, 0x0, 0x9f, 0x5c, 0xfe, 0x70,
     0x9f, 0xfb, 0x9e, 0xf5, 0x9f, 0x80, 0x2, 0xfb, 0x9f, 0x20, 0x0, 0xdd, 0x9f, 0x20, 0x0, 0xdd, 0x9f, 0x20, 0x0,
     0xdd, 0x9f, 0x20, 0x0, 0xdd, 0x9f, 0x20, 0x0, 0xdd, 0x9f, 0x20, 0x0, 0xdd],
    [0x9e, 0x3d, 0xf6, 0x25, 0x0, 0x0, 0x9f, 0x19, 0xf1, 0x9f, 0x19, 0xf1, 0x9f, 0x19, 0xf1, 0x9f, 0x19, 0xf1, 0x9f,
     0x10],
    [0x0, 0x9e, 0x30, 0xd, 0xf6, 0x0, 0x26, 0x0, 0x0, 0x0, 0x0, 0x9f, 0x20, 0x9, 0xf2, 0x0, 0x9f, 0x20, 0x9, 0xf2,
     0x0, 0x9f, 0x20, 0x9, 0xf2, 0x0, 0x9f, 0x20, 0x9, 0xf2, 0x0, 0x9f, 0x20, 0x9, 0xf1, 0x28, 0xfe, 0x3, 0xfd, 0x40],
    [0x9f, 0x10, 0x0, 0x0, 0x9, 0xf1, 0x0, 0x0, 0x0, 0x9f, 0x10, 0x0, 0x0, 0x9, 0xf1, 0x0, 0x0, 0x0, 0x9f, 0x10, 0x9,
     0xfb, 0x9, 0xf1, 0x8, 0xfb, 0x0, 0x9f, 0x17, 0xfb, 0x0, 0x9, 0xf8, 0xfc, 0x0, 0x0, 0x9f, 0xff, 0xe1, 0x0, 0x9,
     0xfc, 0x6f, 0xb0, 0x0, 0x9f, 0x20, 0xaf, 0x70, 0x9, 0xf1, 0x0, 0xdf, 0x30, 0x9f, 0x10, 0x3, 0xfd, 0x0],
    [0x9f, 0x29, 0xf2, 0x9f, 0x29, 0xf2, 0x9f, 0x29, 0xf2, 0x9f, 0x29, 0xf2, 0x9f, 0x29, 0xf2, 0x9f, 0x29, 0xf2, 0x9f,
     0x20],
    [0x9f, 0x3c, 0xfd, 0x50, 0x8e, 0xea, 0x10, 0x9f, 0xea, 0x9e, 0xfb, 0xd8, 0xbf, 0xa0, 0x9f, 0x70, 0x4, 0xfe, 0x10,
     0xc, 0xf1, 0x9f, 0x20, 0x0, 0xfb, 0x0, 0x8, 0xf2, 0x9f, 0x10, 0x0, 0xfa, 0x0, 0x8, 0xf2, 0x9f, 0x10, 0x0, 0xfa,
     0x0, 0x8, 0xf2, 0x9f, 0x10, 0x0, 0xfa, 0x0, 0x8, 0xf2, 0x9f, 0x10, 0x0, 0xfa, 0x0, 0x8, 0xf2, 0x9f, 0x10, 0x0,
     0xfa, 0x0, 0x8, 0xf2]]"

lemma book18_glyphs_5_lengths [font_lengths]: "map length book18_glyphs_5 = [48, 52, 38, 32, 15, 8, 41, 59, 41, 65, 45, 39, 60, 52, 20, 40, 59, 20, 63]"
  by (simp add: book18_glyphs_5_def)

definition book18_glyphs_6 :: "u8 list list" where
  "book18_glyphs_6 = [
    [0x9f, 0x3b, 0xfe, 0x70, 0x9f, 0xeb, 0x9e, 0xf5, 0x9f, 0x80, 0x2, 0xfb, 0x9f, 0x20, 0x0, 0xdd, 0x9f, 0x20, 0x0,
     0xdd, 0x9f, 0x20, 0x0, 0xdd, 0x9f, 0x20, 0x0, 0xdd, 0x9f, 0x20, 0x0, 0xdd, 0x9f, 0x20, 0x0, 0xdd],
    [0x0, 0x2a, 0xef, 0xc4, 0x0, 0x3, 0xff, 0xa9, 0xef, 0x70, 0xd, 0xf3, 0x0, 0xd, 0xf2, 0x2f, 0x90, 0x0, 0x5, 0xf7,
     0x4f, 0x70, 0x0, 0x3, 0xf8, 0x2f, 0x90, 0x0, 0x5, 0xf7, 0xd, 0xf2, 0x0, 0xd, 0xf2, 0x3, 0xff, 0xa9, 0xef, 0x70,
     0x0, 0x2a, 0xef, 0xc4, 0x0],
    [0x9f, 0x3b, 0xff, 0xb2, 0x9, 0xff, 0xa5, 0x8f, 0xe1, 0x9f, 0xa0, 0x0, 0x5f, 0x89, 0xf3, 0x0, 0x0, 0xed, 0x9f,
     0x20, 0x0, 0xd, 0xe9, 0xf4, 0x0, 0x0, 0xfd, 0x9f, 0xc0, 0x0, 0x7f, 0x89, 0xfe, 0xd9, 0xbf, 0xe1, 0x9f, 0x3b,
     0xff, 0xa2, 0x9, 0xf1, 0x0, 0x0, 0x0, 0x9f, 0x10, 0x0, 0x0, 0x9, 0xf1, 0x0, 0x0, 0x0],
    [0x0, 0x3c, 0xfe, 0x87, 0xf3, 0x4, 0xfe, 0x9a, 0xfe, 0xf3, 0xd, 0xf2, 0x0, 0x2f, 0xf3, 0x2f, 0x90, 0x0, 0x9, 0xf3,
     0x4f, 0x70, 0x0, 0x7, 0xf3, 0x2f, 0x90, 0x0, 0xa, 0xf3, 0xd, 0xf2, 0x0, 0x2f, 0xf3, 0x4, 0xff, 0x99, 0xfe, 0xf3,
     0x0, 0x4c, 0xfe, 0x87, 0xf3, 0x0, 0x0, 0x0, 0x7, 0xf3, 0x0, 0x0, 0x0, 0x7, 0xf3, 0x0, 0x0, 0x0, 0x7, 0xf3],
    [0x9f, 0x3c, 0xf3, 0x9f, 0xee, 0xb2, 0x9f, 0xb0, 0x0, 0x9f, 0x40, 0x0, 0x9f, 0x20, 0x0, 0x9f, 0x20, 0x0, 0x9f,
     0x20, 0x0, 0x9f, 0x20, 0x0, 0x9f, 0x20, 0x0],
    [0x1, 0x9e, 0xfa, 0x20, 0xb, 0xf8, 0x8f, 0xd0, 0xf, 0x90, 0x5, 0x91, 0xe, 0xe7, 0x30, 0x0, 0x3, 0xdf, 0xfe, 0x50,
     0x0, 0x2, 0x5d, 0xf2, 0x2c, 0x50, 0x6, 0xf4, 0xd, 0xf9, 0x8e, 0xe0, 0x1, 0xae, 0xfb, 0x20],
    [0x0, 0x65, 0x0, 0x0, 0xdb, 0x0, 0x2, 0xfb, 0x0, 0xaf, 0xff, 0xf9, 0x58, 0xfd, 0x85, 0x0, 0xfb, 0x0, 0x0, 0xfb,
     0x0, 0x0, 0xfb, 0x0, 0x0, 0xfb, 0x0, 0x0, 0xfc, 0x0, 0x0, 0xcf, 0xa5, 0x0, 0x3c, 0xf8],
    [0xaf, 0x0, 0x0, 0xfc, 0xaf, 0x0, 0x0, 0xfc, 0xaf, 0x0, 0x0, 0xfc, 0xaf, 0x0, 0x0, 0xfc, 0xaf, 0x0, 0x0, 0xfc,
     0xaf, 0x10, 0x0, 0xfc, 0x7f, 0x50, 0x4, 0xfc, 0x1f, 0xf9, 0x9f, 0xfc, 0x3, 0xcf, 0xd6, 0xdc],
    [0x9f, 0x40, 0x0, 0x2f, 0xa3, 0xf9, 0x0, 0x8, 0xf4, 0xd, 0xf0, 0x0, 0xde, 0x0, 0x7f, 0x50, 0x3f, 0x80, 0x1, 0xfa,
     0x9, 0xf2, 0x0, 0xa, 0xf1, 0xeb, 0x0, 0x0, 0x4f, 0xbf, 0x50, 0x0, 0x0, 0xef, 0xf0, 0x0, 0x0, 0x8, 0xf9, 0x0, 0x0],
    [0x9f, 0x40, 0x0, 0xdf, 0x30, 0x0, 0xed, 0x4f, 0x80, 0x3, 0xff, 0x80, 0x3, 0xf8, 0xe, 0xd0, 0x8, 0xfc, 0xe0, 0x7,
     0xf3, 0xa, 0xf2, 0xd, 0xb6, 0xf3, 0xc, 0xe0, 0x5, 0xf6, 0x2f, 0x51, 0xf8, 0x1f, 0x90, 0x0, 0xfb, 0x8f, 0x10,
     0xbe, 0x5f, 0x40, 0x0, 0xaf, 0xdb, 0x0, 0x6f, 0xdf, 0x0, 0x0, 0x5f, 0xf6, 0x0, 0x1f, 0xfa, 0x0, 0x0, 0x1f, 0xf1,
     0x0, 0xb, 0xf5, 0x0],
    [0x5f, 0xa0, 0x0, 0xcf, 0x30, 0xaf, 0x50, 0x7f, 0x80, 0x1, 0xee, 0x3f, 0xc0, 0x0, 0x3, 0xff, 0xf2, 0x0, 0x0, 0xc,
     0xfa, 0x0, 0x0, 0x5, 0xfe, 0xf3, 0x0, 0x1, 0xfd, 0x2f, 0xd0, 0x0, 0xcf, 0x30, 0x6f, 0x90, 0x7f, 0x80, 0x0, 0xbf,
     0x40],
    [0x9f, 0x50, 0x0, 0xc, 0xf0, 0x1f, 0xd0, 0x0, 0x3f, 0x80, 0x9, 0xf4, 0x0, 0xbf, 0x10, 0x1, 0xfb, 0x2, 0xf9, 0x0,
     0x0, 0x9f, 0x39, 0xf2, 0x0, 0x0, 0x1f, 0xbf, 0xa0, 0x0, 0x0, 0x9, 0xff, 0x20, 0x0, 0x0, 0x3, 0xfb, 0x0, 0x0, 0x0,
     0x9, 0xf3, 0x0, 0x0, 0x0, 0x1f, 0xc0, 0x0, 0x0, 0x0, 0x8f, 0x40, 0x0, 0x0, 0x1, 0xfd, 0x0, 0x0, 0x0],
    [0x3f, 0xff, 0xff, 0xf9, 0x18, 0x88, 0x8d, 0xf7, 0x0, 0x0, 0x4f, 0xc0, 0x0, 0x2, 0xfe, 0x10, 0x0, 0xd, 0xf3, 0x0,
     0x0, 0xaf, 0x60, 0x0, 0x7, 0xf9, 0x0, 0x0, 0x3f, 0xf9, 0x88, 0x85, 0x4f, 0xff, 0xff, 0xfa],
    [0x0, 0x0, 0x0, 0x0, 0x0, 0x2b, 0xf4, 0x0, 0xc, 0xd5, 0x10, 0x1, 0xf5, 0x0, 0x0, 0x3f, 0x40, 0x0, 0x3, 0xf4, 0x0,
     0x0, 0x3f, 0x40, 0x0, 0x4, 0xf3, 0x0, 0x1, 0xcf, 0x10, 0x3, 0xfd, 0x30, 0x0, 0x1b, 0xfa, 0x0, 0x0, 0x7, 0xf2,
     0x0, 0x0, 0x3f, 0x40, 0x0, 0x3, 0xf4, 0x0, 0x0, 0x3f, 0x40, 0x0, 0x1, 0xf5, 0x0, 0x0, 0xe, 0xb2, 0x0, 0x0, 0x4e,
     0xf4, 0x0, 0x0, 0x3, 0x10],
    [0x6f, 0x16, 0xf1, 0x6f, 0x16, 0xf1, 0x6f, 0x16, 0xf1, 0x6f, 0x16, 0xf1, 0x6f, 0x16, 0xf1, 0x6f, 0x16, 0xf1, 0x6f,
     0x16, 0xf1, 0x6f, 0x16, 0xf1, 0x6f, 0x10],
    [0x0, 0x0, 0x0, 0xed, 0x50, 0x0, 0x4a, 0xf2, 0x0, 0x0, 0xf6, 0x0, 0x0, 0xe8, 0x0, 0x0, 0xe9, 0x0, 0x0, 0xe9, 0x0,
     0x0, 0xea, 0x0, 0x0, 0xaf, 0x40, 0x0, 0x1b, 0xf8, 0x0, 0x5f, 0xd5, 0x0, 0xdc, 0x0, 0x0, 0xe9, 0x0, 0x0, 0xe9,
     0x0, 0x0, 0xe8, 0x0, 0x0, 0xf7, 0x0, 0x17, 0xf4, 0x0, 0xef, 0x80, 0x0, 0x31, 0x0, 0x0],
    [0x0, 0x57, 0x50, 0x0, 0x20, 0xc, 0xff, 0xfe, 0xaa, 0xf5, 0x1a, 0x40, 0x4b, 0xfe, 0x70]]"

lemma book18_glyphs_6_lengths [font_lengths]: "map length book18_glyphs_6 = [36, 45, 54, 60, 27, 36, 36, 36, 41, 63, 41, 60, 36, 67, 26, 57, 15]"
  by (simp add: book18_glyphs_6_def)

definition book18_glyphs :: "u8 list list" where
  "book18_glyphs = book18_glyphs_1 @ book18_glyphs_2 @ book18_glyphs_3 @ book18_glyphs_4 @ book18_glyphs_5 @ book18_glyphs_6"

section \<open>Glyphs and character map\<close>

definition book18_glyph_dsc :: "glyph_dsc list" where
  "book18_glyph_dsc = [
    glyph 0 0 0 0 0 0, glyph 0 72 0 0 0 0, glyph 0 90 3 13 1 0, glyph 20 108 7 5 0 7, glyph 38 213 13 12 0 0,
    glyph 116 171 10 17 0 (- 2), glyph 201 235 14 13 0 0, glyph 292 201 12 13 1 0, glyph 370 58 3 5 0 7,
    glyph 378 87 6 18 0 (- 3), glyph 432 87 5 18 0 (- 3), glyph 477 127 8 7 0 6, glyph 505 163 10 9 0 1,
    glyph 550 85 4 6 1 (- 3), glyph 562 104 6 3 0 4, glyph 571 80 3 3 1 0, glyph 576 125 8 13 0 0,
    glyph 628 177 11 13 0 0, glyph 700 102 5 12 0 0, glyph 730 152 9 12 0 0, glyph 784 159 10 12 0 0,
    glyph 844 165 11 12 0 0, glyph 910 158 10 12 0 0, glyph 970 167 10 12 0 0, glyph 1030 139 9 12 0 0,
    glyph 1084 161 10 13 0 0, glyph 1149 167 10 13 0 0, glyph 1214 84 3 9 1 0, glyph 1228 86 3 12 1 (- 3),
    glyph 1246 139 9 10 0 0, glyph 1291 171 9 7 1 2, glyph 1323 139 9 10 0 0, glyph 1368 147 9 13 0 0,
    glyph 1427 238 15 15 0 (- 2), glyph 1540 201 13 13 0 0, glyph 1625 173 10 13 1 0, glyph 1690 216 13 13 0 0,
    glyph 1775 207 12 13 1 0, glyph 1853 167 9 13 1 0, glyph 1912 159 9 13 1 0, glyph 1971 220 13 13 0 0,
    glyph 2056 213 11 13 1 0, glyph 2128 81 3 13 1 0, glyph 2148 154 9 13 0 0, glyph 2207 192 11 13 1 0,
    glyph 2279 158 9 13 1 0, glyph 2338 272 15 13 1 0, glyph 2436 220 12 13 1 0, glyph 2514 231 14 13 0 0,
    glyph 2605 172 10 13 1 0, glyph 2670 231 14 14 0 (- 1), glyph 2768 178 10 13 1 0, glyph 2833 171 10 13 0 0,
    glyph 2898 170 11 13 0 0, glyph 2970 193 10 13 1 0, glyph 3035 189 12 13 0 0, glyph 3113 289 18 13 0 0,
    glyph 3230 178 11 13 0 0, glyph 3302 178 11 13 0 0, glyph 3374 182 11 13 0 0, glyph 3446 83 5 19 1 (- 3),
    glyph 3494 125 8 13 0 0, glyph 3546 83 4 19 0 (- 3), glyph 3584 150 9 7 0 6, glyph 3616 156 10 3 0 (- 2),
    glyph 3631 78 5 3 0 10, glyph 3639 151 9 9 0 0, glyph 3680 171 9 13 1 0, glyph 3739 153 9 9 0 0,
    glyph 3780 169 10 13 0 0, glyph 3845 156 10 9 0 0, glyph 3890 99 6 13 0 0, glyph 3929 166 10 12 0 (- 3),
    glyph 3989 162 8 13 1 0, glyph 4041 73 3 13 1 0, glyph 4061 73 5 16 (- 1) (- 3), glyph 4101 151 9 13 1 0,
    glyph 4160 73 3 13 1 0, glyph 4180 247 14 9 1 0, glyph 4243 162 8 9 1 0, glyph 4279 165 10 9 0 0,
    glyph 4324 171 9 12 1 (- 3), glyph 4378 167 10 12 0 (- 3), glyph 4438 106 6 9 1 0, glyph 4465 130 8 9 0 0,
    glyph 4501 102 6 12 0 0, glyph 4537 163 8 9 1 0, glyph 4573 145 9 9 0 0, glyph 4614 228 14 9 0 0,
    glyph 4677 141 9 9 0 0, glyph 4718 151 10 12 0 (- 3), glyph 4778 134 8 9 0 0, glyph 4814 102 7 19 0 (- 3),
    glyph 4881 75 3 17 1 (- 3), glyph 4907 102 6 19 0 (- 3), glyph 4964 164 10 3 0 4]"

definition book18_cmaps :: "font_cmap list" where
  "book18_cmaps = [\<lparr>range_start = 32, range_length = 95, glyph_id_start = 1\<rparr>]"

section \<open>Kerning\<close>

text \<open>Eight lines of the file to a group.\<close>

definition book18_kern_left_class_mapping :: "nat list" where
  "book18_kern_left_class_mapping = [
    0, 1, 0, 2, 3, 4, 5, 6, 2, 7, 0, 8, 9, 10, 11, 10, 12, 13, 14, 15, 16, 17, 18, 19, 20, 21, 13, 22, 22, 23, 24, 25,
    26, 27, 28, 29, 30, 31, 32, 33, 34, 35, 35, 36, 37, 38, 35, 35, 31, 39, 40, 41, 42, 43, 36, 44, 45, 46, 47, 48,
    49, 50, 0, 51, 52, 0, 53, 54, 55, 56, 57, 58, 59, 60, 61, 62, 63, 56, 60, 60, 54, 54, 61, 64, 65, 66, 67, 68, 69,
    70, 71, 72, 73, 74, 75, 76]"

definition book18_kern_right_class_mapping :: "nat list" where
  "book18_kern_right_class_mapping = [
    0, 1, 2, 3, 4, 0, 5, 6, 3, 7, 8, 9, 10, 11, 12, 11, 13, 14, 15, 16, 17, 18, 19, 14, 20, 21, 22, 23, 23, 24, 25,
    26, 27, 28, 29, 30, 31, 30, 30, 30, 31, 30, 30, 32, 30, 30, 30, 30, 31, 30, 31, 30, 33, 34, 35, 36, 37, 38, 39,
    40, 41, 42, 43, 44, 45, 0, 46, 47, 48, 48, 48, 49, 50, 47, 51, 52, 47, 47, 53, 53, 48, 53, 48, 53, 54, 55, 56, 57,
    58, 59, 60, 61, 62, 63, 43, 64]"

definition book18_kern_values_1 :: "int list list" where
  "book18_kern_values_1 = [
    [0, 0, 0, 0, 0, - 12, 0, 0, 0, 0, 0, - 14, 0, 0, 0, 0, 0, 0, 0, 0, 0, 0, 0, 0, 0, 0, 0, 0, 0, 0, 0, 0, 0, 0, 0, 0,
     0, 0, 0, 0, 0, 0, 0, 0, 0, 0, 0, 0, 0, 0, 0, 0, 0, 0, 0, 0, 0, 0, 0, 0, 0, 0, 0, 0],
    [0, 0, 0, 0, 0, 0, 0, 0, 0, 0, 0, 0, 0, 0, 9, 3, 0, - 14, 0, 6, 0, 0, 0, 0, 0, 0, 0, 0, - 17, 0, 0, - 12, 0, 9, 0,
     6, 6, 3, 3, 0, 0, 0, 0, 0, 0, - 3, 0, - 6, 6, - 6, 0, 0, 0, 0, 0, 0, 3, 3, 3, 3, 0, 0, 0, 0],
    [0, 0, 0, 0, 0, 0, 0, 0, 0, 0, 0, 0, 0, - 6, - 3, - 3, - 9, - 12, - 9, - 3, - 6, - 6, 0, 0, 0, 0, 0, 0, 0, 0, 0,
     0, 0, 0, 0, 0, 0, 0, 0, 0, 0, 0, 0, 0, 0, 0, 0, 0, 0, 0, 0, 0, 0, 0, 0, 0, 0, 0, 0, 0, 0, 0, 0, 0],
    [0, 0, 0, 0, 0, 0, 0, 0, 0, 0, 0, 0, 0, - 3, 0, 0, - 3, - 3, - 3, - 3, - 3, - 3, 0, 0, 0, 0, 0, 0, 0, 0, 0, 0, 0,
     0, 0, 0, 0, 0, 0, 0, 0, 0, 0, 0, 0, 0, 0, 0, 0, 0, 0, 0, 0, 0, 0, 0, 0, 0, 0, 0, 0, 0, 0, 0],
    [0, 0, 0, 0, 0, 0, 0, 0, 0, 0, 0, 0, 0, - 6, - 3, 0, 0, 0, 0, 0, 0, 0, 0, 0, 0, 0, 0, 0, 0, 0, 0, 0, 0, 0, 0, 0,
     0, 0, 0, 0, 0, 0, 0, 0, 0, 0, 0, 0, 0, 0, 0, 0, 0, 0, 0, 0, 0, 0, 0, 0, 0, 0, 0, 0],
    [- 12, 0, 0, 0, 0, 0, 0, 0, 0, 0, 0, 0, 0, 0, - 3, 0, - 3, - 3, - 3, 0, 0, 0, 0, 0, 0, 0, 0, 0, 0, 0, 0, 0, 0,
     - 20, - 3, - 22, - 10, 0, - 22, 0, 0, 0, 0, 0, 0, 0, 0, 0, 0, 0, 0, 0, 0, 0, 0, 0, 0, 0, 0, 0, 0, 0, 0, 0],
    [0, 0, 0, 0, 0, 0, 0, 0, 0, - 14, 0, - 12, 0, - 6, - 1, 1, 0, - 6, - 7, 12, 0, 0, 0, 0, 0, 0, 0, 0, 0, 0, - 6,
     - 4, 0, 6, 0, 6, 6, 6, 6, 0, 0, 0, 0, 0, 0, - 1, 0, - 6, - 3, - 6, 0, 14, 0, 0, 0, 0, - 6, - 6, 0, 0, 0, 0, 0, 0],
    [0, 0, 0, 0, 0, 0, 0, 0, 0, 0, 0, 0, 0, 0, 0, 0, 0, - 20, 0, 12, 0, 0, 0, 0, 0, 0, 0, 0, - 32, 0, - 1, - 14, 0, 6,
     0, 6, 3, 0, 0, 0, 0, 0, 0, 0, 0, - 9, 0, - 12, 0, - 12, 0, 0, 0, - 3, 0, 0, 3, 0, 0, 0, 0, 0, 0, 0],
    [0, 0, 0, 0, 0, 0, 0, - 14, 0, 0, 0, 0, 0, 0, - 9, - 3, - 6, 0, 0, - 3, 0, - 3, 0, 0, 0, 0, 0, 0, - 4, 0, 0, 0, 0,
     - 14, - 1, - 12, - 9, - 3, - 14, - 6, 0, 0, - 12, 0, 0, 0, 0, 0, 0, 0, 0, 0, 0, 0, 0, 0, 0, 0, 0, 0, 0, 0, 0, 0],
    [0, 0, 0, 0, 0, 0, 0, 0, 0, 0, 0, 0, 0, - 6, - 20, 0, 0, - 14, 0, - 6, - 3, 0, 0, 0, 0, 0, 0, 0, 0, 0, - 9, 0,
     - 3, - 29, - 7, - 29, - 29, 0, - 37, 0, 0, 0, 0, 0, 0, 0, 0, - 4, 0, - 3, 0, 0, 0, 0, - 6, - 3, - 26, - 12, 0,
     - 26, 0, 0, 0, 0],
    [- 14, 0, 0, 0, 0, 0, 0, - 12, 0, 0, 0, 0, 0, 0, - 6, 0, - 6, - 1, - 3, - 9, 0, 0, 0, 0, 0, 0, 0, 0, - 6, 0, 0, 0,
     - 3, - 17, - 1, - 16, - 12, - 12, - 23, - 13, 0, 0, - 6, 0, 0, 0, 0, 0, 0, 0, 0, - 3, 0, 0, - 3, 0, - 1, - 1,
     - 3, - 6, - 1, 0, 0, 0],
    [0, 0, 0, 0, 0, 0, 0, 0, 0, 0, 0, 0, - 40, - 12, 0, - 6, 0, - 23, - 6, 9, - 9, - 6, 0, 0, 0, 0, 0, 0, - 20, 0,
     - 10, - 35, - 3, 12, 0, 6, 6, 3, 3, 0, 0, 0, 0, 0, 0, - 33, 0, - 35, - 3, - 35, 0, 0, - 17, - 23, 0, - 13, - 3,
     - 6, - 6, - 3, - 17, 0, 0, 0],
    [0, 0, 0, - 6, - 6, 0, 0, - 6, 0, 0, - 12, 0, - 12, - 1, - 1, 0, - 1, 0, - 1, 0, - 1, 0, 0, 0, 3, 0, 0, 0, 0, 0,
     0, 0, 0, 0, 0, 0, 0, 0, 0, 0, 0, - 12, 0, 0, - 6, 0, 0, 0, 0, 0, 0, 0, 0, 0, 0, 0, 0, 0, 0, 0, 0, 0, 0, 3],
    [0, 0, - 3, - 6, - 3, 0, 0, 0, 0, 0, - 3, 0, 0, 1, 0, 1, 0, 0, 0, 1, 0, 0, 0, - 3, 0, 9, 0, 0, 0, 0, 0, 0, 0, 0,
     0, 0, 0, 0, 0, 0, 0, 0, 3, 0, 0, 0, 0, 0, 0, 0, 0, 0, 0, 0, 0, 0, 0, 0, 0, 0, 0, 0, 3, 0],
    [0, 0, 0, 0, 0, 0, 0, 0, 0, 0, 0, 0, 0, 0, 3, 0, 0, - 4, 0, 0, 0, 0, 0, 0, 0, 9, 0, 0, 0, 0, 0, 0, 0, 0, 0, 0, 0,
     0, 0, 0, 0, - 3, 0, 0, 3, 0, 0, 0, 0, 0, 0, 0, 0, 0, 0, 0, 0, 0, 0, 0, 0, 0, 0, 0],
    [0, 0, 0, - 6, - 3, 0, 0, 0, 3, 0, - 3, - 3, - 3, 0, - 1, 0, 0, 0, 0, 3, 0, 0, 0, 0, 0, 9, 0, 0, 0, 0, 0, 0, 0, 0,
     0, 0, 0, 0, 0, 0, 0, 0, 0, 0, - 3, 0, 0, 0, 0, 0, 0, 0, 0, 0, 0, 0, 0, 0, 0, 0, 0, 0, 6, 3],
    [0, 0, 0, 0, - 3, 0, 0, 0, - 6, 0, 0, 0, 0, 0, 0, 0, 0, 0, 0, - 1, 0, 0, 0, 0, 6, 9, 0, 0, 0, 0, 0, 0, 0, 0, 0, 0,
     0, 0, 0, 0, 0, 0, 0, 0, 0, 0, 0, 0, 0, 0, 0, 0, 0, 0, 0, 0, 0, 0, 0, 0, 0, 0, 0, 6],
    [0, 0, 0, 0, - 3, 0, 0, 0, 0, 0, - 3, 0, - 6, 0, 0, 0, 0, 0, 0, 1, 0, 0, 0, 3, 3, 6, 0, - 1, 0, 0, 0, 0, 0, 0, 0,
     0, 0, 0, 0, 0, 0, 0, 0, 0, - 3, 0, 0, 0, 0, 0, 0, 0, 0, 0, 0, 0, 0, 0, 0, 0, 0, 0, 0, 3]]"

lemma book18_kern_values_1_length [font_lengths]: "length (concat book18_kern_values_1) = 1152"
  by (simp add: book18_kern_values_1_def)

lemma book18_kern_values_1_bounds [font_values]: "list_all (list_all (\<lambda>v. - 40 \<le> v \<and> v < 128)) book18_kern_values_1"
  by (simp add: book18_kern_values_1_def)

definition book18_kern_values_2 :: "int list list" where
  "book18_kern_values_2 = [
    [0, 0, 0, - 6, 0, 0, 0, 0, 0, 3, - 3, 0, 0, 0, 0, 0, 0, 0, 0, 1, 0, 0, 0, 0, 3, 3, 0, - 3, 0, 0, 0, 0, 0, 0, 0, 0,
     0, 0, 0, 0, 0, - 3, 0, 0, - 6, 0, 0, 0, 0, 0, 0, 0, 0, 0, 0, 0, 0, 0, 0, 0, 0, 0, 0, 3],
    [0, 0, 6, - 12, 0, 0, 0, 0, 6, - 14, - 32, - 14, - 17, - 7, 1, 0, 0, - 16, - 4, 9, 0, 3, - 9, - 9, 1, 9, 6, - 1,
     0, 0, 0, 0, 0, 0, 0, 0, 0, 0, 0, 0, 0, 9, 0, 0, - 26, 0, 0, 0, 0, 0, 0, 0, 0, 0, 0, 0, 0, 0, 0, 0, 0, 0, 6, - 12],
    [0, 0, 0, - 3, - 1, - 3, 0, 0, 0, 0, - 3, 0, 0, - 1, 0, 0, 0, 0, 0, 0, 0, 0, 0, 0, 0, 3, 0, 0, 0, 0, 0, 0, 0, 0,
     0, 0, 0, 0, 0, 0, 0, - 12, 0, 0, - 3, 0, 0, 0, 0, 0, 0, 0, 0, 0, 0, 0, 0, 0, 0, 0, 0, 0, 0, 0],
    [0, 0, 0, 0, 0, 0, 0, 0, 0, 0, 0, 0, 0, 0, 0, 0, 0, 0, 0, 3, 0, 4, 0, 0, 0, 0, 0, 0, 0, 0, 0, 0, 0, - 17, - 1,
     - 12, - 3, 0, - 17, 0, 0, 0, 0, 0, 0, 0, 0, - 1, 0, - 1, 0, 0, 0, 0, 0, 0, 0, 0, 0, 0, 0, 0, 0, 0],
    [0, 0, 0, 0, 0, 0, 0, 0, 0, 0, 0, 0, 0, 6, 9, 9, 3, 0, 6, 20, 9, 9, 0, 0, 0, 0, 0, 0, 0, 3, 3, 0, 0, - 3, 0, 0, 0,
     0, 0, 3, 0, 0, 0, 0, 0, 0, 0, 0, 0, 0, 0, 0, 0, 0, 0, 0, 0, 0, 0, 0, 0, 0, 0, 0],
    [0, 0, 0, 0, 0, 0, 0, 0, 0, 0, 0, 0, 0, 3, 0, 0, 0, 0, 3, - 3, 0, 0, 0, 0, 0, 0, 0, 0, 0, 0, 0, 0, 0, - 9, 0, - 3,
     - 3, - 3, - 9, 0, 0, 0, 0, 0, 0, 0, 0, 0, 0, 0, 0, 0, 0, 0, 0, 0, 0, 0, 0, 0, 0, 0, 0, 0],
    [0, 0, 0, 0, 0, 0, 0, 0, 0, 0, 0, 0, 0, 0, - 3, - 3, - 6, 0, 0, 0, 0, 0, 0, 0, 0, 0, 0, 0, - 6, 0, 0, 0, 0, - 12,
     - 1, - 6, - 6, - 6, - 17, - 4, 0, 0, 0, 0, 0, 0, 0, 0, 0, 0, 0, 0, 0, 0, 0, 0, 0, 0, 0, 0, 0, 0, 0, 0],
    [0, 0, 0, 0, 0, 0, 0, 0, 0, 0, 0, 0, 0, 0, 3, 0, 0, - 6, 0, 9, 0, 0, 0, 0, 0, 0, 0, 0, 0, 0, - 1, 0, 0, 0, 0, 0,
     0, 0, 0, 0, 0, 0, 0, 0, 0, 0, 0, - 6, 0, - 6, 0, 0, 0, 0, 0, 0, 6, 0, 0, 0, 0, 0, 0, 0],
    [0, 0, 0, 0, 0, 0, 0, 0, 0, 0, 0, 0, 0, 0, 0, 0, - 3, - 3, 0, 3, 0, 0, 0, 0, 0, 0, 0, 0, - 9, 0, 0, - 3, 0, - 7,
     0, - 6, - 6, - 6, - 12, - 6, 0, 0, 0, 0, 0, 0, 0, 0, 0, 0, 0, 0, 0, 0, 0, 0, 4, 4, 1, 4, 1, 0, 0, 0],
    [0, 0, - 12, 0, 0, - 1, - 3, 0, - 32, - 4, 0, - 6, 6, 0, 0, 0, 0, 0, 0, 0, 0, 0, 0, - 6, 0, 0, - 13, - 9, 0, 0,
     - 7, 3, - 3, - 19, - 4, - 16, - 13, 0, - 19, 0, 0, - 20, 0, - 6, 9, - 1, 0, - 3, 0, - 3, 0, 0, - 1, 0, - 7, - 7,
     - 9, - 9, 0, - 7, 0, - 6, 0, - 6],
    [0, 0, 0, 0, 0, - 1, 0, 0, 0, - 1, - 4, 0, - 4, 0, 0, 0, 0, 0, 0, 0, 0, 0, 0, 0, 0, 3, 0, 0, - 6, 0, 0, 4, 0, 0,
     0, 0, 0, 0, - 1, 0, 0, - 7, 0, 0, - 3, - 3, 0, 1, - 1, 1, 0, 0, - 1, - 1, 0, - 6, - 1, - 1, 0, - 1, 0, 0, 0, 0],
    [0, 0, 0, 0, 0, - 4, 0, 0, 0, 0, - 3, 0, - 7, 0, 0, 0, 0, 0, 0, 0, 0, 0, 0, 0, 0, 3, 0, - 9, - 6, 0, - 3, 0, 0,
     - 1, 0, - 3, - 4, - 4, - 7, 0, 0, - 7, 3, - 3, - 3, - 6, - 3, - 6, - 3, - 6, 0, 0, - 4, - 3, - 1, - 6, - 3, - 3,
     - 3, - 4, - 3, - 6, 0, 0],
    [0, 0, 0, 0, 0, - 6, 0, - 6, - 1, 0, - 9, 0, - 10, 0, 0, 0, 0, 0, 0, 0, 0, 0, 0, 0, 0, 3, 0, 0, - 7, 0, 0, 0, - 1,
     - 7, 0, - 7, - 6, - 9, - 13, - 3, - 1, - 10, - 6, 3, - 12, 0, 0, 0, 1, 0, 0, 0, 0, 0, 7, 0, 0, 0, 0, 0, 0, 0, 0,
     3],
    [0, 0, 0, 0, 0, 0, 0, 3, 0, 0, 0, - 1, 0, 0, 0, 0, 0, 0, 0, 0, 0, 0, 0, 0, 0, 3, 0, - 7, 0, 0, - 1, - 3, 0, 0, 0,
     0, 0, 0, 0, 0, 0, 0, 4, 0, 0, - 4, 0, - 6, - 1, - 6, 0, 0, - 4, - 1, 0, - 4, - 4, - 4, 0, - 4, 0, - 9, 0, 0],
    [0, 0, 6, 0, 0, - 3, 0, 9, 4, - 6, - 29, - 3, - 16, 0, 0, 0, 0, 0, 0, 0, 0, 0, 0, 0, 0, 3, 3, - 3, - 13, 0, - 1,
     - 12, 0, 9, - 1, 0, 0, 0, 0, 3, 0, 9, 9, 3, - 29, - 10, 1, - 10, - 3, - 10, - 1, - 1, - 7, - 4, 0, - 13, - 6,
     - 6, - 4, - 4, - 3, - 6, 6, - 6],
    [0, 0, 0, 0, 0, - 4, 0, 0, 0, 0, 0, 0, 1, 0, 0, 0, 0, 0, 0, 0, 0, 0, 0, 0, 0, 6, 0, 0, 0, 0, 0, 0, 0, - 1, 0, - 4,
     - 3, 0, - 9, 0, 0, - 6, 0, 0, 3, 0, 0, 0, 0, 0, 0, 0, 0, 0, 7, - 1, 0, 0, 0, 0, 0, - 3, 0, 1],
    [0, 0, 0, 0, 0, 0, 0, 0, 0, 0, 0, 0, 0, 0, 0, 0, 0, 0, 0, 0, 0, 0, 0, 0, 0, 3, 0, - 3, 0, 0, 0, 0, 0, 0, 0, 0, 0,
     0, 0, 0, 0, 0, 0, 0, 0, - 1, 0, 0, 0, 0, 0, 0, 0, 0, 0, 0, 0, 0, 0, 0, 0, - 9, 0, 0],
    [0, 0, 0, 0, 0, - 1, 0, 0, 0, - 1, - 7, - 1, - 6, 0, 0, 0, 0, 0, 0, 0, 0, 0, - 1, - 1, 0, 0, 0, - 1, - 9, 0, 0, 0,
     0, 0, 0, 0, 0, 0, 0, 0, 0, 0, 0, 0, - 4, 0, 0, - 1, 0, - 1, 0, 0, - 1, 0, 0, 0, 0, 0, 0, 0, 0, - 6, 0, - 1]]"

lemma book18_kern_values_2_length [font_lengths]: "length (concat book18_kern_values_2) = 1152"
  by (simp add: book18_kern_values_2_def)

lemma book18_kern_values_2_bounds [font_values]: "list_all (list_all (\<lambda>v. - 40 \<le> v \<and> v < 128)) book18_kern_values_2"
  by (simp add: book18_kern_values_2_def)

definition book18_kern_values_3 :: "int list list" where
  "book18_kern_values_3 = [
    [0, 0, 0, 0, 0, - 16, 0, 1, - 3, - 12, 0, - 20, 6, 0, 0, 0, 0, 0, 0, 0, 0, 0, - 3, - 14, - 14, 0, - 1, - 16, - 3,
     0, - 16, - 1, - 3, 0, - 3, - 4, - 4, 0, 0, 0, 0, 0, 1, - 6, 6, - 4, 0, - 10, - 6, - 10, 0, 0, - 4, - 3, - 9,
     - 16, - 13, - 13, - 3, - 17, 0, - 12, 0, - 17],
    [0, 0, - 23, 0, 0, - 7, 0, 3, - 20, - 6, 3, - 12, 12, 0, 0, 0, 0, 0, 0, 0, 0, 0, 0, - 12, - 6, 0, - 13, - 6, 6, 0,
     - 10, 6, 0, - 20, - 3, - 17, - 14, 0, - 19, 0, 0, - 20, 3, - 14, 9, 0, 0, - 1, - 3, - 1, 0, 0, 0, 0, - 4, - 6,
     - 12, - 12, 0, - 13, 0, - 9, 6, - 14],
    [0, 0, 3, 0, 0, - 3, 0, 0, 3, - 9, - 35, - 3, - 20, 0, 0, 0, 0, 0, 0, 0, 0, 0, 0, 0, 0, 6, 6, - 1, - 17, 0, 0,
     - 20, 0, 0, - 1, 0, - 1, - 1, - 1, - 3, 0, 0, 0, 0, - 26, - 9, - 3, - 12, 1, - 12, 0, - 1, - 4, - 7, 3, - 6, 0,
     0, 0, 3, - 3, - 6, 0, - 6],
    [0, 0, 0, 0, 0, 0, 0, - 3, 0, 0, - 3, 0, 0, 0, 0, 0, 0, 0, 0, 0, 0, 0, 0, 3, 0, 6, 0, 0, - 4, 0, 0, 1, 0, - 6, 0,
     - 7, - 6, - 4, - 12, 0, 0, - 10, - 3, 0, 0, - 1, 0, 0, 0, 0, 0, 0, 0, 0, 0, 0, 0, - 1, 0, - 1, 0, 0, 0, 0],
    [0, 0, 0, 0, 0, - 1, 0, 1, 3, - 3, - 1, - 6, 0, 0, 0, 0, 0, 0, 0, 0, 0, 0, 0, - 1, 0, 7, 0, - 4, - 1, 0, - 1, - 4,
     0, 0, 0, - 1, - 1, 0, - 3, 0, 0, - 1, 3, 3, 1, - 1, 0, - 6, 0, - 6, 0, 0, - 1, - 1, 0, - 6, 0, - 3, 3, 0, 0, - 3,
     0, - 3],
    [0, 0, 0, 0, 0, 0, 0, 0, 0, 0, 0, - 1, 0, 0, 0, 0, 0, 0, 0, 0, 0, 0, 0, 0, 0, 7, 0, 0, - 1, 0, - 1, 3, 0, - 1,
     - 1, 0, 0, 0, - 3, 0, 0, - 7, 4, - 1, - 3, - 1, - 1, - 3, - 4, - 3, - 1, - 1, - 9, 0, - 3, - 7, - 6, - 6, - 4,
     - 7, - 1, - 6, 0, 0],
    [0, 0, 9, 0, 0, - 9, 0, 6, 6, - 14, - 29, - 17, - 20, 0, 0, 0, 0, 0, 0, 0, 0, 0, - 17, - 12, - 9, - 3, 6, - 7,
     - 19, 0, - 7, - 19, 0, 6, 0, 6, 6, 4, 6, 0, 0, 12, 6, 0, - 12, - 24, 0, - 27, - 12, - 27, - 6, - 3, - 17, - 20,
     - 7, - 27, - 20, - 22, - 22, - 20, - 13, - 9, 6, - 20],
    [0, 0, 6, 0, 0, - 13, 0, 6, 6, - 12, - 29, - 16, - 17, 0, 0, 0, 0, 0, 0, 0, 0, 0, - 12, - 6, - 3, 0, 3, - 6, - 16,
     0, - 7, - 16, - 1, 6, 0, 3, 3, 3, 3, 0, 0, 6, 6, 0, - 14, - 16, 0, - 16, 0, - 16, 0, 0, - 9, - 6, - 1, - 10, - 1,
     - 3, - 1, - 1, - 6, - 9, 6, - 12],
    [0, 0, 6, 0, 0, 0, 0, 6, 3, - 9, - 29, - 12, - 17, 0, 0, 0, 0, 0, 0, 0, 0, 0, - 3, - 6, - 3, 0, 0, - 6, - 13, 0,
     - 6, - 14, 0, 6, 0, 3, 3, 3, 3, 0, 0, 6, 6, 0, - 13, - 9, 0, - 10, 0, - 10, 0, 0, - 9, - 6, - 1, - 9, - 1, - 3,
     0, - 1, - 1, - 9, 6, - 6],
    [0, 0, 3, 0, 0, - 3, 0, 6, 0, - 3, 0, - 12, 3, 0, 0, 0, 0, 0, 0, 0, 0, 0, 0, - 6, - 3, 0, 0, - 7, 0, 0, - 6, - 3,
     0, 4, 0, 3, 3, 0, 3, 3, 0, 3, 6, 0, 4, 0, 0, - 7, 0, - 7, 0, 0, 0, 0, 0, - 3, - 4, - 3, 6, - 4, 1, - 9, 6, - 6],
    [0, 0, 3, 0, 0, - 14, 0, 6, 0, - 14, - 37, - 23, - 24, 0, 0, 0, 0, 0, 0, 0, 0, 0, - 17, - 17, - 9, 0, 0, - 12,
     - 19, 0, - 13, - 22, - 3, 6, 0, 3, 3, 3, 3, 1, 0, 3, 6, 0, - 17, - 19, 0, - 26, - 7, - 26, - 1, - 1, - 17, - 19,
     - 3, - 17, - 12, - 14, - 9, - 13, - 10, - 6, 3, - 17],
    [0, 0, 0, 0, 0, 0, 0, 0, 0, - 3, 0, - 13, 0, 0, 0, 0, 0, 0, 0, 0, 0, 0, 0, 0, 0, 0, 1, - 4, 0, 0, - 6, 0, 0, 4, 0,
     0, 0, 3, 1, 0, 0, 0, 0, 0, 3, 0, 0, - 1, 0, - 1, 0, 0, 0, 0, 0, - 1, 0, - 1, 0, - 6, 0, 0, 0, 0],
    [0, 0, 0, 0, 0, 0, 0, 0, 0, - 12, 0, - 6, 0, 0, 0, 0, 0, - 9, - 6, 14, 0, 3, 0, 0, 0, 0, 0, 0, 0, 0, - 6, 0, 0, 6,
     0, 6, 6, 6, 12, 0, 0, 0, 0, 0, 0, 0, 0, - 3, - 3, - 3, 0, 14, 0, 0, 0, 0, 0, - 6, 0, 0, 0, 0, 0, 0],
    [0, 0, 0, 0, 0, 0, 0, 0, 0, 0, 0, 0, 0, - 12, 0, 3, - 3, - 3, 0, 0, - 6, 0, 0, 0, 0, 0, 0, 0, 0, 0, - 10, 0, - 1,
     - 14, - 6, - 17, - 17, 3, - 19, 0, 0, 0, 0, 0, 0, 3, 0, - 4, 0, - 4, 0, 0, 0, 0, 0, 0, - 3, - 3, 3, - 3, 0, 0, 0,
     0],
    [0, 0, 0, 0, 0, 0, 0, 0, 0, 0, 0, 0, 0, 0, 0, 0, 0, 0, 0, 0, 0, 0, 0, 0, 0, 0, 0, 0, - 6, 0, 3, 0, 0, 0, 0, 0, 0,
     0, 0, 0, 0, 0, 0, 0, 0, 0, 0, 0, 0, 0, 0, 0, 0, 0, 0, 0, 0, 0, 0, 0, 0, 0, 0, 0],
    [0, 0, 0, 0, 0, 0, 0, 0, 0, 0, 0, 0, 0, - 6, 0, 0, 0, - 14, 0, 0, - 3, 0, 0, 0, 0, 0, 0, 0, 9, 0, - 12, 0, - 3,
     - 12, - 4, - 14, - 13, 4, - 17, 3, 0, 0, 0, 0, 0, 0, 0, - 6, - 3, - 6, 0, 14, 0, 0, - 4, - 4, - 12, - 12, 9,
     - 12, 0, 0, 0, 0],
    [0, 0, 0, 0, 0, - 3, 0, 0, - 6, 0, 0, 0, 0, 0, 0, 0, 0, 0, 0, 0, 0, 0, 0, 0, 0, 0, 0, - 3, 0, 0, 0, 0, 0, 0, 0, 0,
     0, 0, 0, 0, 0, - 17, 0, 0, 9, 0, 0, 0, 0, 0, 0, 0, 0, 0, 0, - 3, 0, 0, 0, - 3, 0, 0, 0, 0],
    [0, 0, - 6, 0, 0, - 3, 0, - 6, - 12, 0, - 4, 0, - 6, 0, 0, 0, 0, 0, 0, 0, 0, 0, - 1, 0, 0, 0, - 7, 0, 0, 0, 0, 0,
     0, 0, 0, 0, 0, 0, 0, 0, 0, - 29, - 6, 0, - 6, 0, 0, 0, 0, 0, 0, 0, 0, 0, - 1, - 1, - 4, - 3, - 3, - 6, - 1, 0, 0,
     0]]"

lemma book18_kern_values_3_length [font_lengths]: "length (concat book18_kern_values_3) = 1152"
  by (simp add: book18_kern_values_3_def)

lemma book18_kern_values_3_bounds [font_values]: "list_all (list_all (\<lambda>v. - 40 \<le> v \<and> v < 128)) book18_kern_values_3"
  by (simp add: book18_kern_values_3_def)

definition book18_kern_values_4 :: "int list list" where
  "book18_kern_values_4 = [
    [0, 0, 0, 0, 0, - 1, 0, 0, - 3, 0, 0, 0, - 4, 0, 0, 0, 0, 0, 0, 0, 0, 0, 0, 0, 0, 0, 0, - 1, 0, 0, 0, 0, 0, 0, 0,
     0, 0, 0, 0, 0, 0, - 20, 0, 0, - 3, - 1, 0, - 1, 0, - 1, 0, 0, 0, 0, 0, - 1, - 1, - 1, - 1, - 1, 0, 0, 0, 0],
    [0, 0, 0, 0, 0, 0, 0, 0, 0, 0, 0, 0, 0, 0, 0, 0, 0, 0, 0, 0, 0, 0, 0, 0, 0, 0, 0, 0, 0, 0, 0, 0, 0, 0, 0, 0, 0, 0,
     0, 0, 0, 0, 0, 0, 0, 0, 0, 0, 0, 0, 0, 0, 0, 0, 0, - 1, 0, 0, 0, 0, 0, 0, 0, 0],
    [0, 0, - 3, 0, 0, - 4, 0, - 3, - 6, 0, - 4, 0, 0, 0, 0, 0, 0, 0, 0, 0, 0, 0, 0, 0, 0, 0, - 7, 0, 0, 0, 0, 0, 0, 0,
     0, 0, 0, 0, 0, 0, 0, - 20, - 3, 0, - 3, 0, 0, 0, 0, 0, 0, 0, 0, 0, 0, - 4, - 3, - 1, - 1, - 3, 0, 0, 0, 0],
    [0, 4, 14, 0, 0, 0, 0, 9, 12, - 3, - 14, - 1, - 4, 0, 0, 0, 0, 0, 0, 0, 0, 0, 0, 0, 0, 9, 6, 0, 0, 0, 0, 0, 0, 0,
     0, 0, 0, 0, 0, 0, 0, 9, 7, 6, - 6, - 4, 0, - 6, - 1, - 6, 0, 7, 0, 0, 0, - 1, 3, 3, 3, 4, 3, 0, 9, - 3],
    [0, 0, 0, 0, 0, - 1, 0, 0, 0, 0, 0, 0, 0, 0, 0, 0, 0, 0, 0, 0, 0, 0, 0, 0, 0, 0, 0, 0, 0, 0, 0, 0, 0, 0, 0, 0, 0,
     0, 0, 0, 0, - 12, 0, 0, 0, - 1, 0, 0, 0, 0, 0, 0, 0, 0, 0, - 1, 0, - 1, 0, - 1, 0, 0, 0, 0],
    [0, 0, 0, 0, 0, 0, 0, 0, - 3, 0, 0, 0, 0, 0, 0, 0, 0, 0, 0, 0, 0, 0, 0, 0, - 1, 0, - 4, - 1, 0, 0, 0, 0, 0, 0, 0,
     0, 0, 0, 0, 0, 0, - 19, 0, 0, 0, 0, 0, 0, 0, 0, 0, 0, 0, 0, 0, - 3, 0, 0, 0, 0, 0, 0, 0, 0],
    [0, 0, 0, 0, 0, 0, 0, 0, 0, 0, 0, 0, 0, 0, 0, 0, 0, 0, 0, 0, 0, 0, 0, 0, 0, 0, 0, 0, 0, 0, 0, 0, 0, 0, 0, 0, 0, 0,
     0, 0, 0, - 17, 0, 0, 0, 0, 0, 0, 0, 0, 0, 0, 0, 0, 0, 0, 0, 0, 0, 0, 0, 0, 0, 0],
    [0, 0, 0, 0, 0, 0, 0, 0, 0, 0, 0, 0, 0, 0, 0, 0, 0, 0, 0, 0, 0, 0, 0, 0, 0, 0, 0, - 1, 0, 0, 0, 0, 0, 0, 0, 0, 0,
     0, 0, 0, 0, 0, 0, 0, 0, 0, 0, 0, 0, 0, 0, 0, 0, 0, 0, 0, 0, 0, 0, 0, 0, 0, 0, 0],
    [0, 0, 0, 0, 0, - 1, 0, 0, - 3, - 3, 0, - 9, 6, 0, 0, 0, 0, 0, 0, 0, 0, 0, - 1, - 6, 0, 12, 0, - 1, 0, 0, 0, 0, 0,
     0, 0, 0, 0, 0, 0, 0, 0, - 7, 0, 0, 9, - 4, 0, - 7, 0, - 7, 0, 0, 0, 0, 0, - 1, 0, 0, 0, 0, 1, - 3, 0, - 6],
    [0, 9, 9, 0, 0, 0, 0, 0, 12, 0, - 26, 0, 0, 0, 0, 0, 0, 0, 0, 0, 0, 0, 0, 0, 0, 0, 6, 6, 0, 0, 0, 0, 0, 0, 0, 0,
     0, 0, 0, 0, 0, - 3, 6, 0, - 3, 0, 0, - 1, 7, - 1, 0, 0, 0, 0, 7, 1, 4, 3, 9, 4, 3, 0, 9, 0],
    [0, 0, - 3, 0, 0, 0, 0, 0, - 3, 0, 0, 0, 3, 0, 0, 0, 0, 0, 0, 0, 0, 0, 0, 0, 0, 3, 0, 0, 0, 0, 0, 0, 0, 0, 0, 0,
     0, 0, 0, 0, 0, - 17, 0, 0, 0, - 3, 0, - 1, 0, - 1, 0, 0, 0, 0, 0, - 1, - 1, - 1, - 1, - 1, 0, 0, 0, 0],
    [0, 0, 0, 0, 0, 0, 0, 3, 0, 0, 0, 0, 6, 0, 0, 0, 0, 0, 0, 0, 0, 0, 0, 0, 0, 0, 1, 0, 0, 0, 0, 0, 0, 0, 0, 0, 0, 0,
     0, 0, 0, 0, 3, 0, 9, 0, 0, - 1, 0, - 1, 0, 0, - 3, 1, 0, 0, 3, 3, 6, 1, 6, 0, 0, 0],
    [0, 0, 0, 0, 0, 0, 0, 0, 0, 0, 0, 0, 0, 0, 0, 0, 0, 0, 0, 0, 0, 0, 0, 0, 0, 0, 0, - 1, 0, 0, 0, 0, 0, 0, 0, 0, 0,
     0, 0, 0, 0, - 14, 0, 0, 0, 0, 0, - 1, 0, - 1, 0, 0, 0, 0, 0, - 1, 0, 0, 0, 0, 0, 0, 0, 0],
    [0, 0, 3, 0, 0, 0, 0, - 6, 3, 0, - 26, - 1, - 6, 0, 0, 0, 0, 0, 0, 0, 0, 0, 0, 0, 0, 0, 6, 3, 0, 0, 0, 0, 0, 0, 0,
     0, 0, 0, 0, 0, 0, - 6, 0, 0, - 12, - 1, 0, - 4, 4, - 4, 0, 0, 0, 0, 4, 0, 1, 1, 3, 3, 3, 0, 0, 0],
    [0, 0, 3, 0, 0, - 3, 0, - 6, 0, 0, - 12, - 1, - 6, 0, 0, 0, 0, 0, 0, 0, 0, 0, 0, 0, 0, 0, 0, 4, 0, 0, 0, 0, 0, 0,
     0, 0, 0, 0, 0, 0, 0, - 6, - 6, 0, - 12, - 1, 0, - 3, 4, - 3, 0, 0, 0, 0, 4, 0, 1, 0, 1, 1, 1, 0, 6, 0],
    [0, 0, 3, 0, 0, - 3, 0, 0, 0, 0, 0, - 3, 6, 0, 0, 0, 0, 0, 0, 0, 0, 0, 0, 0, 0, 0, 0, 1, 0, 0, 0, 0, 0, 0, 0, 0,
     0, 0, 0, 0, 0, - 6, 0, 0, 9, 0, 0, - 3, 4, - 3, 0, 0, 0, 0, 1, - 1, 3, 1, 1, 1, 6, 0, 6, 0],
    [0, 0, 3, 0, 0, - 6, 0, 0, 0, 0, - 32, - 6, - 3, 0, 0, 0, 0, 0, 0, 0, 0, 0, 0, 0, 0, 0, 3, 3, 0, 0, 0, 0, 0, 0, 0,
     0, 0, 0, 0, 0, 0, - 9, 0, 0, - 14, - 4, 0, - 6, 3, - 6, 0, 0, 0, - 3, 1, - 1, 1, 0, 0, 1, 0, 0, 4, 0],
    [0, 0, 0, 0, 0, 0, 0, 0, 0, 0, 0, 0, 0, 0, 0, 0, 0, 0, 0, 0, 0, 0, 0, 0, 0, 0, 0, 0, 0, 0, 0, 0, 0, 0, 0, 0, 0, 0,
     0, 0, 0, - 10, 0, 0, 3, 0, 0, 0, 0, 0, 0, 0, 0, 0, 0, 0, 0, 0, 1, 0, 0, 0, 4, 0]]"

lemma book18_kern_values_4_length [font_lengths]: "length (concat book18_kern_values_4) = 1152"
  by (simp add: book18_kern_values_4_def)

lemma book18_kern_values_4_bounds [font_values]: "list_all (list_all (\<lambda>v. - 40 \<le> v \<and> v < 128)) book18_kern_values_4"
  by (simp add: book18_kern_values_4_def)

definition book18_kern_values_5 :: "int list list" where
  "book18_kern_values_5 = [
    [0, 0, 0, 0, 0, 0, 0, 0, 0, - 12, 0, - 6, 0, 0, 0, 0, 0, - 9, - 6, 14, 0, 3, 0, 0, 0, 0, 0, 0, 0, 0, - 6, 0, 0, 6,
     0, 6, 6, 6, 12, 0, 0, 0, 0, 0, 0, - 1, 0, - 3, - 3, - 3, 0, 14, 0, 0, 0, 0, 0, - 6, 0, 0, 0, 0, 0, 0],
    [0, 0, 0, 0, 0, 0, 0, 0, 0, 0, 0, 0, 0, 0, 0, 0, 0, 0, 0, 6, 0, 0, 0, 0, 0, 0, 0, 0, 0, 0, 0, 0, 0, 6, 0, 6, 6, 6,
     3, 0, 0, 0, 0, 0, 0, 0, 0, 0, 0, 0, 0, 0, 0, 0, 0, 0, 0, 6, 6, 4, 3, 0, 0, 0],
    [0, 0, 0, 0, 0, 0, 0, 0, 0, 0, 0, 0, 0, 0, 0, 0, 0, 0, 0, 0, 0, 0, 0, 0, 0, 0, 0, 0, - 3, 0, 0, 0, 0, - 6, 0, - 3,
     - 3, - 3, - 12, - 6, 0, 0, 0, 0, 0, 0, 0, 0, 0, 0, 0, 0, 0, 0, 0, 0, 0, 0, 0, 0, 0, 0, 0, 0],
    [0, 0, 0, 0, 0, 0, 0, 0, 0, 0, 0, 0, 0, 3, - 3, - 3, 0, 0, 0, - 6, 0, 0, 0, 0, 0, 0, 0, 0, - 6, 0, 3, 0, 0, - 20,
     - 1, - 12, - 6, - 6, - 17, 0, 0, 0, 0, 0, 0, 0, 0, 0, 0, 0, 0, 0, 0, 0, 0, 0, 0, 0, 0, 0, 0, 0, 0, 0]]"

lemma book18_kern_values_5_length [font_lengths]: "length (concat book18_kern_values_5) = 256"
  by (simp add: book18_kern_values_5_def)

lemma book18_kern_values_5_bounds [font_values]: "list_all (list_all (\<lambda>v. - 40 \<le> v \<and> v < 128)) book18_kern_values_5"
  by (simp add: book18_kern_values_5_def)

section \<open>The font\<close>

definition book18_kern_classes :: kern_classes where
  "book18_kern_classes = \<lparr>class_pair_values = concat (book18_kern_values_1 @ book18_kern_values_2 @ book18_kern_values_3 @ book18_kern_values_4 @
       book18_kern_values_5),
     left_class_mapping = book18_kern_left_class_mapping, right_class_mapping = book18_kern_right_class_mapping,
     left_class_cnt = 76, right_class_cnt = 64\<rparr>"

definition book18_font_dsc :: font_dsc where
  "book18_font_dsc = \<lparr>glyph_bitmap = concat book18_glyphs, glyph_dsc = book18_glyph_dsc, cmaps = book18_cmaps,
     kern_dsc = book18_kern_classes, kern_scale = 16, bpp = 4\<rparr>"

definition ui_font_font_book18 :: lv_font where
  "ui_font_font_book18 = \<lparr>line_height = 19, base_line = 3, underline_position = - 3, underline_thickness = 1,
     dsc = book18_font_dsc\<rparr>"

lemma book18_lengths [font_lengths]:
  "map length book18_glyphs = [
    0, 20, 18, 78, 85, 91, 78, 8, 54, 45, 28, 45, 12, 9, 5, 52, 72, 30, 54, 60, 66, 60, 60, 54, 65, 65, 14, 18, 45,
    32, 45, 59, 113, 85, 65, 85, 78, 59, 59, 85, 72, 20, 59, 72, 59, 98, 78, 91, 65, 98, 65, 65, 72, 65, 78, 117, 72,
    72, 72, 48, 52, 38, 32, 15, 8, 41, 59, 41, 65, 45, 39, 60, 52, 20, 40, 59, 20, 63, 36, 45, 54, 60, 27, 36, 36, 36,
    41, 63, 41, 60, 36, 67, 26, 57, 15]"
  by (simp add: book18_glyphs_def font_lengths)

lemma book18_count [font_lengths]: "length book18_glyphs = 95"
  using arg_cong [OF book18_lengths, of length] by simp

text \<open>The laws hold of the tables.\<close>

lemma book18_table:
  "map bitmap_index (tl book18_glyph_dsc) = offsets 0 (map length book18_glyphs)"
  "map (glyph_bytes 4) (tl book18_glyph_dsc) = map length book18_glyphs"
  by (simp_all add: book18_glyph_dsc_def book18_lengths glyph_bytes_def)

lemma book18_boxes:
  "list_all (fits_line ui_font_font_book18) (tl book18_glyph_dsc)" "list_all fits_fields book18_glyph_dsc"
  "list_all (\<lambda>g. 40 < int (adv_w g)) (tl book18_glyph_dsc)"
  by (simp_all add: book18_glyph_dsc_def fits_line_def fits_fields_def ui_font_font_book18_def)

lemma book18_classes:
  "length book18_kern_left_class_mapping = 96" "list_all (\<lambda>c. c \<le> 76) book18_kern_left_class_mapping"
  "length book18_kern_right_class_mapping = 96" "list_all (\<lambda>c. c \<le> 64) book18_kern_right_class_mapping"
  by (simp_all add: book18_kern_left_class_mapping_def book18_kern_right_class_mapping_def)

interpretation book18: font_tables ui_font_font_book18 book18_glyphs "- 40"
proof
  show "list_all (\<lambda>v. - 40 \<le> v \<and> v < 128) (class_pair_values (kern_dsc (dsc ui_font_font_book18)))"
    by (simp add: ui_font_font_book18_def book18_font_dsc_def book18_kern_classes_def font_values)
  show "length (class_pair_values (kern_dsc (dsc ui_font_font_book18))) =
      left_class_cnt (kern_dsc (dsc ui_font_font_book18)) * right_class_cnt (kern_dsc (dsc ui_font_font_book18))"
    by (simp add: ui_font_font_book18_def book18_font_dsc_def book18_kern_classes_def font_lengths)
qed (use book18_table book18_boxes book18_classes in \<open>simp_all add: ui_font_font_book18_def book18_font_dsc_def book18_kern_classes_def
    book18_cmaps_def book18_count\<close>)

end
