(* ===== verification/Font_Texts.thy ===== *)
theory Font_Texts
  imports Font_Book16 Font_Book18 Font_Book20 Font_Book24 Font_Bold30 Ui_Session
begin

text \<open>
  All fonts together, and the texts of the user interface against them: the fonts have a glyph for every character the
  screens ever draw, provided the texts and versions given from outside are printable.
\<close>

section \<open>The fonts\<close>

definition fonts :: "(lv_font \<times> u8 list list) list" where
  "fonts = [(ui_font_font_book16, book16_glyphs), (ui_font_font_book18, book18_glyphs), (ui_font_font_book20, book20_glyphs),
     (ui_font_font_book24, book24_glyphs), (ui_font_font_bold30, bold30_glyphs)]"

fun font_named :: "ui_font \<Rightarrow> lv_font" where
  "font_named Font_book16 = ui_font_font_book16"
| "font_named Font_book18 = ui_font_font_book18"
| "font_named Font_book20 = ui_font_font_book20"
| "font_named Font_bold30 = ui_font_font_bold30"

text \<open>Quantifying over the fonts of the screens is executable.\<close>

instantiation ui_font :: enum
begin

definition enum_ui_font :: "ui_font list" where
  "enum_ui_font = [Font_book16, Font_book18, Font_book20, Font_bold30]"

definition enum_all_ui_font :: "(ui_font \<Rightarrow> bool) \<Rightarrow> bool" where
  "enum_all_ui_font P \<longleftrightarrow> P Font_book16 \<and> P Font_book18 \<and> P Font_book20 \<and> P Font_bold30"

definition enum_ex_ui_font :: "(ui_font \<Rightarrow> bool) \<Rightarrow> bool" where
  "enum_ex_ui_font P \<longleftrightarrow> P Font_book16 \<or> P Font_book18 \<or> P Font_book20 \<or> P Font_bold30"

instance
proof
  have all: "(\<forall>x. Q x) \<longleftrightarrow> Q Font_book16 \<and> Q Font_book18 \<and> Q Font_book20 \<and> Q Font_bold30" for Q :: "ui_font \<Rightarrow> bool" by (metis ui_font.exhaust)
  show "(UNIV :: ui_font set) = set enum_class.enum" using all [of "\<lambda>x. x \<in> set enum_class.enum"] by (auto simp: enum_ui_font_def)
  show "distinct (enum_class.enum :: ui_font list)" by (simp add: enum_ui_font_def)
  show "enum_class.enum_all P \<longleftrightarrow> Ball UNIV P" for P :: "ui_font \<Rightarrow> bool" by (simp add: enum_all_ui_font_def all)
  show "enum_class.enum_ex P \<longleftrightarrow> Bex UNIV P" for P :: "ui_font \<Rightarrow> bool" using all [of "\<lambda>x. \<not> P x"] by (auto simp: enum_ex_ui_font_def)
qed

end

lemma fonts_tables: "(f, gs) \<in> set fonts \<Longrightarrow> \<exists>low. font_tables f gs low"
  unfolding fonts_def using book16.font_tables_axioms book18.font_tables_axioms book20.font_tables_axioms
    book24.font_tables_axioms bold30.font_tables_axioms by auto

lemma fonts_count: "(f, gs) \<in> set fonts \<Longrightarrow> length gs = 95"
  by (auto simp: fonts_def font_lengths)

lemma font_named_mem: "\<exists>gs. (font_named k, gs) \<in> set fonts"
  by (cases k) (auto simp: fonts_def)

definition printable :: "char \<Rightarrow> bool" where
  "printable c \<longleftrightarrow> 32 \<le> (of_char c :: nat) \<and> (of_char c :: nat) < 127"

lemma fonts_cmap:
  assumes "(f, gs) \<in> set fonts"
  shows "cmap_glyph (cmaps (dsc f)) n = (if 32 \<le> n \<and> n < 127 then Some (Suc (n - 32)) else None)"
proof -
  obtain low where "font_tables f gs low" using fonts_tables [OF assms] by blast
  then show ?thesis using font_tables.cmap [of f gs low n] fonts_count [OF assms] by simp
qed

section \<open>Texts\<close>

definition draws :: "ui_font \<Rightarrow> char \<Rightarrow> bool" where
  "draws k c \<longleftrightarrow> c = newline \<or> glyph_of (dsc (font_named k)) c \<noteq> None"

lemma draws_iff: "draws k c \<longleftrightarrow> c = newline \<or> printable c"
proof -
  obtain gs where "(font_named k, gs) \<in> set fonts" using font_named_mem by blast
  from fonts_cmap [OF this] show ?thesis by (auto simp: draws_def glyph_of_def printable_def)
qed

definition drawable :: "string \<Rightarrow> bool" where
  "drawable t \<longleftrightarrow> (\<forall>k. list_all (draws k) t)"

lemma drawable_list: "drawable t \<longleftrightarrow> list_all (\<lambda>c. c = newline \<or> printable c) t"
  by (simp add: drawable_def draws_iff list_all_iff)

lemma drawable_append [simp]: "drawable (s @ t) \<longleftrightarrow> drawable s \<and> drawable t"
  by (simp add: drawable_list)

lemma drawable_Cons: "drawable (c # t) \<longleftrightarrow> (c = newline \<or> printable c) \<and> drawable t"
  by (simp add: drawable_list)

lemma drawable_Nil [simp]: "drawable []"
  by (simp add: drawable_list)

lemma drawable_nat: "drawable (fmt_nat n)"
proof -
  have "printable c" if "c \<in> set (fmt_nat n)" for c using fmt_nat_digits [OF that] by (auto simp: printable_def)
  then show ?thesis by (auto simp: drawable_list list_all_iff)
qed

lemma drawable_remaining: "drawable (remaining_text n)"
proof -
  have "drawable (fmt_d i)" for i by (simp add: fmt_d_def drawable_nat drawable_Cons printable_def)
  then show ?thesis by (simp add: remaining_text_def Let_def drawable_Cons printable_def)
qed

lemma drawable_hold: "drawable s \<Longrightarrow> drawable (hold_text s)"
  by (simp add: hold_text_def drawable_Cons printable_def)

section \<open>The texts of the layouts\<close>

fun wop_drawable :: "wop \<Rightarrow> bool" where
  "wop_drawable (Text t) = drawable t"
| "wop_drawable _ = True"

fun widget_drawable :: "widget \<Rightarrow> bool" and widgets_drawable :: "widget list \<Rightarrow> bool" where
  "widget_drawable (Widget k f ops children) = (list_all wop_drawable ops \<and> widgets_drawable children)"
| "widgets_drawable [] = True"
| "widgets_drawable (w # ws) = (widget_drawable w \<and> widgets_drawable ws)"

lemma layouts_drawable: "widgets_drawable layouts"
  by (simp add: layouts_def layout_defs drawable_Cons printable_def)

section \<open>What is drawn\<close>

fun drawn_call :: "lcall \<Rightarrow> bool" where
  "drawn_call (Lv_label_set_text ob t) = drawable t"
| "drawn_call _ = True"

definition drawn :: "ui \<Rightarrow> bool" where
  "drawn u \<longleftrightarrow> list_all drawn_call (lcalls u)"

named_theorems drawing \<open>functions that keep what is drawn drawable\<close>

lemma drawn_lrun [drawing]: "drawn (lrun c u) \<longleftrightarrow> drawn_call c \<and> drawn u"
  by (simp add: drawn_def)

lemma drawn_slog [drawing]: "drawn (slog f u) = drawn u"
  by (simp add: drawn_def slog_def)

lemma drawn_upds [drawing]:
  "drawn (u\<lparr>objects := x\<rparr>) = drawn u" "drawn (u\<lparr>style_ptr := y\<rparr>) = drawn u" "drawn (u\<lparr>vars := z\<rparr>) = drawn u"
  "drawn (u\<lparr>currentScreen := i\<rparr>) = drawn u" "drawn (u\<lparr>tick_value_change_obj := j\<rparr>) = drawn u" "drawn (set_hold h g u) = drawn u"
  by (simp_all add: drawn_def set_hold_def)

lemma drawn_style_set [drawing]: "drawn (style_set style ps u) = drawn u"
  by (induction ps arbitrary: u) (simp_all add: style_set_def drawing)

lemma drawn_init_style [drawing]: "drawn (init_style_of k style u) = drawn u"
  by (cases k) (simp_all add: init_style_of_def init_style_defs drawing)

lemma drawn_get_style [drawing]: "drawn (snd (get_style_of k env u)) = drawn u"
  by (simp add: get_style_of_lazy lazy_style_def lask_def Let_def drawing)

lemma drawn_wop: "wop_drawable w \<Longrightarrow> drawn u \<Longrightarrow> drawn (run_wop env ob w u)"
  by (cases w) (simp_all add: run_wop_def add_style_of_get case_prod_beta drawing)

lemma drawn_wops: "list_all wop_drawable ws \<Longrightarrow> drawn u \<Longrightarrow> drawn (fold (run_wop env ob) ws u)"
  by (induction ws arbitrary: u) (simp_all add: drawn_wop)

lemma drawn_build:
  "widget_drawable w \<Longrightarrow> drawn u \<Longrightarrow> drawn (build env p w u)"
  "widgets_drawable ws \<Longrightarrow> drawn u \<Longrightarrow> drawn (build_all env p ws u)"
  by (induction env p w u and env p ws u rule: build_build_all.induct)
    (simp_all add: lask_def set_object_def drawn_wops drawing split: option.split)

section \<open>Variables and ticks\<close>

text \<open>The arrays hold printable characters, line feeds and NUL.\<close>

definition buf_drawable :: "char list \<Rightarrow> bool" where
  "buf_drawable b \<longleftrightarrow> list_all (\<lambda>c. c = NUL \<or> c = newline \<or> printable c) b"

definition vars_drawable :: "ui_vars \<Rightarrow> bool" where
  "vars_drawable vs \<longleftrightarrow> buf_drawable (app_version vs) \<and> buf_drawable (system_version vs) \<and> buf_drawable (lvgl_version vs)"

lemma drawable_cstr: "buf_drawable b \<Longrightarrow> drawable (cstr b)"
  by (induction b) (auto simp: buf_drawable_def cstr_def drawable_list)

lemma drawable_buf: "drawable t \<Longrightarrow> buf_drawable t"
  by (auto simp: buf_drawable_def drawable_list list_all_iff)

lemma buf_update: "buf_drawable b \<Longrightarrow> buf_drawable (b[i := NUL])"
  using set_update_subset_insert [of b i NUL] by (auto simp: buf_drawable_def list_all_iff)

lemma buf_strncpy: "buf_drawable b \<Longrightarrow> buf_drawable v \<Longrightarrow> buf_drawable (strncpy b v n)"
  by (auto simp: buf_drawable_def list_all_iff strncpy_def cstr_def dest!: in_set_takeD in_set_dropD set_takeWhileD split: if_splits)

lemma drawable_version: "drawable (version_text v)"
  by (simp add: version_text_def drawable_Cons printable_def drawable_nat split: prod.split)

lemma vars_drawable_lvgl:
  assumes "vars_drawable vs"
  shows "drawable (fst (get_var_lvgl_version env vs))" "vars_drawable (snd (get_var_lvgl_version env vs))"
  using assms drawable_buf [OF drawable_version]
  by (simp_all add: get_var_lvgl_version_def vars_drawable_def Let_def drawable_cstr buf_strncpy buf_update)

lemma vars_drawable_set:
  assumes "vars_drawable vs" "buf_drawable v"
  shows "vars_drawable (set_var_app_version v vs)" "vars_drawable (set_var_system_version v vs)" "vars_drawable (set_var_main_screen v vs)"
  using assms by (simp_all add: var_defs vars_drawable_def copy_var_def buf_strncpy buf_update)

lemma drawn_tick_label: "drawable v \<Longrightarrow> drawn u \<Longrightarrow> drawn (tick_label env f v u)"
  by (simp add: tick_label_def Let_def drawing)

definition draw_inv :: "ui \<Rightarrow> bool" where
  "draw_inv u \<longleftrightarrow> drawn u \<and> vars_drawable (vars u)"

lemma draw_tick_label: "drawable v \<Longrightarrow> draw_inv u \<Longrightarrow> draw_inv (tick_label env f v u)"
  by (simp add: draw_inv_def drawn_tick_label tick_label_frame)

lemma draw_vars:
  assumes "draw_inv u"
  shows "drawable (get_var_system_version (vars u))" "drawable (get_var_app_version (vars u))"
    "drawable (fst (get_var_lvgl_version env (vars u)))" "draw_inv (u\<lparr>vars := snd (get_var_lvgl_version env (vars u))\<rparr>)"
  using assms by (simp_all add: draw_inv_def vars_drawable_lvgl drawing) (simp_all add: vars_drawable_def var_defs drawable_cstr)

lemma draw_tick:
  assumes "tick \<in> set tick_screen_funcs" "draw_inv u"
  shows "draw_inv (tick env u)"
  using assms by (auto simp: tick_screen_funcs_def tick_defs Let_def case_prod_beta intro!: draw_tick_label draw_vars)

lemma draw_ui_tick: "ui_tick env u = Some u' \<Longrightarrow> draw_inv u \<Longrightarrow> draw_inv u'"
  using draw_tick by (auto simp: ui_tick_def tick_screen_def split: if_splits)

section \<open>Callbacks\<close>

lemma draw_frame [drawing]:
  "draw_inv (lrun c u) \<longleftrightarrow> drawn_call c \<and> draw_inv u" "draw_inv (slog f u) = draw_inv u"
  "draw_inv (u\<lparr>currentScreen := i\<rparr>) = draw_inv u" "draw_inv (set_hold h g u) = draw_inv u"
  by (auto simp: draw_inv_def drawing) (auto simp: slog_def set_hold_def)

lemma draw_load: "loadScreen i u = Some u' \<Longrightarrow> draw_inv u \<Longrightarrow> draw_inv u'"
  by (auto simp: loadScreen_def Let_def drawing split: option.splits if_splits)

lemma draw_gesture:
  "handle_gesture_screen_switch env e d i u = Some (r, u') \<Longrightarrow> draw_inv u \<Longrightarrow> draw_inv u'"
  "handle_gesture_main_screen_switch e d u = Some u' \<Longrightarrow> draw_inv u \<Longrightarrow> draw_inv u'"
  by (auto simp: handle_gesture_screen_switch_def handle_gesture_main_screen_switch_def lask_def Let_def drawing
      split: if_splits elim: draw_load)

lemma draw_fire: "draw_inv u \<Longrightarrow> draw_inv (hold_fire c u)"
  by (simp add: hold_fire_def Let_def ui_call_rpc_handler_def jetkvm_call_rpc_handler_def drawing)

lemma draw_hold: "drawable (default_text c) \<Longrightarrow> draw_inv u \<Longrightarrow> draw_inv (handle_hold_action env e c u)"
  by (simp add: handle_hold_action_def Let_def drawing drawable_remaining draw_fire)

lemma draw_holds:
  assumes "draw_inv u"
  shows "draw_inv (action_reset_config env e u)" "draw_inv (action_dhcpc env e u)" "draw_inv (action_reboot env e u)"
  using assms
  by (simp_all add: hold_defs reset_config_of_def dhcpc_of_def reboot_of_def draw_hold drawable_hold drawable_Cons printable_def)

lemma draw_action:
  assumes "run_action a env e u = Some u'" "draw_inv u"
  shows "draw_inv u'"
  using assms(1) draw_holds [OF assms(2)] assms(2)
  by (cases a) (auto simp: run_action_def switch_defs gesture_defs split: if_splits option.splits prod.splits
      elim: draw_load draw_gesture)

section \<open>Rotation and initialisation\<close>

lemma draw_display_only: "display_only u v \<Longrightarrow> drawn v \<Longrightarrow> draw_inv u \<Longrightarrow> draw_inv v"
  by (simp add: display_only_def draw_inv_def)

lemma drawn_ui_get_style [drawing]: "drawn (snd (ui_get_style env idx n u)) = drawn u"
  by (simp add: ui_get_style_def drawing split: option.split)

lemma drawn_rotate [drawing]: "drawn (rotate_display d r u) = drawn u"
proof -
  have "drawn (set_display_rotation e r v) = drawn v" "drawn (apply_touch_calibration v) = drawn v"
    "drawn (v\<lparr>current_rotation := r\<rparr>) = drawn v" for e v
    by (simp_all add: set_display_rotation_def apply_touch_calibration_def drawing) (simp add: drawn_def)
  then show ?thesis by (simp add: rotate_display_def Let_def drawing)
qed

lemma drawn_pads [drawing]: "drawn (set_rotation_pads fs fsm r u) = drawn u"
  by (simp add: set_rotation_pads_def drawing)

lemma drawn_rotation [drawing]: "drawn (lvgl_set_rotation env idx d r u) = drawn u"
  by (simp add: lvgl_set_rotation_def Let_def case_prod_beta drawing)

lemma draw_rotation: "draw_inv u \<Longrightarrow> draw_inv (lvgl_set_rotation env idx d r u)"
  using draw_display_only [OF display_only_set_rotation] by (simp add: drawing draw_inv_def)

lemma draw_setup: "draw_inv u \<Longrightarrow> draw_inv (lvgl_setup env idx r u)"
proof -
  have "draw_inv (v\<lparr>disp := d\<rparr>) = draw_inv v" for v d by (simp add: draw_inv_def drawn_def)
  then show "draw_inv u \<Longrightarrow> draw_inv (lvgl_setup env idx r u)"
    by (simp add: lvgl_setup_def lask_def Let_def drawing draw_rotation)
qed

lemma draw_build:
  assumes "w \<in> set layouts" "draw_inv u"
  shows "draw_inv (build env p w u)"
proof -
  have "widgets_drawable ws \<Longrightarrow> w \<in> set ws \<Longrightarrow> widget_drawable w" for ws by (induction ws) auto
  from drawn_build(1) [OF this [OF layouts_drawable assms(1)]] assms(2) show ?thesis
    by (simp add: draw_inv_def build_keeps)
qed

lemma draw_create:
  assumes "draw_inv u"
  shows "draw_inv (create_screens env u)"
proof -
  have "\<forall>t\<in>set tick_screen_funcs. \<forall>v. draw_inv v \<longrightarrow> draw_inv (t env v)" using draw_tick by blast
  then have t: "draw_inv v \<Longrightarrow> draw_inv (tick_screen_boot_screen env v)" "draw_inv v \<Longrightarrow> draw_inv (tick_screen_about_screen env v)" for v
    by (simp_all add: tick_screen_funcs_def)
  have "\<forall>w\<in>set layouts. \<forall>v. draw_inv v \<longrightarrow> draw_inv (build env 0 w v)" using draw_build by blast
  then show ?thesis using t assms unfolding layouts_def
    by (simp add: create_screens_def create_defs Let_def lask_def drawing
        tick_screen_no_network_screen_def tick_screen_home_screen_def tick_screen_menu_screen_def tick_screen_menu_advanced_screen_def
        tick_screen_menu_network_screen_def tick_screen_status_screen_def tick_screen_reset_config_screen_def
        tick_screen_reboot_screen_def tick_screen_rebooting_screen_def tick_screen_switch_dhcp_client_screen_def)
qed

lemma draw_init:
  assumes "jetkvm_ui_init env idx r u = Some s" "draw_inv u"
  shows "draw_inv s"
proof -
  let ?v = "create_screens env (lvgl_setup env idx r u)"
  from assms(1) obtain w where w: "loadScreen SCREEN_ID_BOOT_SCREEN ?v = Some w" "lcalls s = lcalls w" "vars s = vars w"
    by (auto simp: jetkvm_ui_init_def lvgl_init_def ui_init_def ui_set_rpc_handler_def slog_def)
  from draw_load [OF w(1) draw_create [OF draw_setup [OF assms(2)]]] w(2,3) show ?thesis by (simp add: draw_inv_def drawn_def)
qed

section \<open>Sessions\<close>

text \<open>Requests that bring in printable texts.\<close>

fun request_drawable :: "ui_request \<Rightarrow> bool" where
  "request_drawable (Req_text n t) = drawable t"
| "request_drawable (Req_var n v) = drawable v"
| "request_drawable _ = True"

lemma draw_request:
  assumes "request_drawable q" "draw_inv u"
  shows "draw_inv (run_request env q u)"
proof (cases q)
  case (Req_rotation r)
  then show ?thesis using draw_rotation assms(2) by (simp add: jetkvm_ui_set_rotation_def)
next
  case (Req_var n v)
  have "draw_inv (u\<lparr>vars := var_setter x v (vars u)\<rparr>)" for x
    using assms vars_drawable_set [OF _ drawable_buf] Req_var
    by (cases x) (auto simp: draw_inv_def drawing var_setter_def set_var_lvgl_version_def)
  then show ?thesis using Req_var assms(2) by (simp add: jetkvm_ui_set_var_def drawing split: option.split)
qed (use assms in \<open>simp_all add: jetkvm_ui_set_text_def set_image.run_call add_state.run_call clear_state.run_call
    fade_in.run_call fade_out.run_call set_opacity.run_call jetkvm_ui_add_flag_def jetkvm_ui_clear_flag_def
    jetkvm_ui_load_screen_def lask_def Let_def drawing split: option.split\<close>)

interpretation drawing_session: invariant_system
  "\<lambda>u. \<exists>v r. draw_inv v \<and> jetkvm_ui_init env generated_index r v = Some u" "session_step request_drawable env" draw_inv for env
proof
  fix u u'
  assume i: "draw_inv u" and "session_step request_drawable env u u'"
  from this(2) show "draw_inv u'"
  proof (rule session_stepE)
    assume "jetkvm_ui_tick env u = Some u'"
    then show ?thesis using i by (auto simp: jetkvm_ui_tick_def lvgl_tick_def drawing elim!: draw_ui_tick)
  next
    assume "u' = snd (jetkvm_ui_get_current_screen env generated_index u)"
    then show ?thesis using i
      by (simp add: jetkvm_ui_get_current_screen_def ui_get_current_screen_def lask_def drawing split: option.split)
  qed (use i draw_action draw_request in auto)
qed (use draw_init in blast)

section \<open>Stated properties\<close>

text \<open>C13: Whatever happens in a session, no label is ever given a character its font has no glyph for: if the texts and version strings
  that requests bring in are printable, then every text that was set on a label, by the layouts, the ticks, the countdowns of
  the held buttons or the requests, consists of line feeds and of characters that each font of the screens draws.\<close>

theorem session_texts_have_glyphs:
  assumes "lcalls v = []" "vars_drawable (vars v)" "jetkvm_ui_init env generated_index r v = Some s"
    and "(session_step request_drawable env)\<^sup>*\<^sup>* s u" "Lv_label_set_text ob t \<in> set (lcalls u)" "c \<in> set t"
  shows "c = newline \<or> (\<exists>g. glyph_of (dsc (font_named k)) c = Some g)"
proof -
  have "draw_inv v" using assms(1,2) by (simp add: draw_inv_def drawn_def)
  with assms(3) have "draw_inv s" by (rule draw_init)
  from drawing_session.inv_steps [OF this assms(4)] assms(5) have "drawable t" by (auto simp: draw_inv_def drawn_def list_all_iff)
  with assms(6) have "draws k c" by (auto simp: drawable_def list_all_iff)
  then show ?thesis by (auto simp: draws_def)
qed

lemma label_text_set: "label_text ob h = t \<Longrightarrow> t \<noteq> [] \<Longrightarrow> Lv_label_set_text ob t \<in> set h"
  by (induction h) (auto split: lcall.splits if_splits)

theorem session_texts_have_glyphs_witness:
  "\<exists>s u. jetkvm_ui_init sample_lv generated_index 270 ui_globals = Some s \<and>
     u = run_request sample_lv (Req_text ''usb_status_label'' ''Connected'') s \<and>
     Lv_label_set_text (objects s ''usb_status_label'') ''Connected'' \<in> set (lcalls u) \<and>
     (\<exists>g. glyph_of (dsc (font_named Font_book20)) CHR ''C'' = Some g)"
proof -
  obtain s where s: "jetkvm_ui_init sample_lv generated_index 270 ui_globals = Some s" "nav_inv sample_lv s" using sample_started by blast
  let ?u = "run_request sample_lv (Req_text ''usb_status_label'' ''Connected'') s"
  have o: "objects_ok sample_lv s" using s(2) by (simp add: nav_inv_def)
  have step: "(session_step request_drawable sample_lv)\<^sup>*\<^sup>* s ?u"
    by (intro r_into_rtranclp by_request) (simp add: drawable_Cons printable_def)
  have start: "lcalls ui_globals = []" "vars_drawable (vars ui_globals)"
    by (simp_all add: ui_globals_def vars_init_def vars_drawable_def buf_drawable_def list_all_iff printable_def)
  have set: "Lv_label_set_text (objects s ''usb_status_label'') ''Connected'' \<in> set (lcalls ?u)"
    using set_text_spec [OF sample_lv_ok(2) o, of "''usb_status_label''" "''Connected''"]
    by (intro label_text_set) (auto simp: object_fields_def split: prod.splits)
  from session_texts_have_glyphs [OF start s(1) step set, of "CHR ''C''" Font_book20] show ?thesis
    using s(1) set by (auto simp: newline_def)
qed

text \<open>C36: The font tables are sound: in each of the five fonts every printable character has a glyph, whose bytes lie inside the
  bitmap and are exactly the bytes listed for it, which share no byte with those of another glyph, and whose box lies
  inside the line; every number fits its field.\<close>

theorem font_glyphs_sound:
  assumes "(f, gs) \<in> set fonts" "printable c"
  shows "\<exists>g. glyph_of (dsc f) c = Some g \<and> glyph_bits (dsc f) g = gs ! (of_char c - 32) \<and>
    bitmap_index g + glyph_bytes (bpp (dsc f)) g \<le> length (glyph_bitmap (dsc f)) \<and> fits_line f g \<and> fits_fields g \<and>
    (\<forall>c' g'. printable c' \<and> of_char c < (of_char c' :: nat) \<and> glyph_of (dsc f) c' = Some g' \<longrightarrow>
      bitmap_index g + glyph_bytes (bpp (dsc f)) g \<le> bitmap_index g')"
proof -
  obtain low where t: "font_tables f gs low" using fonts_tables [OF assms(1)] by blast
  have g: "glyph_of (dsc f) d = Some (glyph_dsc (dsc f) ! Suc (of_char d - 32)) \<and> of_char d - 32 < length gs" if "printable d" for d
    using that fonts_cmap [OF assms(1)] fonts_count [OF assms(1)] by (auto simp: glyph_of_def printable_def)
  let ?i = "of_char c - 32 :: nat"
  have i: "?i < length gs" using g assms(2) by blast
  have "Suc ?i < length (glyph_dsc (dsc f))" using font_tables.table_nth [OF t i] by auto
  then have "fits_fields (glyph_dsc (dsc f) ! Suc ?i)" using font_tables.fields [OF t] by (simp add: list_all_length)
  moreover have "bitmap_index (glyph_dsc (dsc f) ! Suc ?i) + glyph_bytes (bpp (dsc f)) (glyph_dsc (dsc f) ! Suc ?i) \<le> bitmap_index g'"
    if "printable c'" "of_char c < (of_char c' :: nat)" "glyph_of (dsc f) c' = Some g'" for c' g'
  proof -
    have "?i < of_char c' - 32" "of_char c' - 32 < length gs" using that(1,2) assms(2) g [OF that(1)] by (auto simp: printable_def)
    from font_tables.bits_apart [OF t this] that(3) g [OF that(1)] show ?thesis by simp
  qed
  ultimately show ?thesis
    using g [OF assms(2)] font_tables.bits [OF t i] font_tables.bits_inside [OF t i] font_tables.table_entry(3) [OF t i] by auto
qed

theorem font_glyphs_sound_witness:
  "\<exists>g. glyph_of (dsc ui_font_font_bold30) CHR ''!'' = Some g \<and> glyph_bits (dsc ui_font_font_bold30) g = bold30_glyphs ! 1"
  using font_glyphs_sound [of ui_font_font_bold30 bold30_glyphs "CHR ''!''"] by (auto simp: fonts_def printable_def)

text \<open>A line of text always moves to the right: for any two printable characters the kerning is read inside its table, and the
  advance of the first together with the kerning is at least one sixteenth of a pixel.\<close>

theorem font_pen_advances:
  assumes "(f, gs) \<in> set fonts" "printable c" "printable c'"
    and "cmap_glyph (cmaps (dsc f)) (of_char c) = Some i" "cmap_glyph (cmaps (dsc f)) (of_char c') = Some j"
  shows "0 < pen_step (dsc f) i j \<and>
    (\<forall>n. kern_index (kern_dsc (dsc f)) i j = Some n \<longrightarrow> n < length (class_pair_values (kern_dsc (dsc f))))"
proof -
  obtain low where t: "font_tables f gs low" using fonts_tables [OF assms(1)] by blast
  from assms(2-5) fonts_cmap [OF assms(1)] have i: "i = Suc (of_char c - 32)" "of_char c - 32 < length gs" and j: "j \<le> length gs"
    by (auto simp: printable_def fonts_count [OF assms(1)])
  from font_tables.pen_moves [OF t i(2) j] font_tables.kern_inside [OF t _ j, of i] i show ?thesis by auto
qed

theorem font_pen_advances_witness:
  "0 < pen_step (dsc ui_font_font_book16) 34 55"
  using font_pen_advances [of ui_font_font_book16 book16_glyphs "CHR ''A''" "CHR ''V''" 34 55] fonts_cmap [of ui_font_font_book16 book16_glyphs]
  by (auto simp: fonts_def printable_def)

end
