(* ===== verification/Images.thy ===== *)
theory Images
  imports C_Lib
begin

text \<open>
  The image descriptors of \<^verbatim>\<open>eez/src/ui/images\<close>: the fields of \<^verbatim>\<open>lv_image_dsc_t\<close> the files fill in, and what LVGL needs of
  them to draw an image on the display of the device, which has 240 by 300 pixels.
\<close>

datatype color_format = LV_COLOR_FORMAT_ARGB8888

record lv_image_dsc =
  image_cf :: color_format
  image_flags :: nat
  image_w :: nat
  image_h :: nat
  image_stride :: nat
  data_size :: nat
  image_data :: "u8 list"

fun pixel_bytes :: "color_format \<Rightarrow> nat" where
  "pixel_bytes LV_COLOR_FORMAT_ARGB8888 = 4"

text \<open>The bytes of the pixel in column \<open>x\<close> of row \<open>y\<close>.\<close>

definition pixel :: "lv_image_dsc \<Rightarrow> nat \<Rightarrow> nat \<Rightarrow> u8 list" where
  "pixel d x y = take (pixel_bytes (image_cf d)) (drop (y * image_stride d + x * pixel_bytes (image_cf d)) (image_data d))"

definition image_ok :: "lv_image_dsc \<Rightarrow> bool" where
  "image_ok d \<longleftrightarrow> 0 < image_w d \<and> image_w d \<le> 240 \<and> 0 < image_h d \<and> image_h d \<le> 300 \<and>
     image_stride d = image_w d * pixel_bytes (image_cf d) \<and> data_size d = image_stride d * image_h d \<and>
     data_size d = length (image_data d)"

named_theorems images_ok \<open>the descriptors that are sound\<close>

lemma pixel_inside:
  assumes "image_ok d" "x < image_w d" "y < image_h d"
  shows "y * image_stride d + x * pixel_bytes (image_cf d) + pixel_bytes (image_cf d) \<le> length (image_data d)"
proof -
  let ?p = "pixel_bytes (image_cf d)" and ?s = "image_stride d"
  have i: "?s = image_w d * ?p" "length (image_data d) = ?s * image_h d"
    using assms(1) unfolding image_ok_def by metis+
  have "x * ?p + ?p \<le> ?s" using mult_le_mono1 [of "Suc x" "image_w d" ?p] assms(2) unfolding i(1) by simp
  moreover have "y * ?s + ?s \<le> image_h d * ?s" using mult_le_mono1 [of "Suc y" "image_h d" ?s] assms(3) by simp
  ultimately show ?thesis using i(2) by (simp add: mult.commute)
qed

lemma pixel_complete:
  assumes "image_ok d" "x < image_w d" "y < image_h d"
  shows "length (pixel d x y) = pixel_bytes (image_cf d)"
  using pixel_inside [OF assms] by (simp add: pixel_def)

end
