(* ===== verification/Image_Logos.thy ===== *)
theory Image_Logos
  imports Images
begin

text \<open>
  The pixels and descriptors of \<^verbatim>\<open>ui_image_jetkvm.c\<close>, \<^verbatim>\<open>ui_image_logo.c\<close>. A row of pixels is a line
  of the file; rows of more than 128 bytes are written in equal parts.
\<close>

section \<open>jetkvm\<close>

definition img_jetkvm_map_1 :: "u8 list list" where
  "img_jetkvm_map_1 = [
    [0x00, 0x00, 0x00, 0x00, 0xff, 0x80, 0x00, 0x02, 0x00, 0x00, 0x00, 0x00, 0x00, 0x00, 0x00, 0x00, 0xdc, 0x50, 0x1e, 0x33,
     0xd8, 0x4d, 0x1d, 0x98, 0xd8, 0x4e, 0x1c, 0xd9, 0xd9, 0x4e, 0x1c, 0xfc, 0xd8, 0x4e, 0x1d, 0xff, 0xd8, 0x4e, 0x1d, 0xff,
     0xd8, 0x4e, 0x1d, 0xff, 0xd8, 0x4e, 0x1d, 0xff, 0xd8, 0x4e, 0x1d, 0xff, 0xd8, 0x4e, 0x1d, 0xff, 0xd8, 0x4e, 0x1d, 0xff,
     0xd8, 0x4e, 0x1d, 0xff, 0xd8, 0x4e, 0x1d, 0xff, 0xd8, 0x4e, 0x1d, 0xff, 0xd8, 0x4e, 0x1d, 0xff, 0xd8, 0x4e, 0x1d, 0xff,
     0xd8, 0x4e, 0x1d, 0xff, 0xd8, 0x4e, 0x1d, 0xff, 0xd8, 0x4e, 0x1d, 0xff, 0xd8, 0x4e, 0x1d, 0xff, 0xd8, 0x4e, 0x1c, 0xfb,
     0xd8, 0x4e, 0x1d, 0xdf, 0xd8, 0x4e, 0x1e, 0xa3, 0xda, 0x4e, 0x1e, 0x45, 0x00, 0x00, 0x00, 0x00],
    [0x00, 0x00, 0x00, 0x00, 0xff, 0x80, 0x00, 0x02, 0x00, 0x00, 0x00, 0x00, 0x00, 0x00, 0x00, 0x00, 0x00, 0x00, 0x00, 0x00,
     0x00, 0x00, 0x00, 0x00, 0x00, 0x00, 0x00, 0x00, 0x00, 0x00, 0x00, 0x00, 0x00, 0x00, 0x00, 0x00, 0x00, 0x00, 0x00, 0x00,
     0x00, 0x00, 0x00, 0x00, 0x00, 0x00, 0x00, 0x00, 0x00, 0x00, 0x00, 0x00, 0x00, 0x00, 0x00, 0x00, 0x00, 0x00, 0x00, 0x00,
     0x00, 0x00, 0x00, 0x00, 0x00, 0x00, 0x00, 0x00, 0x00, 0x00, 0x00, 0x00, 0x00, 0x00, 0x00, 0x00, 0x00, 0x00, 0x00, 0x00,
     0x00, 0x00, 0x00, 0x00, 0x00, 0x00, 0x00, 0x00, 0x00, 0x00, 0x00, 0x00, 0x00, 0x00, 0x00, 0x00, 0x00, 0x00, 0x00, 0x00,
     0x00, 0x00, 0x00, 0x00, 0x00, 0x00, 0x00, 0x00, 0x00, 0x00, 0x00, 0x00, 0x00, 0x00, 0x00, 0x00],
    [0x00, 0x00, 0x00, 0x00, 0x00, 0x00, 0x00, 0x00, 0x00, 0x00, 0x00, 0x00, 0x00, 0x00, 0x00, 0x00, 0x00, 0x00, 0x00, 0x00,
     0x00, 0x00, 0x00, 0x00, 0x00, 0x00, 0x00, 0x00, 0x00, 0x00, 0x00, 0x00, 0x00, 0x00, 0x00, 0x00, 0x00, 0x00, 0x00, 0x00,
     0x00, 0x00, 0x00, 0x00, 0x00, 0x00, 0x00, 0x00, 0x00, 0x00, 0x00, 0x00, 0x00, 0x00, 0x00, 0x00, 0x00, 0x00, 0x00, 0x00,
     0x00, 0x00, 0x00, 0x00, 0x00, 0x00, 0x00, 0x00, 0x00, 0x00, 0x00, 0x00, 0x00, 0x00, 0x00, 0x00, 0x00, 0x00, 0x00, 0x00,
     0x00, 0x00, 0x00, 0x00, 0x00, 0x00, 0x00, 0x00, 0x00, 0x00, 0x00, 0x00, 0x00, 0x00, 0x00, 0x00, 0x00, 0x00, 0x00, 0x00,
     0x00, 0x00, 0x00, 0x00, 0x00, 0x00, 0x00, 0x00, 0x00, 0x00, 0x00, 0x00, 0x00, 0x00, 0x00, 0x00],
    [0x00, 0x00, 0x00, 0x00, 0x00, 0x00, 0x00, 0x00, 0x00, 0x00, 0x00, 0x00, 0x00, 0x00, 0x00, 0x00, 0x00, 0x00, 0x00, 0x00,
     0x00, 0x00, 0x00, 0x00, 0x00, 0x00, 0x00, 0x00, 0x00, 0x00, 0x00, 0x00, 0x00, 0x00, 0x00, 0x00, 0x00, 0x00, 0x00, 0x00,
     0x00, 0x00, 0x00, 0x00, 0x00, 0x00, 0x00, 0x00, 0x00, 0x00, 0x00, 0x00, 0x00, 0x00, 0x00, 0x00, 0x00, 0x00, 0x00, 0x00,
     0x00, 0x00, 0x00, 0x00, 0x00, 0x00, 0x00, 0x00, 0x00, 0x00, 0x00, 0x00, 0x00, 0x00, 0x00, 0x00, 0x00, 0x00, 0x00, 0x00,
     0x00, 0x00, 0x00, 0x00, 0x00, 0x00, 0x00, 0x00, 0x00, 0x00, 0x00, 0x00, 0x00, 0x00, 0x00, 0x00, 0x00, 0x00, 0x00, 0x00,
     0x00, 0x00, 0x00, 0x00, 0x00, 0x00, 0x00, 0x00, 0x00, 0x00, 0x00, 0x00, 0x00, 0x00, 0x00, 0x00],
    [0xff, 0x80, 0x00, 0x02, 0x00, 0x00, 0x00, 0x00, 0xff, 0x55, 0x00, 0x03, 0xd8, 0x4f, 0x1d, 0x95, 0xda, 0x4f, 0x1d, 0xff,
     0xe5, 0x53, 0x1f, 0xff, 0xdd, 0x50, 0x1e, 0xff, 0xd8, 0x4e, 0x1d, 0xff, 0xd8, 0x4e, 0x1d, 0xff, 0xd8, 0x4e, 0x1d, 0xff,
     0xd8, 0x4e, 0x1d, 0xff, 0xd8, 0x4e, 0x1d, 0xff, 0xd8, 0x4e, 0x1d, 0xff, 0xd8, 0x4e, 0x1d, 0xff, 0xd8, 0x4e, 0x1d, 0xff,
     0xd8, 0x4e, 0x1d, 0xff, 0xd8, 0x4e, 0x1d, 0xff, 0xd8, 0x4e, 0x1d, 0xff, 0xd8, 0x4e, 0x1d, 0xff, 0xd8, 0x4e, 0x1d, 0xff,
     0xd8, 0x4e, 0x1d, 0xff, 0xd8, 0x4e, 0x1d, 0xff, 0xd8, 0x4e, 0x1d, 0xff, 0xd8, 0x4e, 0x1d, 0xff, 0xd8, 0x4e, 0x1d, 0xff,
     0xdc, 0x4f, 0x1d, 0xff, 0xe5, 0x53, 0x1f, 0xff, 0xde, 0x50, 0x1e, 0xff, 0xd8, 0x4e, 0x1e, 0xa4],
    [0xd9, 0x4d, 0x1a, 0x14, 0x00, 0x00, 0x00, 0x00, 0xff, 0x80, 0x00, 0x02, 0x00, 0x00, 0x00, 0x00, 0x00, 0x00, 0x00, 0x00,
     0x00, 0x00, 0x00, 0x00, 0x00, 0x00, 0x00, 0x00, 0x00, 0x00, 0x00, 0x00, 0x00, 0x00, 0x00, 0x00, 0x00, 0x00, 0x00, 0x00,
     0x00, 0x00, 0x00, 0x00, 0x00, 0x00, 0x00, 0x00, 0x00, 0x00, 0x00, 0x00, 0x00, 0x00, 0x00, 0x00, 0x00, 0x00, 0x00, 0x00,
     0x00, 0x00, 0x00, 0x00, 0x00, 0x00, 0x00, 0x00, 0x00, 0x00, 0x00, 0x00, 0x00, 0x00, 0x00, 0x00, 0x00, 0x00, 0x00, 0x00,
     0x00, 0x00, 0x00, 0x00, 0x00, 0x00, 0x00, 0x00, 0x00, 0x00, 0x00, 0x00, 0x00, 0x00, 0x00, 0x00, 0x00, 0x00, 0x00, 0x00,
     0x00, 0x00, 0x00, 0x00, 0x00, 0x00, 0x00, 0x00, 0x00, 0x00, 0x00, 0x00, 0x00, 0x00, 0x00, 0x00],
    [0x00, 0x00, 0x00, 0x00, 0x00, 0x00, 0x00, 0x00, 0x00, 0x00, 0x00, 0x00, 0x00, 0x00, 0x00, 0x00, 0x00, 0x00, 0x00, 0x00,
     0x00, 0x00, 0x00, 0x00, 0x00, 0x00, 0x00, 0x00, 0x00, 0x00, 0x00, 0x00, 0x00, 0x00, 0x00, 0x00, 0x00, 0x00, 0x00, 0x00,
     0x00, 0x00, 0x00, 0x00, 0x00, 0x00, 0x00, 0x00, 0x00, 0x00, 0x00, 0x00, 0x00, 0x00, 0x00, 0x00, 0x00, 0x00, 0x00, 0x00,
     0x00, 0x00, 0x00, 0x00, 0x00, 0x00, 0x00, 0x00, 0x00, 0x00, 0x00, 0x00, 0x00, 0x00, 0x00, 0x00, 0x00, 0x00, 0x00, 0x00,
     0x00, 0x00, 0x00, 0x00, 0x00, 0x00, 0x00, 0x00, 0x00, 0x00, 0x00, 0x00, 0x00, 0x00, 0x00, 0x00, 0x00, 0x00, 0x00, 0x00,
     0x00, 0x00, 0x00, 0x00, 0x00, 0x00, 0x00, 0x00, 0x00, 0x00, 0x00, 0x00, 0x00, 0x00, 0x00, 0x00],
    [0x00, 0x00, 0x00, 0x00, 0x00, 0x00, 0x00, 0x00, 0x00, 0x00, 0x00, 0x00, 0x00, 0x00, 0x00, 0x00, 0x00, 0x00, 0x00, 0x00,
     0x00, 0x00, 0x00, 0x00, 0x00, 0x00, 0x00, 0x00, 0x00, 0x00, 0x00, 0x00, 0x00, 0x00, 0x00, 0x00, 0x00, 0x00, 0x00, 0x00,
     0x00, 0x00, 0x00, 0x00, 0x00, 0x00, 0x00, 0x00, 0x00, 0x00, 0x00, 0x00, 0x00, 0x00, 0x00, 0x00, 0x00, 0x00, 0x00, 0x00,
     0x00, 0x00, 0x00, 0x00, 0x00, 0x00, 0x00, 0x00, 0x00, 0x00, 0x00, 0x00, 0x00, 0x00, 0x00, 0x00, 0x00, 0x00, 0x00, 0x00,
     0x00, 0x00, 0x00, 0x00, 0x00, 0x00, 0x00, 0x00, 0x00, 0x00, 0x00, 0x00, 0x00, 0x00, 0x00, 0x00, 0x00, 0x00, 0x00, 0x00,
     0x00, 0x00, 0x00, 0x00, 0x00, 0x00, 0x00, 0x00, 0x00, 0x00, 0x00, 0x00, 0x00, 0x00, 0x00, 0x00],
    [0x00, 0x00, 0x00, 0x00, 0xff, 0x55, 0x00, 0x03, 0xd8, 0x4f, 0x1d, 0xb2, 0xe9, 0x54, 0x1f, 0xff, 0xd8, 0x4e, 0x1d, 0xfe,
     0xd8, 0x4e, 0x1c, 0xfb, 0xd8, 0x4e, 0x1d, 0xfe, 0xd8, 0x4e, 0x1d, 0xff, 0xd8, 0x4e, 0x1d, 0xff, 0xd8, 0x4e, 0x1d, 0xff,
     0xd8, 0x4e, 0x1d, 0xff, 0xd8, 0x4e, 0x1d, 0xff, 0xd8, 0x4e, 0x1d, 0xff, 0xd8, 0x4e, 0x1d, 0xff, 0xd8, 0x4e, 0x1d, 0xff,
     0xd8, 0x4e, 0x1d, 0xff, 0xd8, 0x4e, 0x1d, 0xff, 0xd8, 0x4e, 0x1d, 0xff, 0xd8, 0x4e, 0x1d, 0xff, 0xd8, 0x4e, 0x1d, 0xff,
     0xd8, 0x4e, 0x1d, 0xff, 0xd8, 0x4e, 0x1d, 0xff, 0xd8, 0x4e, 0x1d, 0xff, 0xd8, 0x4e, 0x1d, 0xff, 0xd8, 0x4e, 0x1d, 0xff,
     0xd8, 0x4e, 0x1d, 0xfe, 0xd8, 0x4e, 0x1c, 0xfb, 0xd8, 0x4e, 0x1d, 0xfd, 0xe7, 0x53, 0x1f, 0xff],
    [0xd8, 0x4f, 0x1d, 0xd9, 0xde, 0x4e, 0x21, 0x17, 0x00, 0x00, 0x00, 0x00, 0xff, 0x80, 0x00, 0x02, 0x00, 0x00, 0x00, 0x00,
     0x00, 0x00, 0x00, 0x00, 0x00, 0x00, 0x00, 0x00, 0x00, 0x00, 0x00, 0x00, 0x00, 0x00, 0x00, 0x00, 0x00, 0x00, 0x00, 0x00,
     0x00, 0x00, 0x00, 0x00, 0x00, 0x00, 0x00, 0x00, 0x00, 0x00, 0x00, 0x00, 0x00, 0x00, 0x00, 0x00, 0x00, 0x00, 0x00, 0x00,
     0x00, 0x00, 0x00, 0x00, 0x00, 0x00, 0x00, 0x00, 0x00, 0x00, 0x00, 0x00, 0x00, 0x00, 0x00, 0x00, 0x00, 0x00, 0x00, 0x00,
     0x00, 0x00, 0x00, 0x00, 0x00, 0x00, 0x00, 0x00, 0x00, 0x00, 0x00, 0x00, 0x00, 0x00, 0x00, 0x00, 0x00, 0x00, 0x00, 0x00,
     0x00, 0x00, 0x00, 0x00, 0x00, 0x00, 0x00, 0x00, 0x00, 0x00, 0x00, 0x00, 0x00, 0x00, 0x00, 0x00],
    [0x00, 0x00, 0x00, 0x00, 0x00, 0x00, 0x00, 0x00, 0x00, 0x00, 0x00, 0x00, 0x00, 0x00, 0x00, 0x00, 0x00, 0x00, 0x00, 0x00,
     0x00, 0x00, 0x00, 0x00, 0x00, 0x00, 0x00, 0x00, 0x00, 0x00, 0x00, 0x00, 0x00, 0x00, 0x00, 0x00, 0x00, 0x00, 0x00, 0x00,
     0x00, 0x00, 0x00, 0x00, 0x00, 0x00, 0x00, 0x00, 0x00, 0x00, 0x00, 0x00, 0x00, 0x00, 0x00, 0x00, 0x00, 0x00, 0x00, 0x00,
     0x00, 0x00, 0x00, 0x00, 0x00, 0x00, 0x00, 0x00, 0x00, 0x00, 0x00, 0x00, 0x00, 0x00, 0x00, 0x00, 0x00, 0x00, 0x00, 0x00,
     0x00, 0x00, 0x00, 0x00, 0x00, 0x00, 0x00, 0x00, 0x00, 0x00, 0x00, 0x00, 0x00, 0x00, 0x00, 0x00, 0x00, 0x00, 0x00, 0x00,
     0x00, 0x00, 0x00, 0x00, 0x00, 0x00, 0x00, 0x00, 0x00, 0x00, 0x00, 0x00, 0x00, 0x00, 0x00, 0x00],
    [0x00, 0x00, 0x00, 0x00, 0x00, 0x00, 0x00, 0x00, 0x00, 0x00, 0x00, 0x00, 0x00, 0x00, 0x00, 0x00, 0x00, 0x00, 0x00, 0x00,
     0x00, 0x00, 0x00, 0x00, 0x00, 0x00, 0x00, 0x00, 0x00, 0x00, 0x00, 0x00, 0x00, 0x00, 0x00, 0x00, 0x00, 0x00, 0x00, 0x00,
     0x00, 0x00, 0x00, 0x00, 0x00, 0x00, 0x00, 0x00, 0x00, 0x00, 0x00, 0x00, 0x00, 0x00, 0x00, 0x00, 0x00, 0x00, 0x00, 0x00,
     0x00, 0x00, 0x00, 0x00, 0x00, 0x00, 0x00, 0x00, 0x00, 0x00, 0x00, 0x00, 0x00, 0x00, 0x00, 0x00, 0x00, 0x00, 0x00, 0x00,
     0x00, 0x00, 0x00, 0x00, 0x00, 0x00, 0x00, 0x00, 0x00, 0x00, 0x00, 0x00, 0x00, 0x00, 0x00, 0x00, 0x00, 0x00, 0x00, 0x00,
     0x00, 0x00, 0x00, 0x00, 0x00, 0x00, 0x00, 0x00, 0x00, 0x00, 0x00, 0x00, 0x00, 0x00, 0x00, 0x00]]"

lemma img_jetkvm_map_1_size: "length (concat img_jetkvm_map_1) = 1392"
  by (simp add: img_jetkvm_map_1_def)

definition img_jetkvm_map_2 :: "u8 list list" where
  "img_jetkvm_map_2 = [
    [0x00, 0x00, 0x00, 0x00, 0xd9, 0x4e, 0x1d, 0x94, 0xea, 0x55, 0x1f, 0xff, 0xd8, 0x4e, 0x1d, 0xf9, 0xd8, 0x4e, 0x1d, 0xfe,
     0xd8, 0x4e, 0x1d, 0xff, 0xd8, 0x4e, 0x1d, 0xff, 0xd8, 0x4e, 0x1d, 0xff, 0xd8, 0x4e, 0x1d, 0xff, 0xd8, 0x4e, 0x1d, 0xff,
     0xd8, 0x4e, 0x1d, 0xff, 0xd8, 0x4e, 0x1d, 0xff, 0xd8, 0x4e, 0x1d, 0xff, 0xd8, 0x4e, 0x1d, 0xff, 0xd8, 0x4e, 0x1d, 0xff,
     0xd8, 0x4e, 0x1d, 0xff, 0xd8, 0x4e, 0x1d, 0xff, 0xd8, 0x4e, 0x1d, 0xff, 0xd8, 0x4e, 0x1d, 0xff, 0xd8, 0x4e, 0x1d, 0xff,
     0xd8, 0x4e, 0x1d, 0xff, 0xd8, 0x4e, 0x1d, 0xff, 0xd8, 0x4e, 0x1d, 0xff, 0xd8, 0x4e, 0x1d, 0xff, 0xd8, 0x4e, 0x1d, 0xff,
     0xd8, 0x4e, 0x1d, 0xff, 0xd8, 0x4e, 0x1d, 0xff, 0xd8, 0x4e, 0x1d, 0xff, 0xd8, 0x4e, 0x1d, 0xf9],
    [0xe7, 0x53, 0x1f, 0xff, 0xd8, 0x4e, 0x1c, 0xb6, 0x00, 0x00, 0x00, 0x00, 0xff, 0x00, 0x00, 0x01, 0x00, 0x00, 0x00, 0x00,
     0x00, 0x00, 0x00, 0x00, 0x00, 0x00, 0x00, 0x00, 0x00, 0x00, 0x00, 0x00, 0x00, 0x00, 0x00, 0x00, 0x00, 0x00, 0x00, 0x00,
     0x00, 0x00, 0x00, 0x00, 0x00, 0x00, 0x00, 0x00, 0x00, 0x00, 0x00, 0x00, 0x00, 0x00, 0x00, 0x00, 0x00, 0x00, 0x00, 0x00,
     0x00, 0x00, 0x00, 0x00, 0x00, 0x00, 0x00, 0x00, 0x00, 0x00, 0x00, 0x00, 0x00, 0x00, 0x00, 0x00, 0x00, 0x00, 0x00, 0x00,
     0x00, 0x00, 0x00, 0x00, 0x00, 0x00, 0x00, 0x00, 0x00, 0x00, 0x00, 0x00, 0x00, 0x00, 0x00, 0x00, 0x00, 0x00, 0x00, 0x00,
     0x00, 0x00, 0x00, 0x00, 0x00, 0x00, 0x00, 0x00, 0x00, 0x00, 0x00, 0x00, 0x00, 0x00, 0x00, 0x00],
    [0x00, 0x00, 0x00, 0x00, 0x00, 0x00, 0x00, 0x00, 0x00, 0x00, 0x00, 0x00, 0x00, 0x00, 0x00, 0x00, 0x00, 0x00, 0x00, 0x00,
     0x00, 0x00, 0x00, 0x00, 0x00, 0x00, 0x00, 0x00, 0x00, 0x00, 0x00, 0x00, 0x00, 0x00, 0x00, 0x00, 0x00, 0x00, 0x00, 0x00,
     0x00, 0x00, 0x00, 0x00, 0x00, 0x00, 0x00, 0x00, 0x00, 0x00, 0x00, 0x00, 0x00, 0x00, 0x00, 0x00, 0x00, 0x00, 0x00, 0x00,
     0x00, 0x00, 0x00, 0x00, 0x00, 0x00, 0x00, 0x00, 0x00, 0x00, 0x00, 0x00, 0x00, 0x00, 0x00, 0x00, 0x00, 0x00, 0x00, 0x00,
     0x00, 0x00, 0x00, 0x00, 0x00, 0x00, 0x00, 0x00, 0x00, 0x00, 0x00, 0x00, 0x00, 0x00, 0x00, 0x00, 0x00, 0x00, 0x00, 0x00,
     0x00, 0x00, 0x00, 0x00, 0x00, 0x00, 0x00, 0x00, 0x00, 0x00, 0x00, 0x00, 0x00, 0x00, 0x00, 0x00],
    [0x00, 0x00, 0x00, 0x00, 0x00, 0x00, 0x00, 0x00, 0x00, 0x00, 0x00, 0x00, 0x00, 0x00, 0x00, 0x00, 0x00, 0x00, 0x00, 0x00,
     0x00, 0x00, 0x00, 0x00, 0x00, 0x00, 0x00, 0x00, 0x00, 0x00, 0x00, 0x00, 0x00, 0x00, 0x00, 0x00, 0x00, 0x00, 0x00, 0x00,
     0x00, 0x00, 0x00, 0x00, 0x00, 0x00, 0x00, 0x00, 0x00, 0x00, 0x00, 0x00, 0x00, 0x00, 0x00, 0x00, 0x00, 0x00, 0x00, 0x00,
     0x00, 0x00, 0x00, 0x00, 0x00, 0x00, 0x00, 0x00, 0x00, 0x00, 0x00, 0x00, 0x00, 0x00, 0x00, 0x00, 0x00, 0x00, 0x00, 0x00,
     0x00, 0x00, 0x00, 0x00, 0x00, 0x00, 0x00, 0x00, 0x00, 0x00, 0x00, 0x00, 0x00, 0x00, 0x00, 0x00, 0x00, 0x00, 0x00, 0x00,
     0x00, 0x00, 0x00, 0x00, 0x00, 0x00, 0x00, 0x00, 0x00, 0x00, 0x00, 0x00, 0x00, 0x00, 0x00, 0x00],
    [0xda, 0x4f, 0x1c, 0x37, 0xdb, 0x4f, 0x1d, 0xff, 0xd8, 0x4e, 0x1d, 0xfe, 0xd8, 0x4e, 0x1d, 0xfe, 0xd8, 0x4e, 0x1d, 0xff,
     0xd8, 0x4e, 0x1d, 0xff, 0xd8, 0x4e, 0x1d, 0xff, 0xd8, 0x4e, 0x1d, 0xff, 0xd8, 0x4e, 0x1d, 0xff, 0xd8, 0x4e, 0x1d, 0xff,
     0xd8, 0x4e, 0x1d, 0xff, 0xd8, 0x4e, 0x1d, 0xff, 0xd8, 0x4e, 0x1d, 0xff, 0xd8, 0x4e, 0x1d, 0xff, 0xd8, 0x4e, 0x1d, 0xff,
     0xd8, 0x4e, 0x1d, 0xff, 0xd8, 0x4e, 0x1d, 0xff, 0xd8, 0x4e, 0x1d, 0xff, 0xd8, 0x4e, 0x1d, 0xff, 0xd8, 0x4e, 0x1d, 0xff,
     0xd8, 0x4e, 0x1d, 0xff, 0xd8, 0x4e, 0x1d, 0xff, 0xd8, 0x4e, 0x1d, 0xff, 0xd8, 0x4e, 0x1d, 0xff, 0xd8, 0x4e, 0x1d, 0xff,
     0xd8, 0x4e, 0x1d, 0xff, 0xd8, 0x4e, 0x1d, 0xff, 0xd8, 0x4e, 0x1d, 0xff, 0xd8, 0x4e, 0x1d, 0xff],
    [0xd7, 0x4e, 0x1c, 0xfb, 0xe5, 0x52, 0x1f, 0xff, 0xda, 0x4d, 0x1d, 0x59, 0x00, 0x00, 0x00, 0x00, 0xbf, 0x40, 0x00, 0x04,
     0x00, 0x00, 0x00, 0x00, 0x00, 0x00, 0x00, 0x00, 0x00, 0x00, 0x00, 0x00, 0x00, 0x00, 0x00, 0x00, 0x00, 0x00, 0x00, 0x00,
     0x00, 0x00, 0x00, 0x00, 0x00, 0x00, 0x00, 0x00, 0x00, 0x00, 0x00, 0x00, 0x00, 0x00, 0x00, 0x00, 0x00, 0x00, 0x00, 0x00,
     0x00, 0x00, 0x00, 0x00, 0x00, 0x00, 0x00, 0x00, 0x00, 0x00, 0x00, 0x00, 0x00, 0x00, 0x00, 0x00, 0x00, 0x00, 0x00, 0x00,
     0x00, 0x00, 0x00, 0x00, 0x00, 0x00, 0x00, 0x00, 0x00, 0x00, 0x00, 0x00, 0x00, 0x00, 0x00, 0x00, 0x00, 0x00, 0x00, 0x00,
     0x00, 0x00, 0x00, 0x00, 0x00, 0x00, 0x00, 0x00, 0x00, 0x00, 0x00, 0x00, 0x00, 0x00, 0x00, 0x00],
    [0x00, 0x00, 0x00, 0x00, 0x00, 0x00, 0x00, 0x00, 0x00, 0x00, 0x00, 0x00, 0x00, 0x00, 0x00, 0x00, 0x00, 0x00, 0x00, 0x00,
     0x00, 0x00, 0x00, 0x00, 0x00, 0x00, 0x00, 0x00, 0x00, 0x00, 0x00, 0x00, 0x00, 0x00, 0x00, 0x00, 0x00, 0x00, 0x00, 0x00,
     0x00, 0x00, 0x00, 0x00, 0x00, 0x00, 0x00, 0x00, 0x00, 0x00, 0x00, 0x00, 0x00, 0x00, 0x00, 0x00, 0x00, 0x00, 0x00, 0x00,
     0x00, 0x00, 0x00, 0x00, 0x00, 0x00, 0x00, 0x00, 0x00, 0x00, 0x00, 0x00, 0x00, 0x00, 0x00, 0x00, 0x00, 0x00, 0x00, 0x00,
     0x00, 0x00, 0x00, 0x00, 0x00, 0x00, 0x00, 0x00, 0x00, 0x00, 0x00, 0x00, 0x00, 0x00, 0x00, 0x00, 0x00, 0x00, 0x00, 0x00,
     0x00, 0x00, 0x00, 0x00, 0x00, 0x00, 0x00, 0x00, 0x00, 0x00, 0x00, 0x00, 0x00, 0x00, 0x00, 0x00],
    [0x00, 0x00, 0x00, 0x00, 0x00, 0x00, 0x00, 0x00, 0x00, 0x00, 0x00, 0x00, 0x00, 0x00, 0x00, 0x00, 0x00, 0x00, 0x00, 0x00,
     0x00, 0x00, 0x00, 0x00, 0x00, 0x00, 0x00, 0x00, 0x00, 0x00, 0x00, 0x00, 0x00, 0x00, 0x00, 0x00, 0x00, 0x00, 0x00, 0x00,
     0x00, 0x00, 0x00, 0x00, 0x00, 0x00, 0x00, 0x00, 0x00, 0x00, 0x00, 0x00, 0x00, 0x00, 0x00, 0x00, 0x00, 0x00, 0x00, 0x00,
     0x00, 0x00, 0x00, 0x00, 0x00, 0x00, 0x00, 0x00, 0x00, 0x00, 0x00, 0x00, 0x00, 0x00, 0x00, 0x00, 0x00, 0x00, 0x00, 0x00,
     0x00, 0x00, 0x00, 0x00, 0x00, 0x00, 0x00, 0x00, 0x00, 0x00, 0x00, 0x00, 0x00, 0x00, 0x00, 0x00, 0x00, 0x00, 0x00, 0x00,
     0x00, 0x00, 0x00, 0x00, 0x00, 0x00, 0x00, 0x00, 0x00, 0x00, 0x00, 0x00, 0x00, 0x00, 0x00, 0x00],
    [0xd8, 0x4e, 0x1d, 0x9d, 0xe6, 0x53, 0x1f, 0xff, 0xd7, 0x4e, 0x1c, 0xfb, 0xd8, 0x4e, 0x1d, 0xff, 0xd8, 0x4e, 0x1d, 0xff,
     0xd8, 0x4e, 0x1d, 0xff, 0xd8, 0x4e, 0x1d, 0xff, 0xd8, 0x4e, 0x1d, 0xff, 0xd8, 0x4e, 0x1d, 0xff, 0xd8, 0x4e, 0x1d, 0xff,
     0xd8, 0x4e, 0x1d, 0xff, 0xd8, 0x4e, 0x1d, 0xff, 0xd8, 0x4e, 0x1d, 0xff, 0xd8, 0x4e, 0x1d, 0xff, 0xd8, 0x4f, 0x1f, 0xff,
     0xd8, 0x50, 0x21, 0xff, 0xd8, 0x50, 0x22, 0xff, 0xd8, 0x4f, 0x20, 0xff, 0xd8, 0x4e, 0x1d, 0xff, 0xd8, 0x4e, 0x1d, 0xff,
     0xd8, 0x4e, 0x1d, 0xff, 0xd8, 0x4e, 0x1d, 0xff, 0xd8, 0x4e, 0x1d, 0xff, 0xd8, 0x4e, 0x1d, 0xff, 0xd8, 0x4e, 0x1d, 0xff,
     0xd8, 0x4e, 0x1d, 0xff, 0xd8, 0x4e, 0x1d, 0xff, 0xd8, 0x4e, 0x1d, 0xff, 0xd8, 0x4e, 0x1d, 0xff],
    [0xd8, 0x4e, 0x1c, 0xfb, 0xe3, 0x52, 0x1e, 0xff, 0xd9, 0x4f, 0x1e, 0xb5, 0x00, 0x00, 0x00, 0x00, 0xff, 0x00, 0x00, 0x01,
     0x00, 0x00, 0x00, 0x00, 0x00, 0x00, 0x00, 0x00, 0x00, 0x00, 0x00, 0x00, 0x00, 0x00, 0x00, 0x00, 0x00, 0x00, 0x00, 0x00,
     0x00, 0x00, 0x00, 0x00, 0x00, 0x00, 0x00, 0x00, 0x00, 0x00, 0x00, 0x00, 0x00, 0x00, 0x00, 0x00, 0x00, 0x00, 0x00, 0x00,
     0x00, 0x00, 0x00, 0x00, 0xff, 0xff, 0xff, 0x01, 0x00, 0x00, 0x00, 0x00, 0x00, 0x00, 0x00, 0x00, 0x00, 0x00, 0x00, 0x00,
     0x00, 0x00, 0x00, 0x00, 0x00, 0x00, 0x00, 0x00, 0x00, 0x00, 0x00, 0x00, 0x00, 0x00, 0x00, 0x00, 0x00, 0x00, 0x00, 0x00,
     0x00, 0x00, 0x00, 0x00, 0x00, 0x00, 0x00, 0x00, 0x00, 0x00, 0x00, 0x00, 0x00, 0x00, 0x00, 0x00],
    [0x00, 0x00, 0x00, 0x00, 0x00, 0x00, 0x00, 0x00, 0x00, 0x00, 0x00, 0x00, 0x00, 0x00, 0x00, 0x00, 0x00, 0x00, 0x00, 0x00,
     0x00, 0x00, 0x00, 0x00, 0x00, 0x00, 0x00, 0x00, 0x00, 0x00, 0x00, 0x00, 0x00, 0x00, 0x00, 0x00, 0x00, 0x00, 0x00, 0x00,
     0x00, 0x00, 0x00, 0x00, 0x00, 0x00, 0x00, 0x00, 0x00, 0x00, 0x00, 0x00, 0xff, 0xff, 0xff, 0x01, 0x00, 0x00, 0x00, 0x00,
     0x00, 0x00, 0x00, 0x00, 0x00, 0x00, 0x00, 0x00, 0x00, 0x00, 0x00, 0x00, 0x00, 0x00, 0x00, 0x00, 0x00, 0x00, 0x00, 0x00,
     0x00, 0x00, 0x00, 0x00, 0x00, 0x00, 0x00, 0x00, 0x00, 0x00, 0x00, 0x00, 0x00, 0x00, 0x00, 0x00, 0x00, 0x00, 0x00, 0x00,
     0x00, 0x00, 0x00, 0x00, 0xff, 0xff, 0xff, 0x01, 0x00, 0x00, 0x00, 0x00, 0x00, 0x00, 0x00, 0x00],
    [0x00, 0x00, 0x00, 0x00, 0x00, 0x00, 0x00, 0x00, 0x00, 0x00, 0x00, 0x00, 0x00, 0x00, 0x00, 0x00, 0x00, 0x00, 0x00, 0x00,
     0x00, 0x00, 0x00, 0x00, 0x00, 0x00, 0x00, 0x00, 0x00, 0x00, 0x00, 0x00, 0x00, 0x00, 0x00, 0x00, 0x00, 0x00, 0x00, 0x00,
     0x00, 0x00, 0x00, 0x00, 0x00, 0x00, 0x00, 0x00, 0x00, 0x00, 0x00, 0x00, 0x00, 0x00, 0x00, 0x00, 0x00, 0x00, 0x00, 0x00,
     0x00, 0x00, 0x00, 0x00, 0x00, 0x00, 0x00, 0x00, 0x00, 0x00, 0x00, 0x00, 0x00, 0x00, 0x00, 0x00, 0x00, 0x00, 0x00, 0x00,
     0x00, 0x00, 0x00, 0x00, 0x00, 0x00, 0x00, 0x00, 0x00, 0x00, 0x00, 0x00, 0x00, 0x00, 0x00, 0x00, 0x00, 0x00, 0x00, 0x00,
     0x00, 0x00, 0x00, 0x00, 0x00, 0x00, 0x00, 0x00, 0x00, 0x00, 0x00, 0x00, 0x00, 0x00, 0x00, 0x00]]"

lemma img_jetkvm_map_2_size: "length (concat img_jetkvm_map_2) = 1392"
  by (simp add: img_jetkvm_map_2_def)

definition img_jetkvm_map_3 :: "u8 list list" where
  "img_jetkvm_map_3 = [
    [0xd9, 0x4f, 0x1d, 0xdc, 0xdc, 0x50, 0x1d, 0xff, 0xd8, 0x4e, 0x1d, 0xfe, 0xd8, 0x4e, 0x1d, 0xff, 0xd8, 0x4e, 0x1d, 0xff,
     0xd8, 0x4e, 0x1d, 0xff, 0xd8, 0x4e, 0x1d, 0xff, 0xd8, 0x4e, 0x1d, 0xff, 0xd8, 0x4e, 0x1d, 0xff, 0xd8, 0x4e, 0x1d, 0xff,
     0xd8, 0x4e, 0x1d, 0xff, 0xd8, 0x4e, 0x1c, 0xff, 0xd8, 0x51, 0x24, 0xff, 0xd9, 0x55, 0x2f, 0xff, 0xd8, 0x4e, 0x21, 0xff,
     0xd7, 0x48, 0x00, 0xff, 0xd7, 0x47, 0x00, 0xff, 0xd8, 0x4d, 0x1d, 0xff, 0xd8, 0x54, 0x2e, 0xff, 0xd8, 0x52, 0x26, 0xff,
     0xd8, 0x4e, 0x1c, 0xff, 0xd8, 0x4e, 0x1d, 0xff, 0xd8, 0x4e, 0x1d, 0xff, 0xd8, 0x4e, 0x1d, 0xff, 0xd8, 0x4e, 0x1d, 0xff,
     0xd8, 0x4e, 0x1d, 0xff, 0xd8, 0x4e, 0x1d, 0xff, 0xd8, 0x4e, 0x1d, 0xff, 0xd8, 0x4e, 0x1d, 0xff],
    [0xd8, 0x4e, 0x1d, 0xfe, 0xda, 0x4f, 0x1d, 0xff, 0xd9, 0x4f, 0x1d, 0xf0, 0xd9, 0x4d, 0x1a, 0x14, 0x00, 0x00, 0x00, 0x00,
     0xff, 0x00, 0x00, 0x01, 0x00, 0x00, 0x00, 0x00, 0x00, 0x00, 0x00, 0x00, 0x00, 0x00, 0x00, 0x00, 0x00, 0x00, 0x00, 0x00,
     0x00, 0x00, 0x00, 0x00, 0x00, 0x00, 0x00, 0x00, 0x00, 0x00, 0x00, 0x00, 0x00, 0x00, 0x00, 0x00, 0x00, 0x00, 0x00, 0x00,
     0x00, 0x00, 0x00, 0x00, 0x00, 0x00, 0x00, 0x00, 0x00, 0x00, 0x00, 0x00, 0x00, 0x00, 0x00, 0x00, 0x00, 0x00, 0x00, 0x00,
     0x00, 0x00, 0x00, 0x00, 0x00, 0x00, 0x00, 0x00, 0x00, 0x00, 0x00, 0x00, 0x00, 0x00, 0x00, 0x00, 0x00, 0x00, 0x00, 0x00,
     0x00, 0x00, 0x00, 0x00, 0x00, 0x00, 0x00, 0x00, 0x00, 0x00, 0x00, 0x00, 0x00, 0x00, 0x00, 0x00],
    [0x00, 0x00, 0x00, 0x00, 0x00, 0x00, 0x00, 0x00, 0x00, 0x00, 0x00, 0x00, 0x00, 0x00, 0x00, 0x00, 0x00, 0x00, 0x00, 0x00,
     0x00, 0x00, 0x00, 0x00, 0x00, 0x00, 0x00, 0x00, 0x00, 0x00, 0x00, 0x00, 0x00, 0x00, 0x00, 0x00, 0x00, 0x00, 0x00, 0x00,
     0x00, 0x00, 0x00, 0x00, 0x00, 0x00, 0x00, 0x00, 0x00, 0x00, 0x00, 0x00, 0x00, 0x00, 0x00, 0x00, 0x00, 0x00, 0x00, 0x00,
     0x00, 0x00, 0x00, 0x00, 0x00, 0x00, 0x00, 0x00, 0x00, 0x00, 0x00, 0x00, 0x00, 0x00, 0x00, 0x00, 0x00, 0x00, 0x00, 0x00,
     0xff, 0xff, 0xff, 0x02, 0xff, 0xff, 0xff, 0x01, 0x00, 0x00, 0x00, 0x00, 0x00, 0x00, 0x00, 0x00, 0x00, 0x00, 0x00, 0x00,
     0x00, 0x00, 0x00, 0x00, 0x00, 0x00, 0x00, 0x00, 0xff, 0xff, 0xff, 0x01, 0x00, 0x00, 0x00, 0x00],
    [0x00, 0x00, 0x00, 0x00, 0x00, 0x00, 0x00, 0x00, 0x00, 0x00, 0x00, 0x00, 0x00, 0x00, 0x00, 0x00, 0x00, 0x00, 0x00, 0x00,
     0x00, 0x00, 0x00, 0x00, 0x00, 0x00, 0x00, 0x00, 0xff, 0xff, 0xff, 0x01, 0x00, 0x00, 0x00, 0x00, 0x00, 0x00, 0x00, 0x00,
     0x00, 0x00, 0x00, 0x00, 0x00, 0x00, 0x00, 0x00, 0x00, 0x00, 0x00, 0x00, 0x00, 0x00, 0x00, 0x00, 0x00, 0x00, 0x00, 0x00,
     0xff, 0xff, 0xff, 0x01, 0x00, 0x00, 0x00, 0x00, 0x00, 0x00, 0x00, 0x00, 0x00, 0x00, 0x00, 0x00, 0x00, 0x00, 0x00, 0x00,
     0x00, 0x00, 0x00, 0x00, 0x00, 0x00, 0x00, 0x00, 0x00, 0x00, 0x00, 0x00, 0x00, 0x00, 0x00, 0x00, 0x00, 0x00, 0x00, 0x00,
     0xff, 0xff, 0xff, 0x01, 0x00, 0x00, 0x00, 0x00, 0x00, 0x00, 0x00, 0x00, 0x00, 0x00, 0x00, 0x00],
    [0xd8, 0x4e, 0x1d, 0xfc, 0xd8, 0x4e, 0x1d, 0xff, 0xd8, 0x4e, 0x1d, 0xff, 0xd8, 0x4e, 0x1d, 0xff, 0xd8, 0x4e, 0x1d, 0xff,
     0xd8, 0x4e, 0x1d, 0xff, 0xd8, 0x4e, 0x1d, 0xff, 0xd8, 0x4e, 0x1d, 0xff, 0xd8, 0x4e, 0x1d, 0xff, 0xd8, 0x4e, 0x1d, 0xff,
     0xd8, 0x4e, 0x1c, 0xff, 0xd8, 0x4f, 0x20, 0xff, 0xd7, 0x41, 0x00, 0xff, 0xd5, 0x20, 0x00, 0xff, 0xd8, 0x4a, 0x00, 0xff,
     0xda, 0x60, 0x42, 0xff, 0xda, 0x62, 0x46, 0xff, 0xd9, 0x4f, 0x13, 0xff, 0xd6, 0x23, 0x00, 0xff, 0xd6, 0x3c, 0x00, 0xff,
     0xd8, 0x50, 0x22, 0xff, 0xd8, 0x4e, 0x1c, 0xff, 0xd8, 0x4e, 0x1d, 0xff, 0xd8, 0x4e, 0x1d, 0xff, 0xd8, 0x4e, 0x1d, 0xff,
     0xd8, 0x4e, 0x1d, 0xff, 0xd8, 0x4e, 0x1d, 0xff, 0xd8, 0x4e, 0x1d, 0xff, 0xd8, 0x4e, 0x1d, 0xff],
    [0xd8, 0x4e, 0x1d, 0xfe, 0xd9, 0x4f, 0x1d, 0xff, 0xd8, 0x4e, 0x1d, 0xf9, 0xd9, 0x4d, 0x20, 0x28, 0x00, 0x00, 0x00, 0x00,
     0xff, 0x80, 0x00, 0x02, 0x00, 0x00, 0x00, 0x00, 0x00, 0x00, 0x00, 0x00, 0x00, 0x00, 0x00, 0x00, 0x00, 0x00, 0x00, 0x00,
     0x00, 0x00, 0x00, 0x00, 0x00, 0x00, 0x00, 0x00, 0x00, 0x00, 0x00, 0x00, 0x00, 0x00, 0x00, 0x00, 0x00, 0x00, 0x00, 0x00,
     0x00, 0x00, 0x00, 0x00, 0x00, 0x00, 0x00, 0x00, 0x00, 0x00, 0x00, 0x00, 0x00, 0x00, 0x00, 0x00, 0x00, 0x00, 0x00, 0x00,
     0x00, 0x00, 0x00, 0x00, 0x00, 0x00, 0x00, 0x00, 0x00, 0x00, 0x00, 0x00, 0x00, 0x00, 0x00, 0x00, 0x00, 0x00, 0x00, 0x00,
     0x00, 0x00, 0x00, 0x00, 0x00, 0x00, 0x00, 0x00, 0x00, 0x00, 0x00, 0x00, 0x00, 0x00, 0x00, 0x00],
    [0x00, 0x00, 0x00, 0x00, 0x00, 0x00, 0x00, 0x00, 0x00, 0x00, 0x00, 0x00, 0x00, 0x00, 0x00, 0x00, 0x00, 0x00, 0x00, 0x00,
     0xff, 0xff, 0xff, 0x02, 0xff, 0xff, 0xff, 0x02, 0x00, 0x00, 0x00, 0x00, 0x00, 0x00, 0x00, 0x00, 0x00, 0x00, 0x00, 0x00,
     0x00, 0x00, 0x00, 0x00, 0x00, 0x00, 0x00, 0x00, 0x00, 0x00, 0x00, 0x00, 0x00, 0x00, 0x00, 0x00, 0x00, 0x00, 0x00, 0x00,
     0x00, 0x00, 0x00, 0x00, 0x00, 0x00, 0x00, 0x00, 0x00, 0x00, 0x00, 0x00, 0x00, 0x00, 0x00, 0x00, 0xff, 0xff, 0xff, 0x02,
     0x00, 0x00, 0x00, 0x00, 0x00, 0x00, 0x00, 0x00, 0x00, 0x00, 0x00, 0x00, 0x00, 0x00, 0x00, 0x00, 0xff, 0xff, 0xff, 0x06,
     0x00, 0x00, 0x00, 0x00, 0x00, 0x00, 0x00, 0x00, 0x00, 0x00, 0x00, 0x00, 0x00, 0x00, 0x00, 0x00],
    [0x00, 0x00, 0x00, 0x00, 0x00, 0x00, 0x00, 0x00, 0x00, 0x00, 0x00, 0x00, 0x00, 0x00, 0x00, 0x00, 0x00, 0x00, 0x00, 0x00,
     0x00, 0x00, 0x00, 0x00, 0x00, 0x00, 0x00, 0x00, 0x00, 0x00, 0x00, 0x00, 0x00, 0x00, 0x00, 0x00, 0x00, 0x00, 0x00, 0x00,
     0xff, 0xff, 0xff, 0x01, 0x00, 0x00, 0x00, 0x00, 0x00, 0x00, 0x00, 0x00, 0x00, 0x00, 0x00, 0x00, 0x00, 0x00, 0x00, 0x00,
     0x00, 0x00, 0x00, 0x00, 0x00, 0x00, 0x00, 0x00, 0x00, 0x00, 0x00, 0x00, 0x00, 0x00, 0x00, 0x00, 0x00, 0x00, 0x00, 0x00,
     0x00, 0x00, 0x00, 0x00, 0x00, 0x00, 0x00, 0x00, 0x00, 0x00, 0x00, 0x00, 0x00, 0x00, 0x00, 0x00, 0x00, 0x00, 0x00, 0x00,
     0x00, 0x00, 0x00, 0x00, 0x00, 0x00, 0x00, 0x00, 0x00, 0x00, 0x00, 0x00, 0x00, 0x00, 0x00, 0x00],
    [0xd8, 0x4e, 0x1d, 0xff, 0xd8, 0x4e, 0x1d, 0xff, 0xd8, 0x4e, 0x1d, 0xff, 0xd8, 0x4e, 0x1d, 0xff, 0xd8, 0x4e, 0x1d, 0xff,
     0xd8, 0x4e, 0x1d, 0xff, 0xd8, 0x4e, 0x1d, 0xff, 0xd8, 0x4e, 0x1d, 0xff, 0xd8, 0x4e, 0x1d, 0xff, 0xd8, 0x4e, 0x1d, 0xff,
     0xd8, 0x50, 0x22, 0xff, 0xd7, 0x46, 0x00, 0xff, 0xde, 0x77, 0x5d, 0xff, 0xef, 0xc4, 0xbb, 0xff, 0xf7, 0xe1, 0xdb, 0xff,
     0xfc, 0xf4, 0xf2, 0xff, 0xfc, 0xf6, 0xf4, 0xff, 0xf8, 0xe4, 0xdf, 0xff, 0xf1, 0xcb, 0xc3, 0xff, 0xe0, 0x82, 0x6c, 0xff,
     0xd7, 0x42, 0x00, 0xff, 0xd8, 0x50, 0x23, 0xff, 0xd8, 0x4e, 0x1d, 0xff, 0xd8, 0x4e, 0x1d, 0xff, 0xd8, 0x4e, 0x1d, 0xff,
     0xd8, 0x4e, 0x1d, 0xff, 0xd8, 0x4e, 0x1d, 0xff, 0xd8, 0x4e, 0x1d, 0xff, 0xd8, 0x4e, 0x1d, 0xff],
    [0xd8, 0x4e, 0x1d, 0xfe, 0xd9, 0x4e, 0x1d, 0xff, 0xd7, 0x4e, 0x1d, 0xfa, 0xd5, 0x4d, 0x1e, 0x2b, 0x00, 0x00, 0x00, 0x00,
     0xff, 0x80, 0x00, 0x02, 0x00, 0x00, 0x00, 0x00, 0x00, 0x00, 0x00, 0x00, 0x00, 0x00, 0x00, 0x00, 0x00, 0x00, 0x00, 0x00,
     0x00, 0x00, 0x00, 0x00, 0x00, 0x00, 0x00, 0x00, 0x00, 0x00, 0x00, 0x00, 0xff, 0xff, 0xff, 0x03, 0x00, 0x00, 0x00, 0x00,
     0xff, 0xff, 0xff, 0x51, 0xff, 0xff, 0xff, 0xc6, 0xff, 0xff, 0xff, 0xb2, 0xff, 0xff, 0xff, 0x1f, 0x00, 0x00, 0x00, 0x00,
     0xff, 0xff, 0xff, 0x01, 0x00, 0x00, 0x00, 0x00, 0x00, 0x00, 0x00, 0x00, 0x00, 0x00, 0x00, 0x00, 0x00, 0x00, 0x00, 0x00,
     0x00, 0x00, 0x00, 0x00, 0x00, 0x00, 0x00, 0x00, 0x00, 0x00, 0x00, 0x00, 0x00, 0x00, 0x00, 0x00],
    [0x00, 0x00, 0x00, 0x00, 0x00, 0x00, 0x00, 0x00, 0x00, 0x00, 0x00, 0x00, 0x00, 0x00, 0x00, 0x00, 0x00, 0x00, 0x00, 0x00,
     0x00, 0x00, 0x00, 0x00, 0x00, 0x00, 0x00, 0x00, 0x00, 0x00, 0x00, 0x00, 0x00, 0x00, 0x00, 0x00, 0x00, 0x00, 0x00, 0x00,
     0x00, 0x00, 0x00, 0x00, 0xff, 0xff, 0xff, 0x07, 0xff, 0xff, 0xff, 0xa1, 0xff, 0xff, 0xff, 0xc9, 0xff, 0xff, 0xff, 0x70,
     0x00, 0x00, 0x00, 0x00, 0xff, 0xff, 0xff, 0x02, 0x00, 0x00, 0x00, 0x00, 0xff, 0xff, 0xff, 0x03, 0x00, 0x00, 0x00, 0x00,
     0xff, 0xff, 0xff, 0x24, 0xff, 0xff, 0xff, 0xb1, 0xff, 0xff, 0xff, 0xba, 0xff, 0xff, 0xff, 0xbc, 0xff, 0xff, 0xff, 0x39,
     0xff, 0xff, 0xff, 0x99, 0xff, 0xff, 0xff, 0xc6, 0xff, 0xff, 0xff, 0x93, 0x00, 0x00, 0x00, 0x00],
    [0x00, 0x00, 0x00, 0x00, 0x00, 0x00, 0x00, 0x00, 0x00, 0x00, 0x00, 0x00, 0x00, 0x00, 0x00, 0x00, 0x00, 0x00, 0x00, 0x00,
     0x00, 0x00, 0x00, 0x00, 0xff, 0xff, 0xff, 0x05, 0xff, 0xff, 0xff, 0x9f, 0xff, 0xff, 0xff, 0xc5, 0xff, 0xff, 0xff, 0x93,
     0x00, 0x00, 0x00, 0x00, 0xff, 0xff, 0xff, 0x0a, 0xff, 0xff, 0xff, 0xaf, 0xff, 0xff, 0xff, 0xb8, 0xff, 0xff, 0xff, 0xc4,
     0xff, 0xff, 0xff, 0x67, 0x00, 0x00, 0x00, 0x00, 0xff, 0xff, 0xff, 0x02, 0x00, 0x00, 0x00, 0x00, 0x00, 0x00, 0x00, 0x00,
     0x00, 0x00, 0x00, 0x00, 0x00, 0x00, 0x00, 0x00, 0xff, 0xff, 0xff, 0x01, 0x00, 0x00, 0x00, 0x00, 0xff, 0xff, 0xff, 0x08,
     0xff, 0xff, 0xff, 0xa5, 0xff, 0xff, 0xff, 0xba, 0xff, 0xff, 0xff, 0xc1, 0xff, 0xff, 0xff, 0x7f]]"

lemma img_jetkvm_map_3_size: "length (concat img_jetkvm_map_3) = 1392"
  by (simp add: img_jetkvm_map_3_def)

definition img_jetkvm_map_4 :: "u8 list list" where
  "img_jetkvm_map_4 = [
    [0xd8, 0x4e, 0x1d, 0xff, 0xd8, 0x4e, 0x1d, 0xff, 0xd8, 0x4e, 0x1d, 0xff, 0xd8, 0x4e, 0x1d, 0xff, 0xd8, 0x4e, 0x1d, 0xff,
     0xd8, 0x4e, 0x1d, 0xff, 0xd8, 0x4e, 0x1d, 0xff, 0xd8, 0x4e, 0x1d, 0xff, 0xd8, 0x4e, 0x1d, 0xff, 0xd8, 0x50, 0x22, 0xff,
     0xd7, 0x47, 0x00, 0xff, 0xdb, 0x64, 0x45, 0xff, 0xfd, 0xf6, 0xf4, 0xff, 0xff, 0xff, 0xff, 0xff, 0xff, 0xff, 0xff, 0xff,
     0xff, 0xff, 0xff, 0xff, 0xff, 0xff, 0xff, 0xff, 0xff, 0xff, 0xff, 0xff, 0xff, 0xff, 0xff, 0xff, 0xfe, 0xfa, 0xf8, 0xff,
     0xde, 0x73, 0x57, 0xff, 0xd7, 0x43, 0x00, 0xff, 0xd8, 0x51, 0x23, 0xff, 0xd8, 0x4e, 0x1d, 0xff, 0xd8, 0x4e, 0x1d, 0xff,
     0xd8, 0x4e, 0x1d, 0xff, 0xd8, 0x4e, 0x1d, 0xff, 0xd8, 0x4e, 0x1d, 0xff, 0xd8, 0x4e, 0x1d, 0xff],
    [0xd8, 0x4e, 0x1d, 0xfe, 0xd9, 0x4e, 0x1d, 0xff, 0xd7, 0x4e, 0x1d, 0xfa, 0xdb, 0x4f, 0x1e, 0x2a, 0x00, 0x00, 0x00, 0x00,
     0xff, 0x80, 0x00, 0x02, 0x00, 0x00, 0x00, 0x00, 0x00, 0x00, 0x00, 0x00, 0x00, 0x00, 0x00, 0x00, 0x00, 0x00, 0x00, 0x00,
     0x00, 0x00, 0x00, 0x00, 0x00, 0x00, 0x00, 0x00, 0x00, 0x00, 0x00, 0x00, 0xff, 0xff, 0xff, 0x04, 0x00, 0x00, 0x00, 0x00,
     0xff, 0xff, 0xff, 0x76, 0xff, 0xff, 0xff, 0xff, 0xff, 0xff, 0xff, 0xff, 0xff, 0xff, 0xff, 0x2c, 0x00, 0x00, 0x00, 0x00,
     0xff, 0xff, 0xff, 0x02, 0x00, 0x00, 0x00, 0x00, 0x00, 0x00, 0x00, 0x00, 0x00, 0x00, 0x00, 0x00, 0x00, 0x00, 0x00, 0x00,
     0x00, 0x00, 0x00, 0x00, 0x00, 0x00, 0x00, 0x00, 0x00, 0x00, 0x00, 0x00, 0x00, 0x00, 0x00, 0x00],
    [0x00, 0x00, 0x00, 0x00, 0x00, 0x00, 0x00, 0x00, 0x00, 0x00, 0x00, 0x00, 0x00, 0x00, 0x00, 0x00, 0xff, 0xff, 0xff, 0x07,
     0xff, 0xff, 0xff, 0x37, 0xff, 0xff, 0xff, 0x39, 0xff, 0xff, 0xff, 0x0c, 0x00, 0x00, 0x00, 0x00, 0xff, 0xff, 0xff, 0x01,
     0x00, 0x00, 0x00, 0x00, 0xff, 0xff, 0xff, 0x0a, 0xff, 0xff, 0xff, 0xea, 0xff, 0xff, 0xff, 0xff, 0xff, 0xff, 0xff, 0xa2,
     0x00, 0x00, 0x00, 0x00, 0xff, 0xff, 0xff, 0x02, 0xff, 0xff, 0xff, 0x03, 0x00, 0x00, 0x00, 0x00, 0xff, 0xff, 0xff, 0x12,
     0xff, 0xff, 0xff, 0xd7, 0xff, 0xff, 0xff, 0xff, 0xff, 0xff, 0xff, 0xff, 0xff, 0xff, 0xff, 0x88, 0x00, 0x00, 0x00, 0x00,
     0xff, 0xff, 0xff, 0xa7, 0xff, 0xff, 0xff, 0xff, 0xff, 0xff, 0xff, 0xff, 0xff, 0xff, 0xff, 0x30],
    [0x00, 0x00, 0x00, 0x00, 0xff, 0xff, 0xff, 0x02, 0x00, 0x00, 0x00, 0x00, 0x00, 0x00, 0x00, 0x00, 0xff, 0xff, 0xff, 0x03,
     0x00, 0x00, 0x00, 0x00, 0xff, 0xff, 0xff, 0x3c, 0xff, 0xff, 0xff, 0xff, 0xff, 0xff, 0xff, 0xff, 0xff, 0xff, 0xff, 0x86,
     0x00, 0x00, 0x00, 0x00, 0xff, 0xff, 0xff, 0x12, 0xff, 0xff, 0xff, 0xfd, 0xff, 0xff, 0xff, 0xff, 0xff, 0xff, 0xff, 0xff,
     0xff, 0xff, 0xff, 0xe3, 0xff, 0xff, 0xff, 0x09, 0x00, 0x00, 0x00, 0x00, 0xff, 0xff, 0xff, 0x01, 0x00, 0x00, 0x00, 0x00,
     0x00, 0x00, 0x00, 0x00, 0x00, 0x00, 0x00, 0x00, 0xff, 0xff, 0xff, 0x03, 0x00, 0x00, 0x00, 0x00, 0xff, 0xff, 0xff, 0x53,
     0xff, 0xff, 0xff, 0xff, 0xff, 0xff, 0xff, 0xff, 0xff, 0xff, 0xff, 0xff, 0xff, 0xff, 0xff, 0xb8],
    [0xd8, 0x4e, 0x1d, 0xff, 0xd8, 0x4e, 0x1d, 0xff, 0xd8, 0x4e, 0x1d, 0xff, 0xd8, 0x4e, 0x1d, 0xff, 0xd8, 0x4e, 0x1d, 0xff,
     0xd8, 0x4e, 0x1d, 0xff, 0xd8, 0x4e, 0x1d, 0xff, 0xd8, 0x4e, 0x1c, 0xff, 0xd8, 0x4f, 0x21, 0xff, 0xd9, 0x57, 0x32, 0xff,
     0xd8, 0x50, 0x23, 0xff, 0xd9, 0x56, 0x2a, 0xff, 0xf9, 0xe8, 0xe4, 0xff, 0xfe, 0xfb, 0xf9, 0xff, 0xf5, 0xd7, 0xd0, 0xff,
     0xed, 0xc2, 0xbc, 0xff, 0xee, 0xc4, 0xbd, 0xff, 0xf4, 0xd3, 0xcc, 0xff, 0xfd, 0xf6, 0xf5, 0xff, 0xfb, 0xf0, 0xed, 0xff,
     0xdd, 0x6a, 0x4a, 0xff, 0xd7, 0x4a, 0x12, 0xff, 0xd9, 0x58, 0x34, 0xff, 0xd8, 0x50, 0x23, 0xff, 0xd8, 0x4e, 0x1c, 0xff,
     0xd8, 0x4e, 0x1d, 0xff, 0xd8, 0x4e, 0x1d, 0xff, 0xd8, 0x4e, 0x1d, 0xff, 0xd8, 0x4e, 0x1d, 0xff],
    [0xd8, 0x4e, 0x1d, 0xfe, 0xd9, 0x4e, 0x1d, 0xff, 0xd7, 0x4e, 0x1d, 0xfa, 0xdb, 0x4f, 0x1e, 0x2a, 0x00, 0x00, 0x00, 0x00,
     0xff, 0x80, 0x00, 0x02, 0x00, 0x00, 0x00, 0x00, 0x00, 0x00, 0x00, 0x00, 0x00, 0x00, 0x00, 0x00, 0x00, 0x00, 0x00, 0x00,
     0x00, 0x00, 0x00, 0x00, 0x00, 0x00, 0x00, 0x00, 0x00, 0x00, 0x00, 0x00, 0xff, 0xff, 0xff, 0x04, 0x00, 0x00, 0x00, 0x00,
     0xff, 0xff, 0xff, 0x6f, 0xff, 0xff, 0xff, 0xff, 0xff, 0xff, 0xff, 0xf3, 0xff, 0xff, 0xff, 0x2a, 0x00, 0x00, 0x00, 0x00,
     0xff, 0xff, 0xff, 0x02, 0x00, 0x00, 0x00, 0x00, 0x00, 0x00, 0x00, 0x00, 0xff, 0xff, 0xff, 0x01, 0xff, 0xff, 0xff, 0x02,
     0xff, 0xff, 0xff, 0x03, 0xff, 0xff, 0xff, 0x03, 0xff, 0xff, 0xff, 0x01, 0x00, 0x00, 0x00, 0x00],
    [0x00, 0x00, 0x00, 0x00, 0x00, 0x00, 0x00, 0x00, 0xff, 0xff, 0xff, 0x02, 0x00, 0x00, 0x00, 0x00, 0xff, 0xff, 0xff, 0x1d,
     0xff, 0xff, 0xff, 0xf5, 0xff, 0xff, 0xff, 0xff, 0xff, 0xff, 0xff, 0x38, 0x00, 0x00, 0x00, 0x00, 0xff, 0xff, 0xff, 0x04,
     0x00, 0x00, 0x00, 0x00, 0xff, 0xff, 0xff, 0x09, 0xff, 0xff, 0xff, 0xdc, 0xff, 0xff, 0xff, 0xff, 0xff, 0xff, 0xff, 0x99,
     0x00, 0x00, 0x00, 0x00, 0xff, 0xff, 0xff, 0x05, 0x00, 0x00, 0x00, 0x00, 0xff, 0xff, 0xff, 0x01, 0xff, 0xff, 0xff, 0xbd,
     0xff, 0xff, 0xff, 0xff, 0xff, 0xff, 0xff, 0xff, 0xff, 0xff, 0xff, 0x7e, 0x00, 0x00, 0x00, 0x00, 0x00, 0x00, 0x00, 0x00,
     0xff, 0xff, 0xff, 0x42, 0xff, 0xff, 0xff, 0xfe, 0xff, 0xff, 0xff, 0xff, 0xff, 0xff, 0xff, 0x86],
    [0x00, 0x00, 0x00, 0x00, 0xff, 0xff, 0xff, 0x04, 0x00, 0x00, 0x00, 0x00, 0x00, 0x00, 0x00, 0x00, 0xff, 0xff, 0xff, 0x03,
     0x00, 0x00, 0x00, 0x00, 0xff, 0xff, 0xff, 0x91, 0xff, 0xff, 0xff, 0xff, 0xff, 0xff, 0xff, 0xf3, 0xff, 0xff, 0xff, 0x24,
     0x00, 0x00, 0x00, 0x00, 0xff, 0xff, 0xff, 0x10, 0xff, 0xff, 0xff, 0xee, 0xff, 0xff, 0xff, 0xff, 0xff, 0xff, 0xff, 0xf7,
     0xff, 0xff, 0xff, 0xff, 0xff, 0xff, 0xff, 0x5c, 0x00, 0x00, 0x00, 0x00, 0xff, 0xff, 0xff, 0x04, 0x00, 0x00, 0x00, 0x00,
     0x00, 0x00, 0x00, 0x00, 0x00, 0x00, 0x00, 0x00, 0xff, 0xff, 0xff, 0x02, 0x00, 0x00, 0x00, 0x00, 0xff, 0xff, 0xff, 0xb5,
     0xff, 0xff, 0xff, 0xff, 0xff, 0xff, 0xff, 0xf5, 0xff, 0xff, 0xff, 0xff, 0xff, 0xff, 0xff, 0xad],
    [0xd8, 0x4e, 0x1d, 0xff, 0xd8, 0x4e, 0x1d, 0xff, 0xd8, 0x4e, 0x1d, 0xff, 0xd8, 0x4e, 0x1d, 0xff, 0xd8, 0x4e, 0x1d, 0xff,
     0xd8, 0x4e, 0x1d, 0xff, 0xd8, 0x4e, 0x1c, 0xff, 0xd8, 0x4f, 0x20, 0xff, 0xd7, 0x49, 0x0d, 0xff, 0xd5, 0x15, 0x00, 0xff,
     0xd6, 0x3a, 0x00, 0xff, 0xd7, 0x48, 0x03, 0xff, 0xdb, 0x5b, 0x30, 0xff, 0xde, 0x74, 0x59, 0xff, 0xd7, 0x3c, 0x00, 0xff,
     0xd6, 0x26, 0x00, 0xff, 0xd6, 0x2a, 0x00, 0xff, 0xd7, 0x38, 0x00, 0xff, 0xdd, 0x6c, 0x4e, 0xff, 0xdc, 0x65, 0x42, 0xff,
     0xd7, 0x46, 0x02, 0xff, 0xd7, 0x3f, 0x00, 0xff, 0xd5, 0x05, 0x00, 0xff, 0xd7, 0x45, 0x00, 0xff, 0xd8, 0x50, 0x22, 0xff,
     0xd8, 0x4e, 0x1b, 0xff, 0xd8, 0x4e, 0x1d, 0xff, 0xd8, 0x4e, 0x1d, 0xff, 0xd8, 0x4e, 0x1d, 0xff],
    [0xd8, 0x4e, 0x1d, 0xfe, 0xd9, 0x4e, 0x1d, 0xff, 0xd7, 0x4e, 0x1d, 0xfa, 0xdb, 0x4f, 0x1e, 0x2a, 0x00, 0x00, 0x00, 0x00,
     0xff, 0x80, 0x00, 0x02, 0x00, 0x00, 0x00, 0x00, 0x00, 0x00, 0x00, 0x00, 0x00, 0x00, 0x00, 0x00, 0x00, 0x00, 0x00, 0x00,
     0x00, 0x00, 0x00, 0x00, 0x00, 0x00, 0x00, 0x00, 0x00, 0x00, 0x00, 0x00, 0xff, 0xff, 0xff, 0x04, 0x00, 0x00, 0x00, 0x00,
     0xff, 0xff, 0xff, 0x70, 0xff, 0xff, 0xff, 0xff, 0xff, 0xff, 0xff, 0xf6, 0xff, 0xff, 0xff, 0x2a, 0x00, 0x00, 0x00, 0x00,
     0xff, 0xff, 0xff, 0x02, 0x00, 0x00, 0x00, 0x00, 0xff, 0xff, 0xff, 0x03, 0x00, 0x00, 0x00, 0x00, 0x00, 0x00, 0x00, 0x00,
     0x00, 0x00, 0x00, 0x00, 0x00, 0x00, 0x00, 0x00, 0x00, 0x00, 0x00, 0x00, 0xff, 0xff, 0xff, 0x03],
    [0xff, 0xff, 0xff, 0x01, 0x00, 0x00, 0x00, 0x00, 0xff, 0xff, 0xff, 0x01, 0x00, 0x00, 0x00, 0x00, 0xff, 0xff, 0xff, 0x17,
     0xff, 0xff, 0xff, 0xf8, 0xff, 0xff, 0xff, 0xff, 0xff, 0xff, 0xff, 0x35, 0x00, 0x00, 0x00, 0x00, 0xff, 0xff, 0xff, 0x02,
     0x00, 0x00, 0x00, 0x00, 0xff, 0xff, 0xff, 0x09, 0xff, 0xff, 0xff, 0xdf, 0xff, 0xff, 0xff, 0xff, 0xff, 0xff, 0xff, 0x9a,
     0x00, 0x00, 0x00, 0x00, 0xff, 0xff, 0xff, 0x01, 0x00, 0x00, 0x00, 0x00, 0xff, 0xff, 0xff, 0xb2, 0xff, 0xff, 0xff, 0xff,
     0xff, 0xff, 0xff, 0xff, 0xff, 0xff, 0xff, 0x92, 0x00, 0x00, 0x00, 0x00, 0xff, 0xff, 0xff, 0x02, 0x00, 0x00, 0x00, 0x00,
     0xff, 0xff, 0xff, 0x02, 0xff, 0xff, 0xff, 0xd1, 0xff, 0xff, 0xff, 0xff, 0xff, 0xff, 0xff, 0xd3],
    [0xff, 0xff, 0xff, 0x04, 0x00, 0x00, 0x00, 0x00, 0xff, 0xff, 0xff, 0x01, 0xff, 0xff, 0xff, 0x01, 0x00, 0x00, 0x00, 0x00,
     0xff, 0xff, 0xff, 0x0e, 0xff, 0xff, 0xff, 0xdf, 0xff, 0xff, 0xff, 0xff, 0xff, 0xff, 0xff, 0xb2, 0x00, 0x00, 0x00, 0x00,
     0x00, 0x00, 0x00, 0x00, 0xff, 0xff, 0xff, 0x0e, 0xff, 0xff, 0xff, 0xf1, 0xff, 0xff, 0xff, 0xff, 0xff, 0xff, 0xff, 0xfe,
     0xff, 0xff, 0xff, 0xff, 0xff, 0xff, 0xff, 0xbe, 0x00, 0x00, 0x00, 0x00, 0xff, 0xff, 0xff, 0x01, 0x00, 0x00, 0x00, 0x00,
     0x00, 0x00, 0x00, 0x00, 0xff, 0xff, 0xff, 0x03, 0x00, 0x00, 0x00, 0x00, 0xff, 0xff, 0xff, 0x35, 0xff, 0xff, 0xff, 0xff,
     0xff, 0xff, 0xff, 0xff, 0xff, 0xff, 0xff, 0xfe, 0xff, 0xff, 0xff, 0xff, 0xff, 0xff, 0xff, 0xb0]]"

lemma img_jetkvm_map_4_size: "length (concat img_jetkvm_map_4) = 1392"
  by (simp add: img_jetkvm_map_4_def)

definition img_jetkvm_map_5 :: "u8 list list" where
  "img_jetkvm_map_5 = [
    [0xd8, 0x4e, 0x1d, 0xff, 0xd8, 0x4e, 0x1d, 0xff, 0xd8, 0x4e, 0x1d, 0xff, 0xd8, 0x4e, 0x1d, 0xff, 0xd8, 0x4e, 0x1d, 0xff,
     0xd8, 0x4e, 0x1d, 0xff, 0xd8, 0x50, 0x21, 0xff, 0xd7, 0x47, 0x02, 0xff, 0xdb, 0x64, 0x43, 0xff, 0xef, 0xc4, 0xbc, 0xff,
     0xe4, 0x95, 0x86, 0xff, 0xd7, 0x40, 0x00, 0xff, 0xd8, 0x4d, 0x1d, 0xff, 0xd7, 0x45, 0x00, 0xff, 0xd8, 0x4e, 0x23, 0xff,
     0xd5, 0x2e, 0x00, 0xff, 0xd5, 0x27, 0x00, 0xff, 0xd7, 0x4a, 0x19, 0xff, 0xd7, 0x48, 0x06, 0xff, 0xd7, 0x4a, 0x12, 0xff,
     0xd7, 0x42, 0x00, 0xff, 0xe2, 0x8a, 0x77, 0xff, 0xef, 0xc7, 0xc0, 0xff, 0xde, 0x74, 0x5b, 0xff, 0xd7, 0x42, 0x00, 0xff,
     0xd8, 0x50, 0x23, 0xff, 0xd8, 0x4e, 0x1d, 0xff, 0xd8, 0x4e, 0x1d, 0xff, 0xd8, 0x4e, 0x1d, 0xff],
    [0xd8, 0x4e, 0x1d, 0xfe, 0xd9, 0x4e, 0x1d, 0xff, 0xd7, 0x4e, 0x1d, 0xfa, 0xdb, 0x4f, 0x1e, 0x2a, 0x00, 0x00, 0x00, 0x00,
     0xff, 0x80, 0x00, 0x02, 0x00, 0x00, 0x00, 0x00, 0x00, 0x00, 0x00, 0x00, 0x00, 0x00, 0x00, 0x00, 0x00, 0x00, 0x00, 0x00,
     0x00, 0x00, 0x00, 0x00, 0x00, 0x00, 0x00, 0x00, 0x00, 0x00, 0x00, 0x00, 0xff, 0xff, 0xff, 0x04, 0x00, 0x00, 0x00, 0x00,
     0xff, 0xff, 0xff, 0x70, 0xff, 0xff, 0xff, 0xff, 0xff, 0xff, 0xff, 0xf6, 0xff, 0xff, 0xff, 0x2a, 0x00, 0x00, 0x00, 0x00,
     0xff, 0xff, 0xff, 0x02, 0xff, 0xff, 0xff, 0x03, 0x00, 0x00, 0x00, 0x00, 0xff, 0xff, 0xff, 0x01, 0xff, 0xff, 0xff, 0x35,
     0xff, 0xff, 0xff, 0x54, 0xff, 0xff, 0xff, 0x43, 0xff, 0xff, 0xff, 0x14, 0x00, 0x00, 0x00, 0x00],
    [0x00, 0x00, 0x00, 0x00, 0xff, 0xff, 0xff, 0x01, 0xff, 0xff, 0xff, 0x04, 0xff, 0xff, 0xff, 0x08, 0xff, 0xff, 0xff, 0x85,
     0xff, 0xff, 0xff, 0xff, 0xff, 0xff, 0xff, 0xfc, 0xff, 0xff, 0xff, 0x42, 0xff, 0xff, 0xff, 0x04, 0xff, 0xff, 0xff, 0x08,
     0x00, 0x00, 0x00, 0x00, 0xff, 0xff, 0xff, 0x0a, 0xff, 0xff, 0xff, 0xdf, 0xff, 0xff, 0xff, 0xff, 0xff, 0xff, 0xff, 0x9c,
     0x00, 0x00, 0x00, 0x00, 0x00, 0x00, 0x00, 0x00, 0xff, 0xff, 0xff, 0x99, 0xff, 0xff, 0xff, 0xff, 0xff, 0xff, 0xff, 0xff,
     0xff, 0xff, 0xff, 0xaf, 0x00, 0x00, 0x00, 0x00, 0x00, 0x00, 0x00, 0x00, 0xff, 0xff, 0xff, 0x02, 0xff, 0xff, 0xff, 0x03,
     0x00, 0x00, 0x00, 0x00, 0xff, 0xff, 0xff, 0x7e, 0xff, 0xff, 0xff, 0xff, 0xff, 0xff, 0xff, 0xff],
    [0xff, 0xff, 0xff, 0x3d, 0x00, 0x00, 0x00, 0x00, 0xff, 0xff, 0xff, 0x03, 0xff, 0xff, 0xff, 0x03, 0x00, 0x00, 0x00, 0x00,
     0xff, 0xff, 0xff, 0x4f, 0xff, 0xff, 0xff, 0xff, 0xff, 0xff, 0xff, 0xff, 0xff, 0xff, 0xff, 0x5a, 0x00, 0x00, 0x00, 0x00,
     0x00, 0x00, 0x00, 0x00, 0xff, 0xff, 0xff, 0x0e, 0xff, 0xff, 0xff, 0xf0, 0xff, 0xff, 0xff, 0xff, 0xff, 0xff, 0xff, 0xec,
     0xff, 0xff, 0xff, 0xfa, 0xff, 0xff, 0xff, 0xff, 0xff, 0xff, 0xff, 0x3c, 0x00, 0x00, 0x00, 0x00, 0xff, 0xff, 0xff, 0x03,
     0x00, 0x00, 0x00, 0x00, 0xff, 0xff, 0xff, 0x03, 0x00, 0x00, 0x00, 0x00, 0xff, 0xff, 0xff, 0x91, 0xff, 0xff, 0xff, 0xff,
     0xff, 0xff, 0xff, 0xef, 0xff, 0xff, 0xff, 0xeb, 0xff, 0xff, 0xff, 0xff, 0xff, 0xff, 0xff, 0xaf],
    [0xd8, 0x4e, 0x1d, 0xff, 0xd8, 0x4e, 0x1d, 0xff, 0xd8, 0x4e, 0x1d, 0xff, 0xd8, 0x4e, 0x1d, 0xff, 0xd8, 0x4e, 0x1d, 0xff,
     0xd8, 0x4e, 0x1d, 0xff, 0xd9, 0x55, 0x2e, 0xff, 0xd5, 0x20, 0x00, 0xff, 0xed, 0xbd, 0xb3, 0xff, 0xff, 0xff, 0xff, 0xff,
     0xfc, 0xf3, 0xf1, 0xff, 0xd9, 0x59, 0x34, 0xff, 0xd8, 0x4e, 0x1d, 0xff, 0xd7, 0x47, 0x03, 0xff, 0xdb, 0x5c, 0x30, 0xff,
     0xea, 0xb6, 0xad, 0xff, 0xec, 0xbd, 0xb6, 0xff, 0xdd, 0x6d, 0x4e, 0xff, 0xd7, 0x43, 0x00, 0xff, 0xd8, 0x54, 0x2e, 0xff,
     0xd8, 0x42, 0x00, 0xff, 0xf7, 0xde, 0xd7, 0xff, 0xff, 0xff, 0xff, 0xff, 0xf3, 0xd1, 0xc8, 0xff, 0xd6, 0x32, 0x00, 0xff,
     0xd8, 0x53, 0x2b, 0xff, 0xd8, 0x4e, 0x1e, 0xff, 0xd8, 0x4e, 0x1d, 0xff, 0xd8, 0x4e, 0x1d, 0xff],
    [0xd8, 0x4e, 0x1d, 0xfe, 0xd9, 0x4e, 0x1d, 0xff, 0xd7, 0x4e, 0x1d, 0xfa, 0xdb, 0x4f, 0x1e, 0x2a, 0x00, 0x00, 0x00, 0x00,
     0xff, 0x80, 0x00, 0x02, 0x00, 0x00, 0x00, 0x00, 0x00, 0x00, 0x00, 0x00, 0x00, 0x00, 0x00, 0x00, 0x00, 0x00, 0x00, 0x00,
     0x00, 0x00, 0x00, 0x00, 0x00, 0x00, 0x00, 0x00, 0x00, 0x00, 0x00, 0x00, 0xff, 0xff, 0xff, 0x04, 0x00, 0x00, 0x00, 0x00,
     0xff, 0xff, 0xff, 0x70, 0xff, 0xff, 0xff, 0xff, 0xff, 0xff, 0xff, 0xf6, 0xff, 0xff, 0xff, 0x2a, 0x00, 0x00, 0x00, 0x00,
     0xff, 0xff, 0xff, 0x05, 0x00, 0x00, 0x00, 0x00, 0xff, 0xff, 0xff, 0x3d, 0xff, 0xff, 0xff, 0xcf, 0xff, 0xff, 0xff, 0xff,
     0xff, 0xff, 0xff, 0xff, 0xff, 0xff, 0xff, 0xff, 0xff, 0xff, 0xff, 0xed, 0xff, 0xff, 0xff, 0x7e],
    [0x00, 0x00, 0x00, 0x00, 0x00, 0x00, 0x00, 0x00, 0xff, 0xff, 0xff, 0x36, 0xff, 0xff, 0xff, 0xf2, 0xff, 0xff, 0xff, 0xff,
     0xff, 0xff, 0xff, 0xff, 0xff, 0xff, 0xff, 0xfe, 0xff, 0xff, 0xff, 0xf2, 0xff, 0xff, 0xff, 0xfc, 0xff, 0xff, 0xff, 0x5f,
     0x00, 0x00, 0x00, 0x00, 0xff, 0xff, 0xff, 0x0d, 0xff, 0xff, 0xff, 0xdf, 0xff, 0xff, 0xff, 0xff, 0xff, 0xff, 0xff, 0x9c,
     0x00, 0x00, 0x00, 0x00, 0xff, 0xff, 0xff, 0x83, 0xff, 0xff, 0xff, 0xff, 0xff, 0xff, 0xff, 0xff, 0xff, 0xff, 0xff, 0xb4,
     0xff, 0xff, 0xff, 0x02, 0x00, 0x00, 0x00, 0x00, 0xff, 0xff, 0xff, 0x02, 0x00, 0x00, 0x00, 0x00, 0xff, 0xff, 0xff, 0x02,
     0x00, 0x00, 0x00, 0x00, 0xff, 0xff, 0xff, 0x28, 0xff, 0xff, 0xff, 0xf6, 0xff, 0xff, 0xff, 0xff],
    [0xff, 0xff, 0xff, 0x98, 0x00, 0x00, 0x00, 0x00, 0xff, 0xff, 0xff, 0x03, 0xff, 0xff, 0xff, 0x03, 0x00, 0x00, 0x00, 0x00,
     0xff, 0xff, 0xff, 0xa7, 0xff, 0xff, 0xff, 0xff, 0xff, 0xff, 0xff, 0xe3, 0xff, 0xff, 0xff, 0x10, 0x00, 0x00, 0x00, 0x00,
     0x00, 0x00, 0x00, 0x00, 0xff, 0xff, 0xff, 0x0e, 0xff, 0xff, 0xff, 0xee, 0xff, 0xff, 0xff, 0xff, 0xff, 0xff, 0xff, 0x97,
     0xff, 0xff, 0xff, 0xd1, 0xff, 0xff, 0xff, 0xff, 0xff, 0xff, 0xff, 0x9d, 0x00, 0x00, 0x00, 0x00, 0xff, 0xff, 0xff, 0x03,
     0xff, 0xff, 0xff, 0x01, 0x00, 0x00, 0x00, 0x00, 0xff, 0xff, 0xff, 0x17, 0xff, 0xff, 0xff, 0xe8, 0xff, 0xff, 0xff, 0xff,
     0xff, 0xff, 0xff, 0xa3, 0xff, 0xff, 0xff, 0xc3, 0xff, 0xff, 0xff, 0xff, 0xff, 0xff, 0xff, 0xae],
    [0xd8, 0x4e, 0x1d, 0xff, 0xd8, 0x4e, 0x1d, 0xff, 0xd8, 0x4e, 0x1d, 0xff, 0xd8, 0x4e, 0x1d, 0xff, 0xd8, 0x4e, 0x1d, 0xff,
     0xd8, 0x4f, 0x1f, 0xff, 0xd8, 0x4f, 0x23, 0xff, 0xd8, 0x47, 0x00, 0xff, 0xf7, 0xe0, 0xd9, 0xff, 0xff, 0xff, 0xff, 0xff,
     0xf6, 0xdd, 0xd7, 0xff, 0xd8, 0x4a, 0x00, 0xff, 0xd7, 0x4a, 0x17, 0xff, 0xdc, 0x65, 0x3f, 0xff, 0xf9, 0xe7, 0xe2, 0xff,
     0xff, 0xff, 0xff, 0xff, 0xff, 0xff, 0xff, 0xff, 0xfc, 0xf2, 0xee, 0xff, 0xde, 0x75, 0x5b, 0xff, 0xd7, 0x49, 0x14, 0xff,
     0xd6, 0x31, 0x00, 0xff, 0xf1, 0xcd, 0xc6, 0xff, 0xff, 0xff, 0xff, 0xff, 0xfc, 0xf3, 0xf1, 0xff, 0xda, 0x60, 0x40, 0xff,
     0xd7, 0x48, 0x04, 0xff, 0xd8, 0x50, 0x21, 0xff, 0xd8, 0x4e, 0x1d, 0xff, 0xd8, 0x4e, 0x1d, 0xff],
    [0xd8, 0x4e, 0x1d, 0xfe, 0xd9, 0x4e, 0x1d, 0xff, 0xd7, 0x4e, 0x1d, 0xfa, 0xdb, 0x4f, 0x1e, 0x2a, 0x00, 0x00, 0x00, 0x00,
     0xff, 0x80, 0x00, 0x02, 0x00, 0x00, 0x00, 0x00, 0x00, 0x00, 0x00, 0x00, 0x00, 0x00, 0x00, 0x00, 0x00, 0x00, 0x00, 0x00,
     0x00, 0x00, 0x00, 0x00, 0x00, 0x00, 0x00, 0x00, 0x00, 0x00, 0x00, 0x00, 0xff, 0xff, 0xff, 0x04, 0x00, 0x00, 0x00, 0x00,
     0xff, 0xff, 0xff, 0x70, 0xff, 0xff, 0xff, 0xff, 0xff, 0xff, 0xff, 0xf6, 0xff, 0xff, 0xff, 0x2a, 0x00, 0x00, 0x00, 0x00,
     0x00, 0x00, 0x00, 0x00, 0xff, 0xff, 0xff, 0x44, 0xff, 0xff, 0xff, 0xfe, 0xff, 0xff, 0xff, 0xff, 0xff, 0xff, 0xff, 0xe9,
     0xff, 0xff, 0xff, 0xb8, 0xff, 0xff, 0xff, 0xd8, 0xff, 0xff, 0xff, 0xff, 0xff, 0xff, 0xff, 0xff],
    [0xff, 0xff, 0xff, 0x94, 0x00, 0x00, 0x00, 0x00, 0xff, 0xff, 0xff, 0x3b, 0xff, 0xff, 0xff, 0xff, 0xff, 0xff, 0xff, 0xfe,
     0xff, 0xff, 0xff, 0xfe, 0xff, 0xff, 0xff, 0xff, 0xff, 0xff, 0xff, 0xff, 0xff, 0xff, 0xff, 0xff, 0xff, 0xff, 0xff, 0x65,
     0x00, 0x00, 0x00, 0x00, 0xff, 0xff, 0xff, 0x0d, 0xff, 0xff, 0xff, 0xdf, 0xff, 0xff, 0xff, 0xff, 0xff, 0xff, 0xff, 0x8e,
     0xff, 0xff, 0xff, 0x6a, 0xff, 0xff, 0xff, 0xff, 0xff, 0xff, 0xff, 0xff, 0xff, 0xff, 0xff, 0xbd, 0x00, 0x00, 0x00, 0x00,
     0x00, 0x00, 0x00, 0x00, 0xff, 0xff, 0xff, 0x02, 0x00, 0x00, 0x00, 0x00, 0x00, 0x00, 0x00, 0x00, 0x00, 0x00, 0x00, 0x00,
     0xff, 0xff, 0xff, 0x01, 0x00, 0x00, 0x00, 0x00, 0xff, 0xff, 0xff, 0xb8, 0xff, 0xff, 0xff, 0xff],
    [0xff, 0xff, 0xff, 0xe3, 0xff, 0xff, 0xff, 0x0e, 0x00, 0x00, 0x00, 0x00, 0x00, 0x00, 0x00, 0x00, 0xff, 0xff, 0xff, 0x1b,
     0xff, 0xff, 0xff, 0xec, 0xff, 0xff, 0xff, 0xff, 0xff, 0xff, 0xff, 0x8e, 0x00, 0x00, 0x00, 0x00, 0xff, 0xff, 0xff, 0x04,
     0x00, 0x00, 0x00, 0x00, 0xff, 0xff, 0xff, 0x0e, 0xff, 0xff, 0xff, 0xec, 0xff, 0xff, 0xff, 0xff, 0xff, 0xff, 0xff, 0x70,
     0xff, 0xff, 0xff, 0x82, 0xff, 0xff, 0xff, 0xff, 0xff, 0xff, 0xff, 0xf1, 0xff, 0xff, 0xff, 0x1d, 0x00, 0x00, 0x00, 0x00,
     0xff, 0xff, 0xff, 0x05, 0x00, 0x00, 0x00, 0x00, 0xff, 0xff, 0xff, 0x6e, 0xff, 0xff, 0xff, 0xff, 0xff, 0xff, 0xff, 0xfb,
     0xff, 0xff, 0xff, 0x3e, 0xff, 0xff, 0xff, 0xc7, 0xff, 0xff, 0xff, 0xff, 0xff, 0xff, 0xff, 0xae]]"

lemma img_jetkvm_map_5_size: "length (concat img_jetkvm_map_5) = 1392"
  by (simp add: img_jetkvm_map_5_def)

definition img_jetkvm_map_6 :: "u8 list list" where
  "img_jetkvm_map_6 = [
    [0xd8, 0x4e, 0x1d, 0xff, 0xd8, 0x4e, 0x1d, 0xff, 0xd8, 0x4e, 0x1d, 0xff, 0xd8, 0x4e, 0x1d, 0xff, 0xd8, 0x4e, 0x1d, 0xff,
     0xd8, 0x4f, 0x21, 0xff, 0xd8, 0x4a, 0x12, 0xff, 0xd9, 0x58, 0x30, 0xff, 0xfa, 0xec, 0xe8, 0xff, 0xff, 0xff, 0xff, 0xff,
     0xef, 0xc4, 0xbd, 0xff, 0xd6, 0x29, 0x00, 0xff, 0xd5, 0x2f, 0x00, 0xff, 0xea, 0xb4, 0xa9, 0xff, 0xff, 0xff, 0xff, 0xff,
     0xfe, 0xfc, 0xfc, 0xff, 0xfe, 0xfb, 0xfb, 0xff, 0xff, 0xff, 0xff, 0xff, 0xee, 0xc2, 0xbb, 0xff, 0xd6, 0x29, 0x00, 0xff,
     0xd5, 0x2a, 0x00, 0xff, 0xea, 0xb5, 0xac, 0xff, 0xff, 0xff, 0xff, 0xff, 0xfd, 0xfa, 0xf9, 0xff, 0xde, 0x72, 0x56, 0xff,
     0xd7, 0x43, 0x00, 0xff, 0xd8, 0x50, 0x23, 0xff, 0xd8, 0x4e, 0x1d, 0xff, 0xd8, 0x4e, 0x1d, 0xff],
    [0xd8, 0x4e, 0x1d, 0xfe, 0xd9, 0x4e, 0x1d, 0xff, 0xd7, 0x4e, 0x1d, 0xfa, 0xdb, 0x4f, 0x1e, 0x2a, 0x00, 0x00, 0x00, 0x00,
     0xff, 0x80, 0x00, 0x02, 0x00, 0x00, 0x00, 0x00, 0x00, 0x00, 0x00, 0x00, 0xff, 0xff, 0xff, 0x01, 0xff, 0xff, 0xff, 0x04,
     0xff, 0xff, 0xff, 0x04, 0x00, 0x00, 0x00, 0x00, 0x00, 0x00, 0x00, 0x00, 0xff, 0xff, 0xff, 0x04, 0x00, 0x00, 0x00, 0x00,
     0xff, 0xff, 0xff, 0x70, 0xff, 0xff, 0xff, 0xff, 0xff, 0xff, 0xff, 0xf6, 0xff, 0xff, 0xff, 0x2b, 0x00, 0x00, 0x00, 0x00,
     0xff, 0xff, 0xff, 0x0c, 0xff, 0xff, 0xff, 0xdc, 0xff, 0xff, 0xff, 0xff, 0xff, 0xff, 0xff, 0xb3, 0xff, 0xff, 0xff, 0x0f,
     0x00, 0x00, 0x00, 0x00, 0x00, 0x00, 0x00, 0x00, 0xff, 0xff, 0xff, 0x80, 0xff, 0xff, 0xff, 0xff],
    [0xff, 0xff, 0xff, 0xff, 0xff, 0xff, 0xff, 0x2f, 0xff, 0xff, 0xff, 0x04, 0xff, 0xff, 0xff, 0x30, 0xff, 0xff, 0xff, 0x6f,
     0xff, 0xff, 0xff, 0xff, 0xff, 0xff, 0xff, 0xfe, 0xff, 0xff, 0xff, 0x64, 0xff, 0xff, 0xff, 0x33, 0xff, 0xff, 0xff, 0x1a,
     0x00, 0x00, 0x00, 0x00, 0xff, 0xff, 0xff, 0x0a, 0xff, 0xff, 0xff, 0xe2, 0xff, 0xff, 0xff, 0xff, 0xff, 0xff, 0xff, 0xdb,
     0xff, 0xff, 0xff, 0xf6, 0xff, 0xff, 0xff, 0xff, 0xff, 0xff, 0xff, 0xff, 0xff, 0xff, 0xff, 0xbe, 0xff, 0xff, 0xff, 0x01,
     0x00, 0x00, 0x00, 0x00, 0xff, 0xff, 0xff, 0x01, 0x00, 0x00, 0x00, 0x00, 0x00, 0x00, 0x00, 0x00, 0x00, 0x00, 0x00, 0x00,
     0xff, 0xff, 0xff, 0x04, 0x00, 0x00, 0x00, 0x00, 0xff, 0xff, 0xff, 0x5e, 0xff, 0xff, 0xff, 0xff],
    [0xff, 0xff, 0xff, 0xff, 0xff, 0xff, 0xff, 0x54, 0x00, 0x00, 0x00, 0x00, 0x00, 0x00, 0x00, 0x00, 0xff, 0xff, 0xff, 0x63,
     0xff, 0xff, 0xff, 0xff, 0xff, 0xff, 0xff, 0xff, 0xff, 0xff, 0xff, 0x3c, 0x00, 0x00, 0x00, 0x00, 0xff, 0xff, 0xff, 0x04,
     0x00, 0x00, 0x00, 0x00, 0xff, 0xff, 0xff, 0x0e, 0xff, 0xff, 0xff, 0xec, 0xff, 0xff, 0xff, 0xff, 0xff, 0xff, 0xff, 0x75,
     0xff, 0xff, 0xff, 0x19, 0xff, 0xff, 0xff, 0xff, 0xff, 0xff, 0xff, 0xff, 0xff, 0xff, 0xff, 0x7e, 0x00, 0x00, 0x00, 0x00,
     0xff, 0xff, 0xff, 0x04, 0x00, 0x00, 0x00, 0x00, 0xff, 0xff, 0xff, 0xc7, 0xff, 0xff, 0xff, 0xff, 0xff, 0xff, 0xff, 0xbd,
     0x00, 0x00, 0x00, 0x00, 0xff, 0xff, 0xff, 0xd2, 0xff, 0xff, 0xff, 0xff, 0xff, 0xff, 0xff, 0xae],
    [0xd8, 0x4e, 0x1d, 0xff, 0xd8, 0x4e, 0x1d, 0xff, 0xd8, 0x4e, 0x1d, 0xff, 0xd8, 0x4e, 0x1d, 0xff, 0xd8, 0x4e, 0x1d, 0xff,
     0xd8, 0x4f, 0x21, 0xff, 0xd7, 0x4a, 0x0f, 0xff, 0xda, 0x5a, 0x35, 0xff, 0xfa, 0xed, 0xea, 0xff, 0xff, 0xff, 0xff, 0xff,
     0xef, 0xc7, 0xbf, 0xff, 0xd6, 0x30, 0x00, 0xff, 0xd5, 0x2e, 0x00, 0xff, 0xea, 0xb3, 0xa8, 0xff, 0xff, 0xff, 0xff, 0xff,
     0xfe, 0xfc, 0xfc, 0xff, 0xfe, 0xfb, 0xfb, 0xff, 0xff, 0xff, 0xff, 0xff, 0xed, 0xc0, 0xb7, 0xff, 0xd6, 0x2d, 0x00, 0xff,
     0xd5, 0x2d, 0x00, 0xff, 0xeb, 0xb6, 0xad, 0xff, 0xff, 0xff, 0xff, 0xff, 0xfd, 0xfa, 0xf9, 0xff, 0xde, 0x72, 0x56, 0xff,
     0xd7, 0x43, 0x00, 0xff, 0xd8, 0x50, 0x23, 0xff, 0xd8, 0x4e, 0x1d, 0xff, 0xd8, 0x4e, 0x1d, 0xff],
    [0xd8, 0x4e, 0x1d, 0xfe, 0xd9, 0x4e, 0x1d, 0xff, 0xd7, 0x4e, 0x1d, 0xfa, 0xdb, 0x4f, 0x1e, 0x2a, 0x00, 0x00, 0x00, 0x00,
     0xff, 0x80, 0x00, 0x02, 0x00, 0x00, 0x00, 0x00, 0xff, 0xff, 0xff, 0x01, 0x00, 0x00, 0x00, 0x00, 0x00, 0x00, 0x00, 0x00,
     0x00, 0x00, 0x00, 0x00, 0x00, 0x00, 0x00, 0x00, 0x00, 0x00, 0x00, 0x00, 0xff, 0xff, 0xff, 0x04, 0x00, 0x00, 0x00, 0x00,
     0xff, 0xff, 0xff, 0x70, 0xff, 0xff, 0xff, 0xff, 0xff, 0xff, 0xff, 0xf6, 0xff, 0xff, 0xff, 0x2e, 0x00, 0x00, 0x00, 0x00,
     0xff, 0xff, 0xff, 0x54, 0xff, 0xff, 0xff, 0xff, 0xff, 0xff, 0xff, 0xfc, 0xff, 0xff, 0xff, 0x36, 0x00, 0x00, 0x00, 0x00,
     0xff, 0xff, 0xff, 0x0c, 0xff, 0xff, 0xff, 0x01, 0xff, 0xff, 0xff, 0x0e, 0xff, 0xff, 0xff, 0xdf],
    [0xff, 0xff, 0xff, 0xff, 0xff, 0xff, 0xff, 0x7b, 0x00, 0x00, 0x00, 0x00, 0x00, 0x00, 0x00, 0x00, 0xff, 0xff, 0xff, 0x3f,
     0xff, 0xff, 0xff, 0xff, 0xff, 0xff, 0xff, 0xfe, 0xff, 0xff, 0xff, 0x30, 0x00, 0x00, 0x00, 0x00, 0x00, 0x00, 0x00, 0x00,
     0x00, 0x00, 0x00, 0x00, 0xff, 0xff, 0xff, 0x09, 0xff, 0xff, 0xff, 0xe3, 0xff, 0xff, 0xff, 0xff, 0xff, 0xff, 0xff, 0xff,
     0xff, 0xff, 0xff, 0xff, 0xff, 0xff, 0xff, 0xfb, 0xff, 0xff, 0xff, 0xfd, 0xff, 0xff, 0xff, 0xff, 0xff, 0xff, 0xff, 0x8d,
     0x00, 0x00, 0x00, 0x00, 0xff, 0xff, 0xff, 0x04, 0x00, 0x00, 0x00, 0x00, 0x00, 0x00, 0x00, 0x00, 0x00, 0x00, 0x00, 0x00,
     0xff, 0xff, 0xff, 0x01, 0x00, 0x00, 0x00, 0x00, 0xff, 0xff, 0xff, 0x16, 0xff, 0xff, 0xff, 0xe4],
    [0xff, 0xff, 0xff, 0xff, 0xff, 0xff, 0xff, 0xaa, 0x00, 0x00, 0x00, 0x00, 0x00, 0x00, 0x00, 0x00, 0xff, 0xff, 0xff, 0xba,
     0xff, 0xff, 0xff, 0xff, 0xff, 0xff, 0xff, 0xc6, 0x00, 0x00, 0x00, 0x00, 0x00, 0x00, 0x00, 0x00, 0xff, 0xff, 0xff, 0x01,
     0x00, 0x00, 0x00, 0x00, 0xff, 0xff, 0xff, 0x0e, 0xff, 0xff, 0xff, 0xec, 0xff, 0xff, 0xff, 0xff, 0xff, 0xff, 0xff, 0x80,
     0x00, 0x00, 0x00, 0x00, 0xff, 0xff, 0xff, 0xbc, 0xff, 0xff, 0xff, 0xff, 0xff, 0xff, 0xff, 0xd5, 0xff, 0xff, 0xff, 0x0b,
     0x00, 0x00, 0x00, 0x00, 0xff, 0xff, 0xff, 0x4b, 0xff, 0xff, 0xff, 0xff, 0xff, 0xff, 0xff, 0xff, 0xff, 0xff, 0xff, 0x54,
     0x00, 0x00, 0x00, 0x00, 0xff, 0xff, 0xff, 0xd5, 0xff, 0xff, 0xff, 0xff, 0xff, 0xff, 0xff, 0xae],
    [0xd8, 0x4e, 0x1d, 0xff, 0xd8, 0x4e, 0x1d, 0xff, 0xd8, 0x4e, 0x1d, 0xff, 0xd8, 0x4e, 0x1d, 0xff, 0xd8, 0x4e, 0x1d, 0xff,
     0xd8, 0x4f, 0x1f, 0xff, 0xd8, 0x4f, 0x24, 0xff, 0xd8, 0x45, 0x00, 0xff, 0xf6, 0xdd, 0xd7, 0xff, 0xff, 0xff, 0xff, 0xff,
     0xf6, 0xdc, 0xd5, 0xff, 0xd8, 0x41, 0x00, 0xff, 0xd8, 0x4f, 0x25, 0xff, 0xdb, 0x5d, 0x32, 0xff, 0xf9, 0xe7, 0xe2, 0xff,
     0xff, 0xff, 0xff, 0xff, 0xff, 0xff, 0xff, 0xff, 0xfc, 0xf1, 0xed, 0xff, 0xde, 0x71, 0x55, 0xff, 0xd7, 0x4d, 0x20, 0xff,
     0xd6, 0x29, 0x00, 0xff, 0xf1, 0xcb, 0xc4, 0xff, 0xff, 0xff, 0xff, 0xff, 0xfb, 0xf1, 0xee, 0xff, 0xda, 0x5d, 0x3b, 0xff,
     0xd7, 0x49, 0x09, 0xff, 0xd8, 0x4f, 0x21, 0xff, 0xd8, 0x4e, 0x1d, 0xff, 0xd8, 0x4e, 0x1d, 0xff],
    [0xd8, 0x4e, 0x1d, 0xfe, 0xd9, 0x4e, 0x1d, 0xff, 0xd7, 0x4e, 0x1d, 0xfa, 0xdb, 0x4f, 0x1e, 0x2a, 0x00, 0x00, 0x00, 0x00,
     0xff, 0x80, 0x00, 0x02, 0xff, 0xff, 0xff, 0x01, 0x00, 0x00, 0x00, 0x00, 0xff, 0xff, 0xff, 0x1a, 0xff, 0xff, 0xff, 0x62,
     0xff, 0xff, 0xff, 0x86, 0xff, 0xff, 0xff, 0x0a, 0x00, 0x00, 0x00, 0x00, 0xff, 0xff, 0xff, 0x05, 0x00, 0x00, 0x00, 0x00,
     0xff, 0xff, 0xff, 0x71, 0xff, 0xff, 0xff, 0xff, 0xff, 0xff, 0xff, 0xf6, 0xff, 0xff, 0xff, 0x2f, 0x00, 0x00, 0x00, 0x00,
     0xff, 0xff, 0xff, 0x7f, 0xff, 0xff, 0xff, 0xff, 0xff, 0xff, 0xff, 0xf9, 0xff, 0xff, 0xff, 0xec, 0xff, 0xff, 0xff, 0xed,
     0xff, 0xff, 0xff, 0xeb, 0xff, 0xff, 0xff, 0xec, 0xff, 0xff, 0xff, 0xec, 0xff, 0xff, 0xff, 0xfd],
    [0xff, 0xff, 0xff, 0xff, 0xff, 0xff, 0xff, 0xa2, 0x00, 0x00, 0x00, 0x00, 0x00, 0x00, 0x00, 0x00, 0xff, 0xff, 0xff, 0x48,
     0xff, 0xff, 0xff, 0xff, 0xff, 0xff, 0xff, 0xfe, 0xff, 0xff, 0xff, 0x3a, 0x00, 0x00, 0x00, 0x00, 0xff, 0xff, 0xff, 0x04,
     0x00, 0x00, 0x00, 0x00, 0xff, 0xff, 0xff, 0x0a, 0xff, 0xff, 0xff, 0xe3, 0xff, 0xff, 0xff, 0xff, 0xff, 0xff, 0xff, 0xff,
     0xff, 0xff, 0xff, 0xe5, 0xff, 0xff, 0xff, 0x32, 0xff, 0xff, 0xff, 0xcc, 0xff, 0xff, 0xff, 0xff, 0xff, 0xff, 0xff, 0xff,
     0xff, 0xff, 0xff, 0x50, 0x00, 0x00, 0x00, 0x00, 0xff, 0xff, 0xff, 0x04, 0x00, 0x00, 0x00, 0x00, 0x00, 0x00, 0x00, 0x00,
     0x00, 0x00, 0x00, 0x00, 0xff, 0xff, 0xff, 0x03, 0x00, 0x00, 0x00, 0x00, 0xff, 0xff, 0xff, 0x9a],
    [0xff, 0xff, 0xff, 0xff, 0xff, 0xff, 0xff, 0xef, 0xff, 0xff, 0xff, 0x11, 0xff, 0xff, 0xff, 0x24, 0xff, 0xff, 0xff, 0xf9,
     0xff, 0xff, 0xff, 0xff, 0xff, 0xff, 0xff, 0x72, 0x00, 0x00, 0x00, 0x00, 0xff, 0xff, 0xff, 0x04, 0xff, 0xff, 0xff, 0x01,
     0x00, 0x00, 0x00, 0x00, 0xff, 0xff, 0xff, 0x0e, 0xff, 0xff, 0xff, 0xec, 0xff, 0xff, 0xff, 0xff, 0xff, 0xff, 0xff, 0x82,
     0x00, 0x00, 0x00, 0x00, 0xff, 0xff, 0xff, 0x57, 0xff, 0xff, 0xff, 0xff, 0xff, 0xff, 0xff, 0xff, 0xff, 0xff, 0xff, 0x5d,
     0x00, 0x00, 0x00, 0x00, 0xff, 0xff, 0xff, 0xae, 0xff, 0xff, 0xff, 0xff, 0xff, 0xff, 0xff, 0xda, 0xff, 0xff, 0xff, 0x09,
     0xff, 0xff, 0xff, 0x03, 0xff, 0xff, 0xff, 0xd2, 0xff, 0xff, 0xff, 0xff, 0xff, 0xff, 0xff, 0xae]]"

lemma img_jetkvm_map_6_size: "length (concat img_jetkvm_map_6) = 1392"
  by (simp add: img_jetkvm_map_6_def)

definition img_jetkvm_map_7 :: "u8 list list" where
  "img_jetkvm_map_7 = [
    [0xd8, 0x4e, 0x1d, 0xff, 0xd8, 0x4e, 0x1d, 0xff, 0xd8, 0x4e, 0x1d, 0xff, 0xd8, 0x4e, 0x1d, 0xff, 0xd8, 0x4e, 0x1d, 0xff,
     0xd8, 0x4e, 0x1d, 0xff, 0xd9, 0x55, 0x2f, 0xff, 0xd5, 0x1e, 0x00, 0xff, 0xef, 0xc3, 0xba, 0xff, 0xff, 0xff, 0xff, 0xff,
     0xff, 0xfc, 0xfb, 0xff, 0xe0, 0x81, 0x6a, 0xff, 0xd6, 0x39, 0x00, 0xff, 0xd8, 0x4d, 0x1c, 0xff, 0xdc, 0x63, 0x3b, 0xff,
     0xeb, 0xb7, 0xae, 0xff, 0xec, 0xbe, 0xb7, 0xff, 0xde, 0x72, 0x55, 0xff, 0xd7, 0x46, 0x00, 0xff, 0xd7, 0x46, 0x01, 0xff,
     0xdc, 0x68, 0x46, 0xff, 0xfc, 0xf4, 0xf1, 0xff, 0xff, 0xff, 0xff, 0xff, 0xf4, 0xd5, 0xce, 0xff, 0xd7, 0x34, 0x00, 0xff,
     0xd8, 0x52, 0x2b, 0xff, 0xd8, 0x4e, 0x1e, 0xff, 0xd8, 0x4e, 0x1d, 0xff, 0xd8, 0x4e, 0x1d, 0xff],
    [0xd8, 0x4e, 0x1d, 0xfe, 0xd9, 0x4e, 0x1d, 0xff, 0xd7, 0x4e, 0x1d, 0xfa, 0xdb, 0x4f, 0x1e, 0x2a, 0x00, 0x00, 0x00, 0x00,
     0xff, 0x80, 0x00, 0x02, 0xff, 0xff, 0xff, 0x05, 0x00, 0x00, 0x00, 0x00, 0xff, 0xff, 0xff, 0x7e, 0xff, 0xff, 0xff, 0xff,
     0xff, 0xff, 0xff, 0xfe, 0xff, 0xff, 0xff, 0x0f, 0x00, 0x00, 0x00, 0x00, 0xff, 0xff, 0xff, 0x05, 0x00, 0x00, 0x00, 0x00,
     0xff, 0xff, 0xff, 0x6f, 0xff, 0xff, 0xff, 0xff, 0xff, 0xff, 0xff, 0xf6, 0xff, 0xff, 0xff, 0x30, 0x00, 0x00, 0x00, 0x00,
     0xff, 0xff, 0xff, 0x82, 0xff, 0xff, 0xff, 0xff, 0xff, 0xff, 0xff, 0xf8, 0xff, 0xff, 0xff, 0xdd, 0xff, 0xff, 0xff, 0xdb,
     0xff, 0xff, 0xff, 0xda, 0xff, 0xff, 0xff, 0xda, 0xff, 0xff, 0xff, 0xdc, 0xff, 0xff, 0xff, 0xce],
    [0xff, 0xff, 0xff, 0xdf, 0xff, 0xff, 0xff, 0x87, 0x00, 0x00, 0x00, 0x00, 0x00, 0x00, 0x00, 0x00, 0xff, 0xff, 0xff, 0x47,
     0xff, 0xff, 0xff, 0xff, 0xff, 0xff, 0xff, 0xfe, 0xff, 0xff, 0xff, 0x39, 0x00, 0x00, 0x00, 0x00, 0xff, 0xff, 0xff, 0x03,
     0x00, 0x00, 0x00, 0x00, 0xff, 0xff, 0xff, 0x0a, 0xff, 0xff, 0xff, 0xe2, 0xff, 0xff, 0xff, 0xff, 0xff, 0xff, 0xff, 0xf1,
     0xff, 0xff, 0xff, 0x3e, 0x00, 0x00, 0x00, 0x00, 0xff, 0xff, 0xff, 0x34, 0xff, 0xff, 0xff, 0xf9, 0xff, 0xff, 0xff, 0xff,
     0xff, 0xff, 0xff, 0xea, 0xff, 0xff, 0xff, 0x1c, 0x00, 0x00, 0x00, 0x00, 0xff, 0xff, 0xff, 0x03, 0x00, 0x00, 0x00, 0x00,
     0x00, 0x00, 0x00, 0x00, 0xff, 0xff, 0xff, 0x03, 0x00, 0x00, 0x00, 0x00, 0xff, 0xff, 0xff, 0x44],
    [0xff, 0xff, 0xff, 0xff, 0xff, 0xff, 0xff, 0xff, 0xff, 0xff, 0xff, 0x53, 0xff, 0xff, 0xff, 0x66, 0xff, 0xff, 0xff, 0xff,
     0xff, 0xff, 0xff, 0xee, 0xff, 0xff, 0xff, 0x1d, 0x00, 0x00, 0x00, 0x00, 0xff, 0xff, 0xff, 0x02, 0xff, 0xff, 0xff, 0x01,
     0x00, 0x00, 0x00, 0x00, 0xff, 0xff, 0xff, 0x0e, 0xff, 0xff, 0xff, 0xec, 0xff, 0xff, 0xff, 0xff, 0xff, 0xff, 0xff, 0x7f,
     0x00, 0x00, 0x00, 0x00, 0xff, 0xff, 0xff, 0x0c, 0xff, 0xff, 0xff, 0xd5, 0xff, 0xff, 0xff, 0xff, 0xff, 0xff, 0xff, 0xb1,
     0xff, 0xff, 0xff, 0x23, 0xff, 0xff, 0xff, 0xf6, 0xff, 0xff, 0xff, 0xff, 0xff, 0xff, 0xff, 0x79, 0x00, 0x00, 0x00, 0x00,
     0xff, 0xff, 0xff, 0x09, 0xff, 0xff, 0xff, 0xd2, 0xff, 0xff, 0xff, 0xff, 0xff, 0xff, 0xff, 0xae],
    [0xd8, 0x4e, 0x1d, 0xff, 0xd8, 0x4e, 0x1d, 0xff, 0xd8, 0x4e, 0x1d, 0xff, 0xd8, 0x4e, 0x1d, 0xff, 0xd8, 0x4e, 0x1d, 0xff,
     0xd8, 0x4e, 0x1d, 0xff, 0xd8, 0x51, 0x25, 0xff, 0xd6, 0x40, 0x00, 0xff, 0xdf, 0x7a, 0x62, 0xff, 0xfe, 0xfa, 0xf8, 0xff,
     0xff, 0xff, 0xff, 0xff, 0xf7, 0xe2, 0xdd, 0xff, 0xd9, 0x4a, 0x00, 0xff, 0xd6, 0x3a, 0x00, 0xff, 0xd8, 0x4f, 0x25, 0xff,
     0xd5, 0x2c, 0x00, 0xff, 0xd5, 0x27, 0x00, 0xff, 0xd7, 0x4c, 0x1d, 0xff, 0xd7, 0x42, 0x00, 0xff, 0xd7, 0x34, 0x00, 0xff,
     0xf4, 0xd5, 0xcd, 0xff, 0xff, 0xff, 0xff, 0xff, 0xff, 0xff, 0xff, 0xff, 0xe5, 0x9c, 0x8d, 0xff, 0xd5, 0x2e, 0x00, 0xff,
     0xd8, 0x53, 0x2a, 0xff, 0xd8, 0x4e, 0x1d, 0xff, 0xd8, 0x4e, 0x1d, 0xff, 0xd8, 0x4e, 0x1d, 0xff],
    [0xd8, 0x4e, 0x1d, 0xfe, 0xd9, 0x4e, 0x1d, 0xff, 0xd7, 0x4e, 0x1d, 0xfa, 0xdb, 0x4f, 0x1e, 0x2a, 0x00, 0x00, 0x00, 0x00,
     0xff, 0x80, 0x00, 0x02, 0xff, 0xff, 0xff, 0x05, 0x00, 0x00, 0x00, 0x00, 0xff, 0xff, 0xff, 0x79, 0xff, 0xff, 0xff, 0xff,
     0xff, 0xff, 0xff, 0xee, 0xff, 0xff, 0xff, 0x18, 0x00, 0x00, 0x00, 0x00, 0xff, 0xff, 0xff, 0x08, 0x00, 0x00, 0x00, 0x00,
     0xff, 0xff, 0xff, 0x7b, 0xff, 0xff, 0xff, 0xff, 0xff, 0xff, 0xff, 0xf5, 0xff, 0xff, 0xff, 0x2a, 0x00, 0x00, 0x00, 0x00,
     0xff, 0xff, 0xff, 0x6a, 0xff, 0xff, 0xff, 0xff, 0xff, 0xff, 0xff, 0xf4, 0xff, 0xff, 0xff, 0x1e, 0x00, 0x00, 0x00, 0x00,
     0xff, 0xff, 0xff, 0x0a, 0xff, 0xff, 0xff, 0x08, 0x00, 0x00, 0x00, 0x00, 0xff, 0xff, 0xff, 0x1f],
    [0xff, 0xff, 0xff, 0x0e, 0x00, 0x00, 0x00, 0x00, 0xff, 0xff, 0xff, 0x03, 0x00, 0x00, 0x00, 0x00, 0xff, 0xff, 0xff, 0x46,
     0xff, 0xff, 0xff, 0xff, 0xff, 0xff, 0xff, 0xfd, 0xff, 0xff, 0xff, 0x35, 0x00, 0x00, 0x00, 0x00, 0xff, 0xff, 0xff, 0x04,
     0x00, 0x00, 0x00, 0x00, 0xff, 0xff, 0xff, 0x0a, 0xff, 0xff, 0xff, 0xdf, 0xff, 0xff, 0xff, 0xff, 0xff, 0xff, 0xff, 0x9a,
     0x00, 0x00, 0x00, 0x00, 0xff, 0xff, 0xff, 0x09, 0x00, 0x00, 0x00, 0x00, 0xff, 0xff, 0xff, 0x6e, 0xff, 0xff, 0xff, 0xff,
     0xff, 0xff, 0xff, 0xff, 0xff, 0xff, 0xff, 0xbc, 0x00, 0x00, 0x00, 0x00, 0x00, 0x00, 0x00, 0x00, 0xff, 0xff, 0xff, 0x01,
     0x00, 0x00, 0x00, 0x00, 0xff, 0xff, 0xff, 0x01, 0x00, 0x00, 0x00, 0x00, 0xff, 0xff, 0xff, 0x03],
    [0xff, 0xff, 0xff, 0xd4, 0xff, 0xff, 0xff, 0xff, 0xff, 0xff, 0xff, 0xc0, 0xff, 0xff, 0xff, 0xc9, 0xff, 0xff, 0xff, 0xff,
     0xff, 0xff, 0xff, 0xaa, 0x00, 0x00, 0x00, 0x00, 0xff, 0xff, 0xff, 0x02, 0x00, 0x00, 0x00, 0x00, 0xff, 0xff, 0xff, 0x01,
     0x00, 0x00, 0x00, 0x00, 0xff, 0xff, 0xff, 0x0e, 0xff, 0xff, 0xff, 0xec, 0xff, 0xff, 0xff, 0xff, 0xff, 0xff, 0xff, 0x7f,
     0x00, 0x00, 0x00, 0x00, 0x00, 0x00, 0x00, 0x00, 0xff, 0xff, 0xff, 0x7a, 0xff, 0xff, 0xff, 0xff, 0xff, 0xff, 0xff, 0xef,
     0xff, 0xff, 0xff, 0xc2, 0xff, 0xff, 0xff, 0xff, 0xff, 0xff, 0xff, 0xef, 0xff, 0xff, 0xff, 0x21, 0x00, 0x00, 0x00, 0x00,
     0xff, 0xff, 0xff, 0x07, 0xff, 0xff, 0xff, 0xd2, 0xff, 0xff, 0xff, 0xff, 0xff, 0xff, 0xff, 0xae],
    [0xd8, 0x4e, 0x1d, 0xff, 0xd8, 0x4e, 0x1d, 0xff, 0xd8, 0x4e, 0x1d, 0xff, 0xd8, 0x4e, 0x1d, 0xff, 0xd8, 0x4e, 0x1d, 0xff,
     0xd8, 0x4e, 0x1d, 0xff, 0xd8, 0x4e, 0x1d, 0xff, 0xd8, 0x53, 0x2b, 0xff, 0xd6, 0x2c, 0x00, 0xff, 0xee, 0xc0, 0xb6, 0xff,
     0xff, 0xff, 0xff, 0xff, 0xff, 0xff, 0xff, 0xff, 0xf8, 0xe3, 0xde, 0xff, 0xe0, 0x81, 0x6a, 0xff, 0xd7, 0x3b, 0x00, 0xff,
     0xd6, 0x2a, 0x00, 0xff, 0xd6, 0x2a, 0x00, 0xff, 0xd7, 0x35, 0x00, 0xff, 0xde, 0x75, 0x59, 0xff, 0xf4, 0xd8, 0xd1, 0xff,
     0xff, 0xff, 0xff, 0xff, 0xff, 0xff, 0xff, 0xff, 0xf4, 0xd6, 0xcf, 0xff, 0xd7, 0x38, 0x00, 0xff, 0xd8, 0x52, 0x28, 0xff,
     0xd8, 0x4e, 0x1e, 0xff, 0xd8, 0x4e, 0x1d, 0xff, 0xd8, 0x4e, 0x1d, 0xff, 0xd8, 0x4e, 0x1d, 0xff],
    [0xd8, 0x4e, 0x1d, 0xfe, 0xd9, 0x4e, 0x1d, 0xff, 0xd7, 0x4e, 0x1d, 0xfa, 0xdb, 0x4f, 0x1e, 0x2a, 0x00, 0x00, 0x00, 0x00,
     0xff, 0x80, 0x00, 0x02, 0xff, 0xff, 0xff, 0x03, 0x00, 0x00, 0x00, 0x00, 0xff, 0xff, 0xff, 0x4d, 0xff, 0xff, 0xff, 0xff,
     0xff, 0xff, 0xff, 0xff, 0xff, 0xff, 0xff, 0x8a, 0x00, 0x00, 0x00, 0x00, 0x00, 0x00, 0x00, 0x00, 0xff, 0xff, 0xff, 0x1a,
     0xff, 0xff, 0xff, 0xd7, 0xff, 0xff, 0xff, 0xff, 0xff, 0xff, 0xff, 0xd7, 0xff, 0xff, 0xff, 0x06, 0x00, 0x00, 0x00, 0x00,
     0xff, 0xff, 0xff, 0x29, 0xff, 0xff, 0xff, 0xf8, 0xff, 0xff, 0xff, 0xff, 0xff, 0xff, 0xff, 0x8d, 0x00, 0x00, 0x00, 0x00,
     0x00, 0x00, 0x00, 0x00, 0x00, 0x00, 0x00, 0x00, 0xff, 0xff, 0xff, 0x11, 0xff, 0xff, 0xff, 0xd8],
    [0xff, 0xff, 0xff, 0xe4, 0xff, 0xff, 0xff, 0x49, 0x00, 0x00, 0x00, 0x00, 0x00, 0x00, 0x00, 0x00, 0xff, 0xff, 0xff, 0x49,
     0xff, 0xff, 0xff, 0xff, 0xff, 0xff, 0xff, 0xff, 0xff, 0xff, 0xff, 0x49, 0x00, 0x00, 0x00, 0x00, 0xff, 0xff, 0xff, 0x01,
     0x00, 0x00, 0x00, 0x00, 0xff, 0xff, 0xff, 0x09, 0xff, 0xff, 0xff, 0xdf, 0xff, 0xff, 0xff, 0xff, 0xff, 0xff, 0xff, 0x9a,
     0x00, 0x00, 0x00, 0x00, 0xff, 0xff, 0xff, 0x03, 0xff, 0xff, 0xff, 0x02, 0x00, 0x00, 0x00, 0x00, 0xff, 0xff, 0xff, 0xaf,
     0xff, 0xff, 0xff, 0xff, 0xff, 0xff, 0xff, 0xff, 0xff, 0xff, 0xff, 0x7f, 0x00, 0x00, 0x00, 0x00, 0xff, 0xff, 0xff, 0x03,
     0x00, 0x00, 0x00, 0x00, 0x00, 0x00, 0x00, 0x00, 0xff, 0xff, 0xff, 0x03, 0x00, 0x00, 0x00, 0x00],
    [0xff, 0xff, 0xff, 0x80, 0xff, 0xff, 0xff, 0xff, 0xff, 0xff, 0xff, 0xfe, 0xff, 0xff, 0xff, 0xff, 0xff, 0xff, 0xff, 0xff,
     0xff, 0xff, 0xff, 0x50, 0x00, 0x00, 0x00, 0x00, 0xff, 0xff, 0xff, 0x03, 0x00, 0x00, 0x00, 0x00, 0xff, 0xff, 0xff, 0x01,
     0x00, 0x00, 0x00, 0x00, 0xff, 0xff, 0xff, 0x0e, 0xff, 0xff, 0xff, 0xec, 0xff, 0xff, 0xff, 0xff, 0xff, 0xff, 0xff, 0x7e,
     0x00, 0x00, 0x00, 0x00, 0x00, 0x00, 0x00, 0x00, 0xff, 0xff, 0xff, 0x1b, 0xff, 0xff, 0xff, 0xf4, 0xff, 0xff, 0xff, 0xff,
     0xff, 0xff, 0xff, 0xff, 0xff, 0xff, 0xff, 0xff, 0xff, 0xff, 0xff, 0xa1, 0x00, 0x00, 0x00, 0x00, 0xff, 0xff, 0xff, 0x01,
     0xff, 0xff, 0xff, 0x05, 0xff, 0xff, 0xff, 0xd1, 0xff, 0xff, 0xff, 0xff, 0xff, 0xff, 0xff, 0xad]]"

lemma img_jetkvm_map_7_size: "length (concat img_jetkvm_map_7) = 1392"
  by (simp add: img_jetkvm_map_7_def)

definition img_jetkvm_map_8 :: "u8 list list" where
  "img_jetkvm_map_8 = [
    [0xd8, 0x4e, 0x1d, 0xff, 0xd8, 0x4e, 0x1d, 0xff, 0xd8, 0x4e, 0x1d, 0xff, 0xd8, 0x4e, 0x1d, 0xff, 0xd8, 0x4e, 0x1d, 0xff,
     0xd8, 0x4e, 0x1d, 0xff, 0xd8, 0x4e, 0x1d, 0xff, 0xd8, 0x4f, 0x20, 0xff, 0xd8, 0x4e, 0x1f, 0xff, 0xd8, 0x46, 0x00, 0xff,
     0xf4, 0xd6, 0xcf, 0xff, 0xff, 0xff, 0xff, 0xff, 0xff, 0xff, 0xff, 0xff, 0xfe, 0xfc, 0xfb, 0xff, 0xf5, 0xd8, 0xd1, 0xff,
     0xee, 0xc4, 0xbd, 0xff, 0xed, 0xc3, 0xbc, 0xff, 0xf3, 0xd3, 0xcb, 0xff, 0xfd, 0xf8, 0xf6, 0xff, 0xff, 0xff, 0xff, 0xff,
     0xff, 0xff, 0xff, 0xff, 0xf8, 0xe6, 0xe2, 0xff, 0xdb, 0x5b, 0x2d, 0xff, 0xd7, 0x48, 0x08, 0xff, 0xd8, 0x50, 0x23, 0xff,
     0xd8, 0x4e, 0x1d, 0xff, 0xd8, 0x4e, 0x1d, 0xff, 0xd8, 0x4e, 0x1d, 0xff, 0xd8, 0x4e, 0x1d, 0xff],
    [0xd8, 0x4e, 0x1d, 0xfe, 0xd9, 0x4e, 0x1d, 0xff, 0xd7, 0x4e, 0x1d, 0xfa, 0xdb, 0x4f, 0x1e, 0x2a, 0x00, 0x00, 0x00, 0x00,
     0xff, 0x80, 0x00, 0x02, 0xff, 0xff, 0xff, 0x01, 0x00, 0x00, 0x00, 0x00, 0xff, 0xff, 0xff, 0x05, 0xff, 0xff, 0xff, 0xd0,
     0xff, 0xff, 0xff, 0xff, 0xff, 0xff, 0xff, 0xff, 0xff, 0xff, 0xff, 0xca, 0xff, 0xff, 0xff, 0xa6, 0xff, 0xff, 0xff, 0xe4,
     0xff, 0xff, 0xff, 0xff, 0xff, 0xff, 0xff, 0xff, 0xff, 0xff, 0xff, 0x68, 0x00, 0x00, 0x00, 0x00, 0xff, 0xff, 0xff, 0x06,
     0x00, 0x00, 0x00, 0x00, 0xff, 0xff, 0xff, 0x89, 0xff, 0xff, 0xff, 0xff, 0xff, 0xff, 0xff, 0xff, 0xff, 0xff, 0xff, 0xac,
     0xff, 0xff, 0xff, 0x6e, 0xff, 0xff, 0xff, 0x77, 0xff, 0xff, 0xff, 0xd1, 0xff, 0xff, 0xff, 0xff],
    [0xff, 0xff, 0xff, 0xfa, 0xff, 0xff, 0xff, 0x28, 0x00, 0x00, 0x00, 0x00, 0x00, 0x00, 0x00, 0x00, 0xff, 0xff, 0xff, 0x2e,
     0xff, 0xff, 0xff, 0xff, 0xff, 0xff, 0xff, 0xff, 0xff, 0xff, 0xff, 0xd9, 0xff, 0xff, 0xff, 0xab, 0xff, 0xff, 0xff, 0x44,
     0x00, 0x00, 0x00, 0x00, 0xff, 0xff, 0xff, 0x0c, 0xff, 0xff, 0xff, 0xdc, 0xff, 0xff, 0xff, 0xff, 0xff, 0xff, 0xff, 0x99,
     0x00, 0x00, 0x00, 0x00, 0xff, 0xff, 0xff, 0x02, 0xff, 0xff, 0xff, 0x02, 0x00, 0x00, 0x00, 0x00, 0xff, 0xff, 0xff, 0x14,
     0xff, 0xff, 0xff, 0xe2, 0xff, 0xff, 0xff, 0xff, 0xff, 0xff, 0xff, 0xfe, 0xff, 0xff, 0xff, 0x41, 0x00, 0x00, 0x00, 0x00,
     0xff, 0xff, 0xff, 0x03, 0x00, 0x00, 0x00, 0x00, 0xff, 0xff, 0xff, 0x02, 0x00, 0x00, 0x00, 0x00],
    [0xff, 0xff, 0xff, 0x29, 0xff, 0xff, 0xff, 0xfc, 0xff, 0xff, 0xff, 0xfb, 0xff, 0xff, 0xff, 0xff, 0xff, 0xff, 0xff, 0xde,
     0xff, 0xff, 0xff, 0x0c, 0x00, 0x00, 0x00, 0x00, 0xff, 0xff, 0xff, 0x01, 0x00, 0x00, 0x00, 0x00, 0xff, 0xff, 0xff, 0x01,
     0x00, 0x00, 0x00, 0x00, 0xff, 0xff, 0xff, 0x0e, 0xff, 0xff, 0xff, 0xea, 0xff, 0xff, 0xff, 0xff, 0xff, 0xff, 0xff, 0x7d,
     0x00, 0x00, 0x00, 0x00, 0xff, 0xff, 0xff, 0x07, 0x00, 0x00, 0x00, 0x00, 0xff, 0xff, 0xff, 0x9e, 0xff, 0xff, 0xff, 0xff,
     0xff, 0xff, 0xff, 0xf7, 0xff, 0xff, 0xff, 0xff, 0xff, 0xff, 0xff, 0x3f, 0x00, 0x00, 0x00, 0x00, 0xff, 0xff, 0xff, 0x01,
     0xff, 0xff, 0xff, 0x05, 0xff, 0xff, 0xff, 0xcf, 0xff, 0xff, 0xff, 0xff, 0xff, 0xff, 0xff, 0xac],
    [0xd8, 0x4e, 0x1d, 0xff, 0xd8, 0x4e, 0x1d, 0xff, 0xd8, 0x4e, 0x1d, 0xff, 0xd8, 0x4e, 0x1d, 0xff, 0xd8, 0x4e, 0x1d, 0xff,
     0xd8, 0x4e, 0x1d, 0xff, 0xd8, 0x4e, 0x1d, 0xff, 0xd8, 0x4e, 0x1c, 0xff, 0xd8, 0x51, 0x24, 0xff, 0xd7, 0x48, 0x0a, 0xff,
     0xd8, 0x4b, 0x00, 0xff, 0xef, 0xc6, 0xbe, 0xff, 0xff, 0xfd, 0xfc, 0xff, 0xff, 0xff, 0xff, 0xff, 0xff, 0xff, 0xff, 0xff,
     0xff, 0xff, 0xff, 0xff, 0xff, 0xff, 0xff, 0xff, 0xff, 0xff, 0xff, 0xff, 0xff, 0xff, 0xff, 0xff, 0xff, 0xff, 0xfe, 0xff,
     0xf3, 0xd1, 0xca, 0xff, 0xda, 0x59, 0x2b, 0xff, 0xd7, 0x44, 0x00, 0xff, 0xd8, 0x52, 0x27, 0xff, 0xd8, 0x4e, 0x1b, 0xff,
     0xd8, 0x4e, 0x1d, 0xff, 0xd8, 0x4e, 0x1d, 0xff, 0xd8, 0x4e, 0x1d, 0xff, 0xd8, 0x4e, 0x1d, 0xff],
    [0xd8, 0x4e, 0x1d, 0xfe, 0xd9, 0x4e, 0x1d, 0xff, 0xd7, 0x4e, 0x1d, 0xfa, 0xdb, 0x4f, 0x1e, 0x2a, 0x00, 0x00, 0x00, 0x00,
     0xff, 0x80, 0x00, 0x02, 0x00, 0x00, 0x00, 0x00, 0xff, 0xff, 0xff, 0x02, 0x00, 0x00, 0x00, 0x00, 0xff, 0xff, 0xff, 0x26,
     0xff, 0xff, 0xff, 0xd8, 0xff, 0xff, 0xff, 0xff, 0xff, 0xff, 0xff, 0xff, 0xff, 0xff, 0xff, 0xff, 0xff, 0xff, 0xff, 0xff,
     0xff, 0xff, 0xff, 0xff, 0xff, 0xff, 0xff, 0x87, 0x00, 0x00, 0x00, 0x00, 0xff, 0xff, 0xff, 0x01, 0xff, 0xff, 0xff, 0x01,
     0x00, 0x00, 0x00, 0x00, 0x00, 0x00, 0x00, 0x00, 0xff, 0xff, 0xff, 0x96, 0xff, 0xff, 0xff, 0xff, 0xff, 0xff, 0xff, 0xff,
     0xff, 0xff, 0xff, 0xff, 0xff, 0xff, 0xff, 0xff, 0xff, 0xff, 0xff, 0xff, 0xff, 0xff, 0xff, 0xea],
    [0xff, 0xff, 0xff, 0x48, 0x00, 0x00, 0x00, 0x00, 0xff, 0xff, 0xff, 0x03, 0xff, 0xff, 0xff, 0x02, 0x00, 0x00, 0x00, 0x00,
     0xff, 0xff, 0xff, 0x94, 0xff, 0xff, 0xff, 0xff, 0xff, 0xff, 0xff, 0xff, 0xff, 0xff, 0xff, 0xff, 0xff, 0xff, 0xff, 0x6e,
     0x00, 0x00, 0x00, 0x00, 0xff, 0xff, 0xff, 0x0e, 0xff, 0xff, 0xff, 0xea, 0xff, 0xff, 0xff, 0xff, 0xff, 0xff, 0xff, 0xa2,
     0x00, 0x00, 0x00, 0x00, 0xff, 0xff, 0xff, 0x03, 0x00, 0x00, 0x00, 0x00, 0xff, 0xff, 0xff, 0x04, 0x00, 0x00, 0x00, 0x00,
     0xff, 0xff, 0xff, 0x49, 0xff, 0xff, 0xff, 0xff, 0xff, 0xff, 0xff, 0xff, 0xff, 0xff, 0xff, 0xee, 0xff, 0xff, 0xff, 0x20,
     0x00, 0x00, 0x00, 0x00, 0xff, 0xff, 0xff, 0x02, 0x00, 0x00, 0x00, 0x00, 0xff, 0xff, 0xff, 0x01],
    [0x00, 0x00, 0x00, 0x00, 0xff, 0xff, 0xff, 0xbd, 0xff, 0xff, 0xff, 0xff, 0xff, 0xff, 0xff, 0xff, 0xff, 0xff, 0xff, 0x87,
     0x00, 0x00, 0x00, 0x00, 0xff, 0xff, 0xff, 0x04, 0x00, 0x00, 0x00, 0x00, 0x00, 0x00, 0x00, 0x00, 0xff, 0xff, 0xff, 0x01,
     0x00, 0x00, 0x00, 0x00, 0xff, 0xff, 0xff, 0x0f, 0xff, 0xff, 0xff, 0xf8, 0xff, 0xff, 0xff, 0xff, 0xff, 0xff, 0xff, 0x85,
     0x00, 0x00, 0x00, 0x00, 0xff, 0xff, 0xff, 0x08, 0x00, 0x00, 0x00, 0x00, 0xff, 0xff, 0xff, 0x38, 0xff, 0xff, 0xff, 0xff,
     0xff, 0xff, 0xff, 0xff, 0xff, 0xff, 0xff, 0xc5, 0x00, 0x00, 0x00, 0x00, 0xff, 0xff, 0xff, 0x01, 0x00, 0x00, 0x00, 0x00,
     0xff, 0xff, 0xff, 0x05, 0xff, 0xff, 0xff, 0xdc, 0xff, 0xff, 0xff, 0xff, 0xff, 0xff, 0xff, 0xb5],
    [0xd8, 0x4e, 0x1d, 0xff, 0xd8, 0x4e, 0x1d, 0xff, 0xd8, 0x4e, 0x1d, 0xff, 0xd8, 0x4e, 0x1d, 0xff, 0xd8, 0x4e, 0x1d, 0xff,
     0xd8, 0x4e, 0x1d, 0xff, 0xd8, 0x4e, 0x1d, 0xff, 0xd8, 0x4e, 0x1d, 0xff, 0xd8, 0x4d, 0x1b, 0xff, 0xd8, 0x51, 0x24, 0xff,
     0xd8, 0x4d, 0x1c, 0xff, 0xd6, 0x27, 0x00, 0xff, 0xe1, 0x84, 0x6f, 0xff, 0xef, 0xc4, 0xbc, 0xff, 0xf7, 0xdf, 0xd9, 0xff,
     0xfc, 0xf5, 0xf4, 0xff, 0xfc, 0xf6, 0xf5, 0xff, 0xf8, 0xe5, 0xe0, 0xff, 0xf0, 0xcb, 0xc4, 0xff, 0xe3, 0x91, 0x7f, 0xff,
     0xd6, 0x30, 0x00, 0xff, 0xd7, 0x49, 0x0f, 0xff, 0xd8, 0x52, 0x27, 0xff, 0xd8, 0x4d, 0x1b, 0xff, 0xd8, 0x4e, 0x1d, 0xff,
     0xd8, 0x4e, 0x1d, 0xff, 0xd8, 0x4e, 0x1d, 0xff, 0xd8, 0x4e, 0x1d, 0xff, 0xd8, 0x4e, 0x1d, 0xff],
    [0xd8, 0x4e, 0x1d, 0xfe, 0xd9, 0x4e, 0x1d, 0xff, 0xd8, 0x4e, 0x1d, 0xf9, 0xdb, 0x4f, 0x1e, 0x2a, 0x00, 0x00, 0x00, 0x00,
     0xff, 0x80, 0x00, 0x02, 0x00, 0x00, 0x00, 0x00, 0x00, 0x00, 0x00, 0x00, 0xff, 0xff, 0xff, 0x02, 0x00, 0x00, 0x00, 0x00,
     0xff, 0xff, 0xff, 0x0a, 0xff, 0xff, 0xff, 0x6d, 0xff, 0xff, 0xff, 0xa5, 0xff, 0xff, 0xff, 0xaf, 0xff, 0xff, 0xff, 0x96,
     0xff, 0xff, 0xff, 0x45, 0x00, 0x00, 0x00, 0x00, 0x00, 0x00, 0x00, 0x00, 0xff, 0xff, 0xff, 0x01, 0x00, 0x00, 0x00, 0x00,
     0xff, 0xff, 0xff, 0x01, 0x00, 0x00, 0x00, 0x00, 0x00, 0x00, 0x00, 0x00, 0xff, 0xff, 0xff, 0x3f, 0xff, 0xff, 0xff, 0x90,
     0xff, 0xff, 0xff, 0xad, 0xff, 0xff, 0xff, 0xa6, 0xff, 0xff, 0xff, 0x74, 0xff, 0xff, 0xff, 0x16],
    [0x00, 0x00, 0x00, 0x00, 0xff, 0xff, 0xff, 0x02, 0x00, 0x00, 0x00, 0x00, 0xff, 0xff, 0xff, 0x01, 0x00, 0x00, 0x00, 0x00,
     0x00, 0x00, 0x00, 0x00, 0xff, 0xff, 0xff, 0x4e, 0xff, 0xff, 0xff, 0x80, 0xff, 0xff, 0xff, 0x7b, 0xff, 0xff, 0xff, 0x26,
     0x00, 0x00, 0x00, 0x00, 0xff, 0xff, 0xff, 0x06, 0xff, 0xff, 0xff, 0x58, 0xff, 0xff, 0xff, 0x6b, 0xff, 0xff, 0xff, 0x3c,
     0x00, 0x00, 0x00, 0x00, 0xff, 0xff, 0xff, 0x01, 0x00, 0x00, 0x00, 0x00, 0x00, 0x00, 0x00, 0x00, 0xff, 0xff, 0xff, 0x01,
     0x00, 0x00, 0x00, 0x00, 0xff, 0xff, 0xff, 0x4b, 0xff, 0xff, 0xff, 0x64, 0xff, 0xff, 0xff, 0x6c, 0xff, 0xff, 0xff, 0x2f,
     0x00, 0x00, 0x00, 0x00, 0xff, 0xff, 0xff, 0x02, 0x00, 0x00, 0x00, 0x00, 0xff, 0xff, 0xff, 0x02],
    [0x00, 0x00, 0x00, 0x00, 0xff, 0xff, 0xff, 0x2e, 0xff, 0xff, 0xff, 0x6b, 0xff, 0xff, 0xff, 0x64, 0xff, 0xff, 0xff, 0x1e,
     0x00, 0x00, 0x00, 0x00, 0xff, 0xff, 0xff, 0x01, 0x00, 0x00, 0x00, 0x00, 0x00, 0x00, 0x00, 0x00, 0x00, 0x00, 0x00, 0x00,
     0x00, 0x00, 0x00, 0x00, 0xff, 0xff, 0xff, 0x05, 0xff, 0xff, 0xff, 0x5c, 0xff, 0xff, 0xff, 0x6c, 0xff, 0xff, 0xff, 0x31,
     0x00, 0x00, 0x00, 0x00, 0xff, 0xff, 0xff, 0x02, 0x00, 0x00, 0x00, 0x00, 0xff, 0xff, 0xff, 0x03, 0xff, 0xff, 0xff, 0x55,
     0xff, 0xff, 0xff, 0x6d, 0xff, 0xff, 0xff, 0x2c, 0x00, 0x00, 0x00, 0x00, 0xff, 0xff, 0xff, 0x02, 0x00, 0x00, 0x00, 0x00,
     0xff, 0xff, 0xff, 0x02, 0xff, 0xff, 0xff, 0x51, 0xff, 0xff, 0xff, 0x6b, 0xff, 0xff, 0xff, 0x42]]"

lemma img_jetkvm_map_8_size: "length (concat img_jetkvm_map_8) = 1392"
  by (simp add: img_jetkvm_map_8_def)

definition img_jetkvm_map_9 :: "u8 list list" where
  "img_jetkvm_map_9 = [
    [0xd8, 0x4e, 0x1d, 0xfb, 0xd8, 0x4e, 0x1d, 0xff, 0xd8, 0x4e, 0x1d, 0xff, 0xd8, 0x4e, 0x1d, 0xff, 0xd8, 0x4e, 0x1d, 0xff,
     0xd8, 0x4e, 0x1d, 0xff, 0xd8, 0x4e, 0x1d, 0xff, 0xd8, 0x4e, 0x1d, 0xff, 0xd8, 0x4e, 0x1d, 0xff, 0xd8, 0x4e, 0x1c, 0xff,
     0xd8, 0x4f, 0x20, 0xff, 0xd8, 0x54, 0x2c, 0xff, 0xd6, 0x3c, 0x00, 0xff, 0xd5, 0x1d, 0x00, 0xff, 0xd8, 0x48, 0x00, 0xff,
     0xda, 0x62, 0x45, 0xff, 0xda, 0x63, 0x47, 0xff, 0xd9, 0x50, 0x19, 0xff, 0xd6, 0x22, 0x00, 0xff, 0xd6, 0x35, 0x00, 0xff,
     0xd8, 0x53, 0x2a, 0xff, 0xd8, 0x50, 0x22, 0xff, 0xd8, 0x4e, 0x1c, 0xff, 0xd8, 0x4e, 0x1d, 0xff, 0xd8, 0x4e, 0x1d, 0xff,
     0xd8, 0x4e, 0x1d, 0xff, 0xd8, 0x4e, 0x1d, 0xff, 0xd8, 0x4e, 0x1d, 0xff, 0xd8, 0x4e, 0x1d, 0xff],
    [0xd8, 0x4e, 0x1d, 0xfe, 0xd9, 0x4e, 0x1d, 0xff, 0xd8, 0x4f, 0x1d, 0xfa, 0xdb, 0x4f, 0x1e, 0x2a, 0x00, 0x00, 0x00, 0x00,
     0xff, 0x80, 0x00, 0x02, 0x00, 0x00, 0x00, 0x00, 0x00, 0x00, 0x00, 0x00, 0x00, 0x00, 0x00, 0x00, 0xff, 0xff, 0xff, 0x02,
     0x00, 0x00, 0x00, 0x00, 0x00, 0x00, 0x00, 0x00, 0x00, 0x00, 0x00, 0x00, 0x00, 0x00, 0x00, 0x00, 0x00, 0x00, 0x00, 0x00,
     0x00, 0x00, 0x00, 0x00, 0xff, 0xff, 0xff, 0x02, 0xff, 0xff, 0xff, 0x01, 0x00, 0x00, 0x00, 0x00, 0x00, 0x00, 0x00, 0x00,
     0x00, 0x00, 0x00, 0x00, 0xff, 0xff, 0xff, 0x01, 0xff, 0xff, 0xff, 0x02, 0x00, 0x00, 0x00, 0x00, 0x00, 0x00, 0x00, 0x00,
     0x00, 0x00, 0x00, 0x00, 0x00, 0x00, 0x00, 0x00, 0x00, 0x00, 0x00, 0x00, 0x00, 0x00, 0x00, 0x00],
    [0xff, 0xff, 0xff, 0x03, 0x00, 0x00, 0x00, 0x00, 0x00, 0x00, 0x00, 0x00, 0x00, 0x00, 0x00, 0x00, 0xff, 0xff, 0xff, 0x01,
     0x00, 0x00, 0x00, 0x00, 0x00, 0x00, 0x00, 0x00, 0x00, 0x00, 0x00, 0x00, 0x00, 0x00, 0x00, 0x00, 0x00, 0x00, 0x00, 0x00,
     0xff, 0xff, 0xff, 0x01, 0x00, 0x00, 0x00, 0x00, 0x00, 0x00, 0x00, 0x00, 0x00, 0x00, 0x00, 0x00, 0x00, 0x00, 0x00, 0x00,
     0xff, 0xff, 0xff, 0x01, 0x00, 0x00, 0x00, 0x00, 0x00, 0x00, 0x00, 0x00, 0x00, 0x00, 0x00, 0x00, 0x00, 0x00, 0x00, 0x00,
     0xff, 0xff, 0xff, 0x01, 0x00, 0x00, 0x00, 0x00, 0x00, 0x00, 0x00, 0x00, 0x00, 0x00, 0x00, 0x00, 0x00, 0x00, 0x00, 0x00,
     0xff, 0xff, 0xff, 0x01, 0x00, 0x00, 0x00, 0x00, 0x00, 0x00, 0x00, 0x00, 0x00, 0x00, 0x00, 0x00],
    [0xff, 0xff, 0xff, 0x02, 0x00, 0x00, 0x00, 0x00, 0x00, 0x00, 0x00, 0x00, 0x00, 0x00, 0x00, 0x00, 0x00, 0x00, 0x00, 0x00,
     0xff, 0xff, 0xff, 0x01, 0x00, 0x00, 0x00, 0x00, 0x00, 0x00, 0x00, 0x00, 0x00, 0x00, 0x00, 0x00, 0x00, 0x00, 0x00, 0x00,
     0x00, 0x00, 0x00, 0x00, 0x00, 0x00, 0x00, 0x00, 0x00, 0x00, 0x00, 0x00, 0x00, 0x00, 0x00, 0x00, 0x00, 0x00, 0x00, 0x00,
     0xff, 0xff, 0xff, 0x01, 0x00, 0x00, 0x00, 0x00, 0x00, 0x00, 0x00, 0x00, 0x00, 0x00, 0x00, 0x00, 0x00, 0x00, 0x00, 0x00,
     0x00, 0x00, 0x00, 0x00, 0x00, 0x00, 0x00, 0x00, 0xff, 0xff, 0xff, 0x02, 0x00, 0x00, 0x00, 0x00, 0x00, 0x00, 0x00, 0x00,
     0x00, 0x00, 0x00, 0x00, 0x00, 0x00, 0x00, 0x00, 0x00, 0x00, 0x00, 0x00, 0x00, 0x00, 0x00, 0x00],
    [0xd8, 0x4e, 0x1d, 0xdd, 0xdd, 0x50, 0x1d, 0xff, 0xd8, 0x4e, 0x1d, 0xfe, 0xd8, 0x4e, 0x1d, 0xff, 0xd8, 0x4e, 0x1d, 0xff,
     0xd8, 0x4e, 0x1d, 0xff, 0xd8, 0x4e, 0x1d, 0xff, 0xd8, 0x4e, 0x1d, 0xff, 0xd8, 0x4e, 0x1d, 0xff, 0xd8, 0x4e, 0x1d, 0xff,
     0xd8, 0x4e, 0x1d, 0xff, 0xd8, 0x4e, 0x1d, 0xff, 0xd8, 0x52, 0x26, 0xff, 0xd9, 0x55, 0x2f, 0xff, 0xd8, 0x4f, 0x22, 0xff,
     0xd7, 0x47, 0x00, 0xff, 0xd7, 0x47, 0x00, 0xff, 0xd8, 0x4d, 0x1b, 0xff, 0xd9, 0x54, 0x2f, 0xff, 0xd8, 0x53, 0x28, 0xff,
     0xd8, 0x4e, 0x1d, 0xff, 0xd8, 0x4e, 0x1d, 0xff, 0xd8, 0x4e, 0x1d, 0xff, 0xd8, 0x4e, 0x1d, 0xff, 0xd8, 0x4e, 0x1d, 0xff,
     0xd8, 0x4e, 0x1d, 0xff, 0xd8, 0x4e, 0x1d, 0xff, 0xd8, 0x4e, 0x1d, 0xff, 0xd8, 0x4e, 0x1d, 0xff],
    [0xd8, 0x4e, 0x1d, 0xfe, 0xdb, 0x4f, 0x1d, 0xff, 0xd8, 0x4e, 0x1d, 0xec, 0xe1, 0x4b, 0x1e, 0x11, 0x00, 0x00, 0x00, 0x00,
     0xff, 0x00, 0x00, 0x01, 0x00, 0x00, 0x00, 0x00, 0x00, 0x00, 0x00, 0x00, 0x00, 0x00, 0x00, 0x00, 0x00, 0x00, 0x00, 0x00,
     0xff, 0xff, 0xff, 0x01, 0xff, 0xff, 0xff, 0x04, 0xff, 0xff, 0xff, 0x02, 0xff, 0xff, 0xff, 0x01, 0xff, 0xff, 0xff, 0x03,
     0xff, 0xff, 0xff, 0x03, 0x00, 0x00, 0x00, 0x00, 0x00, 0x00, 0x00, 0x00, 0x00, 0x00, 0x00, 0x00, 0x00, 0x00, 0x00, 0x00,
     0x00, 0x00, 0x00, 0x00, 0x00, 0x00, 0x00, 0x00, 0x00, 0x00, 0x00, 0x00, 0xff, 0xff, 0xff, 0x03, 0xff, 0xff, 0xff, 0x04,
     0xff, 0xff, 0xff, 0x01, 0xff, 0xff, 0xff, 0x02, 0xff, 0xff, 0xff, 0x04, 0xff, 0xff, 0xff, 0x01],
    [0x00, 0x00, 0x00, 0x00, 0x00, 0x00, 0x00, 0x00, 0x00, 0x00, 0x00, 0x00, 0x00, 0x00, 0x00, 0x00, 0x00, 0x00, 0x00, 0x00,
     0x00, 0x00, 0x00, 0x00, 0xff, 0xff, 0xff, 0x03, 0xff, 0xff, 0xff, 0x05, 0xff, 0xff, 0xff, 0x05, 0xff, 0xff, 0xff, 0x02,
     0x00, 0x00, 0x00, 0x00, 0x00, 0x00, 0x00, 0x00, 0xff, 0xff, 0xff, 0x03, 0xff, 0xff, 0xff, 0x04, 0xff, 0xff, 0xff, 0x02,
     0x00, 0x00, 0x00, 0x00, 0x00, 0x00, 0x00, 0x00, 0x00, 0x00, 0x00, 0x00, 0x00, 0x00, 0x00, 0x00, 0x00, 0x00, 0x00, 0x00,
     0x00, 0x00, 0x00, 0x00, 0xff, 0xff, 0xff, 0x03, 0xff, 0xff, 0xff, 0x04, 0xff, 0xff, 0xff, 0x04, 0xff, 0xff, 0xff, 0x02,
     0x00, 0x00, 0x00, 0x00, 0x00, 0x00, 0x00, 0x00, 0x00, 0x00, 0x00, 0x00, 0x00, 0x00, 0x00, 0x00],
    [0x00, 0x00, 0x00, 0x00, 0xff, 0xff, 0xff, 0x02, 0xff, 0xff, 0xff, 0x04, 0xff, 0xff, 0xff, 0x04, 0xff, 0xff, 0xff, 0x01,
     0x00, 0x00, 0x00, 0x00, 0x00, 0x00, 0x00, 0x00, 0x00, 0x00, 0x00, 0x00, 0x00, 0x00, 0x00, 0x00, 0x00, 0x00, 0x00, 0x00,
     0x00, 0x00, 0x00, 0x00, 0x00, 0x00, 0x00, 0x00, 0xff, 0xff, 0xff, 0x04, 0xff, 0xff, 0xff, 0x04, 0xff, 0xff, 0xff, 0x02,
     0x00, 0x00, 0x00, 0x00, 0x00, 0x00, 0x00, 0x00, 0x00, 0x00, 0x00, 0x00, 0x00, 0x00, 0x00, 0x00, 0xff, 0xff, 0xff, 0x03,
     0xff, 0xff, 0xff, 0x04, 0xff, 0xff, 0xff, 0x02, 0x00, 0x00, 0x00, 0x00, 0x00, 0x00, 0x00, 0x00, 0x00, 0x00, 0x00, 0x00,
     0x00, 0x00, 0x00, 0x00, 0xff, 0xff, 0xff, 0x03, 0xff, 0xff, 0xff, 0x04, 0xff, 0xff, 0xff, 0x03],
    [0xd9, 0x4e, 0x1e, 0x99, 0xe5, 0x53, 0x1f, 0xff, 0xd8, 0x4e, 0x1c, 0xfb, 0xd8, 0x4e, 0x1d, 0xff, 0xd8, 0x4e, 0x1d, 0xff,
     0xd8, 0x4e, 0x1d, 0xff, 0xd8, 0x4e, 0x1d, 0xff, 0xd8, 0x4e, 0x1d, 0xff, 0xd8, 0x4e, 0x1d, 0xff, 0xd8, 0x4e, 0x1d, 0xff,
     0xd8, 0x4e, 0x1d, 0xff, 0xd8, 0x4e, 0x1d, 0xff, 0xd8, 0x4e, 0x1d, 0xff, 0xd8, 0x4e, 0x1d, 0xff, 0xd8, 0x4f, 0x1f, 0xff,
     0xd8, 0x50, 0x22, 0xff, 0xd8, 0x50, 0x22, 0xff, 0xd8, 0x4f, 0x20, 0xff, 0xd8, 0x4e, 0x1d, 0xff, 0xd8, 0x4e, 0x1d, 0xff,
     0xd8, 0x4e, 0x1d, 0xff, 0xd8, 0x4e, 0x1d, 0xff, 0xd8, 0x4e, 0x1d, 0xff, 0xd8, 0x4e, 0x1d, 0xff, 0xd8, 0x4e, 0x1d, 0xff,
     0xd8, 0x4e, 0x1d, 0xff, 0xd8, 0x4e, 0x1d, 0xff, 0xd8, 0x4e, 0x1d, 0xff, 0xd8, 0x4e, 0x1d, 0xff],
    [0xd8, 0x4e, 0x1d, 0xfc, 0xe3, 0x52, 0x1e, 0xff, 0xd8, 0x4e, 0x1d, 0xb7, 0x00, 0x00, 0x00, 0x00, 0xff, 0x00, 0x00, 0x01,
     0x00, 0x00, 0x00, 0x00, 0x00, 0x00, 0x00, 0x00, 0x00, 0x00, 0x00, 0x00, 0x00, 0x00, 0x00, 0x00, 0x00, 0x00, 0x00, 0x00,
     0x00, 0x00, 0x00, 0x00, 0x00, 0x00, 0x00, 0x00, 0x00, 0x00, 0x00, 0x00, 0x00, 0x00, 0x00, 0x00, 0x00, 0x00, 0x00, 0x00,
     0x00, 0x00, 0x00, 0x00, 0x00, 0x00, 0x00, 0x00, 0x00, 0x00, 0x00, 0x00, 0x00, 0x00, 0x00, 0x00, 0x00, 0x00, 0x00, 0x00,
     0x00, 0x00, 0x00, 0x00, 0x00, 0x00, 0x00, 0x00, 0x00, 0x00, 0x00, 0x00, 0x00, 0x00, 0x00, 0x00, 0x00, 0x00, 0x00, 0x00,
     0x00, 0x00, 0x00, 0x00, 0x00, 0x00, 0x00, 0x00, 0x00, 0x00, 0x00, 0x00, 0x00, 0x00, 0x00, 0x00],
    [0x00, 0x00, 0x00, 0x00, 0x00, 0x00, 0x00, 0x00, 0x00, 0x00, 0x00, 0x00, 0x00, 0x00, 0x00, 0x00, 0x00, 0x00, 0x00, 0x00,
     0x00, 0x00, 0x00, 0x00, 0x00, 0x00, 0x00, 0x00, 0x00, 0x00, 0x00, 0x00, 0x00, 0x00, 0x00, 0x00, 0x00, 0x00, 0x00, 0x00,
     0x00, 0x00, 0x00, 0x00, 0x00, 0x00, 0x00, 0x00, 0x00, 0x00, 0x00, 0x00, 0x00, 0x00, 0x00, 0x00, 0x00, 0x00, 0x00, 0x00,
     0x00, 0x00, 0x00, 0x00, 0x00, 0x00, 0x00, 0x00, 0x00, 0x00, 0x00, 0x00, 0x00, 0x00, 0x00, 0x00, 0x00, 0x00, 0x00, 0x00,
     0x00, 0x00, 0x00, 0x00, 0x00, 0x00, 0x00, 0x00, 0x00, 0x00, 0x00, 0x00, 0x00, 0x00, 0x00, 0x00, 0x00, 0x00, 0x00, 0x00,
     0x00, 0x00, 0x00, 0x00, 0x00, 0x00, 0x00, 0x00, 0x00, 0x00, 0x00, 0x00, 0x00, 0x00, 0x00, 0x00],
    [0x00, 0x00, 0x00, 0x00, 0x00, 0x00, 0x00, 0x00, 0x00, 0x00, 0x00, 0x00, 0x00, 0x00, 0x00, 0x00, 0x00, 0x00, 0x00, 0x00,
     0x00, 0x00, 0x00, 0x00, 0x00, 0x00, 0x00, 0x00, 0x00, 0x00, 0x00, 0x00, 0x00, 0x00, 0x00, 0x00, 0x00, 0x00, 0x00, 0x00,
     0x00, 0x00, 0x00, 0x00, 0x00, 0x00, 0x00, 0x00, 0x00, 0x00, 0x00, 0x00, 0x00, 0x00, 0x00, 0x00, 0x00, 0x00, 0x00, 0x00,
     0x00, 0x00, 0x00, 0x00, 0x00, 0x00, 0x00, 0x00, 0x00, 0x00, 0x00, 0x00, 0x00, 0x00, 0x00, 0x00, 0x00, 0x00, 0x00, 0x00,
     0x00, 0x00, 0x00, 0x00, 0x00, 0x00, 0x00, 0x00, 0x00, 0x00, 0x00, 0x00, 0x00, 0x00, 0x00, 0x00, 0x00, 0x00, 0x00, 0x00,
     0x00, 0x00, 0x00, 0x00, 0x00, 0x00, 0x00, 0x00, 0x00, 0x00, 0x00, 0x00, 0x00, 0x00, 0x00, 0x00]]"

lemma img_jetkvm_map_9_size: "length (concat img_jetkvm_map_9) = 1392"
  by (simp add: img_jetkvm_map_9_def)

definition img_jetkvm_map_10 :: "u8 list list" where
  "img_jetkvm_map_10 = [
    [0xd8, 0x4e, 0x1d, 0x34, 0xda, 0x4f, 0x1d, 0xff, 0xd8, 0x4e, 0x1d, 0xfe, 0xd8, 0x4e, 0x1d, 0xfe, 0xd8, 0x4e, 0x1d, 0xff,
     0xd8, 0x4e, 0x1d, 0xff, 0xd8, 0x4e, 0x1d, 0xff, 0xd8, 0x4e, 0x1d, 0xff, 0xd8, 0x4e, 0x1d, 0xff, 0xd8, 0x4e, 0x1d, 0xff,
     0xd8, 0x4e, 0x1d, 0xff, 0xd8, 0x4e, 0x1d, 0xff, 0xd8, 0x4e, 0x1d, 0xff, 0xd8, 0x4e, 0x1d, 0xff, 0xd8, 0x4e, 0x1d, 0xff,
     0xd8, 0x4e, 0x1d, 0xff, 0xd8, 0x4e, 0x1d, 0xff, 0xd8, 0x4e, 0x1d, 0xff, 0xd8, 0x4e, 0x1d, 0xff, 0xd8, 0x4e, 0x1d, 0xff,
     0xd8, 0x4e, 0x1d, 0xff, 0xd8, 0x4e, 0x1d, 0xff, 0xd8, 0x4e, 0x1d, 0xff, 0xd8, 0x4e, 0x1d, 0xff, 0xd8, 0x4e, 0x1d, 0xff,
     0xd8, 0x4e, 0x1d, 0xff, 0xd8, 0x4e, 0x1d, 0xff, 0xd8, 0x4e, 0x1d, 0xff, 0xd8, 0x4e, 0x1d, 0xff],
    [0xd7, 0x4e, 0x1c, 0xfb, 0xe3, 0x52, 0x1f, 0xff, 0xd8, 0x4f, 0x1e, 0x54, 0x00, 0x00, 0x00, 0x00, 0xff, 0x55, 0x00, 0x03,
     0x00, 0x00, 0x00, 0x00, 0x00, 0x00, 0x00, 0x00, 0x00, 0x00, 0x00, 0x00, 0x00, 0x00, 0x00, 0x00, 0x00, 0x00, 0x00, 0x00,
     0x00, 0x00, 0x00, 0x00, 0x00, 0x00, 0x00, 0x00, 0x00, 0x00, 0x00, 0x00, 0x00, 0x00, 0x00, 0x00, 0x00, 0x00, 0x00, 0x00,
     0x00, 0x00, 0x00, 0x00, 0x00, 0x00, 0x00, 0x00, 0x00, 0x00, 0x00, 0x00, 0x00, 0x00, 0x00, 0x00, 0x00, 0x00, 0x00, 0x00,
     0x00, 0x00, 0x00, 0x00, 0x00, 0x00, 0x00, 0x00, 0x00, 0x00, 0x00, 0x00, 0x00, 0x00, 0x00, 0x00, 0x00, 0x00, 0x00, 0x00,
     0x00, 0x00, 0x00, 0x00, 0x00, 0x00, 0x00, 0x00, 0x00, 0x00, 0x00, 0x00, 0x00, 0x00, 0x00, 0x00],
    [0x00, 0x00, 0x00, 0x00, 0x00, 0x00, 0x00, 0x00, 0x00, 0x00, 0x00, 0x00, 0x00, 0x00, 0x00, 0x00, 0x00, 0x00, 0x00, 0x00,
     0x00, 0x00, 0x00, 0x00, 0x00, 0x00, 0x00, 0x00, 0x00, 0x00, 0x00, 0x00, 0x00, 0x00, 0x00, 0x00, 0x00, 0x00, 0x00, 0x00,
     0x00, 0x00, 0x00, 0x00, 0x00, 0x00, 0x00, 0x00, 0x00, 0x00, 0x00, 0x00, 0x00, 0x00, 0x00, 0x00, 0x00, 0x00, 0x00, 0x00,
     0x00, 0x00, 0x00, 0x00, 0x00, 0x00, 0x00, 0x00, 0x00, 0x00, 0x00, 0x00, 0x00, 0x00, 0x00, 0x00, 0x00, 0x00, 0x00, 0x00,
     0x00, 0x00, 0x00, 0x00, 0x00, 0x00, 0x00, 0x00, 0x00, 0x00, 0x00, 0x00, 0x00, 0x00, 0x00, 0x00, 0x00, 0x00, 0x00, 0x00,
     0x00, 0x00, 0x00, 0x00, 0x00, 0x00, 0x00, 0x00, 0x00, 0x00, 0x00, 0x00, 0x00, 0x00, 0x00, 0x00],
    [0x00, 0x00, 0x00, 0x00, 0x00, 0x00, 0x00, 0x00, 0x00, 0x00, 0x00, 0x00, 0x00, 0x00, 0x00, 0x00, 0x00, 0x00, 0x00, 0x00,
     0x00, 0x00, 0x00, 0x00, 0x00, 0x00, 0x00, 0x00, 0x00, 0x00, 0x00, 0x00, 0x00, 0x00, 0x00, 0x00, 0x00, 0x00, 0x00, 0x00,
     0x00, 0x00, 0x00, 0x00, 0x00, 0x00, 0x00, 0x00, 0x00, 0x00, 0x00, 0x00, 0x00, 0x00, 0x00, 0x00, 0x00, 0x00, 0x00, 0x00,
     0x00, 0x00, 0x00, 0x00, 0x00, 0x00, 0x00, 0x00, 0x00, 0x00, 0x00, 0x00, 0x00, 0x00, 0x00, 0x00, 0x00, 0x00, 0x00, 0x00,
     0x00, 0x00, 0x00, 0x00, 0x00, 0x00, 0x00, 0x00, 0x00, 0x00, 0x00, 0x00, 0x00, 0x00, 0x00, 0x00, 0x00, 0x00, 0x00, 0x00,
     0x00, 0x00, 0x00, 0x00, 0x00, 0x00, 0x00, 0x00, 0x00, 0x00, 0x00, 0x00, 0x00, 0x00, 0x00, 0x00],
    [0x00, 0x00, 0x00, 0x00, 0xd8, 0x4f, 0x1e, 0x9b, 0xe9, 0x54, 0x1f, 0xff, 0xd8, 0x4e, 0x1d, 0xf9, 0xd8, 0x4e, 0x1d, 0xfe,
     0xd8, 0x4e, 0x1d, 0xff, 0xd8, 0x4e, 0x1d, 0xff, 0xd8, 0x4e, 0x1d, 0xff, 0xd8, 0x4e, 0x1d, 0xff, 0xd8, 0x4e, 0x1d, 0xff,
     0xd8, 0x4e, 0x1d, 0xff, 0xd8, 0x4e, 0x1d, 0xff, 0xd8, 0x4e, 0x1d, 0xff, 0xd8, 0x4e, 0x1d, 0xff, 0xd8, 0x4e, 0x1d, 0xff,
     0xd8, 0x4e, 0x1d, 0xff, 0xd8, 0x4e, 0x1d, 0xff, 0xd8, 0x4e, 0x1d, 0xff, 0xd8, 0x4e, 0x1d, 0xff, 0xd8, 0x4e, 0x1d, 0xff,
     0xd8, 0x4e, 0x1d, 0xff, 0xd8, 0x4e, 0x1d, 0xff, 0xd8, 0x4e, 0x1d, 0xff, 0xd8, 0x4e, 0x1d, 0xff, 0xd8, 0x4e, 0x1d, 0xff,
     0xd8, 0x4e, 0x1d, 0xff, 0xd8, 0x4e, 0x1d, 0xff, 0xd8, 0x4e, 0x1d, 0xff, 0xd8, 0x4e, 0x1d, 0xf9],
    [0xe8, 0x54, 0x1f, 0xff, 0xd7, 0x4e, 0x1d, 0xba, 0x00, 0x00, 0x00, 0x00, 0xff, 0x00, 0x00, 0x01, 0x00, 0x00, 0x00, 0x00,
     0x00, 0x00, 0x00, 0x00, 0x00, 0x00, 0x00, 0x00, 0x00, 0x00, 0x00, 0x00, 0x00, 0x00, 0x00, 0x00, 0x00, 0x00, 0x00, 0x00,
     0x00, 0x00, 0x00, 0x00, 0x00, 0x00, 0x00, 0x00, 0x00, 0x00, 0x00, 0x00, 0x00, 0x00, 0x00, 0x00, 0x00, 0x00, 0x00, 0x00,
     0x00, 0x00, 0x00, 0x00, 0x00, 0x00, 0x00, 0x00, 0x00, 0x00, 0x00, 0x00, 0x00, 0x00, 0x00, 0x00, 0x00, 0x00, 0x00, 0x00,
     0x00, 0x00, 0x00, 0x00, 0x00, 0x00, 0x00, 0x00, 0x00, 0x00, 0x00, 0x00, 0x00, 0x00, 0x00, 0x00, 0x00, 0x00, 0x00, 0x00,
     0x00, 0x00, 0x00, 0x00, 0x00, 0x00, 0x00, 0x00, 0x00, 0x00, 0x00, 0x00, 0x00, 0x00, 0x00, 0x00],
    [0x00, 0x00, 0x00, 0x00, 0x00, 0x00, 0x00, 0x00, 0x00, 0x00, 0x00, 0x00, 0x00, 0x00, 0x00, 0x00, 0x00, 0x00, 0x00, 0x00,
     0x00, 0x00, 0x00, 0x00, 0x00, 0x00, 0x00, 0x00, 0x00, 0x00, 0x00, 0x00, 0x00, 0x00, 0x00, 0x00, 0x00, 0x00, 0x00, 0x00,
     0x00, 0x00, 0x00, 0x00, 0x00, 0x00, 0x00, 0x00, 0x00, 0x00, 0x00, 0x00, 0x00, 0x00, 0x00, 0x00, 0x00, 0x00, 0x00, 0x00,
     0x00, 0x00, 0x00, 0x00, 0x00, 0x00, 0x00, 0x00, 0x00, 0x00, 0x00, 0x00, 0x00, 0x00, 0x00, 0x00, 0x00, 0x00, 0x00, 0x00,
     0x00, 0x00, 0x00, 0x00, 0x00, 0x00, 0x00, 0x00, 0x00, 0x00, 0x00, 0x00, 0x00, 0x00, 0x00, 0x00, 0x00, 0x00, 0x00, 0x00,
     0x00, 0x00, 0x00, 0x00, 0x00, 0x00, 0x00, 0x00, 0x00, 0x00, 0x00, 0x00, 0x00, 0x00, 0x00, 0x00],
    [0x00, 0x00, 0x00, 0x00, 0x00, 0x00, 0x00, 0x00, 0x00, 0x00, 0x00, 0x00, 0x00, 0x00, 0x00, 0x00, 0x00, 0x00, 0x00, 0x00,
     0x00, 0x00, 0x00, 0x00, 0x00, 0x00, 0x00, 0x00, 0x00, 0x00, 0x00, 0x00, 0x00, 0x00, 0x00, 0x00, 0x00, 0x00, 0x00, 0x00,
     0x00, 0x00, 0x00, 0x00, 0x00, 0x00, 0x00, 0x00, 0x00, 0x00, 0x00, 0x00, 0x00, 0x00, 0x00, 0x00, 0x00, 0x00, 0x00, 0x00,
     0x00, 0x00, 0x00, 0x00, 0x00, 0x00, 0x00, 0x00, 0x00, 0x00, 0x00, 0x00, 0x00, 0x00, 0x00, 0x00, 0x00, 0x00, 0x00, 0x00,
     0x00, 0x00, 0x00, 0x00, 0x00, 0x00, 0x00, 0x00, 0x00, 0x00, 0x00, 0x00, 0x00, 0x00, 0x00, 0x00, 0x00, 0x00, 0x00, 0x00,
     0x00, 0x00, 0x00, 0x00, 0x00, 0x00, 0x00, 0x00, 0x00, 0x00, 0x00, 0x00, 0x00, 0x00, 0x00, 0x00],
    [0x00, 0x00, 0x00, 0x00, 0xbf, 0x40, 0x40, 0x04, 0xd7, 0x4e, 0x1e, 0xb3, 0xea, 0x55, 0x1f, 0xff, 0xd8, 0x4e, 0x1d, 0xfe,
     0xd7, 0x4e, 0x1c, 0xfb, 0xd8, 0x4e, 0x1d, 0xfe, 0xd8, 0x4e, 0x1d, 0xff, 0xd8, 0x4e, 0x1d, 0xff, 0xd8, 0x4e, 0x1d, 0xff,
     0xd8, 0x4e, 0x1d, 0xff, 0xd8, 0x4e, 0x1d, 0xff, 0xd8, 0x4e, 0x1d, 0xff, 0xd8, 0x4e, 0x1d, 0xff, 0xd8, 0x4e, 0x1d, 0xff,
     0xd8, 0x4e, 0x1d, 0xff, 0xd8, 0x4e, 0x1d, 0xff, 0xd8, 0x4e, 0x1d, 0xff, 0xd8, 0x4e, 0x1d, 0xff, 0xd8, 0x4e, 0x1d, 0xff,
     0xd8, 0x4e, 0x1d, 0xff, 0xd8, 0x4e, 0x1d, 0xff, 0xd8, 0x4e, 0x1d, 0xff, 0xd8, 0x4e, 0x1d, 0xff, 0xd8, 0x4e, 0x1d, 0xff,
     0xd8, 0x4e, 0x1d, 0xfe, 0xd8, 0x4e, 0x1c, 0xfb, 0xd9, 0x4e, 0x1d, 0xfc, 0xe7, 0x53, 0x1f, 0xff],
    [0xd8, 0x4e, 0x1c, 0xd8, 0xd6, 0x52, 0x1f, 0x19, 0x00, 0x00, 0x00, 0x00, 0xff, 0x80, 0x00, 0x02, 0x00, 0x00, 0x00, 0x00,
     0x00, 0x00, 0x00, 0x00, 0x00, 0x00, 0x00, 0x00, 0x00, 0x00, 0x00, 0x00, 0x00, 0x00, 0x00, 0x00, 0x00, 0x00, 0x00, 0x00,
     0x00, 0x00, 0x00, 0x00, 0x00, 0x00, 0x00, 0x00, 0x00, 0x00, 0x00, 0x00, 0x00, 0x00, 0x00, 0x00, 0x00, 0x00, 0x00, 0x00,
     0x00, 0x00, 0x00, 0x00, 0x00, 0x00, 0x00, 0x00, 0x00, 0x00, 0x00, 0x00, 0x00, 0x00, 0x00, 0x00, 0x00, 0x00, 0x00, 0x00,
     0x00, 0x00, 0x00, 0x00, 0x00, 0x00, 0x00, 0x00, 0x00, 0x00, 0x00, 0x00, 0x00, 0x00, 0x00, 0x00, 0x00, 0x00, 0x00, 0x00,
     0x00, 0x00, 0x00, 0x00, 0x00, 0x00, 0x00, 0x00, 0x00, 0x00, 0x00, 0x00, 0x00, 0x00, 0x00, 0x00],
    [0x00, 0x00, 0x00, 0x00, 0x00, 0x00, 0x00, 0x00, 0x00, 0x00, 0x00, 0x00, 0x00, 0x00, 0x00, 0x00, 0x00, 0x00, 0x00, 0x00,
     0x00, 0x00, 0x00, 0x00, 0x00, 0x00, 0x00, 0x00, 0x00, 0x00, 0x00, 0x00, 0x00, 0x00, 0x00, 0x00, 0x00, 0x00, 0x00, 0x00,
     0x00, 0x00, 0x00, 0x00, 0x00, 0x00, 0x00, 0x00, 0x00, 0x00, 0x00, 0x00, 0x00, 0x00, 0x00, 0x00, 0x00, 0x00, 0x00, 0x00,
     0x00, 0x00, 0x00, 0x00, 0x00, 0x00, 0x00, 0x00, 0x00, 0x00, 0x00, 0x00, 0x00, 0x00, 0x00, 0x00, 0x00, 0x00, 0x00, 0x00,
     0x00, 0x00, 0x00, 0x00, 0x00, 0x00, 0x00, 0x00, 0x00, 0x00, 0x00, 0x00, 0x00, 0x00, 0x00, 0x00, 0x00, 0x00, 0x00, 0x00,
     0x00, 0x00, 0x00, 0x00, 0x00, 0x00, 0x00, 0x00, 0x00, 0x00, 0x00, 0x00, 0x00, 0x00, 0x00, 0x00],
    [0x00, 0x00, 0x00, 0x00, 0x00, 0x00, 0x00, 0x00, 0x00, 0x00, 0x00, 0x00, 0x00, 0x00, 0x00, 0x00, 0x00, 0x00, 0x00, 0x00,
     0x00, 0x00, 0x00, 0x00, 0x00, 0x00, 0x00, 0x00, 0x00, 0x00, 0x00, 0x00, 0x00, 0x00, 0x00, 0x00, 0x00, 0x00, 0x00, 0x00,
     0x00, 0x00, 0x00, 0x00, 0x00, 0x00, 0x00, 0x00, 0x00, 0x00, 0x00, 0x00, 0x00, 0x00, 0x00, 0x00, 0x00, 0x00, 0x00, 0x00,
     0x00, 0x00, 0x00, 0x00, 0x00, 0x00, 0x00, 0x00, 0x00, 0x00, 0x00, 0x00, 0x00, 0x00, 0x00, 0x00, 0x00, 0x00, 0x00, 0x00,
     0x00, 0x00, 0x00, 0x00, 0x00, 0x00, 0x00, 0x00, 0x00, 0x00, 0x00, 0x00, 0x00, 0x00, 0x00, 0x00, 0x00, 0x00, 0x00, 0x00,
     0x00, 0x00, 0x00, 0x00, 0x00, 0x00, 0x00, 0x00, 0x00, 0x00, 0x00, 0x00, 0x00, 0x00, 0x00, 0x00]]"

lemma img_jetkvm_map_10_size: "length (concat img_jetkvm_map_10) = 1392"
  by (simp add: img_jetkvm_map_10_def)

definition img_jetkvm_map_11 :: "u8 list list" where
  "img_jetkvm_map_11 = [
    [0xff, 0x80, 0x00, 0x02, 0x00, 0x00, 0x00, 0x00, 0xff, 0x55, 0x55, 0x03, 0xd8, 0x4f, 0x1d, 0x95, 0xdb, 0x4f, 0x1d, 0xff,
     0xe6, 0x53, 0x1f, 0xff, 0xdd, 0x50, 0x1e, 0xff, 0xd8, 0x4e, 0x1d, 0xff, 0xd8, 0x4e, 0x1d, 0xff, 0xd8, 0x4e, 0x1d, 0xff,
     0xd8, 0x4e, 0x1d, 0xff, 0xd8, 0x4e, 0x1d, 0xff, 0xd8, 0x4e, 0x1d, 0xff, 0xd8, 0x4e, 0x1d, 0xff, 0xd8, 0x4e, 0x1d, 0xff,
     0xd8, 0x4e, 0x1d, 0xff, 0xd8, 0x4e, 0x1d, 0xff, 0xd8, 0x4e, 0x1d, 0xff, 0xd8, 0x4e, 0x1d, 0xff, 0xd8, 0x4e, 0x1d, 0xff,
     0xd8, 0x4e, 0x1d, 0xff, 0xd8, 0x4e, 0x1d, 0xff, 0xd8, 0x4e, 0x1d, 0xff, 0xd8, 0x4e, 0x1d, 0xff, 0xd8, 0x4e, 0x1d, 0xff,
     0xdc, 0x4f, 0x1d, 0xff, 0xe5, 0x53, 0x1f, 0xff, 0xe0, 0x51, 0x1e, 0xff, 0xd9, 0x4f, 0x1d, 0xae],
    [0xd7, 0x51, 0x1b, 0x13, 0x00, 0x00, 0x00, 0x00, 0xaa, 0x55, 0x00, 0x03, 0x00, 0x00, 0x00, 0x00, 0x00, 0x00, 0x00, 0x00,
     0x00, 0x00, 0x00, 0x00, 0x00, 0x00, 0x00, 0x00, 0x00, 0x00, 0x00, 0x00, 0x00, 0x00, 0x00, 0x00, 0x00, 0x00, 0x00, 0x00,
     0x00, 0x00, 0x00, 0x00, 0x00, 0x00, 0x00, 0x00, 0x00, 0x00, 0x00, 0x00, 0x00, 0x00, 0x00, 0x00, 0x00, 0x00, 0x00, 0x00,
     0x00, 0x00, 0x00, 0x00, 0x00, 0x00, 0x00, 0x00, 0x00, 0x00, 0x00, 0x00, 0x00, 0x00, 0x00, 0x00, 0x00, 0x00, 0x00, 0x00,
     0x00, 0x00, 0x00, 0x00, 0x00, 0x00, 0x00, 0x00, 0x00, 0x00, 0x00, 0x00, 0x00, 0x00, 0x00, 0x00, 0x00, 0x00, 0x00, 0x00,
     0x00, 0x00, 0x00, 0x00, 0x00, 0x00, 0x00, 0x00, 0x00, 0x00, 0x00, 0x00, 0x00, 0x00, 0x00, 0x00],
    [0x00, 0x00, 0x00, 0x00, 0x00, 0x00, 0x00, 0x00, 0x00, 0x00, 0x00, 0x00, 0x00, 0x00, 0x00, 0x00, 0x00, 0x00, 0x00, 0x00,
     0x00, 0x00, 0x00, 0x00, 0x00, 0x00, 0x00, 0x00, 0x00, 0x00, 0x00, 0x00, 0x00, 0x00, 0x00, 0x00, 0x00, 0x00, 0x00, 0x00,
     0x00, 0x00, 0x00, 0x00, 0x00, 0x00, 0x00, 0x00, 0x00, 0x00, 0x00, 0x00, 0x00, 0x00, 0x00, 0x00, 0x00, 0x00, 0x00, 0x00,
     0x00, 0x00, 0x00, 0x00, 0x00, 0x00, 0x00, 0x00, 0x00, 0x00, 0x00, 0x00, 0x00, 0x00, 0x00, 0x00, 0x00, 0x00, 0x00, 0x00,
     0x00, 0x00, 0x00, 0x00, 0x00, 0x00, 0x00, 0x00, 0x00, 0x00, 0x00, 0x00, 0x00, 0x00, 0x00, 0x00, 0x00, 0x00, 0x00, 0x00,
     0x00, 0x00, 0x00, 0x00, 0x00, 0x00, 0x00, 0x00, 0x00, 0x00, 0x00, 0x00, 0x00, 0x00, 0x00, 0x00],
    [0x00, 0x00, 0x00, 0x00, 0x00, 0x00, 0x00, 0x00, 0x00, 0x00, 0x00, 0x00, 0x00, 0x00, 0x00, 0x00, 0x00, 0x00, 0x00, 0x00,
     0x00, 0x00, 0x00, 0x00, 0x00, 0x00, 0x00, 0x00, 0x00, 0x00, 0x00, 0x00, 0x00, 0x00, 0x00, 0x00, 0x00, 0x00, 0x00, 0x00,
     0x00, 0x00, 0x00, 0x00, 0x00, 0x00, 0x00, 0x00, 0x00, 0x00, 0x00, 0x00, 0x00, 0x00, 0x00, 0x00, 0x00, 0x00, 0x00, 0x00,
     0x00, 0x00, 0x00, 0x00, 0x00, 0x00, 0x00, 0x00, 0x00, 0x00, 0x00, 0x00, 0x00, 0x00, 0x00, 0x00, 0x00, 0x00, 0x00, 0x00,
     0x00, 0x00, 0x00, 0x00, 0x00, 0x00, 0x00, 0x00, 0x00, 0x00, 0x00, 0x00, 0x00, 0x00, 0x00, 0x00, 0x00, 0x00, 0x00, 0x00,
     0x00, 0x00, 0x00, 0x00, 0x00, 0x00, 0x00, 0x00, 0x00, 0x00, 0x00, 0x00, 0x00, 0x00, 0x00, 0x00],
    [0x00, 0x00, 0x00, 0x00, 0xff, 0x80, 0x00, 0x02, 0x00, 0x00, 0x00, 0x00, 0x00, 0x00, 0x00, 0x00, 0xd6, 0x4d, 0x1b, 0x38,
     0xd9, 0x4e, 0x1c, 0x9a, 0xd8, 0x4e, 0x1e, 0xd8, 0xd8, 0x4e, 0x1d, 0xfb, 0xd8, 0x4e, 0x1d, 0xff, 0xd8, 0x4e, 0x1d, 0xff,
     0xd8, 0x4e, 0x1d, 0xff, 0xd8, 0x4e, 0x1d, 0xff, 0xd8, 0x4e, 0x1d, 0xff, 0xd8, 0x4e, 0x1d, 0xff, 0xd8, 0x4e, 0x1d, 0xff,
     0xd8, 0x4e, 0x1d, 0xff, 0xd8, 0x4e, 0x1d, 0xff, 0xd8, 0x4e, 0x1d, 0xff, 0xd8, 0x4e, 0x1d, 0xff, 0xd8, 0x4e, 0x1d, 0xff,
     0xd8, 0x4e, 0x1d, 0xff, 0xd8, 0x4e, 0x1d, 0xff, 0xd8, 0x4e, 0x1d, 0xff, 0xd8, 0x4e, 0x1d, 0xff, 0xd9, 0x4e, 0x1d, 0xfc,
     0xd7, 0x4e, 0x1d, 0xe1, 0xd7, 0x4f, 0x1d, 0xa1, 0xd6, 0x4e, 0x1e, 0x45, 0x00, 0x00, 0x00, 0x00],
    [0x00, 0x00, 0x00, 0x00, 0xaa, 0x55, 0x00, 0x03, 0x00, 0x00, 0x00, 0x00, 0x00, 0x00, 0x00, 0x00, 0x00, 0x00, 0x00, 0x00,
     0x00, 0x00, 0x00, 0x00, 0x00, 0x00, 0x00, 0x00, 0x00, 0x00, 0x00, 0x00, 0x00, 0x00, 0x00, 0x00, 0x00, 0x00, 0x00, 0x00,
     0x00, 0x00, 0x00, 0x00, 0x00, 0x00, 0x00, 0x00, 0x00, 0x00, 0x00, 0x00, 0x00, 0x00, 0x00, 0x00, 0x00, 0x00, 0x00, 0x00,
     0x00, 0x00, 0x00, 0x00, 0x00, 0x00, 0x00, 0x00, 0x00, 0x00, 0x00, 0x00, 0x00, 0x00, 0x00, 0x00, 0x00, 0x00, 0x00, 0x00,
     0x00, 0x00, 0x00, 0x00, 0x00, 0x00, 0x00, 0x00, 0x00, 0x00, 0x00, 0x00, 0x00, 0x00, 0x00, 0x00, 0x00, 0x00, 0x00, 0x00,
     0x00, 0x00, 0x00, 0x00, 0x00, 0x00, 0x00, 0x00, 0x00, 0x00, 0x00, 0x00, 0x00, 0x00, 0x00, 0x00],
    [0x00, 0x00, 0x00, 0x00, 0x00, 0x00, 0x00, 0x00, 0x00, 0x00, 0x00, 0x00, 0x00, 0x00, 0x00, 0x00, 0x00, 0x00, 0x00, 0x00,
     0x00, 0x00, 0x00, 0x00, 0x00, 0x00, 0x00, 0x00, 0x00, 0x00, 0x00, 0x00, 0x00, 0x00, 0x00, 0x00, 0x00, 0x00, 0x00, 0x00,
     0x00, 0x00, 0x00, 0x00, 0x00, 0x00, 0x00, 0x00, 0x00, 0x00, 0x00, 0x00, 0x00, 0x00, 0x00, 0x00, 0x00, 0x00, 0x00, 0x00,
     0x00, 0x00, 0x00, 0x00, 0x00, 0x00, 0x00, 0x00, 0x00, 0x00, 0x00, 0x00, 0x00, 0x00, 0x00, 0x00, 0x00, 0x00, 0x00, 0x00,
     0x00, 0x00, 0x00, 0x00, 0x00, 0x00, 0x00, 0x00, 0x00, 0x00, 0x00, 0x00, 0x00, 0x00, 0x00, 0x00, 0x00, 0x00, 0x00, 0x00,
     0x00, 0x00, 0x00, 0x00, 0x00, 0x00, 0x00, 0x00, 0x00, 0x00, 0x00, 0x00, 0x00, 0x00, 0x00, 0x00],
    [0x00, 0x00, 0x00, 0x00, 0x00, 0x00, 0x00, 0x00, 0x00, 0x00, 0x00, 0x00, 0x00, 0x00, 0x00, 0x00, 0x00, 0x00, 0x00, 0x00,
     0x00, 0x00, 0x00, 0x00, 0x00, 0x00, 0x00, 0x00, 0x00, 0x00, 0x00, 0x00, 0x00, 0x00, 0x00, 0x00, 0x00, 0x00, 0x00, 0x00,
     0x00, 0x00, 0x00, 0x00, 0x00, 0x00, 0x00, 0x00, 0x00, 0x00, 0x00, 0x00, 0x00, 0x00, 0x00, 0x00, 0x00, 0x00, 0x00, 0x00,
     0x00, 0x00, 0x00, 0x00, 0x00, 0x00, 0x00, 0x00, 0x00, 0x00, 0x00, 0x00, 0x00, 0x00, 0x00, 0x00, 0x00, 0x00, 0x00, 0x00,
     0x00, 0x00, 0x00, 0x00, 0x00, 0x00, 0x00, 0x00, 0x00, 0x00, 0x00, 0x00, 0x00, 0x00, 0x00, 0x00, 0x00, 0x00, 0x00, 0x00,
     0x00, 0x00, 0x00, 0x00, 0x00, 0x00, 0x00, 0x00, 0x00, 0x00, 0x00, 0x00, 0x00, 0x00, 0x00, 0x00]]"

lemma img_jetkvm_map_11_size: "length (concat img_jetkvm_map_11) = 928"
  by (simp add: img_jetkvm_map_11_def)

definition img_jetkvm_map :: "u8 list list" where
  "img_jetkvm_map = img_jetkvm_map_1 @ img_jetkvm_map_2 @ img_jetkvm_map_3 @ img_jetkvm_map_4 @ img_jetkvm_map_5 @
     img_jetkvm_map_6 @ img_jetkvm_map_7 @ img_jetkvm_map_8 @ img_jetkvm_map_9 @ img_jetkvm_map_10 @
     img_jetkvm_map_11"

lemma img_jetkvm_map_size: "length (concat img_jetkvm_map) = 14848"
  by (simp add: img_jetkvm_map_def img_jetkvm_map_1_size img_jetkvm_map_2_size img_jetkvm_map_3_size img_jetkvm_map_4_size
      img_jetkvm_map_5_size img_jetkvm_map_6_size img_jetkvm_map_7_size img_jetkvm_map_8_size
      img_jetkvm_map_9_size img_jetkvm_map_10_size img_jetkvm_map_11_size)

definition img_jetkvm :: lv_image_dsc where
  "img_jetkvm = \<lparr>image_cf = LV_COLOR_FORMAT_ARGB8888, image_flags = 0, image_w = 116, image_h = 32, image_stride = 464,
     data_size = length (concat img_jetkvm_map), image_data = concat img_jetkvm_map\<rparr>"

lemma img_jetkvm_ok [images_ok]: "image_ok img_jetkvm"
  by (simp add: image_ok_def img_jetkvm_def img_jetkvm_map_size)

section \<open>logo\<close>

definition img_logo_map_1 :: "u8 list list" where
  "img_logo_map_1 = [
    [0x00, 0x00, 0x00, 0x00, 0xff, 0x80, 0x00, 0x02, 0x00, 0x00, 0x00, 0x00, 0x00, 0x00, 0x00, 0x00, 0xdc, 0x50, 0x1e, 0x33,
     0xd8, 0x4d, 0x1d, 0x98, 0xd8, 0x4e, 0x1c, 0xd9, 0xd9, 0x4e, 0x1c, 0xfc, 0xd8, 0x4e, 0x1d, 0xff, 0xd8, 0x4e, 0x1d, 0xff,
     0xd8, 0x4e, 0x1d, 0xff, 0xd8, 0x4e, 0x1d, 0xff, 0xd8, 0x4e, 0x1d, 0xff, 0xd8, 0x4e, 0x1d, 0xff, 0xd8, 0x4e, 0x1d, 0xff,
     0xd8, 0x4e, 0x1d, 0xff, 0xd8, 0x4e, 0x1d, 0xff, 0xd8, 0x4e, 0x1d, 0xff, 0xd8, 0x4e, 0x1d, 0xff, 0xd8, 0x4e, 0x1d, 0xff,
     0xd8, 0x4e, 0x1d, 0xff, 0xd8, 0x4e, 0x1d, 0xff, 0xd8, 0x4e, 0x1d, 0xff, 0xd8, 0x4e, 0x1d, 0xff, 0xd8, 0x4e, 0x1c, 0xfb,
     0xd8, 0x4e, 0x1d, 0xdf, 0xd8, 0x4e, 0x1e, 0xa3, 0xda, 0x4e, 0x1e, 0x45, 0x00, 0x00, 0x00, 0x00],
    [0x00, 0x00, 0x00, 0x00, 0xff, 0x80, 0x00, 0x02, 0x00, 0x00, 0x00, 0x00, 0x00, 0x00, 0x00, 0x00, 0x00, 0x00, 0x00, 0x00,
     0x00, 0x00, 0x00, 0x00, 0x00, 0x00, 0x00, 0x00, 0x00, 0x00, 0x00, 0x00, 0x00, 0x00, 0x00, 0x00, 0x00, 0x00, 0x00, 0x00,
     0x00, 0x00, 0x00, 0x00, 0x00, 0x00, 0x00, 0x00, 0x00, 0x00, 0x00, 0x00, 0x00, 0x00, 0x00, 0x00, 0x00, 0x00, 0x00, 0x00,
     0x00, 0x00, 0x00, 0x00, 0x00, 0x00, 0x00, 0x00, 0x00, 0x00, 0x00, 0x00, 0x00, 0x00, 0x00, 0x00, 0x00, 0x00, 0x00, 0x00,
     0x00, 0x00, 0x00, 0x00, 0x00, 0x00, 0x00, 0x00, 0x00, 0x00, 0x00, 0x00, 0x00, 0x00, 0x00, 0x00, 0x00, 0x00, 0x00, 0x00,
     0x00, 0x00, 0x00, 0x00, 0x00, 0x00, 0x00, 0x00, 0x00, 0x00, 0x00, 0x00, 0x00, 0x00, 0x00, 0x00],
    [0x00, 0x00, 0x00, 0x00, 0x00, 0x00, 0x00, 0x00, 0x00, 0x00, 0x00, 0x00, 0x00, 0x00, 0x00, 0x00, 0x00, 0x00, 0x00, 0x00,
     0x00, 0x00, 0x00, 0x00, 0x00, 0x00, 0x00, 0x00, 0x00, 0x00, 0x00, 0x00, 0x00, 0x00, 0x00, 0x00, 0x00, 0x00, 0x00, 0x00,
     0x00, 0x00, 0x00, 0x00, 0x00, 0x00, 0x00, 0x00, 0x00, 0x00, 0x00, 0x00, 0x00, 0x00, 0x00, 0x00, 0x00, 0x00, 0x00, 0x00,
     0x00, 0x00, 0x00, 0x00, 0x00, 0x00, 0x00, 0x00, 0x00, 0x00, 0x00, 0x00, 0x00, 0x00, 0x00, 0x00, 0x00, 0x00, 0x00, 0x00,
     0x00, 0x00, 0x00, 0x00, 0x00, 0x00, 0x00, 0x00, 0x00, 0x00, 0x00, 0x00, 0x00, 0x00, 0x00, 0x00, 0x00, 0x00, 0x00, 0x00,
     0x00, 0x00, 0x00, 0x00, 0x00, 0x00, 0x00, 0x00, 0x00, 0x00, 0x00, 0x00, 0x00, 0x00, 0x00, 0x00],
    [0x00, 0x00, 0x00, 0x00, 0x00, 0x00, 0x00, 0x00, 0x00, 0x00, 0x00, 0x00, 0x00, 0x00, 0x00, 0x00, 0x00, 0x00, 0x00, 0x00,
     0x00, 0x00, 0x00, 0x00, 0x00, 0x00, 0x00, 0x00, 0x00, 0x00, 0x00, 0x00, 0x00, 0x00, 0x00, 0x00, 0x00, 0x00, 0x00, 0x00,
     0x00, 0x00, 0x00, 0x00, 0x00, 0x00, 0x00, 0x00, 0x00, 0x00, 0x00, 0x00, 0x00, 0x00, 0x00, 0x00, 0x00, 0x00, 0x00, 0x00,
     0x00, 0x00, 0x00, 0x00, 0x00, 0x00, 0x00, 0x00, 0x00, 0x00, 0x00, 0x00, 0x00, 0x00, 0x00, 0x00, 0x00, 0x00, 0x00, 0x00,
     0x00, 0x00, 0x00, 0x00, 0x00, 0x00, 0x00, 0x00, 0x00, 0x00, 0x00, 0x00, 0x00, 0x00, 0x00, 0x00, 0x00, 0x00, 0x00, 0x00,
     0x00, 0x00, 0x00, 0x00, 0x00, 0x00, 0x00, 0x00, 0x00, 0x00, 0x00, 0x00, 0x00, 0x00, 0x00, 0x00],
    [0xff, 0x80, 0x00, 0x02, 0x00, 0x00, 0x00, 0x00, 0xff, 0x55, 0x00, 0x03, 0xd8, 0x4f, 0x1d, 0x95, 0xda, 0x4f, 0x1d, 0xff,
     0xe5, 0x53, 0x1f, 0xff, 0xdd, 0x50, 0x1e, 0xff, 0xd8, 0x4e, 0x1d, 0xff, 0xd8, 0x4e, 0x1d, 0xff, 0xd8, 0x4e, 0x1d, 0xff,
     0xd8, 0x4e, 0x1d, 0xff, 0xd8, 0x4e, 0x1d, 0xff, 0xd8, 0x4e, 0x1d, 0xff, 0xd8, 0x4e, 0x1d, 0xff, 0xd8, 0x4e, 0x1d, 0xff,
     0xd8, 0x4e, 0x1d, 0xff, 0xd8, 0x4e, 0x1d, 0xff, 0xd8, 0x4e, 0x1d, 0xff, 0xd8, 0x4e, 0x1d, 0xff, 0xd8, 0x4e, 0x1d, 0xff,
     0xd8, 0x4e, 0x1d, 0xff, 0xd8, 0x4e, 0x1d, 0xff, 0xd8, 0x4e, 0x1d, 0xff, 0xd8, 0x4e, 0x1d, 0xff, 0xd8, 0x4e, 0x1d, 0xff,
     0xdc, 0x4f, 0x1d, 0xff, 0xe5, 0x53, 0x1f, 0xff, 0xde, 0x50, 0x1e, 0xff, 0xd8, 0x4e, 0x1e, 0xa4],
    [0xd9, 0x4d, 0x1a, 0x14, 0x00, 0x00, 0x00, 0x00, 0xff, 0x80, 0x00, 0x02, 0x00, 0x00, 0x00, 0x00, 0x00, 0x00, 0x00, 0x00,
     0x00, 0x00, 0x00, 0x00, 0x00, 0x00, 0x00, 0x00, 0x00, 0x00, 0x00, 0x00, 0x00, 0x00, 0x00, 0x00, 0x00, 0x00, 0x00, 0x00,
     0x00, 0x00, 0x00, 0x00, 0x00, 0x00, 0x00, 0x00, 0x00, 0x00, 0x00, 0x00, 0x00, 0x00, 0x00, 0x00, 0x00, 0x00, 0x00, 0x00,
     0x00, 0x00, 0x00, 0x00, 0x00, 0x00, 0x00, 0x00, 0x00, 0x00, 0x00, 0x00, 0x00, 0x00, 0x00, 0x00, 0x00, 0x00, 0x00, 0x00,
     0x00, 0x00, 0x00, 0x00, 0x00, 0x00, 0x00, 0x00, 0x00, 0x00, 0x00, 0x00, 0x00, 0x00, 0x00, 0x00, 0x00, 0x00, 0x00, 0x00,
     0x00, 0x00, 0x00, 0x00, 0x00, 0x00, 0x00, 0x00, 0x00, 0x00, 0x00, 0x00, 0x00, 0x00, 0x00, 0x00],
    [0x00, 0x00, 0x00, 0x00, 0x00, 0x00, 0x00, 0x00, 0x00, 0x00, 0x00, 0x00, 0x00, 0x00, 0x00, 0x00, 0x00, 0x00, 0x00, 0x00,
     0x00, 0x00, 0x00, 0x00, 0x00, 0x00, 0x00, 0x00, 0x00, 0x00, 0x00, 0x00, 0x00, 0x00, 0x00, 0x00, 0x00, 0x00, 0x00, 0x00,
     0x00, 0x00, 0x00, 0x00, 0x00, 0x00, 0x00, 0x00, 0x00, 0x00, 0x00, 0x00, 0x00, 0x00, 0x00, 0x00, 0x00, 0x00, 0x00, 0x00,
     0x00, 0x00, 0x00, 0x00, 0x00, 0x00, 0x00, 0x00, 0x00, 0x00, 0x00, 0x00, 0x00, 0x00, 0x00, 0x00, 0x00, 0x00, 0x00, 0x00,
     0x00, 0x00, 0x00, 0x00, 0x00, 0x00, 0x00, 0x00, 0x00, 0x00, 0x00, 0x00, 0x00, 0x00, 0x00, 0x00, 0x00, 0x00, 0x00, 0x00,
     0x00, 0x00, 0x00, 0x00, 0x00, 0x00, 0x00, 0x00, 0x00, 0x00, 0x00, 0x00, 0x00, 0x00, 0x00, 0x00],
    [0x00, 0x00, 0x00, 0x00, 0x00, 0x00, 0x00, 0x00, 0x00, 0x00, 0x00, 0x00, 0x00, 0x00, 0x00, 0x00, 0x00, 0x00, 0x00, 0x00,
     0x00, 0x00, 0x00, 0x00, 0x00, 0x00, 0x00, 0x00, 0x00, 0x00, 0x00, 0x00, 0x00, 0x00, 0x00, 0x00, 0x00, 0x00, 0x00, 0x00,
     0x00, 0x00, 0x00, 0x00, 0x00, 0x00, 0x00, 0x00, 0x00, 0x00, 0x00, 0x00, 0x00, 0x00, 0x00, 0x00, 0x00, 0x00, 0x00, 0x00,
     0x00, 0x00, 0x00, 0x00, 0x00, 0x00, 0x00, 0x00, 0x00, 0x00, 0x00, 0x00, 0x00, 0x00, 0x00, 0x00, 0x00, 0x00, 0x00, 0x00,
     0x00, 0x00, 0x00, 0x00, 0x00, 0x00, 0x00, 0x00, 0x00, 0x00, 0x00, 0x00, 0x00, 0x00, 0x00, 0x00, 0x00, 0x00, 0x00, 0x00,
     0x00, 0x00, 0x00, 0x00, 0x00, 0x00, 0x00, 0x00, 0x00, 0x00, 0x00, 0x00, 0x00, 0x00, 0x00, 0x00],
    [0x00, 0x00, 0x00, 0x00, 0xff, 0x55, 0x00, 0x03, 0xd8, 0x4f, 0x1d, 0xb2, 0xe9, 0x54, 0x1f, 0xff, 0xd8, 0x4e, 0x1d, 0xfe,
     0xd8, 0x4e, 0x1c, 0xfb, 0xd8, 0x4e, 0x1d, 0xfe, 0xd8, 0x4e, 0x1d, 0xff, 0xd8, 0x4e, 0x1d, 0xff, 0xd8, 0x4e, 0x1d, 0xff,
     0xd8, 0x4e, 0x1d, 0xff, 0xd8, 0x4e, 0x1d, 0xff, 0xd8, 0x4e, 0x1d, 0xff, 0xd8, 0x4e, 0x1d, 0xff, 0xd8, 0x4e, 0x1d, 0xff,
     0xd8, 0x4e, 0x1d, 0xff, 0xd8, 0x4e, 0x1d, 0xff, 0xd8, 0x4e, 0x1d, 0xff, 0xd8, 0x4e, 0x1d, 0xff, 0xd8, 0x4e, 0x1d, 0xff,
     0xd8, 0x4e, 0x1d, 0xff, 0xd8, 0x4e, 0x1d, 0xff, 0xd8, 0x4e, 0x1d, 0xff, 0xd8, 0x4e, 0x1d, 0xff, 0xd8, 0x4e, 0x1d, 0xff,
     0xd8, 0x4e, 0x1d, 0xfe, 0xd8, 0x4e, 0x1c, 0xfb, 0xd8, 0x4e, 0x1d, 0xfd, 0xe7, 0x53, 0x1f, 0xff],
    [0xd8, 0x4f, 0x1d, 0xd9, 0xde, 0x4e, 0x21, 0x17, 0x00, 0x00, 0x00, 0x00, 0xff, 0x80, 0x00, 0x02, 0x00, 0x00, 0x00, 0x00,
     0x00, 0x00, 0x00, 0x00, 0x00, 0x00, 0x00, 0x00, 0x00, 0x00, 0x00, 0x00, 0x00, 0x00, 0x00, 0x00, 0x00, 0x00, 0x00, 0x00,
     0x00, 0x00, 0x00, 0x00, 0x00, 0x00, 0x00, 0x00, 0x00, 0x00, 0x00, 0x00, 0x00, 0x00, 0x00, 0x00, 0x00, 0x00, 0x00, 0x00,
     0x00, 0x00, 0x00, 0x00, 0x00, 0x00, 0x00, 0x00, 0x00, 0x00, 0x00, 0x00, 0x00, 0x00, 0x00, 0x00, 0x00, 0x00, 0x00, 0x00,
     0x00, 0x00, 0x00, 0x00, 0x00, 0x00, 0x00, 0x00, 0x00, 0x00, 0x00, 0x00, 0x00, 0x00, 0x00, 0x00, 0x00, 0x00, 0x00, 0x00,
     0x00, 0x00, 0x00, 0x00, 0x00, 0x00, 0x00, 0x00, 0x00, 0x00, 0x00, 0x00, 0x00, 0x00, 0x00, 0x00],
    [0x00, 0x00, 0x00, 0x00, 0x00, 0x00, 0x00, 0x00, 0x00, 0x00, 0x00, 0x00, 0x00, 0x00, 0x00, 0x00, 0x00, 0x00, 0x00, 0x00,
     0x00, 0x00, 0x00, 0x00, 0x00, 0x00, 0x00, 0x00, 0x00, 0x00, 0x00, 0x00, 0x00, 0x00, 0x00, 0x00, 0x00, 0x00, 0x00, 0x00,
     0x00, 0x00, 0x00, 0x00, 0x00, 0x00, 0x00, 0x00, 0x00, 0x00, 0x00, 0x00, 0x00, 0x00, 0x00, 0x00, 0x00, 0x00, 0x00, 0x00,
     0x00, 0x00, 0x00, 0x00, 0x00, 0x00, 0x00, 0x00, 0x00, 0x00, 0x00, 0x00, 0x00, 0x00, 0x00, 0x00, 0x00, 0x00, 0x00, 0x00,
     0x00, 0x00, 0x00, 0x00, 0x00, 0x00, 0x00, 0x00, 0x00, 0x00, 0x00, 0x00, 0x00, 0x00, 0x00, 0x00, 0x00, 0x00, 0x00, 0x00,
     0x00, 0x00, 0x00, 0x00, 0x00, 0x00, 0x00, 0x00, 0x00, 0x00, 0x00, 0x00, 0x00, 0x00, 0x00, 0x00],
    [0x00, 0x00, 0x00, 0x00, 0x00, 0x00, 0x00, 0x00, 0x00, 0x00, 0x00, 0x00, 0x00, 0x00, 0x00, 0x00, 0x00, 0x00, 0x00, 0x00,
     0x00, 0x00, 0x00, 0x00, 0x00, 0x00, 0x00, 0x00, 0x00, 0x00, 0x00, 0x00, 0x00, 0x00, 0x00, 0x00, 0x00, 0x00, 0x00, 0x00,
     0x00, 0x00, 0x00, 0x00, 0x00, 0x00, 0x00, 0x00, 0x00, 0x00, 0x00, 0x00, 0x00, 0x00, 0x00, 0x00, 0x00, 0x00, 0x00, 0x00,
     0x00, 0x00, 0x00, 0x00, 0x00, 0x00, 0x00, 0x00, 0x00, 0x00, 0x00, 0x00, 0x00, 0x00, 0x00, 0x00, 0x00, 0x00, 0x00, 0x00,
     0x00, 0x00, 0x00, 0x00, 0x00, 0x00, 0x00, 0x00, 0x00, 0x00, 0x00, 0x00, 0x00, 0x00, 0x00, 0x00, 0x00, 0x00, 0x00, 0x00,
     0x00, 0x00, 0x00, 0x00, 0x00, 0x00, 0x00, 0x00, 0x00, 0x00, 0x00, 0x00, 0x00, 0x00, 0x00, 0x00]]"

lemma img_logo_map_1_size: "length (concat img_logo_map_1) = 1392"
  by (simp add: img_logo_map_1_def)

definition img_logo_map_2 :: "u8 list list" where
  "img_logo_map_2 = [
    [0x00, 0x00, 0x00, 0x00, 0xd9, 0x4e, 0x1d, 0x94, 0xea, 0x55, 0x1f, 0xff, 0xd8, 0x4e, 0x1d, 0xf9, 0xd8, 0x4e, 0x1d, 0xfe,
     0xd8, 0x4e, 0x1d, 0xff, 0xd8, 0x4e, 0x1d, 0xff, 0xd8, 0x4e, 0x1d, 0xff, 0xd8, 0x4e, 0x1d, 0xff, 0xd8, 0x4e, 0x1d, 0xff,
     0xd8, 0x4e, 0x1d, 0xff, 0xd8, 0x4e, 0x1d, 0xff, 0xd8, 0x4e, 0x1d, 0xff, 0xd8, 0x4e, 0x1d, 0xff, 0xd8, 0x4e, 0x1d, 0xff,
     0xd8, 0x4e, 0x1d, 0xff, 0xd8, 0x4e, 0x1d, 0xff, 0xd8, 0x4e, 0x1d, 0xff, 0xd8, 0x4e, 0x1d, 0xff, 0xd8, 0x4e, 0x1d, 0xff,
     0xd8, 0x4e, 0x1d, 0xff, 0xd8, 0x4e, 0x1d, 0xff, 0xd8, 0x4e, 0x1d, 0xff, 0xd8, 0x4e, 0x1d, 0xff, 0xd8, 0x4e, 0x1d, 0xff,
     0xd8, 0x4e, 0x1d, 0xff, 0xd8, 0x4e, 0x1d, 0xff, 0xd8, 0x4e, 0x1d, 0xff, 0xd8, 0x4e, 0x1d, 0xf9],
    [0xe7, 0x53, 0x1f, 0xff, 0xd8, 0x4e, 0x1c, 0xb6, 0x00, 0x00, 0x00, 0x00, 0xff, 0x00, 0x00, 0x01, 0x00, 0x00, 0x00, 0x00,
     0x00, 0x00, 0x00, 0x00, 0x00, 0x00, 0x00, 0x00, 0x00, 0x00, 0x00, 0x00, 0x00, 0x00, 0x00, 0x00, 0x00, 0x00, 0x00, 0x00,
     0x00, 0x00, 0x00, 0x00, 0x00, 0x00, 0x00, 0x00, 0x00, 0x00, 0x00, 0x00, 0x00, 0x00, 0x00, 0x00, 0x00, 0x00, 0x00, 0x00,
     0x00, 0x00, 0x00, 0x00, 0x00, 0x00, 0x00, 0x00, 0x00, 0x00, 0x00, 0x00, 0x00, 0x00, 0x00, 0x00, 0x00, 0x00, 0x00, 0x00,
     0x00, 0x00, 0x00, 0x00, 0x00, 0x00, 0x00, 0x00, 0x00, 0x00, 0x00, 0x00, 0x00, 0x00, 0x00, 0x00, 0x00, 0x00, 0x00, 0x00,
     0x00, 0x00, 0x00, 0x00, 0x00, 0x00, 0x00, 0x00, 0x00, 0x00, 0x00, 0x00, 0x00, 0x00, 0x00, 0x00],
    [0x00, 0x00, 0x00, 0x00, 0x00, 0x00, 0x00, 0x00, 0x00, 0x00, 0x00, 0x00, 0x00, 0x00, 0x00, 0x00, 0x00, 0x00, 0x00, 0x00,
     0x00, 0x00, 0x00, 0x00, 0x00, 0x00, 0x00, 0x00, 0x00, 0x00, 0x00, 0x00, 0x00, 0x00, 0x00, 0x00, 0x00, 0x00, 0x00, 0x00,
     0x00, 0x00, 0x00, 0x00, 0x00, 0x00, 0x00, 0x00, 0x00, 0x00, 0x00, 0x00, 0x00, 0x00, 0x00, 0x00, 0x00, 0x00, 0x00, 0x00,
     0x00, 0x00, 0x00, 0x00, 0x00, 0x00, 0x00, 0x00, 0x00, 0x00, 0x00, 0x00, 0x00, 0x00, 0x00, 0x00, 0x00, 0x00, 0x00, 0x00,
     0x00, 0x00, 0x00, 0x00, 0x00, 0x00, 0x00, 0x00, 0x00, 0x00, 0x00, 0x00, 0x00, 0x00, 0x00, 0x00, 0x00, 0x00, 0x00, 0x00,
     0x00, 0x00, 0x00, 0x00, 0x00, 0x00, 0x00, 0x00, 0x00, 0x00, 0x00, 0x00, 0x00, 0x00, 0x00, 0x00],
    [0x00, 0x00, 0x00, 0x00, 0x00, 0x00, 0x00, 0x00, 0x00, 0x00, 0x00, 0x00, 0x00, 0x00, 0x00, 0x00, 0x00, 0x00, 0x00, 0x00,
     0x00, 0x00, 0x00, 0x00, 0x00, 0x00, 0x00, 0x00, 0x00, 0x00, 0x00, 0x00, 0x00, 0x00, 0x00, 0x00, 0x00, 0x00, 0x00, 0x00,
     0x00, 0x00, 0x00, 0x00, 0x00, 0x00, 0x00, 0x00, 0x00, 0x00, 0x00, 0x00, 0x00, 0x00, 0x00, 0x00, 0x00, 0x00, 0x00, 0x00,
     0x00, 0x00, 0x00, 0x00, 0x00, 0x00, 0x00, 0x00, 0x00, 0x00, 0x00, 0x00, 0x00, 0x00, 0x00, 0x00, 0x00, 0x00, 0x00, 0x00,
     0x00, 0x00, 0x00, 0x00, 0x00, 0x00, 0x00, 0x00, 0x00, 0x00, 0x00, 0x00, 0x00, 0x00, 0x00, 0x00, 0x00, 0x00, 0x00, 0x00,
     0x00, 0x00, 0x00, 0x00, 0x00, 0x00, 0x00, 0x00, 0x00, 0x00, 0x00, 0x00, 0x00, 0x00, 0x00, 0x00],
    [0xda, 0x4f, 0x1c, 0x37, 0xdb, 0x4f, 0x1d, 0xff, 0xd8, 0x4e, 0x1d, 0xfe, 0xd8, 0x4e, 0x1d, 0xfe, 0xd8, 0x4e, 0x1d, 0xff,
     0xd8, 0x4e, 0x1d, 0xff, 0xd8, 0x4e, 0x1d, 0xff, 0xd8, 0x4e, 0x1d, 0xff, 0xd8, 0x4e, 0x1d, 0xff, 0xd8, 0x4e, 0x1d, 0xff,
     0xd8, 0x4e, 0x1d, 0xff, 0xd8, 0x4e, 0x1d, 0xff, 0xd8, 0x4e, 0x1d, 0xff, 0xd8, 0x4e, 0x1d, 0xff, 0xd8, 0x4e, 0x1d, 0xff,
     0xd8, 0x4e, 0x1d, 0xff, 0xd8, 0x4e, 0x1d, 0xff, 0xd8, 0x4e, 0x1d, 0xff, 0xd8, 0x4e, 0x1d, 0xff, 0xd8, 0x4e, 0x1d, 0xff,
     0xd8, 0x4e, 0x1d, 0xff, 0xd8, 0x4e, 0x1d, 0xff, 0xd8, 0x4e, 0x1d, 0xff, 0xd8, 0x4e, 0x1d, 0xff, 0xd8, 0x4e, 0x1d, 0xff,
     0xd8, 0x4e, 0x1d, 0xff, 0xd8, 0x4e, 0x1d, 0xff, 0xd8, 0x4e, 0x1d, 0xff, 0xd8, 0x4e, 0x1d, 0xff],
    [0xd7, 0x4e, 0x1c, 0xfb, 0xe5, 0x52, 0x1f, 0xff, 0xda, 0x4d, 0x1d, 0x59, 0x00, 0x00, 0x00, 0x00, 0xbf, 0x40, 0x00, 0x04,
     0x00, 0x00, 0x00, 0x00, 0x00, 0x00, 0x00, 0x00, 0x00, 0x00, 0x00, 0x00, 0x00, 0x00, 0x00, 0x00, 0x00, 0x00, 0x00, 0x00,
     0x00, 0x00, 0x00, 0x00, 0x00, 0x00, 0x00, 0x00, 0x00, 0x00, 0x00, 0x00, 0x00, 0x00, 0x00, 0x00, 0x00, 0x00, 0x00, 0x00,
     0x00, 0x00, 0x00, 0x00, 0x00, 0x00, 0x00, 0x00, 0x00, 0x00, 0x00, 0x00, 0x00, 0x00, 0x00, 0x00, 0x00, 0x00, 0x00, 0x00,
     0x00, 0x00, 0x00, 0x00, 0x00, 0x00, 0x00, 0x00, 0x00, 0x00, 0x00, 0x00, 0x00, 0x00, 0x00, 0x00, 0x00, 0x00, 0x00, 0x00,
     0x00, 0x00, 0x00, 0x00, 0x00, 0x00, 0x00, 0x00, 0x00, 0x00, 0x00, 0x00, 0x00, 0x00, 0x00, 0x00],
    [0x00, 0x00, 0x00, 0x00, 0x00, 0x00, 0x00, 0x00, 0x00, 0x00, 0x00, 0x00, 0x00, 0x00, 0x00, 0x00, 0x00, 0x00, 0x00, 0x00,
     0x00, 0x00, 0x00, 0x00, 0x00, 0x00, 0x00, 0x00, 0x00, 0x00, 0x00, 0x00, 0x00, 0x00, 0x00, 0x00, 0x00, 0x00, 0x00, 0x00,
     0x00, 0x00, 0x00, 0x00, 0x00, 0x00, 0x00, 0x00, 0x00, 0x00, 0x00, 0x00, 0x00, 0x00, 0x00, 0x00, 0x00, 0x00, 0x00, 0x00,
     0x00, 0x00, 0x00, 0x00, 0x00, 0x00, 0x00, 0x00, 0x00, 0x00, 0x00, 0x00, 0x00, 0x00, 0x00, 0x00, 0x00, 0x00, 0x00, 0x00,
     0x00, 0x00, 0x00, 0x00, 0x00, 0x00, 0x00, 0x00, 0x00, 0x00, 0x00, 0x00, 0x00, 0x00, 0x00, 0x00, 0x00, 0x00, 0x00, 0x00,
     0x00, 0x00, 0x00, 0x00, 0x00, 0x00, 0x00, 0x00, 0x00, 0x00, 0x00, 0x00, 0x00, 0x00, 0x00, 0x00],
    [0x00, 0x00, 0x00, 0x00, 0x00, 0x00, 0x00, 0x00, 0x00, 0x00, 0x00, 0x00, 0x00, 0x00, 0x00, 0x00, 0x00, 0x00, 0x00, 0x00,
     0x00, 0x00, 0x00, 0x00, 0x00, 0x00, 0x00, 0x00, 0x00, 0x00, 0x00, 0x00, 0x00, 0x00, 0x00, 0x00, 0x00, 0x00, 0x00, 0x00,
     0x00, 0x00, 0x00, 0x00, 0x00, 0x00, 0x00, 0x00, 0x00, 0x00, 0x00, 0x00, 0x00, 0x00, 0x00, 0x00, 0x00, 0x00, 0x00, 0x00,
     0x00, 0x00, 0x00, 0x00, 0x00, 0x00, 0x00, 0x00, 0x00, 0x00, 0x00, 0x00, 0x00, 0x00, 0x00, 0x00, 0x00, 0x00, 0x00, 0x00,
     0x00, 0x00, 0x00, 0x00, 0x00, 0x00, 0x00, 0x00, 0x00, 0x00, 0x00, 0x00, 0x00, 0x00, 0x00, 0x00, 0x00, 0x00, 0x00, 0x00,
     0x00, 0x00, 0x00, 0x00, 0x00, 0x00, 0x00, 0x00, 0x00, 0x00, 0x00, 0x00, 0x00, 0x00, 0x00, 0x00],
    [0xd8, 0x4e, 0x1d, 0x9d, 0xe6, 0x53, 0x1f, 0xff, 0xd7, 0x4e, 0x1c, 0xfb, 0xd8, 0x4e, 0x1d, 0xff, 0xd8, 0x4e, 0x1d, 0xff,
     0xd8, 0x4e, 0x1d, 0xff, 0xd8, 0x4e, 0x1d, 0xff, 0xd8, 0x4e, 0x1d, 0xff, 0xd8, 0x4e, 0x1d, 0xff, 0xd8, 0x4e, 0x1d, 0xff,
     0xd8, 0x4e, 0x1d, 0xff, 0xd8, 0x4e, 0x1d, 0xff, 0xd8, 0x4e, 0x1d, 0xff, 0xd8, 0x4e, 0x1d, 0xff, 0xd8, 0x4f, 0x1f, 0xff,
     0xd8, 0x50, 0x21, 0xff, 0xd8, 0x50, 0x22, 0xff, 0xd8, 0x4f, 0x20, 0xff, 0xd8, 0x4e, 0x1d, 0xff, 0xd8, 0x4e, 0x1d, 0xff,
     0xd8, 0x4e, 0x1d, 0xff, 0xd8, 0x4e, 0x1d, 0xff, 0xd8, 0x4e, 0x1d, 0xff, 0xd8, 0x4e, 0x1d, 0xff, 0xd8, 0x4e, 0x1d, 0xff,
     0xd8, 0x4e, 0x1d, 0xff, 0xd8, 0x4e, 0x1d, 0xff, 0xd8, 0x4e, 0x1d, 0xff, 0xd8, 0x4e, 0x1d, 0xff],
    [0xd8, 0x4e, 0x1c, 0xfb, 0xe3, 0x52, 0x1e, 0xff, 0xd9, 0x4f, 0x1e, 0xb5, 0x00, 0x00, 0x00, 0x00, 0xff, 0x00, 0x00, 0x01,
     0x00, 0x00, 0x00, 0x00, 0x00, 0x00, 0x00, 0x00, 0x00, 0x00, 0x00, 0x00, 0x00, 0x00, 0x00, 0x00, 0x00, 0x00, 0x00, 0x00,
     0x00, 0x00, 0x00, 0x00, 0x00, 0x00, 0x00, 0x00, 0x00, 0x00, 0x00, 0x00, 0x00, 0x00, 0x00, 0x00, 0x00, 0x00, 0x00, 0x00,
     0x00, 0x00, 0x00, 0x00, 0xff, 0xff, 0xff, 0x01, 0x00, 0x00, 0x00, 0x00, 0x00, 0x00, 0x00, 0x00, 0x00, 0x00, 0x00, 0x00,
     0x00, 0x00, 0x00, 0x00, 0x00, 0x00, 0x00, 0x00, 0x00, 0x00, 0x00, 0x00, 0x00, 0x00, 0x00, 0x00, 0x00, 0x00, 0x00, 0x00,
     0x00, 0x00, 0x00, 0x00, 0x00, 0x00, 0x00, 0x00, 0x00, 0x00, 0x00, 0x00, 0x00, 0x00, 0x00, 0x00],
    [0x00, 0x00, 0x00, 0x00, 0x00, 0x00, 0x00, 0x00, 0x00, 0x00, 0x00, 0x00, 0x00, 0x00, 0x00, 0x00, 0x00, 0x00, 0x00, 0x00,
     0x00, 0x00, 0x00, 0x00, 0x00, 0x00, 0x00, 0x00, 0x00, 0x00, 0x00, 0x00, 0x00, 0x00, 0x00, 0x00, 0x00, 0x00, 0x00, 0x00,
     0x00, 0x00, 0x00, 0x00, 0x00, 0x00, 0x00, 0x00, 0x00, 0x00, 0x00, 0x00, 0xff, 0xff, 0xff, 0x01, 0x00, 0x00, 0x00, 0x00,
     0x00, 0x00, 0x00, 0x00, 0x00, 0x00, 0x00, 0x00, 0x00, 0x00, 0x00, 0x00, 0x00, 0x00, 0x00, 0x00, 0x00, 0x00, 0x00, 0x00,
     0x00, 0x00, 0x00, 0x00, 0x00, 0x00, 0x00, 0x00, 0x00, 0x00, 0x00, 0x00, 0x00, 0x00, 0x00, 0x00, 0x00, 0x00, 0x00, 0x00,
     0x00, 0x00, 0x00, 0x00, 0xff, 0xff, 0xff, 0x01, 0x00, 0x00, 0x00, 0x00, 0x00, 0x00, 0x00, 0x00],
    [0x00, 0x00, 0x00, 0x00, 0x00, 0x00, 0x00, 0x00, 0x00, 0x00, 0x00, 0x00, 0x00, 0x00, 0x00, 0x00, 0x00, 0x00, 0x00, 0x00,
     0x00, 0x00, 0x00, 0x00, 0x00, 0x00, 0x00, 0x00, 0x00, 0x00, 0x00, 0x00, 0x00, 0x00, 0x00, 0x00, 0x00, 0x00, 0x00, 0x00,
     0x00, 0x00, 0x00, 0x00, 0x00, 0x00, 0x00, 0x00, 0x00, 0x00, 0x00, 0x00, 0x00, 0x00, 0x00, 0x00, 0x00, 0x00, 0x00, 0x00,
     0x00, 0x00, 0x00, 0x00, 0x00, 0x00, 0x00, 0x00, 0x00, 0x00, 0x00, 0x00, 0x00, 0x00, 0x00, 0x00, 0x00, 0x00, 0x00, 0x00,
     0x00, 0x00, 0x00, 0x00, 0x00, 0x00, 0x00, 0x00, 0x00, 0x00, 0x00, 0x00, 0x00, 0x00, 0x00, 0x00, 0x00, 0x00, 0x00, 0x00,
     0x00, 0x00, 0x00, 0x00, 0x00, 0x00, 0x00, 0x00, 0x00, 0x00, 0x00, 0x00, 0x00, 0x00, 0x00, 0x00]]"

lemma img_logo_map_2_size: "length (concat img_logo_map_2) = 1392"
  by (simp add: img_logo_map_2_def)

definition img_logo_map_3 :: "u8 list list" where
  "img_logo_map_3 = [
    [0xd9, 0x4f, 0x1d, 0xdc, 0xdc, 0x50, 0x1d, 0xff, 0xd8, 0x4e, 0x1d, 0xfe, 0xd8, 0x4e, 0x1d, 0xff, 0xd8, 0x4e, 0x1d, 0xff,
     0xd8, 0x4e, 0x1d, 0xff, 0xd8, 0x4e, 0x1d, 0xff, 0xd8, 0x4e, 0x1d, 0xff, 0xd8, 0x4e, 0x1d, 0xff, 0xd8, 0x4e, 0x1d, 0xff,
     0xd8, 0x4e, 0x1d, 0xff, 0xd8, 0x4e, 0x1c, 0xff, 0xd8, 0x51, 0x24, 0xff, 0xd9, 0x55, 0x2f, 0xff, 0xd8, 0x4e, 0x21, 0xff,
     0xd7, 0x48, 0x00, 0xff, 0xd7, 0x47, 0x00, 0xff, 0xd8, 0x4d, 0x1d, 0xff, 0xd8, 0x54, 0x2e, 0xff, 0xd8, 0x52, 0x26, 0xff,
     0xd8, 0x4e, 0x1c, 0xff, 0xd8, 0x4e, 0x1d, 0xff, 0xd8, 0x4e, 0x1d, 0xff, 0xd8, 0x4e, 0x1d, 0xff, 0xd8, 0x4e, 0x1d, 0xff,
     0xd8, 0x4e, 0x1d, 0xff, 0xd8, 0x4e, 0x1d, 0xff, 0xd8, 0x4e, 0x1d, 0xff, 0xd8, 0x4e, 0x1d, 0xff],
    [0xd8, 0x4e, 0x1d, 0xfe, 0xda, 0x4f, 0x1d, 0xff, 0xd9, 0x4f, 0x1d, 0xf0, 0xd9, 0x4d, 0x1a, 0x14, 0x00, 0x00, 0x00, 0x00,
     0xff, 0x00, 0x00, 0x01, 0x00, 0x00, 0x00, 0x00, 0x00, 0x00, 0x00, 0x00, 0x00, 0x00, 0x00, 0x00, 0x00, 0x00, 0x00, 0x00,
     0x00, 0x00, 0x00, 0x00, 0x00, 0x00, 0x00, 0x00, 0x00, 0x00, 0x00, 0x00, 0x00, 0x00, 0x00, 0x00, 0x00, 0x00, 0x00, 0x00,
     0x00, 0x00, 0x00, 0x00, 0x00, 0x00, 0x00, 0x00, 0x00, 0x00, 0x00, 0x00, 0x00, 0x00, 0x00, 0x00, 0x00, 0x00, 0x00, 0x00,
     0x00, 0x00, 0x00, 0x00, 0x00, 0x00, 0x00, 0x00, 0x00, 0x00, 0x00, 0x00, 0x00, 0x00, 0x00, 0x00, 0x00, 0x00, 0x00, 0x00,
     0x00, 0x00, 0x00, 0x00, 0x00, 0x00, 0x00, 0x00, 0x00, 0x00, 0x00, 0x00, 0x00, 0x00, 0x00, 0x00],
    [0x00, 0x00, 0x00, 0x00, 0x00, 0x00, 0x00, 0x00, 0x00, 0x00, 0x00, 0x00, 0x00, 0x00, 0x00, 0x00, 0x00, 0x00, 0x00, 0x00,
     0x00, 0x00, 0x00, 0x00, 0x00, 0x00, 0x00, 0x00, 0x00, 0x00, 0x00, 0x00, 0x00, 0x00, 0x00, 0x00, 0x00, 0x00, 0x00, 0x00,
     0x00, 0x00, 0x00, 0x00, 0x00, 0x00, 0x00, 0x00, 0x00, 0x00, 0x00, 0x00, 0x00, 0x00, 0x00, 0x00, 0x00, 0x00, 0x00, 0x00,
     0x00, 0x00, 0x00, 0x00, 0x00, 0x00, 0x00, 0x00, 0x00, 0x00, 0x00, 0x00, 0x00, 0x00, 0x00, 0x00, 0x00, 0x00, 0x00, 0x00,
     0xff, 0xff, 0xff, 0x02, 0xff, 0xff, 0xff, 0x01, 0x00, 0x00, 0x00, 0x00, 0x00, 0x00, 0x00, 0x00, 0x00, 0x00, 0x00, 0x00,
     0x00, 0x00, 0x00, 0x00, 0x00, 0x00, 0x00, 0x00, 0xff, 0xff, 0xff, 0x01, 0x00, 0x00, 0x00, 0x00],
    [0x00, 0x00, 0x00, 0x00, 0x00, 0x00, 0x00, 0x00, 0x00, 0x00, 0x00, 0x00, 0x00, 0x00, 0x00, 0x00, 0x00, 0x00, 0x00, 0x00,
     0x00, 0x00, 0x00, 0x00, 0x00, 0x00, 0x00, 0x00, 0xff, 0xff, 0xff, 0x01, 0x00, 0x00, 0x00, 0x00, 0x00, 0x00, 0x00, 0x00,
     0x00, 0x00, 0x00, 0x00, 0x00, 0x00, 0x00, 0x00, 0x00, 0x00, 0x00, 0x00, 0x00, 0x00, 0x00, 0x00, 0x00, 0x00, 0x00, 0x00,
     0xff, 0xff, 0xff, 0x01, 0x00, 0x00, 0x00, 0x00, 0x00, 0x00, 0x00, 0x00, 0x00, 0x00, 0x00, 0x00, 0x00, 0x00, 0x00, 0x00,
     0x00, 0x00, 0x00, 0x00, 0x00, 0x00, 0x00, 0x00, 0x00, 0x00, 0x00, 0x00, 0x00, 0x00, 0x00, 0x00, 0x00, 0x00, 0x00, 0x00,
     0xff, 0xff, 0xff, 0x01, 0x00, 0x00, 0x00, 0x00, 0x00, 0x00, 0x00, 0x00, 0x00, 0x00, 0x00, 0x00],
    [0xd8, 0x4e, 0x1d, 0xfc, 0xd8, 0x4e, 0x1d, 0xff, 0xd8, 0x4e, 0x1d, 0xff, 0xd8, 0x4e, 0x1d, 0xff, 0xd8, 0x4e, 0x1d, 0xff,
     0xd8, 0x4e, 0x1d, 0xff, 0xd8, 0x4e, 0x1d, 0xff, 0xd8, 0x4e, 0x1d, 0xff, 0xd8, 0x4e, 0x1d, 0xff, 0xd8, 0x4e, 0x1d, 0xff,
     0xd8, 0x4e, 0x1c, 0xff, 0xd8, 0x4f, 0x20, 0xff, 0xd7, 0x41, 0x00, 0xff, 0xd5, 0x20, 0x00, 0xff, 0xd8, 0x4a, 0x00, 0xff,
     0xda, 0x60, 0x42, 0xff, 0xda, 0x62, 0x46, 0xff, 0xd9, 0x4f, 0x13, 0xff, 0xd6, 0x23, 0x00, 0xff, 0xd6, 0x3c, 0x00, 0xff,
     0xd8, 0x50, 0x22, 0xff, 0xd8, 0x4e, 0x1c, 0xff, 0xd8, 0x4e, 0x1d, 0xff, 0xd8, 0x4e, 0x1d, 0xff, 0xd8, 0x4e, 0x1d, 0xff,
     0xd8, 0x4e, 0x1d, 0xff, 0xd8, 0x4e, 0x1d, 0xff, 0xd8, 0x4e, 0x1d, 0xff, 0xd8, 0x4e, 0x1d, 0xff],
    [0xd8, 0x4e, 0x1d, 0xfe, 0xd9, 0x4f, 0x1d, 0xff, 0xd8, 0x4e, 0x1d, 0xf9, 0xd9, 0x4d, 0x20, 0x28, 0x00, 0x00, 0x00, 0x00,
     0xff, 0x80, 0x00, 0x02, 0x00, 0x00, 0x00, 0x00, 0x00, 0x00, 0x00, 0x00, 0x00, 0x00, 0x00, 0x00, 0x00, 0x00, 0x00, 0x00,
     0x00, 0x00, 0x00, 0x00, 0x00, 0x00, 0x00, 0x00, 0x00, 0x00, 0x00, 0x00, 0x00, 0x00, 0x00, 0x00, 0x00, 0x00, 0x00, 0x00,
     0x00, 0x00, 0x00, 0x00, 0x00, 0x00, 0x00, 0x00, 0x00, 0x00, 0x00, 0x00, 0x00, 0x00, 0x00, 0x00, 0x00, 0x00, 0x00, 0x00,
     0x00, 0x00, 0x00, 0x00, 0x00, 0x00, 0x00, 0x00, 0x00, 0x00, 0x00, 0x00, 0x00, 0x00, 0x00, 0x00, 0x00, 0x00, 0x00, 0x00,
     0x00, 0x00, 0x00, 0x00, 0x00, 0x00, 0x00, 0x00, 0x00, 0x00, 0x00, 0x00, 0x00, 0x00, 0x00, 0x00],
    [0x00, 0x00, 0x00, 0x00, 0x00, 0x00, 0x00, 0x00, 0x00, 0x00, 0x00, 0x00, 0x00, 0x00, 0x00, 0x00, 0x00, 0x00, 0x00, 0x00,
     0xff, 0xff, 0xff, 0x02, 0xff, 0xff, 0xff, 0x02, 0x00, 0x00, 0x00, 0x00, 0x00, 0x00, 0x00, 0x00, 0x00, 0x00, 0x00, 0x00,
     0x00, 0x00, 0x00, 0x00, 0x00, 0x00, 0x00, 0x00, 0x00, 0x00, 0x00, 0x00, 0x00, 0x00, 0x00, 0x00, 0x00, 0x00, 0x00, 0x00,
     0x00, 0x00, 0x00, 0x00, 0x00, 0x00, 0x00, 0x00, 0x00, 0x00, 0x00, 0x00, 0x00, 0x00, 0x00, 0x00, 0xff, 0xff, 0xff, 0x02,
     0x00, 0x00, 0x00, 0x00, 0x00, 0x00, 0x00, 0x00, 0x00, 0x00, 0x00, 0x00, 0x00, 0x00, 0x00, 0x00, 0xff, 0xff, 0xff, 0x06,
     0x00, 0x00, 0x00, 0x00, 0x00, 0x00, 0x00, 0x00, 0x00, 0x00, 0x00, 0x00, 0x00, 0x00, 0x00, 0x00],
    [0x00, 0x00, 0x00, 0x00, 0x00, 0x00, 0x00, 0x00, 0x00, 0x00, 0x00, 0x00, 0x00, 0x00, 0x00, 0x00, 0x00, 0x00, 0x00, 0x00,
     0x00, 0x00, 0x00, 0x00, 0x00, 0x00, 0x00, 0x00, 0x00, 0x00, 0x00, 0x00, 0x00, 0x00, 0x00, 0x00, 0x00, 0x00, 0x00, 0x00,
     0xff, 0xff, 0xff, 0x01, 0x00, 0x00, 0x00, 0x00, 0x00, 0x00, 0x00, 0x00, 0x00, 0x00, 0x00, 0x00, 0x00, 0x00, 0x00, 0x00,
     0x00, 0x00, 0x00, 0x00, 0x00, 0x00, 0x00, 0x00, 0x00, 0x00, 0x00, 0x00, 0x00, 0x00, 0x00, 0x00, 0x00, 0x00, 0x00, 0x00,
     0x00, 0x00, 0x00, 0x00, 0x00, 0x00, 0x00, 0x00, 0x00, 0x00, 0x00, 0x00, 0x00, 0x00, 0x00, 0x00, 0x00, 0x00, 0x00, 0x00,
     0x00, 0x00, 0x00, 0x00, 0x00, 0x00, 0x00, 0x00, 0x00, 0x00, 0x00, 0x00, 0x00, 0x00, 0x00, 0x00],
    [0xd8, 0x4e, 0x1d, 0xff, 0xd8, 0x4e, 0x1d, 0xff, 0xd8, 0x4e, 0x1d, 0xff, 0xd8, 0x4e, 0x1d, 0xff, 0xd8, 0x4e, 0x1d, 0xff,
     0xd8, 0x4e, 0x1d, 0xff, 0xd8, 0x4e, 0x1d, 0xff, 0xd8, 0x4e, 0x1d, 0xff, 0xd8, 0x4e, 0x1d, 0xff, 0xd8, 0x4e, 0x1d, 0xff,
     0xd8, 0x50, 0x22, 0xff, 0xd7, 0x46, 0x00, 0xff, 0xde, 0x77, 0x5d, 0xff, 0xef, 0xc4, 0xbb, 0xff, 0xf7, 0xe1, 0xdb, 0xff,
     0xfc, 0xf4, 0xf2, 0xff, 0xfc, 0xf6, 0xf4, 0xff, 0xf8, 0xe4, 0xdf, 0xff, 0xf1, 0xcb, 0xc3, 0xff, 0xe0, 0x82, 0x6c, 0xff,
     0xd7, 0x42, 0x00, 0xff, 0xd8, 0x50, 0x23, 0xff, 0xd8, 0x4e, 0x1d, 0xff, 0xd8, 0x4e, 0x1d, 0xff, 0xd8, 0x4e, 0x1d, 0xff,
     0xd8, 0x4e, 0x1d, 0xff, 0xd8, 0x4e, 0x1d, 0xff, 0xd8, 0x4e, 0x1d, 0xff, 0xd8, 0x4e, 0x1d, 0xff],
    [0xd8, 0x4e, 0x1d, 0xfe, 0xd9, 0x4e, 0x1d, 0xff, 0xd7, 0x4e, 0x1d, 0xfa, 0xd5, 0x4d, 0x1e, 0x2b, 0x00, 0x00, 0x00, 0x00,
     0xff, 0x80, 0x00, 0x02, 0x00, 0x00, 0x00, 0x00, 0x00, 0x00, 0x00, 0x00, 0x00, 0x00, 0x00, 0x00, 0x00, 0x00, 0x00, 0x00,
     0x00, 0x00, 0x00, 0x00, 0x00, 0x00, 0x00, 0x00, 0x00, 0x00, 0x00, 0x00, 0xff, 0xff, 0xff, 0x03, 0x00, 0x00, 0x00, 0x00,
     0xff, 0xff, 0xff, 0x51, 0xff, 0xff, 0xff, 0xc6, 0xff, 0xff, 0xff, 0xb2, 0xff, 0xff, 0xff, 0x1f, 0x00, 0x00, 0x00, 0x00,
     0xff, 0xff, 0xff, 0x01, 0x00, 0x00, 0x00, 0x00, 0x00, 0x00, 0x00, 0x00, 0x00, 0x00, 0x00, 0x00, 0x00, 0x00, 0x00, 0x00,
     0x00, 0x00, 0x00, 0x00, 0x00, 0x00, 0x00, 0x00, 0x00, 0x00, 0x00, 0x00, 0x00, 0x00, 0x00, 0x00],
    [0x00, 0x00, 0x00, 0x00, 0x00, 0x00, 0x00, 0x00, 0x00, 0x00, 0x00, 0x00, 0x00, 0x00, 0x00, 0x00, 0x00, 0x00, 0x00, 0x00,
     0x00, 0x00, 0x00, 0x00, 0x00, 0x00, 0x00, 0x00, 0x00, 0x00, 0x00, 0x00, 0x00, 0x00, 0x00, 0x00, 0x00, 0x00, 0x00, 0x00,
     0x00, 0x00, 0x00, 0x00, 0xff, 0xff, 0xff, 0x07, 0xff, 0xff, 0xff, 0xa1, 0xff, 0xff, 0xff, 0xc9, 0xff, 0xff, 0xff, 0x70,
     0x00, 0x00, 0x00, 0x00, 0xff, 0xff, 0xff, 0x02, 0x00, 0x00, 0x00, 0x00, 0xff, 0xff, 0xff, 0x03, 0x00, 0x00, 0x00, 0x00,
     0xff, 0xff, 0xff, 0x24, 0xff, 0xff, 0xff, 0xb1, 0xff, 0xff, 0xff, 0xba, 0xff, 0xff, 0xff, 0xbc, 0xff, 0xff, 0xff, 0x39,
     0xff, 0xff, 0xff, 0x99, 0xff, 0xff, 0xff, 0xc6, 0xff, 0xff, 0xff, 0x93, 0x00, 0x00, 0x00, 0x00],
    [0x00, 0x00, 0x00, 0x00, 0x00, 0x00, 0x00, 0x00, 0x00, 0x00, 0x00, 0x00, 0x00, 0x00, 0x00, 0x00, 0x00, 0x00, 0x00, 0x00,
     0x00, 0x00, 0x00, 0x00, 0xff, 0xff, 0xff, 0x05, 0xff, 0xff, 0xff, 0x9f, 0xff, 0xff, 0xff, 0xc5, 0xff, 0xff, 0xff, 0x93,
     0x00, 0x00, 0x00, 0x00, 0xff, 0xff, 0xff, 0x0a, 0xff, 0xff, 0xff, 0xaf, 0xff, 0xff, 0xff, 0xb8, 0xff, 0xff, 0xff, 0xc4,
     0xff, 0xff, 0xff, 0x67, 0x00, 0x00, 0x00, 0x00, 0xff, 0xff, 0xff, 0x02, 0x00, 0x00, 0x00, 0x00, 0x00, 0x00, 0x00, 0x00,
     0x00, 0x00, 0x00, 0x00, 0x00, 0x00, 0x00, 0x00, 0xff, 0xff, 0xff, 0x01, 0x00, 0x00, 0x00, 0x00, 0xff, 0xff, 0xff, 0x08,
     0xff, 0xff, 0xff, 0xa5, 0xff, 0xff, 0xff, 0xba, 0xff, 0xff, 0xff, 0xc1, 0xff, 0xff, 0xff, 0x7f]]"

lemma img_logo_map_3_size: "length (concat img_logo_map_3) = 1392"
  by (simp add: img_logo_map_3_def)

definition img_logo_map_4 :: "u8 list list" where
  "img_logo_map_4 = [
    [0xd8, 0x4e, 0x1d, 0xff, 0xd8, 0x4e, 0x1d, 0xff, 0xd8, 0x4e, 0x1d, 0xff, 0xd8, 0x4e, 0x1d, 0xff, 0xd8, 0x4e, 0x1d, 0xff,
     0xd8, 0x4e, 0x1d, 0xff, 0xd8, 0x4e, 0x1d, 0xff, 0xd8, 0x4e, 0x1d, 0xff, 0xd8, 0x4e, 0x1d, 0xff, 0xd8, 0x50, 0x22, 0xff,
     0xd7, 0x47, 0x00, 0xff, 0xdb, 0x64, 0x45, 0xff, 0xfd, 0xf6, 0xf4, 0xff, 0xff, 0xff, 0xff, 0xff, 0xff, 0xff, 0xff, 0xff,
     0xff, 0xff, 0xff, 0xff, 0xff, 0xff, 0xff, 0xff, 0xff, 0xff, 0xff, 0xff, 0xff, 0xff, 0xff, 0xff, 0xfe, 0xfa, 0xf8, 0xff,
     0xde, 0x73, 0x57, 0xff, 0xd7, 0x43, 0x00, 0xff, 0xd8, 0x51, 0x23, 0xff, 0xd8, 0x4e, 0x1d, 0xff, 0xd8, 0x4e, 0x1d, 0xff,
     0xd8, 0x4e, 0x1d, 0xff, 0xd8, 0x4e, 0x1d, 0xff, 0xd8, 0x4e, 0x1d, 0xff, 0xd8, 0x4e, 0x1d, 0xff],
    [0xd8, 0x4e, 0x1d, 0xfe, 0xd9, 0x4e, 0x1d, 0xff, 0xd7, 0x4e, 0x1d, 0xfa, 0xdb, 0x4f, 0x1e, 0x2a, 0x00, 0x00, 0x00, 0x00,
     0xff, 0x80, 0x00, 0x02, 0x00, 0x00, 0x00, 0x00, 0x00, 0x00, 0x00, 0x00, 0x00, 0x00, 0x00, 0x00, 0x00, 0x00, 0x00, 0x00,
     0x00, 0x00, 0x00, 0x00, 0x00, 0x00, 0x00, 0x00, 0x00, 0x00, 0x00, 0x00, 0xff, 0xff, 0xff, 0x04, 0x00, 0x00, 0x00, 0x00,
     0xff, 0xff, 0xff, 0x76, 0xff, 0xff, 0xff, 0xff, 0xff, 0xff, 0xff, 0xff, 0xff, 0xff, 0xff, 0x2c, 0x00, 0x00, 0x00, 0x00,
     0xff, 0xff, 0xff, 0x02, 0x00, 0x00, 0x00, 0x00, 0x00, 0x00, 0x00, 0x00, 0x00, 0x00, 0x00, 0x00, 0x00, 0x00, 0x00, 0x00,
     0x00, 0x00, 0x00, 0x00, 0x00, 0x00, 0x00, 0x00, 0x00, 0x00, 0x00, 0x00, 0x00, 0x00, 0x00, 0x00],
    [0x00, 0x00, 0x00, 0x00, 0x00, 0x00, 0x00, 0x00, 0x00, 0x00, 0x00, 0x00, 0x00, 0x00, 0x00, 0x00, 0xff, 0xff, 0xff, 0x07,
     0xff, 0xff, 0xff, 0x37, 0xff, 0xff, 0xff, 0x39, 0xff, 0xff, 0xff, 0x0c, 0x00, 0x00, 0x00, 0x00, 0xff, 0xff, 0xff, 0x01,
     0x00, 0x00, 0x00, 0x00, 0xff, 0xff, 0xff, 0x0a, 0xff, 0xff, 0xff, 0xea, 0xff, 0xff, 0xff, 0xff, 0xff, 0xff, 0xff, 0xa2,
     0x00, 0x00, 0x00, 0x00, 0xff, 0xff, 0xff, 0x02, 0xff, 0xff, 0xff, 0x03, 0x00, 0x00, 0x00, 0x00, 0xff, 0xff, 0xff, 0x12,
     0xff, 0xff, 0xff, 0xd7, 0xff, 0xff, 0xff, 0xff, 0xff, 0xff, 0xff, 0xff, 0xff, 0xff, 0xff, 0x88, 0x00, 0x00, 0x00, 0x00,
     0xff, 0xff, 0xff, 0xa7, 0xff, 0xff, 0xff, 0xff, 0xff, 0xff, 0xff, 0xff, 0xff, 0xff, 0xff, 0x30],
    [0x00, 0x00, 0x00, 0x00, 0xff, 0xff, 0xff, 0x02, 0x00, 0x00, 0x00, 0x00, 0x00, 0x00, 0x00, 0x00, 0xff, 0xff, 0xff, 0x03,
     0x00, 0x00, 0x00, 0x00, 0xff, 0xff, 0xff, 0x3c, 0xff, 0xff, 0xff, 0xff, 0xff, 0xff, 0xff, 0xff, 0xff, 0xff, 0xff, 0x86,
     0x00, 0x00, 0x00, 0x00, 0xff, 0xff, 0xff, 0x12, 0xff, 0xff, 0xff, 0xfd, 0xff, 0xff, 0xff, 0xff, 0xff, 0xff, 0xff, 0xff,
     0xff, 0xff, 0xff, 0xe3, 0xff, 0xff, 0xff, 0x09, 0x00, 0x00, 0x00, 0x00, 0xff, 0xff, 0xff, 0x01, 0x00, 0x00, 0x00, 0x00,
     0x00, 0x00, 0x00, 0x00, 0x00, 0x00, 0x00, 0x00, 0xff, 0xff, 0xff, 0x03, 0x00, 0x00, 0x00, 0x00, 0xff, 0xff, 0xff, 0x53,
     0xff, 0xff, 0xff, 0xff, 0xff, 0xff, 0xff, 0xff, 0xff, 0xff, 0xff, 0xff, 0xff, 0xff, 0xff, 0xb8],
    [0xd8, 0x4e, 0x1d, 0xff, 0xd8, 0x4e, 0x1d, 0xff, 0xd8, 0x4e, 0x1d, 0xff, 0xd8, 0x4e, 0x1d, 0xff, 0xd8, 0x4e, 0x1d, 0xff,
     0xd8, 0x4e, 0x1d, 0xff, 0xd8, 0x4e, 0x1d, 0xff, 0xd8, 0x4e, 0x1c, 0xff, 0xd8, 0x4f, 0x21, 0xff, 0xd9, 0x57, 0x32, 0xff,
     0xd8, 0x50, 0x23, 0xff, 0xd9, 0x56, 0x2a, 0xff, 0xf9, 0xe8, 0xe4, 0xff, 0xfe, 0xfb, 0xf9, 0xff, 0xf5, 0xd7, 0xd0, 0xff,
     0xed, 0xc2, 0xbc, 0xff, 0xee, 0xc4, 0xbd, 0xff, 0xf4, 0xd3, 0xcc, 0xff, 0xfd, 0xf6, 0xf5, 0xff, 0xfb, 0xf0, 0xed, 0xff,
     0xdd, 0x6a, 0x4a, 0xff, 0xd7, 0x4a, 0x12, 0xff, 0xd9, 0x58, 0x34, 0xff, 0xd8, 0x50, 0x23, 0xff, 0xd8, 0x4e, 0x1c, 0xff,
     0xd8, 0x4e, 0x1d, 0xff, 0xd8, 0x4e, 0x1d, 0xff, 0xd8, 0x4e, 0x1d, 0xff, 0xd8, 0x4e, 0x1d, 0xff],
    [0xd8, 0x4e, 0x1d, 0xfe, 0xd9, 0x4e, 0x1d, 0xff, 0xd7, 0x4e, 0x1d, 0xfa, 0xdb, 0x4f, 0x1e, 0x2a, 0x00, 0x00, 0x00, 0x00,
     0xff, 0x80, 0x00, 0x02, 0x00, 0x00, 0x00, 0x00, 0x00, 0x00, 0x00, 0x00, 0x00, 0x00, 0x00, 0x00, 0x00, 0x00, 0x00, 0x00,
     0x00, 0x00, 0x00, 0x00, 0x00, 0x00, 0x00, 0x00, 0x00, 0x00, 0x00, 0x00, 0xff, 0xff, 0xff, 0x04, 0x00, 0x00, 0x00, 0x00,
     0xff, 0xff, 0xff, 0x6f, 0xff, 0xff, 0xff, 0xff, 0xff, 0xff, 0xff, 0xf3, 0xff, 0xff, 0xff, 0x2a, 0x00, 0x00, 0x00, 0x00,
     0xff, 0xff, 0xff, 0x02, 0x00, 0x00, 0x00, 0x00, 0x00, 0x00, 0x00, 0x00, 0xff, 0xff, 0xff, 0x01, 0xff, 0xff, 0xff, 0x02,
     0xff, 0xff, 0xff, 0x03, 0xff, 0xff, 0xff, 0x03, 0xff, 0xff, 0xff, 0x01, 0x00, 0x00, 0x00, 0x00],
    [0x00, 0x00, 0x00, 0x00, 0x00, 0x00, 0x00, 0x00, 0xff, 0xff, 0xff, 0x02, 0x00, 0x00, 0x00, 0x00, 0xff, 0xff, 0xff, 0x1d,
     0xff, 0xff, 0xff, 0xf5, 0xff, 0xff, 0xff, 0xff, 0xff, 0xff, 0xff, 0x38, 0x00, 0x00, 0x00, 0x00, 0xff, 0xff, 0xff, 0x04,
     0x00, 0x00, 0x00, 0x00, 0xff, 0xff, 0xff, 0x09, 0xff, 0xff, 0xff, 0xdc, 0xff, 0xff, 0xff, 0xff, 0xff, 0xff, 0xff, 0x99,
     0x00, 0x00, 0x00, 0x00, 0xff, 0xff, 0xff, 0x05, 0x00, 0x00, 0x00, 0x00, 0xff, 0xff, 0xff, 0x01, 0xff, 0xff, 0xff, 0xbd,
     0xff, 0xff, 0xff, 0xff, 0xff, 0xff, 0xff, 0xff, 0xff, 0xff, 0xff, 0x7e, 0x00, 0x00, 0x00, 0x00, 0x00, 0x00, 0x00, 0x00,
     0xff, 0xff, 0xff, 0x42, 0xff, 0xff, 0xff, 0xfe, 0xff, 0xff, 0xff, 0xff, 0xff, 0xff, 0xff, 0x86],
    [0x00, 0x00, 0x00, 0x00, 0xff, 0xff, 0xff, 0x04, 0x00, 0x00, 0x00, 0x00, 0x00, 0x00, 0x00, 0x00, 0xff, 0xff, 0xff, 0x03,
     0x00, 0x00, 0x00, 0x00, 0xff, 0xff, 0xff, 0x91, 0xff, 0xff, 0xff, 0xff, 0xff, 0xff, 0xff, 0xf3, 0xff, 0xff, 0xff, 0x24,
     0x00, 0x00, 0x00, 0x00, 0xff, 0xff, 0xff, 0x10, 0xff, 0xff, 0xff, 0xee, 0xff, 0xff, 0xff, 0xff, 0xff, 0xff, 0xff, 0xf7,
     0xff, 0xff, 0xff, 0xff, 0xff, 0xff, 0xff, 0x5c, 0x00, 0x00, 0x00, 0x00, 0xff, 0xff, 0xff, 0x04, 0x00, 0x00, 0x00, 0x00,
     0x00, 0x00, 0x00, 0x00, 0x00, 0x00, 0x00, 0x00, 0xff, 0xff, 0xff, 0x02, 0x00, 0x00, 0x00, 0x00, 0xff, 0xff, 0xff, 0xb5,
     0xff, 0xff, 0xff, 0xff, 0xff, 0xff, 0xff, 0xf5, 0xff, 0xff, 0xff, 0xff, 0xff, 0xff, 0xff, 0xad],
    [0xd8, 0x4e, 0x1d, 0xff, 0xd8, 0x4e, 0x1d, 0xff, 0xd8, 0x4e, 0x1d, 0xff, 0xd8, 0x4e, 0x1d, 0xff, 0xd8, 0x4e, 0x1d, 0xff,
     0xd8, 0x4e, 0x1d, 0xff, 0xd8, 0x4e, 0x1c, 0xff, 0xd8, 0x4f, 0x20, 0xff, 0xd7, 0x49, 0x0d, 0xff, 0xd5, 0x15, 0x00, 0xff,
     0xd6, 0x3a, 0x00, 0xff, 0xd7, 0x48, 0x03, 0xff, 0xdb, 0x5b, 0x30, 0xff, 0xde, 0x74, 0x59, 0xff, 0xd7, 0x3c, 0x00, 0xff,
     0xd6, 0x26, 0x00, 0xff, 0xd6, 0x2a, 0x00, 0xff, 0xd7, 0x38, 0x00, 0xff, 0xdd, 0x6c, 0x4e, 0xff, 0xdc, 0x65, 0x42, 0xff,
     0xd7, 0x46, 0x02, 0xff, 0xd7, 0x3f, 0x00, 0xff, 0xd5, 0x05, 0x00, 0xff, 0xd7, 0x45, 0x00, 0xff, 0xd8, 0x50, 0x22, 0xff,
     0xd8, 0x4e, 0x1b, 0xff, 0xd8, 0x4e, 0x1d, 0xff, 0xd8, 0x4e, 0x1d, 0xff, 0xd8, 0x4e, 0x1d, 0xff],
    [0xd8, 0x4e, 0x1d, 0xfe, 0xd9, 0x4e, 0x1d, 0xff, 0xd7, 0x4e, 0x1d, 0xfa, 0xdb, 0x4f, 0x1e, 0x2a, 0x00, 0x00, 0x00, 0x00,
     0xff, 0x80, 0x00, 0x02, 0x00, 0x00, 0x00, 0x00, 0x00, 0x00, 0x00, 0x00, 0x00, 0x00, 0x00, 0x00, 0x00, 0x00, 0x00, 0x00,
     0x00, 0x00, 0x00, 0x00, 0x00, 0x00, 0x00, 0x00, 0x00, 0x00, 0x00, 0x00, 0xff, 0xff, 0xff, 0x04, 0x00, 0x00, 0x00, 0x00,
     0xff, 0xff, 0xff, 0x70, 0xff, 0xff, 0xff, 0xff, 0xff, 0xff, 0xff, 0xf6, 0xff, 0xff, 0xff, 0x2a, 0x00, 0x00, 0x00, 0x00,
     0xff, 0xff, 0xff, 0x02, 0x00, 0x00, 0x00, 0x00, 0xff, 0xff, 0xff, 0x03, 0x00, 0x00, 0x00, 0x00, 0x00, 0x00, 0x00, 0x00,
     0x00, 0x00, 0x00, 0x00, 0x00, 0x00, 0x00, 0x00, 0x00, 0x00, 0x00, 0x00, 0xff, 0xff, 0xff, 0x03],
    [0xff, 0xff, 0xff, 0x01, 0x00, 0x00, 0x00, 0x00, 0xff, 0xff, 0xff, 0x01, 0x00, 0x00, 0x00, 0x00, 0xff, 0xff, 0xff, 0x17,
     0xff, 0xff, 0xff, 0xf8, 0xff, 0xff, 0xff, 0xff, 0xff, 0xff, 0xff, 0x35, 0x00, 0x00, 0x00, 0x00, 0xff, 0xff, 0xff, 0x02,
     0x00, 0x00, 0x00, 0x00, 0xff, 0xff, 0xff, 0x09, 0xff, 0xff, 0xff, 0xdf, 0xff, 0xff, 0xff, 0xff, 0xff, 0xff, 0xff, 0x9a,
     0x00, 0x00, 0x00, 0x00, 0xff, 0xff, 0xff, 0x01, 0x00, 0x00, 0x00, 0x00, 0xff, 0xff, 0xff, 0xb2, 0xff, 0xff, 0xff, 0xff,
     0xff, 0xff, 0xff, 0xff, 0xff, 0xff, 0xff, 0x92, 0x00, 0x00, 0x00, 0x00, 0xff, 0xff, 0xff, 0x02, 0x00, 0x00, 0x00, 0x00,
     0xff, 0xff, 0xff, 0x02, 0xff, 0xff, 0xff, 0xd1, 0xff, 0xff, 0xff, 0xff, 0xff, 0xff, 0xff, 0xd3],
    [0xff, 0xff, 0xff, 0x04, 0x00, 0x00, 0x00, 0x00, 0xff, 0xff, 0xff, 0x01, 0xff, 0xff, 0xff, 0x01, 0x00, 0x00, 0x00, 0x00,
     0xff, 0xff, 0xff, 0x0e, 0xff, 0xff, 0xff, 0xdf, 0xff, 0xff, 0xff, 0xff, 0xff, 0xff, 0xff, 0xb2, 0x00, 0x00, 0x00, 0x00,
     0x00, 0x00, 0x00, 0x00, 0xff, 0xff, 0xff, 0x0e, 0xff, 0xff, 0xff, 0xf1, 0xff, 0xff, 0xff, 0xff, 0xff, 0xff, 0xff, 0xfe,
     0xff, 0xff, 0xff, 0xff, 0xff, 0xff, 0xff, 0xbe, 0x00, 0x00, 0x00, 0x00, 0xff, 0xff, 0xff, 0x01, 0x00, 0x00, 0x00, 0x00,
     0x00, 0x00, 0x00, 0x00, 0xff, 0xff, 0xff, 0x03, 0x00, 0x00, 0x00, 0x00, 0xff, 0xff, 0xff, 0x35, 0xff, 0xff, 0xff, 0xff,
     0xff, 0xff, 0xff, 0xff, 0xff, 0xff, 0xff, 0xfe, 0xff, 0xff, 0xff, 0xff, 0xff, 0xff, 0xff, 0xb0]]"

lemma img_logo_map_4_size: "length (concat img_logo_map_4) = 1392"
  by (simp add: img_logo_map_4_def)

definition img_logo_map_5 :: "u8 list list" where
  "img_logo_map_5 = [
    [0xd8, 0x4e, 0x1d, 0xff, 0xd8, 0x4e, 0x1d, 0xff, 0xd8, 0x4e, 0x1d, 0xff, 0xd8, 0x4e, 0x1d, 0xff, 0xd8, 0x4e, 0x1d, 0xff,
     0xd8, 0x4e, 0x1d, 0xff, 0xd8, 0x50, 0x21, 0xff, 0xd7, 0x47, 0x02, 0xff, 0xdb, 0x64, 0x43, 0xff, 0xef, 0xc4, 0xbc, 0xff,
     0xe4, 0x95, 0x86, 0xff, 0xd7, 0x40, 0x00, 0xff, 0xd8, 0x4d, 0x1d, 0xff, 0xd7, 0x45, 0x00, 0xff, 0xd8, 0x4e, 0x23, 0xff,
     0xd5, 0x2e, 0x00, 0xff, 0xd5, 0x27, 0x00, 0xff, 0xd7, 0x4a, 0x19, 0xff, 0xd7, 0x48, 0x06, 0xff, 0xd7, 0x4a, 0x12, 0xff,
     0xd7, 0x42, 0x00, 0xff, 0xe2, 0x8a, 0x77, 0xff, 0xef, 0xc7, 0xc0, 0xff, 0xde, 0x74, 0x5b, 0xff, 0xd7, 0x42, 0x00, 0xff,
     0xd8, 0x50, 0x23, 0xff, 0xd8, 0x4e, 0x1d, 0xff, 0xd8, 0x4e, 0x1d, 0xff, 0xd8, 0x4e, 0x1d, 0xff],
    [0xd8, 0x4e, 0x1d, 0xfe, 0xd9, 0x4e, 0x1d, 0xff, 0xd7, 0x4e, 0x1d, 0xfa, 0xdb, 0x4f, 0x1e, 0x2a, 0x00, 0x00, 0x00, 0x00,
     0xff, 0x80, 0x00, 0x02, 0x00, 0x00, 0x00, 0x00, 0x00, 0x00, 0x00, 0x00, 0x00, 0x00, 0x00, 0x00, 0x00, 0x00, 0x00, 0x00,
     0x00, 0x00, 0x00, 0x00, 0x00, 0x00, 0x00, 0x00, 0x00, 0x00, 0x00, 0x00, 0xff, 0xff, 0xff, 0x04, 0x00, 0x00, 0x00, 0x00,
     0xff, 0xff, 0xff, 0x70, 0xff, 0xff, 0xff, 0xff, 0xff, 0xff, 0xff, 0xf6, 0xff, 0xff, 0xff, 0x2a, 0x00, 0x00, 0x00, 0x00,
     0xff, 0xff, 0xff, 0x02, 0xff, 0xff, 0xff, 0x03, 0x00, 0x00, 0x00, 0x00, 0xff, 0xff, 0xff, 0x01, 0xff, 0xff, 0xff, 0x35,
     0xff, 0xff, 0xff, 0x54, 0xff, 0xff, 0xff, 0x43, 0xff, 0xff, 0xff, 0x14, 0x00, 0x00, 0x00, 0x00],
    [0x00, 0x00, 0x00, 0x00, 0xff, 0xff, 0xff, 0x01, 0xff, 0xff, 0xff, 0x04, 0xff, 0xff, 0xff, 0x08, 0xff, 0xff, 0xff, 0x85,
     0xff, 0xff, 0xff, 0xff, 0xff, 0xff, 0xff, 0xfc, 0xff, 0xff, 0xff, 0x42, 0xff, 0xff, 0xff, 0x04, 0xff, 0xff, 0xff, 0x08,
     0x00, 0x00, 0x00, 0x00, 0xff, 0xff, 0xff, 0x0a, 0xff, 0xff, 0xff, 0xdf, 0xff, 0xff, 0xff, 0xff, 0xff, 0xff, 0xff, 0x9c,
     0x00, 0x00, 0x00, 0x00, 0x00, 0x00, 0x00, 0x00, 0xff, 0xff, 0xff, 0x99, 0xff, 0xff, 0xff, 0xff, 0xff, 0xff, 0xff, 0xff,
     0xff, 0xff, 0xff, 0xaf, 0x00, 0x00, 0x00, 0x00, 0x00, 0x00, 0x00, 0x00, 0xff, 0xff, 0xff, 0x02, 0xff, 0xff, 0xff, 0x03,
     0x00, 0x00, 0x00, 0x00, 0xff, 0xff, 0xff, 0x7e, 0xff, 0xff, 0xff, 0xff, 0xff, 0xff, 0xff, 0xff],
    [0xff, 0xff, 0xff, 0x3d, 0x00, 0x00, 0x00, 0x00, 0xff, 0xff, 0xff, 0x03, 0xff, 0xff, 0xff, 0x03, 0x00, 0x00, 0x00, 0x00,
     0xff, 0xff, 0xff, 0x4f, 0xff, 0xff, 0xff, 0xff, 0xff, 0xff, 0xff, 0xff, 0xff, 0xff, 0xff, 0x5a, 0x00, 0x00, 0x00, 0x00,
     0x00, 0x00, 0x00, 0x00, 0xff, 0xff, 0xff, 0x0e, 0xff, 0xff, 0xff, 0xf0, 0xff, 0xff, 0xff, 0xff, 0xff, 0xff, 0xff, 0xec,
     0xff, 0xff, 0xff, 0xfa, 0xff, 0xff, 0xff, 0xff, 0xff, 0xff, 0xff, 0x3c, 0x00, 0x00, 0x00, 0x00, 0xff, 0xff, 0xff, 0x03,
     0x00, 0x00, 0x00, 0x00, 0xff, 0xff, 0xff, 0x03, 0x00, 0x00, 0x00, 0x00, 0xff, 0xff, 0xff, 0x91, 0xff, 0xff, 0xff, 0xff,
     0xff, 0xff, 0xff, 0xef, 0xff, 0xff, 0xff, 0xeb, 0xff, 0xff, 0xff, 0xff, 0xff, 0xff, 0xff, 0xaf],
    [0xd8, 0x4e, 0x1d, 0xff, 0xd8, 0x4e, 0x1d, 0xff, 0xd8, 0x4e, 0x1d, 0xff, 0xd8, 0x4e, 0x1d, 0xff, 0xd8, 0x4e, 0x1d, 0xff,
     0xd8, 0x4e, 0x1d, 0xff, 0xd9, 0x55, 0x2e, 0xff, 0xd5, 0x20, 0x00, 0xff, 0xed, 0xbd, 0xb3, 0xff, 0xff, 0xff, 0xff, 0xff,
     0xfc, 0xf3, 0xf1, 0xff, 0xd9, 0x59, 0x34, 0xff, 0xd8, 0x4e, 0x1d, 0xff, 0xd7, 0x47, 0x03, 0xff, 0xdb, 0x5c, 0x30, 0xff,
     0xea, 0xb6, 0xad, 0xff, 0xec, 0xbd, 0xb6, 0xff, 0xdd, 0x6d, 0x4e, 0xff, 0xd7, 0x43, 0x00, 0xff, 0xd8, 0x54, 0x2e, 0xff,
     0xd8, 0x42, 0x00, 0xff, 0xf7, 0xde, 0xd7, 0xff, 0xff, 0xff, 0xff, 0xff, 0xf3, 0xd1, 0xc8, 0xff, 0xd6, 0x32, 0x00, 0xff,
     0xd8, 0x53, 0x2b, 0xff, 0xd8, 0x4e, 0x1e, 0xff, 0xd8, 0x4e, 0x1d, 0xff, 0xd8, 0x4e, 0x1d, 0xff],
    [0xd8, 0x4e, 0x1d, 0xfe, 0xd9, 0x4e, 0x1d, 0xff, 0xd7, 0x4e, 0x1d, 0xfa, 0xdb, 0x4f, 0x1e, 0x2a, 0x00, 0x00, 0x00, 0x00,
     0xff, 0x80, 0x00, 0x02, 0x00, 0x00, 0x00, 0x00, 0x00, 0x00, 0x00, 0x00, 0x00, 0x00, 0x00, 0x00, 0x00, 0x00, 0x00, 0x00,
     0x00, 0x00, 0x00, 0x00, 0x00, 0x00, 0x00, 0x00, 0x00, 0x00, 0x00, 0x00, 0xff, 0xff, 0xff, 0x04, 0x00, 0x00, 0x00, 0x00,
     0xff, 0xff, 0xff, 0x70, 0xff, 0xff, 0xff, 0xff, 0xff, 0xff, 0xff, 0xf6, 0xff, 0xff, 0xff, 0x2a, 0x00, 0x00, 0x00, 0x00,
     0xff, 0xff, 0xff, 0x05, 0x00, 0x00, 0x00, 0x00, 0xff, 0xff, 0xff, 0x3d, 0xff, 0xff, 0xff, 0xcf, 0xff, 0xff, 0xff, 0xff,
     0xff, 0xff, 0xff, 0xff, 0xff, 0xff, 0xff, 0xff, 0xff, 0xff, 0xff, 0xed, 0xff, 0xff, 0xff, 0x7e],
    [0x00, 0x00, 0x00, 0x00, 0x00, 0x00, 0x00, 0x00, 0xff, 0xff, 0xff, 0x36, 0xff, 0xff, 0xff, 0xf2, 0xff, 0xff, 0xff, 0xff,
     0xff, 0xff, 0xff, 0xff, 0xff, 0xff, 0xff, 0xfe, 0xff, 0xff, 0xff, 0xf2, 0xff, 0xff, 0xff, 0xfc, 0xff, 0xff, 0xff, 0x5f,
     0x00, 0x00, 0x00, 0x00, 0xff, 0xff, 0xff, 0x0d, 0xff, 0xff, 0xff, 0xdf, 0xff, 0xff, 0xff, 0xff, 0xff, 0xff, 0xff, 0x9c,
     0x00, 0x00, 0x00, 0x00, 0xff, 0xff, 0xff, 0x83, 0xff, 0xff, 0xff, 0xff, 0xff, 0xff, 0xff, 0xff, 0xff, 0xff, 0xff, 0xb4,
     0xff, 0xff, 0xff, 0x02, 0x00, 0x00, 0x00, 0x00, 0xff, 0xff, 0xff, 0x02, 0x00, 0x00, 0x00, 0x00, 0xff, 0xff, 0xff, 0x02,
     0x00, 0x00, 0x00, 0x00, 0xff, 0xff, 0xff, 0x28, 0xff, 0xff, 0xff, 0xf6, 0xff, 0xff, 0xff, 0xff],
    [0xff, 0xff, 0xff, 0x98, 0x00, 0x00, 0x00, 0x00, 0xff, 0xff, 0xff, 0x03, 0xff, 0xff, 0xff, 0x03, 0x00, 0x00, 0x00, 0x00,
     0xff, 0xff, 0xff, 0xa7, 0xff, 0xff, 0xff, 0xff, 0xff, 0xff, 0xff, 0xe3, 0xff, 0xff, 0xff, 0x10, 0x00, 0x00, 0x00, 0x00,
     0x00, 0x00, 0x00, 0x00, 0xff, 0xff, 0xff, 0x0e, 0xff, 0xff, 0xff, 0xee, 0xff, 0xff, 0xff, 0xff, 0xff, 0xff, 0xff, 0x97,
     0xff, 0xff, 0xff, 0xd1, 0xff, 0xff, 0xff, 0xff, 0xff, 0xff, 0xff, 0x9d, 0x00, 0x00, 0x00, 0x00, 0xff, 0xff, 0xff, 0x03,
     0xff, 0xff, 0xff, 0x01, 0x00, 0x00, 0x00, 0x00, 0xff, 0xff, 0xff, 0x17, 0xff, 0xff, 0xff, 0xe8, 0xff, 0xff, 0xff, 0xff,
     0xff, 0xff, 0xff, 0xa3, 0xff, 0xff, 0xff, 0xc3, 0xff, 0xff, 0xff, 0xff, 0xff, 0xff, 0xff, 0xae],
    [0xd8, 0x4e, 0x1d, 0xff, 0xd8, 0x4e, 0x1d, 0xff, 0xd8, 0x4e, 0x1d, 0xff, 0xd8, 0x4e, 0x1d, 0xff, 0xd8, 0x4e, 0x1d, 0xff,
     0xd8, 0x4f, 0x1f, 0xff, 0xd8, 0x4f, 0x23, 0xff, 0xd8, 0x47, 0x00, 0xff, 0xf7, 0xe0, 0xd9, 0xff, 0xff, 0xff, 0xff, 0xff,
     0xf6, 0xdd, 0xd7, 0xff, 0xd8, 0x4a, 0x00, 0xff, 0xd7, 0x4a, 0x17, 0xff, 0xdc, 0x65, 0x3f, 0xff, 0xf9, 0xe7, 0xe2, 0xff,
     0xff, 0xff, 0xff, 0xff, 0xff, 0xff, 0xff, 0xff, 0xfc, 0xf2, 0xee, 0xff, 0xde, 0x75, 0x5b, 0xff, 0xd7, 0x49, 0x14, 0xff,
     0xd6, 0x31, 0x00, 0xff, 0xf1, 0xcd, 0xc6, 0xff, 0xff, 0xff, 0xff, 0xff, 0xfc, 0xf3, 0xf1, 0xff, 0xda, 0x60, 0x40, 0xff,
     0xd7, 0x48, 0x04, 0xff, 0xd8, 0x50, 0x21, 0xff, 0xd8, 0x4e, 0x1d, 0xff, 0xd8, 0x4e, 0x1d, 0xff],
    [0xd8, 0x4e, 0x1d, 0xfe, 0xd9, 0x4e, 0x1d, 0xff, 0xd7, 0x4e, 0x1d, 0xfa, 0xdb, 0x4f, 0x1e, 0x2a, 0x00, 0x00, 0x00, 0x00,
     0xff, 0x80, 0x00, 0x02, 0x00, 0x00, 0x00, 0x00, 0x00, 0x00, 0x00, 0x00, 0x00, 0x00, 0x00, 0x00, 0x00, 0x00, 0x00, 0x00,
     0x00, 0x00, 0x00, 0x00, 0x00, 0x00, 0x00, 0x00, 0x00, 0x00, 0x00, 0x00, 0xff, 0xff, 0xff, 0x04, 0x00, 0x00, 0x00, 0x00,
     0xff, 0xff, 0xff, 0x70, 0xff, 0xff, 0xff, 0xff, 0xff, 0xff, 0xff, 0xf6, 0xff, 0xff, 0xff, 0x2a, 0x00, 0x00, 0x00, 0x00,
     0x00, 0x00, 0x00, 0x00, 0xff, 0xff, 0xff, 0x44, 0xff, 0xff, 0xff, 0xfe, 0xff, 0xff, 0xff, 0xff, 0xff, 0xff, 0xff, 0xe9,
     0xff, 0xff, 0xff, 0xb8, 0xff, 0xff, 0xff, 0xd8, 0xff, 0xff, 0xff, 0xff, 0xff, 0xff, 0xff, 0xff],
    [0xff, 0xff, 0xff, 0x94, 0x00, 0x00, 0x00, 0x00, 0xff, 0xff, 0xff, 0x3b, 0xff, 0xff, 0xff, 0xff, 0xff, 0xff, 0xff, 0xfe,
     0xff, 0xff, 0xff, 0xfe, 0xff, 0xff, 0xff, 0xff, 0xff, 0xff, 0xff, 0xff, 0xff, 0xff, 0xff, 0xff, 0xff, 0xff, 0xff, 0x65,
     0x00, 0x00, 0x00, 0x00, 0xff, 0xff, 0xff, 0x0d, 0xff, 0xff, 0xff, 0xdf, 0xff, 0xff, 0xff, 0xff, 0xff, 0xff, 0xff, 0x8e,
     0xff, 0xff, 0xff, 0x6a, 0xff, 0xff, 0xff, 0xff, 0xff, 0xff, 0xff, 0xff, 0xff, 0xff, 0xff, 0xbd, 0x00, 0x00, 0x00, 0x00,
     0x00, 0x00, 0x00, 0x00, 0xff, 0xff, 0xff, 0x02, 0x00, 0x00, 0x00, 0x00, 0x00, 0x00, 0x00, 0x00, 0x00, 0x00, 0x00, 0x00,
     0xff, 0xff, 0xff, 0x01, 0x00, 0x00, 0x00, 0x00, 0xff, 0xff, 0xff, 0xb8, 0xff, 0xff, 0xff, 0xff],
    [0xff, 0xff, 0xff, 0xe3, 0xff, 0xff, 0xff, 0x0e, 0x00, 0x00, 0x00, 0x00, 0x00, 0x00, 0x00, 0x00, 0xff, 0xff, 0xff, 0x1b,
     0xff, 0xff, 0xff, 0xec, 0xff, 0xff, 0xff, 0xff, 0xff, 0xff, 0xff, 0x8e, 0x00, 0x00, 0x00, 0x00, 0xff, 0xff, 0xff, 0x04,
     0x00, 0x00, 0x00, 0x00, 0xff, 0xff, 0xff, 0x0e, 0xff, 0xff, 0xff, 0xec, 0xff, 0xff, 0xff, 0xff, 0xff, 0xff, 0xff, 0x70,
     0xff, 0xff, 0xff, 0x82, 0xff, 0xff, 0xff, 0xff, 0xff, 0xff, 0xff, 0xf1, 0xff, 0xff, 0xff, 0x1d, 0x00, 0x00, 0x00, 0x00,
     0xff, 0xff, 0xff, 0x05, 0x00, 0x00, 0x00, 0x00, 0xff, 0xff, 0xff, 0x6e, 0xff, 0xff, 0xff, 0xff, 0xff, 0xff, 0xff, 0xfb,
     0xff, 0xff, 0xff, 0x3e, 0xff, 0xff, 0xff, 0xc7, 0xff, 0xff, 0xff, 0xff, 0xff, 0xff, 0xff, 0xae]]"

lemma img_logo_map_5_size: "length (concat img_logo_map_5) = 1392"
  by (simp add: img_logo_map_5_def)

definition img_logo_map_6 :: "u8 list list" where
  "img_logo_map_6 = [
    [0xd8, 0x4e, 0x1d, 0xff, 0xd8, 0x4e, 0x1d, 0xff, 0xd8, 0x4e, 0x1d, 0xff, 0xd8, 0x4e, 0x1d, 0xff, 0xd8, 0x4e, 0x1d, 0xff,
     0xd8, 0x4f, 0x21, 0xff, 0xd8, 0x4a, 0x12, 0xff, 0xd9, 0x58, 0x30, 0xff, 0xfa, 0xec, 0xe8, 0xff, 0xff, 0xff, 0xff, 0xff,
     0xef, 0xc4, 0xbd, 0xff, 0xd6, 0x29, 0x00, 0xff, 0xd5, 0x2f, 0x00, 0xff, 0xea, 0xb4, 0xa9, 0xff, 0xff, 0xff, 0xff, 0xff,
     0xfe, 0xfc, 0xfc, 0xff, 0xfe, 0xfb, 0xfb, 0xff, 0xff, 0xff, 0xff, 0xff, 0xee, 0xc2, 0xbb, 0xff, 0xd6, 0x29, 0x00, 0xff,
     0xd5, 0x2a, 0x00, 0xff, 0xea, 0xb5, 0xac, 0xff, 0xff, 0xff, 0xff, 0xff, 0xfd, 0xfa, 0xf9, 0xff, 0xde, 0x72, 0x56, 0xff,
     0xd7, 0x43, 0x00, 0xff, 0xd8, 0x50, 0x23, 0xff, 0xd8, 0x4e, 0x1d, 0xff, 0xd8, 0x4e, 0x1d, 0xff],
    [0xd8, 0x4e, 0x1d, 0xfe, 0xd9, 0x4e, 0x1d, 0xff, 0xd7, 0x4e, 0x1d, 0xfa, 0xdb, 0x4f, 0x1e, 0x2a, 0x00, 0x00, 0x00, 0x00,
     0xff, 0x80, 0x00, 0x02, 0x00, 0x00, 0x00, 0x00, 0x00, 0x00, 0x00, 0x00, 0xff, 0xff, 0xff, 0x01, 0xff, 0xff, 0xff, 0x04,
     0xff, 0xff, 0xff, 0x04, 0x00, 0x00, 0x00, 0x00, 0x00, 0x00, 0x00, 0x00, 0xff, 0xff, 0xff, 0x04, 0x00, 0x00, 0x00, 0x00,
     0xff, 0xff, 0xff, 0x70, 0xff, 0xff, 0xff, 0xff, 0xff, 0xff, 0xff, 0xf6, 0xff, 0xff, 0xff, 0x2b, 0x00, 0x00, 0x00, 0x00,
     0xff, 0xff, 0xff, 0x0c, 0xff, 0xff, 0xff, 0xdc, 0xff, 0xff, 0xff, 0xff, 0xff, 0xff, 0xff, 0xb3, 0xff, 0xff, 0xff, 0x0f,
     0x00, 0x00, 0x00, 0x00, 0x00, 0x00, 0x00, 0x00, 0xff, 0xff, 0xff, 0x80, 0xff, 0xff, 0xff, 0xff],
    [0xff, 0xff, 0xff, 0xff, 0xff, 0xff, 0xff, 0x2f, 0xff, 0xff, 0xff, 0x04, 0xff, 0xff, 0xff, 0x30, 0xff, 0xff, 0xff, 0x6f,
     0xff, 0xff, 0xff, 0xff, 0xff, 0xff, 0xff, 0xfe, 0xff, 0xff, 0xff, 0x64, 0xff, 0xff, 0xff, 0x33, 0xff, 0xff, 0xff, 0x1a,
     0x00, 0x00, 0x00, 0x00, 0xff, 0xff, 0xff, 0x0a, 0xff, 0xff, 0xff, 0xe2, 0xff, 0xff, 0xff, 0xff, 0xff, 0xff, 0xff, 0xdb,
     0xff, 0xff, 0xff, 0xf6, 0xff, 0xff, 0xff, 0xff, 0xff, 0xff, 0xff, 0xff, 0xff, 0xff, 0xff, 0xbe, 0xff, 0xff, 0xff, 0x01,
     0x00, 0x00, 0x00, 0x00, 0xff, 0xff, 0xff, 0x01, 0x00, 0x00, 0x00, 0x00, 0x00, 0x00, 0x00, 0x00, 0x00, 0x00, 0x00, 0x00,
     0xff, 0xff, 0xff, 0x04, 0x00, 0x00, 0x00, 0x00, 0xff, 0xff, 0xff, 0x5e, 0xff, 0xff, 0xff, 0xff],
    [0xff, 0xff, 0xff, 0xff, 0xff, 0xff, 0xff, 0x54, 0x00, 0x00, 0x00, 0x00, 0x00, 0x00, 0x00, 0x00, 0xff, 0xff, 0xff, 0x63,
     0xff, 0xff, 0xff, 0xff, 0xff, 0xff, 0xff, 0xff, 0xff, 0xff, 0xff, 0x3c, 0x00, 0x00, 0x00, 0x00, 0xff, 0xff, 0xff, 0x04,
     0x00, 0x00, 0x00, 0x00, 0xff, 0xff, 0xff, 0x0e, 0xff, 0xff, 0xff, 0xec, 0xff, 0xff, 0xff, 0xff, 0xff, 0xff, 0xff, 0x75,
     0xff, 0xff, 0xff, 0x19, 0xff, 0xff, 0xff, 0xff, 0xff, 0xff, 0xff, 0xff, 0xff, 0xff, 0xff, 0x7e, 0x00, 0x00, 0x00, 0x00,
     0xff, 0xff, 0xff, 0x04, 0x00, 0x00, 0x00, 0x00, 0xff, 0xff, 0xff, 0xc7, 0xff, 0xff, 0xff, 0xff, 0xff, 0xff, 0xff, 0xbd,
     0x00, 0x00, 0x00, 0x00, 0xff, 0xff, 0xff, 0xd2, 0xff, 0xff, 0xff, 0xff, 0xff, 0xff, 0xff, 0xae],
    [0xd8, 0x4e, 0x1d, 0xff, 0xd8, 0x4e, 0x1d, 0xff, 0xd8, 0x4e, 0x1d, 0xff, 0xd8, 0x4e, 0x1d, 0xff, 0xd8, 0x4e, 0x1d, 0xff,
     0xd8, 0x4f, 0x21, 0xff, 0xd7, 0x4a, 0x0f, 0xff, 0xda, 0x5a, 0x35, 0xff, 0xfa, 0xed, 0xea, 0xff, 0xff, 0xff, 0xff, 0xff,
     0xef, 0xc7, 0xbf, 0xff, 0xd6, 0x30, 0x00, 0xff, 0xd5, 0x2e, 0x00, 0xff, 0xea, 0xb3, 0xa8, 0xff, 0xff, 0xff, 0xff, 0xff,
     0xfe, 0xfc, 0xfc, 0xff, 0xfe, 0xfb, 0xfb, 0xff, 0xff, 0xff, 0xff, 0xff, 0xed, 0xc0, 0xb7, 0xff, 0xd6, 0x2d, 0x00, 0xff,
     0xd5, 0x2d, 0x00, 0xff, 0xeb, 0xb6, 0xad, 0xff, 0xff, 0xff, 0xff, 0xff, 0xfd, 0xfa, 0xf9, 0xff, 0xde, 0x72, 0x56, 0xff,
     0xd7, 0x43, 0x00, 0xff, 0xd8, 0x50, 0x23, 0xff, 0xd8, 0x4e, 0x1d, 0xff, 0xd8, 0x4e, 0x1d, 0xff],
    [0xd8, 0x4e, 0x1d, 0xfe, 0xd9, 0x4e, 0x1d, 0xff, 0xd7, 0x4e, 0x1d, 0xfa, 0xdb, 0x4f, 0x1e, 0x2a, 0x00, 0x00, 0x00, 0x00,
     0xff, 0x80, 0x00, 0x02, 0x00, 0x00, 0x00, 0x00, 0xff, 0xff, 0xff, 0x01, 0x00, 0x00, 0x00, 0x00, 0x00, 0x00, 0x00, 0x00,
     0x00, 0x00, 0x00, 0x00, 0x00, 0x00, 0x00, 0x00, 0x00, 0x00, 0x00, 0x00, 0xff, 0xff, 0xff, 0x04, 0x00, 0x00, 0x00, 0x00,
     0xff, 0xff, 0xff, 0x70, 0xff, 0xff, 0xff, 0xff, 0xff, 0xff, 0xff, 0xf6, 0xff, 0xff, 0xff, 0x2e, 0x00, 0x00, 0x00, 0x00,
     0xff, 0xff, 0xff, 0x54, 0xff, 0xff, 0xff, 0xff, 0xff, 0xff, 0xff, 0xfc, 0xff, 0xff, 0xff, 0x36, 0x00, 0x00, 0x00, 0x00,
     0xff, 0xff, 0xff, 0x0c, 0xff, 0xff, 0xff, 0x01, 0xff, 0xff, 0xff, 0x0e, 0xff, 0xff, 0xff, 0xdf],
    [0xff, 0xff, 0xff, 0xff, 0xff, 0xff, 0xff, 0x7b, 0x00, 0x00, 0x00, 0x00, 0x00, 0x00, 0x00, 0x00, 0xff, 0xff, 0xff, 0x3f,
     0xff, 0xff, 0xff, 0xff, 0xff, 0xff, 0xff, 0xfe, 0xff, 0xff, 0xff, 0x30, 0x00, 0x00, 0x00, 0x00, 0x00, 0x00, 0x00, 0x00,
     0x00, 0x00, 0x00, 0x00, 0xff, 0xff, 0xff, 0x09, 0xff, 0xff, 0xff, 0xe3, 0xff, 0xff, 0xff, 0xff, 0xff, 0xff, 0xff, 0xff,
     0xff, 0xff, 0xff, 0xff, 0xff, 0xff, 0xff, 0xfb, 0xff, 0xff, 0xff, 0xfd, 0xff, 0xff, 0xff, 0xff, 0xff, 0xff, 0xff, 0x8d,
     0x00, 0x00, 0x00, 0x00, 0xff, 0xff, 0xff, 0x04, 0x00, 0x00, 0x00, 0x00, 0x00, 0x00, 0x00, 0x00, 0x00, 0x00, 0x00, 0x00,
     0xff, 0xff, 0xff, 0x01, 0x00, 0x00, 0x00, 0x00, 0xff, 0xff, 0xff, 0x16, 0xff, 0xff, 0xff, 0xe4],
    [0xff, 0xff, 0xff, 0xff, 0xff, 0xff, 0xff, 0xaa, 0x00, 0x00, 0x00, 0x00, 0x00, 0x00, 0x00, 0x00, 0xff, 0xff, 0xff, 0xba,
     0xff, 0xff, 0xff, 0xff, 0xff, 0xff, 0xff, 0xc6, 0x00, 0x00, 0x00, 0x00, 0x00, 0x00, 0x00, 0x00, 0xff, 0xff, 0xff, 0x01,
     0x00, 0x00, 0x00, 0x00, 0xff, 0xff, 0xff, 0x0e, 0xff, 0xff, 0xff, 0xec, 0xff, 0xff, 0xff, 0xff, 0xff, 0xff, 0xff, 0x80,
     0x00, 0x00, 0x00, 0x00, 0xff, 0xff, 0xff, 0xbc, 0xff, 0xff, 0xff, 0xff, 0xff, 0xff, 0xff, 0xd5, 0xff, 0xff, 0xff, 0x0b,
     0x00, 0x00, 0x00, 0x00, 0xff, 0xff, 0xff, 0x4b, 0xff, 0xff, 0xff, 0xff, 0xff, 0xff, 0xff, 0xff, 0xff, 0xff, 0xff, 0x54,
     0x00, 0x00, 0x00, 0x00, 0xff, 0xff, 0xff, 0xd5, 0xff, 0xff, 0xff, 0xff, 0xff, 0xff, 0xff, 0xae],
    [0xd8, 0x4e, 0x1d, 0xff, 0xd8, 0x4e, 0x1d, 0xff, 0xd8, 0x4e, 0x1d, 0xff, 0xd8, 0x4e, 0x1d, 0xff, 0xd8, 0x4e, 0x1d, 0xff,
     0xd8, 0x4f, 0x1f, 0xff, 0xd8, 0x4f, 0x24, 0xff, 0xd8, 0x45, 0x00, 0xff, 0xf6, 0xdd, 0xd7, 0xff, 0xff, 0xff, 0xff, 0xff,
     0xf6, 0xdc, 0xd5, 0xff, 0xd8, 0x41, 0x00, 0xff, 0xd8, 0x4f, 0x25, 0xff, 0xdb, 0x5d, 0x32, 0xff, 0xf9, 0xe7, 0xe2, 0xff,
     0xff, 0xff, 0xff, 0xff, 0xff, 0xff, 0xff, 0xff, 0xfc, 0xf1, 0xed, 0xff, 0xde, 0x71, 0x55, 0xff, 0xd7, 0x4d, 0x20, 0xff,
     0xd6, 0x29, 0x00, 0xff, 0xf1, 0xcb, 0xc4, 0xff, 0xff, 0xff, 0xff, 0xff, 0xfb, 0xf1, 0xee, 0xff, 0xda, 0x5d, 0x3b, 0xff,
     0xd7, 0x49, 0x09, 0xff, 0xd8, 0x4f, 0x21, 0xff, 0xd8, 0x4e, 0x1d, 0xff, 0xd8, 0x4e, 0x1d, 0xff],
    [0xd8, 0x4e, 0x1d, 0xfe, 0xd9, 0x4e, 0x1d, 0xff, 0xd7, 0x4e, 0x1d, 0xfa, 0xdb, 0x4f, 0x1e, 0x2a, 0x00, 0x00, 0x00, 0x00,
     0xff, 0x80, 0x00, 0x02, 0xff, 0xff, 0xff, 0x01, 0x00, 0x00, 0x00, 0x00, 0xff, 0xff, 0xff, 0x1a, 0xff, 0xff, 0xff, 0x62,
     0xff, 0xff, 0xff, 0x86, 0xff, 0xff, 0xff, 0x0a, 0x00, 0x00, 0x00, 0x00, 0xff, 0xff, 0xff, 0x05, 0x00, 0x00, 0x00, 0x00,
     0xff, 0xff, 0xff, 0x71, 0xff, 0xff, 0xff, 0xff, 0xff, 0xff, 0xff, 0xf6, 0xff, 0xff, 0xff, 0x2f, 0x00, 0x00, 0x00, 0x00,
     0xff, 0xff, 0xff, 0x7f, 0xff, 0xff, 0xff, 0xff, 0xff, 0xff, 0xff, 0xf9, 0xff, 0xff, 0xff, 0xec, 0xff, 0xff, 0xff, 0xed,
     0xff, 0xff, 0xff, 0xeb, 0xff, 0xff, 0xff, 0xec, 0xff, 0xff, 0xff, 0xec, 0xff, 0xff, 0xff, 0xfd],
    [0xff, 0xff, 0xff, 0xff, 0xff, 0xff, 0xff, 0xa2, 0x00, 0x00, 0x00, 0x00, 0x00, 0x00, 0x00, 0x00, 0xff, 0xff, 0xff, 0x48,
     0xff, 0xff, 0xff, 0xff, 0xff, 0xff, 0xff, 0xfe, 0xff, 0xff, 0xff, 0x3a, 0x00, 0x00, 0x00, 0x00, 0xff, 0xff, 0xff, 0x04,
     0x00, 0x00, 0x00, 0x00, 0xff, 0xff, 0xff, 0x0a, 0xff, 0xff, 0xff, 0xe3, 0xff, 0xff, 0xff, 0xff, 0xff, 0xff, 0xff, 0xff,
     0xff, 0xff, 0xff, 0xe5, 0xff, 0xff, 0xff, 0x32, 0xff, 0xff, 0xff, 0xcc, 0xff, 0xff, 0xff, 0xff, 0xff, 0xff, 0xff, 0xff,
     0xff, 0xff, 0xff, 0x50, 0x00, 0x00, 0x00, 0x00, 0xff, 0xff, 0xff, 0x04, 0x00, 0x00, 0x00, 0x00, 0x00, 0x00, 0x00, 0x00,
     0x00, 0x00, 0x00, 0x00, 0xff, 0xff, 0xff, 0x03, 0x00, 0x00, 0x00, 0x00, 0xff, 0xff, 0xff, 0x9a],
    [0xff, 0xff, 0xff, 0xff, 0xff, 0xff, 0xff, 0xef, 0xff, 0xff, 0xff, 0x11, 0xff, 0xff, 0xff, 0x24, 0xff, 0xff, 0xff, 0xf9,
     0xff, 0xff, 0xff, 0xff, 0xff, 0xff, 0xff, 0x72, 0x00, 0x00, 0x00, 0x00, 0xff, 0xff, 0xff, 0x04, 0xff, 0xff, 0xff, 0x01,
     0x00, 0x00, 0x00, 0x00, 0xff, 0xff, 0xff, 0x0e, 0xff, 0xff, 0xff, 0xec, 0xff, 0xff, 0xff, 0xff, 0xff, 0xff, 0xff, 0x82,
     0x00, 0x00, 0x00, 0x00, 0xff, 0xff, 0xff, 0x57, 0xff, 0xff, 0xff, 0xff, 0xff, 0xff, 0xff, 0xff, 0xff, 0xff, 0xff, 0x5d,
     0x00, 0x00, 0x00, 0x00, 0xff, 0xff, 0xff, 0xae, 0xff, 0xff, 0xff, 0xff, 0xff, 0xff, 0xff, 0xda, 0xff, 0xff, 0xff, 0x09,
     0xff, 0xff, 0xff, 0x03, 0xff, 0xff, 0xff, 0xd2, 0xff, 0xff, 0xff, 0xff, 0xff, 0xff, 0xff, 0xae]]"

lemma img_logo_map_6_size: "length (concat img_logo_map_6) = 1392"
  by (simp add: img_logo_map_6_def)

definition img_logo_map_7 :: "u8 list list" where
  "img_logo_map_7 = [
    [0xd8, 0x4e, 0x1d, 0xff, 0xd8, 0x4e, 0x1d, 0xff, 0xd8, 0x4e, 0x1d, 0xff, 0xd8, 0x4e, 0x1d, 0xff, 0xd8, 0x4e, 0x1d, 0xff,
     0xd8, 0x4e, 0x1d, 0xff, 0xd9, 0x55, 0x2f, 0xff, 0xd5, 0x1e, 0x00, 0xff, 0xef, 0xc3, 0xba, 0xff, 0xff, 0xff, 0xff, 0xff,
     0xff, 0xfc, 0xfb, 0xff, 0xe0, 0x81, 0x6a, 0xff, 0xd6, 0x39, 0x00, 0xff, 0xd8, 0x4d, 0x1c, 0xff, 0xdc, 0x63, 0x3b, 0xff,
     0xeb, 0xb7, 0xae, 0xff, 0xec, 0xbe, 0xb7, 0xff, 0xde, 0x72, 0x55, 0xff, 0xd7, 0x46, 0x00, 0xff, 0xd7, 0x46, 0x01, 0xff,
     0xdc, 0x68, 0x46, 0xff, 0xfc, 0xf4, 0xf1, 0xff, 0xff, 0xff, 0xff, 0xff, 0xf4, 0xd5, 0xce, 0xff, 0xd7, 0x34, 0x00, 0xff,
     0xd8, 0x52, 0x2b, 0xff, 0xd8, 0x4e, 0x1e, 0xff, 0xd8, 0x4e, 0x1d, 0xff, 0xd8, 0x4e, 0x1d, 0xff],
    [0xd8, 0x4e, 0x1d, 0xfe, 0xd9, 0x4e, 0x1d, 0xff, 0xd7, 0x4e, 0x1d, 0xfa, 0xdb, 0x4f, 0x1e, 0x2a, 0x00, 0x00, 0x00, 0x00,
     0xff, 0x80, 0x00, 0x02, 0xff, 0xff, 0xff, 0x05, 0x00, 0x00, 0x00, 0x00, 0xff, 0xff, 0xff, 0x7e, 0xff, 0xff, 0xff, 0xff,
     0xff, 0xff, 0xff, 0xfe, 0xff, 0xff, 0xff, 0x0f, 0x00, 0x00, 0x00, 0x00, 0xff, 0xff, 0xff, 0x05, 0x00, 0x00, 0x00, 0x00,
     0xff, 0xff, 0xff, 0x6f, 0xff, 0xff, 0xff, 0xff, 0xff, 0xff, 0xff, 0xf6, 0xff, 0xff, 0xff, 0x30, 0x00, 0x00, 0x00, 0x00,
     0xff, 0xff, 0xff, 0x82, 0xff, 0xff, 0xff, 0xff, 0xff, 0xff, 0xff, 0xf8, 0xff, 0xff, 0xff, 0xdd, 0xff, 0xff, 0xff, 0xdb,
     0xff, 0xff, 0xff, 0xda, 0xff, 0xff, 0xff, 0xda, 0xff, 0xff, 0xff, 0xdc, 0xff, 0xff, 0xff, 0xce],
    [0xff, 0xff, 0xff, 0xdf, 0xff, 0xff, 0xff, 0x87, 0x00, 0x00, 0x00, 0x00, 0x00, 0x00, 0x00, 0x00, 0xff, 0xff, 0xff, 0x47,
     0xff, 0xff, 0xff, 0xff, 0xff, 0xff, 0xff, 0xfe, 0xff, 0xff, 0xff, 0x39, 0x00, 0x00, 0x00, 0x00, 0xff, 0xff, 0xff, 0x03,
     0x00, 0x00, 0x00, 0x00, 0xff, 0xff, 0xff, 0x0a, 0xff, 0xff, 0xff, 0xe2, 0xff, 0xff, 0xff, 0xff, 0xff, 0xff, 0xff, 0xf1,
     0xff, 0xff, 0xff, 0x3e, 0x00, 0x00, 0x00, 0x00, 0xff, 0xff, 0xff, 0x34, 0xff, 0xff, 0xff, 0xf9, 0xff, 0xff, 0xff, 0xff,
     0xff, 0xff, 0xff, 0xea, 0xff, 0xff, 0xff, 0x1c, 0x00, 0x00, 0x00, 0x00, 0xff, 0xff, 0xff, 0x03, 0x00, 0x00, 0x00, 0x00,
     0x00, 0x00, 0x00, 0x00, 0xff, 0xff, 0xff, 0x03, 0x00, 0x00, 0x00, 0x00, 0xff, 0xff, 0xff, 0x44],
    [0xff, 0xff, 0xff, 0xff, 0xff, 0xff, 0xff, 0xff, 0xff, 0xff, 0xff, 0x53, 0xff, 0xff, 0xff, 0x66, 0xff, 0xff, 0xff, 0xff,
     0xff, 0xff, 0xff, 0xee, 0xff, 0xff, 0xff, 0x1d, 0x00, 0x00, 0x00, 0x00, 0xff, 0xff, 0xff, 0x02, 0xff, 0xff, 0xff, 0x01,
     0x00, 0x00, 0x00, 0x00, 0xff, 0xff, 0xff, 0x0e, 0xff, 0xff, 0xff, 0xec, 0xff, 0xff, 0xff, 0xff, 0xff, 0xff, 0xff, 0x7f,
     0x00, 0x00, 0x00, 0x00, 0xff, 0xff, 0xff, 0x0c, 0xff, 0xff, 0xff, 0xd5, 0xff, 0xff, 0xff, 0xff, 0xff, 0xff, 0xff, 0xb1,
     0xff, 0xff, 0xff, 0x23, 0xff, 0xff, 0xff, 0xf6, 0xff, 0xff, 0xff, 0xff, 0xff, 0xff, 0xff, 0x79, 0x00, 0x00, 0x00, 0x00,
     0xff, 0xff, 0xff, 0x09, 0xff, 0xff, 0xff, 0xd2, 0xff, 0xff, 0xff, 0xff, 0xff, 0xff, 0xff, 0xae],
    [0xd8, 0x4e, 0x1d, 0xff, 0xd8, 0x4e, 0x1d, 0xff, 0xd8, 0x4e, 0x1d, 0xff, 0xd8, 0x4e, 0x1d, 0xff, 0xd8, 0x4e, 0x1d, 0xff,
     0xd8, 0x4e, 0x1d, 0xff, 0xd8, 0x51, 0x25, 0xff, 0xd6, 0x40, 0x00, 0xff, 0xdf, 0x7a, 0x62, 0xff, 0xfe, 0xfa, 0xf8, 0xff,
     0xff, 0xff, 0xff, 0xff, 0xf7, 0xe2, 0xdd, 0xff, 0xd9, 0x4a, 0x00, 0xff, 0xd6, 0x3a, 0x00, 0xff, 0xd8, 0x4f, 0x25, 0xff,
     0xd5, 0x2c, 0x00, 0xff, 0xd5, 0x27, 0x00, 0xff, 0xd7, 0x4c, 0x1d, 0xff, 0xd7, 0x42, 0x00, 0xff, 0xd7, 0x34, 0x00, 0xff,
     0xf4, 0xd5, 0xcd, 0xff, 0xff, 0xff, 0xff, 0xff, 0xff, 0xff, 0xff, 0xff, 0xe5, 0x9c, 0x8d, 0xff, 0xd5, 0x2e, 0x00, 0xff,
     0xd8, 0x53, 0x2a, 0xff, 0xd8, 0x4e, 0x1d, 0xff, 0xd8, 0x4e, 0x1d, 0xff, 0xd8, 0x4e, 0x1d, 0xff],
    [0xd8, 0x4e, 0x1d, 0xfe, 0xd9, 0x4e, 0x1d, 0xff, 0xd7, 0x4e, 0x1d, 0xfa, 0xdb, 0x4f, 0x1e, 0x2a, 0x00, 0x00, 0x00, 0x00,
     0xff, 0x80, 0x00, 0x02, 0xff, 0xff, 0xff, 0x05, 0x00, 0x00, 0x00, 0x00, 0xff, 0xff, 0xff, 0x79, 0xff, 0xff, 0xff, 0xff,
     0xff, 0xff, 0xff, 0xee, 0xff, 0xff, 0xff, 0x18, 0x00, 0x00, 0x00, 0x00, 0xff, 0xff, 0xff, 0x08, 0x00, 0x00, 0x00, 0x00,
     0xff, 0xff, 0xff, 0x7b, 0xff, 0xff, 0xff, 0xff, 0xff, 0xff, 0xff, 0xf5, 0xff, 0xff, 0xff, 0x2a, 0x00, 0x00, 0x00, 0x00,
     0xff, 0xff, 0xff, 0x6a, 0xff, 0xff, 0xff, 0xff, 0xff, 0xff, 0xff, 0xf4, 0xff, 0xff, 0xff, 0x1e, 0x00, 0x00, 0x00, 0x00,
     0xff, 0xff, 0xff, 0x0a, 0xff, 0xff, 0xff, 0x08, 0x00, 0x00, 0x00, 0x00, 0xff, 0xff, 0xff, 0x1f],
    [0xff, 0xff, 0xff, 0x0e, 0x00, 0x00, 0x00, 0x00, 0xff, 0xff, 0xff, 0x03, 0x00, 0x00, 0x00, 0x00, 0xff, 0xff, 0xff, 0x46,
     0xff, 0xff, 0xff, 0xff, 0xff, 0xff, 0xff, 0xfd, 0xff, 0xff, 0xff, 0x35, 0x00, 0x00, 0x00, 0x00, 0xff, 0xff, 0xff, 0x04,
     0x00, 0x00, 0x00, 0x00, 0xff, 0xff, 0xff, 0x0a, 0xff, 0xff, 0xff, 0xdf, 0xff, 0xff, 0xff, 0xff, 0xff, 0xff, 0xff, 0x9a,
     0x00, 0x00, 0x00, 0x00, 0xff, 0xff, 0xff, 0x09, 0x00, 0x00, 0x00, 0x00, 0xff, 0xff, 0xff, 0x6e, 0xff, 0xff, 0xff, 0xff,
     0xff, 0xff, 0xff, 0xff, 0xff, 0xff, 0xff, 0xbc, 0x00, 0x00, 0x00, 0x00, 0x00, 0x00, 0x00, 0x00, 0xff, 0xff, 0xff, 0x01,
     0x00, 0x00, 0x00, 0x00, 0xff, 0xff, 0xff, 0x01, 0x00, 0x00, 0x00, 0x00, 0xff, 0xff, 0xff, 0x03],
    [0xff, 0xff, 0xff, 0xd4, 0xff, 0xff, 0xff, 0xff, 0xff, 0xff, 0xff, 0xc0, 0xff, 0xff, 0xff, 0xc9, 0xff, 0xff, 0xff, 0xff,
     0xff, 0xff, 0xff, 0xaa, 0x00, 0x00, 0x00, 0x00, 0xff, 0xff, 0xff, 0x02, 0x00, 0x00, 0x00, 0x00, 0xff, 0xff, 0xff, 0x01,
     0x00, 0x00, 0x00, 0x00, 0xff, 0xff, 0xff, 0x0e, 0xff, 0xff, 0xff, 0xec, 0xff, 0xff, 0xff, 0xff, 0xff, 0xff, 0xff, 0x7f,
     0x00, 0x00, 0x00, 0x00, 0x00, 0x00, 0x00, 0x00, 0xff, 0xff, 0xff, 0x7a, 0xff, 0xff, 0xff, 0xff, 0xff, 0xff, 0xff, 0xef,
     0xff, 0xff, 0xff, 0xc2, 0xff, 0xff, 0xff, 0xff, 0xff, 0xff, 0xff, 0xef, 0xff, 0xff, 0xff, 0x21, 0x00, 0x00, 0x00, 0x00,
     0xff, 0xff, 0xff, 0x07, 0xff, 0xff, 0xff, 0xd2, 0xff, 0xff, 0xff, 0xff, 0xff, 0xff, 0xff, 0xae],
    [0xd8, 0x4e, 0x1d, 0xff, 0xd8, 0x4e, 0x1d, 0xff, 0xd8, 0x4e, 0x1d, 0xff, 0xd8, 0x4e, 0x1d, 0xff, 0xd8, 0x4e, 0x1d, 0xff,
     0xd8, 0x4e, 0x1d, 0xff, 0xd8, 0x4e, 0x1d, 0xff, 0xd8, 0x53, 0x2b, 0xff, 0xd6, 0x2c, 0x00, 0xff, 0xee, 0xc0, 0xb6, 0xff,
     0xff, 0xff, 0xff, 0xff, 0xff, 0xff, 0xff, 0xff, 0xf8, 0xe3, 0xde, 0xff, 0xe0, 0x81, 0x6a, 0xff, 0xd7, 0x3b, 0x00, 0xff,
     0xd6, 0x2a, 0x00, 0xff, 0xd6, 0x2a, 0x00, 0xff, 0xd7, 0x35, 0x00, 0xff, 0xde, 0x75, 0x59, 0xff, 0xf4, 0xd8, 0xd1, 0xff,
     0xff, 0xff, 0xff, 0xff, 0xff, 0xff, 0xff, 0xff, 0xf4, 0xd6, 0xcf, 0xff, 0xd7, 0x38, 0x00, 0xff, 0xd8, 0x52, 0x28, 0xff,
     0xd8, 0x4e, 0x1e, 0xff, 0xd8, 0x4e, 0x1d, 0xff, 0xd8, 0x4e, 0x1d, 0xff, 0xd8, 0x4e, 0x1d, 0xff],
    [0xd8, 0x4e, 0x1d, 0xfe, 0xd9, 0x4e, 0x1d, 0xff, 0xd7, 0x4e, 0x1d, 0xfa, 0xdb, 0x4f, 0x1e, 0x2a, 0x00, 0x00, 0x00, 0x00,
     0xff, 0x80, 0x00, 0x02, 0xff, 0xff, 0xff, 0x03, 0x00, 0x00, 0x00, 0x00, 0xff, 0xff, 0xff, 0x4d, 0xff, 0xff, 0xff, 0xff,
     0xff, 0xff, 0xff, 0xff, 0xff, 0xff, 0xff, 0x8a, 0x00, 0x00, 0x00, 0x00, 0x00, 0x00, 0x00, 0x00, 0xff, 0xff, 0xff, 0x1a,
     0xff, 0xff, 0xff, 0xd7, 0xff, 0xff, 0xff, 0xff, 0xff, 0xff, 0xff, 0xd7, 0xff, 0xff, 0xff, 0x06, 0x00, 0x00, 0x00, 0x00,
     0xff, 0xff, 0xff, 0x29, 0xff, 0xff, 0xff, 0xf8, 0xff, 0xff, 0xff, 0xff, 0xff, 0xff, 0xff, 0x8d, 0x00, 0x00, 0x00, 0x00,
     0x00, 0x00, 0x00, 0x00, 0x00, 0x00, 0x00, 0x00, 0xff, 0xff, 0xff, 0x11, 0xff, 0xff, 0xff, 0xd8],
    [0xff, 0xff, 0xff, 0xe4, 0xff, 0xff, 0xff, 0x49, 0x00, 0x00, 0x00, 0x00, 0x00, 0x00, 0x00, 0x00, 0xff, 0xff, 0xff, 0x49,
     0xff, 0xff, 0xff, 0xff, 0xff, 0xff, 0xff, 0xff, 0xff, 0xff, 0xff, 0x49, 0x00, 0x00, 0x00, 0x00, 0xff, 0xff, 0xff, 0x01,
     0x00, 0x00, 0x00, 0x00, 0xff, 0xff, 0xff, 0x09, 0xff, 0xff, 0xff, 0xdf, 0xff, 0xff, 0xff, 0xff, 0xff, 0xff, 0xff, 0x9a,
     0x00, 0x00, 0x00, 0x00, 0xff, 0xff, 0xff, 0x03, 0xff, 0xff, 0xff, 0x02, 0x00, 0x00, 0x00, 0x00, 0xff, 0xff, 0xff, 0xaf,
     0xff, 0xff, 0xff, 0xff, 0xff, 0xff, 0xff, 0xff, 0xff, 0xff, 0xff, 0x7f, 0x00, 0x00, 0x00, 0x00, 0xff, 0xff, 0xff, 0x03,
     0x00, 0x00, 0x00, 0x00, 0x00, 0x00, 0x00, 0x00, 0xff, 0xff, 0xff, 0x03, 0x00, 0x00, 0x00, 0x00],
    [0xff, 0xff, 0xff, 0x80, 0xff, 0xff, 0xff, 0xff, 0xff, 0xff, 0xff, 0xfe, 0xff, 0xff, 0xff, 0xff, 0xff, 0xff, 0xff, 0xff,
     0xff, 0xff, 0xff, 0x50, 0x00, 0x00, 0x00, 0x00, 0xff, 0xff, 0xff, 0x03, 0x00, 0x00, 0x00, 0x00, 0xff, 0xff, 0xff, 0x01,
     0x00, 0x00, 0x00, 0x00, 0xff, 0xff, 0xff, 0x0e, 0xff, 0xff, 0xff, 0xec, 0xff, 0xff, 0xff, 0xff, 0xff, 0xff, 0xff, 0x7e,
     0x00, 0x00, 0x00, 0x00, 0x00, 0x00, 0x00, 0x00, 0xff, 0xff, 0xff, 0x1b, 0xff, 0xff, 0xff, 0xf4, 0xff, 0xff, 0xff, 0xff,
     0xff, 0xff, 0xff, 0xff, 0xff, 0xff, 0xff, 0xff, 0xff, 0xff, 0xff, 0xa1, 0x00, 0x00, 0x00, 0x00, 0xff, 0xff, 0xff, 0x01,
     0xff, 0xff, 0xff, 0x05, 0xff, 0xff, 0xff, 0xd1, 0xff, 0xff, 0xff, 0xff, 0xff, 0xff, 0xff, 0xad]]"

lemma img_logo_map_7_size: "length (concat img_logo_map_7) = 1392"
  by (simp add: img_logo_map_7_def)

definition img_logo_map_8 :: "u8 list list" where
  "img_logo_map_8 = [
    [0xd8, 0x4e, 0x1d, 0xff, 0xd8, 0x4e, 0x1d, 0xff, 0xd8, 0x4e, 0x1d, 0xff, 0xd8, 0x4e, 0x1d, 0xff, 0xd8, 0x4e, 0x1d, 0xff,
     0xd8, 0x4e, 0x1d, 0xff, 0xd8, 0x4e, 0x1d, 0xff, 0xd8, 0x4f, 0x20, 0xff, 0xd8, 0x4e, 0x1f, 0xff, 0xd8, 0x46, 0x00, 0xff,
     0xf4, 0xd6, 0xcf, 0xff, 0xff, 0xff, 0xff, 0xff, 0xff, 0xff, 0xff, 0xff, 0xfe, 0xfc, 0xfb, 0xff, 0xf5, 0xd8, 0xd1, 0xff,
     0xee, 0xc4, 0xbd, 0xff, 0xed, 0xc3, 0xbc, 0xff, 0xf3, 0xd3, 0xcb, 0xff, 0xfd, 0xf8, 0xf6, 0xff, 0xff, 0xff, 0xff, 0xff,
     0xff, 0xff, 0xff, 0xff, 0xf8, 0xe6, 0xe2, 0xff, 0xdb, 0x5b, 0x2d, 0xff, 0xd7, 0x48, 0x08, 0xff, 0xd8, 0x50, 0x23, 0xff,
     0xd8, 0x4e, 0x1d, 0xff, 0xd8, 0x4e, 0x1d, 0xff, 0xd8, 0x4e, 0x1d, 0xff, 0xd8, 0x4e, 0x1d, 0xff],
    [0xd8, 0x4e, 0x1d, 0xfe, 0xd9, 0x4e, 0x1d, 0xff, 0xd7, 0x4e, 0x1d, 0xfa, 0xdb, 0x4f, 0x1e, 0x2a, 0x00, 0x00, 0x00, 0x00,
     0xff, 0x80, 0x00, 0x02, 0xff, 0xff, 0xff, 0x01, 0x00, 0x00, 0x00, 0x00, 0xff, 0xff, 0xff, 0x05, 0xff, 0xff, 0xff, 0xd0,
     0xff, 0xff, 0xff, 0xff, 0xff, 0xff, 0xff, 0xff, 0xff, 0xff, 0xff, 0xca, 0xff, 0xff, 0xff, 0xa6, 0xff, 0xff, 0xff, 0xe4,
     0xff, 0xff, 0xff, 0xff, 0xff, 0xff, 0xff, 0xff, 0xff, 0xff, 0xff, 0x68, 0x00, 0x00, 0x00, 0x00, 0xff, 0xff, 0xff, 0x06,
     0x00, 0x00, 0x00, 0x00, 0xff, 0xff, 0xff, 0x89, 0xff, 0xff, 0xff, 0xff, 0xff, 0xff, 0xff, 0xff, 0xff, 0xff, 0xff, 0xac,
     0xff, 0xff, 0xff, 0x6e, 0xff, 0xff, 0xff, 0x77, 0xff, 0xff, 0xff, 0xd1, 0xff, 0xff, 0xff, 0xff],
    [0xff, 0xff, 0xff, 0xfa, 0xff, 0xff, 0xff, 0x28, 0x00, 0x00, 0x00, 0x00, 0x00, 0x00, 0x00, 0x00, 0xff, 0xff, 0xff, 0x2e,
     0xff, 0xff, 0xff, 0xff, 0xff, 0xff, 0xff, 0xff, 0xff, 0xff, 0xff, 0xd9, 0xff, 0xff, 0xff, 0xab, 0xff, 0xff, 0xff, 0x44,
     0x00, 0x00, 0x00, 0x00, 0xff, 0xff, 0xff, 0x0c, 0xff, 0xff, 0xff, 0xdc, 0xff, 0xff, 0xff, 0xff, 0xff, 0xff, 0xff, 0x99,
     0x00, 0x00, 0x00, 0x00, 0xff, 0xff, 0xff, 0x02, 0xff, 0xff, 0xff, 0x02, 0x00, 0x00, 0x00, 0x00, 0xff, 0xff, 0xff, 0x14,
     0xff, 0xff, 0xff, 0xe2, 0xff, 0xff, 0xff, 0xff, 0xff, 0xff, 0xff, 0xfe, 0xff, 0xff, 0xff, 0x41, 0x00, 0x00, 0x00, 0x00,
     0xff, 0xff, 0xff, 0x03, 0x00, 0x00, 0x00, 0x00, 0xff, 0xff, 0xff, 0x02, 0x00, 0x00, 0x00, 0x00],
    [0xff, 0xff, 0xff, 0x29, 0xff, 0xff, 0xff, 0xfc, 0xff, 0xff, 0xff, 0xfb, 0xff, 0xff, 0xff, 0xff, 0xff, 0xff, 0xff, 0xde,
     0xff, 0xff, 0xff, 0x0c, 0x00, 0x00, 0x00, 0x00, 0xff, 0xff, 0xff, 0x01, 0x00, 0x00, 0x00, 0x00, 0xff, 0xff, 0xff, 0x01,
     0x00, 0x00, 0x00, 0x00, 0xff, 0xff, 0xff, 0x0e, 0xff, 0xff, 0xff, 0xea, 0xff, 0xff, 0xff, 0xff, 0xff, 0xff, 0xff, 0x7d,
     0x00, 0x00, 0x00, 0x00, 0xff, 0xff, 0xff, 0x07, 0x00, 0x00, 0x00, 0x00, 0xff, 0xff, 0xff, 0x9e, 0xff, 0xff, 0xff, 0xff,
     0xff, 0xff, 0xff, 0xf7, 0xff, 0xff, 0xff, 0xff, 0xff, 0xff, 0xff, 0x3f, 0x00, 0x00, 0x00, 0x00, 0xff, 0xff, 0xff, 0x01,
     0xff, 0xff, 0xff, 0x05, 0xff, 0xff, 0xff, 0xcf, 0xff, 0xff, 0xff, 0xff, 0xff, 0xff, 0xff, 0xac],
    [0xd8, 0x4e, 0x1d, 0xff, 0xd8, 0x4e, 0x1d, 0xff, 0xd8, 0x4e, 0x1d, 0xff, 0xd8, 0x4e, 0x1d, 0xff, 0xd8, 0x4e, 0x1d, 0xff,
     0xd8, 0x4e, 0x1d, 0xff, 0xd8, 0x4e, 0x1d, 0xff, 0xd8, 0x4e, 0x1c, 0xff, 0xd8, 0x51, 0x24, 0xff, 0xd7, 0x48, 0x0a, 0xff,
     0xd8, 0x4b, 0x00, 0xff, 0xef, 0xc6, 0xbe, 0xff, 0xff, 0xfd, 0xfc, 0xff, 0xff, 0xff, 0xff, 0xff, 0xff, 0xff, 0xff, 0xff,
     0xff, 0xff, 0xff, 0xff, 0xff, 0xff, 0xff, 0xff, 0xff, 0xff, 0xff, 0xff, 0xff, 0xff, 0xff, 0xff, 0xff, 0xff, 0xfe, 0xff,
     0xf3, 0xd1, 0xca, 0xff, 0xda, 0x59, 0x2b, 0xff, 0xd7, 0x44, 0x00, 0xff, 0xd8, 0x52, 0x27, 0xff, 0xd8, 0x4e, 0x1b, 0xff,
     0xd8, 0x4e, 0x1d, 0xff, 0xd8, 0x4e, 0x1d, 0xff, 0xd8, 0x4e, 0x1d, 0xff, 0xd8, 0x4e, 0x1d, 0xff],
    [0xd8, 0x4e, 0x1d, 0xfe, 0xd9, 0x4e, 0x1d, 0xff, 0xd7, 0x4e, 0x1d, 0xfa, 0xdb, 0x4f, 0x1e, 0x2a, 0x00, 0x00, 0x00, 0x00,
     0xff, 0x80, 0x00, 0x02, 0x00, 0x00, 0x00, 0x00, 0xff, 0xff, 0xff, 0x02, 0x00, 0x00, 0x00, 0x00, 0xff, 0xff, 0xff, 0x26,
     0xff, 0xff, 0xff, 0xd8, 0xff, 0xff, 0xff, 0xff, 0xff, 0xff, 0xff, 0xff, 0xff, 0xff, 0xff, 0xff, 0xff, 0xff, 0xff, 0xff,
     0xff, 0xff, 0xff, 0xff, 0xff, 0xff, 0xff, 0x87, 0x00, 0x00, 0x00, 0x00, 0xff, 0xff, 0xff, 0x01, 0xff, 0xff, 0xff, 0x01,
     0x00, 0x00, 0x00, 0x00, 0x00, 0x00, 0x00, 0x00, 0xff, 0xff, 0xff, 0x96, 0xff, 0xff, 0xff, 0xff, 0xff, 0xff, 0xff, 0xff,
     0xff, 0xff, 0xff, 0xff, 0xff, 0xff, 0xff, 0xff, 0xff, 0xff, 0xff, 0xff, 0xff, 0xff, 0xff, 0xea],
    [0xff, 0xff, 0xff, 0x48, 0x00, 0x00, 0x00, 0x00, 0xff, 0xff, 0xff, 0x03, 0xff, 0xff, 0xff, 0x02, 0x00, 0x00, 0x00, 0x00,
     0xff, 0xff, 0xff, 0x94, 0xff, 0xff, 0xff, 0xff, 0xff, 0xff, 0xff, 0xff, 0xff, 0xff, 0xff, 0xff, 0xff, 0xff, 0xff, 0x6e,
     0x00, 0x00, 0x00, 0x00, 0xff, 0xff, 0xff, 0x0e, 0xff, 0xff, 0xff, 0xea, 0xff, 0xff, 0xff, 0xff, 0xff, 0xff, 0xff, 0xa2,
     0x00, 0x00, 0x00, 0x00, 0xff, 0xff, 0xff, 0x03, 0x00, 0x00, 0x00, 0x00, 0xff, 0xff, 0xff, 0x04, 0x00, 0x00, 0x00, 0x00,
     0xff, 0xff, 0xff, 0x49, 0xff, 0xff, 0xff, 0xff, 0xff, 0xff, 0xff, 0xff, 0xff, 0xff, 0xff, 0xee, 0xff, 0xff, 0xff, 0x20,
     0x00, 0x00, 0x00, 0x00, 0xff, 0xff, 0xff, 0x02, 0x00, 0x00, 0x00, 0x00, 0xff, 0xff, 0xff, 0x01],
    [0x00, 0x00, 0x00, 0x00, 0xff, 0xff, 0xff, 0xbd, 0xff, 0xff, 0xff, 0xff, 0xff, 0xff, 0xff, 0xff, 0xff, 0xff, 0xff, 0x87,
     0x00, 0x00, 0x00, 0x00, 0xff, 0xff, 0xff, 0x04, 0x00, 0x00, 0x00, 0x00, 0x00, 0x00, 0x00, 0x00, 0xff, 0xff, 0xff, 0x01,
     0x00, 0x00, 0x00, 0x00, 0xff, 0xff, 0xff, 0x0f, 0xff, 0xff, 0xff, 0xf8, 0xff, 0xff, 0xff, 0xff, 0xff, 0xff, 0xff, 0x85,
     0x00, 0x00, 0x00, 0x00, 0xff, 0xff, 0xff, 0x08, 0x00, 0x00, 0x00, 0x00, 0xff, 0xff, 0xff, 0x38, 0xff, 0xff, 0xff, 0xff,
     0xff, 0xff, 0xff, 0xff, 0xff, 0xff, 0xff, 0xc5, 0x00, 0x00, 0x00, 0x00, 0xff, 0xff, 0xff, 0x01, 0x00, 0x00, 0x00, 0x00,
     0xff, 0xff, 0xff, 0x05, 0xff, 0xff, 0xff, 0xdc, 0xff, 0xff, 0xff, 0xff, 0xff, 0xff, 0xff, 0xb5],
    [0xd8, 0x4e, 0x1d, 0xff, 0xd8, 0x4e, 0x1d, 0xff, 0xd8, 0x4e, 0x1d, 0xff, 0xd8, 0x4e, 0x1d, 0xff, 0xd8, 0x4e, 0x1d, 0xff,
     0xd8, 0x4e, 0x1d, 0xff, 0xd8, 0x4e, 0x1d, 0xff, 0xd8, 0x4e, 0x1d, 0xff, 0xd8, 0x4d, 0x1b, 0xff, 0xd8, 0x51, 0x24, 0xff,
     0xd8, 0x4d, 0x1c, 0xff, 0xd6, 0x27, 0x00, 0xff, 0xe1, 0x84, 0x6f, 0xff, 0xef, 0xc4, 0xbc, 0xff, 0xf7, 0xdf, 0xd9, 0xff,
     0xfc, 0xf5, 0xf4, 0xff, 0xfc, 0xf6, 0xf5, 0xff, 0xf8, 0xe5, 0xe0, 0xff, 0xf0, 0xcb, 0xc4, 0xff, 0xe3, 0x91, 0x7f, 0xff,
     0xd6, 0x30, 0x00, 0xff, 0xd7, 0x49, 0x0f, 0xff, 0xd8, 0x52, 0x27, 0xff, 0xd8, 0x4d, 0x1b, 0xff, 0xd8, 0x4e, 0x1d, 0xff,
     0xd8, 0x4e, 0x1d, 0xff, 0xd8, 0x4e, 0x1d, 0xff, 0xd8, 0x4e, 0x1d, 0xff, 0xd8, 0x4e, 0x1d, 0xff],
    [0xd8, 0x4e, 0x1d, 0xfe, 0xd9, 0x4e, 0x1d, 0xff, 0xd8, 0x4e, 0x1d, 0xf9, 0xdb, 0x4f, 0x1e, 0x2a, 0x00, 0x00, 0x00, 0x00,
     0xff, 0x80, 0x00, 0x02, 0x00, 0x00, 0x00, 0x00, 0x00, 0x00, 0x00, 0x00, 0xff, 0xff, 0xff, 0x02, 0x00, 0x00, 0x00, 0x00,
     0xff, 0xff, 0xff, 0x0a, 0xff, 0xff, 0xff, 0x6d, 0xff, 0xff, 0xff, 0xa5, 0xff, 0xff, 0xff, 0xaf, 0xff, 0xff, 0xff, 0x96,
     0xff, 0xff, 0xff, 0x45, 0x00, 0x00, 0x00, 0x00, 0x00, 0x00, 0x00, 0x00, 0xff, 0xff, 0xff, 0x01, 0x00, 0x00, 0x00, 0x00,
     0xff, 0xff, 0xff, 0x01, 0x00, 0x00, 0x00, 0x00, 0x00, 0x00, 0x00, 0x00, 0xff, 0xff, 0xff, 0x3f, 0xff, 0xff, 0xff, 0x90,
     0xff, 0xff, 0xff, 0xad, 0xff, 0xff, 0xff, 0xa6, 0xff, 0xff, 0xff, 0x74, 0xff, 0xff, 0xff, 0x16],
    [0x00, 0x00, 0x00, 0x00, 0xff, 0xff, 0xff, 0x02, 0x00, 0x00, 0x00, 0x00, 0xff, 0xff, 0xff, 0x01, 0x00, 0x00, 0x00, 0x00,
     0x00, 0x00, 0x00, 0x00, 0xff, 0xff, 0xff, 0x4e, 0xff, 0xff, 0xff, 0x80, 0xff, 0xff, 0xff, 0x7b, 0xff, 0xff, 0xff, 0x26,
     0x00, 0x00, 0x00, 0x00, 0xff, 0xff, 0xff, 0x06, 0xff, 0xff, 0xff, 0x58, 0xff, 0xff, 0xff, 0x6b, 0xff, 0xff, 0xff, 0x3c,
     0x00, 0x00, 0x00, 0x00, 0xff, 0xff, 0xff, 0x01, 0x00, 0x00, 0x00, 0x00, 0x00, 0x00, 0x00, 0x00, 0xff, 0xff, 0xff, 0x01,
     0x00, 0x00, 0x00, 0x00, 0xff, 0xff, 0xff, 0x4b, 0xff, 0xff, 0xff, 0x64, 0xff, 0xff, 0xff, 0x6c, 0xff, 0xff, 0xff, 0x2f,
     0x00, 0x00, 0x00, 0x00, 0xff, 0xff, 0xff, 0x02, 0x00, 0x00, 0x00, 0x00, 0xff, 0xff, 0xff, 0x02],
    [0x00, 0x00, 0x00, 0x00, 0xff, 0xff, 0xff, 0x2e, 0xff, 0xff, 0xff, 0x6b, 0xff, 0xff, 0xff, 0x64, 0xff, 0xff, 0xff, 0x1e,
     0x00, 0x00, 0x00, 0x00, 0xff, 0xff, 0xff, 0x01, 0x00, 0x00, 0x00, 0x00, 0x00, 0x00, 0x00, 0x00, 0x00, 0x00, 0x00, 0x00,
     0x00, 0x00, 0x00, 0x00, 0xff, 0xff, 0xff, 0x05, 0xff, 0xff, 0xff, 0x5c, 0xff, 0xff, 0xff, 0x6c, 0xff, 0xff, 0xff, 0x31,
     0x00, 0x00, 0x00, 0x00, 0xff, 0xff, 0xff, 0x02, 0x00, 0x00, 0x00, 0x00, 0xff, 0xff, 0xff, 0x03, 0xff, 0xff, 0xff, 0x55,
     0xff, 0xff, 0xff, 0x6d, 0xff, 0xff, 0xff, 0x2c, 0x00, 0x00, 0x00, 0x00, 0xff, 0xff, 0xff, 0x02, 0x00, 0x00, 0x00, 0x00,
     0xff, 0xff, 0xff, 0x02, 0xff, 0xff, 0xff, 0x51, 0xff, 0xff, 0xff, 0x6b, 0xff, 0xff, 0xff, 0x42]]"

lemma img_logo_map_8_size: "length (concat img_logo_map_8) = 1392"
  by (simp add: img_logo_map_8_def)

definition img_logo_map_9 :: "u8 list list" where
  "img_logo_map_9 = [
    [0xd8, 0x4e, 0x1d, 0xfb, 0xd8, 0x4e, 0x1d, 0xff, 0xd8, 0x4e, 0x1d, 0xff, 0xd8, 0x4e, 0x1d, 0xff, 0xd8, 0x4e, 0x1d, 0xff,
     0xd8, 0x4e, 0x1d, 0xff, 0xd8, 0x4e, 0x1d, 0xff, 0xd8, 0x4e, 0x1d, 0xff, 0xd8, 0x4e, 0x1d, 0xff, 0xd8, 0x4e, 0x1c, 0xff,
     0xd8, 0x4f, 0x20, 0xff, 0xd8, 0x54, 0x2c, 0xff, 0xd6, 0x3c, 0x00, 0xff, 0xd5, 0x1d, 0x00, 0xff, 0xd8, 0x48, 0x00, 0xff,
     0xda, 0x62, 0x45, 0xff, 0xda, 0x63, 0x47, 0xff, 0xd9, 0x50, 0x19, 0xff, 0xd6, 0x22, 0x00, 0xff, 0xd6, 0x35, 0x00, 0xff,
     0xd8, 0x53, 0x2a, 0xff, 0xd8, 0x50, 0x22, 0xff, 0xd8, 0x4e, 0x1c, 0xff, 0xd8, 0x4e, 0x1d, 0xff, 0xd8, 0x4e, 0x1d, 0xff,
     0xd8, 0x4e, 0x1d, 0xff, 0xd8, 0x4e, 0x1d, 0xff, 0xd8, 0x4e, 0x1d, 0xff, 0xd8, 0x4e, 0x1d, 0xff],
    [0xd8, 0x4e, 0x1d, 0xfe, 0xd9, 0x4e, 0x1d, 0xff, 0xd8, 0x4f, 0x1d, 0xfa, 0xdb, 0x4f, 0x1e, 0x2a, 0x00, 0x00, 0x00, 0x00,
     0xff, 0x80, 0x00, 0x02, 0x00, 0x00, 0x00, 0x00, 0x00, 0x00, 0x00, 0x00, 0x00, 0x00, 0x00, 0x00, 0xff, 0xff, 0xff, 0x02,
     0x00, 0x00, 0x00, 0x00, 0x00, 0x00, 0x00, 0x00, 0x00, 0x00, 0x00, 0x00, 0x00, 0x00, 0x00, 0x00, 0x00, 0x00, 0x00, 0x00,
     0x00, 0x00, 0x00, 0x00, 0xff, 0xff, 0xff, 0x02, 0xff, 0xff, 0xff, 0x01, 0x00, 0x00, 0x00, 0x00, 0x00, 0x00, 0x00, 0x00,
     0x00, 0x00, 0x00, 0x00, 0xff, 0xff, 0xff, 0x01, 0xff, 0xff, 0xff, 0x02, 0x00, 0x00, 0x00, 0x00, 0x00, 0x00, 0x00, 0x00,
     0x00, 0x00, 0x00, 0x00, 0x00, 0x00, 0x00, 0x00, 0x00, 0x00, 0x00, 0x00, 0x00, 0x00, 0x00, 0x00],
    [0xff, 0xff, 0xff, 0x03, 0x00, 0x00, 0x00, 0x00, 0x00, 0x00, 0x00, 0x00, 0x00, 0x00, 0x00, 0x00, 0xff, 0xff, 0xff, 0x01,
     0x00, 0x00, 0x00, 0x00, 0x00, 0x00, 0x00, 0x00, 0x00, 0x00, 0x00, 0x00, 0x00, 0x00, 0x00, 0x00, 0x00, 0x00, 0x00, 0x00,
     0xff, 0xff, 0xff, 0x01, 0x00, 0x00, 0x00, 0x00, 0x00, 0x00, 0x00, 0x00, 0x00, 0x00, 0x00, 0x00, 0x00, 0x00, 0x00, 0x00,
     0xff, 0xff, 0xff, 0x01, 0x00, 0x00, 0x00, 0x00, 0x00, 0x00, 0x00, 0x00, 0x00, 0x00, 0x00, 0x00, 0x00, 0x00, 0x00, 0x00,
     0xff, 0xff, 0xff, 0x01, 0x00, 0x00, 0x00, 0x00, 0x00, 0x00, 0x00, 0x00, 0x00, 0x00, 0x00, 0x00, 0x00, 0x00, 0x00, 0x00,
     0xff, 0xff, 0xff, 0x01, 0x00, 0x00, 0x00, 0x00, 0x00, 0x00, 0x00, 0x00, 0x00, 0x00, 0x00, 0x00],
    [0xff, 0xff, 0xff, 0x02, 0x00, 0x00, 0x00, 0x00, 0x00, 0x00, 0x00, 0x00, 0x00, 0x00, 0x00, 0x00, 0x00, 0x00, 0x00, 0x00,
     0xff, 0xff, 0xff, 0x01, 0x00, 0x00, 0x00, 0x00, 0x00, 0x00, 0x00, 0x00, 0x00, 0x00, 0x00, 0x00, 0x00, 0x00, 0x00, 0x00,
     0x00, 0x00, 0x00, 0x00, 0x00, 0x00, 0x00, 0x00, 0x00, 0x00, 0x00, 0x00, 0x00, 0x00, 0x00, 0x00, 0x00, 0x00, 0x00, 0x00,
     0xff, 0xff, 0xff, 0x01, 0x00, 0x00, 0x00, 0x00, 0x00, 0x00, 0x00, 0x00, 0x00, 0x00, 0x00, 0x00, 0x00, 0x00, 0x00, 0x00,
     0x00, 0x00, 0x00, 0x00, 0x00, 0x00, 0x00, 0x00, 0xff, 0xff, 0xff, 0x02, 0x00, 0x00, 0x00, 0x00, 0x00, 0x00, 0x00, 0x00,
     0x00, 0x00, 0x00, 0x00, 0x00, 0x00, 0x00, 0x00, 0x00, 0x00, 0x00, 0x00, 0x00, 0x00, 0x00, 0x00],
    [0xd8, 0x4e, 0x1d, 0xdd, 0xdd, 0x50, 0x1d, 0xff, 0xd8, 0x4e, 0x1d, 0xfe, 0xd8, 0x4e, 0x1d, 0xff, 0xd8, 0x4e, 0x1d, 0xff,
     0xd8, 0x4e, 0x1d, 0xff, 0xd8, 0x4e, 0x1d, 0xff, 0xd8, 0x4e, 0x1d, 0xff, 0xd8, 0x4e, 0x1d, 0xff, 0xd8, 0x4e, 0x1d, 0xff,
     0xd8, 0x4e, 0x1d, 0xff, 0xd8, 0x4e, 0x1d, 0xff, 0xd8, 0x52, 0x26, 0xff, 0xd9, 0x55, 0x2f, 0xff, 0xd8, 0x4f, 0x22, 0xff,
     0xd7, 0x47, 0x00, 0xff, 0xd7, 0x47, 0x00, 0xff, 0xd8, 0x4d, 0x1b, 0xff, 0xd9, 0x54, 0x2f, 0xff, 0xd8, 0x53, 0x28, 0xff,
     0xd8, 0x4e, 0x1d, 0xff, 0xd8, 0x4e, 0x1d, 0xff, 0xd8, 0x4e, 0x1d, 0xff, 0xd8, 0x4e, 0x1d, 0xff, 0xd8, 0x4e, 0x1d, 0xff,
     0xd8, 0x4e, 0x1d, 0xff, 0xd8, 0x4e, 0x1d, 0xff, 0xd8, 0x4e, 0x1d, 0xff, 0xd8, 0x4e, 0x1d, 0xff],
    [0xd8, 0x4e, 0x1d, 0xfe, 0xdb, 0x4f, 0x1d, 0xff, 0xd8, 0x4e, 0x1d, 0xec, 0xe1, 0x4b, 0x1e, 0x11, 0x00, 0x00, 0x00, 0x00,
     0xff, 0x00, 0x00, 0x01, 0x00, 0x00, 0x00, 0x00, 0x00, 0x00, 0x00, 0x00, 0x00, 0x00, 0x00, 0x00, 0x00, 0x00, 0x00, 0x00,
     0xff, 0xff, 0xff, 0x01, 0xff, 0xff, 0xff, 0x04, 0xff, 0xff, 0xff, 0x02, 0xff, 0xff, 0xff, 0x01, 0xff, 0xff, 0xff, 0x03,
     0xff, 0xff, 0xff, 0x03, 0x00, 0x00, 0x00, 0x00, 0x00, 0x00, 0x00, 0x00, 0x00, 0x00, 0x00, 0x00, 0x00, 0x00, 0x00, 0x00,
     0x00, 0x00, 0x00, 0x00, 0x00, 0x00, 0x00, 0x00, 0x00, 0x00, 0x00, 0x00, 0xff, 0xff, 0xff, 0x03, 0xff, 0xff, 0xff, 0x04,
     0xff, 0xff, 0xff, 0x01, 0xff, 0xff, 0xff, 0x02, 0xff, 0xff, 0xff, 0x04, 0xff, 0xff, 0xff, 0x01],
    [0x00, 0x00, 0x00, 0x00, 0x00, 0x00, 0x00, 0x00, 0x00, 0x00, 0x00, 0x00, 0x00, 0x00, 0x00, 0x00, 0x00, 0x00, 0x00, 0x00,
     0x00, 0x00, 0x00, 0x00, 0xff, 0xff, 0xff, 0x03, 0xff, 0xff, 0xff, 0x05, 0xff, 0xff, 0xff, 0x05, 0xff, 0xff, 0xff, 0x02,
     0x00, 0x00, 0x00, 0x00, 0x00, 0x00, 0x00, 0x00, 0xff, 0xff, 0xff, 0x03, 0xff, 0xff, 0xff, 0x04, 0xff, 0xff, 0xff, 0x02,
     0x00, 0x00, 0x00, 0x00, 0x00, 0x00, 0x00, 0x00, 0x00, 0x00, 0x00, 0x00, 0x00, 0x00, 0x00, 0x00, 0x00, 0x00, 0x00, 0x00,
     0x00, 0x00, 0x00, 0x00, 0xff, 0xff, 0xff, 0x03, 0xff, 0xff, 0xff, 0x04, 0xff, 0xff, 0xff, 0x04, 0xff, 0xff, 0xff, 0x02,
     0x00, 0x00, 0x00, 0x00, 0x00, 0x00, 0x00, 0x00, 0x00, 0x00, 0x00, 0x00, 0x00, 0x00, 0x00, 0x00],
    [0x00, 0x00, 0x00, 0x00, 0xff, 0xff, 0xff, 0x02, 0xff, 0xff, 0xff, 0x04, 0xff, 0xff, 0xff, 0x04, 0xff, 0xff, 0xff, 0x01,
     0x00, 0x00, 0x00, 0x00, 0x00, 0x00, 0x00, 0x00, 0x00, 0x00, 0x00, 0x00, 0x00, 0x00, 0x00, 0x00, 0x00, 0x00, 0x00, 0x00,
     0x00, 0x00, 0x00, 0x00, 0x00, 0x00, 0x00, 0x00, 0xff, 0xff, 0xff, 0x04, 0xff, 0xff, 0xff, 0x04, 0xff, 0xff, 0xff, 0x02,
     0x00, 0x00, 0x00, 0x00, 0x00, 0x00, 0x00, 0x00, 0x00, 0x00, 0x00, 0x00, 0x00, 0x00, 0x00, 0x00, 0xff, 0xff, 0xff, 0x03,
     0xff, 0xff, 0xff, 0x04, 0xff, 0xff, 0xff, 0x02, 0x00, 0x00, 0x00, 0x00, 0x00, 0x00, 0x00, 0x00, 0x00, 0x00, 0x00, 0x00,
     0x00, 0x00, 0x00, 0x00, 0xff, 0xff, 0xff, 0x03, 0xff, 0xff, 0xff, 0x04, 0xff, 0xff, 0xff, 0x03],
    [0xd9, 0x4e, 0x1e, 0x99, 0xe5, 0x53, 0x1f, 0xff, 0xd8, 0x4e, 0x1c, 0xfb, 0xd8, 0x4e, 0x1d, 0xff, 0xd8, 0x4e, 0x1d, 0xff,
     0xd8, 0x4e, 0x1d, 0xff, 0xd8, 0x4e, 0x1d, 0xff, 0xd8, 0x4e, 0x1d, 0xff, 0xd8, 0x4e, 0x1d, 0xff, 0xd8, 0x4e, 0x1d, 0xff,
     0xd8, 0x4e, 0x1d, 0xff, 0xd8, 0x4e, 0x1d, 0xff, 0xd8, 0x4e, 0x1d, 0xff, 0xd8, 0x4e, 0x1d, 0xff, 0xd8, 0x4f, 0x1f, 0xff,
     0xd8, 0x50, 0x22, 0xff, 0xd8, 0x50, 0x22, 0xff, 0xd8, 0x4f, 0x20, 0xff, 0xd8, 0x4e, 0x1d, 0xff, 0xd8, 0x4e, 0x1d, 0xff,
     0xd8, 0x4e, 0x1d, 0xff, 0xd8, 0x4e, 0x1d, 0xff, 0xd8, 0x4e, 0x1d, 0xff, 0xd8, 0x4e, 0x1d, 0xff, 0xd8, 0x4e, 0x1d, 0xff,
     0xd8, 0x4e, 0x1d, 0xff, 0xd8, 0x4e, 0x1d, 0xff, 0xd8, 0x4e, 0x1d, 0xff, 0xd8, 0x4e, 0x1d, 0xff],
    [0xd8, 0x4e, 0x1d, 0xfc, 0xe3, 0x52, 0x1e, 0xff, 0xd8, 0x4e, 0x1d, 0xb7, 0x00, 0x00, 0x00, 0x00, 0xff, 0x00, 0x00, 0x01,
     0x00, 0x00, 0x00, 0x00, 0x00, 0x00, 0x00, 0x00, 0x00, 0x00, 0x00, 0x00, 0x00, 0x00, 0x00, 0x00, 0x00, 0x00, 0x00, 0x00,
     0x00, 0x00, 0x00, 0x00, 0x00, 0x00, 0x00, 0x00, 0x00, 0x00, 0x00, 0x00, 0x00, 0x00, 0x00, 0x00, 0x00, 0x00, 0x00, 0x00,
     0x00, 0x00, 0x00, 0x00, 0x00, 0x00, 0x00, 0x00, 0x00, 0x00, 0x00, 0x00, 0x00, 0x00, 0x00, 0x00, 0x00, 0x00, 0x00, 0x00,
     0x00, 0x00, 0x00, 0x00, 0x00, 0x00, 0x00, 0x00, 0x00, 0x00, 0x00, 0x00, 0x00, 0x00, 0x00, 0x00, 0x00, 0x00, 0x00, 0x00,
     0x00, 0x00, 0x00, 0x00, 0x00, 0x00, 0x00, 0x00, 0x00, 0x00, 0x00, 0x00, 0x00, 0x00, 0x00, 0x00],
    [0x00, 0x00, 0x00, 0x00, 0x00, 0x00, 0x00, 0x00, 0x00, 0x00, 0x00, 0x00, 0x00, 0x00, 0x00, 0x00, 0x00, 0x00, 0x00, 0x00,
     0x00, 0x00, 0x00, 0x00, 0x00, 0x00, 0x00, 0x00, 0x00, 0x00, 0x00, 0x00, 0x00, 0x00, 0x00, 0x00, 0x00, 0x00, 0x00, 0x00,
     0x00, 0x00, 0x00, 0x00, 0x00, 0x00, 0x00, 0x00, 0x00, 0x00, 0x00, 0x00, 0x00, 0x00, 0x00, 0x00, 0x00, 0x00, 0x00, 0x00,
     0x00, 0x00, 0x00, 0x00, 0x00, 0x00, 0x00, 0x00, 0x00, 0x00, 0x00, 0x00, 0x00, 0x00, 0x00, 0x00, 0x00, 0x00, 0x00, 0x00,
     0x00, 0x00, 0x00, 0x00, 0x00, 0x00, 0x00, 0x00, 0x00, 0x00, 0x00, 0x00, 0x00, 0x00, 0x00, 0x00, 0x00, 0x00, 0x00, 0x00,
     0x00, 0x00, 0x00, 0x00, 0x00, 0x00, 0x00, 0x00, 0x00, 0x00, 0x00, 0x00, 0x00, 0x00, 0x00, 0x00],
    [0x00, 0x00, 0x00, 0x00, 0x00, 0x00, 0x00, 0x00, 0x00, 0x00, 0x00, 0x00, 0x00, 0x00, 0x00, 0x00, 0x00, 0x00, 0x00, 0x00,
     0x00, 0x00, 0x00, 0x00, 0x00, 0x00, 0x00, 0x00, 0x00, 0x00, 0x00, 0x00, 0x00, 0x00, 0x00, 0x00, 0x00, 0x00, 0x00, 0x00,
     0x00, 0x00, 0x00, 0x00, 0x00, 0x00, 0x00, 0x00, 0x00, 0x00, 0x00, 0x00, 0x00, 0x00, 0x00, 0x00, 0x00, 0x00, 0x00, 0x00,
     0x00, 0x00, 0x00, 0x00, 0x00, 0x00, 0x00, 0x00, 0x00, 0x00, 0x00, 0x00, 0x00, 0x00, 0x00, 0x00, 0x00, 0x00, 0x00, 0x00,
     0x00, 0x00, 0x00, 0x00, 0x00, 0x00, 0x00, 0x00, 0x00, 0x00, 0x00, 0x00, 0x00, 0x00, 0x00, 0x00, 0x00, 0x00, 0x00, 0x00,
     0x00, 0x00, 0x00, 0x00, 0x00, 0x00, 0x00, 0x00, 0x00, 0x00, 0x00, 0x00, 0x00, 0x00, 0x00, 0x00]]"

lemma img_logo_map_9_size: "length (concat img_logo_map_9) = 1392"
  by (simp add: img_logo_map_9_def)

definition img_logo_map_10 :: "u8 list list" where
  "img_logo_map_10 = [
    [0xd8, 0x4e, 0x1d, 0x34, 0xda, 0x4f, 0x1d, 0xff, 0xd8, 0x4e, 0x1d, 0xfe, 0xd8, 0x4e, 0x1d, 0xfe, 0xd8, 0x4e, 0x1d, 0xff,
     0xd8, 0x4e, 0x1d, 0xff, 0xd8, 0x4e, 0x1d, 0xff, 0xd8, 0x4e, 0x1d, 0xff, 0xd8, 0x4e, 0x1d, 0xff, 0xd8, 0x4e, 0x1d, 0xff,
     0xd8, 0x4e, 0x1d, 0xff, 0xd8, 0x4e, 0x1d, 0xff, 0xd8, 0x4e, 0x1d, 0xff, 0xd8, 0x4e, 0x1d, 0xff, 0xd8, 0x4e, 0x1d, 0xff,
     0xd8, 0x4e, 0x1d, 0xff, 0xd8, 0x4e, 0x1d, 0xff, 0xd8, 0x4e, 0x1d, 0xff, 0xd8, 0x4e, 0x1d, 0xff, 0xd8, 0x4e, 0x1d, 0xff,
     0xd8, 0x4e, 0x1d, 0xff, 0xd8, 0x4e, 0x1d, 0xff, 0xd8, 0x4e, 0x1d, 0xff, 0xd8, 0x4e, 0x1d, 0xff, 0xd8, 0x4e, 0x1d, 0xff,
     0xd8, 0x4e, 0x1d, 0xff, 0xd8, 0x4e, 0x1d, 0xff, 0xd8, 0x4e, 0x1d, 0xff, 0xd8, 0x4e, 0x1d, 0xff],
    [0xd7, 0x4e, 0x1c, 0xfb, 0xe3, 0x52, 0x1f, 0xff, 0xd8, 0x4f, 0x1e, 0x54, 0x00, 0x00, 0x00, 0x00, 0xff, 0x55, 0x00, 0x03,
     0x00, 0x00, 0x00, 0x00, 0x00, 0x00, 0x00, 0x00, 0x00, 0x00, 0x00, 0x00, 0x00, 0x00, 0x00, 0x00, 0x00, 0x00, 0x00, 0x00,
     0x00, 0x00, 0x00, 0x00, 0x00, 0x00, 0x00, 0x00, 0x00, 0x00, 0x00, 0x00, 0x00, 0x00, 0x00, 0x00, 0x00, 0x00, 0x00, 0x00,
     0x00, 0x00, 0x00, 0x00, 0x00, 0x00, 0x00, 0x00, 0x00, 0x00, 0x00, 0x00, 0x00, 0x00, 0x00, 0x00, 0x00, 0x00, 0x00, 0x00,
     0x00, 0x00, 0x00, 0x00, 0x00, 0x00, 0x00, 0x00, 0x00, 0x00, 0x00, 0x00, 0x00, 0x00, 0x00, 0x00, 0x00, 0x00, 0x00, 0x00,
     0x00, 0x00, 0x00, 0x00, 0x00, 0x00, 0x00, 0x00, 0x00, 0x00, 0x00, 0x00, 0x00, 0x00, 0x00, 0x00],
    [0x00, 0x00, 0x00, 0x00, 0x00, 0x00, 0x00, 0x00, 0x00, 0x00, 0x00, 0x00, 0x00, 0x00, 0x00, 0x00, 0x00, 0x00, 0x00, 0x00,
     0x00, 0x00, 0x00, 0x00, 0x00, 0x00, 0x00, 0x00, 0x00, 0x00, 0x00, 0x00, 0x00, 0x00, 0x00, 0x00, 0x00, 0x00, 0x00, 0x00,
     0x00, 0x00, 0x00, 0x00, 0x00, 0x00, 0x00, 0x00, 0x00, 0x00, 0x00, 0x00, 0x00, 0x00, 0x00, 0x00, 0x00, 0x00, 0x00, 0x00,
     0x00, 0x00, 0x00, 0x00, 0x00, 0x00, 0x00, 0x00, 0x00, 0x00, 0x00, 0x00, 0x00, 0x00, 0x00, 0x00, 0x00, 0x00, 0x00, 0x00,
     0x00, 0x00, 0x00, 0x00, 0x00, 0x00, 0x00, 0x00, 0x00, 0x00, 0x00, 0x00, 0x00, 0x00, 0x00, 0x00, 0x00, 0x00, 0x00, 0x00,
     0x00, 0x00, 0x00, 0x00, 0x00, 0x00, 0x00, 0x00, 0x00, 0x00, 0x00, 0x00, 0x00, 0x00, 0x00, 0x00],
    [0x00, 0x00, 0x00, 0x00, 0x00, 0x00, 0x00, 0x00, 0x00, 0x00, 0x00, 0x00, 0x00, 0x00, 0x00, 0x00, 0x00, 0x00, 0x00, 0x00,
     0x00, 0x00, 0x00, 0x00, 0x00, 0x00, 0x00, 0x00, 0x00, 0x00, 0x00, 0x00, 0x00, 0x00, 0x00, 0x00, 0x00, 0x00, 0x00, 0x00,
     0x00, 0x00, 0x00, 0x00, 0x00, 0x00, 0x00, 0x00, 0x00, 0x00, 0x00, 0x00, 0x00, 0x00, 0x00, 0x00, 0x00, 0x00, 0x00, 0x00,
     0x00, 0x00, 0x00, 0x00, 0x00, 0x00, 0x00, 0x00, 0x00, 0x00, 0x00, 0x00, 0x00, 0x00, 0x00, 0x00, 0x00, 0x00, 0x00, 0x00,
     0x00, 0x00, 0x00, 0x00, 0x00, 0x00, 0x00, 0x00, 0x00, 0x00, 0x00, 0x00, 0x00, 0x00, 0x00, 0x00, 0x00, 0x00, 0x00, 0x00,
     0x00, 0x00, 0x00, 0x00, 0x00, 0x00, 0x00, 0x00, 0x00, 0x00, 0x00, 0x00, 0x00, 0x00, 0x00, 0x00],
    [0x00, 0x00, 0x00, 0x00, 0xd8, 0x4f, 0x1e, 0x9b, 0xe9, 0x54, 0x1f, 0xff, 0xd8, 0x4e, 0x1d, 0xf9, 0xd8, 0x4e, 0x1d, 0xfe,
     0xd8, 0x4e, 0x1d, 0xff, 0xd8, 0x4e, 0x1d, 0xff, 0xd8, 0x4e, 0x1d, 0xff, 0xd8, 0x4e, 0x1d, 0xff, 0xd8, 0x4e, 0x1d, 0xff,
     0xd8, 0x4e, 0x1d, 0xff, 0xd8, 0x4e, 0x1d, 0xff, 0xd8, 0x4e, 0x1d, 0xff, 0xd8, 0x4e, 0x1d, 0xff, 0xd8, 0x4e, 0x1d, 0xff,
     0xd8, 0x4e, 0x1d, 0xff, 0xd8, 0x4e, 0x1d, 0xff, 0xd8, 0x4e, 0x1d, 0xff, 0xd8, 0x4e, 0x1d, 0xff, 0xd8, 0x4e, 0x1d, 0xff,
     0xd8, 0x4e, 0x1d, 0xff, 0xd8, 0x4e, 0x1d, 0xff, 0xd8, 0x4e, 0x1d, 0xff, 0xd8, 0x4e, 0x1d, 0xff, 0xd8, 0x4e, 0x1d, 0xff,
     0xd8, 0x4e, 0x1d, 0xff, 0xd8, 0x4e, 0x1d, 0xff, 0xd8, 0x4e, 0x1d, 0xff, 0xd8, 0x4e, 0x1d, 0xf9],
    [0xe8, 0x54, 0x1f, 0xff, 0xd7, 0x4e, 0x1d, 0xba, 0x00, 0x00, 0x00, 0x00, 0xff, 0x00, 0x00, 0x01, 0x00, 0x00, 0x00, 0x00,
     0x00, 0x00, 0x00, 0x00, 0x00, 0x00, 0x00, 0x00, 0x00, 0x00, 0x00, 0x00, 0x00, 0x00, 0x00, 0x00, 0x00, 0x00, 0x00, 0x00,
     0x00, 0x00, 0x00, 0x00, 0x00, 0x00, 0x00, 0x00, 0x00, 0x00, 0x00, 0x00, 0x00, 0x00, 0x00, 0x00, 0x00, 0x00, 0x00, 0x00,
     0x00, 0x00, 0x00, 0x00, 0x00, 0x00, 0x00, 0x00, 0x00, 0x00, 0x00, 0x00, 0x00, 0x00, 0x00, 0x00, 0x00, 0x00, 0x00, 0x00,
     0x00, 0x00, 0x00, 0x00, 0x00, 0x00, 0x00, 0x00, 0x00, 0x00, 0x00, 0x00, 0x00, 0x00, 0x00, 0x00, 0x00, 0x00, 0x00, 0x00,
     0x00, 0x00, 0x00, 0x00, 0x00, 0x00, 0x00, 0x00, 0x00, 0x00, 0x00, 0x00, 0x00, 0x00, 0x00, 0x00],
    [0x00, 0x00, 0x00, 0x00, 0x00, 0x00, 0x00, 0x00, 0x00, 0x00, 0x00, 0x00, 0x00, 0x00, 0x00, 0x00, 0x00, 0x00, 0x00, 0x00,
     0x00, 0x00, 0x00, 0x00, 0x00, 0x00, 0x00, 0x00, 0x00, 0x00, 0x00, 0x00, 0x00, 0x00, 0x00, 0x00, 0x00, 0x00, 0x00, 0x00,
     0x00, 0x00, 0x00, 0x00, 0x00, 0x00, 0x00, 0x00, 0x00, 0x00, 0x00, 0x00, 0x00, 0x00, 0x00, 0x00, 0x00, 0x00, 0x00, 0x00,
     0x00, 0x00, 0x00, 0x00, 0x00, 0x00, 0x00, 0x00, 0x00, 0x00, 0x00, 0x00, 0x00, 0x00, 0x00, 0x00, 0x00, 0x00, 0x00, 0x00,
     0x00, 0x00, 0x00, 0x00, 0x00, 0x00, 0x00, 0x00, 0x00, 0x00, 0x00, 0x00, 0x00, 0x00, 0x00, 0x00, 0x00, 0x00, 0x00, 0x00,
     0x00, 0x00, 0x00, 0x00, 0x00, 0x00, 0x00, 0x00, 0x00, 0x00, 0x00, 0x00, 0x00, 0x00, 0x00, 0x00],
    [0x00, 0x00, 0x00, 0x00, 0x00, 0x00, 0x00, 0x00, 0x00, 0x00, 0x00, 0x00, 0x00, 0x00, 0x00, 0x00, 0x00, 0x00, 0x00, 0x00,
     0x00, 0x00, 0x00, 0x00, 0x00, 0x00, 0x00, 0x00, 0x00, 0x00, 0x00, 0x00, 0x00, 0x00, 0x00, 0x00, 0x00, 0x00, 0x00, 0x00,
     0x00, 0x00, 0x00, 0x00, 0x00, 0x00, 0x00, 0x00, 0x00, 0x00, 0x00, 0x00, 0x00, 0x00, 0x00, 0x00, 0x00, 0x00, 0x00, 0x00,
     0x00, 0x00, 0x00, 0x00, 0x00, 0x00, 0x00, 0x00, 0x00, 0x00, 0x00, 0x00, 0x00, 0x00, 0x00, 0x00, 0x00, 0x00, 0x00, 0x00,
     0x00, 0x00, 0x00, 0x00, 0x00, 0x00, 0x00, 0x00, 0x00, 0x00, 0x00, 0x00, 0x00, 0x00, 0x00, 0x00, 0x00, 0x00, 0x00, 0x00,
     0x00, 0x00, 0x00, 0x00, 0x00, 0x00, 0x00, 0x00, 0x00, 0x00, 0x00, 0x00, 0x00, 0x00, 0x00, 0x00],
    [0x00, 0x00, 0x00, 0x00, 0xbf, 0x40, 0x40, 0x04, 0xd7, 0x4e, 0x1e, 0xb3, 0xea, 0x55, 0x1f, 0xff, 0xd8, 0x4e, 0x1d, 0xfe,
     0xd7, 0x4e, 0x1c, 0xfb, 0xd8, 0x4e, 0x1d, 0xfe, 0xd8, 0x4e, 0x1d, 0xff, 0xd8, 0x4e, 0x1d, 0xff, 0xd8, 0x4e, 0x1d, 0xff,
     0xd8, 0x4e, 0x1d, 0xff, 0xd8, 0x4e, 0x1d, 0xff, 0xd8, 0x4e, 0x1d, 0xff, 0xd8, 0x4e, 0x1d, 0xff, 0xd8, 0x4e, 0x1d, 0xff,
     0xd8, 0x4e, 0x1d, 0xff, 0xd8, 0x4e, 0x1d, 0xff, 0xd8, 0x4e, 0x1d, 0xff, 0xd8, 0x4e, 0x1d, 0xff, 0xd8, 0x4e, 0x1d, 0xff,
     0xd8, 0x4e, 0x1d, 0xff, 0xd8, 0x4e, 0x1d, 0xff, 0xd8, 0x4e, 0x1d, 0xff, 0xd8, 0x4e, 0x1d, 0xff, 0xd8, 0x4e, 0x1d, 0xff,
     0xd8, 0x4e, 0x1d, 0xfe, 0xd8, 0x4e, 0x1c, 0xfb, 0xd9, 0x4e, 0x1d, 0xfc, 0xe7, 0x53, 0x1f, 0xff],
    [0xd8, 0x4e, 0x1c, 0xd8, 0xd6, 0x52, 0x1f, 0x19, 0x00, 0x00, 0x00, 0x00, 0xff, 0x80, 0x00, 0x02, 0x00, 0x00, 0x00, 0x00,
     0x00, 0x00, 0x00, 0x00, 0x00, 0x00, 0x00, 0x00, 0x00, 0x00, 0x00, 0x00, 0x00, 0x00, 0x00, 0x00, 0x00, 0x00, 0x00, 0x00,
     0x00, 0x00, 0x00, 0x00, 0x00, 0x00, 0x00, 0x00, 0x00, 0x00, 0x00, 0x00, 0x00, 0x00, 0x00, 0x00, 0x00, 0x00, 0x00, 0x00,
     0x00, 0x00, 0x00, 0x00, 0x00, 0x00, 0x00, 0x00, 0x00, 0x00, 0x00, 0x00, 0x00, 0x00, 0x00, 0x00, 0x00, 0x00, 0x00, 0x00,
     0x00, 0x00, 0x00, 0x00, 0x00, 0x00, 0x00, 0x00, 0x00, 0x00, 0x00, 0x00, 0x00, 0x00, 0x00, 0x00, 0x00, 0x00, 0x00, 0x00,
     0x00, 0x00, 0x00, 0x00, 0x00, 0x00, 0x00, 0x00, 0x00, 0x00, 0x00, 0x00, 0x00, 0x00, 0x00, 0x00],
    [0x00, 0x00, 0x00, 0x00, 0x00, 0x00, 0x00, 0x00, 0x00, 0x00, 0x00, 0x00, 0x00, 0x00, 0x00, 0x00, 0x00, 0x00, 0x00, 0x00,
     0x00, 0x00, 0x00, 0x00, 0x00, 0x00, 0x00, 0x00, 0x00, 0x00, 0x00, 0x00, 0x00, 0x00, 0x00, 0x00, 0x00, 0x00, 0x00, 0x00,
     0x00, 0x00, 0x00, 0x00, 0x00, 0x00, 0x00, 0x00, 0x00, 0x00, 0x00, 0x00, 0x00, 0x00, 0x00, 0x00, 0x00, 0x00, 0x00, 0x00,
     0x00, 0x00, 0x00, 0x00, 0x00, 0x00, 0x00, 0x00, 0x00, 0x00, 0x00, 0x00, 0x00, 0x00, 0x00, 0x00, 0x00, 0x00, 0x00, 0x00,
     0x00, 0x00, 0x00, 0x00, 0x00, 0x00, 0x00, 0x00, 0x00, 0x00, 0x00, 0x00, 0x00, 0x00, 0x00, 0x00, 0x00, 0x00, 0x00, 0x00,
     0x00, 0x00, 0x00, 0x00, 0x00, 0x00, 0x00, 0x00, 0x00, 0x00, 0x00, 0x00, 0x00, 0x00, 0x00, 0x00],
    [0x00, 0x00, 0x00, 0x00, 0x00, 0x00, 0x00, 0x00, 0x00, 0x00, 0x00, 0x00, 0x00, 0x00, 0x00, 0x00, 0x00, 0x00, 0x00, 0x00,
     0x00, 0x00, 0x00, 0x00, 0x00, 0x00, 0x00, 0x00, 0x00, 0x00, 0x00, 0x00, 0x00, 0x00, 0x00, 0x00, 0x00, 0x00, 0x00, 0x00,
     0x00, 0x00, 0x00, 0x00, 0x00, 0x00, 0x00, 0x00, 0x00, 0x00, 0x00, 0x00, 0x00, 0x00, 0x00, 0x00, 0x00, 0x00, 0x00, 0x00,
     0x00, 0x00, 0x00, 0x00, 0x00, 0x00, 0x00, 0x00, 0x00, 0x00, 0x00, 0x00, 0x00, 0x00, 0x00, 0x00, 0x00, 0x00, 0x00, 0x00,
     0x00, 0x00, 0x00, 0x00, 0x00, 0x00, 0x00, 0x00, 0x00, 0x00, 0x00, 0x00, 0x00, 0x00, 0x00, 0x00, 0x00, 0x00, 0x00, 0x00,
     0x00, 0x00, 0x00, 0x00, 0x00, 0x00, 0x00, 0x00, 0x00, 0x00, 0x00, 0x00, 0x00, 0x00, 0x00, 0x00]]"

lemma img_logo_map_10_size: "length (concat img_logo_map_10) = 1392"
  by (simp add: img_logo_map_10_def)

definition img_logo_map_11 :: "u8 list list" where
  "img_logo_map_11 = [
    [0xff, 0x80, 0x00, 0x02, 0x00, 0x00, 0x00, 0x00, 0xff, 0x55, 0x55, 0x03, 0xd8, 0x4f, 0x1d, 0x95, 0xdb, 0x4f, 0x1d, 0xff,
     0xe6, 0x53, 0x1f, 0xff, 0xdd, 0x50, 0x1e, 0xff, 0xd8, 0x4e, 0x1d, 0xff, 0xd8, 0x4e, 0x1d, 0xff, 0xd8, 0x4e, 0x1d, 0xff,
     0xd8, 0x4e, 0x1d, 0xff, 0xd8, 0x4e, 0x1d, 0xff, 0xd8, 0x4e, 0x1d, 0xff, 0xd8, 0x4e, 0x1d, 0xff, 0xd8, 0x4e, 0x1d, 0xff,
     0xd8, 0x4e, 0x1d, 0xff, 0xd8, 0x4e, 0x1d, 0xff, 0xd8, 0x4e, 0x1d, 0xff, 0xd8, 0x4e, 0x1d, 0xff, 0xd8, 0x4e, 0x1d, 0xff,
     0xd8, 0x4e, 0x1d, 0xff, 0xd8, 0x4e, 0x1d, 0xff, 0xd8, 0x4e, 0x1d, 0xff, 0xd8, 0x4e, 0x1d, 0xff, 0xd8, 0x4e, 0x1d, 0xff,
     0xdc, 0x4f, 0x1d, 0xff, 0xe5, 0x53, 0x1f, 0xff, 0xe0, 0x51, 0x1e, 0xff, 0xd9, 0x4f, 0x1d, 0xae],
    [0xd7, 0x51, 0x1b, 0x13, 0x00, 0x00, 0x00, 0x00, 0xaa, 0x55, 0x00, 0x03, 0x00, 0x00, 0x00, 0x00, 0x00, 0x00, 0x00, 0x00,
     0x00, 0x00, 0x00, 0x00, 0x00, 0x00, 0x00, 0x00, 0x00, 0x00, 0x00, 0x00, 0x00, 0x00, 0x00, 0x00, 0x00, 0x00, 0x00, 0x00,
     0x00, 0x00, 0x00, 0x00, 0x00, 0x00, 0x00, 0x00, 0x00, 0x00, 0x00, 0x00, 0x00, 0x00, 0x00, 0x00, 0x00, 0x00, 0x00, 0x00,
     0x00, 0x00, 0x00, 0x00, 0x00, 0x00, 0x00, 0x00, 0x00, 0x00, 0x00, 0x00, 0x00, 0x00, 0x00, 0x00, 0x00, 0x00, 0x00, 0x00,
     0x00, 0x00, 0x00, 0x00, 0x00, 0x00, 0x00, 0x00, 0x00, 0x00, 0x00, 0x00, 0x00, 0x00, 0x00, 0x00, 0x00, 0x00, 0x00, 0x00,
     0x00, 0x00, 0x00, 0x00, 0x00, 0x00, 0x00, 0x00, 0x00, 0x00, 0x00, 0x00, 0x00, 0x00, 0x00, 0x00],
    [0x00, 0x00, 0x00, 0x00, 0x00, 0x00, 0x00, 0x00, 0x00, 0x00, 0x00, 0x00, 0x00, 0x00, 0x00, 0x00, 0x00, 0x00, 0x00, 0x00,
     0x00, 0x00, 0x00, 0x00, 0x00, 0x00, 0x00, 0x00, 0x00, 0x00, 0x00, 0x00, 0x00, 0x00, 0x00, 0x00, 0x00, 0x00, 0x00, 0x00,
     0x00, 0x00, 0x00, 0x00, 0x00, 0x00, 0x00, 0x00, 0x00, 0x00, 0x00, 0x00, 0x00, 0x00, 0x00, 0x00, 0x00, 0x00, 0x00, 0x00,
     0x00, 0x00, 0x00, 0x00, 0x00, 0x00, 0x00, 0x00, 0x00, 0x00, 0x00, 0x00, 0x00, 0x00, 0x00, 0x00, 0x00, 0x00, 0x00, 0x00,
     0x00, 0x00, 0x00, 0x00, 0x00, 0x00, 0x00, 0x00, 0x00, 0x00, 0x00, 0x00, 0x00, 0x00, 0x00, 0x00, 0x00, 0x00, 0x00, 0x00,
     0x00, 0x00, 0x00, 0x00, 0x00, 0x00, 0x00, 0x00, 0x00, 0x00, 0x00, 0x00, 0x00, 0x00, 0x00, 0x00],
    [0x00, 0x00, 0x00, 0x00, 0x00, 0x00, 0x00, 0x00, 0x00, 0x00, 0x00, 0x00, 0x00, 0x00, 0x00, 0x00, 0x00, 0x00, 0x00, 0x00,
     0x00, 0x00, 0x00, 0x00, 0x00, 0x00, 0x00, 0x00, 0x00, 0x00, 0x00, 0x00, 0x00, 0x00, 0x00, 0x00, 0x00, 0x00, 0x00, 0x00,
     0x00, 0x00, 0x00, 0x00, 0x00, 0x00, 0x00, 0x00, 0x00, 0x00, 0x00, 0x00, 0x00, 0x00, 0x00, 0x00, 0x00, 0x00, 0x00, 0x00,
     0x00, 0x00, 0x00, 0x00, 0x00, 0x00, 0x00, 0x00, 0x00, 0x00, 0x00, 0x00, 0x00, 0x00, 0x00, 0x00, 0x00, 0x00, 0x00, 0x00,
     0x00, 0x00, 0x00, 0x00, 0x00, 0x00, 0x00, 0x00, 0x00, 0x00, 0x00, 0x00, 0x00, 0x00, 0x00, 0x00, 0x00, 0x00, 0x00, 0x00,
     0x00, 0x00, 0x00, 0x00, 0x00, 0x00, 0x00, 0x00, 0x00, 0x00, 0x00, 0x00, 0x00, 0x00, 0x00, 0x00],
    [0x00, 0x00, 0x00, 0x00, 0xff, 0x80, 0x00, 0x02, 0x00, 0x00, 0x00, 0x00, 0x00, 0x00, 0x00, 0x00, 0xd6, 0x4d, 0x1b, 0x38,
     0xd9, 0x4e, 0x1c, 0x9a, 0xd8, 0x4e, 0x1e, 0xd8, 0xd8, 0x4e, 0x1d, 0xfb, 0xd8, 0x4e, 0x1d, 0xff, 0xd8, 0x4e, 0x1d, 0xff,
     0xd8, 0x4e, 0x1d, 0xff, 0xd8, 0x4e, 0x1d, 0xff, 0xd8, 0x4e, 0x1d, 0xff, 0xd8, 0x4e, 0x1d, 0xff, 0xd8, 0x4e, 0x1d, 0xff,
     0xd8, 0x4e, 0x1d, 0xff, 0xd8, 0x4e, 0x1d, 0xff, 0xd8, 0x4e, 0x1d, 0xff, 0xd8, 0x4e, 0x1d, 0xff, 0xd8, 0x4e, 0x1d, 0xff,
     0xd8, 0x4e, 0x1d, 0xff, 0xd8, 0x4e, 0x1d, 0xff, 0xd8, 0x4e, 0x1d, 0xff, 0xd8, 0x4e, 0x1d, 0xff, 0xd9, 0x4e, 0x1d, 0xfc,
     0xd7, 0x4e, 0x1d, 0xe1, 0xd7, 0x4f, 0x1d, 0xa1, 0xd6, 0x4e, 0x1e, 0x45, 0x00, 0x00, 0x00, 0x00],
    [0x00, 0x00, 0x00, 0x00, 0xaa, 0x55, 0x00, 0x03, 0x00, 0x00, 0x00, 0x00, 0x00, 0x00, 0x00, 0x00, 0x00, 0x00, 0x00, 0x00,
     0x00, 0x00, 0x00, 0x00, 0x00, 0x00, 0x00, 0x00, 0x00, 0x00, 0x00, 0x00, 0x00, 0x00, 0x00, 0x00, 0x00, 0x00, 0x00, 0x00,
     0x00, 0x00, 0x00, 0x00, 0x00, 0x00, 0x00, 0x00, 0x00, 0x00, 0x00, 0x00, 0x00, 0x00, 0x00, 0x00, 0x00, 0x00, 0x00, 0x00,
     0x00, 0x00, 0x00, 0x00, 0x00, 0x00, 0x00, 0x00, 0x00, 0x00, 0x00, 0x00, 0x00, 0x00, 0x00, 0x00, 0x00, 0x00, 0x00, 0x00,
     0x00, 0x00, 0x00, 0x00, 0x00, 0x00, 0x00, 0x00, 0x00, 0x00, 0x00, 0x00, 0x00, 0x00, 0x00, 0x00, 0x00, 0x00, 0x00, 0x00,
     0x00, 0x00, 0x00, 0x00, 0x00, 0x00, 0x00, 0x00, 0x00, 0x00, 0x00, 0x00, 0x00, 0x00, 0x00, 0x00],
    [0x00, 0x00, 0x00, 0x00, 0x00, 0x00, 0x00, 0x00, 0x00, 0x00, 0x00, 0x00, 0x00, 0x00, 0x00, 0x00, 0x00, 0x00, 0x00, 0x00,
     0x00, 0x00, 0x00, 0x00, 0x00, 0x00, 0x00, 0x00, 0x00, 0x00, 0x00, 0x00, 0x00, 0x00, 0x00, 0x00, 0x00, 0x00, 0x00, 0x00,
     0x00, 0x00, 0x00, 0x00, 0x00, 0x00, 0x00, 0x00, 0x00, 0x00, 0x00, 0x00, 0x00, 0x00, 0x00, 0x00, 0x00, 0x00, 0x00, 0x00,
     0x00, 0x00, 0x00, 0x00, 0x00, 0x00, 0x00, 0x00, 0x00, 0x00, 0x00, 0x00, 0x00, 0x00, 0x00, 0x00, 0x00, 0x00, 0x00, 0x00,
     0x00, 0x00, 0x00, 0x00, 0x00, 0x00, 0x00, 0x00, 0x00, 0x00, 0x00, 0x00, 0x00, 0x00, 0x00, 0x00, 0x00, 0x00, 0x00, 0x00,
     0x00, 0x00, 0x00, 0x00, 0x00, 0x00, 0x00, 0x00, 0x00, 0x00, 0x00, 0x00, 0x00, 0x00, 0x00, 0x00],
    [0x00, 0x00, 0x00, 0x00, 0x00, 0x00, 0x00, 0x00, 0x00, 0x00, 0x00, 0x00, 0x00, 0x00, 0x00, 0x00, 0x00, 0x00, 0x00, 0x00,
     0x00, 0x00, 0x00, 0x00, 0x00, 0x00, 0x00, 0x00, 0x00, 0x00, 0x00, 0x00, 0x00, 0x00, 0x00, 0x00, 0x00, 0x00, 0x00, 0x00,
     0x00, 0x00, 0x00, 0x00, 0x00, 0x00, 0x00, 0x00, 0x00, 0x00, 0x00, 0x00, 0x00, 0x00, 0x00, 0x00, 0x00, 0x00, 0x00, 0x00,
     0x00, 0x00, 0x00, 0x00, 0x00, 0x00, 0x00, 0x00, 0x00, 0x00, 0x00, 0x00, 0x00, 0x00, 0x00, 0x00, 0x00, 0x00, 0x00, 0x00,
     0x00, 0x00, 0x00, 0x00, 0x00, 0x00, 0x00, 0x00, 0x00, 0x00, 0x00, 0x00, 0x00, 0x00, 0x00, 0x00, 0x00, 0x00, 0x00, 0x00,
     0x00, 0x00, 0x00, 0x00, 0x00, 0x00, 0x00, 0x00, 0x00, 0x00, 0x00, 0x00, 0x00, 0x00, 0x00, 0x00]]"

lemma img_logo_map_11_size: "length (concat img_logo_map_11) = 928"
  by (simp add: img_logo_map_11_def)

definition img_logo_map :: "u8 list list" where
  "img_logo_map = img_logo_map_1 @ img_logo_map_2 @ img_logo_map_3 @ img_logo_map_4 @ img_logo_map_5 @ img_logo_map_6 @
     img_logo_map_7 @ img_logo_map_8 @ img_logo_map_9 @ img_logo_map_10 @ img_logo_map_11"

lemma img_logo_map_size: "length (concat img_logo_map) = 14848"
  by (simp add: img_logo_map_def img_logo_map_1_size img_logo_map_2_size img_logo_map_3_size img_logo_map_4_size img_logo_map_5_size
      img_logo_map_6_size img_logo_map_7_size img_logo_map_8_size img_logo_map_9_size
      img_logo_map_10_size img_logo_map_11_size)

definition img_logo :: lv_image_dsc where
  "img_logo = \<lparr>image_cf = LV_COLOR_FORMAT_ARGB8888, image_flags = 0, image_w = 116, image_h = 32, image_stride = 464,
     data_size = length (concat img_logo_map), image_data = concat img_logo_map\<rparr>"

lemma img_logo_ok [images_ok]: "image_ok img_logo"
  by (simp add: image_ok_def img_logo_def img_logo_map_size)

end
