(* ===== verification/Image_Table.thy ===== *)
theory Image_Table
  imports Image_Icons Image_Logos Image_Boot Image_D2 Screen_Props
begin

text \<open>
  The images by the names the screens and the lookup use, and that each of them can be drawn.
\<close>

fun image_of :: "ui_image \<Rightarrow> lv_image_dsc" where
  "image_of Img_logo = img_logo"
| "image_of Img_boot_logo_2 = img_boot_logo_2"
| "image_of Img_arrow_icon = img_arrow_icon"
| "image_of Img_back_caret = img_back_caret"
| "image_of Img_back_icon = img_back_icon"
| "image_of Img_check_icon = img_check_icon"
| "image_of Img_cloud_disconnected = img_cloud_disconnected"
| "image_of Img_cloud = img_cloud"
| "image_of Img_d2 = img_d2"
| "image_of Img_ethernet = img_ethernet"
| "image_of Img_hdmi = img_hdmi"
| "image_of Img_jetkvm = img_jetkvm"
| "image_of Img_usb = img_usb"
| "image_of Img_x_icon = img_x_icon"

text \<open>The table of \<^verbatim>\<open>images.c\<close>.\<close>

definition images :: "(string \<times> lv_image_dsc) list" where
  "images = [(''logo'', img_logo), (''boot-logo-2'', img_boot_logo_2), (''arrow-icon'', img_arrow_icon),
     (''back-caret'', img_back_caret), (''back-icon'', img_back_icon), (''check-icon'', img_check_icon),
     (''cloud_disconnected'', img_cloud_disconnected), (''cloud'', img_cloud), (''d2'', img_d2), (''ethernet'', img_ethernet),
     (''hdmi'', img_hdmi), (''jetkvm'', img_jetkvm), (''usb'', img_usb), (''x-icon'', img_x_icon)]"

lemma image_of_ok: "image_ok (image_of i)"
  by (cases i) (simp_all add: images_ok)

lemma images_all_ok: "(n, d) \<in> set images \<Longrightarrow> image_ok d"
  by (auto simp: images_def images_ok)

text \<open>C37: Every image a name finds can be drawn: it fits on the display of 240 by 300 pixels, its size is the size of its data, each
  pixel inside its width and height lies inside the data, with all its four bytes.\<close>

theorem images_sound:
  assumes "ui_get_image generated_index name = Some i" "x < image_w (image_of i)" "y < image_h (image_of i)"
  shows "image_w (image_of i) \<le> 240 \<and> image_h (image_of i) \<le> 300 \<and> data_size (image_of i) = length (image_data (image_of i)) \<and>
    y * image_stride (image_of i) + x * 4 + 4 \<le> length (image_data (image_of i)) \<and> length (pixel (image_of i) x y) = 4"
proof -
  have p: "pixel_bytes (image_cf (image_of i)) = 4" by (cases "image_cf (image_of i)") simp
  have "data_size (image_of i) = length (image_data (image_of i))" "image_w (image_of i) \<le> 240" "image_h (image_of i) \<le> 300"
    using image_of_ok [of i] unfolding image_ok_def by blast+
  with pixel_inside [OF image_of_ok assms(2,3)] pixel_complete [OF image_of_ok assms(2,3)] show ?thesis unfolding p by blast
qed

theorem images_sound_witness:
  "ui_get_image generated_index ''img_hdmi'' = Some Img_hdmi \<and> length (pixel (image_of Img_hdmi) 19 19) = 4"
proof -
  have h: "ui_get_image generated_index ''img_hdmi'' = Some Img_hdmi" by (simp add: ui_get_image_def generated_index_def)
  from images_sound [OF this, of 19 19] show ?thesis using h by (simp add: img_hdmi_def)
qed

end
