(* ===== verification/Ctrl_Video.thy ===== *)
theory Ctrl_Video
  imports Video_Control_Props Edid_Props Log
begin

text \<open>
  The video half of \<^verbatim>\<open>internal/native/cgo/ctrl.c\<close>: what the Go process calls to start and stop streaming, set the
  quality and the codec, read and write the EDID in hexadecimal, and the frame handler.
\<close>

section \<open>Handlers and frames\<close>

text \<open>\<^verbatim>\<open>video_handler\<close> with the frames it was called with, newest first.\<close>

record frame_sink =
  video_handler :: bool
  frames :: "u8 list list"
  sink_log :: logger

definition jetkvm_set_video_handler :: "bool \<Rightarrow> frame_sink \<Rightarrow> frame_sink" where
  "jetkvm_set_video_handler handler s = s\<lparr>video_handler := handler\<rparr>"

definition video_send_frame :: "u8 list \<Rightarrow> frame_sink \<Rightarrow> int \<times> frame_sink" where
  "video_send_frame frame s =
     (0, if video_handler s then s\<lparr>frames := frame # frames s\<rparr>
         else s\<lparr>sink_log := log_error ''ctrl.c'' ''video_send_frame'' 85 ''video handler is not set'' (sink_log s)\<rparr>)"

definition jetkvm_set_video_state_handler :: "bool \<Rightarrow> video \<Rightarrow> video" where
  "jetkvm_set_video_state_handler handler v = v\<lparr>video_state_handler := handler\<rparr>"

section \<open>Control\<close>

definition jetkvm_video_start :: "native_env \<Rightarrow> video \<Rightarrow> video" where
  "jetkvm_video_start env v = video_start_streaming env v"

definition jetkvm_video_stop :: "native_env \<Rightarrow> video \<Rightarrow> video" where
  "jetkvm_video_stop env v = video_stop_streaming env v"

definition jetkvm_video_get_streaming_status :: "native_env \<Rightarrow> video \<Rightarrow> u8 \<times> video" where
  "jetkvm_video_get_streaming_status env v = video_get_streaming_status env v"

definition jetkvm_video_set_quality_factor :: "native_env \<Rightarrow> cfloat \<Rightarrow> video \<Rightarrow> int \<times> video" where
  "jetkvm_video_set_quality_factor env factor v =
     (if le_zero factor then (-1, v) else (0, video_set_quality_factor env factor v))"

definition jetkvm_video_get_quality_factor :: "video \<Rightarrow> cfloat" where
  "jetkvm_video_get_quality_factor v = video_get_quality_factor v"

definition jetkvm_video_set_codec_type :: "int \<Rightarrow> video \<Rightarrow> int \<times> video" where
  "jetkvm_video_set_codec_type type v =
     (if type < 0 \<or> type > 1 then (-1, v) else (0, video_set_codec_type type v))"

definition jetkvm_video_get_codec_type :: "video \<Rightarrow> int" where
  "jetkvm_video_get_codec_type v = video_get_codec_type v"

definition jetkvm_video_get_status :: "video \<Rightarrow> video_state" where
  "jetkvm_video_get_status v = state v"

definition jetkvm_video_log_status :: "native_env \<Rightarrow> ncall list \<Rightarrow> string option \<times> ncall list" where
  "jetkvm_video_log_status env h = videoc_log_status env h"

definition jetkvm_video_init :: "native_env \<Rightarrow> cfloat \<Rightarrow> video \<Rightarrow> int \<times> video" where
  "jetkvm_video_init env factor v = video_init env factor v"

definition jetkvm_video_shutdown :: "native_env \<Rightarrow> video \<Rightarrow> video" where
  "jetkvm_video_shutdown env v = video_shutdown env v"

text \<open>A store through a null pointer: the process ends.\<close>

definition jetkvm_crash :: "video \<Rightarrow> video option" where
  "jetkvm_crash v = None"

section \<open>EDID in hexadecimal\<close>

text \<open>\<open>edid\<close> is the uninitialised local array of 256 bytes.\<close>

definition jetkvm_video_set_edid :: "native_env \<Rightarrow> u8 list \<Rightarrow> string \<Rightarrow> ncall list \<Rightarrow> int option \<times> ncall list" where
  "jetkvm_video_set_edid env edid edid_hex h =
     (case hex_to_bytes edid_hex edid 256 of None \<Rightarrow> (None, h)
      | Some (edid_len, edid) \<Rightarrow>
          if edid_len < 0 then (Some (-1), h) else set_edid env (Some edid) (nat edid_len) h)"

text \<open>The outer \<open>None\<close> is an access outside the array, the inner one the result \<^verbatim>\<open>NULL\<close>.\<close>

definition jetkvm_video_get_edid_hex :: "native_env \<Rightarrow> u8 list \<Rightarrow> ncall list \<Rightarrow> string option option \<times> ncall list" where
  "jetkvm_video_get_edid_hex env edid h =
     (case get_edid env (Some edid) 256 h of
        (None, h) \<Rightarrow> (None, h)
      | (Some (edid_len, edid), h) \<Rightarrow>
          if edid_len < 0 then (Some None, h)
          else if edid_len = 0 then (Some (bytes_to_hex False edid 0), h)
          else (case ndo env (Malloc (2 * nat edid_len + 1)) h of (p, h) \<Rightarrow>
                  (Some (bytes_to_hex (p \<noteq> 0) edid (nat edid_len)), h)))"

section \<open>What the receiver remembers\<close>

text \<open>The EDID of the device: the one written last and accepted.\<close>

fun edid_of :: "native_env \<Rightarrow> ncall list \<Rightarrow> u8 list" where
  "edid_of env [] = []"
| "edid_of env (c # h) = (case c of
       Ioctl_S_EDID fd n e \<Rightarrow> if nret env (c # h) \<ge> 0 then e else edid_of env h
     | _ \<Rightarrow> edid_of env h)"

text \<open>The documented behaviour of the driver: reading returns the blocks that were written.\<close>

definition faithful_edid :: "native_env \<Rightarrow> bool" where
  "faithful_edid env \<longleftrightarrow> (\<forall>fd n h. nbytes env (Ioctl_G_EDID fd n # h) = take (n * 128) (edid_of env h) \<and>
     (edid_of env h \<noteq> [] \<longrightarrow> nret env (Ioctl_G_EDID fd n # h) \<ge> 0))"

section \<open>Writing\<close>

lemma set_edid_blocks:
  assumes "length buf = 256" "sz = 128 \<or> sz = 256"
  shows "\<exists>e. fix_edid_checksum buf sz = Some e \<and> length e = 256 \<and> (\<forall>b < sz div 128. block_sum (take sz e) b = 0) \<and>
    (\<forall>i < sz. i mod 128 \<noteq> 127 \<longrightarrow> take sz e ! i = buf ! i)"
proof -
  have n: "sz div 128 * 128 \<le> length buf" using assms by auto
  obtain e where e: "fix_edid_checksum buf sz = Some e" "length e = 256" "\<forall>b < sz div 128. block_sum e b = 0"
    "\<forall>i. i mod 128 \<noteq> 127 \<or> sz div 128 * 128 \<le> i \<longrightarrow> e ! i = buf ! i"
    using checksum_loop_ok [OF n, of 0] assms(1) by (auto simp: fix_edid_checksum_def)
  have "block_sum (take sz e) b = block_sum e b" if "b < sz div 128" for b
    by (rule block_sum_cong) (use that assms(2) in auto)
  then show ?thesis using e by (intro exI [of _ e]) auto
qed

lemma set_edid_hex_eff:
  fixes env :: native_env
  assumes "length edid = 256" "parse_hex hex = Some bs" "length bs = 128 \<or> length bs = 256"
  defines "fd \<equiv> \<lambda>h. nret env (Open V4L_SUBDEV # h)"
  obtains e where "length e = length bs" "\<forall>b < length bs div 128. block_sum e b = 0"
    "\<forall>i < length bs. i mod 128 \<noteq> 127 \<longrightarrow> e ! i = bs ! i"
    "\<And>h. jetkvm_video_set_edid env edid hex h = (let o' = Open V4L_SUBDEV # h; c = Ioctl_S_EDID (fd h) (length bs div 128) e # o' in
       if fd h < 0 then (Some (-1), o') else (Some (if nret env c < 0 then -1 else 0), Close (fd h) # c))"
proof -
  have p: "hex_to_bytes hex edid 256 = Some (int (length bs), bs @ drop (length bs) edid)"
    using hex_to_bytes_parse [of edid 256 hex] assms(1-3) by auto
  have len: "length (bs @ drop (length bs) edid) = 256" using assms(1,3) by auto
  obtain e where e: "fix_edid_checksum (bs @ drop (length bs) edid) (length bs) = Some e" "length e = 256"
    "\<forall>b < length bs div 128. block_sum (take (length bs) e) b = 0"
    "\<forall>i < length bs. i mod 128 \<noteq> 127 \<longrightarrow> take (length bs) e ! i = (bs @ drop (length bs) edid) ! i"
    using set_edid_blocks [OF len assms(3)] by blast
  show thesis
  proof (rule that [of "take (length bs) e"])
    show "length (take (length bs) e) = length bs" using e(2) assms(3) by auto
    show "\<forall>b < length bs div 128. block_sum (take (length bs) e) b = 0" by (rule e(3))
    show "\<forall>i < length bs. i mod 128 \<noteq> 127 \<longrightarrow> take (length bs) e ! i = bs ! i" using e(4) by (simp add: nth_append)
    show "jetkvm_video_set_edid env edid hex h = (let o' = Open V4L_SUBDEV # h; c = Ioctl_S_EDID (fd h) (length bs div 128) (take (length bs) e) # o' in
       if fd h < 0 then (Some (-1), o') else (Some (if nret env c < 0 then -1 else 0), Close (fd h) # c))" for h
      using p e(1) assms(3) by (simp add: jetkvm_video_set_edid_def set_edid_def ndo_def Let_def fd_def)
  qed
qed

section \<open>Stated properties\<close>

text \<open>Text that is not an EDID never reaches the device: a malformed hexadecimal string, or one whose length is not 128 or 256
  bytes, makes \<^verbatim>\<open>jetkvm_video_set_edid\<close> return -1 without a single call to the system.\<close>

theorem set_edid_hex_rejects:
  assumes "length edid = 256" "\<forall>bs. parse_hex hex = Some bs \<longrightarrow> length bs \<noteq> 128 \<and> length bs \<noteq> 256"
  shows "jetkvm_video_set_edid env edid hex h = (Some (-1), h)"
proof -
  obtain r buf where r: "hex_to_bytes hex edid 256 = Some (r, buf)"
    "case parse_hex hex of Some bs \<Rightarrow> if length bs \<le> 256 then r = int (length bs) \<and> buf = bs @ drop (length bs) edid else r = -1
     | None \<Rightarrow> r = -1"
    using hex_to_bytes_parse [of edid 256 hex] assms(1) by auto
  have "r < 0 \<or> nat r \<noteq> 128 \<and> nat r \<noteq> 256" using r(2) assms(2) by (auto split: option.splits if_splits)
  then show ?thesis using r(1) by (auto simp: jetkvm_video_set_edid_def set_edid_def)
qed

theorem set_edid_hex_rejects_witness:
  "jetkvm_video_set_edid calm_env (replicate 256 0) ''00ff'' [] = (Some (-1), [])"
proof -
  have "parse_hex ''00ff'' = Some [0, 255]" by code_simp
  then show ?thesis by (intro set_edid_hex_rejects) auto
qed

text \<open>C18: The EDID round trip through the device: after a hexadecimal EDID of one or two blocks was accepted, reading the EDID back gives a
  hexadecimal text of the same length whose bytes are the ones written except the last byte of each block, and whose blocks sum to zero.
  The driver returns the blocks it accepted, and opening the device and allocating memory succeed.\<close>

theorem edid_hex_roundtrip:
  assumes "faithful_edid env" "\<forall>h. nret env (Open V4L_SUBDEV # h) \<ge> 0" "\<forall>n h. nret env (Malloc n # h) \<noteq> 0"
    and "length edid = 256" "length edid' = 256" "parse_hex hex = Some bs" "length bs = 128 \<or> length bs = 256"
    and "jetkvm_video_set_edid env edid hex h = (Some 0, h')"
  shows "\<exists>hex' h'' e. jetkvm_video_get_edid_hex env edid' h' = (Some (Some hex'), h'') \<and> parse_hex hex' = Some e \<and>
    length hex' = 2 * length bs \<and> length e = length bs \<and>
    (\<forall>b < length bs div 128. block_sum e b = 0) \<and> (\<forall>i < length bs. i mod 128 \<noteq> 127 \<longrightarrow> e ! i = bs ! i)"
proof -
  let ?fd = "nret env (Open V4L_SUBDEV # h)"
  obtain e where e: "length e = length bs" "\<forall>b < length bs div 128. block_sum e b = 0"
    "\<forall>i < length bs. i mod 128 \<noteq> 127 \<longrightarrow> e ! i = bs ! i"
    "\<And>h. jetkvm_video_set_edid env edid hex h = (let o' = Open V4L_SUBDEV # h;
         c = Ioctl_S_EDID (nret env (Open V4L_SUBDEV # h)) (length bs div 128) e # o' in
       if nret env (Open V4L_SUBDEV # h) < 0 then (Some (-1), o')
       else (Some (if nret env c < 0 then -1 else 0), Close (nret env (Open V4L_SUBDEV # h)) # c))"
    using set_edid_hex_eff [OF assms(4,6,7), where env = env] by blast
  let ?c = "Ioctl_S_EDID ?fd (length bs div 128) e # Open V4L_SUBDEV # h"
  have fd: "?fd \<ge> 0" using assms(2) by blast
  have h': "h' = Close ?fd # ?c" "nret env ?c \<ge> 0" using assms(8) fd by (auto simp: e(4) Let_def split: if_splits)
  have ed: "edid_of env (Open V4L_SUBDEV # h') = e" using h' by simp
  let ?fd' = "nret env (Open V4L_SUBDEV # h')"
  let ?g = "Ioctl_G_EDID ?fd' 2 # Open V4L_SUBDEV # h'"
  have "e \<noteq> []" using e(1) assms(7) by auto
  then have g: "nbytes env ?g = e" "nret env ?g \<ge> 0" "?fd' \<ge> 0"
    using assms(1,2,7) ed e(1) unfolding faithful_edid_def by auto
  have ge: "get_edid env (Some edid') 256 h' = (Some (int (length bs), Some (e @ drop (length e) edid')), Close ?fd' # ?g)"
    using g assms(5,7) e(1) by (auto simp: get_edid_def ndo_def Let_def)
  have "jetkvm_video_get_edid_hex env edid' h' = (Some (Some (hex_fill e)), Malloc (2 * length bs + 1) # Close ?fd' # ?g)"
    using ge assms(3,7) e(1) by (auto simp: jetkvm_video_get_edid_hex_def ndo_def bytes_to_hex_def)
  moreover have "length (hex_fill xs) = 2 * length xs" for xs by (induction xs) (simp_all add: fmt_02x_def)
  ultimately show ?thesis using e(1-3) parse_hex_fill [of e] by (intro exI conjI) (auto simp: e(1))
qed

text \<open>A receiver that accepts every EDID and remembers it.\<close>

fun last_edid :: "ncall list \<Rightarrow> u8 list" where
  "last_edid [] = []"
| "last_edid (c # h) = (case c of Ioctl_S_EDID fd n e \<Rightarrow> e | _ \<Rightarrow> last_edid h)"

definition edid_env :: native_env where
  "edid_env = calm_env\<lparr>nret := (\<lambda>h. case h of Malloc n # _ \<Rightarrow> 64 | Open p # _ \<Rightarrow> 3 | _ \<Rightarrow> 0),
     nbytes := (\<lambda>h. case h of Ioctl_G_EDID fd n # h' \<Rightarrow> take (n * 128) (last_edid h') | _ \<Rightarrow> [])\<rparr>"

lemma edid_of_edid_env: "edid_of edid_env h = last_edid h"
  by (induction h) (auto simp: edid_env_def split: ncall.split)

lemma faithful_edid_env: "faithful_edid edid_env"
  unfolding faithful_edid_def edid_of_edid_env by (simp add: edid_env_def)

theorem edid_hex_roundtrip_witness:
  "\<exists>h' hex' h''. jetkvm_video_set_edid edid_env (replicate 256 0) (hex_fill (replicate 128 7)) [] = (Some 0, h') \<and>
     jetkvm_video_get_edid_hex edid_env (replicate 256 0) h' = (Some (Some hex'), h'') \<and> length hex' = 256"
proof -
  have p: "parse_hex (hex_fill (replicate 128 7)) = Some (replicate 128 7)" by (rule parse_hex_fill)
  have l: "length (replicate 256 0 :: u8 list) = 256" "length (replicate 128 (7 :: u8)) = 128 \<or> length (replicate 128 (7 :: u8)) = 256" by simp_all
  have "\<exists>h'. jetkvm_video_set_edid edid_env (replicate 256 0) (hex_fill (replicate 128 7)) [] = (Some 0, h')"
    by (rule set_edid_hex_eff [OF l(1) p l(2), where env = edid_env]) (simp add: edid_env_def Let_def)
  then obtain h' where s: "jetkvm_video_set_edid edid_env (replicate 256 0) (hex_fill (replicate 128 7)) [] = (Some 0, h')" ..
  have "\<forall>h. nret edid_env (Open V4L_SUBDEV # h) \<ge> 0" "\<forall>n h. nret edid_env (Malloc n # h) \<noteq> 0" by (simp_all add: edid_env_def)
  from edid_hex_roundtrip [OF faithful_edid_env this l(1) l(1) p l(2) s] obtain hex' h'' where
    "jetkvm_video_get_edid_hex edid_env (replicate 256 0) h' = (Some (Some hex'), h'')" "length hex' = 2 * length (replicate 128 (7 :: u8))"
    by blast
  with s show ?thesis by (intro exI conjI) simp_all
qed

lemma quality_wait: "quality_factor (snd (wait_loop env n v)) = quality_factor v"
  by (induction n arbitrary: v) (simp_all add: get_streaming_stopped_def vdo_def vrun_def)

lemma quality_flag: "quality_factor (set_streaming_flag env b v) = quality_factor v"
  by (simp add: set_streaming_flag_def video_send_format_report_def video_get_streaming_status_def get_streaming_stopped_def
      vdo_def report_def split: prod.split)

lemma quality_status: "quality_factor (snd (video_get_streaming_status env v)) = quality_factor v"
  by (simp add: video_get_streaming_status_def get_streaming_stopped_def vdo_def)

lemma quality_stop: "quality_factor (video_stop_streaming env v) = quality_factor v"
  by (simp add: video_stop_streaming_def wait_for_streaming_stopped_def vrun_def quality_wait quality_flag)

lemma quality_start: "quality_factor (video_start_streaming env v) = quality_factor v"
  by (simp add: video_start_streaming_def get_streaming_stopped_def vdo_def quality_flag)

lemma quality_restart: "quality_factor (video_restart_streaming env v) = quality_factor v"
  using quality_status [of env v]
  by (simp add: video_restart_streaming_def Let_def wait_for_streaming_stopped_def case_prod_beta quality_wait quality_start quality_stop)

text \<open>The settings are guarded: a codec is accepted exactly when it is 0 or 1, and then reads back; a quality factor is refused exactly
  when it compares less than or equal to zero, and what was accepted reads back. A refused value returns -1 and changes nothing.
  The guard lets a quality factor that is not a number through.\<close>

theorem video_setting_guards:
  "(case jetkvm_video_set_codec_type c v of (r, v') \<Rightarrow>
      (r = 0 \<longleftrightarrow> c = 0 \<or> c = 1) \<and> (if r = 0 then jetkvm_video_get_codec_type v' = c else r = -1 \<and> v' = v)) \<and>
   (case jetkvm_video_set_quality_factor env q v of (r, v') \<Rightarrow>
      (r = 0 \<longleftrightarrow> \<not> le_zero q) \<and> (if r = 0 then jetkvm_video_get_quality_factor v' = q else r = -1 \<and> v' = v)) \<and>
   fst (jetkvm_video_set_quality_factor env Not_a_number v) = 0"
proof -
  have "quality_factor (video_set_quality_factor env q v) = q"
    by (simp add: video_set_quality_factor_def quality_restart)
  then show ?thesis
    by (auto simp: jetkvm_video_set_codec_type_def jetkvm_video_get_codec_type_def video_set_codec_type_def video_get_codec_type_def
        jetkvm_video_set_quality_factor_def jetkvm_video_get_quality_factor_def video_get_quality_factor_def)
qed

end
