(* ===== verification/Native_Main.thy ===== *)
theory Native_Main
  imports Ctrl_Ui Ctrl_Video
begin

text \<open>
  \<^verbatim>\<open>internal/native/cgo/main.c\<close>: the stand-alone daemon. It initialises and starts the video, listens on a Unix socket
  and keeps at most one client. The frame handler of the source has its body commented out, so the client descriptor is
  used by the main loop only.
\<close>

section \<open>Calls and state\<close>

datatype (plugins only: code size) mcall =
    M_unlink string
  | M_socket
  | M_fcntl_getfl int
  | M_fcntl_setfl int
  | M_bind int string
  | M_listen int
  | M_select "int list"
  | M_accept int
  | M_read int
  | M_close int
  | M_errno

text \<open>Return values, and which descriptors a \<^verbatim>\<open>select\<close> reports.\<close>

record main_env =
  mret :: "mcall list \<Rightarrow> int"
  mset_fds :: "mcall list \<Rightarrow> int list"

record daemon =
  client_fd :: int
  dvideo :: video
  dsink :: frame_sink
  dui :: ui
  dcalls :: "mcall list"

definition mdo :: "main_env \<Rightarrow> mcall \<Rightarrow> daemon \<Rightarrow> int \<times> daemon" where
  "mdo env c d = (mret env (c # dcalls d), d\<lparr>dcalls := c # dcalls d\<rparr>)"

definition mrun :: "mcall \<Rightarrow> daemon \<Rightarrow> daemon" where
  "mrun c d = d\<lparr>dcalls := c # dcalls d\<rparr>"

definition SOCKET_PATH :: string where "SOCKET_PATH = ''/tmp/video.sock''"

section \<open>The main loop\<close>

text \<open>A new connection: the previous client, if any, is closed.\<close>

definition accept_client :: "main_env \<Rightarrow> int \<Rightarrow> daemon \<Rightarrow> daemon" where
  "accept_client env server_fd d =
     (case mdo env (M_accept server_fd) d of (accepted_fd, d) \<Rightarrow>
        if accepted_fd \<ge> 0 then
          let d = (if client_fd d \<ge> 0 then mrun (M_close (client_fd d)) d else d) in d\<lparr>client_fd := accepted_fd\<rparr>
        else snd (mdo env M_errno d))"

text \<open>Data or the end of the connection of the client; \<open>isset\<close> is what \<^verbatim>\<open>select\<close> reported.\<close>

definition check_client :: "main_env \<Rightarrow> int list \<Rightarrow> daemon \<Rightarrow> daemon" where
  "check_client env isset d =
     (if client_fd d \<ge> 0 \<and> client_fd d \<in> set isset then
        (case mdo env (M_read (client_fd d)) d of (n, d) \<Rightarrow>
           if n \<le> 0 then (mrun (M_close (client_fd d)) d)\<lparr>client_fd := -1\<rparr> else d)
      else d)"

text \<open>The descriptors \<^verbatim>\<open>select\<close> watches.\<close>

definition watched :: "int \<Rightarrow> daemon \<Rightarrow> int list" where
  "watched server_fd d = server_fd # (if client_fd d \<ge> 0 then [client_fd d] else [])"

text \<open>One iteration; the result says whether the loop goes on.\<close>

definition main_pass :: "main_env \<Rightarrow> int \<Rightarrow> daemon \<Rightarrow> bool \<times> daemon" where
  "main_pass env server_fd d =
     (let fds = watched server_fd d in
      case mdo env (M_select fds) d of (result, d) \<Rightarrow>
        if result < 0 then
          (case mdo env M_errno d of (e, d) \<Rightarrow> (e = EINTR, d))
        else
          let isset = filter (\<lambda>fd. fd \<in> set fds) (mset_fds env (dcalls d));
              d = (if server_fd \<in> set isset then accept_client env server_fd d else d)
          in (True, check_client env isset d))"

partial_function (option) main_loop :: "main_env \<Rightarrow> int \<Rightarrow> daemon \<Rightarrow> daemon option" where
  "main_loop env server_fd d =
     (case main_pass env server_fd d of (go, d) \<Rightarrow> if go then main_loop env server_fd d else Some d)"

section \<open>Start and end\<close>

definition stop_video :: "native_env \<Rightarrow> daemon \<Rightarrow> daemon" where
  "stop_video nenv d = d\<lparr>dvideo := jetkvm_video_shutdown nenv (jetkvm_video_stop nenv (dvideo d))\<rparr>"

definition set_handlers :: "daemon \<Rightarrow> daemon" where
  "set_handlers d = d\<lparr>dui := jetkvm_set_rpc_handler True (jetkvm_set_indev_handler True (jetkvm_set_log_handler True (dui d))),
     dsink := jetkvm_set_video_handler True (dsink d), dvideo := jetkvm_set_video_state_handler True (dvideo d)\<rparr>"

text \<open>A failed step of the set-up: the socket is closed and the video stopped.\<close>

definition give_up :: "native_env \<Rightarrow> int \<Rightarrow> daemon \<Rightarrow> int \<times> daemon" where
  "give_up nenv server_fd d = (1, stop_video nenv (mrun (M_close server_fd) d))"

text \<open>The path \<^verbatim>\<open>bind\<close> gets: \<^verbatim>\<open>sun_path\<close> has 108 characters and keeps a final NUL.\<close>

definition sun_path :: "string \<Rightarrow> string" where
  "sun_path path = cstr (strncpy (replicate 108 NUL) path 107)"

text \<open>The set-up of the socket; \<open>Inl\<close> is the exit code of a failed step, \<open>Inr\<close> the listening descriptor.\<close>

definition open_server :: "main_env \<Rightarrow> native_env \<Rightarrow> string \<Rightarrow> daemon \<Rightarrow> (int + int) \<times> daemon" where
  "open_server env nenv socket_path d =
     (case mdo env M_socket d of (server_fd, d) \<Rightarrow>
        if server_fd < 0 then (Inl 1, stop_video nenv d)
        else case mdo env (M_fcntl_getfl server_fd) d of (flags, d) \<Rightarrow>
          if flags < 0 then (case give_up nenv server_fd d of (r, d) \<Rightarrow> (Inl r, d))
          else case mdo env (M_fcntl_setfl server_fd) d of (r, d) \<Rightarrow>
            if r < 0 then (case give_up nenv server_fd d of (r, d) \<Rightarrow> (Inl r, d))
            else case mdo env (M_bind server_fd (sun_path socket_path)) d of (r, d) \<Rightarrow>
              if r < 0 then (case give_up nenv server_fd d of (r, d) \<Rightarrow> (Inl r, d))
              else case mdo env (M_listen server_fd) d of (r, d) \<Rightarrow>
                if r < 0 then (case give_up nenv server_fd d of (r, d) \<Rightarrow> (Inl r, d))
                else (Inr server_fd, d))"

definition finish :: "native_env \<Rightarrow> int \<Rightarrow> string \<Rightarrow> daemon \<Rightarrow> daemon" where
  "finish nenv server_fd socket_path d =
     (let d = stop_video nenv d;
          d = (if client_fd d \<ge> 0 then (mrun (M_close (client_fd d)) d)\<lparr>client_fd := -1\<rparr> else d)
      in mrun (M_unlink socket_path) (mrun (M_close server_fd) d))"

definition start_video :: "native_env \<Rightarrow> daemon \<Rightarrow> int \<times> daemon" where
  "start_video nenv d =
     (case jetkvm_video_init nenv (Finite 1) (dvideo d) of (r, v) \<Rightarrow>
        if r \<noteq> 0 then (r, d\<lparr>dvideo := v\<rparr>) else (0, d\<lparr>dvideo := jetkvm_video_start nenv v\<rparr>))"

text \<open>\<^verbatim>\<open>main\<close>; \<open>args\<close> are the arguments after the program name.\<close>

definition native_main :: "main_env \<Rightarrow> native_env \<Rightarrow> string list \<Rightarrow> daemon \<Rightarrow> (int \<times> daemon) option" where
  "native_main env nenv args d =
     (let socket_path = (case args of [] \<Rightarrow> SOCKET_PATH | a # _ \<Rightarrow> a);
          d = set_handlers (mrun (M_unlink socket_path) d)
      in case start_video nenv d of (r, d) \<Rightarrow>
           if r \<noteq> 0 then Some (1, d)
           else (case open_server env nenv socket_path d of
                   (Inl r, d) \<Rightarrow> Some (r, d)
                 | (Inr server_fd, d) \<Rightarrow> map_option (\<lambda>d. (0, finish nenv server_fd socket_path d)) (main_loop env server_fd d)))"

end
