(* ===== verification/Native_Main_Props.thy ===== *)
theory Native_Main_Props
  imports Native_Main
begin

text \<open>
  The descriptors of the daemon: while it serves it holds the listening socket and at most one client, and when it
  returns it holds none.
\<close>

section \<open>Descriptors\<close>

fun mopen :: "main_env \<Rightarrow> mcall list \<Rightarrow> int list" where
  "mopen env [] = []"
| "mopen env (c # h) = (case c of
       M_socket \<Rightarrow> if mret env (c # h) < 0 then mopen env h else mret env (c # h) # mopen env h
     | M_accept s \<Rightarrow> if mret env (c # h) < 0 then mopen env h else mret env (c # h) # mopen env h
     | M_close fd \<Rightarrow> remove1 fd (mopen env h)
     | _ \<Rightarrow> mopen env h)"

definition held :: "int \<Rightarrow> daemon \<Rightarrow> int list" where
  "held server_fd d = (if client_fd d \<ge> 0 then [client_fd d] else []) @ [server_fd]"

definition serving :: "main_env \<Rightarrow> int \<Rightarrow> daemon \<Rightarrow> bool" where
  "serving env server_fd d \<longleftrightarrow> mopen env (dcalls d) = held server_fd d"

lemma accept_serving: "serving env s d \<Longrightarrow> serving env s (accept_client env s d)"
  by (simp add: accept_client_def serving_def held_def mdo_def mrun_def Let_def)

lemma check_serving: "serving env s d \<Longrightarrow> serving env s (check_client env isset d)"
  by (simp add: check_client_def serving_def held_def mdo_def mrun_def)

lemma pass_serving: "serving env s d \<Longrightarrow> serving env s (snd (main_pass env s d))"
proof -
  assume i: "serving env s d"
  have "serving env s (d\<lparr>dcalls := M_select fds # dcalls d\<rparr>)" "serving env s (d\<lparr>dcalls := M_errno # M_select fds # dcalls d\<rparr>)" for fds
    using i by (simp_all add: serving_def held_def)
  then show ?thesis by (simp add: main_pass_def mdo_def Let_def accept_serving check_serving)
qed

text \<open>A pass as a step of a transition system.\<close>

definition pass_step :: "main_env \<Rightarrow> int \<Rightarrow> daemon \<Rightarrow> daemon \<Rightarrow> bool" where
  "pass_step env s d d' \<longleftrightarrow> main_pass env s d = (True, d')"

interpretation daemon_loop: invariant_system "serving env s" "pass_step env s" "serving env s" for env s
proof
  fix d d'
  assume "serving env s d" "pass_step env s d d'"
  with pass_serving [of env s d] show "serving env s d'" by (simp add: pass_step_def)
qed

section \<open>Returning\<close>

lemma main_loop_returns:
  "(pass_step env s)\<^sup>*\<^sup>* d e \<Longrightarrow> main_pass env s e = (False, d') \<Longrightarrow> main_loop env s d = Some d'"
proof (induction rule: converse_rtranclp_induct)
  case base
  then show ?case by (simp add: main_loop.simps)
next
  case (step y z)
  then show ?case by (simp add: main_loop.simps [of env s y] pass_step_def)
qed

lemma main_loop_serving:
  assumes "main_loop env s d = Some d'" "serving env s d"
  shows "serving env s d'"
proof -
  have "serving env s d \<longrightarrow> serving env s d'"
  proof (rule main_loop.raw_induct [where P = "\<lambda>env s d d'. serving env s d \<longrightarrow> serving env s d'", OF _ assms(1)], goal_cases)
    case (1 loop env s d d')
    then show ?case using pass_serving [of env s d] by (auto split: prod.splits if_splits)
  qed
  with assms(2) show ?thesis by blast
qed

lemma stop_video_frame [simp]: "dcalls (stop_video nenv d) = dcalls d" "client_fd (stop_video nenv d) = client_fd d"
  by (simp_all add: stop_video_def)

lemma finish_closes: "serving env s d \<Longrightarrow> mopen env (dcalls (finish nenv s path d)) = []"
  by (simp add: finish_def serving_def held_def mrun_def Let_def)

lemma open_server_fds:
  assumes "mopen env (dcalls d) = []" "client_fd d < 0"
  shows "case open_server env nenv path d of (Inl r, d') \<Rightarrow> r = 1 \<and> mopen env (dcalls d') = []
    | (Inr s, d') \<Rightarrow> s \<ge> 0 \<and> serving env s d'"
  using assms
  by (simp add: open_server_def mdo_def mrun_def give_up_def serving_def held_def)

lemma start_frame: "dcalls (snd (start_video nenv d)) = dcalls d" "client_fd (snd (start_video nenv d)) = client_fd d"
  by (simp_all add: start_video_def split: prod.split)

lemma handlers_frame: "dcalls (set_handlers (mrun c d)) = c # dcalls d" "client_fd (set_handlers (mrun c d)) = client_fd d"
  by (simp_all add: set_handlers_def mrun_def)

section \<open>Stated properties\<close>

text \<open>C29: The daemon leaks no descriptor: whenever it returns, on success or after any failed step of its set-up, every
  socket it opened or accepted is closed again, the exit code is 0 or 1.\<close>

theorem native_main_closes:
  assumes "mopen env (dcalls d) = []" "client_fd d < 0" "native_main env nenv args d = Some (r, d')"
  shows "mopen env (dcalls d') = [] \<and> (r = 0 \<or> r = 1)"
proof -
  let ?p = "case args of [] \<Rightarrow> SOCKET_PATH | a # _ \<Rightarrow> a"
  obtain x e where e: "start_video nenv (set_handlers (mrun (M_unlink ?p) d)) = (x, e)" by fastforce
  have f: "mopen env (dcalls e) = []" "client_fd e < 0"
    using start_frame [of nenv "set_handlers (mrun (M_unlink ?p) d)"] handlers_frame [of "M_unlink ?p" d] e assms(1,2) by simp_all
  note o = open_server_fds [OF f, of nenv ?p]
  show ?thesis
  proof (cases "x = 0")
    case False
    then show ?thesis using assms(3) e f by (simp add: native_main_def Let_def)
  next
    case True
    obtain y g where g: "open_server env nenv ?p e = (y, g)" by fastforce
    show ?thesis
    proof (cases y)
      case (Inl c)
      then show ?thesis using o assms(3) e g True by (simp add: native_main_def Let_def)
    next
      case (Inr s)
      then have s: "serving env s g" using o g by simp
      have "map_option (\<lambda>d. (0, finish nenv s ?p d)) (main_loop env s g) = Some (r, d')"
        using assms(3) e g True Inr by (simp add: native_main_def Let_def)
      then obtain k where k: "main_loop env s g = Some k" "r = 0" "d' = finish nenv s ?p k" by auto
      from main_loop_serving [OF k(1) s] k(2,3) show ?thesis by (simp add: finish_closes)
    qed
  qed
qed

text \<open>A system on which the set-up succeeds and the first \<^verbatim>\<open>select\<close> fails.\<close>

definition one_pass_env :: main_env where
  "one_pass_env = \<lparr>mret = (\<lambda>h. case h of M_socket # _ \<Rightarrow> 3 | M_select _ # _ \<Rightarrow> -1 | M_errno # _ \<Rightarrow> EIO | _ \<Rightarrow> 0),
     mset_fds = (\<lambda>_. [])\<rparr>"

definition daemon_init :: daemon where
  "daemon_init = \<lparr>client_fd = -1, dvideo = video_globals, dsink = \<lparr>video_handler = False, frames = [], sink_log = logger_init\<rparr>,
     dui = ui_globals, dcalls = []\<rparr>"

lemma one_pass_loop: "main_loop one_pass_env 3 d \<noteq> None"
proof -
  have "main_pass one_pass_env 3 d = (False, snd (main_pass one_pass_env 3 d))"
    by (simp add: main_pass_def mdo_def one_pass_env_def EIO_def EINTR_def Let_def)
  then have "main_loop one_pass_env 3 d = Some (snd (main_pass one_pass_env 3 d))"
    by (rule main_loop_returns [OF rtranclp.rtrancl_refl])
  then show ?thesis by simp
qed

lemma one_pass_main: "\<exists>r d'. native_main one_pass_env nenv [] daemon_init = Some (r, d')"
proof -
  obtain x e where e: "start_video nenv (set_handlers (mrun (M_unlink SOCKET_PATH) daemon_init)) = (x, e)" by fastforce
  have o: "\<exists>g. open_server one_pass_env nenv SOCKET_PATH e = (Inr 3, g)"
    by (simp add: open_server_def mdo_def one_pass_env_def)
  show ?thesis using o one_pass_loop by (auto simp: native_main_def Let_def e)
qed

theorem native_main_closes_witness:
  "\<exists>r d'. native_main one_pass_env calm_env [] daemon_init = Some (r, d') \<and> mopen one_pass_env (dcalls d') = []"
proof -
  obtain r d' where m: "native_main one_pass_env calm_env [] daemon_init = Some (r, d')" using one_pass_main by blast
  have "mopen one_pass_env (dcalls daemon_init) = []" "client_fd daemon_init < 0" by (simp_all add: daemon_init_def)
  from native_main_closes [OF this m] m show ?thesis by blast
qed

text \<open>C30: While it serves, the daemon holds its listening socket and at most one client, in every state its loop reaches; and it
  does return: as soon as a \<^verbatim>\<open>select\<close> fails for another reason than an interruption, the loop ends with the same descriptors held.\<close>

theorem daemon_serves:
  assumes "serving env s d" "(pass_step env s)\<^sup>*\<^sup>* d e"
  shows "mopen env (dcalls e) = held s e \<and> length (mopen env (dcalls e)) \<le> 2 \<and>
    (mret env (M_select (watched s e) # dcalls e) < 0 \<and>
     mret env (M_errno # M_select (watched s e) # dcalls e) \<noteq> EINTR \<longrightarrow>
       (\<exists>d'. main_loop env s d = Some d' \<and> mopen env (dcalls d') = held s d'))"
proof -
  have i: "serving env s e" using assms by (rule daemon_loop.inv_steps)
  have "\<exists>d'. main_loop env s d = Some d' \<and> serving env s d'"
    if "mret env (M_select (watched s e) # dcalls e) < 0"
      "mret env (M_errno # M_select (watched s e) # dcalls e) \<noteq> EINTR"
  proof -
    have "fst (main_pass env s e) = False" using that by (simp add: main_pass_def mdo_def Let_def)
    then obtain d' where d': "main_pass env s e = (False, d')" by (metis prod.collapse)
    have "serving env s d'" using pass_serving [OF i] d' by simp
    then show ?thesis using main_loop_returns [OF assms(2) d'] by blast
  qed
  then show ?thesis using i by (auto simp: serving_def held_def)
qed

theorem daemon_serves_witness:
  "\<exists>d'. main_loop one_pass_env 3 (daemon_init\<lparr>dcalls := [M_socket]\<rparr>) = Some d' \<and> mopen one_pass_env (dcalls d') = held 3 d'"
proof -
  let ?d = "daemon_init\<lparr>dcalls := [M_socket]\<rparr>"
  have "serving one_pass_env 3 ?d" by (simp add: serving_def held_def daemon_init_def one_pass_env_def)
  from daemon_serves [OF this rtranclp.rtrancl_refl] show ?thesis
    by (simp add: one_pass_env_def daemon_init_def EIO_def EINTR_def)
qed

end
